(* ===== verification/Prelude.thy ===== *)
theory Prelude
  imports Main "HOL-Library.Word" "HOL-Library.State_Monad"
begin

text \<open>
  Shared vocabulary of the development: Go's fixed-width integers and strings, decimal and
  hexadecimal text (\<open>fmt.Sprintf("%d")\<close>, \<open>encoding/hex\<close>), base64 as \<open>encoding/json\<close> applies it
  to byte slices, checked slice access with Go's panic as a value, and the generic lemmas the
  component theories share.
\<close>

unbundle bit_operations_syntax

named_theorems go_simps \<open>unfolding rules for the sequential Go idioms of the model\<close>
named_theorems codec \<open>decoder after encoder equations\<close>
named_theorems store_laws \<open>consequences of the key-value store contract\<close>

type_synonym byte = "8 word"
type_synonym bytes = "byte list"
type_synonym uint8 = "8 word"
type_synonym uint16 = "16 word"
type_synonym uint32 = "32 word"
type_synonym uint64 = "64 word"
type_synonym int32 = "32 word"
type_synonym int64 = "64 word"

lemma sint_of_small: "uint (w :: int64) < 2 ^ 63 \<Longrightarrow> sint w = uint w"
  using signed_take_bit_int_eq_self_iff [of 63 "uint w"] unsigned_greater_eq [where 'a = int, of w]
  by (simp add: sint_uint)

section \<open>Results with panics\<close>

text \<open>
  A Go function of type \<open>(T, error)\<close> returns, fails with an error value or panics (an index or a
  slice bound out of range).  \<open>'e\<close> is the error type of the component.
\<close>

datatype ('e, 'a) res = Ok (the_ok: 'a) | Error 'e | Panic

definition rbind :: "('e, 'a) res \<Rightarrow> ('a \<Rightarrow> ('e, 'b) res) \<Rightarrow> ('e, 'b) res" where
  "rbind m f = (case m of Ok a \<Rightarrow> f a | Error e \<Rightarrow> Error e | Panic \<Rightarrow> Panic)"

lemma rbind_simps [simp, go_simps]:
  "rbind (Ok a) f = f a"
  "rbind (Error e) f = Error e"
  "rbind Panic f = Panic"
  by (simp_all add: rbind_def)

lemma rbind_cong [fundef_cong]:
  "m = m' \<Longrightarrow> (\<And>a. m' = Ok a \<Longrightarrow> f a = g a) \<Longrightarrow> rbind m f = rbind m' g"
  by (cases m') simp_all

lemma rbind_eq_Ok: "rbind m f = Ok b \<longleftrightarrow> (\<exists>a. m = Ok a \<and> f a = Ok b)"
  by (cases m) auto

lemma rbind_eq_Panic: "rbind m f = Panic \<longleftrightarrow> m = Panic \<or> (\<exists>a. m = Ok a \<and> f a = Panic)"
  by (cases m) auto

lemma rbind_neq_Panic:
  "m \<noteq> Panic \<Longrightarrow> (\<And>a. m = Ok a \<Longrightarrow> f a \<noteq> Panic) \<Longrightarrow> rbind m f \<noteq> Panic"
  by (cases m) auto

text \<open>\<open>s[i]\<close> and \<open>s[a:b]\<close>; a slice's capacity is taken to be its length.\<close>

definition idx :: "'a list \<Rightarrow> nat \<Rightarrow> ('e, 'a) res" where
  "idx xs i = (if i < length xs then Ok (xs ! i) else Panic)"

definition slice :: "'a list \<Rightarrow> nat \<Rightarrow> nat \<Rightarrow> ('e, 'a list) res" where
  "slice xs a b = (if a \<le> b \<and> b \<le> length xs then Ok (take (b - a) (drop a xs)) else Panic)"

lemma idx_in [simp]: "i < length xs \<Longrightarrow> idx xs i = Ok (xs ! i)"
  by (simp add: idx_def)

lemma slice_in [simp]: "a \<le> b \<Longrightarrow> b \<le> length xs \<Longrightarrow> slice xs a b = Ok (take (b - a) (drop a xs))"
  by (simp add: slice_def)

lemma idx_not_Error [simp]: "idx xs i \<noteq> Error e"
  by (simp add: idx_def)

section \<open>Characters, bytes and text\<close>

definition byte_of_char :: "char \<Rightarrow> byte" where
  "byte_of_char c = of_nat (of_char c)"

definition char_of_byte :: "byte \<Rightarrow> char" where
  "char_of_byte b = char_of (unat b)"

text \<open>Go's conversions \<open>[]byte(s)\<close> and \<open>string(bs)\<close>.\<close>

definition bytes_of :: "string \<Rightarrow> bytes" where
  "bytes_of s = map byte_of_char s"

definition string_of :: "bytes \<Rightarrow> string" where
  "string_of bs = map char_of_byte bs"

lemma byte_char_inverse [simp]: "char_of_byte (byte_of_char c) = c"
proof -
  have "of_char c < (256 :: nat)" by (metis of_char_mod_256 mod_less_divisor zero_less_numeral)
  then show ?thesis
    by (simp add: byte_of_char_def char_of_byte_def unat_of_nat)
qed

lemma char_byte_inverse [simp]: "byte_of_char (char_of_byte b) = b"
proof -
  have "unat b < 256" using unsigned_less [of b] by simp
  then show ?thesis by (simp add: byte_of_char_def char_of_byte_def)
qed

lemma string_of_bytes_of [simp]: "string_of (bytes_of s) = s"
  by (simp add: string_of_def bytes_of_def comp_def)

lemma bytes_of_string_of [simp]: "bytes_of (string_of bs) = bs"
  by (simp add: string_of_def bytes_of_def comp_def)

lemma length_bytes_of [simp]: "length (bytes_of s) = length s"
  by (simp add: bytes_of_def)

lemma length_string_of [simp]: "length (string_of bs) = length bs"
  by (simp add: string_of_def)

section \<open>Decimal text\<close>

definition digit :: "nat \<Rightarrow> char" where
  "digit n = char_of (48 + n)"

definition is_digit :: "char \<Rightarrow> bool" where
  "is_digit c \<longleftrightarrow> 48 \<le> (of_char c :: nat) \<and> (of_char c :: nat) \<le> 57"

definition digit_val :: "char \<Rightarrow> nat" where
  "digit_val c = of_char c - 48"

text \<open>\<open>fmt.Sprintf("%d", n)\<close> for an unsigned and a signed integer.\<close>

fun show_nat :: "nat \<Rightarrow> string" where
  "show_nat n = (if n < 10 then [digit n] else show_nat (n div 10) @ [digit (n mod 10)])"

declare show_nat.simps [simp del]

definition show_int :: "int \<Rightarrow> string" where
  "show_int i = (if i < 0 then ''-'' @ show_nat (nat (- i)) else show_nat (nat i))"

definition read_nat :: "string \<Rightarrow> nat" where
  "read_nat s = foldl (\<lambda>v c. 10 * v + digit_val c) 0 s"

lemma digit_chars:
  "digit 0 = CHR ''0''" "digit 1 = CHR ''1''" "digit 2 = CHR ''2''" "digit 3 = CHR ''3''"
  "digit 4 = CHR ''4''" "digit 5 = CHR ''5''" "digit 6 = CHR ''6''" "digit 7 = CHR ''7''"
  "digit 8 = CHR ''8''" "digit 9 = CHR ''9''"
  "digit (Suc 0) = CHR ''1''"
  by code_simp+

lemma of_char_digit: "n < 10 \<Longrightarrow> of_char (digit n) = 48 + n"
  by (simp add: digit_def of_char_of)

lemma digit_props [simp]:
  "n < 10 \<Longrightarrow> is_digit (digit n)"
  "n < 10 \<Longrightarrow> digit_val (digit n) = n"
  by (simp_all add: is_digit_def digit_val_def of_char_digit)

lemma show_nat_digits: "\<forall>c \<in> set (show_nat n). is_digit c"
proof (induction n rule: show_nat.induct)
  case (1 n)
  then show ?case by (cases "n < 10") (simp_all add: show_nat.simps [of n])
qed

lemma show_nat_nonempty [simp]: "show_nat n \<noteq> []"
  by (subst show_nat.simps) simp

lemma read_show_nat [simp, codec]: "read_nat (show_nat n) = n"
proof (induction n rule: show_nat.induct)
  case (1 n)
  then show ?case
    by (cases "n < 10") (simp_all add: show_nat.simps [of n] read_nat_def)
qed

lemma show_nat_inject [simp]: "show_nat m = show_nat n \<longleftrightarrow> m = n"
  by (metis read_show_nat)

lemma minus_not_digit: "\<not> is_digit (CHR ''-'')"
  by (simp add: is_digit_def)

lemma show_nat_no_minus: "CHR ''-'' \<notin> set (show_nat n)"
  using show_nat_digits [of n] minus_not_digit by blast

lemma show_int_inject [simp]: "show_int i = show_int j \<longleftrightarrow> i = j"
proof -
  have "show_nat m \<noteq> CHR ''-'' # s" for m s
    using show_nat_no_minus [of m] by (metis list.set_intros(1))
  then show ?thesis
    by (auto simp: show_int_def) (metis (no_types))+
qed

section \<open>Time\<close>

text \<open>The zero value of \<open>time.Time\<close> (1 January of the year 1), in nanoseconds since the epoch.\<close>

definition zero_time :: int where
  "zero_time = - 62135596800000000000"

text \<open>\<open>now.Sub(start)\<close> in nanoseconds; the difference saturates at the ends of \<open>int64\<close>.\<close>

definition time_Since :: "int \<Rightarrow> int \<Rightarrow> int" where
  "time_Since now start = max (- (2 ^ 63)) (min (2 ^ 63 - 1) (now - start))"

end
