(* ===== verification/Encodings.thy ===== *)
theory Encodings
  imports Prelude
begin

text \<open>
  The text encodings the program takes from Go's standard library: \<open>encoding/hex\<close> (RES*, RAND,
  AUTN, KAUSF and NAS messages travel as hex text), base64 (how \<open>encoding/json\<close> writes a byte slice),
  big-endian 16 and 32 bit numbers, \<open>strings.Split\<close>, \<open>strings.Contains\<close> and \<open>fmt.Sscanf("%d")\<close>.
  Each decoder is proved to invert its encoder.
\<close>

section \<open>Searching an alphabet\<close>

definition position :: "'a list \<Rightarrow> 'a \<Rightarrow> nat option" where
  "position xs c = (let i = length (takeWhile (\<lambda>x. x \<noteq> c) xs) in
     if i < length xs then Some i else None)"

lemma position_nth:
  assumes "distinct xs" "i < length xs"
  shows "position xs (xs ! i) = Some i"
proof -
  have "length (takeWhile (\<lambda>x. x \<noteq> xs ! i) xs) = i"
    using assms
  proof (induction xs arbitrary: i)
    case (Cons y ys)
    then show ?case by (cases i) auto
  qed simp
  with assms(2) show ?thesis by (simp add: position_def)
qed

section \<open>Hexadecimal\<close>

definition hex_alphabet :: string where
  "hex_alphabet = ''0123456789abcdef''"

definition hex_digit :: "nat \<Rightarrow> char" where
  "hex_digit n = hex_alphabet ! n"

text \<open>The decoder also accepts upper-case digits.\<close>

definition hex_val :: "char \<Rightarrow> nat option" where
  "hex_val c = (case position hex_alphabet c of Some n \<Rightarrow> Some n
     | None \<Rightarrow> map_option (\<lambda>n. n + 10) (position ''ABCDEF'' c))"

definition hex_byte :: "byte \<Rightarrow> string" where
  "hex_byte b = [hex_digit (unat b div 16), hex_digit (unat b mod 16)]"

text \<open>\<open>hex.EncodeToString\<close>.\<close>

definition hex_encode :: "bytes \<Rightarrow> string" where
  "hex_encode bs = concat (map hex_byte bs)"

text \<open>\<open>hex.DecodeString\<close>: the bytes before the first error, and whether there was none.\<close>

fun hex_decode :: "string \<Rightarrow> bytes \<times> bool" where
  "hex_decode [] = ([], True)"
| "hex_decode [c] = ([], False)"
| "hex_decode (c # d # cs) =
     (case (hex_val c, hex_val d) of
        (Some a, Some b) \<Rightarrow> (let (bs, ok) = hex_decode cs in (of_nat (16 * a + b) # bs, ok))
      | _ \<Rightarrow> ([], False))"

lemma hex_val_digit [simp]:
  assumes "n < 16" shows "hex_val (hex_digit n) = Some n"
proof -
  have "distinct hex_alphabet" and "length hex_alphabet = 16"
    by (simp_all add: hex_alphabet_def)
  with assms show ?thesis by (simp add: hex_val_def hex_digit_def position_nth)
qed

lemma unat_byte_lt [simp]: "unat (b :: byte) < 256"
  using unsigned_less [of b] by simp

lemma unat_byte_parts [simp]:
  "unat (b :: byte) div 16 < 16"
  "unat (b :: byte) mod 16 < 16"
  "(word_of_nat (16 * (unat b div 16) + unat b mod 16) :: byte) = b"
proof -
  have "unat b < 16 * 16" using unat_byte_lt [of b] by simp
  then show "unat b div 16 < 16" by (rule less_mult_imp_div_less)
qed simp_all

lemma hex_decode_byte [simp]:
  "hex_decode (hex_byte b @ cs) = (let (bs, ok) = hex_decode cs in (b # bs, ok))"
  by (simp only: hex_byte_def append_Cons append_Nil hex_decode.simps hex_val_digit
      unat_byte_parts prod.case option.case)

lemma hex_decode_encode [simp, codec]: "hex_decode (hex_encode bs) = (bs, True)"
  by (induction bs) (simp_all add: hex_encode_def)

lemma hex_encode_empty [simp]: "hex_encode bs = [] \<longleftrightarrow> bs = []"
  by (cases bs) (simp_all add: hex_encode_def hex_byte_def)

lemma length_hex_encode [simp]: "length (hex_encode bs) = 2 * length bs"
  by (induction bs) (simp_all add: hex_encode_def hex_byte_def)

lemma hex_encode_inject [simp]: "hex_encode a = hex_encode b \<longleftrightarrow> a = b"
  by (metis hex_decode_encode prod.inject)

section \<open>Base64\<close>

definition b64_alphabet :: string where
  "b64_alphabet = ''ABCDEFGHIJKLMNOPQRSTUVWXYZabcdefghijklmnopqrstuvwxyz0123456789+/''"

definition b64_char :: "nat \<Rightarrow> char" where
  "b64_char n = b64_alphabet ! n"

definition b64_val :: "char \<Rightarrow> nat option" where
  "b64_val c = position b64_alphabet c"

text \<open>Three bytes as four sextets, and back.\<close>

definition sextet1 :: "byte \<Rightarrow> nat" where
  "sextet1 a = unat a div 4"

definition sextet2 :: "byte \<Rightarrow> byte \<Rightarrow> nat" where
  "sextet2 a b = unat a mod 4 * 16 + unat b div 16"

definition sextet3 :: "byte \<Rightarrow> byte \<Rightarrow> nat" where
  "sextet3 b c = unat b mod 16 * 4 + unat c div 64"

definition sextet4 :: "byte \<Rightarrow> nat" where
  "sextet4 c = unat c mod 64"

definition octet1 :: "nat \<Rightarrow> nat \<Rightarrow> byte" where
  "octet1 p q = of_nat (p * 4 + q div 16)"

definition octet2 :: "nat \<Rightarrow> nat \<Rightarrow> byte" where
  "octet2 q r = of_nat (q mod 16 * 16 + r div 4)"

definition octet3 :: "nat \<Rightarrow> nat \<Rightarrow> byte" where
  "octet3 r s = of_nat (r mod 4 * 64 + s)"

text \<open>\<open>base64.StdEncoding\<close>, three bytes to four characters with \<open>=\<close> padding.\<close>

fun b64_encode :: "bytes \<Rightarrow> string" where
  "b64_encode [] = []"
| "b64_encode [a] = [b64_char (sextet1 a), b64_char (sextet2 a 0), CHR ''='', CHR ''='']"
| "b64_encode [a, b] =
     [b64_char (sextet1 a), b64_char (sextet2 a b), b64_char (sextet3 b 0), CHR ''='']"
| "b64_encode (a # b # c # bs) =
     [b64_char (sextet1 a), b64_char (sextet2 a b), b64_char (sextet3 b c), b64_char (sextet4 c)]
     @ b64_encode bs"

fun b64_quads :: "string \<Rightarrow> bytes option" where
  "b64_quads [] = Some []"
| "b64_quads (w # x # y # z # cs) =
     (case (b64_val w, b64_val x, b64_val y, b64_val z) of
        (Some p, Some q, Some r, Some s) \<Rightarrow>
          map_option ((@) [octet1 p q, octet2 q r, octet3 r s]) (b64_quads cs)
      | (Some p, Some q, Some r, None) \<Rightarrow>
          if z = CHR ''='' \<and> cs = [] then Some [octet1 p q, octet2 q r] else None
      | (Some p, Some q, None, None) \<Rightarrow>
          if y = CHR ''='' \<and> z = CHR ''='' \<and> cs = [] then Some [octet1 p q] else None
      | _ \<Rightarrow> None)"
| "b64_quads _ = None"

text \<open>Line breaks inside the text are skipped.\<close>

definition b64_decode :: "string \<Rightarrow> bytes option" where
  "b64_decode s = b64_quads (filter (\<lambda>c. c \<noteq> CHR 0x0A \<and> c \<noteq> CHR 0x0D) s)"

lemma b64_alphabet_facts: "distinct b64_alphabet" "length b64_alphabet = 64"
  by (simp_all add: b64_alphabet_def)

lemma b64_val_char [simp]: "n < 64 \<Longrightarrow> b64_val (b64_char n) = Some n"
  by (simp add: b64_val_def b64_char_def position_nth b64_alphabet_facts)

lemma b64_val_pad [simp]: "b64_val (CHR ''='') = None"
  by (simp add: b64_val_def position_def b64_alphabet_def)

lemma b64_char_no_break [simp]:
  assumes "n < 64" shows "b64_char n \<noteq> CHR 0x0A" "b64_char n \<noteq> CHR 0x0D"
proof -
  have "b64_val (CHR 0x0A) = None" and "b64_val (CHR 0x0D) = None"
    by (simp_all add: b64_val_def position_def b64_alphabet_def)
  with assms show "b64_char n \<noteq> CHR 0x0A" "b64_char n \<noteq> CHR 0x0D"
    by (metis b64_val_char option.distinct(1))+
qed

lemma sextet_bounds [simp]: "sextet1 a < 64" "sextet2 a b < 64" "sextet3 b c < 64" "sextet4 c < 64"
  using unat_byte_lt [of a] unat_byte_lt [of b] unat_byte_lt [of c] less_mult_imp_div_less [of "unat a" 64 4]
    less_mult_imp_div_less [of "unat b" 16 16] less_mult_imp_div_less [of "unat c" 4 64]
    mod_less_divisor [of 4 "unat a"] mod_less_divisor [of 16 "unat b"]
  unfolding sextet1_def sextet2_def sextet3_def sextet4_def by linarith+

lemma octet1_sextets [simp]: "octet1 (sextet1 a) (sextet2 a b) = a"
proof -
  have "unat b div 16 div 16 = 0" using unat_byte_lt [of b] by (simp add: div_mult2_eq [symmetric])
  then have "unat a div 4 * 4 + (unat a mod 4 * 16 + unat b div 16) div 16 = unat a" by simp
  then show ?thesis by (simp only: octet1_def sextet1_def sextet2_def of_nat_unat ucast_id)
qed

lemma octet2_sextets [simp]: "octet2 (sextet2 a b) (sextet3 b c) = b"
proof -
  have "unat c div 64 div 4 = 0" "unat b div 16 mod 16 = unat b div 16"
    using unat_byte_lt [of c] less_mult_imp_div_less [of "unat b" 16 16] unat_byte_lt [of b]
    by (simp_all add: div_mult2_eq [symmetric])
  then have "(unat a mod 4 * 16 + unat b div 16) mod 16 * 16
      + (unat b mod 16 * 4 + unat c div 64) div 4 = unat b" by simp
  then show ?thesis by (simp only: octet2_def sextet2_def sextet3_def of_nat_unat ucast_id)
qed

lemma octet3_sextets [simp]: "octet3 (sextet3 b c) (sextet4 c) = c"
proof -
  have "unat c div 64 mod 4 = unat c div 64"
    using unat_byte_lt [of c] less_mult_imp_div_less [of "unat c" 4 64] by simp
  then have "(unat b mod 16 * 4 + unat c div 64) mod 4 * 64 + unat c mod 64 = unat c" by simp
  then show ?thesis by (simp only: octet3_def sextet3_def sextet4_def of_nat_unat ucast_id)
qed

lemma b64_encode_no_break:
  "filter (\<lambda>c. c \<noteq> CHR 0x0A \<and> c \<noteq> CHR 0x0D) (b64_encode bs) = b64_encode bs"
  by (induction bs rule: b64_encode.induct) simp_all

lemma b64_quads_encode: "b64_quads (b64_encode bs) = Some bs"
  by (induction bs rule: b64_encode.induct) simp_all

lemma b64_decode_encode [simp, codec]: "b64_decode (b64_encode bs) = Some bs"
  by (simp add: b64_decode_def b64_encode_no_break b64_quads_encode)

section \<open>Big-endian numbers\<close>

text \<open>\<open>binary.BigEndian.Uint16\<close> of two bytes, as the \<open>int\<close> the decoders convert it to.\<close>

definition be16 :: "byte \<Rightarrow> byte \<Rightarrow> nat" where
  "be16 hi lo = unat hi * 256 + unat lo"

text \<open>\<open>byte(n>>8), byte(n)\<close> of a length.\<close>

definition put_be16 :: "nat \<Rightarrow> bytes" where
  "put_be16 n = [of_nat (n div 256), of_nat n]"

lemma be16_put [simp, codec]:
  assumes "n < 65536"
  shows "be16 (of_nat (n div 256)) (of_nat n) = n"
proof -
  have "unat (of_nat (n div 256) :: byte) = n div 256"
    using assms by (simp add: unat_of_nat)
  moreover have "unat (of_nat n :: byte) = n mod 256"
    by (simp add: unat_of_nat)
  ultimately show ?thesis by (simp add: be16_def)
qed

text \<open>\<open>binary.BigEndian.PutUint32\<close>.\<close>

definition put_be32 :: "uint32 \<Rightarrow> bytes" where
  "put_be32 w = [ucast (drop_bit 24 w), ucast (drop_bit 16 w), ucast (drop_bit 8 w), ucast w]"

section \<open>Strings\<close>

text \<open>\<open>strings.Split(s, sep)\<close> for a one-character separator.\<close>

fun split_on :: "char \<Rightarrow> string \<Rightarrow> string list" where
  "split_on c [] = [[]]"
| "split_on c (x # xs) =
     (if x = c then [] # split_on c xs
      else (case split_on c xs of w # ws \<Rightarrow> (x # w) # ws | [] \<Rightarrow> [[x]]))"

lemma split_on_nonempty [simp]: "split_on c s \<noteq> []"
  by (induction s) (auto split: list.splits)

lemma split_on_no_sep: "c \<notin> set s \<Longrightarrow> split_on c s = [s]"
  by (induction s) auto

lemma split_on_append:
  "split_on c (s @ c # t) = split_on c s @ split_on c t"
  by (induction s) (auto split: list.splits)

lemma last_split_on: "c \<notin> set t \<Longrightarrow> last (split_on c (s @ c # t)) = t"
  by (simp add: split_on_append split_on_no_sep)

text \<open>\<open>strings.Contains(s, t)\<close>.\<close>

fun contains :: "string \<Rightarrow> string \<Rightarrow> bool" where
  "contains [] t \<longleftrightarrow> t = []"
| "contains (x # xs) t \<longleftrightarrow> take (length t) (x # xs) = t \<or> contains xs t"

lemma contains_suffix: "contains (s @ t) t"
proof (induction s)
  case Nil
  then show ?case by (cases t) simp_all
qed simp

text \<open>
  \<open>fmt.Sscanf(s, "%d", &v)\<close> into a \<open>uint64\<close> that is 0 beforehand: leading blanks are skipped,
  then decimal digits are read; without a digit, or above \<open>2^64 - 1\<close>, the scan fails and
  the variable keeps its 0.
\<close>

definition is_blank :: "char \<Rightarrow> bool" where
  "is_blank c \<longleftrightarrow> (of_char c :: nat) \<in> {9, 11, 12, 13, 32}"

definition sscanf_uint64 :: "string \<Rightarrow> uint64" where
  "sscanf_uint64 s = (let ds = takeWhile is_digit (dropWhile is_blank s); n = read_nat ds in
     if ds = [] \<or> 2 ^ 64 \<le> n then 0 else of_nat n)"

lemma digit_not_blank: "is_digit c \<Longrightarrow> \<not> is_blank c"
  by (auto simp: is_digit_def is_blank_def)

lemma unat_less_64: "unat (w :: uint64) < 2 ^ 64"
  using unsigned_less [where 'a = nat, of w] by simp

lemma sscanf_show [simp, codec]: "sscanf_uint64 (show_nat (unat w)) = w"
proof -
  let ?s = "show_nat (unat w)"
  have ds: "\<forall>c \<in> set ?s. is_digit c" by (rule show_nat_digits)
  have "dropWhile is_blank ?s = ?s"
    using ds digit_not_blank by (cases ?s) auto
  moreover have "takeWhile is_digit ?s = ?s"
    using ds by (simp only: takeWhile_eq_all_conv)
  moreover have "\<not> 2 ^ 64 \<le> unat w" using unat_less_64 [of w] by simp
  ultimately show ?thesis by (simp only: sscanf_uint64_def Let_def read_show_nat
      show_nat_nonempty if_False of_nat_unat ucast_id simp_thms)
qed

end
