(* ===== verification/TimeText.thy ===== *)
theory TimeText
  imports Prelude "HOL-Library.Monad_Syntax"
begin

text \<open>
  The JSON form of \<open>time.Time\<close>: \<open>MarshalJSON\<close> writes RFC 3339 with nanoseconds and \<open>UnmarshalJSON\<close> reads the strict
  form of it (\<open>parseStrictRFC3339\<close> of Go's package \<open>time\<close>).  A time is the number of nanoseconds since the epoch;
  the clock of a process is taken to be in UTC, as it is in the containers of the functions, so what is
  written ends in \<open>Z\<close>, while any offset is read.  The main fact is that a time which has been
  written is read back exactly, for the years 0 to 9999, outside of which \<open>MarshalJSON\<close> fails.
\<close>

section \<open>The calendar\<close>

text \<open>
  Years that begin on the first of March, so that a leap day is the last day of its year.  Day 0 is
  the first of March of the year 0.
\<close>

definition leap :: "int \<Rightarrow> bool" where
  "leap y \<longleftrightarrow> 4 dvd y \<and> (\<not> 100 dvd y \<or> 400 dvd y)"

definition days_in :: "int \<Rightarrow> int \<Rightarrow> int" where
  "days_in y m = (if m = 2 then (if leap y then 29 else 28) else if m = 4 \<or> m = 6 \<or> m = 9 \<or> m = 11 then 30 else 31)"

definition split_days :: "int \<Rightarrow> int \<times> int" where
  "split_days z =
     (let n400 = z div 146097; r400 = z mod 146097;
          n100 = min 3 (r400 div 36524); r100 = r400 - 36524 * n100;
          n4 = r100 div 1461; r4 = r100 mod 1461;
          n1 = min 3 (r4 div 365)
      in (400 * n400 + 100 * n100 + 4 * n4 + n1, r4 - 365 * n1))"

text \<open>The days of a year before its month \<open>m\<close>, March being month 0.\<close>

definition month_start :: "int \<Rightarrow> int" where
  "month_start m = (153 * m + 2) div 5"

definition civil :: "int \<Rightarrow> int \<times> int \<times> int" where
  "civil z =
     (case split_days z of (y, doy) \<Rightarrow>
        let m = (5 * doy + 2) div 153 in
        (if m < 10 then y else y + 1, if m < 10 then m + 3 else m - 9, doy - month_start m + 1))"

definition day_number :: "int \<Rightarrow> int \<Rightarrow> int \<Rightarrow> int" where
  "day_number y m d =
     (let y' = (if m > 2 then y else y - 1); m' = (if m > 2 then m - 3 else m + 9) in
      365 * y' + y' div 4 - y' div 100 + y' div 400 + month_start m' + d - 1)"

lemma div_split:
  assumes "0 < (k :: int)"
  obtains q m where "x div k = q" "x mod k = m" "x = k * q + m" "0 \<le> m" "m < k"
  using assms by (simp add: that [OF refl refl])

lemma split_days_facts:
  assumes "split_days z = (y, doy)"
  shows "0 \<le> doy" "doy < 365 \<or> doy = 365 \<and> leap (y + 1)" "365 * y + y div 4 - y div 100 + y div 400 + doy = z"
proof -
  define a r where "a = z div 146097" and "r = z mod 146097"
  define b s where "b = min 3 (r div 36524)" and "s = r - 36524 * b"
  define c t where "c = s div 1461" and "t = s mod 1461"
  define e where "e = min 3 (t div 365)"
  have y: "y = 400 * a + 100 * b + 4 * c + e" and doy: "doy = t - 365 * e"
    using assms unfolding split_days_def Let_def prod.inject e_def t_def c_def s_def b_def a_def r_def by blast+
  have z: "z = 146097 * a + r" and r: "0 \<le> r" "r < 146097" by (simp_all add: a_def r_def)
  have b: "0 \<le> b" "b \<le> 3" using r by (auto simp: b_def)
  obtain q i where q: "r div 36524 = q" "r = 36524 * q + i" "0 \<le> i" "i < 36524" by (rule div_split [of 36524 r]) auto
  have "q \<le> 3 \<and> b = q \<and> s = i \<or> b = 3 \<and> q = 4 \<and> s = 36524 + i" "q = 4 \<Longrightarrow> i = 0"
    using r q(2-4) unfolding s_def b_def q(1) by auto
  then have s: "0 \<le> s" "s < 36524 \<or> b = 3 \<and> s = 36524" using q(3,4) by auto
  have st: "s = 1461 * c + t" and t: "0 \<le> t" "t < 1461" by (simp_all add: c_def t_def)
  have c: "0 \<le> c" "c \<le> 24" using s st t by linarith+
  have e: "0 \<le> e" "e \<le> 3" using t by (auto simp: e_def)
  obtain p j where p: "t div 365 = p" "t = 365 * p + j" "0 \<le> j" "j < 365" by (rule div_split [of 365 t]) auto
  have "p \<le> 3 \<and> e = p \<and> doy = j \<or> e = 3 \<and> p = 4 \<and> doy = 365 + j" "p = 4 \<Longrightarrow> j = 0"
    using t p(2-4) unfolding doy e_def p(1) by auto
  then have d: "0 \<le> doy" "doy < 365 \<or> e = 3 \<and> t = 1460" using p(2-4) by auto
  show "0 \<le> doy" by (rule d(1))
  have divs: "y div 4 = 100 * a + 25 * b + c" "y div 100 = 4 * a + b" "y div 400 = a"
    using b c e unfolding y
    by (intro int_div_pos_eq [where r = e] int_div_pos_eq [where r = "4 * c + e"]
      int_div_pos_eq [where r = "100 * b + 4 * c + e"]; simp)+
  show "365 * y + y div 4 - y div 100 + y div 400 + doy = z"
    unfolding divs unfolding y doy z using st s_def by (simp add: algebra_simps)
  have "leap (y + 1)" if "e = 3" "t = 1460"
  proof -
    have y1: "y + 1 = 400 * a + 100 * b + 4 * (c + 1)" using that by (simp add: y)
    have "4 dvd y + 1" unfolding y1 by (intro dvd_add dvd_mult2) simp_all
    moreover have "\<not> 100 dvd y + 1" if "c < 24"
    proof -
      have "(y + 1) mod 100 = 4 * (c + 1)" by (rule int_mod_pos_eq [where q = "4 * a + b"]) (use y1 c(1) that in auto)
      then show ?thesis unfolding dvd_eq_mod_eq_0 using c(1) by simp
    qed
    moreover have "y + 1 = 400 * (a + 1)" if "b = 3" "c = 24" using that y1 by simp
    moreover have "c < 24 \<or> b = 3 \<and> c = 24" using s(2) st that(2) c by linarith
    ultimately show ?thesis unfolding leap_def by auto
  qed
  then show "doy < 365 \<or> doy = 365 \<and> leap (y + 1)" using d(2) doy by auto
qed

lemma month_of_day:
  assumes "0 \<le> doy" "doy \<le> 365" "m = (5 * doy + 2) div 153"
  shows "0 \<le> m" "m \<le> 11" "month_start m \<le> doy" "doy < month_start (m + 1)"
proof -
  have m: "153 * m \<le> 5 * doy + 2" "5 * doy + 2 < 153 * m + 153"
    using mult_div_mod_eq [of 153 "5 * doy + 2"] pos_mod_bound [of 153 "5 * doy + 2"] pos_mod_sign [of 153 "5 * doy + 2"]
    unfolding assms(3) by linarith+
  have q: "5 * month_start k \<le> 153 * k + 2" "153 * k - 2 \<le> 5 * month_start k" for k
    using mult_div_mod_eq [of 5 "153 * k + 2"] pos_mod_bound [of 5 "153 * k + 2"] pos_mod_sign [of 5 "153 * k + 2"]
    unfolding month_start_def by linarith+
  show "0 \<le> m" "m \<le> 11" using m assms(1,2) by linarith+
  show "month_start m \<le> doy" using m(1) q(1) [of m] by arith
  show "doy < month_start (m + 1)" using m(2) q(2) [of "m + 1"] by (simp add: algebra_simps)
qed

lemma month_lengths:
  assumes "0 \<le> m" "m \<le> 10"
  shows "month_start (m + 1) - month_start m = days_in y (if m < 10 then m + 3 else m - 9)"
proof -
  have "m \<in> {0, 1, 2, 3, 4, 5, 6, 7, 8, 9, 10}" using assms by simp arith
  then show ?thesis by (auto simp: month_start_def days_in_def)
qed

lemma civil_valid:
  assumes "civil z = (y, m, d)"
  shows "1 \<le> m" "m \<le> 12" "1 \<le> d" "d \<le> days_in y m" "day_number y m d = z"
proof -
  obtain y' doy where sp: "split_days z = (y', doy)" by fastforce
  note f = split_days_facts [OF sp]
  define k where "k = (5 * doy + 2) div 153"
  have doy: "0 \<le> doy" "doy \<le> 365" using f by auto
  note k = month_of_day [OF doy k_def]
  have yd: "y = (if k < 10 then y' else y' + 1)" "m = (if k < 10 then k + 3 else k - 9)" "d = doy - month_start k + 1"
    using assms sp unfolding civil_def Let_def k_def by auto
  show "1 \<le> m" "m \<le> 12" "1 \<le> d" using k yd by auto
  show "d \<le> days_in y m"
  proof (cases "k \<le> 10")
    case True
    with month_lengths [OF k(1) True, of y] k(4) yd show ?thesis by auto
  next
    case False
    then have "k = 11" using k(2) by simp
    with yd f(2) show ?thesis by (auto simp: month_start_def days_in_def)
  qed
  show "day_number y m d = z" using f(3) k yd by (auto simp: day_number_def Let_def)
qed

section \<open>Text\<close>

fun pad :: "nat \<Rightarrow> nat \<Rightarrow> string" where
  "pad 0 k = []"
| "pad (Suc n) k = pad n (k div 10) @ [digit (k mod 10)]"

definition two :: "int \<Rightarrow> string" where
  "two k = pad 2 (nat k)"

text \<open>The fraction of a second, without trailing zeros.\<close>

definition fraction :: "nat \<Rightarrow> string" where
  "fraction ns = (if ns = 0 then [] else CHR ''.'' # rev (dropWhile (\<lambda>c. c = CHR ''0'') (rev (pad 9 ns))))"

text \<open>Day 719468 of the calendar is the first of January 1970.\<close>

definition time_text :: "int \<Rightarrow> string" where
  "time_text t =
     (let s = t div 1000000000; ns = t mod 1000000000; sod = s mod 86400 in
      case civil (s div 86400 + 719468) of (y, m, d) \<Rightarrow>
        pad 4 (nat y) @ ''-'' @ two m @ ''-'' @ two d @ ''T'' @
        two (sod div 3600) @ '':'' @ two (sod div 60 mod 60) @ '':'' @ two (sod mod 60) @ fraction (nat ns) @ ''Z'')"

definition parseUint :: "string \<Rightarrow> int \<Rightarrow> int \<Rightarrow> int option" where
  "parseUint s lo hi = (if list_all is_digit s \<and> lo \<le> int (read_nat s) \<and> int (read_nat s) \<le> hi then Some (int (read_nat s)) else None)"

definition parse_fraction :: "string \<Rightarrow> int \<times> string" where
  "parse_fraction s =
     (case s of
        c # d # cs \<Rightarrow>
          if c = CHR ''.'' \<and> is_digit d then
            let ds = takeWhile is_digit (d # cs) in
            (int (read_nat (take 9 (ds @ replicate 9 (CHR ''0'')))), drop (length ds) (d # cs))
          else (0, s)
      | _ \<Rightarrow> (0, s))"

definition parse_zone :: "string \<Rightarrow> int option" where
  "parse_zone s =
     (if s = ''Z'' then Some 0
      else if length s \<noteq> 6 then None
      else case (parseUint (take 2 (drop 1 s)) 0 23, parseUint (drop 4 s) 0 59) of
        (Some hr, Some mm) \<Rightarrow>
          if (s ! 0 = CHR ''-'' \<or> s ! 0 = CHR ''+'') \<and> s ! 3 = CHR '':'' then
            Some (if s ! 0 = CHR ''-'' then - (hr * 60 + mm) * 60 else (hr * 60 + mm) * 60)
          else None
      | _ \<Rightarrow> None)"

definition parse_time :: "string \<Rightarrow> int option" where
  "parse_time s =
     (if length s < 19 then None
      else do {
        year \<leftarrow> parseUint (take 4 s) 0 9999;
        month \<leftarrow> parseUint (take 2 (drop 5 s)) 1 12;
        day \<leftarrow> parseUint (take 2 (drop 8 s)) 1 (days_in year month);
        hour \<leftarrow> parseUint (take 2 (drop 11 s)) 0 23;
        minute \<leftarrow> parseUint (take 2 (drop 14 s)) 0 59;
        sec \<leftarrow> parseUint (take 2 (drop 17 s)) 0 59;
        if s ! 4 = CHR ''-'' \<and> s ! 7 = CHR ''-'' \<and> s ! 10 = CHR ''T'' \<and> s ! 13 = CHR '':'' \<and> s ! 16 = CHR '':''
        then case parse_fraction (drop 19 s) of (nsec, zone) \<Rightarrow> do {
          offset \<leftarrow> parse_zone zone;
          Some ((((day_number year month day - 719468) * 24 + hour) * 60 + minute) * 60000000000 + sec * 1000000000 + nsec
                - offset * 1000000000)
        }
        else None
      })"

lemma pad_props [simp]: "length (pad n k) = n" "list_all is_digit (pad n k)"
  by (induction n arbitrary: k) auto

lemma read_nat_snoc: "read_nat (s @ [c]) = 10 * read_nat s + digit_val c"
  by (simp add: read_nat_def)

lemma read_pad: "read_nat (pad n k) = k mod 10 ^ n"
proof (induction n arbitrary: k)
  case (Suc n)
  have "k mod (10 * 10 ^ n) = 10 * (k div 10 mod 10 ^ n) + k mod 10" by (simp add: mod_mult2_eq)
  with Suc show ?case by (simp add: read_nat_snoc)
qed (simp add: read_nat_def)

lemma parseUint_pad: "0 \<le> lo \<Longrightarrow> lo \<le> k \<Longrightarrow> k \<le> hi \<Longrightarrow> k < 10 ^ n \<Longrightarrow> parseUint (pad n (nat k)) lo hi = Some k"
proof -
  assume k: "0 \<le> lo" "lo \<le> k" "k \<le> hi" "k < 10 ^ n"
  then have "nat k mod 10 ^ n = nat k" by (intro mod_less) (simp add: nat_less_iff)
  with k show ?thesis by (simp add: parseUint_def read_pad)
qed

text \<open>What \<open>fraction\<close> cut off is what \<open>parse_fraction\<close> fills in.\<close>

lemma strip_zeros:
  "rev (dropWhile (\<lambda>c. c = CHR ''0'') (rev s)) @ replicate (length s - length (dropWhile (\<lambda>c. c = CHR ''0'') (rev s))) (CHR ''0'') = s"
proof -
  let ?z = "takeWhile (\<lambda>c. c = CHR ''0'') (rev s)" and ?d = "dropWhile (\<lambda>c. c = CHR ''0'') (rev s)"
  have z: "?z = replicate (length ?z) (CHR ''0'')" by (metis (full_types) replicate_eqI set_takeWhileD)
  have len: "length s - length ?d = length ?z" by (metis add_diff_cancel_right' length_append length_rev takeWhile_dropWhile_id)
  have "s = rev ?d @ rev ?z" by (metis rev_append rev_rev_ident takeWhile_dropWhile_id)
  moreover have "rev ?z = ?z" by (metis rev_replicate z)
  ultimately show ?thesis using z len by metis
qed

lemma parse_fraction_text:
  assumes "ns < 1000000000"
  shows "parse_fraction (fraction ns @ ''Z'') = (int ns, ''Z'')"
proof (cases "ns = 0")
  case True
  then show ?thesis by (simp add: fraction_def parse_fraction_def)
next
  case False
  define ds where "ds = rev (dropWhile (\<lambda>c. c = CHR ''0'') (rev (pad 9 ns)))"
  have full: "ds @ replicate (9 - length ds) (CHR ''0'') = pad 9 ns"
    using strip_zeros [of "pad 9 ns"] by (simp add: ds_def)
  have digits: "list_all is_digit ds" using pad_props(2) [of 9 ns] unfolding full [symmetric] by simp
  have len: "length ds \<le> 9" by (metis full length_append le_add1 pad_props(1))
  have ne: "ds \<noteq> []"
  proof
    assume "ds = []"
    with full have "pad 9 ns = replicate 9 (CHR ''0'')" by simp
    moreover have "read_nat (replicate 9 (CHR ''0'')) = 0" by code_simp
    ultimately show False using read_pad [of 9 ns] assms False by simp
  qed
  then obtain d cs where dcs: "ds = d # cs" by (cases ds) auto
  have tw: "takeWhile is_digit (ds @ ''Z'') = ds"
    using digits by (subst takeWhile_append2) (auto simp: list_all_iff is_digit_def)
  have "replicate 9 (CHR ''0'') = replicate (9 - length ds) (CHR ''0'') @ replicate (length ds) (CHR ''0'')"
    using len by (simp flip: replicate_add)
  then have "take 9 (ds @ replicate 9 (CHR ''0'')) = pad 9 ns" by (metis append.assoc append_eq_conv_conj full pad_props(1))
  then have "read_nat (take 9 (ds @ replicate 9 (CHR ''0''))) = ns" using read_pad [of 9 ns] assms by simp
  with tw digits False show ?thesis
    unfolding fraction_def ds_def [symmetric] by (simp add: parse_fraction_def dcs Let_def)
qed

section \<open>Round trip\<close>

text \<open>The times that \<open>MarshalJSON\<close> can write: from the year 0 to the end of the year 9999.\<close>

definition time_ok :: "int \<Rightarrow> bool" where
  "time_ok t \<longleftrightarrow> - 62167219200000000000 \<le> t \<and> t < 253402300800000000000"

lemma civil_year:
  assumes "civil z = (y, m, d)" "- 60 \<le> z" "z < 3652365"
  shows "0 \<le> y" "y \<le> 9999"
proof -
  obtain y' doy where sp: "split_days z = (y', doy)" by fastforce
  note f = split_days_facts [OF sp]
  define k where "k = (5 * doy + 2) div 153"
  have y: "y = (if k < 10 then y' else y' + 1)" using assms(1) sp unfolding civil_def Let_def k_def by auto
  have k: "k < 10 \<longleftrightarrow> doy < 306" unfolding k_def by auto
  obtain q1 m1 where q1: "y' div 4 = q1" "y' = 4 * q1 + m1" "0 \<le> m1" "m1 < 4" by (rule div_split [of 4 y']) auto
  obtain q2 m2 where q2: "y' div 100 = q2" "y' = 100 * q2 + m2" "0 \<le> m2" "m2 < 100" by (rule div_split [of 100 y']) auto
  obtain q3 m3 where q3: "y' div 400 = q3" "y' = 400 * q3 + m3" "0 \<le> m3" "m3 < 400" by (rule div_split [of 400 y']) auto
  have z: "365 * y' + q1 - q2 + q3 + doy = z" "doy \<le> 365" using f(2,3) q1(1) q2(1) q3(1) by auto
  have "- 1 \<le> y'" "y' \<le> 9999" using f(1) z q1(2-4) q2(2-4) q3(2-4) assms(2,3) by linarith+
  moreover have "306 \<le> doy" if "y' = - 1" using f(3) assms(2) that by simp
  moreover have "doy < 306" if "y' = 9999" using f(3) assms(3) that by simp
  ultimately show "0 \<le> y" "y \<le> 9999" using y k by (cases "y' = - 1"; cases "y' = 9999"; auto)+
qed

lemma parse_time_text [codec]:
  assumes "time_ok t"
  shows "parse_time (time_text t) = Some t"
proof -
  define s ns where "s = t div 1000000000" and "ns = t mod 1000000000"
  define dn sod where "dn = s div 86400" and "sod = s mod 86400"
  obtain y m d where ymd: "civil (dn + 719468) = (y, m, d)" by (metis prod_cases3)
  note v = civil_valid [OF ymd]
  have dn: "- 60 \<le> dn + 719468" "dn + 719468 < 3652365"
    by (rule div_split [of 86400000000000 t]; use assms in \<open>simp add: time_ok_def dn_def s_def flip: zdiv_zmult2_eq\<close>)+
  note yb = civil_year [OF ymd dn]
  have d31: "d < 100" using v(4) by (auto simp: days_in_def split: if_splits)
  have sod: "0 \<le> sod" "sod < 86400" by (simp_all add: sod_def)
  have h: "0 \<le> sod div 3600" "sod div 3600 \<le> 23" "0 \<le> sod div 60 mod 60" "sod div 60 mod 60 \<le> 59" "0 \<le> sod mod 60" "sod mod 60 \<le> 59"
    using sod by auto
  have ns: "0 \<le> ns" "ns < 1000000000" by (simp_all add: ns_def)
  have "length (pad 4 (nat y)) = Suc (Suc (Suc (Suc 0)))" by simp
  then obtain y1 y2 y3 y4 where Y: "pad 4 (nat y) = [y1, y2, y3, y4]" unfolding length_Suc_conv length_0_conv by blast
  have "length (two k) = Suc (Suc 0)" for k by (simp add: two_def)
  then have two: "\<exists>a b. two k = [a, b]" for k unfolding length_Suc_conv length_0_conv by blast
  obtain m1 m2 d1 d2 h1 h2 n1 n2 s1 s2 where T: "two m = [m1, m2]" "two d = [d1, d2]" "two (sod div 3600) = [h1, h2]"
    "two (sod div 60 mod 60) = [n1, n2]" "two (sod mod 60) = [s1, s2]" using two by metis
  have py: "parseUint [y1, y2, y3, y4] 0 9999 = Some y"
    unfolding Y [symmetric] by (rule parseUint_pad) (use yb in simp_all)
  have p2: "parseUint (two k) lo hi = Some k" if "0 \<le> lo" "lo \<le> k" "k \<le> hi" "k < 100" for k lo hi
    unfolding two_def by (rule parseUint_pad) (use that in simp_all)
  have p: "parseUint [m1, m2] 1 12 = Some m" "parseUint [d1, d2] 1 (days_in y m) = Some d"
    "parseUint [h1, h2] 0 23 = Some (sod div 3600)" "parseUint [n1, n2] 0 59 = Some (sod div 60 mod 60)"
    "parseUint [s1, s2] 0 59 = Some (sod mod 60)"
    unfolding T [symmetric]
    using p2 [of 1 m 12] p2 [of 1 d "days_in y m"] p2 [of 0 _ 23] p2 [of 0 _ 59] v(1-4) d31 h by simp_all
  have written: "time_text t = [y1, y2, y3, y4, CHR ''-'', m1, m2, CHR ''-'', d1, d2, CHR ''T'', h1, h2, CHR '':'', n1, n2, CHR '':'', s1, s2]
      @ fraction (nat ns) @ ''Z''"
    using ymd Y T by (simp add: time_text_def Let_def s_def [symmetric] ns_def [symmetric] dn_def [symmetric] sod_def [symmetric])
  have frac: "parse_fraction (fraction (nat ns) @ ''Z'') = (ns, ''Z'')" using parse_fraction_text [of "nat ns"] ns by simp
  have "sod div 3600 = sod div 60 div 60" by (simp flip: zdiv_zmult2_eq)
  then have "sod = (sod div 3600 * 60 + sod div 60 mod 60) * 60 + sod mod 60" by simp
  moreover have "s = dn * 86400 + sod" "t = s * 1000000000 + ns" by (simp_all add: dn_def sod_def s_def ns_def)
  moreover have "((dn * 24 + a) * 60 + b) * 60000000000 + c * 1000000000 + ns = t"
    if "sod = (a * 60 + b) * 60 + c" "s = dn * 86400 + sod" "t = s * 1000000000 + ns" for a b c
    using that by (simp add: algebra_simps)
  ultimately have t: "((dn * 24 + sod div 3600) * 60 + sod div 60 mod 60) * 60000000000 + (sod mod 60) * 1000000000 + ns = t" by blast
  show ?thesis
    unfolding parse_time_def written using py p frac v(5) t by (simp add: parse_zone_def)
qed

end
