(* ===== verification/Json.thy ===== *)
theory Json
  imports Encodings TimeText
begin

text \<open>
  \<open>encoding/json\<close> on the level of JSON documents.  Every value the program stores, sends or
  receives is a document of the type \<open>json\<close>; a body that is no JSON text is the absence of a document.
  The text form of a document and its parser are in the theory \<open>JsonText\<close>.  A string literal that
  \<open>time.Time.MarshalJSON\<close> writes is \<open>JTime\<close> (nanoseconds since the epoch) and stands for the literal of its
  text, every other string literal is \<open>JStr\<close>; a number literal is \<open>JNum\<close> when it is an integer literal and
  \<open>JDec\<close> otherwise.

  A decoder takes the document and the current value of the destination, as
  \<open>json.Unmarshal\<close> decodes into an existing variable: members are processed in their order,
  members without a matching field are ignored, fields without a member keep their value,
  \<open>null\<close> leaves a non-pointer unchanged, and a value of the wrong kind or out of the range of the
  field's type makes the whole decoding fail.  Member names are compared exactly.
\<close>

datatype json =
    JNull
  | JBool bool
  | JNum int
  | JDec string
  | JStr string
  | JTime int
  | JArr "json list"
  | JObj "(string \<times> json) list"

type_synonym 'a decoder = "json \<Rightarrow> 'a \<Rightarrow> 'a option"
type_synonym 'r fields = "(string \<times> 'r decoder) list"

section \<open>Decoding\<close>

fun dec_string :: "string decoder" where
  "dec_string (JStr s) v = Some s"
| "dec_string (JTime t) v = Some (time_text t)"
| "dec_string JNull v = Some v"
| "dec_string _ v = None"

fun dec_bool :: "bool decoder" where
  "dec_bool (JBool b) v = Some b"
| "dec_bool JNull v = Some v"
| "dec_bool _ v = None"

fun dec_uint :: "'w::len word decoder" where
  "dec_uint (JNum n) v = (if 0 \<le> n \<and> n < 2 ^ LENGTH('w) then Some (word_of_int n) else None)"
| "dec_uint JNull v = Some v"
| "dec_uint _ v = None"

fun dec_sint :: "'w::len word decoder" where
  "dec_sint (JNum n) v =
     (if - (2 ^ (LENGTH('w) - 1)) \<le> n \<and> n < 2 ^ (LENGTH('w) - 1)
      then Some (word_of_int n) else None)"
| "dec_sint JNull v = Some v"
| "dec_sint _ v = None"

fun dec_time :: "int decoder" where
  "dec_time (JTime t) v = Some t"
| "dec_time (JStr s) v = parse_time s"
| "dec_time JNull v = Some v"
| "dec_time _ v = None"

fun dec_list :: "'a decoder \<Rightarrow> 'a \<Rightarrow> 'a list decoder" where
  "dec_list dec zero (JArr js) v = those (map (\<lambda>j. dec j zero) js)"
| "dec_list dec zero JNull v = Some []"
| "dec_list dec zero _ v = None"

text \<open>A byte slice is base64 text; an array of small numbers is accepted as well.\<close>

fun dec_bytes :: "bytes decoder" where
  "dec_bytes (JStr s) v = b64_decode s"
| "dec_bytes (JTime t) v = b64_decode (time_text t)"
| "dec_bytes j v = dec_list dec_uint 0 j v"

fun dec_ptr :: "'a decoder \<Rightarrow> 'a \<Rightarrow> 'a option decoder" where
  "dec_ptr dec zero JNull v = Some None"
| "dec_ptr dec zero j v = map_option Some (dec j (case v of None \<Rightarrow> zero | Some x \<Rightarrow> x))"

definition fld :: "('r \<Rightarrow> 'v) \<Rightarrow> (('v \<Rightarrow> 'v) \<Rightarrow> 'r \<Rightarrow> 'r) \<Rightarrow> 'v decoder \<Rightarrow> 'r decoder" where
  "fld get upd dec j r = map_option (\<lambda>v. upd (\<lambda>_. v) r) (dec j (get r))"

fun dec_members :: "'r fields \<Rightarrow> (string \<times> json) list \<Rightarrow> 'r \<Rightarrow> 'r option" where
  "dec_members fs [] r = Some r"
| "dec_members fs ((k, j) # ms) r =
     (case map_of fs k of
        None \<Rightarrow> dec_members fs ms r
      | Some dec \<Rightarrow> (case dec j r of None \<Rightarrow> None | Some r' \<Rightarrow> dec_members fs ms r'))"

fun dec_struct :: "'r fields \<Rightarrow> 'r decoder" where
  "dec_struct fs (JObj ms) r = dec_members fs ms r"
| "dec_struct fs JNull r = Some r"
| "dec_struct fs _ r = None"

text \<open>\<open>json.Unmarshal(body, &v)\<close>, where the body may not be JSON.\<close>

definition unmarshal_body :: "'a decoder \<Rightarrow> 'a \<Rightarrow> json option \<Rightarrow> 'a option" where
  "unmarshal_body dec zero body = Option.bind body (\<lambda>j. dec j zero)"

lemma unmarshal_body_simps [simp, go_simps]:
  "unmarshal_body dec zero None = None"
  "unmarshal_body dec zero (Some j) = dec j zero"
  by (simp_all add: unmarshal_body_def)

section \<open>Encoding\<close>

definition enc_uint :: "'w::len word \<Rightarrow> json" where
  "enc_uint w = JNum (uint w)"

definition enc_sint :: "'w::len word \<Rightarrow> json" where
  "enc_sint w = JNum (sint w)"

text \<open>A nil slice is \<open>null\<close>; nil and empty slices are both the empty list here.\<close>

definition enc_list :: "('a \<Rightarrow> json) \<Rightarrow> 'a list \<Rightarrow> json" where
  "enc_list enc xs = (if xs = [] then JNull else JArr (map enc xs))"

definition enc_bytes :: "bytes \<Rightarrow> json" where
  "enc_bytes bs = (if bs = [] then JNull else JStr (b64_encode bs))"

definition enc_ptr :: "('a \<Rightarrow> json) \<Rightarrow> 'a option \<Rightarrow> json" where
  "enc_ptr enc v = (case v of None \<Rightarrow> JNull | Some x \<Rightarrow> enc x)"

text \<open>A member with the \<open>omitempty\<close> tag.\<close>

definition omitempty :: "bool \<Rightarrow> string \<times> json \<Rightarrow> (string \<times> json) list" where
  "omitempty isz m = (if isz then [] else [m])"

section \<open>Round trips\<close>

lemma dec_uint_enc [simp, codec]: "dec_uint (enc_uint w) v = Some w"
  by (simp add: enc_uint_def)

lemma dec_sint_enc [simp, codec]: "dec_sint (enc_sint w) v = Some w"
  using sint_greater_eq [of w] sint_less [of w] by (simp add: enc_sint_def)

lemma those_map_Some: "(\<And>x. x \<in> set xs \<Longrightarrow> f (g x) = Some x) \<Longrightarrow> those (map (f \<circ> g) xs) = Some xs"
  by (induction xs) auto

lemma dec_list_enc [simp, codec]:
  "(\<And>x. dec (enc x) zero = Some x) \<Longrightarrow> dec_list dec zero (enc_list enc xs) v = Some xs"
  using those_map_Some [of xs "\<lambda>j. dec j zero" enc] by (simp add: enc_list_def comp_def)

lemma dec_bytes_enc [simp, codec]: "dec_bytes (enc_bytes bs) v = Some bs"
  by (simp add: enc_bytes_def)

lemma dec_ptr_enc [codec]:
  assumes "\<And>x. dec (enc x) zero = Some x" and "\<And>x. enc x \<noteq> JNull"
  shows "dec_ptr dec zero (enc_ptr enc p) None = Some p"
proof (cases p)
  case None
  then show ?thesis by (simp add: enc_ptr_def)
next
  case (Some x)
  then show ?thesis using assms(1) [of x] assms(2) [of x]
    by (cases "enc x") (simp_all add: enc_ptr_def)
qed

lemma dec_members_append:
  "dec_members fs (ms @ ns) r = Option.bind (dec_members fs ms r) (dec_members fs ns)"
  by (induction ms arbitrary: r) (auto split: option.splits)

text \<open>A member no field has is skipped, whatever it holds: how the functions ignore what they
  do not know of a peer's document.\<close>

lemma dec_members_unknown:
  "\<forall>m \<in> set ms. map_of fs (fst m) = None \<Longrightarrow> dec_members fs ms r = Some r"
  by (induction ms) auto

lemma dec_members_known:
  "map_of fs k = Some (fld get upd dec) \<Longrightarrow> dec j (get r) = Some v \<Longrightarrow>
   dec_members fs ((k, j) # ms) r = dec_members fs ms (upd (\<lambda>_. v) r)"
  by (simp add: fld_def)

lemmas json_codec = fld_def omitempty_def dec_members_append

section \<open>Maps\<close>

text \<open>A Go map with string keys, as an association list; \<open>encoding/json\<close> decodes a member per key.\<close>

fun dec_map :: "'a decoder \<Rightarrow> 'a \<Rightarrow> (string \<times> 'a) list decoder" where
  "dec_map dec zero (JObj ms) v = those (map (\<lambda>(k, j). map_option (Pair k) (dec j zero)) ms)"
| "dec_map dec zero JNull v = Some []"
| "dec_map dec zero _ v = None"

definition enc_map :: "('a \<Rightarrow> json) \<Rightarrow> (string \<times> 'a) list \<Rightarrow> json" where
  "enc_map enc m = JObj (map (\<lambda>(k, x). (k, enc x)) m)"

lemma dec_map_enc [simp]: "(\<And>x. dec (enc x) zero = Some x) \<Longrightarrow> dec_map dec zero (enc_map enc m) v = Some m"
  by (induction m) (auto simp: enc_map_def)

end
