(* ===== verification/Models.thy ===== *)
theory Models
  imports Json
begin

text \<open>
  The data model \<^verbatim>\<open>pkg/models/types.go\<close>: one record per Go struct, its zero value, the table of
  its JSON members (the struct tags), its encoder and its decoder, and the round trip of the
  two.  Field names carry a prefix per struct.  A pointer is an option; a signed integer
  is a word read with \<open>sint\<close>.
\<close>

section \<open>Problem details\<close>

record ProblemDetails =
  pd_Type :: string
  pd_Title :: string
  pd_Status :: int64
  pd_Detail :: string
  pd_Cause :: string

definition ProblemDetails_zero :: ProblemDetails where
  "ProblemDetails_zero = \<lparr>pd_Type = [],
     pd_Title = [],
     pd_Status = 0,
     pd_Detail = [],
     pd_Cause = []\<rparr>"

definition ProblemDetails_fields :: "ProblemDetails fields" where
  "ProblemDetails_fields = [(''type'', fld pd_Type pd_Type_update dec_string),
     (''title'', fld pd_Title pd_Title_update dec_string),
     (''status'', fld pd_Status pd_Status_update dec_sint),
     (''detail'', fld pd_Detail pd_Detail_update dec_string),
     (''cause'', fld pd_Cause pd_Cause_update dec_string)]"

definition unmarshal_ProblemDetails :: "ProblemDetails decoder" where
  "unmarshal_ProblemDetails = dec_struct ProblemDetails_fields"

definition marshal_ProblemDetails :: "ProblemDetails \<Rightarrow> json" where
  "marshal_ProblemDetails x = JObj (omitempty (pd_Type x = []) (''type'', JStr (pd_Type x)) @
     [(''title'', JStr (pd_Title x)),
     (''status'', enc_sint (pd_Status x))] @
     omitempty (pd_Detail x = []) (''detail'', JStr (pd_Detail x)) @
     omitempty (pd_Cause x = []) (''cause'', JStr (pd_Cause x)))"

lemma ProblemDetails_codec [simp, codec]: "unmarshal_ProblemDetails (marshal_ProblemDetails x) ProblemDetails_zero = Some x"
  by (cases x) (simp add: unmarshal_ProblemDetails_def marshal_ProblemDetails_def ProblemDetails_fields_def ProblemDetails_zero_def json_codec)

lemma ProblemDetails_not_null [simp]: "marshal_ProblemDetails x \<noteq> JNull"
  by (simp add: marshal_ProblemDetails_def)

definition httpStatusTitle :: "int \<Rightarrow> string" where
  "httpStatusTitle status =
     (if status = 400 then ''Bad Request''
      else if status = 401 then ''Unauthorized''
      else if status = 403 then ''Forbidden''
      else if status = 404 then ''Not Found''
      else if status = 409 then ''Conflict''
      else if status = 500 then ''Internal Server Error''
      else if status = 502 then ''Bad Gateway''
      else if status = 503 then ''Service Unavailable''
      else ''Error'')"

definition NewProblemDetails :: "int \<Rightarrow> string \<Rightarrow> string \<Rightarrow> ProblemDetails" where
  "NewProblemDetails status cause detail = ProblemDetails_zero\<lparr>
     pd_Title := httpStatusTitle status,
     pd_Status := word_of_int status,
     pd_Cause := cause,
     pd_Detail := detail\<rparr>"

section \<open>AMF: UE contexts\<close>

record SNSSAI =
  sn_SST :: int32
  sn_SD :: string

definition SNSSAI_zero :: SNSSAI where
  "SNSSAI_zero = \<lparr>sn_SST = 0,
     sn_SD = []\<rparr>"

definition SNSSAI_fields :: "SNSSAI fields" where
  "SNSSAI_fields = [(''sst'', fld sn_SST sn_SST_update dec_sint),
     (''sd'', fld sn_SD sn_SD_update dec_string)]"

definition unmarshal_SNSSAI :: "SNSSAI decoder" where
  "unmarshal_SNSSAI = dec_struct SNSSAI_fields"

definition marshal_SNSSAI :: "SNSSAI \<Rightarrow> json" where
  "marshal_SNSSAI x = JObj ([(''sst'', enc_sint (sn_SST x))] @
     omitempty (sn_SD x = []) (''sd'', JStr (sn_SD x)))"

lemma SNSSAI_codec [simp, codec]: "unmarshal_SNSSAI (marshal_SNSSAI x) SNSSAI_zero = Some x"
  by (cases x) (simp add: unmarshal_SNSSAI_def marshal_SNSSAI_def SNSSAI_fields_def SNSSAI_zero_def json_codec)

lemma SNSSAI_not_null [simp]: "marshal_SNSSAI x \<noteq> JNull"
  by (simp add: marshal_SNSSAI_def)

record SecurityContext =
  sc_KAMFKey :: bytes
  sc_NASCount :: uint32
  sc_AuthStatus :: string
  sc_NgKSI :: uint8
  sc_SelectedCiphering :: uint8
  sc_SelectedIntegrity :: uint8
  sc_SecurityActivated :: bool

definition SecurityContext_zero :: SecurityContext where
  "SecurityContext_zero = \<lparr>sc_KAMFKey = [],
     sc_NASCount = 0,
     sc_AuthStatus = [],
     sc_NgKSI = 0,
     sc_SelectedCiphering = 0,
     sc_SelectedIntegrity = 0,
     sc_SecurityActivated = False\<rparr>"

definition SecurityContext_fields :: "SecurityContext fields" where
  "SecurityContext_fields = [(''kamf_key'', fld sc_KAMFKey sc_KAMFKey_update dec_bytes),
     (''nas_count'', fld sc_NASCount sc_NASCount_update dec_uint),
     (''auth_status'', fld sc_AuthStatus sc_AuthStatus_update dec_string),
     (''ng_ksi'', fld sc_NgKSI sc_NgKSI_update dec_uint),
     (''selected_ciphering'', fld sc_SelectedCiphering sc_SelectedCiphering_update dec_uint),
     (''selected_integrity'', fld sc_SelectedIntegrity sc_SelectedIntegrity_update dec_uint),
     (''security_activated'', fld sc_SecurityActivated sc_SecurityActivated_update dec_bool)]"

definition unmarshal_SecurityContext :: "SecurityContext decoder" where
  "unmarshal_SecurityContext = dec_struct SecurityContext_fields"

definition marshal_SecurityContext :: "SecurityContext \<Rightarrow> json" where
  "marshal_SecurityContext x = JObj ([(''kamf_key'', enc_bytes (sc_KAMFKey x)),
     (''nas_count'', enc_uint (sc_NASCount x)),
     (''auth_status'', JStr (sc_AuthStatus x)),
     (''ng_ksi'', enc_uint (sc_NgKSI x)),
     (''selected_ciphering'', enc_uint (sc_SelectedCiphering x)),
     (''selected_integrity'', enc_uint (sc_SelectedIntegrity x)),
     (''security_activated'', JBool (sc_SecurityActivated x))])"

lemma SecurityContext_codec [simp, codec]: "unmarshal_SecurityContext (marshal_SecurityContext x) SecurityContext_zero = Some x"
  by (cases x) (simp add: unmarshal_SecurityContext_def marshal_SecurityContext_def SecurityContext_fields_def SecurityContext_zero_def json_codec)

lemma SecurityContext_not_null [simp]: "marshal_SecurityContext x \<noteq> JNull"
  by (simp add: marshal_SecurityContext_def)

record UEContext =
  ue_SUPI :: string
  ue_GUTI :: string
  ue_FiveGTMSI :: string
  ue_RegistrationState :: string
  ue_CmState :: string
  ue_GnbID :: string
  ue_AMFUeNgapID :: int64
  ue_RANUeNgapID :: int64
  ue_SecurityCtx :: "SecurityContext option"
  ue_PDUSessions :: "string list"
  ue_NSSAI :: "SNSSAI list"
  ue_AllowedNSSAI :: "SNSSAI list"
  ue_T3512Value :: uint32
  ue_RegistrationTime :: int
  ue_LastActivity :: int

definition UEContext_zero :: UEContext where
  "UEContext_zero = \<lparr>ue_SUPI = [],
     ue_GUTI = [],
     ue_FiveGTMSI = [],
     ue_RegistrationState = [],
     ue_CmState = [],
     ue_GnbID = [],
     ue_AMFUeNgapID = 0,
     ue_RANUeNgapID = 0,
     ue_SecurityCtx = None,
     ue_PDUSessions = [],
     ue_NSSAI = [],
     ue_AllowedNSSAI = [],
     ue_T3512Value = 0,
     ue_RegistrationTime = zero_time,
     ue_LastActivity = zero_time\<rparr>"

definition UEContext_fields :: "UEContext fields" where
  "UEContext_fields = [(''supi'', fld ue_SUPI ue_SUPI_update dec_string),
     (''guti'', fld ue_GUTI ue_GUTI_update dec_string),
     (''5g_tmsi'', fld ue_FiveGTMSI ue_FiveGTMSI_update dec_string),
     (''registration_state'', fld ue_RegistrationState ue_RegistrationState_update dec_string),
     (''cm_state'', fld ue_CmState ue_CmState_update dec_string),
     (''gnb_id'', fld ue_GnbID ue_GnbID_update dec_string),
     (''amf_ue_ngap_id'', fld ue_AMFUeNgapID ue_AMFUeNgapID_update dec_sint),
     (''ran_ue_ngap_id'', fld ue_RANUeNgapID ue_RANUeNgapID_update dec_sint),
     (''security_ctx'', fld ue_SecurityCtx ue_SecurityCtx_update (dec_ptr unmarshal_SecurityContext SecurityContext_zero)),
     (''pdu_sessions'', fld ue_PDUSessions ue_PDUSessions_update (dec_list dec_string [])),
     (''nssai'', fld ue_NSSAI ue_NSSAI_update (dec_list unmarshal_SNSSAI SNSSAI_zero)),
     (''allowed_nssai'', fld ue_AllowedNSSAI ue_AllowedNSSAI_update (dec_list unmarshal_SNSSAI SNSSAI_zero)),
     (''t3512_value'', fld ue_T3512Value ue_T3512Value_update dec_uint),
     (''registration_time'', fld ue_RegistrationTime ue_RegistrationTime_update dec_time),
     (''last_activity'', fld ue_LastActivity ue_LastActivity_update dec_time)]"

definition unmarshal_UEContext :: "UEContext decoder" where
  "unmarshal_UEContext = dec_struct UEContext_fields"

definition marshal_UEContext :: "UEContext \<Rightarrow> json" where
  "marshal_UEContext x = JObj ([(''supi'', JStr (ue_SUPI x)),
     (''guti'', JStr (ue_GUTI x)),
     (''5g_tmsi'', JStr (ue_FiveGTMSI x)),
     (''registration_state'', JStr (ue_RegistrationState x)),
     (''cm_state'', JStr (ue_CmState x)),
     (''gnb_id'', JStr (ue_GnbID x)),
     (''amf_ue_ngap_id'', enc_sint (ue_AMFUeNgapID x)),
     (''ran_ue_ngap_id'', enc_sint (ue_RANUeNgapID x))] @
     omitempty (ue_SecurityCtx x = None) (''security_ctx'', enc_ptr marshal_SecurityContext (ue_SecurityCtx x)) @
     [(''pdu_sessions'', enc_list JStr (ue_PDUSessions x)),
     (''nssai'', enc_list marshal_SNSSAI (ue_NSSAI x)),
     (''allowed_nssai'', enc_list marshal_SNSSAI (ue_AllowedNSSAI x)),
     (''t3512_value'', enc_uint (ue_T3512Value x)),
     (''registration_time'', JTime (ue_RegistrationTime x)),
     (''last_activity'', JTime (ue_LastActivity x))])"

lemma UEContext_codec [simp, codec]: "unmarshal_UEContext (marshal_UEContext x) UEContext_zero = Some x"
  by (cases x) (simp add: unmarshal_UEContext_def marshal_UEContext_def UEContext_fields_def UEContext_zero_def json_codec dec_ptr_enc)

lemma UEContext_not_null [simp]: "marshal_UEContext x \<noteq> JNull"
  by (simp add: marshal_UEContext_def)

section \<open>SMF: PDU sessions\<close>

record PDUSession =
  pdu_ID :: string
  pdu_SUPI :: string
  pdu_SNSSAI :: SNSSAI
  pdu_DNN :: string
  pdu_PDUType :: string
  pdu_UEAddress :: string
  pdu_UPFID :: string
  pdu_State :: string
  pdu_QFI :: uint8
  pdu_AMBRUL :: uint64
  pdu_AMBRDL :: uint64
  pdu_ChargingID :: string
  pdu_BSFBindingID :: string
  pdu_CreatedAt :: int

definition PDUSession_zero :: PDUSession where
  "PDUSession_zero = \<lparr>pdu_ID = [],
     pdu_SUPI = [],
     pdu_SNSSAI = SNSSAI_zero,
     pdu_DNN = [],
     pdu_PDUType = [],
     pdu_UEAddress = [],
     pdu_UPFID = [],
     pdu_State = [],
     pdu_QFI = 0,
     pdu_AMBRUL = 0,
     pdu_AMBRDL = 0,
     pdu_ChargingID = [],
     pdu_BSFBindingID = [],
     pdu_CreatedAt = zero_time\<rparr>"

definition PDUSession_fields :: "PDUSession fields" where
  "PDUSession_fields = [(''id'', fld pdu_ID pdu_ID_update dec_string),
     (''supi'', fld pdu_SUPI pdu_SUPI_update dec_string),
     (''snssai'', fld pdu_SNSSAI pdu_SNSSAI_update unmarshal_SNSSAI),
     (''dnn'', fld pdu_DNN pdu_DNN_update dec_string),
     (''pdu_type'', fld pdu_PDUType pdu_PDUType_update dec_string),
     (''ue_address'', fld pdu_UEAddress pdu_UEAddress_update dec_string),
     (''upf_id'', fld pdu_UPFID pdu_UPFID_update dec_string),
     (''state'', fld pdu_State pdu_State_update dec_string),
     (''qfi'', fld pdu_QFI pdu_QFI_update dec_uint),
     (''ambr_ul'', fld pdu_AMBRUL pdu_AMBRUL_update dec_uint),
     (''ambr_dl'', fld pdu_AMBRDL pdu_AMBRDL_update dec_uint),
     (''charging_id'', fld pdu_ChargingID pdu_ChargingID_update dec_string),
     (''bsf_binding_id'', fld pdu_BSFBindingID pdu_BSFBindingID_update dec_string),
     (''created_at'', fld pdu_CreatedAt pdu_CreatedAt_update dec_time)]"

definition unmarshal_PDUSession :: "PDUSession decoder" where
  "unmarshal_PDUSession = dec_struct PDUSession_fields"

definition marshal_PDUSession :: "PDUSession \<Rightarrow> json" where
  "marshal_PDUSession x = JObj ([(''id'', JStr (pdu_ID x)),
     (''supi'', JStr (pdu_SUPI x)),
     (''snssai'', marshal_SNSSAI (pdu_SNSSAI x)),
     (''dnn'', JStr (pdu_DNN x)),
     (''pdu_type'', JStr (pdu_PDUType x)),
     (''ue_address'', JStr (pdu_UEAddress x)),
     (''upf_id'', JStr (pdu_UPFID x)),
     (''state'', JStr (pdu_State x)),
     (''qfi'', enc_uint (pdu_QFI x)),
     (''ambr_ul'', enc_uint (pdu_AMBRUL x)),
     (''ambr_dl'', enc_uint (pdu_AMBRDL x))] @
     omitempty (pdu_ChargingID x = []) (''charging_id'', JStr (pdu_ChargingID x)) @
     omitempty (pdu_BSFBindingID x = []) (''bsf_binding_id'', JStr (pdu_BSFBindingID x)) @
     [(''created_at'', JTime (pdu_CreatedAt x))])"

lemma PDUSession_codec [simp, codec]: "unmarshal_PDUSession (marshal_PDUSession x) PDUSession_zero = Some x"
  by (cases x) (simp add: unmarshal_PDUSession_def marshal_PDUSession_def PDUSession_fields_def PDUSession_zero_def json_codec)

lemma PDUSession_not_null [simp]: "marshal_PDUSession x \<noteq> JNull"
  by (simp add: marshal_PDUSession_def)

section \<open>UDR: subscribers\<close>

record AuthData =
  ad_AuthMethod :: string
  ad_PermanentKey :: bytes
  ad_OPc :: bytes
  ad_AMF :: bytes
  ad_SQN :: bytes

definition AuthData_zero :: AuthData where
  "AuthData_zero = \<lparr>ad_AuthMethod = [],
     ad_PermanentKey = [],
     ad_OPc = [],
     ad_AMF = [],
     ad_SQN = []\<rparr>"

definition AuthData_fields :: "AuthData fields" where
  "AuthData_fields = [(''auth_method'', fld ad_AuthMethod ad_AuthMethod_update dec_string),
     (''k'', fld ad_PermanentKey ad_PermanentKey_update dec_bytes),
     (''opc'', fld ad_OPc ad_OPc_update dec_bytes),
     (''amf'', fld ad_AMF ad_AMF_update dec_bytes),
     (''sqn'', fld ad_SQN ad_SQN_update dec_bytes)]"

definition unmarshal_AuthData :: "AuthData decoder" where
  "unmarshal_AuthData = dec_struct AuthData_fields"

definition marshal_AuthData :: "AuthData \<Rightarrow> json" where
  "marshal_AuthData x = JObj ([(''auth_method'', JStr (ad_AuthMethod x)),
     (''k'', enc_bytes (ad_PermanentKey x)),
     (''opc'', enc_bytes (ad_OPc x)),
     (''amf'', enc_bytes (ad_AMF x)),
     (''sqn'', enc_bytes (ad_SQN x))])"

lemma AuthData_codec [simp, codec]: "unmarshal_AuthData (marshal_AuthData x) AuthData_zero = Some x"
  by (cases x) (simp add: unmarshal_AuthData_def marshal_AuthData_def AuthData_fields_def AuthData_zero_def json_codec)

lemma AuthData_not_null [simp]: "marshal_AuthData x \<noteq> JNull"
  by (simp add: marshal_AuthData_def)

record AccessMobData =
  am_NSSAI :: "SNSSAI list"
  am_DefaultDNN :: string

definition AccessMobData_zero :: AccessMobData where
  "AccessMobData_zero = \<lparr>am_NSSAI = [],
     am_DefaultDNN = []\<rparr>"

definition AccessMobData_fields :: "AccessMobData fields" where
  "AccessMobData_fields = [(''nssai'', fld am_NSSAI am_NSSAI_update (dec_list unmarshal_SNSSAI SNSSAI_zero)),
     (''default_dnn'', fld am_DefaultDNN am_DefaultDNN_update dec_string)]"

definition unmarshal_AccessMobData :: "AccessMobData decoder" where
  "unmarshal_AccessMobData = dec_struct AccessMobData_fields"

definition marshal_AccessMobData :: "AccessMobData \<Rightarrow> json" where
  "marshal_AccessMobData x = JObj ([(''nssai'', enc_list marshal_SNSSAI (am_NSSAI x)),
     (''default_dnn'', JStr (am_DefaultDNN x))])"

lemma AccessMobData_codec [simp, codec]: "unmarshal_AccessMobData (marshal_AccessMobData x) AccessMobData_zero = Some x"
  by (cases x) (simp add: unmarshal_AccessMobData_def marshal_AccessMobData_def AccessMobData_fields_def AccessMobData_zero_def json_codec)

lemma AccessMobData_not_null [simp]: "marshal_AccessMobData x \<noteq> JNull"
  by (simp add: marshal_AccessMobData_def)

record SMPolicyData =
  sp_SNSSAI :: SNSSAI
  sp_DNN :: string
  sp_QoSRef :: int64

definition SMPolicyData_zero :: SMPolicyData where
  "SMPolicyData_zero = \<lparr>sp_SNSSAI = SNSSAI_zero,
     sp_DNN = [],
     sp_QoSRef = 0\<rparr>"

definition SMPolicyData_fields :: "SMPolicyData fields" where
  "SMPolicyData_fields = [(''snssai'', fld sp_SNSSAI sp_SNSSAI_update unmarshal_SNSSAI),
     (''dnn'', fld sp_DNN sp_DNN_update dec_string),
     (''qos_ref'', fld sp_QoSRef sp_QoSRef_update dec_sint)]"

definition unmarshal_SMPolicyData :: "SMPolicyData decoder" where
  "unmarshal_SMPolicyData = dec_struct SMPolicyData_fields"

definition marshal_SMPolicyData :: "SMPolicyData \<Rightarrow> json" where
  "marshal_SMPolicyData x = JObj ([(''snssai'', marshal_SNSSAI (sp_SNSSAI x)),
     (''dnn'', JStr (sp_DNN x)),
     (''qos_ref'', enc_sint (sp_QoSRef x))])"

lemma SMPolicyData_codec [simp, codec]: "unmarshal_SMPolicyData (marshal_SMPolicyData x) SMPolicyData_zero = Some x"
  by (cases x) (simp add: unmarshal_SMPolicyData_def marshal_SMPolicyData_def SMPolicyData_fields_def SMPolicyData_zero_def json_codec)

lemma SMPolicyData_not_null [simp]: "marshal_SMPolicyData x \<noteq> JNull"
  by (simp add: marshal_SMPolicyData_def)

record SubscriberData =
  sub_SUPI :: string
  sub_AuthenticationData :: "AuthData option"
  sub_AccessAndMobility :: "AccessMobData option"
  sub_SessionManagement :: "SMPolicyData list"

definition SubscriberData_zero :: SubscriberData where
  "SubscriberData_zero = \<lparr>sub_SUPI = [],
     sub_AuthenticationData = None,
     sub_AccessAndMobility = None,
     sub_SessionManagement = []\<rparr>"

definition SubscriberData_fields :: "SubscriberData fields" where
  "SubscriberData_fields = [(''supi'', fld sub_SUPI sub_SUPI_update dec_string),
     (''auth_data'', fld sub_AuthenticationData sub_AuthenticationData_update (dec_ptr unmarshal_AuthData AuthData_zero)),
     (''access_mobility_data'', fld sub_AccessAndMobility sub_AccessAndMobility_update (dec_ptr unmarshal_AccessMobData AccessMobData_zero)),
     (''session_management'', fld sub_SessionManagement sub_SessionManagement_update (dec_list unmarshal_SMPolicyData SMPolicyData_zero))]"

definition unmarshal_SubscriberData :: "SubscriberData decoder" where
  "unmarshal_SubscriberData = dec_struct SubscriberData_fields"

definition marshal_SubscriberData :: "SubscriberData \<Rightarrow> json" where
  "marshal_SubscriberData x = JObj ([(''supi'', JStr (sub_SUPI x)),
     (''auth_data'', enc_ptr marshal_AuthData (sub_AuthenticationData x)),
     (''access_mobility_data'', enc_ptr marshal_AccessMobData (sub_AccessAndMobility x)),
     (''session_management'', enc_list marshal_SMPolicyData (sub_SessionManagement x))])"

lemma SubscriberData_codec [simp, codec]: "unmarshal_SubscriberData (marshal_SubscriberData x) SubscriberData_zero = Some x"
  by (cases x) (simp add: unmarshal_SubscriberData_def marshal_SubscriberData_def SubscriberData_fields_def SubscriberData_zero_def json_codec dec_ptr_enc)

lemma SubscriberData_not_null [simp]: "marshal_SubscriberData x \<noteq> JNull"
  by (simp add: marshal_SubscriberData_def)

section \<open>CHF: charging\<close>

record ChargingSession =
  cs_ChargingID :: string
  cs_SUPI :: string
  cs_PDUSessionID :: string
  cs_DNN :: string
  cs_SNSSAI :: SNSSAI
  cs_ChargingType :: string
  cs_State :: string
  cs_VolumeUplink :: uint64
  cs_VolumeDownlink :: uint64
  cs_GrantedUnits :: uint64
  cs_CreatedAt :: int
  cs_LastUpdated :: int

definition ChargingSession_zero :: ChargingSession where
  "ChargingSession_zero = \<lparr>cs_ChargingID = [],
     cs_SUPI = [],
     cs_PDUSessionID = [],
     cs_DNN = [],
     cs_SNSSAI = SNSSAI_zero,
     cs_ChargingType = [],
     cs_State = [],
     cs_VolumeUplink = 0,
     cs_VolumeDownlink = 0,
     cs_GrantedUnits = 0,
     cs_CreatedAt = zero_time,
     cs_LastUpdated = zero_time\<rparr>"

definition ChargingSession_fields :: "ChargingSession fields" where
  "ChargingSession_fields = [(''charging_id'', fld cs_ChargingID cs_ChargingID_update dec_string),
     (''supi'', fld cs_SUPI cs_SUPI_update dec_string),
     (''pdu_session_id'', fld cs_PDUSessionID cs_PDUSessionID_update dec_string),
     (''dnn'', fld cs_DNN cs_DNN_update dec_string),
     (''snssai'', fld cs_SNSSAI cs_SNSSAI_update unmarshal_SNSSAI),
     (''charging_type'', fld cs_ChargingType cs_ChargingType_update dec_string),
     (''state'', fld cs_State cs_State_update dec_string),
     (''volume_uplink'', fld cs_VolumeUplink cs_VolumeUplink_update dec_uint),
     (''volume_downlink'', fld cs_VolumeDownlink cs_VolumeDownlink_update dec_uint),
     (''granted_units'', fld cs_GrantedUnits cs_GrantedUnits_update dec_uint),
     (''created_at'', fld cs_CreatedAt cs_CreatedAt_update dec_time),
     (''last_updated'', fld cs_LastUpdated cs_LastUpdated_update dec_time)]"

definition unmarshal_ChargingSession :: "ChargingSession decoder" where
  "unmarshal_ChargingSession = dec_struct ChargingSession_fields"

definition marshal_ChargingSession :: "ChargingSession \<Rightarrow> json" where
  "marshal_ChargingSession x = JObj ([(''charging_id'', JStr (cs_ChargingID x)),
     (''supi'', JStr (cs_SUPI x)),
     (''pdu_session_id'', JStr (cs_PDUSessionID x)),
     (''dnn'', JStr (cs_DNN x)),
     (''snssai'', marshal_SNSSAI (cs_SNSSAI x)),
     (''charging_type'', JStr (cs_ChargingType x)),
     (''state'', JStr (cs_State x)),
     (''volume_uplink'', enc_uint (cs_VolumeUplink x)),
     (''volume_downlink'', enc_uint (cs_VolumeDownlink x)),
     (''granted_units'', enc_uint (cs_GrantedUnits x)),
     (''created_at'', JTime (cs_CreatedAt x)),
     (''last_updated'', JTime (cs_LastUpdated x))])"

lemma ChargingSession_codec [simp, codec]: "unmarshal_ChargingSession (marshal_ChargingSession x) ChargingSession_zero = Some x"
  by (cases x) (simp add: unmarshal_ChargingSession_def marshal_ChargingSession_def ChargingSession_fields_def ChargingSession_zero_def json_codec)

lemma ChargingSession_not_null [simp]: "marshal_ChargingSession x \<noteq> JNull"
  by (simp add: marshal_ChargingSession_def)

record ChargingDataRecord =
  cdr_RecordID :: string
  cdr_ChargingID :: string
  cdr_SUPI :: string
  cdr_PDUSessionID :: string
  cdr_DNN :: string
  cdr_SNSSAI :: SNSSAI
  cdr_VolumeUplink :: uint64
  cdr_VolumeDownlink :: uint64
  cdr_Duration :: int64
  cdr_StartTime :: int
  cdr_EndTime :: int

definition ChargingDataRecord_zero :: ChargingDataRecord where
  "ChargingDataRecord_zero = \<lparr>cdr_RecordID = [],
     cdr_ChargingID = [],
     cdr_SUPI = [],
     cdr_PDUSessionID = [],
     cdr_DNN = [],
     cdr_SNSSAI = SNSSAI_zero,
     cdr_VolumeUplink = 0,
     cdr_VolumeDownlink = 0,
     cdr_Duration = 0,
     cdr_StartTime = zero_time,
     cdr_EndTime = zero_time\<rparr>"

definition ChargingDataRecord_fields :: "ChargingDataRecord fields" where
  "ChargingDataRecord_fields = [(''record_id'', fld cdr_RecordID cdr_RecordID_update dec_string),
     (''charging_id'', fld cdr_ChargingID cdr_ChargingID_update dec_string),
     (''supi'', fld cdr_SUPI cdr_SUPI_update dec_string),
     (''pdu_session_id'', fld cdr_PDUSessionID cdr_PDUSessionID_update dec_string),
     (''dnn'', fld cdr_DNN cdr_DNN_update dec_string),
     (''snssai'', fld cdr_SNSSAI cdr_SNSSAI_update unmarshal_SNSSAI),
     (''volume_uplink'', fld cdr_VolumeUplink cdr_VolumeUplink_update dec_uint),
     (''volume_downlink'', fld cdr_VolumeDownlink cdr_VolumeDownlink_update dec_uint),
     (''duration_seconds'', fld cdr_Duration cdr_Duration_update dec_sint),
     (''start_time'', fld cdr_StartTime cdr_StartTime_update dec_time),
     (''end_time'', fld cdr_EndTime cdr_EndTime_update dec_time)]"

definition unmarshal_ChargingDataRecord :: "ChargingDataRecord decoder" where
  "unmarshal_ChargingDataRecord = dec_struct ChargingDataRecord_fields"

definition marshal_ChargingDataRecord :: "ChargingDataRecord \<Rightarrow> json" where
  "marshal_ChargingDataRecord x = JObj ([(''record_id'', JStr (cdr_RecordID x)),
     (''charging_id'', JStr (cdr_ChargingID x)),
     (''supi'', JStr (cdr_SUPI x)),
     (''pdu_session_id'', JStr (cdr_PDUSessionID x)),
     (''dnn'', JStr (cdr_DNN x)),
     (''snssai'', marshal_SNSSAI (cdr_SNSSAI x)),
     (''volume_uplink'', enc_uint (cdr_VolumeUplink x)),
     (''volume_downlink'', enc_uint (cdr_VolumeDownlink x)),
     (''duration_seconds'', enc_sint (cdr_Duration x)),
     (''start_time'', JTime (cdr_StartTime x)),
     (''end_time'', JTime (cdr_EndTime x))])"

lemma ChargingDataRecord_codec [simp, codec]: "unmarshal_ChargingDataRecord (marshal_ChargingDataRecord x) ChargingDataRecord_zero = Some x"
  by (cases x) (simp add: unmarshal_ChargingDataRecord_def marshal_ChargingDataRecord_def ChargingDataRecord_fields_def ChargingDataRecord_zero_def json_codec)

lemma ChargingDataRecord_not_null [simp]: "marshal_ChargingDataRecord x \<noteq> JNull"
  by (simp add: marshal_ChargingDataRecord_def)

section \<open>NSACF: slice admission\<close>

record SliceAdmissionPolicy =
  pol_SST :: int32
  pol_SD :: string
  pol_MaxUEs :: int64
  pol_MaxSessions :: int64

definition SliceAdmissionPolicy_zero :: SliceAdmissionPolicy where
  "SliceAdmissionPolicy_zero = \<lparr>pol_SST = 0,
     pol_SD = [],
     pol_MaxUEs = 0,
     pol_MaxSessions = 0\<rparr>"

definition SliceAdmissionPolicy_fields :: "SliceAdmissionPolicy fields" where
  "SliceAdmissionPolicy_fields = [(''sst'', fld pol_SST pol_SST_update dec_sint),
     (''sd'', fld pol_SD pol_SD_update dec_string),
     (''max_ues'', fld pol_MaxUEs pol_MaxUEs_update dec_sint),
     (''max_sessions'', fld pol_MaxSessions pol_MaxSessions_update dec_sint)]"

definition unmarshal_SliceAdmissionPolicy :: "SliceAdmissionPolicy decoder" where
  "unmarshal_SliceAdmissionPolicy = dec_struct SliceAdmissionPolicy_fields"

definition marshal_SliceAdmissionPolicy :: "SliceAdmissionPolicy \<Rightarrow> json" where
  "marshal_SliceAdmissionPolicy x = JObj ([(''sst'', enc_sint (pol_SST x))] @
     omitempty (pol_SD x = []) (''sd'', JStr (pol_SD x)) @
     [(''max_ues'', enc_sint (pol_MaxUEs x)),
     (''max_sessions'', enc_sint (pol_MaxSessions x))])"

lemma SliceAdmissionPolicy_codec [simp, codec]: "unmarshal_SliceAdmissionPolicy (marshal_SliceAdmissionPolicy x) SliceAdmissionPolicy_zero = Some x"
  by (cases x) (simp add: unmarshal_SliceAdmissionPolicy_def marshal_SliceAdmissionPolicy_def SliceAdmissionPolicy_fields_def SliceAdmissionPolicy_zero_def json_codec)

lemma SliceAdmissionPolicy_not_null [simp]: "marshal_SliceAdmissionPolicy x \<noteq> JNull"
  by (simp add: marshal_SliceAdmissionPolicy_def)

record SliceCounters =
  ctr_SST :: int32
  ctr_SD :: string
  ctr_CurrentUEs :: int64
  ctr_CurrentSessions :: int64

definition SliceCounters_zero :: SliceCounters where
  "SliceCounters_zero = \<lparr>ctr_SST = 0,
     ctr_SD = [],
     ctr_CurrentUEs = 0,
     ctr_CurrentSessions = 0\<rparr>"

definition SliceCounters_fields :: "SliceCounters fields" where
  "SliceCounters_fields = [(''sst'', fld ctr_SST ctr_SST_update dec_sint),
     (''sd'', fld ctr_SD ctr_SD_update dec_string),
     (''current_ues'', fld ctr_CurrentUEs ctr_CurrentUEs_update dec_sint),
     (''current_sessions'', fld ctr_CurrentSessions ctr_CurrentSessions_update dec_sint)]"

definition unmarshal_SliceCounters :: "SliceCounters decoder" where
  "unmarshal_SliceCounters = dec_struct SliceCounters_fields"

definition marshal_SliceCounters :: "SliceCounters \<Rightarrow> json" where
  "marshal_SliceCounters x = JObj ([(''sst'', enc_sint (ctr_SST x))] @
     omitempty (ctr_SD x = []) (''sd'', JStr (ctr_SD x)) @
     [(''current_ues'', enc_sint (ctr_CurrentUEs x)),
     (''current_sessions'', enc_sint (ctr_CurrentSessions x))])"

lemma SliceCounters_codec [simp, codec]: "unmarshal_SliceCounters (marshal_SliceCounters x) SliceCounters_zero = Some x"
  by (cases x) (simp add: unmarshal_SliceCounters_def marshal_SliceCounters_def SliceCounters_fields_def SliceCounters_zero_def json_codec)

lemma SliceCounters_not_null [simp]: "marshal_SliceCounters x \<noteq> JNull"
  by (simp add: marshal_SliceCounters_def)

section \<open>BSF: PCF bindings\<close>

record PCFBinding =
  bind_BindingID :: string
  bind_SUPI :: string
  bind_DNN :: string
  bind_SNSSAI :: SNSSAI
  bind_PCFAddress :: string
  bind_UEAddress :: string
  bind_PDUSessionID :: string

definition PCFBinding_zero :: PCFBinding where
  "PCFBinding_zero = \<lparr>bind_BindingID = [],
     bind_SUPI = [],
     bind_DNN = [],
     bind_SNSSAI = SNSSAI_zero,
     bind_PCFAddress = [],
     bind_UEAddress = [],
     bind_PDUSessionID = []\<rparr>"

definition PCFBinding_fields :: "PCFBinding fields" where
  "PCFBinding_fields = [(''binding_id'', fld bind_BindingID bind_BindingID_update dec_string),
     (''supi'', fld bind_SUPI bind_SUPI_update dec_string),
     (''dnn'', fld bind_DNN bind_DNN_update dec_string),
     (''snssai'', fld bind_SNSSAI bind_SNSSAI_update unmarshal_SNSSAI),
     (''pcf_address'', fld bind_PCFAddress bind_PCFAddress_update dec_string),
     (''ue_address'', fld bind_UEAddress bind_UEAddress_update dec_string),
     (''pdu_session_id'', fld bind_PDUSessionID bind_PDUSessionID_update dec_string)]"

definition unmarshal_PCFBinding :: "PCFBinding decoder" where
  "unmarshal_PCFBinding = dec_struct PCFBinding_fields"

definition marshal_PCFBinding :: "PCFBinding \<Rightarrow> json" where
  "marshal_PCFBinding x = JObj ([(''binding_id'', JStr (bind_BindingID x)),
     (''supi'', JStr (bind_SUPI x)),
     (''dnn'', JStr (bind_DNN x)),
     (''snssai'', marshal_SNSSAI (bind_SNSSAI x)),
     (''pcf_address'', JStr (bind_PCFAddress x))] @
     omitempty (bind_UEAddress x = []) (''ue_address'', JStr (bind_UEAddress x)) @
     [(''pdu_session_id'', JStr (bind_PDUSessionID x))])"

lemma PCFBinding_codec [simp, codec]: "unmarshal_PCFBinding (marshal_PCFBinding x) PCFBinding_zero = Some x"
  by (cases x) (simp add: unmarshal_PCFBinding_def marshal_PCFBinding_def PCFBinding_fields_def PCFBinding_zero_def json_codec)

lemma PCFBinding_not_null [simp]: "marshal_PCFBinding x \<noteq> JNull"
  by (simp add: marshal_PCFBinding_def)

section \<open>NF profiles\<close>

record PlmnID =
  plmn_MCC :: string
  plmn_MNC :: string

definition PlmnID_zero :: PlmnID where
  "PlmnID_zero = \<lparr>plmn_MCC = [],
     plmn_MNC = []\<rparr>"

definition PlmnID_fields :: "PlmnID fields" where
  "PlmnID_fields = [(''mcc'', fld plmn_MCC plmn_MCC_update dec_string),
     (''mnc'', fld plmn_MNC plmn_MNC_update dec_string)]"

definition unmarshal_PlmnID :: "PlmnID decoder" where
  "unmarshal_PlmnID = dec_struct PlmnID_fields"

definition marshal_PlmnID :: "PlmnID \<Rightarrow> json" where
  "marshal_PlmnID x = JObj ([(''mcc'', JStr (plmn_MCC x)),
     (''mnc'', JStr (plmn_MNC x))])"

lemma PlmnID_codec [simp, codec]: "unmarshal_PlmnID (marshal_PlmnID x) PlmnID_zero = Some x"
  by (cases x) (simp add: unmarshal_PlmnID_def marshal_PlmnID_def PlmnID_fields_def PlmnID_zero_def json_codec)

lemma PlmnID_not_null [simp]: "marshal_PlmnID x \<noteq> JNull"
  by (simp add: marshal_PlmnID_def)

record NFService =
  nfs_ServiceInstanceID :: string
  nfs_ServiceName :: string
  nfs_Versions :: "string list"
  nfs_Scheme :: string
  nfs_FQDN :: string

definition NFService_zero :: NFService where
  "NFService_zero = \<lparr>nfs_ServiceInstanceID = [],
     nfs_ServiceName = [],
     nfs_Versions = [],
     nfs_Scheme = [],
     nfs_FQDN = []\<rparr>"

definition NFService_fields :: "NFService fields" where
  "NFService_fields = [(''serviceInstanceId'', fld nfs_ServiceInstanceID nfs_ServiceInstanceID_update dec_string),
     (''serviceName'', fld nfs_ServiceName nfs_ServiceName_update dec_string),
     (''versions'', fld nfs_Versions nfs_Versions_update (dec_list dec_string [])),
     (''scheme'', fld nfs_Scheme nfs_Scheme_update dec_string),
     (''fqdn'', fld nfs_FQDN nfs_FQDN_update dec_string)]"

definition unmarshal_NFService :: "NFService decoder" where
  "unmarshal_NFService = dec_struct NFService_fields"

definition marshal_NFService :: "NFService \<Rightarrow> json" where
  "marshal_NFService x = JObj ([(''serviceInstanceId'', JStr (nfs_ServiceInstanceID x)),
     (''serviceName'', JStr (nfs_ServiceName x)),
     (''versions'', enc_list JStr (nfs_Versions x)),
     (''scheme'', JStr (nfs_Scheme x)),
     (''fqdn'', JStr (nfs_FQDN x))])"

lemma NFService_codec [simp, codec]: "unmarshal_NFService (marshal_NFService x) NFService_zero = Some x"
  by (cases x) (simp add: unmarshal_NFService_def marshal_NFService_def NFService_fields_def NFService_zero_def json_codec)

lemma NFService_not_null [simp]: "marshal_NFService x \<noteq> JNull"
  by (simp add: marshal_NFService_def)

record NFProfile =
  nf_NFInstanceID :: string
  nf_NFType :: string
  nf_NFStatus :: string
  nf_IPv4Addresses :: "string list"
  nf_NFServices :: "NFService list"
  nf_PLMN :: "PlmnID list"
  nf_HeartbeatTimer :: int64

definition NFProfile_zero :: NFProfile where
  "NFProfile_zero = \<lparr>nf_NFInstanceID = [],
     nf_NFType = [],
     nf_NFStatus = [],
     nf_IPv4Addresses = [],
     nf_NFServices = [],
     nf_PLMN = [],
     nf_HeartbeatTimer = 0\<rparr>"

definition NFProfile_fields :: "NFProfile fields" where
  "NFProfile_fields = [(''nfInstanceId'', fld nf_NFInstanceID nf_NFInstanceID_update dec_string),
     (''nfType'', fld nf_NFType nf_NFType_update dec_string),
     (''nfStatus'', fld nf_NFStatus nf_NFStatus_update dec_string),
     (''ipv4Addresses'', fld nf_IPv4Addresses nf_IPv4Addresses_update (dec_list dec_string [])),
     (''nfServices'', fld nf_NFServices nf_NFServices_update (dec_list unmarshal_NFService NFService_zero)),
     (''plmnList'', fld nf_PLMN nf_PLMN_update (dec_list unmarshal_PlmnID PlmnID_zero)),
     (''heartBeatTimer'', fld nf_HeartbeatTimer nf_HeartbeatTimer_update dec_sint)]"

definition unmarshal_NFProfile :: "NFProfile decoder" where
  "unmarshal_NFProfile = dec_struct NFProfile_fields"

definition marshal_NFProfile :: "NFProfile \<Rightarrow> json" where
  "marshal_NFProfile x = JObj ([(''nfInstanceId'', JStr (nf_NFInstanceID x)),
     (''nfType'', JStr (nf_NFType x)),
     (''nfStatus'', JStr (nf_NFStatus x)),
     (''ipv4Addresses'', enc_list JStr (nf_IPv4Addresses x)),
     (''nfServices'', enc_list marshal_NFService (nf_NFServices x)),
     (''plmnList'', enc_list marshal_PlmnID (nf_PLMN x)),
     (''heartBeatTimer'', enc_sint (nf_HeartbeatTimer x))])"

lemma NFProfile_codec [simp, codec]: "unmarshal_NFProfile (marshal_NFProfile x) NFProfile_zero = Some x"
  by (cases x) (simp add: unmarshal_NFProfile_def marshal_NFProfile_def NFProfile_fields_def NFProfile_zero_def json_codec)

lemma NFProfile_not_null [simp]: "marshal_NFProfile x \<noteq> JNull"
  by (simp add: marshal_NFProfile_def)


end
