(* ===== verification/KVStore.thy ===== *)
theory KVStore
  imports Json "HOL-Library.AList"
begin

text \<open>
  The storage abstraction \<^verbatim>\<open>pkg/state\<close>.  \<open>KVStore\<close> is the Go interface (\<^verbatim>\<open>store.go\<close>): three
  operations over an implementation's own state \<open>'s\<close>.  \<open>MockKVStore\<close> (\<^verbatim>\<open>mock.go\<close>) is the
  in-memory implementation; \<open>RedisStore\<close> and \<open>EtcdStore\<close> (\<^verbatim>\<open>redis.go\<close>, \<^verbatim>\<open>etcd.go\<close>) are written
  over a client, which is third-party code and therefore a parameter.

  The locale \<open>kv_store\<close> is the contract the functions rely on: what a successful operation does
  to the contents, and that a failed one either did or did not take effect.  The locale
  \<open>reliable_store\<close> adds that no operation fails.  The mock satisfies both; the Redis and the etcd
  store satisfy \<open>kv_store\<close> whenever their client behaves as documented.
\<close>

section \<open>Errors\<close>

text \<open>
  The error values of the program.  The wording of \<open>encoding/json\<close>'s own messages and the
  response body quoted in an SBI status error are not kept.
\<close>

datatype goerr =
    KeyNotFound string
  | StoreErr string
  | JsonErr
  | TransportErr string string
  | StatusErr string int
  | ExtErr string

fun err_text :: "goerr \<Rightarrow> string" where
  "err_text (KeyNotFound k) = ''key '' @ k @ '' not found''"
| "err_text (StoreErr t) = t"
| "err_text JsonErr = ''json: cannot unmarshal''"
| "err_text (TransportErr f t) = ''call '' @ f @ '': '' @ t"
| "err_text (StatusErr f n) = f @ '' returned '' @ show_int n"
| "err_text (ExtErr t) = t"

text \<open>\<open>strings.Contains(err.Error(), "not found")\<close>.\<close>

definition is_not_found :: "goerr \<Rightarrow> bool" where
  "is_not_found e = contains (err_text e) ''not found''"

lemma is_not_found_key [simp]: "is_not_found (KeyNotFound k)"
  using contains_suffix [of "''key '' @ k @ '' ''" "''not found''"] by (simp add: is_not_found_def)

lemma is_not_found_json [simp]: "\<not> is_not_found JsonErr"
  by (simp add: is_not_found_def)

section \<open>The interface\<close>

record 's KVStore =
  kv_Put :: "string \<Rightarrow> json \<Rightarrow> 's \<Rightarrow> goerr option \<times> 's"
  kv_Get :: "string \<Rightarrow> 's \<Rightarrow> (goerr + json) \<times> 's"
  kv_Delete :: "string \<Rightarrow> 's \<Rightarrow> goerr option \<times> 's"

text \<open>\<open>Get\<close> into a destination of a given type: the document is decoded into its zero value.\<close>

definition kv_get_as :: "'s KVStore \<Rightarrow> 'a decoder \<Rightarrow> 'a \<Rightarrow> string \<Rightarrow> 's \<Rightarrow> (goerr + 'a) \<times> 's" where
  "kv_get_as kv dec zero k s =
     (case kv_Get kv k s of
        (Inl e, s') \<Rightarrow> (Inl e, s')
      | (Inr j, s') \<Rightarrow> ((case dec j zero of None \<Rightarrow> Inl JsonErr | Some v \<Rightarrow> Inr v), s'))"

locale kv_store =
  fixes kv :: "'s KVStore"
    and view :: "'s \<Rightarrow> string \<rightharpoonup> json"
  assumes put_ok: "kv_Put kv k j s = (None, s') \<Longrightarrow> view s' = (view s)(k \<mapsto> j)"
    and put_err: "kv_Put kv k j s = (Some e, s') \<Longrightarrow> view s' = view s \<or> view s' = (view s)(k \<mapsto> j)"
    and get_view: "kv_Get kv k s = (r, s') \<Longrightarrow> view s' = view s"
    and get_ok: "kv_Get kv k s = (Inr j, s') \<Longrightarrow> view s k = Some j"
    and get_missing: "kv_Get kv k s = (Inl (KeyNotFound k'), s') \<Longrightarrow> view s k = None"
    and del_ok: "kv_Delete kv k s = (None, s') \<Longrightarrow> view s' = (view s)(k := None)"
    and del_err: "kv_Delete kv k s = (Some e, s') \<Longrightarrow> view s' = view s \<or> view s' = (view s)(k := None)"
begin

lemma put_other: "kv_Put kv k j s = (r, s') \<Longrightarrow> k' \<noteq> k \<Longrightarrow> view s' k' = view s k'"
  using put_ok put_err by (cases r) fastforce+

lemma del_other: "kv_Delete kv k s = (r, s') \<Longrightarrow> k' \<noteq> k \<Longrightarrow> view s' k' = view s k'"
  using del_ok del_err by (cases r) fastforce+

lemma get_as_view: "kv_get_as kv dec zero k s = (r, s') \<Longrightarrow> view s' = view s"
  using get_view by (auto simp: kv_get_as_def split: prod.splits sum.splits)

lemma get_as_ok:
  "kv_get_as kv dec zero k s = (Inr v, s') \<Longrightarrow> \<exists>j. view s k = Some j \<and> dec j zero = Some v"
  using get_ok by (fastforce simp: kv_get_as_def split: prod.splits sum.splits option.splits)

text \<open>What was put is what a later read returns, if that read succeeds.\<close>

lemma put_get:
  assumes "kv_Put kv k j s = (None, s1)" "kv_Get kv k s1 = (Inr j', s2)"
  shows "j' = j"
  using put_ok [OF assms(1)] get_ok [OF assms(2)] by simp

end

locale reliable_store = kv_store +
  assumes put_total: "fst (kv_Put kv k j s) = None"
    and get_total: "fst (kv_Get kv k s) = (case view s k of None \<Rightarrow> Inl (KeyNotFound k) | Some j \<Rightarrow> Inr j)"
    and del_total: "fst (kv_Delete kv k s) = None"
begin

lemma put_view: "view (snd (kv_Put kv k j s)) = (view s)(k \<mapsto> j)"
  using put_ok [of k j s "snd (kv_Put kv k j s)"] put_total [of k j s]
  by (metis prod.collapse)

lemma del_view: "view (snd (kv_Delete kv k s)) = (view s)(k := None)"
  using del_ok [of k s "snd (kv_Delete kv k s)"] del_total [of k s] by (metis prod.collapse)

lemma get_state: "view (snd (kv_Get kv k s)) = view s"
  using get_view by (metis prod.collapse)

end

section \<open>MockKVStore\<close>

text \<open>
  The map behind the mutex; each operation holds the lock for its whole body, so operations are
  atomic.
\<close>

definition MockKVStore_Put :: "string \<Rightarrow> json \<Rightarrow> (string \<rightharpoonup> json) \<Rightarrow> goerr option \<times> (string \<rightharpoonup> json)" where
  "MockKVStore_Put key value data = (None, data(key \<mapsto> value))"

definition MockKVStore_Get :: "string \<Rightarrow> (string \<rightharpoonup> json) \<Rightarrow> (goerr + json) \<times> (string \<rightharpoonup> json)" where
  "MockKVStore_Get key data =
     ((case data key of None \<Rightarrow> Inl (KeyNotFound key) | Some v \<Rightarrow> Inr v), data)"

definition MockKVStore_Delete :: "string \<Rightarrow> (string \<rightharpoonup> json) \<Rightarrow> goerr option \<times> (string \<rightharpoonup> json)" where
  "MockKVStore_Delete key data = (None, data(key := None))"

definition MockKVStore :: "(string \<rightharpoonup> json) KVStore" where
  "MockKVStore = \<lparr>kv_Put = MockKVStore_Put, kv_Get = MockKVStore_Get, kv_Delete = MockKVStore_Delete\<rparr>"

definition NewMockKVStore :: "string \<rightharpoonup> json" where
  "NewMockKVStore = Map.empty"

lemmas mock_defs = MockKVStore_def MockKVStore_Put_def MockKVStore_Get_def MockKVStore_Delete_def

lemma mock_simps [simp]:
  "kv_Put MockKVStore k j m = (None, m(k \<mapsto> j))"
  "kv_Get MockKVStore k m = ((case m k of None \<Rightarrow> Inl (KeyNotFound k) | Some v \<Rightarrow> Inr v), m)"
  "kv_Delete MockKVStore k m = (None, m(k := None))"
  by (simp_all add: mock_defs)

interpretation mock: reliable_store MockKVStore "\<lambda>m. m"
  by unfold_locales (auto split: option.splits)

section \<open>RedisStore\<close>

text \<open>
  The go-redis client: \<open>SET\<close> with a time to live, \<open>GET\<close>, \<open>DEL\<close> and \<open>EXISTS\<close> on the server's state.
  \<open>redis.Nil\<close> is the answer for a key that does not exist.
\<close>

datatype redis_err = RedisNil | RedisErr string

record 's redis_client =
  rd_Set :: "string \<Rightarrow> json \<Rightarrow> int \<Rightarrow> 's \<Rightarrow> string option \<times> 's"
  rd_Get :: "string \<Rightarrow> 's \<Rightarrow> (redis_err + json) \<times> 's"
  rd_Del :: "string \<Rightarrow> 's \<Rightarrow> string option \<times> 's"
  rd_Exists :: "string \<Rightarrow> 's \<Rightarrow> (string + int) \<times> 's"

definition RedisStore_Set :: "'s redis_client \<Rightarrow> string \<Rightarrow> json \<Rightarrow> int \<Rightarrow> 's \<Rightarrow> goerr option \<times> 's" where
  "RedisStore_Set c key value ttl s = apfst (map_option StoreErr) (rd_Set c key value ttl s)"

definition RedisStore_Put :: "'s redis_client \<Rightarrow> string \<Rightarrow> json \<Rightarrow> 's \<Rightarrow> goerr option \<times> 's" where
  "RedisStore_Put c key value s = RedisStore_Set c key value 0 s"

definition RedisStore_Get :: "'s redis_client \<Rightarrow> string \<Rightarrow> 's \<Rightarrow> (goerr + json) \<times> 's" where
  "RedisStore_Get c key s =
     (case rd_Get c key s of
        (Inl RedisNil, s') \<Rightarrow> (Inl (KeyNotFound key), s')
      | (Inl (RedisErr t), s') \<Rightarrow> (Inl (StoreErr (''get '' @ key @ '': '' @ t)), s')
      | (Inr j, s') \<Rightarrow> (Inr j, s'))"

definition RedisStore_Delete :: "'s redis_client \<Rightarrow> string \<Rightarrow> 's \<Rightarrow> goerr option \<times> 's" where
  "RedisStore_Delete c key s = apfst (map_option StoreErr) (rd_Del c key s)"

definition RedisStore_Exists :: "'s redis_client \<Rightarrow> string \<Rightarrow> 's \<Rightarrow> (goerr + bool) \<times> 's" where
  "RedisStore_Exists c key s =
     (case rd_Exists c key s of
        (Inl t, s') \<Rightarrow> (Inl (StoreErr t), s')
      | (Inr n, s') \<Rightarrow> (Inr (n > 0), s'))"

definition RedisStore :: "'s redis_client \<Rightarrow> 's KVStore" where
  "RedisStore c = \<lparr>kv_Put = RedisStore_Put c, kv_Get = RedisStore_Get c, kv_Delete = RedisStore_Delete c\<rparr>"

text \<open>Redis's documented commands, for keys without expiry.\<close>

locale redis_server =
  fixes c :: "'s redis_client"
    and keys :: "'s \<Rightarrow> string \<rightharpoonup> json"
  assumes set_ok: "rd_Set c k j 0 s = (None, s') \<Longrightarrow> keys s' = (keys s)(k \<mapsto> j)"
    and set_err: "rd_Set c k j 0 s = (Some t, s') \<Longrightarrow> keys s' = keys s \<or> keys s' = (keys s)(k \<mapsto> j)"
    and get_keys: "rd_Get c k s = (r, s') \<Longrightarrow> keys s' = keys s"
    and get_value: "rd_Get c k s = (Inr j, s') \<Longrightarrow> keys s k = Some j"
    and get_nil: "rd_Get c k s = (Inl RedisNil, s') \<Longrightarrow> keys s k = None"
    and del_done: "rd_Del c k s = (None, s') \<Longrightarrow> keys s' = (keys s)(k := None)"
    and del_fail: "rd_Del c k s = (Some t, s') \<Longrightarrow> keys s' = keys s \<or> keys s' = (keys s)(k := None)"

sublocale redis_server \<subseteq> rs: kv_store "RedisStore c" keys
proof
  note defs = RedisStore_def RedisStore_Put_def RedisStore_Set_def RedisStore_Get_def
    RedisStore_Delete_def apfst_def map_prod_def
  fix k k' j s s' e r
  show "kv_Put (RedisStore c) k j s = (None, s') \<Longrightarrow> keys s' = (keys s)(k \<mapsto> j)"
    using set_ok by (auto simp: defs split: prod.splits)
  show "kv_Put (RedisStore c) k j s = (Some e, s') \<Longrightarrow> keys s' = keys s \<or> keys s' = (keys s)(k \<mapsto> j)"
    by (cases "rd_Set c k j 0 s") (auto simp: defs dest: set_err)
  show "kv_Get (RedisStore c) k s = (r, s') \<Longrightarrow> keys s' = keys s"
    using get_keys by (auto simp: defs split: prod.splits sum.splits redis_err.splits)
  show "kv_Get (RedisStore c) k s = (Inr j, s') \<Longrightarrow> keys s k = Some j"
    using get_value by (auto simp: defs split: prod.splits sum.splits redis_err.splits)
  show "kv_Get (RedisStore c) k s = (Inl (KeyNotFound k'), s') \<Longrightarrow> keys s k = None"
    using get_nil by (auto simp: defs split: prod.splits sum.splits redis_err.splits)
  show "kv_Delete (RedisStore c) k s = (None, s') \<Longrightarrow> keys s' = (keys s)(k := None)"
    using del_done by (auto simp: defs split: prod.splits)
  show "kv_Delete (RedisStore c) k s = (Some e, s') \<Longrightarrow> keys s' = keys s \<or> keys s' = (keys s)(k := None)"
    by (cases "rd_Del c k s") (auto simp: defs dest: del_fail)
qed

text \<open>An in-memory server that meets the contract, as the mock of the tests does.\<close>

definition mem_redis :: "(string \<rightharpoonup> json) redis_client" where
  "mem_redis = \<lparr>rd_Set = \<lambda>k j ttl m. (None, m(k \<mapsto> j)),
     rd_Get = \<lambda>k m. ((case m k of None \<Rightarrow> Inl RedisNil | Some j \<Rightarrow> Inr j), m),
     rd_Del = \<lambda>k m. (None, m(k := None)),
     rd_Exists = \<lambda>k m. (Inr (if m k = None then 0 else 1), m)\<rparr>"

interpretation mem: redis_server mem_redis "\<lambda>m. m"
  by unfold_locales (auto simp: mem_redis_def split: option.splits)

text \<open>On such a server the Redis store and the mock are the same store.\<close>

lemma RedisStore_mem_redis: "RedisStore mem_redis = MockKVStore"
proof -
  have "RedisStore_Put mem_redis = MockKVStore_Put" "RedisStore_Get mem_redis = MockKVStore_Get"
    "RedisStore_Delete mem_redis = MockKVStore_Delete"
    by (auto simp: fun_eq_iff mem_redis_def RedisStore_Put_def RedisStore_Set_def RedisStore_Get_def
        RedisStore_Delete_def mock_defs split: option.splits)
  then show ?thesis by (simp add: RedisStore_def MockKVStore_def)
qed

section \<open>EtcdStore\<close>

text \<open>
  The etcd client: \<open>Put\<close>, \<open>Get\<close> without and with \<open>clientv3.WithPrefix\<close>, \<open>Delete\<close>.  A \<open>Get\<close> answers with
  the list of key-value pairs found.
\<close>

definition starts_with :: "string \<Rightarrow> string \<Rightarrow> bool" where
  "starts_with p k \<longleftrightarrow> take (length p) k = p"

lemma starts_with_append [simp]: "starts_with p (p @ k)"
  by (simp add: starts_with_def)

record 's etcd_client =
  et_Put :: "string \<Rightarrow> json \<Rightarrow> 's \<Rightarrow> string option \<times> 's"
  et_Get :: "string \<Rightarrow> bool \<Rightarrow> 's \<Rightarrow> (string + (string \<times> json) list) \<times> 's"
  et_Delete :: "string \<Rightarrow> 's \<Rightarrow> string option \<times> 's"

definition EtcdStore_Put :: "'s etcd_client \<Rightarrow> string \<Rightarrow> json \<Rightarrow> 's \<Rightarrow> goerr option \<times> 's" where
  "EtcdStore_Put c key value s = apfst (map_option StoreErr) (et_Put c key value s)"

definition EtcdStore_Get :: "'s etcd_client \<Rightarrow> string \<Rightarrow> 's \<Rightarrow> (goerr + json) \<times> 's" where
  "EtcdStore_Get c key s =
     (case et_Get c key False s of
        (Inl t, s') \<Rightarrow> (Inl (StoreErr t), s')
      | (Inr kvs, s') \<Rightarrow> ((case kvs of [] \<Rightarrow> Inl (KeyNotFound key) | e # _ \<Rightarrow> Inr (snd e)), s'))"

definition EtcdStore_GetByPrefix :: "'s etcd_client \<Rightarrow> string \<Rightarrow> 's \<Rightarrow> (goerr + json list) \<times> 's" where
  "EtcdStore_GetByPrefix c p s =
     (case et_Get c p True s of
        (Inl t, s') \<Rightarrow> (Inl (StoreErr t), s')
      | (Inr kvs, s') \<Rightarrow> (Inr (map snd kvs), s'))"

definition EtcdStore_Delete :: "'s etcd_client \<Rightarrow> string \<Rightarrow> 's \<Rightarrow> goerr option \<times> 's" where
  "EtcdStore_Delete c key s = apfst (map_option StoreErr) (et_Delete c key s)"

definition EtcdStore :: "'s etcd_client \<Rightarrow> 's KVStore" where
  "EtcdStore c = \<lparr>kv_Put = EtcdStore_Put c, kv_Get = EtcdStore_Get c, kv_Delete = EtcdStore_Delete c\<rparr>"

text \<open>The interface \<open>NRFStore\<close> of the discovery function: a store with prefix queries.\<close>

record 's NRFStore =
  nrf_kv :: "'s KVStore"
  nrf_GetByPrefix :: "string \<Rightarrow> 's \<Rightarrow> (goerr + json list) \<times> 's"

definition EtcdNRFStore :: "'s etcd_client \<Rightarrow> 's NRFStore" where
  "EtcdNRFStore c = \<lparr>nrf_kv = EtcdStore c, nrf_GetByPrefix = EtcdStore_GetByPrefix c\<rparr>"

text \<open>Its contract: a prefix query reads, and returns the documents under all keys with the prefix.\<close>

locale nrf_store = kv_store "nrf_kv ns" view
  for ns :: "'s NRFStore" and view :: "'s \<Rightarrow> string \<rightharpoonup> json" +
  assumes prefix_view: "nrf_GetByPrefix ns p s = (r, s') \<Longrightarrow> view s' = view s"
    and prefix_docs: "nrf_GetByPrefix ns p s = (Inr js, s') \<Longrightarrow> set js = {j. \<exists>k. view s k = Some j \<and> starts_with p k}"

text \<open>etcd's documented operations.\<close>

locale etcd_server =
  fixes c :: "'s etcd_client"
    and keys :: "'s \<Rightarrow> string \<rightharpoonup> json"
  assumes put_done: "et_Put c k j s = (None, s') \<Longrightarrow> keys s' = (keys s)(k \<mapsto> j)"
    and put_fail: "et_Put c k j s = (Some t, s') \<Longrightarrow> keys s' = keys s \<or> keys s' = (keys s)(k \<mapsto> j)"
    and get_keys: "et_Get c k pre s = (r, s') \<Longrightarrow> keys s' = keys s"
    and get_one: "et_Get c k False s = (Inr kvs, s') \<Longrightarrow> kvs = (case keys s k of None \<Rightarrow> [] | Some j \<Rightarrow> [(k, j)])"
    and get_range: "et_Get c k True s = (Inr kvs, s') \<Longrightarrow> set kvs = {(k', j). keys s k' = Some j \<and> starts_with k k'}"
    and delete_done: "et_Delete c k s = (None, s') \<Longrightarrow> keys s' = (keys s)(k := None)"
    and delete_fail: "et_Delete c k s = (Some t, s') \<Longrightarrow> keys s' = keys s \<or> keys s' = (keys s)(k := None)"

sublocale etcd_server \<subseteq> es: nrf_store "EtcdNRFStore c" keys
proof
  note defs = EtcdNRFStore_def EtcdStore_def EtcdStore_Put_def EtcdStore_Get_def EtcdStore_GetByPrefix_def
    EtcdStore_Delete_def apfst_def map_prod_def
  fix p k k' j js s s' e and r :: "goerr + json" and q :: "goerr + json list"
  show "kv_Put (nrf_kv (EtcdNRFStore c)) k j s = (None, s') \<Longrightarrow> keys s' = (keys s)(k \<mapsto> j)"
    using put_done by (auto simp: defs split: prod.splits)
  show "kv_Put (nrf_kv (EtcdNRFStore c)) k j s = (Some e, s') \<Longrightarrow> keys s' = keys s \<or> keys s' = (keys s)(k \<mapsto> j)"
    by (cases "et_Put c k j s") (auto simp: defs dest: put_fail)
  show "kv_Get (nrf_kv (EtcdNRFStore c)) k s = (r, s') \<Longrightarrow> keys s' = keys s"
    using get_keys by (auto simp: defs split: prod.splits sum.splits)
  show "kv_Get (nrf_kv (EtcdNRFStore c)) k s = (Inr j, s') \<Longrightarrow> keys s k = Some j"
    by (auto simp: defs split: prod.splits sum.splits list.splits dest!: get_one split: option.splits)
  show "kv_Get (nrf_kv (EtcdNRFStore c)) k s = (Inl (KeyNotFound k'), s') \<Longrightarrow> keys s k = None"
    by (auto simp: defs split: prod.splits sum.splits list.splits dest!: get_one split: option.splits)
  show "kv_Delete (nrf_kv (EtcdNRFStore c)) k s = (None, s') \<Longrightarrow> keys s' = (keys s)(k := None)"
    using delete_done by (auto simp: defs split: prod.splits)
  show "kv_Delete (nrf_kv (EtcdNRFStore c)) k s = (Some e, s') \<Longrightarrow> keys s' = keys s \<or> keys s' = (keys s)(k := None)"
    by (cases "et_Delete c k s") (auto simp: defs dest: delete_fail)
  show "nrf_GetByPrefix (EtcdNRFStore c) p s = (q, s') \<Longrightarrow> keys s' = keys s"
    using get_keys by (auto simp: defs split: prod.splits sum.splits)
  show "nrf_GetByPrefix (EtcdNRFStore c) p s = (Inr js, s') \<Longrightarrow> set js = {j. \<exists>k. keys s k = Some j \<and> starts_with p k}"
    by (cases "et_Get c p True s") (force simp: defs split: sum.splits dest: get_range)
qed

text \<open>An in-memory server that meets the contract: an association list.\<close>

definition mem_etcd :: "(string \<times> json) list etcd_client" where
  "mem_etcd = \<lparr>et_Put = \<lambda>k j m. (None, AList.update k j m),
     et_Get = \<lambda>k pre m. (Inr (if pre then filter (\<lambda>e. starts_with k (fst e)) (AList.clearjunk m)
        else case map_of m k of None \<Rightarrow> [] | Some j \<Rightarrow> [(k, j)]), m),
     et_Delete = \<lambda>k m. (None, AList.delete k m)\<rparr>"

interpretation memd: etcd_server mem_etcd map_of
proof
  fix k s kvs s'
  show "et_Get mem_etcd k True s = (Inr kvs, s') \<Longrightarrow> set kvs = {(k', j). map_of s k' = Some j \<and> starts_with k k'}"
    by (auto simp: mem_etcd_def graph_map_of [symmetric] intro: in_graphI dest: in_graphD)
qed (auto simp: mem_etcd_def update_conv' delete_conv' fun_eq_iff)

end
