(* ===== verification/Faas.thy ===== *)
theory Faas
  imports Models KVStore
begin

text \<open>
  The function runtime: requests and responses of the OpenFaaS template SDK, the query strings
  some functions read, the state outside a function that a run can change (\<open>world\<close>: the store, the
  clock, the process-wide counters, the random source), and the SBI client \<^verbatim>\<open>pkg/sbi/client.go\<close>
  by which one function calls another.

  A handler is a value of the state monad over \<open>'s world\<close>.  \<open>wp m Q w\<close> says that running \<open>m\<close> from
  \<open>w\<close> ends in a result and a world that satisfy \<open>Q\<close>; its equations drive the handler proofs.
\<close>

named_theorems wp \<open>weakest preconditions of the handler combinators\<close>

section \<open>Requests and responses\<close>

text \<open>
  A response body is a JSON document, text that \<open>fmt.Sprintf\<close> put together, or empty.  The text
  bodies are the error bodies of the functions that do not marshal them; no caller decodes them.
\<close>

datatype body = BJson json | BText string | BEmpty

fun body_doc :: "body \<Rightarrow> json option" where
  "body_doc (BJson j) = Some j"
| "body_doc _ = None"

record request =
  rq_Body :: "json option"
  rq_QueryString :: string

record response =
  rs_StatusCode :: int
  rs_Body :: body
  rs_Header :: "(string \<times> string) list"

definition jsonHeader :: "(string \<times> string) list" where
  "jsonHeader = [(''Content-Type'', ''application/json'')]"

definition json_resp :: "int \<Rightarrow> json \<Rightarrow> response" where
  "json_resp status j = \<lparr>rs_StatusCode = status, rs_Body = BJson j, rs_Header = jsonHeader\<rparr>"

text \<open>The \<open>errorResp\<close> of the AMF functions (a marshalled map) and the one of all others (text).\<close>

definition amf_errorResp :: "int \<Rightarrow> string \<Rightarrow> response" where
  "amf_errorResp status msg =
     \<lparr>rs_StatusCode = status, rs_Body = BJson (JObj [(''error'', JStr msg)]), rs_Header = []\<rparr>"

definition amf_errorRespWithNAS :: "int \<Rightarrow> string \<Rightarrow> string \<Rightarrow> response" where
  "amf_errorRespWithNAS status nasHex msg =
     \<lparr>rs_StatusCode = status,
      rs_Body = BJson (JObj [(''error'', JStr msg), (''nas_message'', JStr nasHex)]),
      rs_Header = []\<rparr>"

definition errorResp :: "int \<Rightarrow> string \<Rightarrow> response" where
  "errorResp code msg =
     \<lparr>rs_StatusCode = code, rs_Body = BText (''{\"error\":\"'' @ msg @ ''\"}''), rs_Header = jsonHeader\<rparr>"

definition problemResp :: "int \<Rightarrow> string \<Rightarrow> string \<Rightarrow> response" where
  "problemResp status cause detail =
     \<lparr>rs_StatusCode = status,
      rs_Body = BJson (marshal_ProblemDetails (NewProblemDetails status cause detail)),
      rs_Header = [(''Content-Type'', ''application/problem+json'')]\<rparr>"

definition problemRespWithNAS :: "int \<Rightarrow> string \<Rightarrow> string \<Rightarrow> string \<Rightarrow> response" where
  "problemRespWithNAS status cause detail nasHex =
     \<lparr>rs_StatusCode = status,
      rs_Body = BJson (marshal_ProblemDetails (NewProblemDetails status cause detail)),
      rs_Header = [(''Content-Type'', ''application/problem+json''), (''X-Nas-Message'', nasHex)]\<rparr>"

text \<open>A run that panics writes no response; the caller's HTTP client sees a broken connection.  The
  model of such a run ends in this value.\<close>

definition crash_resp :: response where
  "crash_resp = \<lparr>rs_StatusCode = 0, rs_Body = BEmpty, rs_Header = []\<rparr>"

lemma resp_simps [simp, go_simps]:
  "rs_StatusCode (json_resp n j) = n"
  "rs_Body (json_resp n j) = BJson j"
  "rs_StatusCode (amf_errorResp n t) = n"
  "rs_StatusCode (amf_errorRespWithNAS n h t) = n"
  "rs_StatusCode (errorResp n t) = n"
  "rs_StatusCode (problemResp n c d) = n"
  "rs_StatusCode (problemRespWithNAS n c d h) = n"
  "rs_StatusCode crash_resp = 0"
  by (simp_all add: crash_resp_def json_resp_def amf_errorResp_def amf_errorRespWithNAS_def errorResp_def
      problemResp_def problemRespWithNAS_def)

section \<open>Query strings\<close>

text \<open>\<open>url.QueryUnescape\<close>; \<open>None\<close> is its error.\<close>

fun query_unescape :: "string \<Rightarrow> string option" where
  "query_unescape [] = Some []"
| "query_unescape (c # cs) =
     (if c = CHR ''%'' then
        (case cs of
           a # b # ds \<Rightarrow>
             (case (hex_val a, hex_val b) of
                (Some x, Some y) \<Rightarrow> map_option (Cons (char_of (16 * x + y))) (query_unescape ds)
              | _ \<Rightarrow> None)
         | _ \<Rightarrow> None)
      else map_option (Cons (if c = CHR ''+'' then CHR '' '' else c)) (query_unescape cs))"

definition query_pair :: "string \<Rightarrow> (string \<times> string) option" where
  "query_pair p =
     (let k = takeWhile (\<lambda>c. c \<noteq> CHR ''='') p; v = drop (length k + 1) p in
      case (query_unescape k, query_unescape v) of
        (Some k', Some v') \<Rightarrow> Some (k', v')
      | _ \<Rightarrow> None)"

text \<open>\<open>url.ParseQuery\<close>; \<open>None\<close> when it reports an error for any of the pairs.\<close>

definition ParseQuery :: "string \<Rightarrow> (string \<times> string) list option" where
  "ParseQuery q =
     (let ps = filter (\<lambda>p. p \<noteq> []) (split_on (CHR ''&'') q) in
      if list_ex (\<lambda>p. CHR '';'' \<in> set p) ps then None else those (map query_pair ps))"

text \<open>\<open>params.Get(k)\<close>: the first value, or the empty string.\<close>

definition values_Get :: "(string \<times> string) list \<Rightarrow> string \<Rightarrow> string" where
  "values_Get ps k = (case map_of ps k of None \<Rightarrow> [] | Some v \<Rightarrow> v)"

definition query_param :: "request \<Rightarrow> string \<Rightarrow> string" where
  "query_param req k =
     (if rq_QueryString req = [] then []
      else (case ParseQuery (rq_QueryString req) of None \<Rightarrow> [] | Some ps \<Rightarrow> values_Get ps k))"

section \<open>The world of a function\<close>

text \<open>
  \<open>w_times\<close> are the readings of the clock, in nanoseconds, and \<open>w_reads\<close> the number of readings
  taken; \<open>w_rand\<close> and \<open>w_draws\<close> are the same for \<open>crypto/rand\<close> (\<open>None\<close>: the read failed).  The
  counters are the package variables of the functions that have one, \<open>w_pfcpSeq\<close> the sequence number
  of the PFCP client, and \<open>w_n4\<close> the datagrams handed to its sender so far.
\<close>

record 's world =
  w_store :: 's
  w_times :: "nat \<Rightarrow> int"
  w_reads :: nat
  w_rand :: "nat \<Rightarrow> bytes option"
  w_draws :: nat
  w_amfUeNgapIDCounter :: int64
  w_ipPoolSubnet :: uint32
  w_ipPoolHost :: uint32
  w_seidCounter :: uint64
  w_chargingCounter :: uint64
  w_bindingCounter :: uint64
  w_policyCounter :: uint64
  w_subCounter :: uint64
  w_pfcpSeq :: uint32
  w_n4 :: "bytes list"

type_synonym ('s, 'a) handler = "('s world, 'a) state"

definition world_init :: "'s \<Rightarrow> 's world" where
  "world_init s = \<lparr>w_store = s, w_times = (\<lambda>n. int n), w_reads = 0,
     w_rand = (\<lambda>n. Some (replicate 16 (of_nat n))), w_draws = 0,
     w_amfUeNgapIDCounter = 0, w_ipPoolSubnet = 0, w_ipPoolHost = 1, w_seidCounter = 0,
     w_chargingCounter = 0, w_bindingCounter = 0, w_policyCounter = 0, w_subCounter = 0, w_pfcpSeq = 0, w_n4 = []\<rparr>"

section \<open>Weakest preconditions\<close>

definition wp :: "('w, 'a) state \<Rightarrow> ('a \<Rightarrow> 'w \<Rightarrow> bool) \<Rightarrow> 'w \<Rightarrow> bool" where
  "wp m Q w = (case run_state m w of (a, w') \<Rightarrow> Q a w')"

lemma wp_basic [wp]:
  "wp (State_Monad.return a) Q = Q a"
  "wp (State_Monad.bind m f) R = wp m (\<lambda>a. wp (f a) R)"
  "wp State_Monad.get S = (\<lambda>w. S w w)"
  "wp (State_Monad.set w') T = (\<lambda>w. T () w')"
  by (simp_all add: fun_eq_iff wp_def State_Monad.return_def State_Monad.bind_def State_Monad.get_def
      State_Monad.set_def split: prod.splits)

lemma wp_if [wp]: "wp (if b then m else n) Q = (if b then wp m Q else wp n Q)"
  by simp

lemma wp_Let [wp]: "wp (Let a f) Q = wp (f a) Q"
  by (simp add: Let_def)

lemma wp_case_option [wp]:
  "wp (case x of None \<Rightarrow> m | Some a \<Rightarrow> f a) Q = (case x of None \<Rightarrow> wp m Q | Some a \<Rightarrow> wp (f a) Q)"
  by (cases x) simp_all

lemma wp_case_res [wp]:
  "wp (case x of Ok a \<Rightarrow> f a | Error e \<Rightarrow> g e | Panic \<Rightarrow> m) Q =
     (case x of Ok a \<Rightarrow> wp (f a) Q | Error e \<Rightarrow> wp (g e) Q | Panic \<Rightarrow> wp m Q)"
  by (cases x) simp_all

lemma wp_case_prod [wp]: "wp (case x of (a, b) \<Rightarrow> f a b) Q = (case x of (a, b) \<Rightarrow> wp (f a b) Q)"
  by (cases x) simp

text \<open>Evaluating a run.\<close>

lemma status_wp: "rs_StatusCode (fst (run_state m w)) = n \<longleftrightarrow> wp m (\<lambda>r _. rs_StatusCode r = n) w"
  by (simp add: wp_def split_beta)

lemma run_state_eq: "wp m (\<lambda>a' w''. a' = a \<and> w'' = w') w \<Longrightarrow> run_state m w = (a, w')"
  by (simp add: wp_def prod_eq_iff split_beta)

lemma wp_any: "(\<And>a w'. Q a w') \<Longrightarrow> wp m Q w"
  by (simp add: wp_def split_beta)

lemma wp_mono: "wp m Q w \<Longrightarrow> (\<And>a w'. Q a w' \<Longrightarrow> R a w') \<Longrightarrow> wp m R w"
  by (auto simp: wp_def)

lemma wp_conj: "wp m Q w \<Longrightarrow> wp m R w \<Longrightarrow> wp m (\<lambda>a w'. Q a w' \<and> R a w') w"
  by (auto simp: wp_def)

lemma wp_run: "run_state m w = (a, w') \<Longrightarrow> wp m Q w = Q a w'"
  by (simp add: wp_def)

lemma wpD: "wp m Q w \<Longrightarrow> run_state m w = (a, w') \<Longrightarrow> Q a w'"
  by (simp add: wp_def)

section \<open>Operations of a function\<close>

text \<open>An update of the package variables, and a best-effort call whose result is dropped.\<close>

definition modify :: "('w \<Rightarrow> 'w) \<Rightarrow> ('w, unit) state" where
  "modify f = State (\<lambda>w. ((), f w))"

text \<open>A \<open>for _, x := range xs\<close> loop; the body may end the handler with a result.\<close>

fun forEach :: "'a list \<Rightarrow> ('a \<Rightarrow> ('w, 'r option) state) \<Rightarrow> ('w, 'r option) state" where
  "forEach [] body = State_Monad.return None"
| "forEach (x # xs) body = State_Monad.bind (body x)
     (\<lambda>r. case r of None \<Rightarrow> forEach xs body | Some v \<Rightarrow> State_Monad.return (Some v))"

definition timeNow :: "('s, int) handler" where
  "timeNow = State (\<lambda>w. (w_times w (w_reads w), w\<lparr>w_reads := w_reads w + 1\<rparr>))"

definition randRead :: "('s, bytes option) handler" where
  "randRead = State (\<lambda>w. (w_rand w (w_draws w), w\<lparr>w_draws := w_draws w + 1\<rparr>))"

definition kvPut :: "'s KVStore \<Rightarrow> string \<Rightarrow> json \<Rightarrow> ('s, goerr option) handler" where
  "kvPut kv k j = State (\<lambda>w. apsnd (\<lambda>s. w\<lparr>w_store := s\<rparr>) (kv_Put kv k j (w_store w)))"

definition kvGet :: "'s KVStore \<Rightarrow> string \<Rightarrow> 'a decoder \<Rightarrow> 'a \<Rightarrow> ('s, goerr + 'a) handler" where
  "kvGet kv k dec zero = State (\<lambda>w. apsnd (\<lambda>s. w\<lparr>w_store := s\<rparr>) (kv_get_as kv dec zero k (w_store w)))"

definition kvDelete :: "'s KVStore \<Rightarrow> string \<Rightarrow> ('s, goerr option) handler" where
  "kvDelete kv k = State (\<lambda>w. apsnd (\<lambda>s. w\<lparr>w_store := s\<rparr>) (kv_Delete kv k (w_store w)))"

text \<open>A read whose error ends the handler: \<open>if err := Store.Get(\<dots>); err != nil { return \<dots> }\<close>.\<close>

definition orReturn :: "(goerr + 'a) \<Rightarrow> (goerr \<Rightarrow> ('s, 'r) handler) \<Rightarrow> ('a \<Rightarrow> ('s, 'r) handler) \<Rightarrow> ('s, 'r) handler" where
  "orReturn r onerr cont = (case r of Inl e \<Rightarrow> onerr e | Inr a \<Rightarrow> cont a)"

lemma orReturn_simps [simp, go_simps]:
  "orReturn (Inl e) f g = f e"
  "orReturn (Inr a) f g = g a"
  by (simp_all add: orReturn_def)

lemma wp_orReturn [wp]:
  "wp (orReturn r f g) Q = (case r of Inl e \<Rightarrow> wp (f e) Q | Inr a \<Rightarrow> wp (g a) Q)"
  by (cases r) simp_all

lemma wp_ops [wp]:
  "wp timeNow Q = (\<lambda>w. Q (w_times w (w_reads w)) (w\<lparr>w_reads := w_reads w + 1\<rparr>))"
  "wp randRead R = (\<lambda>w. R (w_rand w (w_draws w)) (w\<lparr>w_draws := w_draws w + 1\<rparr>))"
  "wp (modify f) S = (\<lambda>v. S () (f v))"
  by (simp_all add: fun_eq_iff wp_def timeNow_def randRead_def modify_def)

text \<open>Operations on the mock store, which never fail.\<close>

lemma wp_mock [wp]:
  "wp (kvPut MockKVStore k j) Q = (\<lambda>w. Q None (w\<lparr>w_store := (w_store w)(k \<mapsto> j)\<rparr>))"
  "wp (kvDelete MockKVStore k) Q = (\<lambda>w. Q None (w\<lparr>w_store := (w_store w)(k := None)\<rparr>))"
  "wp (kvGet MockKVStore k dec zero) R =
     (\<lambda>w. R (case w_store w k of None \<Rightarrow> Inl (KeyNotFound k)
        | Some j \<Rightarrow> (case dec j zero of None \<Rightarrow> Inl JsonErr | Some v \<Rightarrow> Inr v)) w)"
  by (auto simp: fun_eq_iff wp_def kvPut_def kvDelete_def kvGet_def kv_get_as_def split: option.splits)

context kv_store
begin

text \<open>The same operations on any store that keeps the contract: the result is not
  determined, the contents after it are.\<close>

lemma wp_kvPut:
  assumes "\<And>s'. view s' = (view (w_store w))(k \<mapsto> j) \<Longrightarrow> Q None (w\<lparr>w_store := s'\<rparr>)"
    and "\<And>e s'. view s' = view (w_store w) \<or> view s' = (view (w_store w))(k \<mapsto> j) \<Longrightarrow> Q (Some e) (w\<lparr>w_store := s'\<rparr>)"
  shows "wp (kvPut kv k j) Q w"
proof -
  obtain r s' where r: "kv_Put kv k j (w_store w) = (r, s')" by fastforce
  then show ?thesis
    using assms put_ok [of k j "w_store w" s'] put_err [of k j "w_store w" _ s']
    by (cases r) (auto simp: wp_def kvPut_def)
qed

lemma wp_kvDelete:
  assumes "\<And>s'. view s' = (view (w_store w))(k := None) \<Longrightarrow> Q None (w\<lparr>w_store := s'\<rparr>)"
    and "\<And>e s'. view s' = view (w_store w) \<or> view s' = (view (w_store w))(k := None) \<Longrightarrow> Q (Some e) (w\<lparr>w_store := s'\<rparr>)"
  shows "wp (kvDelete kv k) Q w"
proof -
  obtain r s' where r: "kv_Delete kv k (w_store w) = (r, s')" by fastforce
  then show ?thesis
    using assms del_ok [of k "w_store w" s'] del_err [of k "w_store w" _ s']
    by (cases r) (auto simp: wp_def kvDelete_def)
qed

lemma wp_kvGet:
  assumes "\<And>v j s'. view s' = view (w_store w) \<Longrightarrow> view (w_store w) k = Some j \<Longrightarrow> dec j zero = Some v \<Longrightarrow> Q (Inr v) (w\<lparr>w_store := s'\<rparr>)"
    and "\<And>e s'. view s' = view (w_store w) \<Longrightarrow> Q (Inl e) (w\<lparr>w_store := s'\<rparr>)"
  shows "wp (kvGet kv k dec zero) Q w"
proof -
  obtain r s' where r: "kv_get_as kv dec zero k (w_store w) = (r, s')" by fastforce
  have "view s' = view (w_store w)" by (rule get_as_view [OF r])
  then show ?thesis
    using r assms get_as_ok [of dec zero k "w_store w" _ s']
    by (cases r) (auto simp: wp_def kvGet_def)
qed

end

context reliable_store
begin

lemma wp_kvPut_reliable:
  "(\<And>s'. view s' = (view (w_store w))(k \<mapsto> j) \<Longrightarrow> Q None (w\<lparr>w_store := s'\<rparr>)) \<Longrightarrow> wp (kvPut kv k j) Q w"
  using put_total [of k j "w_store w"] put_view [of k j "w_store w"]
  by (cases "kv_Put kv k j (w_store w)") (simp add: wp_def kvPut_def)

lemma wp_kvDelete_reliable:
  "(\<And>s'. view s' = (view (w_store w))(k := None) \<Longrightarrow> Q None (w\<lparr>w_store := s'\<rparr>)) \<Longrightarrow> wp (kvDelete kv k) Q w"
  using del_total [of k "w_store w"] del_view [of k "w_store w"]
  by (cases "kv_Delete kv k (w_store w)") (simp add: wp_def kvDelete_def)

lemma wp_kvGet_reliable:
  "(\<And>s'. view s' = view (w_store w) \<Longrightarrow>
      Q (case view (w_store w) k of None \<Rightarrow> Inl (KeyNotFound k)
         | Some j \<Rightarrow> (case dec j zero of None \<Rightarrow> Inl JsonErr | Some v \<Rightarrow> Inr v)) (w\<lparr>w_store := s'\<rparr>)) \<Longrightarrow>
   wp (kvGet kv k dec zero) Q w"
  using get_total [of k "w_store w"] get_state [of k "w_store w"]
  by (cases "kv_Get kv k (w_store w)"; cases "view (w_store w) k") (simp_all add: wp_def kvGet_def kv_get_as_def)

end

section \<open>The SBI client\<close>

text \<open>
  The transport posts a document to a function and yields its response, or the text of the HTTP
  client's error; it is a parameter, and the gateway theory instantiates it with the functions
  themselves.  \<open>Client_post\<close> is \<open>CallFunction\<close> up to the status test; \<open>CallFunction\<close> decodes the body
  into a result that starts as \<open>zero\<close>; \<open>CallFunction_nil\<close> is the call with a nil result.
\<close>

type_synonym 's transport = "string \<Rightarrow> json \<Rightarrow> ('s, string + response) handler"
type_synonym 's SBICaller = "string \<Rightarrow> json \<Rightarrow> ('s, goerr + body) handler"

definition check_status :: "string \<Rightarrow> string + response \<Rightarrow> goerr + body" where
  "check_status funcName r =
     (case r of
        Inl t \<Rightarrow> Inl (TransportErr funcName t)
      | Inr resp \<Rightarrow>
          if rs_StatusCode resp \<ge> 400 then Inl (StatusErr funcName (rs_StatusCode resp))
          else Inr (rs_Body resp))"

definition Client_post :: "'s transport \<Rightarrow> 's SBICaller" where
  "Client_post post funcName payload =
     State_Monad.bind (post funcName payload) (\<lambda>r. State_Monad.return (check_status funcName r))"

definition decode_result :: "'a decoder \<Rightarrow> 'a \<Rightarrow> goerr + body \<Rightarrow> goerr option \<times> 'a" where
  "decode_result dec zero r =
     (case r of
        Inl e \<Rightarrow> (Some e, zero)
      | Inr b \<Rightarrow> (case unmarshal_body dec zero (body_doc b) of
                   None \<Rightarrow> (Some JsonErr, zero)
                 | Some v \<Rightarrow> (None, v)))"

definition CallFunction :: "'s SBICaller \<Rightarrow> string \<Rightarrow> json \<Rightarrow> 'a decoder \<Rightarrow> 'a \<Rightarrow> ('s, goerr option \<times> 'a) handler" where
  "CallFunction sbi funcName payload dec zero =
     State_Monad.bind (sbi funcName payload) (\<lambda>r. State_Monad.return (decode_result dec zero r))"

definition CallFunction_nil :: "'s SBICaller \<Rightarrow> string \<Rightarrow> json \<Rightarrow> ('s, goerr option) handler" where
  "CallFunction_nil sbi funcName payload =
     State_Monad.bind (sbi funcName payload)
       (\<lambda>r. State_Monad.return (case r of Inl e \<Rightarrow> Some e | Inr _ \<Rightarrow> None))"

lemma check_status_error:
  "400 \<le> rs_StatusCode resp \<Longrightarrow> check_status f (Inr resp) = Inl (StatusErr f (rs_StatusCode resp))"
  by (simp add: check_status_def)

lemma check_status_json [simp]:
  "n < 400 \<Longrightarrow> check_status f (Inr (json_resp n j)) = Inr (BJson j)"
  by (simp add: check_status_def)

lemma decode_result_simps [simp]:
  "decode_result dec zero (Inl e) = (Some e, zero)"
  "decode_result dec zero (Inr (BJson j)) =
     (case dec j zero of None \<Rightarrow> (Some JsonErr, zero) | Some v \<Rightarrow> (None, v))"
  by (simp_all add: decode_result_def)

lemma wp_sbi [wp]:
  "wp (CallFunction sbi f p dec zero) Q = wp (sbi f p) (\<lambda>r. Q (decode_result dec zero r))"
  "wp (CallFunction_nil sbi f p) R = wp (sbi f p) (\<lambda>r. R (case r of Inl e \<Rightarrow> Some e | Inr _ \<Rightarrow> None))"
  "wp (Client_post post f p) S = wp (post f p) (\<lambda>r. S (check_status f r))"
  by (simp_all add: CallFunction_def CallFunction_nil_def Client_post_def wp_basic)

text \<open>An answer of 400 or above never reaches the result of a call.\<close>

lemma CallFunction_error_status:
  assumes "run_state (post f p) w = (Inr resp, w')" and "400 \<le> rs_StatusCode resp"
  shows "run_state (CallFunction (Client_post post) f p dec zero) w =
     ((Some (StatusErr f (rs_StatusCode resp)), zero), w')"
proof -
  have "wp (CallFunction (Client_post post) f p dec zero)
      (\<lambda>a v. (a, v) = ((Some (StatusErr f (rs_StatusCode resp)), zero), w')) w"
    using assms by (simp add: wp wp_run check_status_error)
  then show ?thesis by (simp add: wp_def split: prod.splits)
qed

section \<open>Frames\<close>

text \<open>\<open>touches view P m\<close>: whatever \<open>m\<close> does, it changes the store at most at keys in \<open>P\<close>.\<close>

definition touches :: "('s \<Rightarrow> string \<rightharpoonup> json) \<Rightarrow> (string \<Rightarrow> bool) \<Rightarrow> ('s, 'a) handler \<Rightarrow> bool" where
  "touches view P m \<longleftrightarrow>
     (\<forall>w. wp m (\<lambda>_ w'. \<forall>k. \<not> P k \<longrightarrow> view (w_store w') k = view (w_store w) k) w)"

named_theorems frame \<open>rules for what a handler can change\<close>

lemma touches_return [frame]: "touches view P (State_Monad.return a)"
  by (simp add: touches_def wp)

lemma touches_bind [frame]:
  assumes "touches view P m" "\<And>a. touches view P (f a)"
  shows "touches view P (State_Monad.bind m f)"
  unfolding touches_def wp_basic
proof (rule allI, rule wp_mono)
  fix w :: "'a world"
  show "wp m (\<lambda>_ w'. \<forall>k. \<not> P k \<longrightarrow> view (w_store w') k = view (w_store w) k) w"
    using assms(1) by (simp add: touches_def)
  fix a and w' :: "'a world"
  assume w': "\<forall>k. \<not> P k \<longrightarrow> view (w_store w') k = view (w_store w) k"
  show "wp (f a) (\<lambda>_ w''. \<forall>k. \<not> P k \<longrightarrow> view (w_store w'') k = view (w_store w) k) w'"
    by (rule wp_mono [OF assms(2) [unfolded touches_def, rule_format, of a w']]) (simp add: w')
qed

lemma touches_get [frame]: "touches view P State_Monad.get"
  by (simp add: touches_def wp)

lemma touches_if [frame]:
  "(b \<Longrightarrow> touches view P m) \<Longrightarrow> (\<not> b \<Longrightarrow> touches view P n) \<Longrightarrow> touches view P (if b then m else n)"
  by simp

lemma touches_option [frame]:
  "(x = None \<Longrightarrow> touches view P m) \<Longrightarrow> (\<And>a. x = Some a \<Longrightarrow> touches view P (f a)) \<Longrightarrow>
   touches view P (case x of None \<Rightarrow> m | Some a \<Rightarrow> f a)"
  by (cases x) simp_all

lemma touches_sum [frame]:
  "(\<And>a. touches view P (f a)) \<Longrightarrow> (\<And>b. touches view P (g b)) \<Longrightarrow>
   touches view P (case x of Inl a \<Rightarrow> f a | Inr b \<Rightarrow> g b)"
  by (cases x) simp_all

lemma touches_res [frame]:
  "(\<And>a. touches view P (f a)) \<Longrightarrow> (\<And>e. touches view P (g e)) \<Longrightarrow> touches view P m \<Longrightarrow>
   touches view P (case x of Ok a \<Rightarrow> f a | Error e \<Rightarrow> g e | Panic \<Rightarrow> m)"
  by (cases x) simp_all

lemma touches_prod [frame]: "(\<And>a b. touches view P (f a b)) \<Longrightarrow> touches view P (case x of (a, b) \<Rightarrow> f a b)"
  by (cases x) simp

lemma touches_Let [frame]: "touches view P (f a) \<Longrightarrow> touches view P (Let a f)"
  by simp

lemma touches_orReturn [frame]:
  "(\<And>e. touches view P (f e)) \<Longrightarrow> (\<And>a. touches view P (g a)) \<Longrightarrow> touches view P (orReturn r f g)"
  by (cases r) simp_all

lemma touches_timeNow [frame]: "touches view P timeNow"
  by (simp add: touches_def wp)

lemma touches_randRead [frame]: "touches view P randRead"
  by (simp add: touches_def wp)

lemma touches_modify [frame]: "(\<And>w. w_store (f w) = w_store w) \<Longrightarrow> touches view P (modify f)"
  by (simp add: touches_def wp)

lemma touches_forEach [frame]: "(\<And>x. touches view P (f x)) \<Longrightarrow> touches view P (forEach xs f)"
  by (induction xs) (auto intro!: frame)

lemma touches_CallFunction [frame]: "touches view P (sbi f p) \<Longrightarrow> touches view P (CallFunction sbi f p dec zero)"
  by (simp add: CallFunction_def frame)

lemma touches_CallFunction_nil [frame]: "touches view P (sbi f p) \<Longrightarrow> touches view P (CallFunction_nil sbi f p)"
  by (simp add: CallFunction_nil_def frame)

lemma touches_mono: "touches view P m \<Longrightarrow> (\<And>k. P k \<Longrightarrow> P' k) \<Longrightarrow> touches view P' m"
  unfolding touches_def by (blast intro: wp_mono)

lemma touchesD: "touches view P m \<Longrightarrow> run_state m w = (a, w') \<Longrightarrow> \<not> P k \<Longrightarrow> view (w_store w') k = view (w_store w) k"
  by (auto simp: touches_def wp_def split_beta dest!: spec [of _ w])

context kv_store
begin

lemma touches_kvPut [frame]: "P k \<Longrightarrow> touches view P (kvPut kv k j)"
  by (auto simp: touches_def intro!: wp_kvPut)

lemma touches_kvDelete [frame]: "P k \<Longrightarrow> touches view P (kvDelete kv k)"
  by (auto simp: touches_def intro!: wp_kvDelete)

lemma touches_kvGet [frame]: "touches view P (kvGet kv k dec zero)"
  by (auto simp: touches_def intro!: wp_kvGet)

end

section \<open>Invariants\<close>

text \<open>\<open>keeps view I m\<close>: from contents that satisfy \<open>I\<close>, every run of \<open>m\<close> leads to contents that do.\<close>

definition keeps :: "('s \<Rightarrow> string \<rightharpoonup> json) \<Rightarrow> ((string \<rightharpoonup> json) \<Rightarrow> bool) \<Rightarrow> ('s, 'a) handler \<Rightarrow> bool" where
  "keeps view I m \<longleftrightarrow> (\<forall>w. I (view (w_store w)) \<longrightarrow> wp m (\<lambda>_ w'. I (view (w_store w'))) w)"

named_theorems keep \<open>rules for invariants of the store\<close>

lemma keeps_return [keep]: "keeps view I (State_Monad.return a)"
  by (simp add: keeps_def wp)

lemma keeps_bind [keep]:
  assumes "keeps view I m" "\<And>a. keeps view I (f a)"
  shows "keeps view I (State_Monad.bind m f)"
  unfolding keeps_def wp_basic
proof (intro allI impI, rule wp_mono)
  fix w :: "'a world"
  assume "I (view (w_store w))"
  then show "wp m (\<lambda>_ w'. I (view (w_store w'))) w" using assms(1) by (simp add: keeps_def)
  fix a and w' :: "'a world"
  assume "I (view (w_store w'))"
  then show "wp (f a) (\<lambda>_ w'. I (view (w_store w'))) w'" using assms(2) by (simp add: keeps_def)
qed

lemma keeps_get [keep]: "keeps view I State_Monad.get"
  by (simp add: keeps_def wp)

lemma keeps_if [keep]:
  "(b \<Longrightarrow> keeps view I m) \<Longrightarrow> (\<not> b \<Longrightarrow> keeps view I n) \<Longrightarrow> keeps view I (if b then m else n)"
  by simp

lemma keeps_option [keep]:
  "(x = None \<Longrightarrow> keeps view I m) \<Longrightarrow> (\<And>a. x = Some a \<Longrightarrow> keeps view I (f a)) \<Longrightarrow>
   keeps view I (case x of None \<Rightarrow> m | Some a \<Rightarrow> f a)"
  by (cases x) simp_all

lemma keeps_sum [keep]:
  "(\<And>a. keeps view I (f a)) \<Longrightarrow> (\<And>b. keeps view I (g b)) \<Longrightarrow>
   keeps view I (case x of Inl a \<Rightarrow> f a | Inr b \<Rightarrow> g b)"
  by (cases x) simp_all

lemma keeps_prod [keep]: "(\<And>a b. keeps view I (f a b)) \<Longrightarrow> keeps view I (case x of (a, b) \<Rightarrow> f a b)"
  by (cases x) simp

lemma keeps_Let [keep]: "keeps view I (f a) \<Longrightarrow> keeps view I (Let a f)"
  by simp

lemma keeps_orReturn [keep]:
  "(\<And>e. keeps view I (f e)) \<Longrightarrow> (\<And>a. keeps view I (g a)) \<Longrightarrow> keeps view I (orReturn r f g)"
  by (cases r) simp_all

lemma keeps_timeNow [keep]: "keeps view I timeNow"
  by (simp add: keeps_def wp)

lemma keeps_res [keep]:
  "(\<And>a. keeps view I (f a)) \<Longrightarrow> (\<And>e. keeps view I (g e)) \<Longrightarrow> keeps view I m \<Longrightarrow>
   keeps view I (case x of Ok a \<Rightarrow> f a | Error e \<Rightarrow> g e | Panic \<Rightarrow> m)"
  by (cases x) simp_all

lemma keeps_randRead [keep]: "keeps view I randRead"
  by (simp add: keeps_def wp)

lemma keeps_modify [keep]: "(\<And>w. w_store (f w) = w_store w) \<Longrightarrow> keeps view I (modify f)"
  by (simp add: keeps_def wp)

lemma keeps_forEach [keep]: "(\<And>x. keeps view I (f x)) \<Longrightarrow> keeps view I (forEach xs f)"
  by (induction xs) (auto intro!: keep)

lemma keeps_CallFunction [keep]: "keeps view I (sbi f p) \<Longrightarrow> keeps view I (CallFunction sbi f p dec zero)"
  by (simp add: CallFunction_def keep)

lemma keeps_CallFunction_nil [keep]: "keeps view I (sbi f p) \<Longrightarrow> keeps view I (CallFunction_nil sbi f p)"
  by (simp add: CallFunction_nil_def keep)

text \<open>An invariant that depends only on keys outside \<open>P\<close> is kept by all that touches only \<open>P\<close>.\<close>

lemma keeps_touches:
  assumes "touches view P m" "\<And>s s'. I s \<Longrightarrow> (\<And>k. \<not> P k \<Longrightarrow> s' k = s k) \<Longrightarrow> I s'"
  shows "keeps view I m"
  unfolding keeps_def
proof (intro allI impI)
  fix w :: "'a world"
  assume "I (view (w_store w))"
  then show "wp m (\<lambda>_ w'. I (view (w_store w'))) w"
    using assms by (intro wp_mono [OF assms(1) [unfolded touches_def, rule_format, of w]]) blast
qed

context kv_store
begin

lemma keeps_kvPut [keep]: "(\<And>s. I s \<Longrightarrow> I (s(k \<mapsto> j))) \<Longrightarrow> keeps view I (kvPut kv k j)"
  by (auto simp: keeps_def intro!: wp_kvPut)

lemma keeps_kvDelete [keep]: "(\<And>s. I s \<Longrightarrow> I (s(k := None))) \<Longrightarrow> keeps view I (kvDelete kv k)"
  by (auto simp: keeps_def intro!: wp_kvDelete)

lemma keeps_kvGet [keep]: "keeps view I (kvGet kv k dec zero)"
  by (auto simp: keeps_def intro!: wp_kvGet)

end

section \<open>Preserved parts of the world\<close>

text \<open>\<open>preserves g m\<close>: no run of \<open>m\<close> changes what \<open>g\<close> reads of the world.\<close>

definition preserves :: "('w \<Rightarrow> 'b) \<Rightarrow> ('w, 'a) state \<Rightarrow> bool" where
  "preserves g m \<longleftrightarrow> (\<forall>w. wp m (\<lambda>_ w'. g w' = g w) w)"

named_theorems pres \<open>rules for what a handler preserves\<close>

lemma wp_preserves: "preserves g m \<Longrightarrow> (\<And>a w'. g w' = g w \<Longrightarrow> Q a w') \<Longrightarrow> wp m Q w"
  unfolding preserves_def by (blast intro: wp_mono)

lemma preserves_return [pres]: "preserves g (State_Monad.return a)"
  by (simp add: preserves_def wp)

lemma preserves_get [pres]: "preserves g State_Monad.get"
  by (simp add: preserves_def wp)

lemma preserves_bind [pres]:
  assumes "preserves g m" "\<And>a. preserves g (f a)"
  shows "preserves g (State_Monad.bind m f)"
  unfolding preserves_def wp_basic
  by (intro allI, rule wp_preserves [OF assms(1)], rule wp_preserves [OF assms(2)]) simp

lemma preserves_if [pres]: "preserves g m \<Longrightarrow> preserves g n \<Longrightarrow> preserves g (if b then m else n)"
  by simp

lemma preserves_option [pres]:
  "preserves g m \<Longrightarrow> (\<And>a. x = Some a \<Longrightarrow> preserves g (f a)) \<Longrightarrow> preserves g (case x of None \<Rightarrow> m | Some a \<Rightarrow> f a)"
  by (cases x) simp_all

lemma preserves_sum [pres]:
  "(\<And>a. preserves g (f a)) \<Longrightarrow> (\<And>b. preserves g (h b)) \<Longrightarrow> preserves g (case x of Inl a \<Rightarrow> f a | Inr b \<Rightarrow> h b)"
  by (cases x) simp_all

lemma preserves_prod [pres]: "(\<And>a b. preserves g (f a b)) \<Longrightarrow> preserves g (case x of (a, b) \<Rightarrow> f a b)"
  by (cases x) simp

lemma preserves_Let [pres]: "preserves g (f a) \<Longrightarrow> preserves g (Let a f)"
  by simp

lemma preserves_orReturn [pres]:
  "(\<And>e. preserves g (f e)) \<Longrightarrow> (\<And>a. preserves g (h a)) \<Longrightarrow> preserves g (orReturn r f h)"
  by (cases r) simp_all

lemma preserves_timeNow [pres]: "(\<And>w n. g (w\<lparr>w_reads := n\<rparr>) = g w) \<Longrightarrow> preserves g timeNow"
  by (simp add: preserves_def wp)

lemma preserves_modify [pres]: "(\<And>w. g (f w) = g w) \<Longrightarrow> preserves g (modify f)"
  by (simp add: preserves_def wp)

lemma preserves_forEach [pres]: "(\<And>x. preserves g (f x)) \<Longrightarrow> preserves g (forEach xs f)"
  by (induction xs) (auto intro!: pres)

lemma preserves_CallFunction [pres]: "preserves g (sbi f p) \<Longrightarrow> preserves g (CallFunction sbi f p dec zero)"
  by (simp add: CallFunction_def pres)

lemma preserves_CallFunction_nil [pres]: "preserves g (sbi f p) \<Longrightarrow> preserves g (CallFunction_nil sbi f p)"
  by (simp add: CallFunction_nil_def pres)

text \<open>A projection that reads the store only at keys outside \<open>P\<close>.\<close>

definition reads_outside :: "('s \<Rightarrow> string \<rightharpoonup> json) \<Rightarrow> (string \<Rightarrow> bool) \<Rightarrow> ('s world \<Rightarrow> 'b) \<Rightarrow> bool" where
  "reads_outside view P g \<longleftrightarrow>
     (\<forall>w s'. (\<forall>k. \<not> P k \<longrightarrow> view s' k = view (w_store w) k) \<longrightarrow> g (w\<lparr>w_store := s'\<rparr>) = g w)"

context kv_store
begin

lemma preserves_kvPut [pres]: "reads_outside view P g \<Longrightarrow> P k \<Longrightarrow> preserves g (kvPut kv k j)"
  by (auto simp: preserves_def reads_outside_def intro!: wp_kvPut)

lemma preserves_kvDelete [pres]: "reads_outside view P g \<Longrightarrow> P k \<Longrightarrow> preserves g (kvDelete kv k)"
  by (auto simp: preserves_def reads_outside_def intro!: wp_kvDelete)

lemma preserves_kvGet [pres]: "reads_outside view P g \<Longrightarrow> preserves g (kvGet kv k dec zero)"
  by (auto simp: preserves_def reads_outside_def intro!: wp_kvGet)

end

section \<open>Requests to the slice admission control\<close>

text \<open>The documents the AMF and the SMF post to the NSACF, and the part of its answer they decode.\<close>

definition nsacf_enabled :: "(string \<Rightarrow> string) \<Rightarrow> bool" where
  "nsacf_enabled getenv \<longleftrightarrow> getenv ''ENABLE_NSACF'' = ''true''"

definition check_payload :: "SNSSAI \<Rightarrow> string \<Rightarrow> json" where
  "check_payload snssai checkType =
     JObj [(''check_type'', JStr checkType), (''snssai'', marshal_SNSSAI snssai)]"

definition counter_payload :: "SNSSAI \<Rightarrow> string \<Rightarrow> string \<Rightarrow> json" where
  "counter_payload snssai counterType operation =
     JObj [(''counter_type'', JStr counterType), (''operation'', JStr operation), (''snssai'', marshal_SNSSAI snssai)]"

definition dec_allowed :: "bool decoder" where
  "dec_allowed = dec_struct [(''allowed'', dec_bool)]"

section \<open>Concrete requests and peers\<close>

definition body_req :: "(string \<times> json) list \<Rightarrow> request" where
  "body_req ms = \<lparr>rq_Body = Some (JObj ms), rq_QueryString = []\<rparr>"

text \<open>An SBI caller to which every function answers with an empty document.\<close>

definition empty_sbi :: "'s SBICaller" where
  "empty_sbi f p = State_Monad.return (Inr (BJson (JObj [])))"

definition no_env :: "string \<Rightarrow> string" where
  "no_env v = []"

definition all_on :: "string \<Rightarrow> string" where
  "all_on v = ''true''"

end
