(* ===== verification/UeState.thy ===== *)
theory UeState
  imports Prelude
begin

text \<open>
  The registration and connection management state machine of a UE,
  \<^verbatim>\<open>pkg/statemachine/ue_state.go\<close>.  \<open>RMState\<close> and \<open>CMState\<close> are Go integer types with two named
  values each, so a target may be any integer.  A transition that is accepted reads the clock
  once; the reading is an argument here.  \<open>ue_reachable\<close> holds of the machines that a sequence of
  calls with any targets produces, with the clock readings of \<open>time.Now\<close> never going backwards.
\<close>

section \<open>States\<close>

type_synonym RMState = int
type_synonym CMState = int

definition RMDeregistered :: RMState where "RMDeregistered = 0"
definition RMRegistered :: RMState where "RMRegistered = 1"
definition CMIdle :: CMState where "CMIdle = 0"
definition CMConnected :: CMState where "CMConnected = 1"

lemmas ue_states = RMDeregistered_def RMRegistered_def CMIdle_def CMConnected_def

definition RMState_String :: "RMState \<Rightarrow> string" where
  "RMState_String s =
     (if s = RMDeregistered then ''RM-DEREGISTERED''
      else if s = RMRegistered then ''RM-REGISTERED''
      else ''RM-UNKNOWN('' @ show_int s @ '')'')"

definition RMState_StoreValue :: "RMState \<Rightarrow> string" where
  "RMState_StoreValue s =
     (if s = RMDeregistered then ''DEREGISTERED''
      else if s = RMRegistered then ''REGISTERED''
      else ''UNKNOWN'')"

definition CMState_String :: "CMState \<Rightarrow> string" where
  "CMState_String s =
     (if s = CMIdle then ''CM-IDLE''
      else if s = CMConnected then ''CM-CONNECTED''
      else ''CM-UNKNOWN('' @ show_int s @ '')'')"

definition CMState_StoreValue :: "CMState \<Rightarrow> string" where
  "CMState_StoreValue s =
     (if s = CMIdle then ''IDLE''
      else if s = CMConnected then ''CONNECTED''
      else ''UNKNOWN'')"

record TransitionRecord =
  tr_From :: string
  tr_To :: string
  tr_Timestamp :: int

record UEStateMachine =
  sm_SUPI :: string
  sm_RMState :: RMState
  sm_CMState :: CMState
  sm_RMStateChangedAt :: int
  sm_CMStateChangedAt :: int
  sm_Transitions :: "TransitionRecord list"

definition NewUEStateMachine :: "string \<Rightarrow> UEStateMachine" where
  "NewUEStateMachine supi = \<lparr>sm_SUPI = supi, sm_RMState = RMDeregistered, sm_CMState = CMIdle,
     sm_RMStateChangedAt = zero_time, sm_CMStateChangedAt = zero_time, sm_Transitions = []\<rparr>"

section \<open>Transitions\<close>

definition TransitionRM :: "RMState \<Rightarrow> int \<Rightarrow> UEStateMachine \<Rightarrow> string option \<times> UEStateMachine" where
  "TransitionRM target now sm =
     (if sm_RMState sm = target then (Some (''already in '' @ RMState_String target), sm)
      else
        let sm1 = sm\<lparr>sm_Transitions := sm_Transitions sm @
                       [\<lparr>tr_From = RMState_String (sm_RMState sm), tr_To = RMState_String target,
                         tr_Timestamp = now\<rparr>],
                     sm_RMState := target,
                     sm_RMStateChangedAt := now\<rparr>
        in
          if target = RMDeregistered \<and> sm_CMState sm1 \<noteq> CMIdle then
            (None, sm1\<lparr>sm_CMState := CMIdle, sm_CMStateChangedAt := now,
                       sm_Transitions := sm_Transitions sm1 @
                         [\<lparr>tr_From = CMState_String CMConnected, tr_To = CMState_String CMIdle,
                           tr_Timestamp = now\<rparr>]\<rparr>)
          else (None, sm1))"

definition TransitionCM :: "CMState \<Rightarrow> int \<Rightarrow> UEStateMachine \<Rightarrow> string option \<times> UEStateMachine" where
  "TransitionCM target now sm =
     (if sm_RMState sm \<noteq> RMRegistered then
        (Some (''CM transition requires RM-REGISTERED, current: '' @ RMState_String (sm_RMState sm)), sm)
      else if sm_CMState sm = target then (Some (''already in '' @ CMState_String target), sm)
      else (None, sm\<lparr>sm_Transitions := sm_Transitions sm @
                       [\<lparr>tr_From = CMState_String (sm_CMState sm), tr_To = CMState_String target,
                         tr_Timestamp = now\<rparr>],
                     sm_CMState := target,
                     sm_CMStateChangedAt := now\<rparr>))"

definition IsRegistered :: "UEStateMachine \<Rightarrow> bool" where
  "IsRegistered sm \<longleftrightarrow> sm_RMState sm = RMRegistered"

definition IsConnected :: "UEStateMachine \<Rightarrow> bool" where
  "IsConnected sm \<longleftrightarrow> sm_CMState sm = CMConnected"

section \<open>Runs of the machine\<close>

text \<open>The calls of the two operations, with any integer as their target.\<close>

datatype ue_call = ToRM RMState | ToCM CMState

fun call_ue :: "ue_call \<Rightarrow> int \<Rightarrow> UEStateMachine \<Rightarrow> string option \<times> UEStateMachine" where
  "call_ue (ToRM target) = TransitionRM target"
| "call_ue (ToCM target) = TransitionCM target"

text \<open>A call whose target is one of the named states.\<close>

fun named :: "ue_call \<Rightarrow> bool" where
  "named (ToRM target) = (target = RMDeregistered \<or> target = RMRegistered)"
| "named (ToCM target) = (target = CMIdle \<or> target = CMConnected)"

text \<open>
  \<open>ue_reachable supi calls now sm\<close>: the machine that the calls lead to, accepted or refused, the last of them at or
  before \<open>now\<close>; the readings of the clock do not go back.
\<close>

inductive ue_reachable :: "string \<Rightarrow> ue_call list \<Rightarrow> int \<Rightarrow> UEStateMachine \<Rightarrow> bool" for supi where
  init: "ue_reachable supi [] now (NewUEStateMachine supi)"
| call: "ue_reachable supi calls now sm \<Longrightarrow> now \<le> now' \<Longrightarrow> call_ue c now' sm = (r, sm') \<Longrightarrow>
     ue_reachable supi (calls @ [c]) now' sm'"

text \<open>
  Replaying a log from the initial state names: each record must start where the log stands for its
  own machine (the \<open>RM-\<close> or the \<open>CM-\<close> one).
\<close>

definition is_rm :: "TransitionRecord \<Rightarrow> bool" where
  "is_rm r \<longleftrightarrow> take 3 (tr_To r) = ''RM-''"

fun replay :: "TransitionRecord list \<Rightarrow> string \<times> string \<Rightarrow> (string \<times> string) option" where
  "replay [] st = Some st"
| "replay (r # rs) (a, b) =
     (if is_rm r then (if tr_From r = a then replay rs (tr_To r, b) else None)
      else (if tr_From r = b then replay rs (a, tr_To r) else None))"

lemma replay_append: "replay (xs @ ys) st = Option.bind (replay xs st) (replay ys)"
  by (induction xs st rule: replay.induct) simp_all

lemma is_rm_simps [simp]:
  "is_rm \<lparr>tr_From = a, tr_To = RMState_String s, tr_Timestamp = t\<rparr>"
  "\<not> is_rm \<lparr>tr_From = a, tr_To = CMState_String c, tr_Timestamp = t\<rparr>"
  by (simp_all add: is_rm_def RMState_String_def CMState_String_def)

section \<open>Invariant\<close>

text \<open>
  The machine's invariant: a deregistered UE is idle; the time stamps of the log are in order and not in the future; the
  log replays to the current states unless it has a gap, and it has none when all calls had named targets.
\<close>

definition log_replay :: "UEStateMachine \<Rightarrow> (string \<times> string) option" where
  "log_replay sm = replay (sm_Transitions sm) (RMState_String RMDeregistered, CMState_String CMIdle)"

definition current_states :: "UEStateMachine \<Rightarrow> string \<times> string" where
  "current_states sm = (RMState_String (sm_RMState sm), CMState_String (sm_CMState sm))"

definition ue_inv :: "bool \<Rightarrow> int \<Rightarrow> UEStateMachine \<Rightarrow> bool" where
  "ue_inv all_named now sm \<longleftrightarrow>
     (sm_RMState sm = RMDeregistered \<longrightarrow> sm_CMState sm = CMIdle) \<and>
     (log_replay sm = None \<or> log_replay sm = Some (current_states sm)) \<and>
     (all_named \<longrightarrow> log_replay sm = Some (current_states sm) \<and> (sm_CMState sm = CMIdle \<or> sm_CMState sm = CMConnected)) \<and>
     sorted (map tr_Timestamp (sm_Transitions sm)) \<and>
     (\<forall>r \<in> set (sm_Transitions sm). tr_Timestamp r \<le> now)"

lemmas ue_inv_defs = ue_inv_def log_replay_def current_states_def

lemma ue_inv_init: "ue_inv b now (NewUEStateMachine supi)"
  by (simp add: ue_inv_defs NewUEStateMachine_def)

lemma ue_inv_later: "ue_inv b now sm \<Longrightarrow> now \<le> now' \<Longrightarrow> ue_inv b now' sm"
  by (force simp: ue_inv_def)

lemma ue_inv_weaken: "ue_inv b now sm \<Longrightarrow> (b' \<Longrightarrow> b) \<Longrightarrow> ue_inv b' now sm"
  by (auto simp: ue_inv_def)

lemma sorted_snoc: "sorted (map tr_Timestamp xs) \<Longrightarrow> \<forall>r \<in> set xs. tr_Timestamp r \<le> now \<Longrightarrow> sorted (map tr_Timestamp xs @ [now])"
  by (auto simp: sorted_append)

lemma TransitionRM_inv:
  assumes "ue_inv b now sm" "now \<le> now'" "TransitionRM target now' sm = (r, sm')"
  shows "ue_inv b now' sm'"
proof -
  have i: "ue_inv b now' sm" by (rule ue_inv_later [OF assms(1,2)])
  show ?thesis
    using i assms(3) unfolding ue_inv_defs TransitionRM_def
    by (auto simp: Let_def replay_append sorted_append ue_states split: if_splits)
qed

lemma TransitionCM_inv:
  assumes "ue_inv b now sm" "now \<le> now'" "TransitionCM target now' sm = (r, sm')" "b \<Longrightarrow> target = CMIdle \<or> target = CMConnected"
  shows "ue_inv b now' sm'"
proof -
  have i: "ue_inv b now' sm" by (rule ue_inv_later [OF assms(1,2)])
  show ?thesis
    using i assms(3,4) unfolding ue_inv_defs TransitionCM_def
    by (auto simp: replay_append sorted_append ue_states split: if_splits)
qed

lemma ue_reachable_inv: "ue_reachable supi calls now sm \<Longrightarrow> ue_inv (list_all named calls) now sm"
proof (induction rule: ue_reachable.induct)
  case (call calls now sm now' c r sm')
  have i: "ue_inv (list_all named (calls @ [c])) now sm" by (rule ue_inv_weaken [OF call.IH]) simp
  show ?case
  proof (cases c)
    case (ToRM target)
    with call.hyps(3) show ?thesis by (intro TransitionRM_inv [OF i call.hyps(2)]) simp
  next
    case (ToCM target)
    show ?thesis by (rule TransitionCM_inv [OF i call.hyps(2)]) (use call.hyps(3) ToCM in auto)
  qed
qed (rule ue_inv_init)

text \<open>A deregistration out of a connection state without a name is logged as one out of \<^verbatim>\<open>CM-CONNECTED\<close>.\<close>

lemma unnamed_gap:
  assumes "ue_inv b now sm" "sm_RMState sm \<noteq> RMDeregistered" "sm_CMState sm \<noteq> CMIdle" "sm_CMState sm \<noteq> CMConnected"
  shows "log_replay (snd (TransitionRM RMDeregistered now' sm)) = None"
proof -
  have "CMState_String (sm_CMState sm) \<noteq> CMState_String CMConnected"
    using assms(3,4) by (simp add: CMState_String_def ue_states)
  with assms show ?thesis by (auto simp: ue_inv_defs TransitionRM_def Let_def replay_append)
qed

section \<open>Properties\<close>


text \<open>A run through registration, connection and deregistration.\<close>

definition sample_machine :: UEStateMachine where
  "sample_machine = snd (TransitionRM RMDeregistered 30 (snd (TransitionCM CMConnected 20
     (snd (TransitionRM RMRegistered 10 (NewUEStateMachine ''imsi-1''))))))"

lemma sample_machine_reachable: "ue_reachable ''imsi-1'' [ToRM RMRegistered, ToCM CMConnected, ToRM RMDeregistered] 30 sample_machine"
proof -
  let ?a = "NewUEStateMachine ''imsi-1''"
  let ?b = "snd (TransitionRM RMRegistered 10 ?a)"
  let ?c = "snd (TransitionCM CMConnected 20 ?b)"
  have "ue_reachable ''imsi-1'' ([] @ [ToRM RMRegistered]) 10 ?b"
    by (rule ue_reachable.call [OF ue_reachable.init [of _ 0], where r = "fst (TransitionRM RMRegistered 10 ?a)"]) simp_all
  then have "ue_reachable ''imsi-1'' (([] @ [ToRM RMRegistered]) @ [ToCM CMConnected]) 20 ?c"
    by (rule ue_reachable.call [where r = "fst (TransitionCM CMConnected 20 ?b)"]) simp_all
  then have "ue_reachable ''imsi-1'' ((([] @ [ToRM RMRegistered]) @ [ToCM CMConnected]) @ [ToRM RMDeregistered]) 30 sample_machine"
    by (rule ue_reachable.call [where r = "fst (TransitionRM RMDeregistered 30 ?c)"]) (simp_all add: sample_machine_def)
  then show ?thesis by simp
qed


text \<open>A connection transition is accepted exactly when the UE is registered and the target is a
  different state; an accepted one changes nothing but the connection state, its time stamp and
  the log, and a refused one changes nothing.\<close>

theorem TransitionCM_spec:
  "(fst (TransitionCM target now sm) = None \<longleftrightarrow> IsRegistered sm \<and> sm_CMState sm \<noteq> target) \<and>
   (case fst (TransitionCM target now sm) of
      None \<Rightarrow> snd (TransitionCM target now sm) =
        sm\<lparr>sm_CMState := target, sm_CMStateChangedAt := now,
           sm_Transitions := sm_Transitions sm @
             [\<lparr>tr_From = CMState_String (sm_CMState sm), tr_To = CMState_String target, tr_Timestamp = now\<rparr>]\<rparr>
    | Some e \<Rightarrow> snd (TransitionCM target now sm) = sm)"
  by (simp add: TransitionCM_def IsRegistered_def)

end
