(* ===== verification/NasTypes.thy ===== *)
theory NasTypes
  imports Encodings
begin

text \<open>
  The constants of \<^verbatim>\<open>pkg/nas/types.go\<close>, the cause codes of \<^verbatim>\<open>cause_codes.go\<close> and the timers of
  \<^verbatim>\<open>timers.go\<close>.  Protocol constants are bytes, timer values \<open>uint32\<close> seconds.
\<close>

section \<open>Constants\<close>

subsection \<open>Extended Protocol Discriminator (TS 24.501 Table 9.2.1)\<close>

definition EPD5GMM :: uint8 where "EPD5GMM = 0x7E"
definition EPD5GSM :: uint8 where "EPD5GSM = 0x2E"

lemmas epd_consts =
  EPD5GMM_def EPD5GSM_def

subsection \<open>Security Header Type (TS 24.501 Table 9.3.1)\<close>

definition SecurityHeaderPlain :: uint8 where "SecurityHeaderPlain = 0x00"
definition SecurityHeaderIntegrityProtected :: uint8 where "SecurityHeaderIntegrityProtected = 0x01"
definition SecurityHeaderIntegrityProtectedCiphered :: uint8 where "SecurityHeaderIntegrityProtectedCiphered = 0x02"
definition SecurityHeaderIntegrityProtectedNewCtx :: uint8 where "SecurityHeaderIntegrityProtectedNewCtx = 0x03"
definition SecurityHeaderIntegrityProtectedCipheredNew :: uint8 where "SecurityHeaderIntegrityProtectedCipheredNew = 0x04"

lemmas sec_consts =
  SecurityHeaderPlain_def SecurityHeaderIntegrityProtected_def SecurityHeaderIntegrityProtectedCiphered_def SecurityHeaderIntegrityProtectedNewCtx_def
  SecurityHeaderIntegrityProtectedCipheredNew_def

subsection \<open>5GMM Message Types (TS 24.501 Table 9.7.1)\<close>

definition MsgTypeRegistrationRequest :: uint8 where "MsgTypeRegistrationRequest = 0x41"
definition MsgTypeRegistrationAccept :: uint8 where "MsgTypeRegistrationAccept = 0x42"
definition MsgTypeRegistrationComplete :: uint8 where "MsgTypeRegistrationComplete = 0x43"
definition MsgTypeRegistrationReject :: uint8 where "MsgTypeRegistrationReject = 0x44"
definition MsgTypeDeregistrationRequestUE :: uint8 where "MsgTypeDeregistrationRequestUE = 0x45"
definition MsgTypeDeregistrationAcceptUE :: uint8 where "MsgTypeDeregistrationAcceptUE = 0x46"
definition MsgTypeDeregistrationRequestNW :: uint8 where "MsgTypeDeregistrationRequestNW = 0x47"
definition MsgTypeDeregistrationAcceptNW :: uint8 where "MsgTypeDeregistrationAcceptNW = 0x48"
definition MsgTypeServiceRequest :: uint8 where "MsgTypeServiceRequest = 0x4C"
definition MsgTypeServiceAccept :: uint8 where "MsgTypeServiceAccept = 0x4E"
definition MsgTypeServiceReject :: uint8 where "MsgTypeServiceReject = 0x4D"
definition MsgTypeAuthenticationRequest :: uint8 where "MsgTypeAuthenticationRequest = 0x56"
definition MsgTypeAuthenticationResponse :: uint8 where "MsgTypeAuthenticationResponse = 0x57"
definition MsgTypeAuthenticationReject :: uint8 where "MsgTypeAuthenticationReject = 0x58"
definition MsgTypeAuthenticationFailure :: uint8 where "MsgTypeAuthenticationFailure = 0x59"
definition MsgTypeAuthenticationResult :: uint8 where "MsgTypeAuthenticationResult = 0x5A"
definition MsgTypeSecurityModeCommand :: uint8 where "MsgTypeSecurityModeCommand = 0x5D"
definition MsgTypeSecurityModeComplete :: uint8 where "MsgTypeSecurityModeComplete = 0x5E"
definition MsgTypeSecurityModeReject :: uint8 where "MsgTypeSecurityModeReject = 0x5F"
definition MsgTypeULNASTransport :: uint8 where "MsgTypeULNASTransport = 0x67"
definition MsgTypeDLNASTransport :: uint8 where "MsgTypeDLNASTransport = 0x68"
definition MsgTypeIdentityRequest :: uint8 where "MsgTypeIdentityRequest = 0x5B"
definition MsgTypeIdentityResponse :: uint8 where "MsgTypeIdentityResponse = 0x5C"

lemmas msg_consts =
  MsgTypeRegistrationRequest_def MsgTypeRegistrationAccept_def MsgTypeRegistrationComplete_def MsgTypeRegistrationReject_def
  MsgTypeDeregistrationRequestUE_def MsgTypeDeregistrationAcceptUE_def MsgTypeDeregistrationRequestNW_def MsgTypeDeregistrationAcceptNW_def
  MsgTypeServiceRequest_def MsgTypeServiceAccept_def MsgTypeServiceReject_def MsgTypeAuthenticationRequest_def
  MsgTypeAuthenticationResponse_def MsgTypeAuthenticationReject_def MsgTypeAuthenticationFailure_def MsgTypeAuthenticationResult_def
  MsgTypeSecurityModeCommand_def MsgTypeSecurityModeComplete_def MsgTypeSecurityModeReject_def MsgTypeULNASTransport_def
  MsgTypeDLNASTransport_def MsgTypeIdentityRequest_def MsgTypeIdentityResponse_def

subsection \<open>5GSM Message Types (TS 24.501 Table 9.8.1)\<close>

definition MsgTypePDUSessionEstablishmentRequest :: uint8 where "MsgTypePDUSessionEstablishmentRequest = 0xC1"

lemmas sm_consts =
  MsgTypePDUSessionEstablishmentRequest_def

subsection \<open>5GMM Cause codes (TS 24.501 Table 9.11.3.2.1)\<close>

definition CauseIllegalUE :: uint8 where "CauseIllegalUE = 3"
definition CauseIllegalME :: uint8 where "CauseIllegalME = 6"
definition CausePEINotAccepted :: uint8 where "CausePEINotAccepted = 5"
definition Cause5GSServicesNotAllowed :: uint8 where "Cause5GSServicesNotAllowed = 7"
definition CauseUEIdentityCannotBeDerived :: uint8 where "CauseUEIdentityCannotBeDerived = 9"
definition CauseImplicitlyDeregistered :: uint8 where "CauseImplicitlyDeregistered = 10"
definition CausePLMNNotAllowed :: uint8 where "CausePLMNNotAllowed = 11"
definition CauseTrackingAreaNotAllowed :: uint8 where "CauseTrackingAreaNotAllowed = 12"
definition CauseRoamingNotAllowed :: uint8 where "CauseRoamingNotAllowed = 13"
definition CauseNoSuitableCells :: uint8 where "CauseNoSuitableCells = 15"
definition CauseMACFailure :: uint8 where "CauseMACFailure = 20"
definition CauseSynchFailure :: uint8 where "CauseSynchFailure = 21"
definition CauseCongestion :: uint8 where "CauseCongestion = 22"
definition CauseUESecurityCapMismatch :: uint8 where "CauseUESecurityCapMismatch = 23"
definition CauseSecurityModeRejected :: uint8 where "CauseSecurityModeRejected = 24"
definition CauseN1ModeNotAllowed :: uint8 where "CauseN1ModeNotAllowed = 27"
definition CauseRestrictedServiceArea :: uint8 where "CauseRestrictedServiceArea = 28"
definition CauseLADNNotAvailable :: uint8 where "CauseLADNNotAvailable = 43"
definition CauseMaxPDUSessionsReached :: uint8 where "CauseMaxPDUSessionsReached = 65"
definition CauseInsufficientResourcesForSlice :: uint8 where "CauseInsufficientResourcesForSlice = 67"
definition CausePayloadNotForwarded :: uint8 where "CausePayloadNotForwarded = 90"
definition CauseDNNNotSupportedOrNotSubscribed :: uint8 where "CauseDNNNotSupportedOrNotSubscribed = 91"

lemmas cause_consts =
  CauseIllegalUE_def CauseIllegalME_def CausePEINotAccepted_def Cause5GSServicesNotAllowed_def
  CauseUEIdentityCannotBeDerived_def CauseImplicitlyDeregistered_def CausePLMNNotAllowed_def CauseTrackingAreaNotAllowed_def
  CauseRoamingNotAllowed_def CauseNoSuitableCells_def CauseMACFailure_def CauseSynchFailure_def
  CauseCongestion_def CauseUESecurityCapMismatch_def CauseSecurityModeRejected_def CauseN1ModeNotAllowed_def
  CauseRestrictedServiceArea_def CauseLADNNotAvailable_def CauseMaxPDUSessionsReached_def CauseInsufficientResourcesForSlice_def
  CausePayloadNotForwarded_def CauseDNNNotSupportedOrNotSubscribed_def

subsection \<open>5GS Registration Type (TS 24.501 Table 9.11.3.7.1)\<close>

definition RegTypeInitialRegistration :: uint8 where "RegTypeInitialRegistration = 0x01"
definition RegTypeMobilityRegistration :: uint8 where "RegTypeMobilityRegistration = 0x02"
definition RegTypePeriodicRegistration :: uint8 where "RegTypePeriodicRegistration = 0x03"
definition RegTypeEmergencyRegistration :: uint8 where "RegTypeEmergencyRegistration = 0x04"

lemmas regtype_consts =
  RegTypeInitialRegistration_def RegTypeMobilityRegistration_def RegTypePeriodicRegistration_def RegTypeEmergencyRegistration_def

subsection \<open>5GS Mobile Identity Type (TS 24.501 Table 9.11.3.4.1)\<close>

definition MobileIdentitySUCI :: uint8 where "MobileIdentitySUCI = 0x01"
definition MobileIdentity5GGUTI :: uint8 where "MobileIdentity5GGUTI = 0x02"
definition MobileIdentityIMEI :: uint8 where "MobileIdentityIMEI = 0x03"
definition MobileIdentity5GSTMSI :: uint8 where "MobileIdentity5GSTMSI = 0x04"
definition MobileIdentityImeisv :: uint8 where "MobileIdentityImeisv = 0x05"

lemmas mobile_consts =
  MobileIdentitySUCI_def MobileIdentity5GGUTI_def MobileIdentityIMEI_def MobileIdentity5GSTMSI_def
  MobileIdentityImeisv_def

subsection \<open>5G NAS Security Algorithms (TS 24.501 Table 9.11.3.34.1)\<close>

definition CipherAlg5GEA0 :: uint8 where "CipherAlg5GEA0 = 0x00"
definition CipherAlg5GEA1 :: uint8 where "CipherAlg5GEA1 = 0x01"
definition CipherAlg5GEA2 :: uint8 where "CipherAlg5GEA2 = 0x02"
definition CipherAlg5GEA3 :: uint8 where "CipherAlg5GEA3 = 0x03"
definition IntegAlg5GIA0 :: uint8 where "IntegAlg5GIA0 = 0x00"
definition IntegAlg5GIA1 :: uint8 where "IntegAlg5GIA1 = 0x01"
definition IntegAlg5GIA2 :: uint8 where "IntegAlg5GIA2 = 0x02"
definition IntegAlg5GIA3 :: uint8 where "IntegAlg5GIA3 = 0x03"

lemmas alg_consts =
  CipherAlg5GEA0_def CipherAlg5GEA1_def CipherAlg5GEA2_def CipherAlg5GEA3_def
  IntegAlg5GIA0_def IntegAlg5GIA1_def IntegAlg5GIA2_def IntegAlg5GIA3_def

subsection \<open>Registration Result (TS 24.501 Table 9.11.3.6.1)\<close>

definition RegResult3GPPAccess :: uint8 where "RegResult3GPPAccess = 0x01"
definition RegResultNon3GPPAccess :: uint8 where "RegResultNon3GPPAccess = 0x02"
definition RegResult3GPPAndNon :: uint8 where "RegResult3GPPAndNon = 0x03"

lemmas result_consts =
  RegResult3GPPAccess_def RegResultNon3GPPAccess_def RegResult3GPPAndNon_def

subsection \<open>Timer Values (TS 24.501)\<close>

definition T3512Default :: uint32 where "T3512Default = 3240"
definition T3510Value :: uint32 where "T3510Value = 15"
definition T3502Default :: uint32 where "T3502Default = 720"
definition T3580Value :: uint32 where "T3580Value = 5"
definition T3513Value :: uint32 where "T3513Value = 10"
definition T3522Value :: uint32 where "T3522Value = 6"
definition T3550Value :: uint32 where "T3550Value = 6"
definition T3560Value :: uint32 where "T3560Value = 6"

lemmas timer_consts =
  T3512Default_def T3510Value_def T3502Default_def T3580Value_def
  T3513Value_def T3522Value_def T3550Value_def T3560Value_def

subsection \<open>NAS IE Tags for optional IEs in Registration Accept (TS 24.501 Table 8.2.7.1)\<close>

definition IETag5GGUTI :: uint8 where "IETag5GGUTI = 0x77"
definition IETagAllowedNSSAI :: uint8 where "IETagAllowedNSSAI = 0x15"
definition IETagRejectedNSSAI :: uint8 where "IETagRejectedNSSAI = 0x11"
definition IETagT3512Value :: uint8 where "IETagT3512Value = 0x5E"
definition IETagEquivPLMNs :: uint8 where "IETagEquivPLMNs = 0x4A"
definition IETagEmergencyNums :: uint8 where "IETagEmergencyNums = 0x34"

lemmas ie_consts =
  IETag5GGUTI_def IETagAllowedNSSAI_def IETagRejectedNSSAI_def IETagT3512Value_def
  IETagEquivPLMNs_def IETagEmergencyNums_def

lemmas nas_consts = epd_consts sec_consts msg_consts sm_consts cause_consts regtype_consts mobile_consts alg_consts result_consts timer_consts ie_consts

section \<open>Cause codes\<close>

definition causeStrings :: "(uint8 \<times> string) list" where
  "causeStrings = [
     (CauseIllegalUE, ''Illegal UE''),
     (CausePEINotAccepted, ''PEI not accepted''),
     (CauseIllegalME, ''Illegal ME''),
     (Cause5GSServicesNotAllowed, ''5GS services not allowed''),
     (CauseUEIdentityCannotBeDerived, ''UE identity cannot be derived from the network''),
     (CauseImplicitlyDeregistered, ''Implicitly de-registered''),
     (CausePLMNNotAllowed, ''PLMN not allowed''),
     (CauseTrackingAreaNotAllowed, ''Tracking area not allowed''),
     (CauseRoamingNotAllowed, ''Roaming not allowed in this tracking area''),
     (CauseNoSuitableCells, ''No suitable cells in tracking area''),
     (CauseMACFailure, ''MAC failure''),
     (CauseSynchFailure, ''Synch failure''),
     (CauseCongestion, ''Congestion''),
     (CauseUESecurityCapMismatch, ''UE security capabilities mismatch''),
     (CauseSecurityModeRejected, ''Security mode rejected, unspecified''),
     (CauseN1ModeNotAllowed, ''N1 mode not allowed''),
     (CauseRestrictedServiceArea, ''Restricted service area''),
     (CauseLADNNotAvailable, ''LADN not available''),
     (CauseMaxPDUSessionsReached, ''Maximum number of PDU sessions reached''),
     (CauseInsufficientResourcesForSlice, ''Insufficient resources for specific slice and DNN''),
     (CausePayloadNotForwarded, ''Payload was not forwarded''),
     (CauseDNNNotSupportedOrNotSubscribed, ''DNN not supported or not subscribed in the slice'')]"

definition CauseString :: "uint8 \<Rightarrow> string" where
  "CauseString code =
     (case map_of causeStrings code of
        Some s \<Rightarrow> s
      | None \<Rightarrow> ''Unknown 5GMM cause ('' @ show_nat (unat code) @ '')'')"

definition IsRetryableCause :: "uint8 \<Rightarrow> bool" where
  "IsRetryableCause code \<longleftrightarrow> code \<in> {CauseCongestion, CauseInsufficientResourcesForSlice}"

definition CauseIsProtocolError :: "uint8 \<Rightarrow> bool" where
  "CauseIsProtocolError code \<longleftrightarrow>
     code \<in> {CauseMACFailure, CauseSynchFailure, CauseUESecurityCapMismatch, CauseSecurityModeRejected}"

section \<open>Timers\<close>

text \<open>A \<open>time.Duration\<close> is a number of nanoseconds in an \<open>int64\<close>.\<close>

record TimerConfig =
  tc_Name :: string
  tc_Duration :: int64
  tc_MaxRetries :: int

definition NewTimerConfig :: "string \<Rightarrow> uint32 \<Rightarrow> TimerConfig" where
  "NewTimerConfig name seconds =
     \<lparr>tc_Name = name, tc_Duration = ucast seconds * 1000000000, tc_MaxRetries = 0\<rparr>"

definition NewTimerConfigWithRetries :: "string \<Rightarrow> uint32 \<Rightarrow> int \<Rightarrow> TimerConfig" where
  "NewTimerConfigWithRetries name seconds maxRetries =
     (NewTimerConfig name seconds)\<lparr>tc_MaxRetries := maxRetries\<rparr>"

text \<open>\<open>time.Since(start) > tc.Duration\<close> at a clock reading \<open>now\<close>.\<close>

definition IsExpired :: "TimerConfig \<Rightarrow> int \<Rightarrow> int \<Rightarrow> bool" where
  "IsExpired tc now start \<longleftrightarrow> time_Since now start > sint (tc_Duration tc)"

definition RegistrationTimers :: "TimerConfig list" where
  "RegistrationTimers =
     [NewTimerConfigWithRetries ''T3510'' T3510Value 4,
      NewTimerConfig ''T3512'' T3512Default,
      NewTimerConfigWithRetries ''T3550'' T3550Value 4]"

definition PDUSessionTimers :: "TimerConfig list" where
  "PDUSessionTimers = [NewTimerConfigWithRetries ''T3580'' T3580Value 4]"

text \<open>The multiplication to nanoseconds never overflows, so a timer lasts the seconds asked for.\<close>

lemma NewTimerConfig_duration: "sint (tc_Duration (NewTimerConfig name seconds)) = uint seconds * 1000000000"
proof -
  have u: "uint seconds < 2 ^ 32" using unsigned_less [where 'a = int, of seconds] by simp
  have "uint (ucast seconds * 1000000000 :: int64) = uint seconds * 1000000000"
    using u by (simp add: uint_word_ariths unsigned_ucast_eq take_bit_eq_mod)
  moreover have "uint seconds * 1000000000 < 2 ^ 63" using u by simp
  ultimately show ?thesis
    by (simp add: NewTimerConfig_def sint_of_small)
qed

end
