(* ===== verification/Nas.thy ===== *)
theory Nas
  imports NasTypes
begin

text \<open>
  The NAS codec \<^verbatim>\<open>pkg/nas/messages.go\<close>.  Decoders run over the wire bytes with checked
  indexing: every \<open>data[i]\<close> and \<open>data[a:b]\<close> of the source is \<open>idx\<close> or \<open>slice\<close>, which is \<open>Panic\<close> when out of
  range, so that the absence of panics is a theorem.  The offset loops are recursive functions
  that terminate because each round moves the offset forward.
\<close>

section \<open>Message types\<close>

record MobileIdentity =
  mi_Type :: uint8
  mi_Value :: string

record UESecurityCapability =
  cap_EA0 :: bool
  cap_EA1 :: bool
  cap_EA2 :: bool
  cap_EA3 :: bool
  cap_IA0 :: bool
  cap_IA1 :: bool
  cap_IA2 :: bool
  cap_IA3 :: bool
  cap_RawBytes :: bytes

record NSSAI =
  ns_SST :: uint8
  ns_SD :: "byte \<times> byte \<times> byte"
  ns_HasSD :: bool

record RegistrationRequest =
  rr_RegistrationType :: uint8
  rr_NgKSI :: uint8
  rr_MobileIdentity :: MobileIdentity
  rr_UESecCap :: "UESecurityCapability option"
  rr_RequestedNSSAI :: "NSSAI list"

record RegistrationAccept =
  ra_RegistrationResult :: uint8
  ra_GUTI :: string
  ra_AllowedNSSAI :: "NSSAI list"
  ra_T3512Value :: uint32

record RegistrationReject =
  rj_CauseCode :: uint8

record SecurityModeCommand =
  smc_SelectedCiphering :: uint8
  smc_SelectedIntegrity :: uint8
  smc_NgKSI :: uint8
  smc_ReplayedUESecCap :: "UESecurityCapability option"

record SecurityModeComplete =
  sc_IMEISV :: string

section \<open>Helpers\<close>

definition lo_nibble :: "byte \<Rightarrow> byte" where
  "lo_nibble b = b AND 0x0F"

definition hi_nibble :: "byte \<Rightarrow> byte" where
  "hi_nibble b = drop_bit 4 b AND 0x0F"

text \<open>\<open>fmt.Sprintf("%d", b)\<close> of a byte.\<close>

definition show_byte :: "byte \<Rightarrow> string" where
  "show_byte b = show_nat (unat b)"

text \<open>The two digits of a BCD byte; the high nibble \<open>0xF\<close> is filler.\<close>

definition bcd_byte :: "byte \<Rightarrow> string" where
  "bcd_byte b = show_byte (lo_nibble b) @ (if hi_nibble b \<noteq> 0x0F then show_byte (hi_nibble b) else [])"

definition decodeSUCI :: "bytes \<Rightarrow> (string, string) res" where
  "decodeSUCI data =
     (if length data < 9 then Ok ''unknown-suci''
      else
        rbind (idx data 1) (\<lambda>d1. rbind (idx data 2) (\<lambda>d2. rbind (idx data 3) (\<lambda>d3.
          let mcc = show_byte (lo_nibble d1) @ show_byte (hi_nibble d1) @ show_byte (lo_nibble d2);
              mnc3 = hi_nibble d2;
              mnc = (if mnc3 = 0x0F then show_byte (lo_nibble d3) @ show_byte (hi_nibble d3)
                     else show_byte (lo_nibble d3) @ show_byte (hi_nibble d3) @ show_byte mnc3)
          in rbind (slice data 8 (length data)) (\<lambda>rest.
               Ok (''imsi-'' @ mcc @ mnc @ concat (map bcd_byte rest)))))))"

definition decodeIMEISV :: "bytes \<Rightarrow> (string, string) res" where
  "decodeIMEISV data =
     (if length data < 2 then Ok []
      else rbind (slice data 1 (length data)) (\<lambda>rest. Ok (concat (map bcd_byte rest))))"

definition decodeGUTI :: "bytes \<Rightarrow> (string, string) res" where
  "decodeGUTI data =
     (if length data < 10 then Ok ''unknown-guti''
      else rbind (slice data 1 6) (\<lambda>ds. Ok (''5g-guti-'' @ concat (map hex_byte ds))))"

definition has_bits :: "byte \<Rightarrow> byte \<Rightarrow> bool" where
  "has_bits b m \<longleftrightarrow> b AND m \<noteq> 0"

definition decodeUESecCap :: "bytes \<Rightarrow> (string, UESecurityCapability) res" where
  "decodeUESecCap data =
     rbind (if length data \<ge> 1 then idx data 0 else Ok 0) (\<lambda>ea.
     rbind (if length data \<ge> 2 then idx data 1 else Ok 0) (\<lambda>ia.
       Ok \<lparr>cap_EA0 = has_bits ea 0x80, cap_EA1 = has_bits ea 0x40,
           cap_EA2 = has_bits ea 0x20, cap_EA3 = has_bits ea 0x10,
           cap_IA0 = has_bits ia 0x80, cap_IA1 = has_bits ia 0x40,
           cap_IA2 = has_bits ia 0x20, cap_IA3 = has_bits ia 0x10,
           cap_RawBytes = data\<rparr>))"

definition flag :: "bool \<Rightarrow> byte \<Rightarrow> byte" where
  "flag c m = (if c then m else 0)"

definition encodeUESecCap :: "UESecurityCapability \<Rightarrow> bytes" where
  "encodeUESecCap cap =
     (if cap_RawBytes cap \<noteq> [] then cap_RawBytes cap
      else [flag (cap_EA0 cap) 0x80 OR flag (cap_EA1 cap) 0x40 OR flag (cap_EA2 cap) 0x20 OR flag (cap_EA3 cap) 0x10,
            flag (cap_IA0 cap) 0x80 OR flag (cap_IA1 cap) 0x40 OR flag (cap_IA2 cap) 0x20 OR flag (cap_IA3 cap) 0x10])"

text \<open>One S-NSSAI value: the SST, and the SD when at least four bytes are there.\<close>

definition decode_nssai_at :: "bytes \<Rightarrow> nat \<Rightarrow> nat \<Rightarrow> (string, NSSAI) res" where
  "decode_nssai_at data i len =
     rbind (idx data i) (\<lambda>sst.
       if len \<ge> 4 then
         rbind (idx data (i + 1)) (\<lambda>a. rbind (idx data (i + 2)) (\<lambda>b. rbind (idx data (i + 3)) (\<lambda>c.
           Ok \<lparr>ns_SST = sst, ns_SD = (a, b, c), ns_HasSD = True\<rparr>)))
       else Ok \<lparr>ns_SST = sst, ns_SD = (0, 0, 0), ns_HasSD = False\<rparr>)"

function nssai_loop :: "bytes \<Rightarrow> nat \<Rightarrow> NSSAI list \<Rightarrow> (string, NSSAI list) res" where
  "nssai_loop data i acc =
     (if i < length data then
        rbind (idx data i) (\<lambda>l.
          let sLen = unat l; i1 = i + 1 in
          if i1 + sLen > length data \<or> sLen < 1 then Ok acc
          else rbind (decode_nssai_at data i1 sLen) (\<lambda>n. nssai_loop data (i1 + sLen) (acc @ [n])))
      else Ok acc)"
  by pat_completeness auto
termination by (relation "measure (\<lambda>(data, i, _). length data - i)") auto

definition decodeNSSAIList :: "bytes \<Rightarrow> (string, NSSAI list) res" where
  "decodeNSSAIList data = nssai_loop data 0 []"

definition encode_nssai :: "NSSAI \<Rightarrow> bytes" where
  "encode_nssai n =
     (if ns_HasSD n then
        (case ns_SD n of (a, b, c) \<Rightarrow> [4, ns_SST n, a, b, c])
      else [1, ns_SST n])"

definition encodeNSSAIList :: "NSSAI list \<Rightarrow> bytes" where
  "encodeNSSAIList nssais = concat (map encode_nssai nssais)"

function dnn_loop :: "bytes \<Rightarrow> nat \<Rightarrow> string \<Rightarrow> (string, string) res" where
  "dnn_loop data i result =
     (if i < length data then
        rbind (idx data i) (\<lambda>l.
          let labelLen = unat l; i1 = i + 1 in
          if i1 + labelLen > length data \<or> labelLen = 0 then Ok result
          else rbind (slice data i1 (i1 + labelLen)) (\<lambda>lab.
                 dnn_loop data (i1 + labelLen)
                   ((if result \<noteq> [] then result @ ''.'' else result) @ string_of lab)))
      else Ok result)"
  by pat_completeness auto
termination by (relation "measure (\<lambda>(data, i, _). length data - i)") auto

definition decodeDNN :: "bytes \<Rightarrow> (string, string) res" where
  "decodeDNN data = dnn_loop data 0 []"

definition encodeGUTIValue :: "string \<Rightarrow> bytes" where
  "encodeGUTIValue guti = [0xF2, 0x00, 0xF1, 0x10, 0x01, 0x00, 0x40, 0x00, 0x00, 0x00, 0x01]"

definition encodeGPRSTimer3 :: "uint32 \<Rightarrow> byte" where
  "encodeGPRSTimer3 seconds =
     (if seconds \<le> 62 then 0x60 OR ucast (seconds div 2)
      else if seconds \<le> 930 then 0x80 OR ucast (seconds div 30)
      else if seconds \<le> 1860 then 0xA0 OR ucast (seconds div 60)
      else 0x00 OR ucast (seconds div 600))"

declare nssai_loop.simps [simp del] dnn_loop.simps [simp del]

section \<open>Registration\<close>

definition bad_epd :: "byte \<Rightarrow> byte \<Rightarrow> string" where
  "bad_epd got want = ''unexpected EPD: 0x'' @ hex_byte got @ '', want 0x'' @ hex_byte want"

definition bad_msg_type :: "byte \<Rightarrow> byte \<Rightarrow> string" where
  "bad_msg_type got want = ''unexpected message type: 0x'' @ hex_byte got @ '', want 0x'' @ hex_byte want"

text \<open>
  The optional IEs behind the mandatory part, tag, one length byte and value each.  The
  two messages that have them share the loop; \<open>on_ie\<close> is the \<open>switch\<close> on the tag.
\<close>

function ie_loop :: "(byte \<Rightarrow> bytes \<Rightarrow> 'm \<Rightarrow> (string, 'm) res) \<Rightarrow> bytes \<Rightarrow> nat \<Rightarrow> 'm \<Rightarrow> (string, 'm) res" where
  "ie_loop on_ie data offset msg =
     (if offset < length data - 1 then
        rbind (idx data offset) (\<lambda>ieTag.
          let offset1 = offset + 1 in
          if offset1 \<ge> length data then Ok msg
          else rbind (idx data offset1) (\<lambda>l.
            let ieLen = unat l; offset2 = offset1 + 1 in
            if offset2 + ieLen > length data then Ok msg
            else rbind (slice data offset2 (offset2 + ieLen)) (\<lambda>ieVal.
              rbind (on_ie ieTag ieVal msg) (\<lambda>msg'. ie_loop on_ie data (offset2 + ieLen) msg'))))
      else Ok msg)"
  by pat_completeness auto
termination by (relation "measure (\<lambda>(_, data, offset, _). length data - offset)") auto

declare ie_loop.simps [simp del]

definition registration_ie :: "byte \<Rightarrow> bytes \<Rightarrow> RegistrationRequest \<Rightarrow> (string, RegistrationRequest) res" where
  "registration_ie ieTag ieVal req =
     (if ieTag = 0x2E then
        (if length ieVal \<ge> 2 then
           rbind (decodeUESecCap ieVal) (\<lambda>c. Ok (req\<lparr>rr_UESecCap := Some c\<rparr>))
         else Ok req)
      else if ieTag = IETagAllowedNSSAI then
        rbind (decodeNSSAIList ieVal) (\<lambda>l. Ok (req\<lparr>rr_RequestedNSSAI := l\<rparr>))
      else Ok req)"

definition decode_identity :: "bytes \<Rightarrow> (string, MobileIdentity) res" where
  "decode_identity idData =
     rbind (idx idData 0) (\<lambda>d0.
       let ty = d0 AND 0x07 in
       rbind (if ty = MobileIdentitySUCI then decodeSUCI idData
              else if ty = MobileIdentity5GGUTI then decodeGUTI idData
              else Ok (''type-'' @ show_byte ty))
         (\<lambda>v. Ok \<lparr>mi_Type = ty, mi_Value = v\<rparr>))"

definition DecodeRegistrationRequest :: "bytes \<Rightarrow> (string, RegistrationRequest) res" where
  "DecodeRegistrationRequest data =
     (if length data < 7 then
        Error (''NAS registration request too short: '' @ show_nat (length data) @ '' bytes'')
      else
        rbind (idx data 0) (\<lambda>d0. if d0 \<noteq> EPD5GMM then Error (bad_epd d0 EPD5GMM) else
        rbind (idx data 2) (\<lambda>d2. if d2 \<noteq> MsgTypeRegistrationRequest
                                then Error (bad_msg_type d2 MsgTypeRegistrationRequest) else
        rbind (idx data 3) (\<lambda>d3. rbind (idx data 4) (\<lambda>d4. rbind (idx data 5) (\<lambda>d5.
          let idLen = be16 d4 d5 in
          if length data < 6 + idLen \<or> idLen < 1 then
            Error (''mobile identity length '' @ show_nat idLen @ '' exceeds data'')
          else
            rbind (slice data 6 (6 + idLen)) (\<lambda>idData.
            rbind (decode_identity idData) (\<lambda>ident.
              ie_loop registration_ie data (6 + idLen)
                \<lparr>rr_RegistrationType = d3 AND 0x07, rr_NgKSI = drop_bit 4 d3 AND 0x07,
                 rr_MobileIdentity = ident, rr_UESecCap = None, rr_RequestedNSSAI = []\<rparr>))))))))"

definition EncodeRegistrationAccept :: "RegistrationAccept \<Rightarrow> bytes" where
  "EncodeRegistrationAccept accept =
     [EPD5GMM, SecurityHeaderPlain, MsgTypeRegistrationAccept, 0x01, ra_RegistrationResult accept]
     @ (if ra_GUTI accept \<noteq> [] then
          let g = encodeGUTIValue (ra_GUTI accept) in [IETag5GGUTI] @ put_be16 (length g) @ g
        else [])
     @ (if ra_AllowedNSSAI accept \<noteq> [] then
          let n = encodeNSSAIList (ra_AllowedNSSAI accept) in [IETagAllowedNSSAI, of_nat (length n)] @ n
        else [])
     @ (if ra_T3512Value accept > 0 then
          [IETagT3512Value, 0x01, encodeGPRSTimer3 (ra_T3512Value accept)]
        else [])"

definition EncodeRegistrationReject :: "RegistrationReject \<Rightarrow> bytes" where
  "EncodeRegistrationReject reject =
     [EPD5GMM, SecurityHeaderPlain, MsgTypeRegistrationReject, rj_CauseCode reject]"

section \<open>Security mode\<close>

definition EncodeSecurityModeCommand :: "SecurityModeCommand \<Rightarrow> bytes" where
  "EncodeSecurityModeCommand smc =
     [EPD5GMM, SecurityHeaderPlain, MsgTypeSecurityModeCommand,
      push_bit 4 (smc_SelectedCiphering smc) OR smc_SelectedIntegrity smc,
      smc_NgKSI smc AND 0x07]
     @ (case smc_ReplayedUESecCap smc of
          None \<Rightarrow> []
        | Some c \<Rightarrow> let b = encodeUESecCap c in of_nat (length b) # b)"

definition smc_ie :: "byte \<Rightarrow> bytes \<Rightarrow> SecurityModeComplete \<Rightarrow> (string, SecurityModeComplete) res" where
  "smc_ie ieTag ieVal msg =
     (if ieTag = IETag5GGUTI then
        (if length ieVal \<ge> 1 then
           rbind (idx ieVal 0) (\<lambda>v0.
             if v0 AND 0x07 = MobileIdentityImeisv then
               rbind (decodeIMEISV ieVal) (\<lambda>s. Ok (msg\<lparr>sc_IMEISV := s\<rparr>))
             else Ok msg)
         else Ok msg)
      else Ok msg)"

definition DecodeSecurityModeComplete :: "bytes \<Rightarrow> (string, SecurityModeComplete) res" where
  "DecodeSecurityModeComplete data =
     (if length data < 3 then
        Error (''NAS Security Mode Complete too short: '' @ show_nat (length data) @ '' bytes'')
      else
        rbind (idx data 0) (\<lambda>d0. if d0 \<noteq> EPD5GMM then Error (bad_epd d0 EPD5GMM) else
        rbind (idx data 2) (\<lambda>d2. if d2 \<noteq> MsgTypeSecurityModeComplete
                                then Error (bad_msg_type d2 MsgTypeSecurityModeComplete) else
          ie_loop smc_ie data 3 \<lparr>sc_IMEISV = []\<rparr>)))"

section \<open>Authentication\<close>

definition EncodeAuthenticationRequest :: "bytes \<Rightarrow> bytes \<Rightarrow> (string, bytes) res" where
  "EncodeAuthenticationRequest rand autn =
     rbind (slice rand 0 16) (\<lambda>r. rbind (slice autn 0 16) (\<lambda>a.
       Ok ([EPD5GMM, SecurityHeaderPlain, MsgTypeAuthenticationRequest, 0x00, 0x02, 0x00, 0x00]
           @ [0x21] @ r @ [0x20, 0x10] @ a)))"

function auth_resp_loop :: "bytes \<Rightarrow> nat \<Rightarrow> (string, bytes) res" where
  "auth_resp_loop data offset =
     (if offset < length data then
        rbind (idx data offset) (\<lambda>iei.
          if iei = 0x2D then
            (let offset1 = offset + 1 in
             if offset1 \<ge> length data then Error ''auth response parameter truncated at length''
             else rbind (idx data offset1) (\<lambda>l.
               let paramLen = unat l; offset2 = offset1 + 1 in
               if offset2 + paramLen > length data then
                 Error (''auth response parameter length '' @ show_nat paramLen @ '' exceeds data'')
               else slice data offset2 (offset2 + paramLen)))
          else if iei = 0x78 then
            (let offset1 = offset + 1 in
             if offset1 + 2 > length data then Error ''EAP message truncated''
             else rbind (idx data offset1) (\<lambda>h. rbind (idx data (offset1 + 1)) (\<lambda>l.
               auth_resp_loop data (offset1 + (2 + be16 h l)))))
          else Error (''unknown IE 0x'' @ hex_byte iei @ '' in authentication response''))
      else Error ''no authentication response parameter found'')"
  by pat_completeness auto
termination by (relation "measure (\<lambda>(data, offset). length data - offset)") auto

declare auth_resp_loop.simps [simp del]

definition DecodeAuthenticationResponse :: "bytes \<Rightarrow> (string, bytes) res" where
  "DecodeAuthenticationResponse data =
     (if length data < 3 then
        Error (''NAS authentication response too short: '' @ show_nat (length data) @ '' bytes'')
      else
        rbind (idx data 0) (\<lambda>d0. if d0 \<noteq> EPD5GMM then Error (bad_epd d0 EPD5GMM) else
        rbind (idx data 2) (\<lambda>d2. if d2 \<noteq> MsgTypeAuthenticationResponse
                                then Error (bad_msg_type d2 MsgTypeAuthenticationResponse) else
          auth_resp_loop data 3)))"

section \<open>Session management and transport\<close>

function pdu_ie_loop :: "bytes \<Rightarrow> nat \<Rightarrow> uint8 \<Rightarrow> (string, uint8) res" where
  "pdu_ie_loop data offset ty =
     (if offset < length data then
        rbind (idx data offset) (\<lambda>iei.
          if drop_bit 4 iei = 0x09 then pdu_ie_loop data (offset + 1) (iei AND 0x0F)
          else if drop_bit 4 iei = 0x0A then pdu_ie_loop data (offset + 1) ty
          else
            let offset1 = offset + 1 in
            if offset1 \<ge> length data then Ok ty
            else rbind (idx data offset1) (\<lambda>l. pdu_ie_loop data (offset1 + (1 + unat l)) ty))
      else Ok ty)"
  by pat_completeness auto
termination by (relation "measure (\<lambda>(data, offset, _). length data - offset)") auto

declare pdu_ie_loop.simps [simp del]

definition DecodePDUSessionEstablishmentRequest :: "bytes \<Rightarrow> (string, uint8 \<times> uint8) res" where
  "DecodePDUSessionEstablishmentRequest data =
     (if length data < 6 then
        Error (''PDU session establishment request too short: '' @ show_nat (length data) @ '' bytes'')
      else
        rbind (idx data 0) (\<lambda>d0. if d0 \<noteq> EPD5GSM then Error (bad_epd d0 EPD5GSM) else
        rbind (idx data 3) (\<lambda>d3. if d3 \<noteq> MsgTypePDUSessionEstablishmentRequest
                                then Error (bad_msg_type d3 MsgTypePDUSessionEstablishmentRequest) else
        rbind (idx data 1) (\<lambda>d1.
        rbind (pdu_ie_loop data 6 0x01) (\<lambda>ty. Ok (d1, ty))))))"

text \<open>The named results of \<open>DecodeULNASTransport\<close>.\<close>

record ULNASTransport =
  ul_payloadContainerType :: uint8
  ul_pduSessionID :: uint8
  ul_payload :: bytes
  ul_dnn :: string
  ul_snssai :: "NSSAI option"

definition ul_ie :: "byte \<Rightarrow> bytes \<Rightarrow> nat \<Rightarrow> nat \<Rightarrow> ULNASTransport \<Rightarrow> (string, ULNASTransport) res" where
  "ul_ie iei data offset ieLen msg =
     (if iei = 0x22 then
        (if ieLen \<ge> 1 then
           rbind (decode_nssai_at data offset ieLen) (\<lambda>n. Ok (msg\<lparr>ul_snssai := Some n\<rparr>))
         else Ok msg)
      else if iei = 0x25 then
        (if ieLen \<ge> 1 then
           rbind (slice data offset (offset + ieLen)) (\<lambda>v.
           rbind (decodeDNN v) (\<lambda>s. Ok (msg\<lparr>ul_dnn := s\<rparr>)))
         else Ok msg)
      else Ok msg)"

function ul_ie_loop :: "bytes \<Rightarrow> nat \<Rightarrow> ULNASTransport \<Rightarrow> (string, ULNASTransport) res" where
  "ul_ie_loop data offset msg =
     (if offset < length data then
        rbind (idx data offset) (\<lambda>iei.
          if drop_bit 4 iei = 0x08 \<or> drop_bit 4 iei = 0x0A \<or> drop_bit 4 iei = 0x0F then
            ul_ie_loop data (offset + 1) msg
          else if iei = 0x12 then
            rbind (if offset + 1 < length data
                   then rbind (idx data (offset + 1)) (\<lambda>i. Ok (msg\<lparr>ul_pduSessionID := i\<rparr>))
                   else Ok msg)
              (\<lambda>msg'. ul_ie_loop data (offset + 2) msg')
          else if iei = 0x59 then ul_ie_loop data (offset + 2) msg
          else
            let offset1 = offset + 1 in
            if offset1 \<ge> length data then Ok msg
            else rbind (idx data offset1) (\<lambda>l.
              let ieLen = unat l; offset2 = offset1 + 1 in
              if offset2 + ieLen > length data then Ok msg
              else rbind (ul_ie iei data offset2 ieLen msg) (\<lambda>msg'.
                ul_ie_loop data (offset2 + ieLen) msg')))
      else Ok msg)"
  by pat_completeness auto
termination by (relation "measure (\<lambda>(data, offset, _). length data - offset)") auto

declare ul_ie_loop.simps [simp del]

definition DecodeULNASTransport :: "bytes \<Rightarrow> (string, ULNASTransport) res" where
  "DecodeULNASTransport data =
     (if length data < 6 then
        Error (''UL NAS Transport too short: '' @ show_nat (length data) @ '' bytes'')
      else
        rbind (idx data 0) (\<lambda>d0. if d0 \<noteq> EPD5GMM then Error (bad_epd d0 EPD5GMM) else
        rbind (idx data 2) (\<lambda>d2. if d2 \<noteq> MsgTypeULNASTransport
                                then Error (bad_msg_type d2 MsgTypeULNASTransport) else
        rbind (idx data 3) (\<lambda>d3. rbind (idx data 4) (\<lambda>d4. rbind (idx data 5) (\<lambda>d5.
          let containerLen = be16 d4 d5 in
          if length data < 6 + containerLen then
            Error (''payload container length '' @ show_nat containerLen @ '' exceeds data'')
          else rbind (slice data 6 (6 + containerLen)) (\<lambda>payload.
            ul_ie_loop data (6 + containerLen)
              \<lparr>ul_payloadContainerType = d3 AND 0x0F, ul_pduSessionID = 0, ul_payload = payload,
               ul_dnn = [], ul_snssai = None\<rparr>)))))))"

section \<open>Security header\<close>

definition StripSecurityHeader :: "bytes \<Rightarrow> (string, bytes) res" where
  "StripSecurityHeader data =
     (if length data < 2 then Ok data
      else rbind (idx data 1) (\<lambda>d1.
        if d1 AND 0x0F = SecurityHeaderPlain then Ok data
        else if length data \<le> 7 then Ok data
        else slice data 7 (length data)))"

definition WrapSecurityHeader :: "bytes \<Rightarrow> byte \<Rightarrow> byte \<Rightarrow> bytes" where
  "WrapSecurityHeader inner secHdrType sqn =
     [EPD5GMM, secHdrType, 0x00, 0x00, 0x00, 0x00, sqn] @ inner"

section \<open>No decoder panics\<close>

text \<open>Induction over an offset that only moves forward.\<close>

lemma offset_induct [case_names step]:
  assumes "\<And>offset acc. (\<And>offset' acc'. offset < length data \<Longrightarrow> offset < offset' \<Longrightarrow> P offset' acc') \<Longrightarrow> P offset acc"
  shows "P offset acc"
proof (induction "length data - offset" arbitrary: offset acc rule: less_induct)
  case less
  show ?case by (rule assms) (rule less, arith)
qed

lemma decode_nssai_at_total:
  assumes "i + len \<le> length data" "1 \<le> len"
  shows "\<exists>n. decode_nssai_at data i len = Ok n"
  using assms by (auto simp: decode_nssai_at_def)

lemma nssai_loop_total: "\<exists>l. nssai_loop data i acc = Ok l"
proof (induction i acc rule: offset_induct [where data = data])
  case (step i acc)
  show ?case
  proof (cases "i < length data \<and> i + 1 + unat (data ! i) \<le> length data \<and> 1 \<le> unat (data ! i)")
    case True
    then obtain n where "decode_nssai_at data (i + 1) (unat (data ! i)) = Ok n"
      using decode_nssai_at_total [of "i + 1" "unat (data ! i)" data] by auto
    with True show ?thesis
      by (subst nssai_loop.simps) (simp add: Let_def step)
  qed (subst nssai_loop.simps, auto simp: Let_def)
qed

lemma decodeNSSAIList_total: "\<exists>l. decodeNSSAIList data = Ok l"
  by (simp add: decodeNSSAIList_def nssai_loop_total)

lemma dnn_loop_total: "\<exists>s. dnn_loop data i acc = Ok s"
proof (induction i acc rule: offset_induct [where data = data])
  case (step i acc)
  then show ?case by (subst dnn_loop.simps) (simp add: Let_def)
qed

lemma decodeDNN_total: "\<exists>s. decodeDNN data = Ok s"
  by (simp add: decodeDNN_def dnn_loop_total)

lemma decodeSUCI_total: "\<exists>s. decodeSUCI data = Ok s"
  by (simp add: decodeSUCI_def Let_def)

lemma decodeGUTI_total: "\<exists>s. decodeGUTI data = Ok s"
  by (simp add: decodeGUTI_def)

lemma decodeIMEISV_total: "\<exists>s. decodeIMEISV data = Ok s"
  by (simp add: decodeIMEISV_def)

lemma decodeUESecCap_total: "\<exists>c. decodeUESecCap data = Ok c"
  by (auto simp: decodeUESecCap_def idx_def)

lemmas nas_total = decodeNSSAIList_total decodeDNN_total decodeSUCI_total decodeGUTI_total
  decodeIMEISV_total decodeUESecCap_total

lemma registration_ie_total: "\<exists>m. registration_ie t v msg = Ok m"
  using decodeUESecCap_total [of v] decodeNSSAIList_total [of v]
  by (auto simp: registration_ie_def)

lemma smc_ie_total: "\<exists>m. smc_ie t v msg = Ok m"
  using decodeIMEISV_total [of v] by (auto simp: smc_ie_def idx_def)

lemma decode_identity_total: "v \<noteq> [] \<Longrightarrow> \<exists>i. decode_identity v = Ok i"
  using decodeSUCI_total [of v] decodeGUTI_total [of v]
  by (auto simp: decode_identity_def Let_def)

lemma ie_loop_total:
  assumes "\<And>t v m. \<exists>m'. on_ie t v m = Ok m'"
  shows "\<exists>m'. ie_loop on_ie data offset msg = Ok m'"
proof (induction offset msg rule: offset_induct [where data = data])
  case (step offset msg)
  let ?n = "unat (data ! Suc offset)"
  obtain m' where "on_ie (data ! offset) (take ?n (drop (Suc (Suc offset)) data)) msg = Ok m'"
    using assms by blast
  with step show ?case by (subst ie_loop.simps) (simp add: Let_def)
qed

lemma auth_resp_loop_no_panic: "auth_resp_loop data offset \<noteq> Panic"
proof (induction offset "()" rule: offset_induct [where data = data])
  case (step offset)
  then show ?case by (subst auth_resp_loop.simps) (simp add: Let_def)
qed

lemma pdu_ie_loop_total: "\<exists>t. pdu_ie_loop data offset ty = Ok t"
proof (induction offset ty rule: offset_induct [where data = data])
  case (step offset ty)
  then show ?case by (subst pdu_ie_loop.simps) (simp add: Let_def)
qed

lemma ul_ie_total:
  assumes "offset + ieLen \<le> length data"
  shows "\<exists>m. ul_ie iei data offset ieLen msg = Ok m"
  using assms decode_nssai_at_total [of offset ieLen data] decodeDNN_total
  by (auto simp: ul_ie_def) (metis rbind_simps(1))

lemma ul_ie_loop_total: "\<exists>m. ul_ie_loop data offset msg = Ok m"
proof (induction offset msg rule: offset_induct [where data = data])
  case (step offset msg)
  let ?n = "unat (data ! Suc offset)"
  show ?case
  proof (cases "offset + 2 + ?n \<le> length data")
    case True
    then obtain m' where "ul_ie (data ! offset) data (Suc (Suc offset)) ?n msg = Ok m'"
      using ul_ie_total [of "Suc (Suc offset)" ?n data] by auto
    with True step show ?thesis by (subst ul_ie_loop.simps) (simp add: Let_def)
  next
    case False
    with step show ?thesis by (subst ul_ie_loop.simps) (simp add: Let_def)
  qed
qed

section \<open>Round trips of the list encodings\<close>

lemma nth_append_Suc [simp]: "(xs @ y # ys) ! length xs = y"
  by simp

definition nssai_wf :: "NSSAI \<Rightarrow> bool" where
  "nssai_wf n \<longleftrightarrow> ns_HasSD n \<or> ns_SD n = (0, 0, 0)"

lemma decode_encode_nssai:
  assumes "nssai_wf n"
  shows "decode_nssai_at (pre @ tl (encode_nssai n) @ rest) (length pre) (unat (hd (encode_nssai n))) = Ok n"
  using assms by (cases n) (auto simp: decode_nssai_at_def encode_nssai_def nssai_wf_def nth_append)

lemma encode_nssai_shape: "encode_nssai n = of_nat (length (tl (encode_nssai n))) # tl (encode_nssai n)"
  and encode_nssai_len: "unat (hd (encode_nssai n)) = length (tl (encode_nssai n))" "tl (encode_nssai n) \<noteq> []"
  by (cases n; simp add: encode_nssai_def split: prod.splits)+

lemma nssai_loop_encode:
  "\<forall>n \<in> set xs. nssai_wf n \<Longrightarrow>
   nssai_loop (pre @ encodeNSSAIList xs) (length pre) acc = Ok (acc @ xs)"
proof (induction xs arbitrary: pre acc)
  case Nil
  then show ?case by (subst nssai_loop.simps) (simp add: encodeNSSAIList_def)
next
  case (Cons n xs)
  define v where "v = tl (encode_nssai n)"
  define h where "h = hd (encode_nssai n)"
  have enc: "encode_nssai n = h # v" and h: "unat h = length v" and v: "v \<noteq> []"
    unfolding v_def h_def using encode_nssai_shape [of n] encode_nssai_len [of n] by (metis list.sel)+
  have data: "pre @ encodeNSSAIList (n # xs) = (pre @ [h]) @ v @ encodeNSSAIList xs"
    by (simp add: encodeNSSAIList_def enc)
  have dec: "decode_nssai_at ((pre @ [h]) @ v @ encodeNSSAIList xs) (length (pre @ [h])) (length v) = Ok n"
    using decode_encode_nssai [of n "pre @ [h]" "encodeNSSAIList xs"] Cons.prems
    unfolding v_def [symmetric] h_def [symmetric] h by simp
  have IH: "nssai_loop ((pre @ [h] @ v) @ encodeNSSAIList xs) (length (pre @ [h] @ v)) (acc @ [n])
      = Ok ((acc @ [n]) @ xs)"
    by (rule Cons.IH) (use Cons.prems in simp)
  show ?case unfolding data using dec IH v
    by (subst nssai_loop.simps) (simp add: Let_def h)
qed

lemma decodeNSSAIList_encode [codec]:
  "\<forall>n \<in> set xs. nssai_wf n \<Longrightarrow> decodeNSSAIList (encodeNSSAIList xs) = Ok xs"
  using nssai_loop_encode [of xs "[]" "[]"] by (simp add: decodeNSSAIList_def)

text \<open>A DNN as length-prefixed labels.\<close>

definition label_bytes :: "string \<Rightarrow> bytes" where
  "label_bytes s = of_nat (length s) # bytes_of s"

fun join_labels :: "string \<Rightarrow> string list \<Rightarrow> string" where
  "join_labels acc [] = acc"
| "join_labels acc (l # ls) = join_labels ((if acc \<noteq> [] then acc @ ''.'' else acc) @ l) ls"

lemma unat_of_nat_byte [simp]: "n < 256 \<Longrightarrow> unat (of_nat n :: byte) = n"
  by (simp add: unat_of_nat)

lemma dnn_loop_labels:
  "\<forall>l \<in> set ls. l \<noteq> [] \<and> length l < 256 \<Longrightarrow>
   dnn_loop (pre @ concat (map label_bytes ls)) (length pre) acc = Ok (join_labels acc ls)"
proof (induction ls arbitrary: pre acc)
  case Nil
  then show ?case by (subst dnn_loop.simps) simp
next
  case (Cons l ls)
  have data: "pre @ concat (map label_bytes (l # ls))
      = (pre @ [of_nat (length l)]) @ bytes_of l @ concat (map label_bytes ls)"
    by (simp add: label_bytes_def)
  have IH: "dnn_loop ((pre @ [of_nat (length l)] @ bytes_of l) @ concat (map label_bytes ls))
      (length (pre @ [of_nat (length l)] @ bytes_of l)) acc'
      = Ok (join_labels acc' ls)" for acc'
    by (rule Cons.IH) (use Cons.prems in simp)
  show ?case unfolding data using IH Cons.prems
    by (subst dnn_loop.simps) (simp add: Let_def)
qed

text \<open>Optional IEs as tag, length, value: the loop is a left fold of the tag \<open>switch\<close> over them.\<close>

definition tlv :: "byte \<times> bytes \<Rightarrow> bytes" where
  "tlv ie = fst ie # of_nat (length (snd ie)) # snd ie"

fun fold_ies :: "(byte \<Rightarrow> bytes \<Rightarrow> 'm \<Rightarrow> (string, 'm) res) \<Rightarrow> (byte \<times> bytes) list \<Rightarrow> 'm \<Rightarrow> (string, 'm) res" where
  "fold_ies on_ie [] m = Ok m"
| "fold_ies on_ie (ie # ies) m = rbind (on_ie (fst ie) (snd ie) m) (fold_ies on_ie ies)"

lemma ie_loop_tlvs:
  "\<forall>ie \<in> set ies. length (snd ie) < 256 \<Longrightarrow>
   ie_loop on_ie (pre @ concat (map tlv ies)) (length pre) m = fold_ies on_ie ies m"
proof (induction ies arbitrary: pre m)
  case Nil
  then show ?case by (subst ie_loop.simps) simp
next
  case (Cons ie ies)
  obtain t v where ie: "ie = (t, v)" by fastforce
  have data: "pre @ concat (map tlv (ie # ies)) = pre @ t # of_nat (length v) # v @ concat (map tlv ies)"
    by (simp add: tlv_def ie)
  have IH: "ie_loop on_ie ((pre @ [t, of_nat (length v)] @ v) @ concat (map tlv ies))
      (length (pre @ [t, of_nat (length v)] @ v)) = fold_ies on_ie ies"
    by (rule ext, rule Cons.IH) (use Cons.prems in simp)
  have len: "(pre @ t # of_nat (length v) # v @ concat (map tlv ies)) ! Suc (length pre) = of_nat (length v)"
    by (simp add: nth_append)
  show ?case unfolding data using IH Cons.prems
    by (subst ie_loop.simps) (simp add: Let_def ie len)
qed

section \<open>BCD identities\<close>

definition bcd_pair :: "nat \<Rightarrow> nat \<Rightarrow> byte" where
  "bcd_pair lo hi = of_nat (16 * hi + lo)"

lemma unat_nibbles: "unat (lo_nibble b) = unat b mod 16" "unat (hi_nibble b) = unat b div 16"
proof -
  have m: "(x :: byte) AND 15 = take_bit 4 x" for x by (simp add: take_bit_eq_mask mask_eq_exp_minus_1)
  show "unat (lo_nibble b) = unat b mod 16"
    unfolding lo_nibble_def m unsigned_take_bit_eq by (simp add: take_bit_eq_mod)
  show "unat (hi_nibble b) = unat b div 16"
    unfolding hi_nibble_def m unsigned_take_bit_eq unsigned_drop_bit_eq
    using unat_byte_parts(1) [of b] by (simp add: take_bit_eq_mod drop_bit_eq_div)
qed

lemma nibbles_pair [simp]:
  assumes "lo < 16" "hi < 16"
  shows "unat (lo_nibble (bcd_pair lo hi)) = lo" "unat (hi_nibble (bcd_pair lo hi)) = hi"
    and "hi_nibble (bcd_pair lo hi) = 0x0F \<longleftrightarrow> hi = 15"
proof -
  have u: "unat (bcd_pair lo hi) = 16 * hi + lo"
    using assms by (simp only: bcd_pair_def unat_of_nat_byte)
  then show "unat (lo_nibble (bcd_pair lo hi)) = lo" and hi: "unat (hi_nibble (bcd_pair lo hi)) = hi"
    using assms by (simp_all add: unat_nibbles)
  show "hi_nibble (bcd_pair lo hi) = 0x0F \<longleftrightarrow> hi = 15"
    using hi by (simp add: word_unat_eq_iff)
qed

lemma show_nibble [simp]:
  "lo < 10 \<Longrightarrow> hi < 16 \<Longrightarrow> show_byte (lo_nibble (bcd_pair lo hi)) = [digit lo]"
  "lo < 16 \<Longrightarrow> hi < 10 \<Longrightarrow> show_byte (hi_nibble (bcd_pair lo hi)) = [digit hi]"
  by (simp_all add: show_byte_def show_nat.simps)

lemma bcd_byte_pair:
  "lo < 10 \<Longrightarrow> hi < 10 \<Longrightarrow> bcd_byte (bcd_pair lo hi) = [digit lo, digit hi]"
  "lo < 10 \<Longrightarrow> bcd_byte (bcd_pair lo 15) = [digit lo]"
  by (simp_all add: bcd_byte_def)

text \<open>Digits packed two to a byte, an odd one filled with \<open>0xF\<close>.\<close>

fun bcd_pack :: "nat list \<Rightarrow> bytes" where
  "bcd_pack [] = []"
| "bcd_pack [a] = [bcd_pair a 15]"
| "bcd_pack (a # b # ds) = bcd_pair a b # bcd_pack ds"

lemma bcd_unpack: "\<forall>d \<in> set ds. d < 10 \<Longrightarrow> concat (map bcd_byte (bcd_pack ds)) = map digit ds"
  by (induction ds rule: bcd_pack.induct) (simp_all add: bcd_byte_pair)

text \<open>
  A null-scheme SUCI on the wire: identity type, PLMN, routing indicator (two bytes), protection
  scheme, key identifier, MSIN.  \<open>mnc\<close> has two or three digits.
\<close>

definition suci_wire :: "nat \<times> nat \<times> nat \<Rightarrow> nat list \<Rightarrow> nat list \<Rightarrow> bytes \<Rightarrow> bytes" where
  "suci_wire mcc mnc msin mid =
     (case mcc of (a, b, c) \<Rightarrow>
       [0x01, bcd_pair a b, bcd_pair c (if length mnc = 3 then mnc ! 2 else 15), bcd_pair (mnc ! 0) (mnc ! 1)]
       @ mid @ bcd_pack msin)"

lemma decodeSUCI_wire:
  assumes "a < 10" "b < 10" "c < 10" "\<forall>d \<in> set mnc. d < 10" "length mnc = 2 \<or> length mnc = 3"
    and "\<forall>d \<in> set msin. d < 10" "msin \<noteq> []" "length mid = 4"
  shows "decodeSUCI (suci_wire (a, b, c) mnc msin mid) =
     Ok (''imsi-'' @ map digit ([a, b, c] @ mnc @ msin))"
proof -
  have nz: "0 < length (bcd_pack msin)" using assms(7) by (cases msin rule: bcd_pack.cases) simp_all
  have drop8: "drop 4 mid = []" using assms(8) by simp
  consider d e where "mnc = [d, e]" | d e f where "mnc = [d, e, f]"
    using assms(5) by (auto simp: numeral_2_eq_2 numeral_3_eq_3 length_Suc_conv)
  then show ?thesis
    using assms nz drop8 by cases (simp_all add: decodeSUCI_def suci_wire_def Let_def bcd_unpack)
qed

section \<open>GPRS timer 3\<close>

text \<open>
  The reading of TS 24.008 Table 10.5.163a, in seconds: three unit bits and five value bits
  (unit 7: the timer is deactivated).
\<close>

definition gprs_unit :: "nat \<Rightarrow> nat" where
  "gprs_unit u = (if u < 7 then [600, 3600, 36000, 2, 30, 60, 1152000] ! u else 0)"

definition gprs_seconds :: "byte \<Rightarrow> nat" where
  "gprs_seconds b = gprs_unit (unat b div 32) * (unat b mod 32)"

text \<open>The step the encoder chooses for a duration.\<close>

definition timer_step :: "nat \<Rightarrow> nat" where
  "timer_step s = (if s \<le> 62 then 2 else if s \<le> 930 then 30 else if s \<le> 1860 then 60 else 600)"

lemma timer_or_table:
  "list_all (\<lambda>k. list_all (\<lambda>n. unat (of_nat (32 * k) OR of_nat n :: byte) = 32 * k + n) [0..<32]) [0..<8]"
  by code_simp

lemma timer_or: "n < 32 \<Longrightarrow> k < 8 \<Longrightarrow> unat (of_nat (32 * k) OR of_nat n :: byte) = 32 * k + n"
  using timer_or_table by (simp only: list_all_iff set_upt) auto

lemma ucast_div: "(ucast (s div of_nat d :: uint32) :: byte) = of_nat (unat s div d)" if "d < 2 ^ 32"
  using that by (simp add: word_unat_eq_iff unat_div unat_of_nat unsigned_ucast_eq take_bit_eq_mod)

lemma gprs_seconds_encode:
  assumes "unat s \<le> 18600"
  shows "gprs_seconds (encodeGPRSTimer3 s) = unat s - unat s mod timer_step (unat s)"
proof -
  have le: "s \<le> of_nat n \<longleftrightarrow> unat s \<le> n" if "n < 2 ^ 32" for n
    using that by (simp add: word_le_nat_alt unat_of_nat)
  have les: "s \<le> 62 \<longleftrightarrow> unat s \<le> 62" "s \<le> 930 \<longleftrightarrow> unat s \<le> 930" "s \<le> 1860 \<longleftrightarrow> unat s \<le> 1860"
    using le [of 62] le [of 930] le [of 1860] by simp_all
  have read: "gprs_seconds (of_nat (32 * k) OR of_nat n) = gprs_unit k * n" if "n < 32" "k < 8" for k n
    using that by (simp only: gprs_seconds_def timer_or) simp
  have enc: "encodeGPRSTimer3 s =
      of_nat (32 * (if unat s \<le> 62 then 3 else if unat s \<le> 930 then 4 else if unat s \<le> 1860 then 5 else 0))
      OR of_nat (unat s div timer_step (unat s))"
    using ucast_div [of 2 s] ucast_div [of 30 s] ucast_div [of 60 s] ucast_div [of 600 s]
    by (simp add: encodeGPRSTimer3_def les timer_step_def)
  have "unat s div timer_step (unat s) < 32"
    using assms by (auto simp: timer_step_def)
  then show ?thesis unfolding enc
    by (subst read) (simp_all add: timer_step_def gprs_unit_def minus_mod_eq_mult_div)
qed

section \<open>Security mode and security header\<close>

lemma encodeUESecCap_replay:
  "decodeUESecCap raw = Ok c \<Longrightarrow> raw \<noteq> [] \<Longrightarrow> encodeUESecCap c = raw"
  by (cases raw) (auto simp: decodeUESecCap_def encodeUESecCap_def rbind_eq_Ok)

lemma Strip_Wrap:
  assumes "t AND 0x0F \<noteq> SecurityHeaderPlain" "inner \<noteq> []"
  shows "StripSecurityHeader (WrapSecurityHeader inner t sqn) = Ok inner"
  using assms by (simp add: StripSecurityHeader_def WrapSecurityHeader_def)

section \<open>Authentication messages\<close>

lemma EncodeAuthenticationRequest_layout:
  assumes "length rand = 16" "length autn = 16"
  shows "EncodeAuthenticationRequest rand autn =
     Ok ([0x7E, 0x00, 0x56, 0x00, 0x02, 0x00, 0x00, 0x21] @ rand @ [0x20, 0x10] @ autn)"
  using assms by (simp add: EncodeAuthenticationRequest_def nas_consts)

text \<open>The response may carry EAP messages before the RES* parameter.\<close>

definition eap_ie :: "bytes \<Rightarrow> bytes" where
  "eap_ie m = 0x78 # put_be16 (length m) @ m"

lemma auth_resp_loop_eap:
  "\<forall>m \<in> set eaps. length m < 65536 \<Longrightarrow> length r < 256 \<Longrightarrow>
   auth_resp_loop (pre @ concat (map eap_ie eaps) @ [0x2D, of_nat (length r)] @ r @ rest) (length pre) = Ok r"
proof (induction eaps arbitrary: pre)
  case Nil
  then show ?case by (subst auth_resp_loop.simps) (simp add: Let_def nth_append)
next
  case (Cons m eaps)
  let ?tail = "concat (map eap_ie eaps) @ [0x2D, of_nat (length r)] @ r @ rest"
  have IH: "auth_resp_loop ((pre @ eap_ie m) @ ?tail) (length (pre @ eap_ie m)) = Ok r"
    by (rule Cons.IH) (use Cons.prems in simp_all)
  have data: "pre @ concat (map eap_ie (m # eaps)) @ [0x2D, of_nat (length r)] @ r @ rest
      = pre @ 0x78 # of_nat (length m div 256) # of_nat (length m) # m @ ?tail"
    by (simp add: eap_ie_def put_be16_def)
  show ?case unfolding data using IH Cons.prems
    by (subst auth_resp_loop.simps) (simp add: Let_def nth_append eap_ie_def put_be16_def)
qed

lemma DecodeAuthenticationResponse_wire:
  assumes "\<forall>m \<in> set eaps. length m < 65536" "length r < 256"
  shows "DecodeAuthenticationResponse
      ([0x7E, h, 0x57] @ concat (map eap_ie eaps) @ [0x2D, of_nat (length r)] @ r @ rest) = Ok r"
  using auth_resp_loop_eap [OF assms, of "[0x7E, h, 0x57]" rest]
  by (simp add: DecodeAuthenticationResponse_def nas_consts numeral_3_eq_3)

section \<open>Nibbles of the algorithm byte\<close>

lemma algs_nibbles_table:
  "list_all (\<lambda>a. list_all (\<lambda>b. hi_nibble (push_bit 4 (of_nat a) OR of_nat b) = of_nat a \<and>
     lo_nibble (push_bit 4 (of_nat a) OR of_nat b) = of_nat b) [0..<16]) [0..<16]"
  by code_simp

lemma algs_nibbles:
  assumes "a < 16" "b < (16 :: byte)"
  shows "hi_nibble (push_bit 4 a OR b) = a" "lo_nibble (push_bit 4 a OR b) = b"
proof -
  have "unat a < 16" "unat b < 16" using assms by (simp_all add: word_less_nat_alt)
  then have "hi_nibble (push_bit 4 (of_nat (unat a)) OR of_nat (unat b)) = of_nat (unat a) \<and>
      lo_nibble (push_bit 4 (of_nat (unat a)) OR of_nat (unat b)) = of_nat (unat b)"
    using algs_nibbles_table unfolding list_all_iff set_upt by (meson atLeastLessThan_iff le0)
  then show "hi_nibble (push_bit 4 a OR b) = a" "lo_nibble (push_bit 4 a OR b) = b" by simp_all
qed

section \<open>The optional IEs of a Registration Request\<close>

text \<open>
  The optional IEs as a UE means them: its security capabilities, the slices it asks for as SST and optional SD, and IEs that are
  neither.
\<close>

datatype reg_ie =
    SecCapIE bytes
  | SlicesIE "(byte \<times> (byte \<times> byte \<times> byte) option) list"
  | OtherIE byte bytes

fun snssai_wire :: "byte \<times> (byte \<times> byte \<times> byte) option \<Rightarrow> bytes" where
  "snssai_wire (sst, None) = [1, sst]"
| "snssai_wire (sst, Some (a, b, c)) = [4, sst, a, b, c]"

fun reg_ie_parts :: "reg_ie \<Rightarrow> byte \<times> bytes" where
  "reg_ie_parts (SecCapIE v) = (0x2E, v)"
| "reg_ie_parts (SlicesIE l) = (0x15, concat (map snssai_wire l))"
| "reg_ie_parts (OtherIE t v) = (t, v)"

fun reg_ie_ok :: "reg_ie \<Rightarrow> bool" where
  "reg_ie_ok (OtherIE t v) = (t \<noteq> 0x2E \<and> t \<noteq> 0x15 \<and> length v < 256)"
| "reg_ie_ok ie = (length (snd (reg_ie_parts ie)) < 256)"

lemma reg_ie_ok_short: "reg_ie_ok ie \<Longrightarrow> length (snd (reg_ie_parts ie)) < 256"
  by (cases ie) simp_all

text \<open>Tag, length and value.\<close>

definition reg_ie_wire :: "reg_ie \<Rightarrow> bytes" where
  "reg_ie_wire ie = (case reg_ie_parts ie of (t, v) \<Rightarrow> t # of_nat (length v) # v)"

text \<open>What they say: the bits of the first two bytes of the last capabilities of at least two bytes, and the last list of slices.\<close>

definition capability_bits :: "bytes \<Rightarrow> UESecurityCapability" where
  "capability_bits v =
     \<lparr>cap_EA0 = bit (v ! 0) 7, cap_EA1 = bit (v ! 0) 6, cap_EA2 = bit (v ! 0) 5, cap_EA3 = bit (v ! 0) 4,
      cap_IA0 = bit (v ! 1) 7, cap_IA1 = bit (v ! 1) 6, cap_IA2 = bit (v ! 1) 5, cap_IA3 = bit (v ! 1) 4, cap_RawBytes = v\<rparr>"

definition announced_capability :: "reg_ie list \<Rightarrow> UESecurityCapability option" where
  "announced_capability ies =
     (let vs = [v. SecCapIE v \<leftarrow> ies, 2 \<le> length v] in if vs = [] then None else Some (capability_bits (last vs)))"

definition requested_slice :: "byte \<times> (byte \<times> byte \<times> byte) option \<Rightarrow> NSSAI" where
  "requested_slice = (\<lambda>(sst, sd). \<lparr>ns_SST = sst, ns_SD = (case sd of None \<Rightarrow> (0, 0, 0) | Some d \<Rightarrow> d), ns_HasSD = (sd \<noteq> None)\<rparr>)"

definition announced_slices :: "reg_ie list \<Rightarrow> NSSAI list" where
  "announced_slices ies =
     (let ls = [l. SlicesIE l \<leftarrow> ies] in
      if ls = [] then []
      else map requested_slice (last ls))"

lemma announced_simps:
  "announced_capability [] = None" "announced_slices [] = []"
  "announced_capability (ies @ [SecCapIE v]) = (if 2 \<le> length v then Some (capability_bits v) else announced_capability ies)"
  "announced_capability (ies @ [SlicesIE l]) = announced_capability ies"
  "announced_capability (ies @ [OtherIE t w]) = announced_capability ies"
  "announced_slices (ies @ [SecCapIE v]) = announced_slices ies"
  "announced_slices (ies @ [SlicesIE l]) =
     map requested_slice l"
  "announced_slices (ies @ [OtherIE t w]) = announced_slices ies"
  by (simp_all add: announced_capability_def announced_slices_def)

lemma decodeUESecCap_bits: "2 \<le> length v \<Longrightarrow> decodeUESecCap v = Ok (capability_bits v)"
proof -
  have m: "x AND 0x80 = 0 \<longleftrightarrow> \<not> bit x 7" "x AND 0x40 = 0 \<longleftrightarrow> \<not> bit x 6" "x AND 0x20 = 0 \<longleftrightarrow> \<not> bit x 5" "x AND 0x10 = 0 \<longleftrightarrow> \<not> bit x 4" for x :: byte
    using and_exp_eq_0_iff_not_bit [of x 7] and_exp_eq_0_iff_not_bit [of x 6] and_exp_eq_0_iff_not_bit [of x 5]
      and_exp_eq_0_iff_not_bit [of x 4] by simp_all
  assume "2 \<le> length v"
  then have "v \<noteq> []" "2 \<le> length v" by auto
  then show ?thesis by (simp add: decodeUESecCap_def capability_bits_def has_bits_def idx_def m)
qed

lemma decode_slices:
  "decodeNSSAIList (concat (map snssai_wire l)) =
   Ok (map requested_slice l)"
proof -
  have w: "snssai_wire x = encode_nssai (requested_slice x)" for x
    by (cases x rule: snssai_wire.cases) (simp_all add: encode_nssai_def requested_slice_def)
  have "concat (map snssai_wire l) = encodeNSSAIList (map requested_slice l)"
    unfolding encodeNSSAIList_def map_map comp_def w ..
  moreover have "decodeNSSAIList (encodeNSSAIList (map requested_slice l)) = Ok (map requested_slice l)"
    by (rule decodeNSSAIList_encode) (auto simp: nssai_wf_def requested_slice_def split: option.splits)
  ultimately show ?thesis by simp
qed

lemma fold_ies_snoc: "fold_ies f (ies @ [ie]) m = rbind (fold_ies f ies m) (f (fst ie) (snd ie))"
  proof (induction ies arbitrary: m)
  case Nil
  show ?case by (cases "f (fst ie) (snd ie) m") simp_all
next
  case (Cons a ies)
  then show ?case by (cases "f (fst a) (snd a) m") simp_all
qed

lemma registration_ies:
  "\<forall>ie \<in> set ies. reg_ie_ok ie \<Longrightarrow> rr_UESecCap m = None \<Longrightarrow> rr_RequestedNSSAI m = [] \<Longrightarrow>
   fold_ies registration_ie (map reg_ie_parts ies) m =
   Ok (m\<lparr>rr_UESecCap := announced_capability ies, rr_RequestedNSSAI := announced_slices ies\<rparr>)"
proof (induction ies rule: rev_induct)
  case Nil
  then show ?case by (simp add: announced_simps)
next
  case (snoc ie ies)
  then show ?case
    by (cases ie) (simp_all add: fold_ies_snoc registration_ie_def announced_simps decodeUESecCap_bits decode_slices IETagAllowedNSSAI_def)
qed

section \<open>Properties\<close>

lemma decoders_no_panic:
  "DecodeRegistrationRequest data \<noteq> Panic" "DecodeSecurityModeComplete data \<noteq> Panic"
  "DecodeAuthenticationResponse data \<noteq> Panic" "DecodePDUSessionEstablishmentRequest data \<noteq> Panic"
  "DecodeULNASTransport data \<noteq> Panic" "StripSecurityHeader data \<noteq> Panic"
proof -
  have ie: "ie_loop registration_ie data n m \<noteq> Panic" for n m
    using ie_loop_total [where on_ie = registration_ie, of data n m, OF registration_ie_total] by force
  have ident: "decode_identity v \<noteq> Panic" if "v \<noteq> []" for v
    using decode_identity_total [OF that] by force
  show "DecodeRegistrationRequest data \<noteq> Panic"
  proof (cases "length data < 7")
    case False
    then have "data \<noteq> []" by auto
    with False show ?thesis
      by (simp add: DecodeRegistrationRequest_def Let_def) (intro impI rbind_neq_Panic ident ie, auto)
  qed (simp add: DecodeRegistrationRequest_def)
  show "DecodeSecurityModeComplete data \<noteq> Panic"
    using ie_loop_total [where on_ie = smc_ie, of data 3 "\<lparr>sc_IMEISV = []\<rparr>", OF smc_ie_total]
    by (auto simp: DecodeSecurityModeComplete_def idx_def)
  show "DecodeAuthenticationResponse data \<noteq> Panic"
    by (auto simp: DecodeAuthenticationResponse_def auth_resp_loop_no_panic idx_def)
  show "DecodePDUSessionEstablishmentRequest data \<noteq> Panic"
    using pdu_ie_loop_total [of data 6 1] by (auto simp: DecodePDUSessionEstablishmentRequest_def idx_def)
  have "ul_ie_loop data n m \<noteq> Panic" for n m
    using ul_ie_loop_total [of data n m] by force
  then show "DecodeULNASTransport data \<noteq> Panic"
    by (auto simp: DecodeULNASTransport_def Let_def idx_def)
  show "StripSecurityHeader data \<noteq> Panic"
    by (simp add: StripSecurityHeader_def)
qed

text \<open>C10: no input of any length or content makes a NAS decoder index or slice out of range: for
  every byte string each decoder returns a message or an error, and stripping the security header
  always returns bytes.\<close>

theorem nas_decoders_never_panic:
  "DecodeRegistrationRequest data \<noteq> Panic \<and> DecodeSecurityModeComplete data \<noteq> Panic \<and>
   DecodeAuthenticationResponse data \<noteq> Panic \<and> DecodePDUSessionEstablishmentRequest data \<noteq> Panic \<and>
   DecodeULNASTransport data \<noteq> Panic \<and> StripSecurityHeader data \<noteq> Panic"
  by (intro conjI decoders_no_panic)



text \<open>Every S-NSSAI list the network encodes decodes to itself (an entry without SD has a
  zero SD).\<close>

theorem nssai_list_roundtrip:
  assumes "\<forall>n \<in> set xs. nssai_wf n"
  shows "decodeNSSAIList (encodeNSSAIList xs) = Ok xs"
  using assms by (rule decodeNSSAIList_encode)

theorem nssai_list_roundtrip_witness:
  "decodeNSSAIList [4, 1, 0x11, 0x22, 0x33, 1, 2] =
     Ok [\<lparr>ns_SST = 1, ns_SD = (0x11, 0x22, 0x33), ns_HasSD = True\<rparr>, \<lparr>ns_SST = 2, ns_SD = (0, 0, 0), ns_HasSD = False\<rparr>]"
  using nssai_list_roundtrip [of "[\<lparr>ns_SST = 1, ns_SD = (0x11, 0x22, 0x33), ns_HasSD = True\<rparr>,
      \<lparr>ns_SST = 2, ns_SD = (0, 0, 0), ns_HasSD = False\<rparr>]"]
  by (simp add: encodeNSSAIList_def encode_nssai_def nssai_wf_def)

text \<open>Removing the security header undoes adding it, for every non-empty message, sequence
  number and security header type other than plain.\<close>

theorem security_header_roundtrip:
  assumes "secHdrType AND 0x0F \<noteq> SecurityHeaderPlain" "inner \<noteq> []"
  shows "StripSecurityHeader (WrapSecurityHeader inner secHdrType sqn) = Ok inner"
  using assms by (rule Strip_Wrap)

theorem security_header_roundtrip_witness:
  "StripSecurityHeader (WrapSecurityHeader [0x7E, 0x00, 0x5D] 0x03 9) = Ok [0x7E, 0x00, 0x5D]"
  by (rule security_header_roundtrip) (simp_all add: SecurityHeaderPlain_def)

text \<open>Up to 18600 seconds the T3512 value byte reads back, by the table of TS 24.008, as the
  duration asked for rounded down to the encoder's step, so it is short by less than one step of
  at most ten minutes.\<close>

theorem gprs_timer3_rounds_down:
  assumes "unat s \<le> 18600"
  shows "gprs_seconds (encodeGPRSTimer3 s) \<le> unat s \<and>
         unat s < gprs_seconds (encodeGPRSTimer3 s) + timer_step (unat s)"
proof -
  have "0 < timer_step (unat s)" by (simp add: timer_step_def)
  then have "unat s mod timer_step (unat s) < timer_step (unat s)" by simp
  then show ?thesis
    using gprs_seconds_encode [OF assms] mod_less_eq_dividend [of "unat s" "timer_step (unat s)"] by linarith
qed

theorem gprs_timer3_rounds_down_witness:
  "gprs_seconds (encodeGPRSTimer3 930) \<le> 930 \<and> 930 < gprs_seconds (encodeGPRSTimer3 930) + timer_step 930"
  using gprs_timer3_rounds_down [of 930] by simp

text \<open>The default T3512 of 3240 seconds (54 minutes) goes out as 3000 seconds, and
  durations above 18600 seconds spill into the unit bits: 19200 seconds goes out as zero hours.\<close>

theorem gprs_timer3_t3512_inexact:
  "gprs_seconds (encodeGPRSTimer3 T3512Default) = 3000 \<and> gprs_seconds (encodeGPRSTimer3 19200) = 0"
  by (simp add: gprs_seconds_def encodeGPRSTimer3_def T3512Default_def gprs_unit_def)

text \<open>The Security Mode Command carries the selected algorithms in the two halves of its fourth
  byte and replays the UE's security capabilities byte for byte as they came in the Registration
  Request.\<close>

theorem security_mode_command_replays:
  assumes "decodeUESecCap raw = Ok cap" "raw \<noteq> []" "ciph < 16" "integ < 16"
  shows "\<exists>algs. EncodeSecurityModeCommand \<lparr>smc_SelectedCiphering = ciph, smc_SelectedIntegrity = integ,
       smc_NgKSI = ksi, smc_ReplayedUESecCap = Some cap\<rparr>
     = [EPD5GMM, SecurityHeaderPlain, MsgTypeSecurityModeCommand, algs, ksi AND 0x07, of_nat (length raw)] @ raw
     \<and> hi_nibble algs = ciph \<and> lo_nibble algs = integ"
  using assms algs_nibbles [OF assms(3,4)] encodeUESecCap_replay [OF assms(1,2)]
  by (simp add: EncodeSecurityModeCommand_def)

theorem security_mode_command_replays_witness:
  "\<exists>algs. EncodeSecurityModeCommand \<lparr>smc_SelectedCiphering = 2, smc_SelectedIntegrity = 1,
       smc_NgKSI = 0, smc_ReplayedUESecCap = Some (the_ok (decodeUESecCap [0xE0, 0xE0, 0x10]))\<rparr>
     = [EPD5GMM, SecurityHeaderPlain, MsgTypeSecurityModeCommand, algs, 0 AND 0x07, of_nat (length [0xE0, 0xE0, 0x10 :: byte])]
       @ [0xE0, 0xE0, 0x10]
     \<and> hi_nibble algs = 2 \<and> lo_nibble algs = 1"
  by (rule security_mode_command_replays) (simp_all add: decodeUESecCap_def)

text \<open>The RES* of an Authentication Response is found whatever the security header byte, behind
  any number of EAP messages, and whatever follows it.\<close>

theorem auth_response_res_found:
  assumes "\<forall>m \<in> set eaps. length m < 65536" "length r < 256"
  shows "DecodeAuthenticationResponse
      ([0x7E, h, 0x57] @ concat (map eap_ie eaps) @ [0x2D, of_nat (length r)] @ r @ rest) = Ok r"
  using assms by (rule DecodeAuthenticationResponse_wire)

theorem auth_response_res_found_witness:
  "DecodeAuthenticationResponse [0x7E, 0, 0x57, 0x78, 0, 1, 0xAA, 0x2D, 2, 0x12, 0x34] = Ok [0x12, 0x34]"
  using auth_response_res_found [of "[[0xAA]]" "[0x12, 0x34]" 0 "[]"]
  by (simp add: eap_ie_def put_be16_def)

end
