(* ===== verification/Crypto.thy ===== *)
theory Crypto
  imports Json
begin

text \<open>
  \<^verbatim>\<open>pkg/crypto\<close>: 5G-AKA vectors, the key hierarchy and the NAS MAC.  The Milenage functions and the
  KDF are third-party packages (\<^verbatim>\<open>free5gc/util\<close>): they are the fields of \<open>aka_lib\<close>, an argument
  of the definitions that use them, and \<open>aka_documented\<close> states the output sizes they promise.
  The AES block function of \<open>crypto/aes\<close> under one key is the argument \<open>enc\<close>, so that the CMAC
  results hold of every 16-byte block function.
\<close>

section \<open>Big-endian numbers of any length\<close>

definition be_nat :: "bytes \<Rightarrow> nat" where
  "be_nat bs = foldl (\<lambda>v b. v * 256 + unat b) 0 bs"

lemma foldl_be_nat: "foldl (\<lambda>v b. v * 256 + unat (b :: byte)) v bs = v * 256 ^ length bs + be_nat bs"
proof (induction bs arbitrary: v)
  case (Cons b bs)
  show ?case using Cons [of "v * 256 + unat b"] Cons [of "unat b"]
    by (simp add: be_nat_def algebra_simps)
qed (simp add: be_nat_def)

lemma be_nat_simps [simp]:
  "be_nat [] = 0"
  "be_nat (b # bs) = unat b * 256 ^ length bs + be_nat bs"
  "be_nat (bs @ [b]) = be_nat bs * 256 + unat b"
  using foldl_be_nat [of "unat b" bs] by (simp_all add: be_nat_def)

lemma be_nat_less: "be_nat bs < 256 ^ length bs"
proof (induction bs)
  case (Cons b bs)
  have "unat b * 256 ^ length bs + be_nat bs < (unat b + 1) * 256 ^ length bs" using Cons by simp
  also have "\<dots> \<le> 256 * 256 ^ length bs"
    using unat_byte_lt [of b] by (intro mult_right_mono) linarith+
  finally show ?case by simp
qed simp

section \<open>Third-party functions\<close>

datatype kdf_fc =
    FC_FOR_KAUSF_DERIVATION
  | FC_FOR_RES_STAR_XRES_STAR_DERIVATION
  | FC_FOR_KSEAF_DERIVATION
  | FC_FOR_KAMF_DERIVATION
  | FC_FOR_ALGORITHM_KEY_DERIVATION

text \<open>\<open>GenerateAKAParameters(opc, k, rand, sqn, amf)\<close> yields \<open>(ik, ck, res, autn)\<close>; \<open>Inl\<close> is an error.\<close>

record aka_lib =
  GenerateAKAParameters :: "bytes \<Rightarrow> bytes \<Rightarrow> bytes \<Rightarrow> bytes \<Rightarrow> bytes \<Rightarrow> string + (bytes \<times> bytes \<times> bytes \<times> bytes)"
  GetKDFValue :: "bytes \<Rightarrow> kdf_fc \<Rightarrow> bytes list \<Rightarrow> string + bytes"
  KDFLen :: "bytes \<Rightarrow> bytes"

definition aka_documented :: "aka_lib \<Rightarrow> bool" where
  "aka_documented lib \<longleftrightarrow>
     (\<forall>opc k r sqn amf ik ck res autn.
        GenerateAKAParameters lib opc k r sqn amf = Inr (ik, ck, res, autn) \<longrightarrow> length autn = 16) \<and>
     (\<forall>key fc ps out. GetKDFValue lib key fc ps = Inr out \<longrightarrow> length out = 32)"

section \<open>Authentication vectors\<close>

record AuthVector =
  av_RAND :: bytes
  av_AUTN :: bytes
  av_XRES :: bytes
  av_KAUSF :: bytes

definition AuthVector_zero :: AuthVector where
  "AuthVector_zero = \<lparr>av_RAND = [],
     av_AUTN = [],
     av_XRES = [],
     av_KAUSF = []\<rparr>"

definition AuthVector_fields :: "AuthVector fields" where
  "AuthVector_fields = [(''rand'', fld av_RAND av_RAND_update dec_bytes),
     (''autn'', fld av_AUTN av_AUTN_update dec_bytes),
     (''xres_star'', fld av_XRES av_XRES_update dec_bytes),
     (''kausf'', fld av_KAUSF av_KAUSF_update dec_bytes)]"

definition unmarshal_AuthVector :: "AuthVector decoder" where
  "unmarshal_AuthVector = dec_struct AuthVector_fields"

definition marshal_AuthVector :: "AuthVector \<Rightarrow> json" where
  "marshal_AuthVector x = JObj ([(''rand'', enc_bytes (av_RAND x)),
     (''autn'', enc_bytes (av_AUTN x)),
     (''xres_star'', enc_bytes (av_XRES x)),
     (''kausf'', enc_bytes (av_KAUSF x))])"

lemma AuthVector_codec [simp, codec]: "unmarshal_AuthVector (marshal_AuthVector x) AuthVector_zero = Some x"
  by (cases x) (simp add: unmarshal_AuthVector_def marshal_AuthVector_def AuthVector_fields_def AuthVector_zero_def json_codec)

lemma AuthVector_not_null [simp]: "marshal_AuthVector x \<noteq> JNull"
  by (simp add: marshal_AuthVector_def)

text \<open>An error of a call, with the prefix of \<open>fmt.Errorf("\<dots>: %w", err)\<close>.\<close>

definition lift_err :: "string \<Rightarrow> string + 'a \<Rightarrow> (string, 'a) res" where
  "lift_err prefix r = (case r of Inl e \<Rightarrow> Error (prefix @ e) | Inr a \<Rightarrow> Ok a)"

lemma lift_err_simps [simp]:
  "lift_err p (Inl e) = Error (p @ e)"
  "lift_err p (Inr a) = Ok a"
  by (simp_all add: lift_err_def)

text \<open>\<open>v[len(v)-16:]\<close>.\<close>

definition last16 :: "bytes \<Rightarrow> (string, bytes) res" where
  "last16 v = (if length v < 16 then Panic else Ok (drop (length v - 16) v))"

definition deriveXRESStar :: "aka_lib \<Rightarrow> bytes \<Rightarrow> bytes \<Rightarrow> string \<Rightarrow> bytes \<Rightarrow> bytes \<Rightarrow> (string, bytes) res" where
  "deriveXRESStar lib ck ik snn randVal res =
     (let snnBytes = bytes_of snn in
      rbind (lift_err [] (GetKDFValue lib (ck @ ik) FC_FOR_RES_STAR_XRES_STAR_DERIVATION
        [snnBytes, KDFLen lib snnBytes, randVal, KDFLen lib randVal, res, KDFLen lib res])) last16)"

definition deriveKAUSF :: "aka_lib \<Rightarrow> bytes \<Rightarrow> bytes \<Rightarrow> string \<Rightarrow> bytes \<Rightarrow> bytes \<Rightarrow> (string, bytes) res" where
  "deriveKAUSF lib ck ik snn sqn autn =
     rbind (slice autn 0 6) (\<lambda>sqnXorAK.
       let snnBytes = bytes_of snn in
       lift_err ''derive KAUSF: '' (GetKDFValue lib (ck @ ik) FC_FOR_KAUSF_DERIVATION
         [snnBytes, KDFLen lib snnBytes, sqnXorAK, KDFLen lib sqnXorAK]))"

definition wrap_err :: "string \<Rightarrow> (string, 'a) res \<Rightarrow> (string, 'a) res" where
  "wrap_err prefix r = (case r of Error e \<Rightarrow> Error (prefix @ e) | _ \<Rightarrow> r)"

lemma wrap_err_simps [simp]:
  "wrap_err p (Ok a) = Ok a"
  "wrap_err p (Error e) = Error (p @ e)"
  "wrap_err p Panic = Panic"
  by (simp_all add: wrap_err_def)

lemma wrap_err_Panic [simp]: "wrap_err p m = Panic \<longleftrightarrow> m = Panic"
  by (cases m) simp_all

definition GenerateAuthVectorWithRAND ::
  "aka_lib \<Rightarrow> bytes \<Rightarrow> bytes \<Rightarrow> bytes \<Rightarrow> bytes \<Rightarrow> bytes \<Rightarrow> string \<Rightarrow> (string, AuthVector) res" where
  "GenerateAuthVectorWithRAND lib k opc sqn amf randVal servingNetworkName =
     rbind (lift_err ''milenage: '' (GenerateAKAParameters lib opc k randVal sqn amf)) (\<lambda>(ik, ck, res, autn).
     rbind (wrap_err ''derive XRES*: '' (deriveXRESStar lib ck ik servingNetworkName randVal res)) (\<lambda>xresStar.
     rbind (wrap_err ''derive KAUSF: '' (deriveKAUSF lib ck ik servingNetworkName sqn autn)) (\<lambda>kausf.
       Ok \<lparr>av_RAND = randVal, av_AUTN = autn, av_XRES = xresStar, av_KAUSF = kausf\<rparr>)))"

text \<open>\<open>GenerateAuthVector\<close>, where \<open>rnd\<close> is the outcome of \<open>rand.Read\<close> into 16 bytes.\<close>

definition GenerateAuthVector ::
  "aka_lib \<Rightarrow> bytes option \<Rightarrow> bytes \<Rightarrow> bytes \<Rightarrow> bytes \<Rightarrow> bytes \<Rightarrow> string \<Rightarrow> (string, AuthVector) res" where
  "GenerateAuthVector lib rnd k opc sqn amf servingNetworkName =
     (case rnd of
        None \<Rightarrow> Error ''generate RAND: read failed''
      | Some randVal \<Rightarrow> GenerateAuthVectorWithRAND lib k opc sqn amf randVal servingNetworkName)"

lemma GenerateAuthVector_no_panic:
  assumes "aka_documented lib"
  shows "GenerateAuthVector lib rnd k opc sqn amf snn \<noteq> Panic"
proof -
  have x: "deriveXRESStar lib ck ik snn r res \<noteq> Panic" for ck ik r res
    using assms by (auto simp: deriveXRESStar_def aka_documented_def lift_err_def last16_def Let_def
        rbind_eq_Panic split: sum.splits if_splits)
  have k: "deriveKAUSF lib ck ik snn sqn autn \<noteq> Panic" if "length autn = 16" for ck ik autn
    using that by (auto simp: deriveKAUSF_def Let_def lift_err_def split: sum.splits)
  show ?thesis using assms x k
    by (auto simp: GenerateAuthVector_def GenerateAuthVectorWithRAND_def lift_err_def aka_documented_def
        rbind_eq_Panic split: option.splits sum.splits)
qed

section \<open>Key hierarchy\<close>

definition DeriveKSEAF :: "aka_lib \<Rightarrow> bytes \<Rightarrow> string \<Rightarrow> (string, bytes) res" where
  "DeriveKSEAF lib kausf snn =
     (let snnBytes = bytes_of snn in
      lift_err ''derive KSEAF: '' (GetKDFValue lib kausf FC_FOR_KSEAF_DERIVATION
        [snnBytes, KDFLen lib snnBytes]))"

definition DeriveKAMF :: "aka_lib \<Rightarrow> bytes \<Rightarrow> string \<Rightarrow> bytes \<Rightarrow> (string, bytes) res" where
  "DeriveKAMF lib kseaf supi abba =
     (let supiBytes = bytes_of supi in
      lift_err ''derive KAMF: '' (GetKDFValue lib kseaf FC_FOR_KAMF_DERIVATION
        [supiBytes, KDFLen lib supiBytes, abba, KDFLen lib abba]))"

definition DeriveKNASKeys :: "aka_lib \<Rightarrow> bytes \<Rightarrow> uint8 \<Rightarrow> uint8 \<Rightarrow> (string, bytes \<times> bytes) res" where
  "DeriveKNASKeys lib kamf cipherAlgID integAlgID =
     rbind (lift_err ''derive KNASenc: '' (GetKDFValue lib kamf FC_FOR_ALGORITHM_KEY_DERIVATION
       [[0x01], KDFLen lib [0x01], [cipherAlgID], KDFLen lib [cipherAlgID]])) (\<lambda>e.
     rbind (last16 e) (\<lambda>knasEnc.
     rbind (lift_err ''derive KNASint: '' (GetKDFValue lib kamf FC_FOR_ALGORITHM_KEY_DERIVATION
       [[0x02], KDFLen lib [0x02], [integAlgID], KDFLen lib [integAlgID]])) (\<lambda>i.
     rbind (last16 i) (\<lambda>knasInt. Ok (knasEnc, knasInt)))))"

section \<open>AES-CMAC\<close>

type_synonym block_fn = "bytes \<Rightarrow> bytes"

definition xor_bytes :: "bytes \<Rightarrow> bytes \<Rightarrow> bytes" where
  "xor_bytes a b = map2 (XOR) a b"

text \<open>One bit to the left across the whole slice.\<close>

fun shiftLeft :: "bytes \<Rightarrow> bytes" where
  "shiftLeft [] = []"
| "shiftLeft [a] = [push_bit 1 a]"
| "shiftLeft (a # b # bs) = (push_bit 1 a OR drop_bit 7 b) # shiftLeft (b # bs)"

definition subkey_step :: "bytes \<Rightarrow> bytes" where
  "subkey_step l =
     (let s = shiftLeft l in
      if hd l AND 0x80 \<noteq> 0 then s[15 := (s ! 15) XOR 0x87] else s)"

definition generateSubkeys :: "block_fn \<Rightarrow> bytes \<times> bytes" where
  "generateSubkeys enc =
     (let l = enc (replicate 16 0); k1 = subkey_step l; k2 = subkey_step k1 in (k1, k2))"

text \<open>The loop over the blocks before the last.\<close>

fun cbc_loop :: "block_fn \<Rightarrow> bytes \<Rightarrow> nat \<Rightarrow> nat \<Rightarrow> bytes \<Rightarrow> bytes" where
  "cbc_loop enc message i 0 x = x"
| "cbc_loop enc message i (Suc k) x =
     cbc_loop enc message (i + 1) k (enc (xor_bytes x (take 16 (drop (i * 16) message))))"

definition aesCMAC :: "block_fn \<Rightarrow> bytes \<Rightarrow> bytes" where
  "aesCMAC enc message =
     (let (k1, k2) = generateSubkeys enc;
          n0 = (length message + 16 - 1) div 16;
          n = (if n0 = 0 then 1 else n0);
          lastBlockComplete = (length message > 0 \<and> length message mod 16 = 0);
          start = (n - 1) * 16;
          lastBlock =
            (if lastBlockComplete then xor_bytes (take 16 (drop start message)) k1
             else let remaining = length message - start;
                      padded = take remaining (drop start message) @ [0x80] @ replicate (15 - remaining) 0
                  in xor_bytes padded k2);
          x = cbc_loop enc message 0 (n - 1) (replicate 16 0)
      in enc (xor_bytes x lastBlock))"

text \<open>\<open>aes\<close> is the cipher as a function of the key; \<open>aes.NewCipher\<close> accepts a key of 16 bytes.\<close>

definition ComputeNASMAC :: "(bytes \<Rightarrow> block_fn) \<Rightarrow> bytes \<Rightarrow> uint32 \<Rightarrow> uint8 \<Rightarrow> uint8 \<Rightarrow> bytes \<Rightarrow> (string, bytes) res" where
  "ComputeNASMAC aes knasInt count bearer direction message =
     (if length knasInt \<noteq> 16 then
        Error (''KNASint must be 16 bytes, got '' @ show_nat (length knasInt))
      else
        let inp = put_be32 count @ [push_bit 3 bearer OR push_bit 2 direction, 0, 0, 0] @ message in
        slice (aesCMAC (aes knasInt) inp) 0 4)"

section \<open>Correctness of the CMAC\<close>

text \<open>A block of 16 bytes as a number of 128 bits, the first byte being the most significant, and back.\<close>

definition block_word :: "bytes \<Rightarrow> 128 word" where
  "block_word b = of_nat (be_nat b)"

definition word_block :: "128 word \<Rightarrow> bytes" where
  "word_block w = map (\<lambda>i. ucast (drop_bit (120 - 8 * i) w)) [0..<16]"

text \<open>
  The CMAC of RFC 4493 over such numbers: the subkeys are \<open>L << 1\<close> and \<open>K1 << 1\<close>, masked with \<open>R_b = 0x87\<close> when the bit shifted
  out is one; the last block is complete and masked with \<open>K1\<close>, or padded with a one bit and masked with \<open>K2\<close>; the blocks
  before it are chained.
\<close>

definition rfc4493_subkey :: "128 word \<Rightarrow> 128 word" where
  "rfc4493_subkey l = (if bit l 127 then push_bit 1 l XOR 0x87 else push_bit 1 l)"

definition rfc4493_mac :: "(128 word \<Rightarrow> 128 word) \<Rightarrow> bytes \<Rightarrow> 128 word" where
  "rfc4493_mac cipher m =
     (let K1 = rfc4493_subkey (cipher 0);
          K2 = rfc4493_subkey K1;
          n = max 1 ((length m + 15) div 16);
          tail = drop (16 * (n - 1)) m;
          M_last = (if length tail = 16 then block_word tail XOR K1
                    else block_word (tail @ [0x80] @ replicate (15 - length tail) 0) XOR K2)
      in cipher (fold (\<lambda>i X. cipher (X XOR block_word (take 16 (drop (16 * i) m)))) [0..<n - 1] 0 XOR M_last))"

text \<open>Shifting is doubling modulo the size.\<close>

lemma shiftLeft_length [simp]: "length (shiftLeft l) = length l"
  by (induction l rule: shiftLeft.induct) simp_all

lemma double_mod_256: "c < 2 \<Longrightarrow> 2 * a mod 256 + c < 256" for a c :: nat
proof -
  assume "c < 2"
  moreover have "2 * a mod 256 = 2 * (a mod 128)" using mod_mult_mult1 [of 2 a 128] by simp
  moreover have "a mod 128 < 128" by simp
  ultimately show ?thesis by linarith
qed

lemma top_bit_less: "unat (b :: byte) div 128 < 2"
  using unat_byte_lt [of b] by (simp add: less_mult_imp_div_less)

lemma unat_shift_or: "unat (push_bit 1 a OR drop_bit 7 b :: byte) = 2 * unat a mod 256 + unat b div 128"
proof -
  have "push_bit 1 a AND drop_bit 7 b = 0"
    by (auto intro!: bit_word_eqI simp: bit_and_iff bit_push_bit_iff bit_drop_bit_eq dest: bit_imp_le_length
        simp del: push_bit_of_1 push_bit_Suc) (auto simp: mult.commute [of a] bit_double_iff dest: bit_imp_le_length)
  then have "push_bit 1 a OR drop_bit 7 b = push_bit 1 a + drop_bit 7 b"
    by (simp add: disjunctive_add_eq_or)
  moreover have pb: "unat (push_bit 1 a) = 2 * unat a mod 256"
    by (simp add: unat_word_ariths mult.commute)
  moreover have db: "unat (drop_bit 7 b) = unat b div 128"
    using unat_byte_lt [of b] unfolding unsigned_drop_bit_eq
    by (simp add: drop_bit_eq_div take_bit_nat_eq_self)
  moreover have "2 * unat a mod 256 + unat b div 128 < 256"
    by (rule double_mod_256) (rule top_bit_less)
  ultimately show ?thesis by (simp add: unat_word_ariths)
qed

lemma be_nat_top: "be_nat (b # bs) * 2 div 256 ^ length (b # bs) = unat b div 128"
proof -
  have "256 ^ length (b # bs) = 256 ^ length bs * 128 * (2 :: nat)" by simp
  then have "be_nat (b # bs) * 2 div 256 ^ length (b # bs) = be_nat (b # bs) div (256 ^ length bs * 128)"
    by (simp only: div_mult_mult2 zero_neq_numeral [symmetric] simp_thms)
  also have "\<dots> = be_nat (b # bs) div 256 ^ length bs div 128" by (rule div_mult2_eq)
  also have "be_nat (b # bs) div 256 ^ length bs = unat b"
    using be_nat_less [of bs] by simp
  finally show ?thesis .
qed

lemma be_nat_shiftLeft: "be_nat (shiftLeft l) = 2 * be_nat l mod 256 ^ length l"
proof (induction l rule: shiftLeft.induct)
  case (2 a)
  then show ?case by (simp add: unat_word_ariths mult.commute)
next
  case (3 a b bs)
  define N where "N = (256::nat) ^ length (b # bs)"
  have Npos: "0 < N" by (simp add: N_def)
  define B where "B = be_nat (b # bs)"
  have c: "2 * B div N = unat b div 128" using be_nat_top [of b bs] by (simp add: B_def N_def mult.commute)
  have k: "(2 * unat a + 2 * B div N) mod 256 = 2 * unat a mod 256 + unat b div 128"
    unfolding c using double_mod_256 [OF top_bit_less, of "unat a" b]
    by (metis mod_add_left_eq mod_less)
  have "2 * (unat a * N + B) mod (256 * N) = ((2 * unat a * N + 2 * B) div N mod 256) * N + (2 * unat a * N + 2 * B) mod N"
    using mod_mult2_eq [of "2 * unat a * N + 2 * B" N 256] by (simp add: algebra_simps)
  also have "\<dots> = ((2 * unat a + 2 * B div N) mod 256) * N + 2 * B mod N"
    using Npos by simp
  finally have "2 * (unat a * N + B) mod (256 * N) = (2 * unat a mod 256 + unat b div 128) * N + 2 * B mod N"
    by (simp only: k)
  then show ?case using 3 unat_shift_or [of a b] by (simp add: N_def B_def)
qed simp_all

text \<open>The operations of the routine on slices are those on the numbers.\<close>

lemma bit_be_nat: "bit (be_nat bs) n \<longleftrightarrow> n div 8 < length bs \<and> bit (bs ! (length bs - 1 - n div 8)) (n mod 8)"
proof (induction bs arbitrary: n rule: rev_induct)
  case Nil
  then show ?case by simp
next
  case (snoc b bs)
  have u: "take_bit 8 (unat b) = unat b" using unat_byte_lt [of b] by (simp add: take_bit_nat_eq_self)
  have h: "\<not> bit (unat b) i" if "8 \<le> i" for i
    using that u by (metis bit_take_bit_iff not_less)
  have e: "be_nat (bs @ [b]) = push_bit 8 (be_nat bs) OR unat b"
  proof -
    have "push_bit 8 (be_nat bs) AND unat b = 0"
      by (rule bit_eqI) (auto simp: bit_and_iff bit_push_bit_iff h)
    then have "push_bit 8 (be_nat bs) OR unat b = push_bit 8 (be_nat bs) + unat b" by (simp add: disjunctive_add_eq_or)
    then show ?thesis unfolding be_nat_simps(3) by (simp add: push_bit_eq_mult)
  qed
  show ?case
  proof (cases "n < 8")
    case True
    then show ?thesis unfolding e by (simp add: bit_or_iff bit_push_bit_iff bit_unsigned_iff nth_append)
  next
    case False
    then obtain m where m: "n = m + 8" by (metis add.commute le_Suc_ex not_less)
    have d: "(m + 8) div 8 = Suc (m div 8)" by simp
    show ?thesis unfolding e m bit_or_iff bit_push_bit_iff d using snoc [of m] h [of "m + 8"] by (auto simp: nth_append)
  qed
qed

lemma bit_block_word: "length b = 16 \<Longrightarrow> bit (block_word b) n \<longleftrightarrow> n < 128 \<and> bit (b ! (15 - n div 8)) (n mod 8)"
  by (auto simp: block_word_def bit_of_nat_iff bit_be_nat)

lemma block_word_xor: "length a = 16 \<Longrightarrow> length b = 16 \<Longrightarrow> block_word (xor_bytes a b) = block_word a XOR block_word b"
  by (rule bit_word_eqI) (auto simp: bit_block_word xor_bytes_def bit_xor_iff)

lemma block_word_shift: "length b = 16 \<Longrightarrow> block_word (shiftLeft b) = push_bit 1 (block_word b)"
proof -
  assume b: "length b = 16"
  have "block_word (shiftLeft b) = of_nat (2 * be_nat b)"
    unfolding block_word_def be_nat_shiftLeft b word_of_nat_eq_iff by (simp add: take_bit_eq_mod)
  then show ?thesis by (simp add: block_word_def push_bit_eq_mult)
qed

lemma word_block_word: "length b = 16 \<Longrightarrow> word_block (block_word b) = b"
proof (rule nth_equalityI)
  assume b: "length b = 16"
  show "length (word_block (block_word b)) = length b" by (simp add: word_block_def b)
  fix i assume i: "i < length (word_block (block_word b))"
  then have i: "i < 16" by (simp add: word_block_def)
  have d: "120 + n - 8 * i < 128" "(120 + n - 8 * i) div 8 = 15 - i" "(120 + n - 8 * i) mod 8 = n" if "n < 8" for n
  proof -
    have e: "120 + n - 8 * i = n + 8 * (15 - i)" using i by simp
    show "120 + n - 8 * i < 128" "(120 + n - 8 * i) div 8 = 15 - i" "(120 + n - 8 * i) mod 8 = n" unfolding e using that by simp_all
  qed
  show "word_block (block_word b) ! i = b ! i"
  proof (rule bit_word_eqI)
    fix n assume n: "n < LENGTH(8)"
    then have "n < 8" by simp
    note d = d [OF this]
    show "bit (word_block (block_word b) ! i) n = bit (b ! i) n"
      using n i by (simp add: word_block_def bit_unsigned_iff bit_drop_bit_eq bit_block_word [OF b] d)
  qed
qed
lemma be_nat_zeros [simp]: "be_nat (replicate n 0) = 0"
  by (induction n) simp_all

lemma block_word_msb: "length b = 16 \<Longrightarrow> hd b AND 0x80 \<noteq> 0 \<longleftrightarrow> bit (block_word b) 127"
proof -
  assume b: "length b = 16"
  have "hd b AND 0x80 = 0 \<longleftrightarrow> \<not> bit (hd b) 7" using and_exp_eq_0_iff_not_bit [of "hd b" 7] by simp
  moreover have "hd b = b ! 0" using b by (intro hd_conv_nth) auto
  ultimately show ?thesis by (simp add: bit_block_word [OF b])
qed

lemma length_xor_bytes [simp]: "length (xor_bytes a b) = min (length a) (length b)"
  by (simp add: xor_bytes_def)

lemma subkey_step_length: "length b = 16 \<Longrightarrow> length (subkey_step b) = 16"
  by (simp add: subkey_step_def Let_def)

lemma subkey_step_word: "length b = 16 \<Longrightarrow> block_word (subkey_step b) = rfc4493_subkey (block_word b)"
proof -
  assume b: "length b = 16"
  let ?s = "shiftLeft b"
  have "?s[15 := ?s ! 15 XOR 0x87] = xor_bytes ?s (replicate 15 0 @ [0x87])"
    by (rule nth_equalityI) (auto simp: b xor_bytes_def nth_list_update nth_append)
  moreover have "block_word (replicate 15 0 @ [0x87]) = 0x87" unfolding block_word_def be_nat_simps(3) be_nat_zeros by simp
  ultimately show ?thesis
    by (simp add: subkey_step_def Let_def block_word_msb [OF b] rfc4493_subkey_def block_word_xor block_word_shift b)
qed

lemma cbc_loop_fold:
  assumes enc: "\<And>b. length b = 16 \<Longrightarrow> length (enc b) = 16"
  shows "length x = 16 \<Longrightarrow> 16 * (i + k) \<le> length m \<Longrightarrow> length (cbc_loop enc m i k x) = 16 \<and>
    block_word (cbc_loop enc m i k x) =
      fold (\<lambda>i X. block_word (enc (word_block (X XOR block_word (take 16 (drop (16 * i) m)))))) [i..<i + k] (block_word x)"
proof (induction k arbitrary: i x)
  case 0
  then show ?case by simp
next
  case (Suc k)
  let ?b = "take 16 (drop (i * 16) m)"
  have b: "length ?b = 16" using Suc.prems by simp
  have x: "block_word (xor_bytes x ?b) = block_word x XOR block_word (take 16 (drop (16 * i) m))"
    using Suc.prems b by (simp add: block_word_xor mult.commute)
  have l: "length (xor_bytes x ?b) = 16" using b Suc.prems by simp
  have w: "word_block (block_word x XOR block_word (take 16 (drop (16 * i) m))) = xor_bytes x ?b"
    unfolding x [symmetric] by (rule word_block_word [OF l])
  have u: "[i..<i + Suc k] = i # [i + 1..<(i + 1) + k]" by (simp add: upt_conv_Cons)
  show ?case unfolding u
    using Suc.IH [of "enc (xor_bytes x ?b)" "i + 1"] Suc.prems enc [OF l] by (simp add: w)
qed

text \<open>The number of blocks before the last.\<close>

definition full_blocks :: "nat \<Rightarrow> nat" where
  "full_blocks len = (if len = 0 then 1 else (len + 16 - 1) div 16) - 1"

lemma full_blocks_div: "full_blocks n = (n - 1) div 16"
  by (cases n) (simp_all add: full_blocks_def)

lemma full_blocks_bound: "16 * full_blocks n \<le> n"
  using times_div_less_eq_dividend [of 16 "n - 1"] by (simp add: full_blocks_div)

lemma full_blocks_rest: "n - 16 * full_blocks n = 16 \<longleftrightarrow> 0 < n \<and> n mod 16 = 0" "n - 16 * full_blocks n \<le> 16"
proof -
  have suc: "Suc k - 16 * (k div 16) = Suc (k mod 16)" for k :: nat
    using times_div_less_eq_dividend [of 16 k] by (simp add: Suc_diff_le minus_mult_div_eq_mod)
  show "n - 16 * full_blocks n = 16 \<longleftrightarrow> 0 < n \<and> n mod 16 = 0"
    by (cases n) (simp_all add: full_blocks_div suc mod_Suc)
  show "n - 16 * full_blocks n \<le> 16"
    by (cases n) (simp_all add: full_blocks_div suc Suc_le_eq)
qed

lemma aesCMAC_rfc4493:
  assumes enc: "\<And>b. length b = 16 \<Longrightarrow> length (enc b) = 16"
  shows "aesCMAC enc m = word_block (rfc4493_mac (\<lambda>w. block_word (enc (word_block w))) m)"
proof -
  let ?E = "\<lambda>w. block_word (enc (word_block w))" and ?k = "full_blocks (length m)"
  let ?tail = "drop (16 * ?k) m" and ?z = "replicate 16 0 :: bytes"
  let ?k1 = "subkey_step (enc ?z)"
  let ?k2 = "subkey_step ?k1"
  let ?x = "cbc_loop enc m 0 ?k ?z"
  let ?last = "if length ?tail = 16 then xor_bytes ?tail ?k1 else xor_bytes (?tail @ [0x80] @ replicate (15 - length ?tail) 0) ?k2"
  have n: "(if (length m + 16 - 1) div 16 = 0 then 1 else (length m + 16 - 1) div 16) - 1 = ?k"
    "max 1 ((length m + 15) div 16) - 1 = ?k"
    by (auto simp: full_blocks_def)
  have rest: "length ?tail = 16 \<longleftrightarrow> 0 < length m \<and> length m mod 16 = 0" "length ?tail \<le> 16"
    using full_blocks_rest [of "length m"] by simp_all
  have z: "block_word ?z = 0" "length ?z = 16" by (simp_all add: block_word_def)
  then have z0: "word_block 0 = ?z" using word_block_word [OF z(2)] by simp
  have k: "length (enc ?z) = 16" "length ?k1 = 16" "length ?k2 = 16"
    using enc [OF z(2)] by (simp_all add: subkey_step_length)
  then have kw: "block_word ?k1 = rfc4493_subkey (?E 0)" "block_word ?k2 = rfc4493_subkey (rfc4493_subkey (?E 0))"
    by (simp_all add: subkey_step_word z0)
  have x: "length ?x = 16" "block_word ?x = fold (\<lambda>i X. ?E (X XOR block_word (take 16 (drop (16 * i) m)))) [0..<?k] 0"
    using cbc_loop_fold [where x = ?z and i = 0 and k = ?k and m = m, OF enc z(2)] full_blocks_bound [of "length m"] z(1) by simp_all
  have pad: "length (?tail @ [0x80] @ replicate (15 - length ?tail) 0) = 16" if "length ?tail \<noteq> 16"
    using that rest(2) by simp
  have l: "length ?last = 16" using k pad by (cases "length ?tail = 16") simp_all
  have lw: "block_word ?last = (if length ?tail = 16 then block_word ?tail XOR block_word ?k1
      else block_word (?tail @ [0x80] @ replicate (15 - length ?tail) 0) XOR block_word ?k2)"
    using k pad by (simp add: block_word_xor del: append_Cons)
  have "aesCMAC enc m = enc (xor_bytes ?x ?last)"
    unfolding aesCMAC_def generateSubkeys_def Let_def split n(1) mult.commute [of ?k]
    using rest by auto
  moreover have xl: "length (xor_bytes ?x ?last) = 16" using x(1) l by simp
  moreover have "rfc4493_mac ?E m = ?E (block_word ?x XOR block_word ?last)"
    unfolding rfc4493_mac_def Let_def n(2) x(2) lw kw ..
  moreover have "\<dots> = block_word (enc (xor_bytes ?x ?last))"
    using word_block_word [OF xl] block_word_xor [OF x(1) l] by simp
  ultimately show ?thesis using word_block_word [OF enc [OF xl]] by simp
qed

lemma put_be32_inject: "put_be32 v = put_be32 w \<longleftrightarrow> v = w"
proof
  assume e: "put_be32 v = put_be32 w"
  have part: "bit v n = bit w n"
    if "ucast (drop_bit k v) = (ucast (drop_bit k w) :: byte)" "k \<le> n" "n < k + 8" for k n
  proof -
    have "bit (ucast (drop_bit k x) :: byte) (n - k) = bit x n" for x :: uint32
      using that(2,3) by (auto simp: bit_simps)
    then show ?thesis using that(1) by metis
  qed
  show "v = w"
  proof (rule bit_word_eqI)
    fix n assume "n < LENGTH(32)"
    then consider "24 \<le> n" "n < 24 + 8" | "16 \<le> n" "n < 16 + 8" | "8 \<le> n" "n < 8 + 8" | "0 \<le> n" "n < 0 + 8"
      by simp linarith
    then show "bit v n = bit w n"
      using e by cases (erule (1) part [rotated], simp add: put_be32_def)+
  qed
qed simp

text \<open>The eight bytes before the message.\<close>

definition mac_header :: "uint32 \<Rightarrow> uint8 \<Rightarrow> uint8 \<Rightarrow> bytes" where
  "mac_header count bearer direction = put_be32 count @ [push_bit 3 bearer OR push_bit 2 direction, 0, 0, 0]"

lemma mac_header_table:
  "list_all (\<lambda>b. list_all (\<lambda>d. (push_bit 3 (of_nat b) OR push_bit 2 (of_nat d) :: byte) = of_nat (8 * b + 4 * d)) [0, 1]) [0..<32]"
  by code_simp

lemma header_digits: "8 * b + 4 * d = 8 * b' + 4 * d' \<Longrightarrow> d < 2 \<Longrightarrow> d' < 2 \<Longrightarrow> b = b' \<and> d = d'"
  for b b' d d' :: nat
proof -
  assume "8 * b + 4 * d = 8 * b' + 4 * d'" and d: "d < 2" "d' < 2"
  then have e: "2 * b + d = 2 * b' + d'" by simp
  have "(2 * b + d) div 2 = b" "(2 * b' + d') div 2 = b'" using d by simp_all
  with e show ?thesis by simp
qed

lemma mac_header_inject:
  assumes "b < 32" "b' < 32" "d < 2" "d' < 2" "mac_header c b d = mac_header c' b' d'"
  shows "c = c' \<and> b = b' \<and> d = d'"
proof -
  have tab: "push_bit 3 x OR push_bit 2 y = (of_nat (8 * unat x + 4 * unat y) :: byte)" if "x < 32" "y < (2 :: byte)" for x y
  proof -
    have "unat x \<in> set [0..<32]" "unat y \<in> set [0, 1]"
      using that by (auto simp: word_less_nat_alt)
    then have "(push_bit 3 (of_nat (unat x)) OR push_bit 2 (of_nat (unat y)) :: byte) = of_nat (8 * unat x + 4 * unat y)"
      using mac_header_table unfolding list_all_iff by blast
    then show ?thesis by simp
  qed
  have len: "length (put_be32 w) = 4" for w by (simp add: put_be32_def)
  have "put_be32 c = put_be32 c'" "push_bit 3 b OR push_bit 2 d = push_bit 3 b' OR push_bit 2 d'"
    using assms(5) len by (simp_all add: mac_header_def)
  then have c: "c = c'" and "unat (of_nat (8 * unat b + 4 * unat d) :: byte) = unat (of_nat (8 * unat b' + 4 * unat d') :: byte)"
    using assms by (simp_all add: put_be32_inject tab)
  moreover have small: "unat b < 32" "unat b' < 32" "unat d < 2" "unat d' < 2" using assms by (simp_all add: word_less_nat_alt)
  ultimately have "8 * unat b + 4 * unat d = 8 * unat b' + 4 * unat d'"
    by (simp add: unat_of_nat del: of_nat_add of_nat_mult)
  then have "unat b = unat b' \<and> unat d = unat d'" using small by (intro header_digits) simp_all
  with c show ?thesis by (simp add: word_unat_eq_iff)
qed

section \<open>Properties\<close>

text \<open>C22: for every cipher on blocks of 16 bytes and every message, of any length, the CMAC routine with its index arithmetic and
  its byte-wise subkeys computes the tag that RFC 4493 defines over 128-bit numbers.\<close>

theorem aesCMAC_is_rfc4493:
  assumes "\<And>b. length b = 16 \<Longrightarrow> length (enc b) = 16"
  shows "aesCMAC enc message = word_block (rfc4493_mac (\<lambda>w. block_word (enc (word_block w))) message)"
  by (rule aesCMAC_rfc4493 [OF assms])

text \<open>A toy cipher under which the first subkey needs the mask and the second does not.\<close>

definition sample_cipher :: block_fn where
  "sample_cipher b = map2 (XOR) (0xA5 # replicate 15 7) (rev b)"

theorem aesCMAC_is_rfc4493_witness:
  "word_block (rfc4493_mac (\<lambda>w. block_word (sample_cipher (word_block w))) (replicate 16 3 @ [0x7E])) = [179, 30, 31, 31, 31, 31, 31, 31, 31, 31, 31, 31, 31, 31, 159, 75]"
proof -
  have "length (sample_cipher b) = 16" if "length b = 16" for b using that by (simp add: sample_cipher_def)
  from aesCMAC_is_rfc4493 [where enc = sample_cipher and message = "replicate 16 3 @ [0x7E]", OF this]
  have "word_block (rfc4493_mac (\<lambda>w. block_word (sample_cipher (word_block w))) (replicate 16 3 @ [0x7E])) =
      aesCMAC sample_cipher (replicate 16 3 @ [0x7E])" by simp
  also have "\<dots> = [179, 30, 31, 31, 31, 31, 31, 31, 31, 31, 31, 31, 31, 31, 159, 75]" by code_simp
  finally show ?thesis .
qed

text \<open>The byte-wise left shift of the subkey generation doubles the big-endian number the slice
  holds, modulo its size, for slices of any length.\<close>

theorem shiftLeft_doubles: "be_nat (shiftLeft data) = 2 * be_nat data mod 256 ^ length data"
  by (rule be_nat_shiftLeft)

text \<open>With a 16-byte key the NAS MAC never fails and is the first four bytes of the RFC 4493 tag
  over COUNT, BEARER, DIRECTION and the message, and for 5-bit bearers and 1-bit directions the input
  to that tag determines all four.\<close>

theorem ComputeNASMAC_spec:
  assumes "length knasInt = 16" "\<And>b. length (aes knasInt b) = 16"
    and "bearer < 32" "bearer' < 32" "direction < 2" "direction' < 2"
  shows "ComputeNASMAC aes knasInt count bearer direction message =
      Ok (take 4 (word_block (rfc4493_mac (\<lambda>w. block_word (aes knasInt (word_block w))) (mac_header count bearer direction @ message))))
    \<and> (mac_header count bearer direction @ message = mac_header count' bearer' direction' @ message' \<longrightarrow>
         count = count' \<and> bearer = bearer' \<and> direction = direction' \<and> message = message')"
proof
  have "length (aesCMAC (aes knasInt) m) = 16" for m
    using assms(2) by (simp add: aesCMAC_def Let_def split: prod.splits)
  then show "ComputeNASMAC aes knasInt count bearer direction message =
      Ok (take 4 (word_block (rfc4493_mac (\<lambda>w. block_word (aes knasInt (word_block w))) (mac_header count bearer direction @ message))))"
    using assms(1,2) by (simp add: ComputeNASMAC_def Let_def mac_header_def aesCMAC_rfc4493 [symmetric])
  have "length (mac_header c b d) = 8" for c b d by (simp add: mac_header_def put_be32_def)
  then show "mac_header count bearer direction @ message = mac_header count' bearer' direction' @ message' \<longrightarrow>
      count = count' \<and> bearer = bearer' \<and> direction = direction' \<and> message = message'"
    using mac_header_inject [OF assms(3-6), of count count'] by simp
qed

theorem ComputeNASMAC_spec_witness:
  "ComputeNASMAC (\<lambda>k b. map2 (XOR) k (take 16 (b @ replicate 16 0))) (replicate 16 7) 1 1 1 [0x7E] =
     Ok (take 4 (word_block (rfc4493_mac (\<lambda>w. block_word (map2 (XOR) (replicate 16 7) (take 16 (word_block w @ replicate 16 0))))
           (mac_header 1 1 1 @ [0x7E]))))"
  using ComputeNASMAC_spec [of "replicate 16 7" "\<lambda>k b. map2 (XOR) k (take 16 (b @ replicate 16 0))" 1 0 1 0]
  by simp

end
