(* ===== verification/Subscriber.thy ===== *)
theory Subscriber
  imports Faas Crypto
begin

text \<open>
  The subscriber side of the core: UDR (\<^verbatim>\<open>functions/udr\<close>), UDM (\<^verbatim>\<open>functions/udm\<close>) and AUSF
  (\<^verbatim>\<open>functions/ausf\<close>).  Subscribers are stored under \<^verbatim>\<open>subscribers/{supi}\<close>; the UDM advances the
  subscriber's sequence number, generates a 5G-AKA vector and leaves it under
  \<^verbatim>\<open>auth-vectors/{supi}\<close>, where the AUSF finds the expected response and removes it once it has
  been met.
\<close>

section \<open>UDR\<close>

text \<open>The SUPI of a request: the query parameter, or else the member of the JSON body.\<close>

definition extractSUPI :: "request \<Rightarrow> string" where
  "extractSUPI req =
     (if query_param req ''supi'' \<noteq> [] then query_param req ''supi''
      else (case unmarshal_body (dec_struct [(''supi'', dec_string)]) [] (rq_Body req) of
              Some s \<Rightarrow> s
            | None \<Rightarrow> []))"

definition sub_key :: "string \<Rightarrow> string" where
  "sub_key supi = ''subscribers/'' @ supi"

definition av_key :: "string \<Rightarrow> string" where
  "av_key supi = ''auth-vectors/'' @ supi"

definition udr_data_read :: "'s KVStore \<Rightarrow> request \<Rightarrow> ('s, response) handler" where
  "udr_data_read kv req =
     (let supi = extractSUPI req in
      if supi = [] then State_Monad.return (errorResp 400 ''supi parameter required'')
      else do {
        r \<leftarrow> kvGet kv (sub_key supi) unmarshal_SubscriberData SubscriberData_zero;
        orReturn r
          (\<lambda>e. State_Monad.return
             (if is_not_found e then errorResp 404 (''subscriber '' @ supi @ '' not found'')
              else errorResp 500 (err_text e)))
          (\<lambda>sub. State_Monad.return (json_resp 200 (marshal_SubscriberData sub)))
      })"

definition udr_data_write :: "'s KVStore \<Rightarrow> request \<Rightarrow> ('s, response) handler" where
  "udr_data_write kv req =
     (case unmarshal_body unmarshal_SubscriberData SubscriberData_zero (rq_Body req) of
        None \<Rightarrow> State_Monad.return (errorResp 400 (''invalid JSON: '' @ err_text JsonErr))
      | Some sub \<Rightarrow>
          if sub_SUPI sub = [] then State_Monad.return (errorResp 400 ''supi is required'')
          else do {
            e \<leftarrow> kvPut kv (sub_key (sub_SUPI sub)) (marshal_SubscriberData sub);
            case e of
              Some err \<Rightarrow> State_Monad.return (errorResp 500 (err_text err))
            | None \<Rightarrow> State_Monad.return (json_resp 201 (marshal_SubscriberData sub))
          })"

section \<open>UDM\<close>

record AuthDataRequest =
  adr_SUPI :: string
  adr_ServingNetworkName :: string

definition AuthDataRequest_zero :: AuthDataRequest where
  "AuthDataRequest_zero = \<lparr>adr_SUPI = [],
     adr_ServingNetworkName = []\<rparr>"

definition AuthDataRequest_fields :: "AuthDataRequest fields" where
  "AuthDataRequest_fields = [(''supi'', fld adr_SUPI adr_SUPI_update dec_string),
     (''serving_network_name'', fld adr_ServingNetworkName adr_ServingNetworkName_update dec_string)]"

definition unmarshal_AuthDataRequest :: "AuthDataRequest decoder" where
  "unmarshal_AuthDataRequest = dec_struct AuthDataRequest_fields"

definition marshal_AuthDataRequest :: "AuthDataRequest \<Rightarrow> json" where
  "marshal_AuthDataRequest x = JObj ([(''supi'', JStr (adr_SUPI x)),
     (''serving_network_name'', JStr (adr_ServingNetworkName x))])"

lemma AuthDataRequest_codec [simp, codec]: "unmarshal_AuthDataRequest (marshal_AuthDataRequest x) AuthDataRequest_zero = Some x"
  by (cases x) (simp add: unmarshal_AuthDataRequest_def marshal_AuthDataRequest_def AuthDataRequest_fields_def AuthDataRequest_zero_def json_codec)

lemma AuthDataRequest_not_null [simp]: "marshal_AuthDataRequest x \<noteq> JNull"
  by (simp add: marshal_AuthDataRequest_def)

record AuthDataResponse =
  adp_AuthType :: string
  adp_RAND :: string
  adp_AUTN :: string
  adp_XREStar :: string
  adp_KAUSF :: string

definition AuthDataResponse_zero :: AuthDataResponse where
  "AuthDataResponse_zero = \<lparr>adp_AuthType = [],
     adp_RAND = [],
     adp_AUTN = [],
     adp_XREStar = [],
     adp_KAUSF = []\<rparr>"

definition AuthDataResponse_fields :: "AuthDataResponse fields" where
  "AuthDataResponse_fields = [(''auth_type'', fld adp_AuthType adp_AuthType_update dec_string),
     (''rand'', fld adp_RAND adp_RAND_update dec_string),
     (''autn'', fld adp_AUTN adp_AUTN_update dec_string),
     (''xres_star'', fld adp_XREStar adp_XREStar_update dec_string),
     (''kausf'', fld adp_KAUSF adp_KAUSF_update dec_string)]"

definition unmarshal_AuthDataResponse :: "AuthDataResponse decoder" where
  "unmarshal_AuthDataResponse = dec_struct AuthDataResponse_fields"

definition marshal_AuthDataResponse :: "AuthDataResponse \<Rightarrow> json" where
  "marshal_AuthDataResponse x = JObj ([(''auth_type'', JStr (adp_AuthType x)),
     (''rand'', JStr (adp_RAND x)),
     (''autn'', JStr (adp_AUTN x)),
     (''xres_star'', JStr (adp_XREStar x)),
     (''kausf'', JStr (adp_KAUSF x))])"

lemma AuthDataResponse_codec [simp, codec]: "unmarshal_AuthDataResponse (marshal_AuthDataResponse x) AuthDataResponse_zero = Some x"
  by (cases x) (simp add: unmarshal_AuthDataResponse_def marshal_AuthDataResponse_def AuthDataResponse_fields_def AuthDataResponse_zero_def json_codec)

lemma AuthDataResponse_not_null [simp]: "marshal_AuthDataResponse x \<noteq> JNull"
  by (simp add: marshal_AuthDataResponse_def)

text \<open>The 48-bit sequence number plus one SEQ step of \<open>1 << 5\<close>, in six bytes; the arithmetic is that of
  a \<open>uint64\<close>.\<close>

definition sqn_value :: "bytes \<Rightarrow> uint64" where
  "sqn_value sqn = foldl (\<lambda>v b. push_bit 8 v OR ucast b) 0 sqn"

definition advanceSQN :: "bytes \<Rightarrow> bytes" where
  "advanceSQN sqn =
     (let v = (sqn_value sqn + 32) AND 0xFFFFFFFFFFFF in
      map (\<lambda>i. ucast (drop_bit (8 * (5 - i)) v)) [0..<6])"

definition default_snn :: string where
  "default_snn = ''5G:mnc001.mcc001.3gppnetwork.org''"

definition effective_snn :: "AuthDataRequest \<Rightarrow> string" where
  "effective_snn authReq =
     (if adr_ServingNetworkName authReq = [] then default_snn else adr_ServingNetworkName authReq)"

definition challenge :: "AuthData \<Rightarrow> AuthVector \<Rightarrow> AuthDataResponse" where
  "challenge authData av =
     \<lparr>adp_AuthType = ad_AuthMethod authData,
      adp_RAND = hex_encode (av_RAND av),
      adp_AUTN = hex_encode (av_AUTN av),
      adp_XREStar = hex_encode (av_XRES av),
      adp_KAUSF = hex_encode (av_KAUSF av)\<rparr>"

definition udm_generate_auth_data :: "aka_lib \<Rightarrow> 's KVStore \<Rightarrow> request \<Rightarrow> ('s, response) handler" where
  "udm_generate_auth_data lib kv req =
     (case unmarshal_body unmarshal_AuthDataRequest AuthDataRequest_zero (rq_Body req) of
        None \<Rightarrow> State_Monad.return (errorResp 400 (''invalid JSON: '' @ err_text JsonErr))
      | Some authReq \<Rightarrow>
        if adr_SUPI authReq = [] then State_Monad.return (errorResp 400 ''supi is required'')
        else let supi = adr_SUPI authReq;
                 snn = effective_snn authReq in do {
          r \<leftarrow> kvGet kv (sub_key supi) unmarshal_SubscriberData SubscriberData_zero;
          orReturn r
            (\<lambda>e. State_Monad.return (errorResp 404 (''subscriber '' @ supi @ '' not found: '' @ err_text e)))
            (\<lambda>sub. case sub_AuthenticationData sub of
               None \<Rightarrow> State_Monad.return (errorResp 404 (''no auth data for '' @ supi))
             | Some authData \<Rightarrow> do {
                 let newSQN = advanceSQN (ad_SQN authData);
                 rnd \<leftarrow> randRead;
                 (case GenerateAuthVector lib rnd (ad_PermanentKey authData) (ad_OPc authData) newSQN
                         (ad_AMF authData) snn of
                    Panic \<Rightarrow> State_Monad.return crash_resp
                  | Error t \<Rightarrow> State_Monad.return (errorResp 500 (''generate auth vector: '' @ t))
                  | Ok av \<Rightarrow> do {
                      e \<leftarrow> kvPut kv (sub_key supi)
                             (marshal_SubscriberData
                               (sub\<lparr>sub_AuthenticationData := Some (authData\<lparr>ad_SQN := newSQN\<rparr>)\<rparr>));
                      case e of
                        Some err \<Rightarrow> State_Monad.return (errorResp 500 (''persist SQN: '' @ err_text err))
                      | None \<Rightarrow> do {
                          e2 \<leftarrow> kvPut kv (av_key supi) (marshal_AuthVector av);
                          case e2 of
                            Some err \<Rightarrow> State_Monad.return (errorResp 500 (''store auth vector: '' @ err_text err))
                          | None \<Rightarrow> State_Monad.return (json_resp 200 (marshal_AuthDataResponse (challenge authData av)))
                        }
                    })
               })
        })"

record SubscriberDataResponse =
  sdr_SUPI :: string
  sdr_AccessAndMobility :: "AccessMobData option"
  sdr_SessionManagement :: "SMPolicyData list"

definition SubscriberDataResponse_zero :: SubscriberDataResponse where
  "SubscriberDataResponse_zero = \<lparr>sdr_SUPI = [],
     sdr_AccessAndMobility = None,
     sdr_SessionManagement = []\<rparr>"

definition SubscriberDataResponse_fields :: "SubscriberDataResponse fields" where
  "SubscriberDataResponse_fields = [(''supi'', fld sdr_SUPI sdr_SUPI_update dec_string),
     (''access_mobility_data'', fld sdr_AccessAndMobility sdr_AccessAndMobility_update (dec_ptr unmarshal_AccessMobData AccessMobData_zero)),
     (''session_management'', fld sdr_SessionManagement sdr_SessionManagement_update (dec_list unmarshal_SMPolicyData SMPolicyData_zero))]"

definition unmarshal_SubscriberDataResponse :: "SubscriberDataResponse decoder" where
  "unmarshal_SubscriberDataResponse = dec_struct SubscriberDataResponse_fields"

definition marshal_SubscriberDataResponse :: "SubscriberDataResponse \<Rightarrow> json" where
  "marshal_SubscriberDataResponse x = JObj ([(''supi'', JStr (sdr_SUPI x))] @
     omitempty (sdr_AccessAndMobility x = None) (''access_mobility_data'', enc_ptr marshal_AccessMobData (sdr_AccessAndMobility x)) @
     omitempty (sdr_SessionManagement x = []) (''session_management'', enc_list marshal_SMPolicyData (sdr_SessionManagement x)))"

lemma SubscriberDataResponse_codec [simp, codec]: "unmarshal_SubscriberDataResponse (marshal_SubscriberDataResponse x) SubscriberDataResponse_zero = Some x"
  by (cases x) (simp add: unmarshal_SubscriberDataResponse_def marshal_SubscriberDataResponse_def SubscriberDataResponse_fields_def SubscriberDataResponse_zero_def json_codec dec_ptr_enc)

lemma SubscriberDataResponse_not_null [simp]: "marshal_SubscriberDataResponse x \<noteq> JNull"
  by (simp add: marshal_SubscriberDataResponse_def)

definition udm_get_subscriber_data :: "'s KVStore \<Rightarrow> request \<Rightarrow> ('s, response) handler" where
  "udm_get_subscriber_data kv req =
     (let supi = extractSUPI req in
      if supi = [] then State_Monad.return (errorResp 400 ''supi parameter required'')
      else do {
        r \<leftarrow> kvGet kv (sub_key supi) unmarshal_SubscriberData SubscriberData_zero;
        orReturn r
          (\<lambda>e. State_Monad.return
             (if is_not_found e then errorResp 404 (''subscriber '' @ supi @ '' not found'')
              else errorResp 500 (err_text e)))
          (\<lambda>sub. State_Monad.return (json_resp 200 (marshal_SubscriberDataResponse
             \<lparr>sdr_SUPI = sub_SUPI sub, sdr_AccessAndMobility = sub_AccessAndMobility sub,
              sdr_SessionManagement = sub_SessionManagement sub\<rparr>)))
      })"

section \<open>AUSF\<close>

record AuthRequest =
  arq_SUPI :: string
  arq_RESstar :: string

definition AuthRequest_zero :: AuthRequest where
  "AuthRequest_zero = \<lparr>arq_SUPI = [],
     arq_RESstar = []\<rparr>"

definition AuthRequest_fields :: "AuthRequest fields" where
  "AuthRequest_fields = [(''supi'', fld arq_SUPI arq_SUPI_update dec_string),
     (''res_star'', fld arq_RESstar arq_RESstar_update dec_string)]"

definition unmarshal_AuthRequest :: "AuthRequest decoder" where
  "unmarshal_AuthRequest = dec_struct AuthRequest_fields"

definition marshal_AuthRequest :: "AuthRequest \<Rightarrow> json" where
  "marshal_AuthRequest x = JObj ([(''supi'', JStr (arq_SUPI x)),
     (''res_star'', JStr (arq_RESstar x))])"

lemma AuthRequest_codec [simp, codec]: "unmarshal_AuthRequest (marshal_AuthRequest x) AuthRequest_zero = Some x"
  by (cases x) (simp add: unmarshal_AuthRequest_def marshal_AuthRequest_def AuthRequest_fields_def AuthRequest_zero_def json_codec)

lemma AuthRequest_not_null [simp]: "marshal_AuthRequest x \<noteq> JNull"
  by (simp add: marshal_AuthRequest_def)

record AuthResponse =
  arp_AuthResult :: string
  arp_SUPI :: string
  arp_KAUSF :: string

definition AuthResponse_zero :: AuthResponse where
  "AuthResponse_zero = \<lparr>arp_AuthResult = [],
     arp_SUPI = [],
     arp_KAUSF = []\<rparr>"

definition AuthResponse_fields :: "AuthResponse fields" where
  "AuthResponse_fields = [(''auth_result'', fld arp_AuthResult arp_AuthResult_update dec_string),
     (''supi'', fld arp_SUPI arp_SUPI_update dec_string),
     (''kausf'', fld arp_KAUSF arp_KAUSF_update dec_string)]"

definition unmarshal_AuthResponse :: "AuthResponse decoder" where
  "unmarshal_AuthResponse = dec_struct AuthResponse_fields"

definition marshal_AuthResponse :: "AuthResponse \<Rightarrow> json" where
  "marshal_AuthResponse x = JObj ([(''auth_result'', JStr (arp_AuthResult x)),
     (''supi'', JStr (arp_SUPI x))] @
     omitempty (arp_KAUSF x = []) (''kausf'', JStr (arp_KAUSF x)))"

lemma AuthResponse_codec [simp, codec]: "unmarshal_AuthResponse (marshal_AuthResponse x) AuthResponse_zero = Some x"
  by (cases x) (simp add: unmarshal_AuthResponse_def marshal_AuthResponse_def AuthResponse_fields_def AuthResponse_zero_def json_codec)

lemma AuthResponse_not_null [simp]: "marshal_AuthResponse x \<noteq> JNull"
  by (simp add: marshal_AuthResponse_def)

text \<open>\<open>subtle.ConstantTimeCompare(a, b) == 1\<close>.\<close>

definition ConstantTimeCompare :: "bytes \<Rightarrow> bytes \<Rightarrow> bool" where
  "ConstantTimeCompare a b \<longleftrightarrow> a = b"

definition ausf_authenticate :: "'s KVStore \<Rightarrow> request \<Rightarrow> ('s, response) handler" where
  "ausf_authenticate kv req =
     (case unmarshal_body unmarshal_AuthRequest AuthRequest_zero (rq_Body req) of
        None \<Rightarrow> State_Monad.return (errorResp 400 (''invalid JSON: '' @ err_text JsonErr))
      | Some authReq \<Rightarrow>
        if arq_SUPI authReq = [] \<or> arq_RESstar authReq = [] then
          State_Monad.return (errorResp 400 ''supi and res_star are required'')
        else case hex_decode (arq_RESstar authReq) of
          (_, False) \<Rightarrow> State_Monad.return (errorResp 400 ''invalid res_star hex'')
        | (resStar, True) \<Rightarrow> do {
            r \<leftarrow> kvGet kv (av_key (arq_SUPI authReq)) unmarshal_AuthVector AuthVector_zero;
            orReturn r
              (\<lambda>e. State_Monad.return (errorResp 404 (''no auth vector for '' @ arq_SUPI authReq @ '': '' @ err_text e)))
              (\<lambda>av.
                 if \<not> ConstantTimeCompare resStar (av_XRES av) then
                   State_Monad.return (json_resp 200 (marshal_AuthResponse
                     \<lparr>arp_AuthResult = ''FAILURE'', arp_SUPI = arq_SUPI authReq, arp_KAUSF = []\<rparr>))
                 else do {
                   _ \<leftarrow> kvDelete kv (av_key (arq_SUPI authReq));
                   State_Monad.return (json_resp 200 (marshal_AuthResponse
                     \<lparr>arp_AuthResult = ''SUCCESS'', arp_SUPI = arq_SUPI authReq,
                      arp_KAUSF = hex_encode (av_KAUSF av)\<rparr>))
                 })
          })"

section \<open>What the functions do to the store\<close>

lemma key_neq [simp]: "sub_key a \<noteq> av_key b" "av_key b \<noteq> sub_key a"
  by (simp_all add: sub_key_def av_key_def)

context kv_store
begin

lemma udr_data_read_ok:
  "wp (udr_data_read kv req)
     (\<lambda>r w'. view (w_store w') = view (w_store w) \<and>
        (rs_StatusCode r = 200 \<longrightarrow>
          (\<exists>j sub. view (w_store w) (sub_key (extractSUPI req)) = Some j \<and>
             unmarshal_SubscriberData j SubscriberData_zero = Some sub \<and> rs_Body r = BJson (marshal_SubscriberData sub)))) w"
  by (auto simp: udr_data_read_def wp intro!: wp_kvGet)

lemma udr_data_write_ok:
  "wp (udr_data_write kv req)
     (\<lambda>r w'. rs_StatusCode r = 201 \<longrightarrow>
        (\<exists>sub. unmarshal_body unmarshal_SubscriberData SubscriberData_zero (rq_Body req) = Some sub \<and>
           view (w_store w') = (view (w_store w))(sub_key (sub_SUPI sub) \<mapsto> marshal_SubscriberData sub) \<and>
           rs_Body r = BJson (marshal_SubscriberData sub))) w"
  by (auto simp: udr_data_write_def wp split: option.splits intro!: wp_kvPut)

lemma udm_generate_ok:
  "wp (udm_generate_auth_data lib kv req)
     (\<lambda>r w'. rs_StatusCode r = 200 \<longrightarrow>
        (\<exists>authReq j sub authData av.
           unmarshal_body unmarshal_AuthDataRequest AuthDataRequest_zero (rq_Body req) = Some authReq \<and>
           adr_SUPI authReq \<noteq> [] \<and>
           view (w_store w) (sub_key (adr_SUPI authReq)) = Some j \<and>
           unmarshal_SubscriberData j SubscriberData_zero = Some sub \<and>
           sub_AuthenticationData sub = Some authData \<and>
           GenerateAuthVector lib (w_rand w (w_draws w)) (ad_PermanentKey authData) (ad_OPc authData)
             (advanceSQN (ad_SQN authData)) (ad_AMF authData) (effective_snn authReq) = Ok av \<and>
           view (w_store w') = (view (w_store w))
             (sub_key (adr_SUPI authReq) \<mapsto> marshal_SubscriberData
                (sub\<lparr>sub_AuthenticationData := Some (authData\<lparr>ad_SQN := advanceSQN (ad_SQN authData)\<rparr>)\<rparr>),
              av_key (adr_SUPI authReq) \<mapsto> marshal_AuthVector av) \<and>
           rs_Body r = BJson (marshal_AuthDataResponse (challenge authData av)))) w"
  by (auto simp: udm_generate_auth_data_def wp Let_def split: option.splits res.splits intro!: wp_kvGet wp_kvPut)
end

section \<open>Sequence numbers\<close>

lemma push_or_byte: "push_bit 8 v OR ucast (b :: byte) = v * 256 + ucast b" for v :: uint64
proof -
  have "\<not> bit b n" if "8 \<le> n" for n using bit_imp_le_length [of b n] that by auto
  then have "push_bit 8 v AND ucast b = 0"
    by (auto intro!: bit_word_eqI simp: bit_simps)
  then have "push_bit 8 v OR ucast b = push_bit 8 v + ucast b" by (simp add: disjunctive_add_eq_or)
  then show ?thesis by (simp add: push_bit_eq_mult)
qed

lemma sqn_value_be: "sqn_value sqn = of_nat (be_nat sqn)"
proof -
  have "foldl (\<lambda>v b. push_bit 8 v OR ucast b) (of_nat n) sqn
      = (of_nat (foldl (\<lambda>v b. v * 256 + unat b) n sqn) :: uint64)" for n
  proof (induction sqn arbitrary: n)
    case (Cons b sqn)
    have "push_bit 8 (of_nat n) OR ucast b = (of_nat (n * 256 + unat b) :: uint64)"
      by (simp add: push_or_byte)
    then show ?case using Cons [of "n * 256 + unat b"] by simp
  qed simp
  from this [of 0] show ?thesis by (simp add: sqn_value_def be_nat_def)
qed

lemma be_nat_digits: "be_nat (map (\<lambda>i. of_nat (x div 256 ^ (n - 1 - i))) [0..<n]) = x mod 256 ^ n"
proof (induction n arbitrary: x)
  case (Suc n)
  have split: "map (\<lambda>i. of_nat (x div 256 ^ (Suc n - 1 - i)) :: byte) [0..<Suc n] =
      map (\<lambda>i. of_nat ((x div 256) div 256 ^ (n - 1 - i))) [0..<n] @ [of_nat x]"
  proof -
    have "x div 256 ^ (n - i) = x div 256 div 256 ^ (n - 1 - i)" if "i < n" for i
    proof -
      have "n - i = Suc (n - 1 - i)" using that by simp
      then show ?thesis by (simp add: div_mult2_eq)
    qed
    then show ?thesis by simp
  qed
  have "be_nat (map (\<lambda>i. of_nat (x div 256 ^ (Suc n - 1 - i))) [0..<Suc n]) = (x div 256) mod 256 ^ n * 256 + x mod 256"
    unfolding split be_nat_simps Suc by (simp add: unat_of_nat)
  also have "\<dots> = x mod 256 ^ Suc n" by (simp add: mod_mult2_eq)
  finally show ?case .
qed simp

lemma advanceSQN_value: "be_nat (advanceSQN sqn) = (be_nat sqn + 32) mod 2 ^ 48"
proof -
  define v where "v = (sqn_value sqn + 32) AND 0xFFFFFFFFFFFF"
  have m: "(0xFFFFFFFFFFFF :: uint64) = mask 48" by (simp add: mask_eq_exp_minus_1)
  have v: "v = take_bit 48 (of_nat (be_nat sqn + 32))"
    by (simp add: v_def m sqn_value_be flip: take_bit_eq_mask)
  have uv: "unat v = (be_nat sqn + 32) mod 2 ^ 48"
    unfolding v unsigned_take_bit_eq by (simp add: unat_of_nat take_bit_eq_mod mod_mod_cancel del: of_nat_add)
  have byte: "(ucast (drop_bit k v) :: byte) = of_nat (unat v div 2 ^ k)" for k
    using unat_less_64 [of v] unfolding word_unat_eq_iff unsigned_ucast_eq unsigned_drop_bit_eq
    by (simp add: take_bit_nat_eq_self drop_bit_eq_div unat_of_nat take_bit_eq_mod)
  have "advanceSQN sqn = map (\<lambda>i. of_nat (unat v div 256 ^ (6 - 1 - i))) [0..<6]"
    by (simp add: advanceSQN_def v_def [symmetric] Let_def byte upt_rec)
  then have "be_nat (advanceSQN sqn) = unat v mod 256 ^ 6" by (simp only: be_nat_digits)
  then show ?thesis by (simp add: uv)
qed

lemma advanceSQN_length [simp]: "length (advanceSQN sqn) = 6"
  by (simp add: advanceSQN_def)

text \<open>The answer to a response RES* for a stored vector.\<close>

definition auth_verdict :: "AuthRequest \<Rightarrow> bytes \<Rightarrow> AuthVector \<Rightarrow> AuthResponse" where
  "auth_verdict authReq resStar av =
     (if resStar = av_XRES av
      then \<lparr>arp_AuthResult = ''SUCCESS'', arp_SUPI = arq_SUPI authReq, arp_KAUSF = hex_encode (av_KAUSF av)\<rparr>
      else \<lparr>arp_AuthResult = ''FAILURE'', arp_SUPI = arq_SUPI authReq, arp_KAUSF = []\<rparr>)"

context kv_store
begin

lemma ausf_authenticate_ok:
  "wp (ausf_authenticate kv req)
     (\<lambda>r w'. if rs_StatusCode r = 200 then
        (\<exists>authReq resStar j av.
           unmarshal_body unmarshal_AuthRequest AuthRequest_zero (rq_Body req) = Some authReq \<and>
           hex_decode (arq_RESstar authReq) = (resStar, True) \<and>
           view (w_store w) (av_key (arq_SUPI authReq)) = Some j \<and>
           unmarshal_AuthVector j AuthVector_zero = Some av \<and>
           rs_Body r = BJson (marshal_AuthResponse (auth_verdict authReq resStar av)) \<and>
           (view (w_store w') = view (w_store w) \<or>
            resStar = av_XRES av \<and> view (w_store w') = (view (w_store w))(av_key (arq_SUPI authReq) := None)))
      else view (w_store w') = view (w_store w)) w"
  by (auto simp: ausf_authenticate_def wp ConstantTimeCompare_def
      split: option.splits prod.splits bool.splits intro!: wp_kvGet wp_kvDelete) (auto simp: auth_verdict_def)

end

definition auth_req :: "string \<Rightarrow> string \<Rightarrow> request" where
  "auth_req supi resHex =
     \<lparr>rq_Body = Some (marshal_AuthRequest \<lparr>arq_SUPI = supi, arq_RESstar = resHex\<rparr>), rq_QueryString = []\<rparr>"

context reliable_store
begin

lemma ausf_known:
  assumes "view (w_store w) (av_key supi) = Some (marshal_AuthVector av)" "supi \<noteq> []" "resHex \<noteq> []"
    and "hex_decode resHex = (resStar, True)"
  shows "wp (ausf_authenticate kv (auth_req supi resHex))
    (\<lambda>r w'. r = json_resp 200 (marshal_AuthResponse (auth_verdict \<lparr>arq_SUPI = supi, arq_RESstar = resHex\<rparr> resStar av)) \<and>
       view (w_store w') = (if resStar = av_XRES av then (view (w_store w))(av_key supi := None) else view (w_store w))) w"
  using assms
  by (auto simp: ausf_authenticate_def auth_req_def wp ConstantTimeCompare_def auth_verdict_def
      intro!: wp_kvGet_reliable wp_kvDelete_reliable)

lemma ausf_unknown:
  assumes "view (w_store w) (av_key supi) = None" "supi \<noteq> []" "resHex \<noteq> []" "snd (hex_decode resHex)"
  shows "wp (ausf_authenticate kv (auth_req supi resHex))
    (\<lambda>r w'. rs_StatusCode r = 404 \<and> view (w_store w') = view (w_store w)) w"
  using assms
  by (cases "hex_decode resHex")
    (auto simp: ausf_authenticate_def auth_req_def wp intro!: wp_kvGet_reliable)

end

lemma GenerateAuthVector_XRES:
  assumes "aka_documented lib" "GenerateAuthVector lib rnd k opc sqn amf snn = Ok av"
  shows "length (av_XRES av) = 16"
proof -
  have x: "length x = 16" if "deriveXRESStar lib ck ik snn r res = Ok x" for ck ik r res x
    using assms(1) that
    by (auto simp: deriveXRESStar_def aka_documented_def Let_def last16_def lift_err_def rbind_eq_Ok
        split: sum.splits if_splits)
  have w: "wrap_err p m = Ok a \<longleftrightarrow> m = Ok a" for p m and a :: bytes by (cases m) simp_all
  show ?thesis using assms(2)
    by (auto simp: GenerateAuthVector_def GenerateAuthVectorWithRAND_def rbind_eq_Ok w
        split: option.splits prod.splits dest: x)
qed

lemma marshal_AuthDataResponse_inject: "marshal_AuthDataResponse a = marshal_AuthDataResponse b \<Longrightarrow> a = b"
  by (metis AuthDataResponse_codec option.inject)

section \<open>Sample data\<close>

definition sample_auth :: AuthData where
  "sample_auth = \<lparr>ad_AuthMethod = ''5G_AKA'', ad_PermanentKey = replicate 16 1, ad_OPc = replicate 16 2,
     ad_AMF = [0x80, 0], ad_SQN = [0, 0, 0, 0, 0, 0]\<rparr>"

definition sample_sub :: SubscriberData where
  "sample_sub = \<lparr>sub_SUPI = ''imsi-1'', sub_AuthenticationData = Some sample_auth,
     sub_AccessAndMobility = None, sub_SessionManagement = []\<rparr>"

text \<open>A library with the documented output sizes.\<close>

definition sample_lib :: aka_lib where
  "sample_lib = \<lparr>GenerateAKAParameters = (\<lambda>opc k r sqn amf. Inr (k, opc, r, replicate 16 (of_nat (be_nat sqn)))),
     GetKDFValue = (\<lambda>key fc ps. Inr (replicate 32 (of_nat (length (concat ps))))),
     KDFLen = (\<lambda>p. put_be16 (length p))\<rparr>"

lemma sample_lib_documented: "aka_documented sample_lib"
  by (auto simp: aka_documented_def sample_lib_def)

definition sample_world :: "(string \<rightharpoonup> json) world" where
  "sample_world = world_init [sub_key ''imsi-1'' \<mapsto> marshal_SubscriberData sample_sub]"

lemma sample_vector: "\<exists>av. GenerateAuthVector sample_lib (Some r) k opc sqn amf snn = Ok av"
  by (simp add: GenerateAuthVector_def GenerateAuthVectorWithRAND_def deriveXRESStar_def
      deriveKAUSF_def Let_def last16_def sample_lib_def)

definition sample_gen :: "(string \<rightharpoonup> json, response) handler" where
  "sample_gen = udm_generate_auth_data sample_lib MockKVStore (body_req [(''supi'', JStr ''imsi-1'')])"

lemma sample_gen_request:
  "unmarshal_body unmarshal_AuthDataRequest AuthDataRequest_zero (rq_Body (body_req [(''supi'', JStr ''imsi-1'')]))
   = Some \<lparr>adr_SUPI = ''imsi-1'', adr_ServingNetworkName = []\<rparr>"
  by (simp add: body_req_def unmarshal_AuthDataRequest_def AuthDataRequest_fields_def AuthDataRequest_zero_def fld_def)

lemma sample_gen_run:
  "\<exists>av. fst (run_state sample_gen sample_world) = json_resp 200 (marshal_AuthDataResponse (challenge sample_auth av))"
proof -
  obtain av where "GenerateAuthVector sample_lib (Some (replicate 16 0)) (ad_PermanentKey sample_auth)
      (ad_OPc sample_auth) (advanceSQN (ad_SQN sample_auth)) (ad_AMF sample_auth)
      (effective_snn \<lparr>adr_SUPI = ''imsi-1'', adr_ServingNetworkName = []\<rparr>) = Ok av"
    using sample_vector by blast
  then have "wp sample_gen (\<lambda>r _. r = json_resp 200 (marshal_AuthDataResponse (challenge sample_auth av))) sample_world"
    by (simp add: sample_gen_def udm_generate_auth_data_def sample_gen_request wp Let_def
        sample_world_def world_init_def sample_sub_def)
  then show ?thesis by (auto simp: wp_def split_beta)
qed

section \<open>Properties\<close>

text \<open>What was written is what is read: on any store that keeps its contract, when a subscriber
  was created (201) and a read of the same SUPI succeeds (200), the read returns the document the
  creation returned.\<close>

theorem udr_write_read:
  assumes "kv_store kv view"
    and "unmarshal_body unmarshal_SubscriberData SubscriberData_zero (rq_Body wreq) = Some sub"
    and "run_state (udr_data_write kv wreq) w = (r1, w1)" "rs_StatusCode r1 = 201"
    and "extractSUPI rreq = sub_SUPI sub"
    and "run_state (udr_data_read kv rreq) w1 = (r2, w2)" "rs_StatusCode r2 = 200"
  shows "rs_Body r2 = rs_Body r1"
  using wpD [OF kv_store.udr_data_write_ok [OF assms(1)] assms(3)]
    wpD [OF kv_store.udr_data_read_ok [OF assms(1)] assms(6)] assms(2,4,5,7)
  by auto

theorem udr_write_read_witness:
  "rs_Body (fst (run_state (udr_data_read MockKVStore (body_req [(''supi'', JStr ''imsi-1'')]))
       (snd (run_state (udr_data_write MockKVStore \<lparr>rq_Body = Some (marshal_SubscriberData sample_sub), rq_QueryString = []\<rparr>)
          (world_init NewMockKVStore)))))
   = rs_Body (fst (run_state (udr_data_write MockKVStore \<lparr>rq_Body = Some (marshal_SubscriberData sample_sub), rq_QueryString = []\<rparr>)
          (world_init NewMockKVStore)))"
proof -
  let ?wreq = "\<lparr>rq_Body = Some (marshal_SubscriberData sample_sub), rq_QueryString = []\<rparr>"
  let ?rreq = "body_req [(''supi'', JStr ''imsi-1'')]"
  let ?w1 = "(world_init NewMockKVStore)\<lparr>w_store := [sub_key ''imsi-1'' \<mapsto> marshal_SubscriberData sample_sub]\<rparr>"
  have supi: "sub_SUPI sample_sub = ''imsi-1''" "extractSUPI ?rreq = ''imsi-1''"
    by (simp_all add: sample_sub_def extractSUPI_def body_req_def query_param_def)
  have w: "run_state (udr_data_write MockKVStore ?wreq) (world_init NewMockKVStore)
      = (json_resp 201 (marshal_SubscriberData sample_sub), ?w1)"
    by (rule run_state_eq) (simp add: udr_data_write_def wp supi world_init_def NewMockKVStore_def)
  have r: "run_state (udr_data_read MockKVStore ?rreq) ?w1 = (json_resp 200 (marshal_SubscriberData sample_sub), ?w1)"
    by (rule run_state_eq) (simp add: udr_data_read_def wp supi)
  show ?thesis
    using udr_write_read [OF mock.kv_store_axioms, of ?wreq sample_sub] w r supi by simp
qed

text \<open>The sequence number in the next vector is the stored one plus one SEQ step of 32, modulo
  \<open>2^48\<close>, for stored numbers of any length: the five IND bits are kept, and the number
  grows strictly unless it wraps.\<close>

theorem advanceSQN_spec:
  "length (advanceSQN sqn) = 6 \<and>
   be_nat (advanceSQN sqn) = (be_nat sqn + 32) mod 2 ^ 48 \<and>
   be_nat (advanceSQN sqn) mod 32 = be_nat sqn mod 32 \<and>
   (be_nat sqn < 2 ^ 48 - 32 \<longrightarrow> be_nat sqn < be_nat (advanceSQN sqn))"
proof -
  have "(be_nat sqn + 32) mod 2 ^ 48 mod 32 = be_nat sqn mod 32"
    by (simp add: mod_mod_cancel)
  then show ?thesis by (simp add: advanceSQN_value)
qed

theorem advanceSQN_spec_witness: "be_nat (advanceSQN [0, 0, 0, 0, 0, 0xE1]) = 257"
  using advanceSQN_spec [of "[0, 0, 0, 0, 0, 0xE1]"] by simp

text \<open>A successful Nudm_UEAuthentication_Get has read the subscriber, generated the vector for
  the advanced sequence number from a fresh random draw, stored the subscriber with that number and
  the vector, and changed nothing else in the store; its answer is the vector in hexadecimal.\<close>

theorem udm_generate_auth_data_spec:
  assumes "kv_store kv view"
    and "run_state (udm_generate_auth_data lib kv req) w = (r, w')" "rs_StatusCode r = 200"
  shows "\<exists>authReq j sub authData av.
     unmarshal_body unmarshal_AuthDataRequest AuthDataRequest_zero (rq_Body req) = Some authReq \<and>
     view (w_store w) (sub_key (adr_SUPI authReq)) = Some j \<and>
     unmarshal_SubscriberData j SubscriberData_zero = Some sub \<and>
     sub_AuthenticationData sub = Some authData \<and>
     GenerateAuthVector lib (w_rand w (w_draws w)) (ad_PermanentKey authData) (ad_OPc authData)
       (advanceSQN (ad_SQN authData)) (ad_AMF authData) (effective_snn authReq) = Ok av \<and>
     view (w_store w') = (view (w_store w))
       (sub_key (adr_SUPI authReq) \<mapsto> marshal_SubscriberData
          (sub\<lparr>sub_AuthenticationData := Some (authData\<lparr>ad_SQN := advanceSQN (ad_SQN authData)\<rparr>)\<rparr>),
        av_key (adr_SUPI authReq) \<mapsto> marshal_AuthVector av) \<and>
     rs_Body r = BJson (marshal_AuthDataResponse (challenge authData av))"
  using wpD [OF kv_store.udm_generate_ok [OF assms(1)] assms(2)] assms(3) by auto

theorem udm_generate_auth_data_spec_witness:
  "\<exists>av. w_store (snd (run_state sample_gen sample_world)) (av_key ''imsi-1'') = Some (marshal_AuthVector av)"
  using udm_generate_auth_data_spec [OF mock.kv_store_axioms surjective_pairing,
      of sample_lib "body_req [(''supi'', JStr ''imsi-1'')]" sample_world] sample_gen_run
  by (auto simp: sample_gen_request sample_gen_def) (rule exI, rule refl)

text \<open>C9: over a store that does not fail, a 5G-AKA run ends in success exactly for the expected response: after a vector was generated,
  the AUSF answers SUCCESS with the vector's KAUSF to its XRES* and FAILURE to every other
  nonempty response; a success removes the vector, so that the same response is not accepted a second time.\<close>

theorem aka_run:
  assumes "reliable_store kv view" "aka_documented lib"
    and "run_state (udm_generate_auth_data lib kv req) w = (r, w1)" "rs_StatusCode r = 200"
    and "unmarshal_body unmarshal_AuthDataRequest AuthDataRequest_zero (rq_Body req) = Some authReq"
    and "rs_Body r = BJson (marshal_AuthDataResponse ch)" and "adr_SUPI authReq = supi"
  shows "wp (ausf_authenticate kv (auth_req supi (adp_XREStar ch)))
      (\<lambda>r2 w2. r2 = json_resp 200 (marshal_AuthResponse
           \<lparr>arp_AuthResult = ''SUCCESS'', arp_SUPI = supi, arp_KAUSF = adp_KAUSF ch\<rparr>) \<and>
         wp (ausf_authenticate kv (auth_req supi (adp_XREStar ch))) (\<lambda>r3 w3. rs_StatusCode r3 = 404) w2) w1
    \<and> (\<forall>resStar. resStar \<noteq> [] \<and> hex_encode resStar \<noteq> adp_XREStar ch \<longrightarrow>
        wp (ausf_authenticate kv (auth_req supi (hex_encode resStar)))
          (\<lambda>r2 w2. r2 = json_resp 200 (marshal_AuthResponse
             \<lparr>arp_AuthResult = ''FAILURE'', arp_SUPI = supi, arp_KAUSF = []\<rparr>)) w1)"
proof -
  from kv_store.udm_generate_ok [OF reliable_store.axioms(1) [OF assms(1)], THEN wpD, OF assms(3)] assms(4,5,7)
  obtain authData av where gen: "GenerateAuthVector lib (w_rand w (w_draws w)) (ad_PermanentKey authData)
      (ad_OPc authData) (advanceSQN (ad_SQN authData)) (ad_AMF authData) (effective_snn authReq) = Ok av"
    and stored: "view (w_store w1) (av_key supi) = Some (marshal_AuthVector av)"
    and body: "rs_Body r = BJson (marshal_AuthDataResponse (challenge authData av))" and supi: "supi \<noteq> []"
    by auto
  have ch: "ch = challenge authData av"
    using body assms(6) by (simp add: marshal_AuthDataResponse_inject)
  have ne: "av_XRES av \<noteq> []" using GenerateAuthVector_XRES [OF assms(2) gen] by auto
  note known = reliable_store.ausf_known [OF assms(1) stored supi]
  have again: "wp (ausf_authenticate kv (auth_req supi (adp_XREStar ch))) (\<lambda>r3 w3. rs_StatusCode r3 = 404) w2"
    if "view (w_store w2) = (view (w_store w1))(av_key supi := None)" for w2
    by (rule wp_mono [OF reliable_store.ausf_unknown [OF assms(1) _ supi]])
      (use that ne in \<open>simp_all add: ch challenge_def\<close>)
  show ?thesis
  proof (intro conjI allI impI)
    show "wp (ausf_authenticate kv (auth_req supi (adp_XREStar ch)))
      (\<lambda>r2 w2. r2 = json_resp 200 (marshal_AuthResponse
           \<lparr>arp_AuthResult = ''SUCCESS'', arp_SUPI = supi, arp_KAUSF = adp_KAUSF ch\<rparr>) \<and>
         wp (ausf_authenticate kv (auth_req supi (adp_XREStar ch))) (\<lambda>r3 w3. rs_StatusCode r3 = 404) w2) w1"
      by (rule wp_mono [OF known [of "adp_XREStar ch" "av_XRES av"]])
        (use ne again in \<open>simp_all add: ch challenge_def auth_verdict_def\<close>)
    show "wp (ausf_authenticate kv (auth_req supi (hex_encode resStar)))
        (\<lambda>r2 w2. r2 = json_resp 200 (marshal_AuthResponse
           \<lparr>arp_AuthResult = ''FAILURE'', arp_SUPI = supi, arp_KAUSF = []\<rparr>)) w1"
      if "resStar \<noteq> [] \<and> hex_encode resStar \<noteq> adp_XREStar ch" for resStar
      by (rule wp_mono [OF known [of "hex_encode resStar" resStar]])
        (use that in \<open>auto simp: ch challenge_def auth_verdict_def\<close>)
  qed
qed

theorem aka_run_witness:
  "\<exists>ch. rs_Body (fst (run_state sample_gen sample_world)) = BJson (marshal_AuthDataResponse ch) \<and>
     wp (ausf_authenticate MockKVStore (auth_req ''imsi-1'' (adp_XREStar ch)))
      (\<lambda>r2 w2. r2 = json_resp 200 (marshal_AuthResponse
           \<lparr>arp_AuthResult = ''SUCCESS'', arp_SUPI = ''imsi-1'', arp_KAUSF = adp_KAUSF ch\<rparr>) \<and>
         wp (ausf_authenticate MockKVStore (auth_req ''imsi-1'' (adp_XREStar ch))) (\<lambda>r3 w3. rs_StatusCode r3 = 404) w2)
      (snd (run_state sample_gen sample_world))"
proof -
  obtain av where r: "fst (run_state sample_gen sample_world) = json_resp 200 (marshal_AuthDataResponse (challenge sample_auth av))"
    using sample_gen_run by blast
  show ?thesis
    using aka_run [OF mock.reliable_store_axioms sample_lib_documented surjective_pairing, of _ sample_world,
        folded sample_gen_def, OF _ sample_gen_request] r
    by (intro exI [of _ "challenge sample_auth av"]) (simp add: sample_gen_def)
qed

text \<open>On any store that keeps its contract, an authentication answered with 200 says SUCCESS, with
  the KAUSF, exactly when the RES* decoded from hexadecimal is the stored vector's XRES*, and
  otherwise FAILURE without a key; only a success may remove the vector, and an answer other
  than 200 leaves the store as it was.\<close>

theorem ausf_authenticate_spec:
  assumes "kv_store kv view" "run_state (ausf_authenticate kv req) w = (r, w')"
  shows "if rs_StatusCode r = 200 then
        (\<exists>authReq resStar j av.
           unmarshal_body unmarshal_AuthRequest AuthRequest_zero (rq_Body req) = Some authReq \<and>
           hex_decode (arq_RESstar authReq) = (resStar, True) \<and>
           view (w_store w) (av_key (arq_SUPI authReq)) = Some j \<and>
           unmarshal_AuthVector j AuthVector_zero = Some av \<and>
           rs_Body r = BJson (marshal_AuthResponse (auth_verdict authReq resStar av)) \<and>
           (view (w_store w') = view (w_store w) \<or>
            resStar = av_XRES av \<and> view (w_store w') = (view (w_store w))(av_key (arq_SUPI authReq) := None)))
      else view (w_store w') = view (w_store w)"
  using wpD [OF kv_store.ausf_authenticate_ok [OF assms(1)] assms(2)] .

theorem ausf_authenticate_spec_witness:
  "w_store (snd (run_state (ausf_authenticate MockKVStore (auth_req ''imsi-1'' ''zz'')) sample_world)) = w_store sample_world"
proof -
  have "rs_StatusCode (fst (run_state (ausf_authenticate MockKVStore (auth_req ''imsi-1'' ''zz'')) sample_world)) = 400"
    unfolding status_wp
    by (simp add: ausf_authenticate_def auth_req_def wp hex_val_def position_def hex_alphabet_def)
  then show ?thesis
    using ausf_authenticate_spec [OF mock.kv_store_axioms surjective_pairing,
        of "auth_req ''imsi-1'' ''zz''" sample_world] by simp
qed

end
