(* ===== verification/Amf.thy ===== *)
theory Amf
  imports Subscriber UeState Nas
begin

text \<open>
  The AMF functions (\<^verbatim>\<open>functions/amf\<close>): initial registration, deregistration, service request,
  handover, authentication initiation and PDU session relay.  The UE context lives in the store under
  \<^verbatim>\<open>ue:{supi}\<close>.  Functions that call others take the SBI caller as the argument \<open>sbi\<close>; \<open>getenv\<close> is the
  process environment.  JSON maps are written with their keys in order, as \<open>encoding/json\<close> does.
\<close>

definition ue_key :: "string \<Rightarrow> string" where
  "ue_key supi = ''ue:'' @ supi"

lemma ue_key_neq [simp]:
  "ue_key a \<noteq> sub_key b" "sub_key b \<noteq> ue_key a" "ue_key a \<noteq> av_key b" "av_key b \<noteq> ue_key a"
  "ue_key a = ue_key b \<longleftrightarrow> a = b"
  by (simp_all add: ue_key_def sub_key_def av_key_def)

definition get_ue :: "'s KVStore \<Rightarrow> string \<Rightarrow> ('s, goerr + UEContext) handler" where
  "get_ue kv supi = kvGet kv (ue_key supi) unmarshal_UEContext UEContext_zero"

definition put_ue :: "'s KVStore \<Rightarrow> string \<Rightarrow> UEContext \<Rightarrow> ('s, goerr option) handler" where
  "put_ue kv supi ctx = kvPut kv (ue_key supi) (marshal_UEContext ctx)"

section \<open>Authentication initiation\<close>

record AuthInitiateRequest =
  aiq_SUPI :: string
  aiq_ServingNetworkName :: string

definition AuthInitiateRequest_zero :: AuthInitiateRequest where
  "AuthInitiateRequest_zero = \<lparr>aiq_SUPI = [],
     aiq_ServingNetworkName = []\<rparr>"

definition AuthInitiateRequest_fields :: "AuthInitiateRequest fields" where
  "AuthInitiateRequest_fields = [(''supi'', fld aiq_SUPI aiq_SUPI_update dec_string),
     (''serving_network_name'', fld aiq_ServingNetworkName aiq_ServingNetworkName_update dec_string)]"

definition unmarshal_AuthInitiateRequest :: "AuthInitiateRequest decoder" where
  "unmarshal_AuthInitiateRequest = dec_struct AuthInitiateRequest_fields"

definition marshal_AuthInitiateRequest :: "AuthInitiateRequest \<Rightarrow> json" where
  "marshal_AuthInitiateRequest x = JObj ([(''supi'', JStr (aiq_SUPI x)),
     (''serving_network_name'', JStr (aiq_ServingNetworkName x))])"

lemma AuthInitiateRequest_codec [simp, codec]: "unmarshal_AuthInitiateRequest (marshal_AuthInitiateRequest x) AuthInitiateRequest_zero = Some x"
  by (cases x) (simp add: unmarshal_AuthInitiateRequest_def marshal_AuthInitiateRequest_def AuthInitiateRequest_fields_def AuthInitiateRequest_zero_def json_codec)

lemma AuthInitiateRequest_not_null [simp]: "marshal_AuthInitiateRequest x \<noteq> JNull"
  by (simp add: marshal_AuthInitiateRequest_def)

record AuthInitiateResponse =
  aip_AuthType :: string
  aip_RAND :: string
  aip_AUTN :: string
  aip_SUPI :: string

definition AuthInitiateResponse_zero :: AuthInitiateResponse where
  "AuthInitiateResponse_zero = \<lparr>aip_AuthType = [],
     aip_RAND = [],
     aip_AUTN = [],
     aip_SUPI = []\<rparr>"

definition AuthInitiateResponse_fields :: "AuthInitiateResponse fields" where
  "AuthInitiateResponse_fields = [(''auth_type'', fld aip_AuthType aip_AuthType_update dec_string),
     (''rand'', fld aip_RAND aip_RAND_update dec_string),
     (''autn'', fld aip_AUTN aip_AUTN_update dec_string),
     (''supi'', fld aip_SUPI aip_SUPI_update dec_string)]"

definition unmarshal_AuthInitiateResponse :: "AuthInitiateResponse decoder" where
  "unmarshal_AuthInitiateResponse = dec_struct AuthInitiateResponse_fields"

definition marshal_AuthInitiateResponse :: "AuthInitiateResponse \<Rightarrow> json" where
  "marshal_AuthInitiateResponse x = JObj ([(''auth_type'', JStr (aip_AuthType x)),
     (''rand'', JStr (aip_RAND x)),
     (''autn'', JStr (aip_AUTN x)),
     (''supi'', JStr (aip_SUPI x))])"

lemma AuthInitiateResponse_codec [simp, codec]: "unmarshal_AuthInitiateResponse (marshal_AuthInitiateResponse x) AuthInitiateResponse_zero = Some x"
  by (cases x) (simp add: unmarshal_AuthInitiateResponse_def marshal_AuthInitiateResponse_def AuthInitiateResponse_fields_def AuthInitiateResponse_zero_def json_codec)

lemma AuthInitiateResponse_not_null [simp]: "marshal_AuthInitiateResponse x \<noteq> JNull"
  by (simp add: marshal_AuthInitiateResponse_def)

record udmAuthDataResponse =
  uad_AuthType :: string
  uad_RAND :: string
  uad_AUTN :: string
  uad_XRESstar :: string
  uad_KAUSF :: string

definition udmAuthDataResponse_zero :: udmAuthDataResponse where
  "udmAuthDataResponse_zero = \<lparr>uad_AuthType = [],
     uad_RAND = [],
     uad_AUTN = [],
     uad_XRESstar = [],
     uad_KAUSF = []\<rparr>"

definition udmAuthDataResponse_fields :: "udmAuthDataResponse fields" where
  "udmAuthDataResponse_fields = [(''auth_type'', fld uad_AuthType uad_AuthType_update dec_string),
     (''rand'', fld uad_RAND uad_RAND_update dec_string),
     (''autn'', fld uad_AUTN uad_AUTN_update dec_string),
     (''xres_star'', fld uad_XRESstar uad_XRESstar_update dec_string),
     (''kausf'', fld uad_KAUSF uad_KAUSF_update dec_string)]"

definition unmarshal_udmAuthDataResponse :: "udmAuthDataResponse decoder" where
  "unmarshal_udmAuthDataResponse = dec_struct udmAuthDataResponse_fields"

definition amf_auth_initiate :: "'s KVStore \<Rightarrow> 's SBICaller \<Rightarrow> request \<Rightarrow> ('s, response) handler" where
  "amf_auth_initiate kv sbi req =
     (case unmarshal_body unmarshal_AuthInitiateRequest AuthInitiateRequest_zero (rq_Body req) of
        None \<Rightarrow> State_Monad.return (amf_errorResp 400 (''invalid JSON: '' @ err_text JsonErr))
      | Some authReq \<Rightarrow>
        if aiq_SUPI authReq = [] then State_Monad.return (amf_errorResp 400 ''supi is required'')
        else let supi = aiq_SUPI authReq;
                 snn = (if aiq_ServingNetworkName authReq = [] then default_snn
                        else aiq_ServingNetworkName authReq) in do {
          (err, udmResp) \<leftarrow> CallFunction sbi ''udm-generate-auth-data''
            (JObj [(''serving_network_name'', JStr snn), (''supi'', JStr supi)])
            unmarshal_udmAuthDataResponse udmAuthDataResponse_zero;
          case err of
            Some e \<Rightarrow> State_Monad.return (amf_errorResp 500 (''Nudm_UEAuthentication_Get: '' @ err_text e))
          | None \<Rightarrow> do {
              _ \<leftarrow> (if uad_XRESstar udmResp \<noteq> [] then
                     kvPut kv (''auth-pending:'' @ supi)
                       (JObj [(''kausf'', JStr (uad_KAUSF udmResp)), (''xres_star'', JStr (uad_XRESstar udmResp))])
                   else State_Monad.return None);
              State_Monad.return (json_resp 200 (marshal_AuthInitiateResponse
                \<lparr>aip_AuthType = uad_AuthType udmResp, aip_RAND = uad_RAND udmResp,
                 aip_AUTN = uad_AUTN udmResp, aip_SUPI = supi\<rparr>))
            }
        })"

section \<open>Initial registration\<close>

record ueSecCap =
  usc_EA :: bytes
  usc_IA :: bytes

definition ueSecCap_zero :: ueSecCap where
  "ueSecCap_zero = \<lparr>usc_EA = [],
     usc_IA = []\<rparr>"

definition ueSecCap_fields :: "ueSecCap fields" where
  "ueSecCap_fields = [(''ea'', fld usc_EA usc_EA_update dec_bytes),
     (''ia'', fld usc_IA usc_IA_update dec_bytes)]"

definition unmarshal_ueSecCap :: "ueSecCap decoder" where
  "unmarshal_ueSecCap = dec_struct ueSecCap_fields"

definition marshal_ueSecCap :: "ueSecCap \<Rightarrow> json" where
  "marshal_ueSecCap x = JObj ([(''ea'', enc_bytes (usc_EA x)),
     (''ia'', enc_bytes (usc_IA x))])"

lemma ueSecCap_codec [simp, codec]: "unmarshal_ueSecCap (marshal_ueSecCap x) ueSecCap_zero = Some x"
  by (cases x) (simp add: unmarshal_ueSecCap_def marshal_ueSecCap_def ueSecCap_fields_def ueSecCap_zero_def json_codec)

lemma ueSecCap_not_null [simp]: "marshal_ueSecCap x \<noteq> JNull"
  by (simp add: marshal_ueSecCap_def)

record amf_RegistrationRequest =
  rgq_SUPI :: string
  rgq_RANUeNgapID :: int64
  rgq_GnbID :: string
  rgq_RegistrationType :: uint8
  rgq_RequestedNSSAI :: "SNSSAI list"
  rgq_UESecurityCap :: "ueSecCap option"
  rgq_SkipAuth :: bool

definition amf_RegistrationRequest_zero :: amf_RegistrationRequest where
  "amf_RegistrationRequest_zero = \<lparr>rgq_SUPI = [],
     rgq_RANUeNgapID = 0,
     rgq_GnbID = [],
     rgq_RegistrationType = 0,
     rgq_RequestedNSSAI = [],
     rgq_UESecurityCap = None,
     rgq_SkipAuth = False\<rparr>"

definition amf_RegistrationRequest_fields :: "amf_RegistrationRequest fields" where
  "amf_RegistrationRequest_fields = [(''supi'', fld rgq_SUPI rgq_SUPI_update dec_string),
     (''ran_ue_ngap_id'', fld rgq_RANUeNgapID rgq_RANUeNgapID_update dec_sint),
     (''gnb_id'', fld rgq_GnbID rgq_GnbID_update dec_string),
     (''registration_type'', fld rgq_RegistrationType rgq_RegistrationType_update dec_uint),
     (''requested_nssai'', fld rgq_RequestedNSSAI rgq_RequestedNSSAI_update (dec_list unmarshal_SNSSAI SNSSAI_zero)),
     (''ue_security_cap'', fld rgq_UESecurityCap rgq_UESecurityCap_update (dec_ptr unmarshal_ueSecCap ueSecCap_zero)),
     (''skip_auth'', fld rgq_SkipAuth rgq_SkipAuth_update dec_bool)]"

definition unmarshal_amf_RegistrationRequest :: "amf_RegistrationRequest decoder" where
  "unmarshal_amf_RegistrationRequest = dec_struct amf_RegistrationRequest_fields"

definition marshal_amf_RegistrationRequest :: "amf_RegistrationRequest \<Rightarrow> json" where
  "marshal_amf_RegistrationRequest x = JObj ([(''supi'', JStr (rgq_SUPI x)),
     (''ran_ue_ngap_id'', enc_sint (rgq_RANUeNgapID x)),
     (''gnb_id'', JStr (rgq_GnbID x))] @
     omitempty (rgq_RegistrationType x = 0) (''registration_type'', enc_uint (rgq_RegistrationType x)) @
     omitempty (rgq_RequestedNSSAI x = []) (''requested_nssai'', enc_list marshal_SNSSAI (rgq_RequestedNSSAI x)) @
     omitempty (rgq_UESecurityCap x = None) (''ue_security_cap'', enc_ptr marshal_ueSecCap (rgq_UESecurityCap x)) @
     [(''skip_auth'', JBool (rgq_SkipAuth x))])"

lemma amf_RegistrationRequest_codec [simp, codec]: "unmarshal_amf_RegistrationRequest (marshal_amf_RegistrationRequest x) amf_RegistrationRequest_zero = Some x"
  by (cases x) (simp add: unmarshal_amf_RegistrationRequest_def marshal_amf_RegistrationRequest_def amf_RegistrationRequest_fields_def amf_RegistrationRequest_zero_def json_codec dec_ptr_enc)

lemma amf_RegistrationRequest_not_null [simp]: "marshal_amf_RegistrationRequest x \<noteq> JNull"
  by (simp add: marshal_amf_RegistrationRequest_def)

record RegistrationResponse =
  rgp_Status :: string
  rgp_SUPI :: string
  rgp_GUTI :: string
  rgp_AllowedNSSAI :: "SNSSAI list"
  rgp_T3512Value :: uint32
  rgp_NASMessage :: string
  rgp_SecurityActivated :: bool

definition RegistrationResponse_zero :: RegistrationResponse where
  "RegistrationResponse_zero = \<lparr>rgp_Status = [],
     rgp_SUPI = [],
     rgp_GUTI = [],
     rgp_AllowedNSSAI = [],
     rgp_T3512Value = 0,
     rgp_NASMessage = [],
     rgp_SecurityActivated = False\<rparr>"

definition RegistrationResponse_fields :: "RegistrationResponse fields" where
  "RegistrationResponse_fields = [(''status'', fld rgp_Status rgp_Status_update dec_string),
     (''supi'', fld rgp_SUPI rgp_SUPI_update dec_string),
     (''guti'', fld rgp_GUTI rgp_GUTI_update dec_string),
     (''allowed_nssai'', fld rgp_AllowedNSSAI rgp_AllowedNSSAI_update (dec_list unmarshal_SNSSAI SNSSAI_zero)),
     (''t3512_value'', fld rgp_T3512Value rgp_T3512Value_update dec_uint),
     (''nas_message'', fld rgp_NASMessage rgp_NASMessage_update dec_string),
     (''security_activated'', fld rgp_SecurityActivated rgp_SecurityActivated_update dec_bool)]"

definition unmarshal_RegistrationResponse :: "RegistrationResponse decoder" where
  "unmarshal_RegistrationResponse = dec_struct RegistrationResponse_fields"

definition marshal_RegistrationResponse :: "RegistrationResponse \<Rightarrow> json" where
  "marshal_RegistrationResponse x = JObj ([(''status'', JStr (rgp_Status x)),
     (''supi'', JStr (rgp_SUPI x)),
     (''guti'', JStr (rgp_GUTI x))] @
     omitempty (rgp_AllowedNSSAI x = []) (''allowed_nssai'', enc_list marshal_SNSSAI (rgp_AllowedNSSAI x)) @
     [(''t3512_value'', enc_uint (rgp_T3512Value x))] @
     omitempty (rgp_NASMessage x = []) (''nas_message'', JStr (rgp_NASMessage x)) @
     [(''security_activated'', JBool (rgp_SecurityActivated x))])"

lemma RegistrationResponse_codec [simp, codec]: "unmarshal_RegistrationResponse (marshal_RegistrationResponse x) RegistrationResponse_zero = Some x"
  by (cases x) (simp add: unmarshal_RegistrationResponse_def marshal_RegistrationResponse_def RegistrationResponse_fields_def RegistrationResponse_zero_def json_codec)

lemma RegistrationResponse_not_null [simp]: "marshal_RegistrationResponse x \<noteq> JNull"
  by (simp add: marshal_RegistrationResponse_def)

record authChallenge =
  ach_AuthType :: string
  ach_RAND :: string
  ach_AUTN :: string
  ach_SUPI :: string

definition authChallenge_zero :: authChallenge where
  "authChallenge_zero = \<lparr>ach_AuthType = [],
     ach_RAND = [],
     ach_AUTN = [],
     ach_SUPI = []\<rparr>"

definition authChallenge_fields :: "authChallenge fields" where
  "authChallenge_fields = [(''auth_type'', fld ach_AuthType ach_AuthType_update dec_string),
     (''rand'', fld ach_RAND ach_RAND_update dec_string),
     (''autn'', fld ach_AUTN ach_AUTN_update dec_string),
     (''supi'', fld ach_SUPI ach_SUPI_update dec_string)]"

definition unmarshal_authChallenge :: "authChallenge decoder" where
  "unmarshal_authChallenge = dec_struct authChallenge_fields"

record authResponse =
  arr_AuthResult :: string
  arr_SUPI :: string
  arr_KAUSF :: string

definition authResponse_zero :: authResponse where
  "authResponse_zero = \<lparr>arr_AuthResult = [],
     arr_SUPI = [],
     arr_KAUSF = []\<rparr>"

definition authResponse_fields :: "authResponse fields" where
  "authResponse_fields = [(''auth_result'', fld arr_AuthResult arr_AuthResult_update dec_string),
     (''supi'', fld arr_SUPI arr_SUPI_update dec_string),
     (''kausf'', fld arr_KAUSF arr_KAUSF_update dec_string)]"

definition unmarshal_authResponse :: "authResponse decoder" where
  "unmarshal_authResponse = dec_struct authResponse_fields"

record udmRegistrationReq =
  urr_SUPI :: string
  urr_AMFInstanceID :: string

definition udmRegistrationReq_zero :: udmRegistrationReq where
  "udmRegistrationReq_zero = \<lparr>urr_SUPI = [],
     urr_AMFInstanceID = []\<rparr>"

definition marshal_udmRegistrationReq :: "udmRegistrationReq \<Rightarrow> json" where
  "marshal_udmRegistrationReq x = JObj ([(''supi'', JStr (urr_SUPI x)),
     (''amf_instance_id'', JStr (urr_AMFInstanceID x))])"

definition reject_hex :: "uint8 \<Rightarrow> string" where
  "reject_hex cause = hex_encode (EncodeRegistrationReject \<lparr>rj_CauseCode = cause\<rparr>)"

text \<open>Steps 1a to 1c: the challenge, the stored vector whose XRES* stands for the UE's answer, and its
  verification by the AUSF.  The result is the response that ends the handler, or the key.\<close>

definition reg_authenticate :: "'s KVStore \<Rightarrow> 's SBICaller \<Rightarrow> string \<Rightarrow> ('s, response + bytes) handler" where
  "reg_authenticate kv sbi supi = do {
     (err, _) \<leftarrow> CallFunction sbi ''amf-auth-initiate'' (JObj [(''supi'', JStr supi)])
       unmarshal_authChallenge authChallenge_zero;
     case err of
       Some e \<Rightarrow> State_Monad.return (Inl (problemResp 500 ''UPSTREAM_NF_FAILURE''
                    (''Nausf_UEAuthentication_Initiate: '' @ err_text e)))
     | None \<Rightarrow> do {
         r \<leftarrow> kvGet kv (av_key supi) unmarshal_AuthVector AuthVector_zero;
         orReturn r
           (\<lambda>e. State_Monad.return (Inl (problemResp 500 ''AUTH_VECTOR_FAILURE'' (''read auth vector: '' @ err_text e))))
           (\<lambda>storedAV. do {
              (err2, authResult) \<leftarrow> CallFunction sbi ''ausf-authenticate''
                (JObj [(''res_star'', JStr (hex_encode (av_XRES storedAV))), (''supi'', JStr supi)])
                unmarshal_authResponse authResponse_zero;
              case err2 of
                Some e \<Rightarrow> State_Monad.return (Inl (problemResp 500 ''UPSTREAM_NF_FAILURE''
                            (''Nausf_UEAuthentication: '' @ err_text e)))
              | None \<Rightarrow>
                  if arr_AuthResult authResult \<noteq> ''SUCCESS'' then
                    State_Monad.return (Inl (problemRespWithNAS 403 ''ILLEGAL_UE''
                      (''authentication failed for '' @ supi @ '': '' @ CauseString CauseIllegalUE)
                      (reject_hex CauseIllegalUE)))
                  else State_Monad.return (Inr
                    (if arr_KAUSF authResult \<noteq> [] then fst (hex_decode (arr_KAUSF authResult)) else []))
            })
       }
   }"

text \<open>The R17 admission control: a check per allowed slice, then an increment per allowed slice.\<close>

definition reg_check :: "'s SBICaller \<Rightarrow> SNSSAI \<Rightarrow> ('s, response option) handler" where
  "reg_check sbi snssai = do {
     (err, allowed) \<leftarrow> CallFunction sbi ''nsacf-slice-availability-check'' (check_payload snssai ''UE'') dec_allowed False;
     State_Monad.return (if err = None \<and> \<not> allowed then
       Some (problemResp 403 ''SLICE_NOT_AVAILABLE''
         (''slice SST='' @ show_int (sint (sn_SST snssai)) @ '' SD='' @ sn_SD snssai @ '' not available for UE admission''))
       else None)
   }"

definition reg_count :: "'s SBICaller \<Rightarrow> string \<Rightarrow> SNSSAI \<Rightarrow> ('s, response option) handler" where
  "reg_count sbi operation snssai = do {
     _ \<leftarrow> CallFunction_nil sbi ''nsacf-update-counters'' (counter_payload snssai ''UE'' operation);
     State_Monad.return None
   }"

definition reg_admission :: "(string \<Rightarrow> string) \<Rightarrow> 's SBICaller \<Rightarrow> SNSSAI list \<Rightarrow> ('s, response option) handler" where
  "reg_admission getenv sbi slices =
     (if nsacf_enabled getenv then do {
        r \<leftarrow> forEach slices (reg_check sbi);
        case r of
          Some resp \<Rightarrow> State_Monad.return (Some resp)
        | None \<Rightarrow> forEach slices (reg_count sbi ''INCREMENT'')
      }
      else State_Monad.return None)"

text \<open>The NAS form of a slice: \<open>copy(n.SD[:], sdBytes)\<close> takes at most three bytes.\<close>

definition copy3 :: "bytes \<Rightarrow> byte \<times> byte \<times> byte" where
  "copy3 bs = (let xs = take 3 (bs @ [0, 0, 0]) in (xs ! 0, xs ! 1, xs ! 2))"

definition nas_nssai :: "SNSSAI \<Rightarrow> NSSAI" where
  "nas_nssai s =
     (if sn_SD s \<noteq> [] then \<lparr>ns_SST = ucast (sn_SST s), ns_SD = copy3 (fst (hex_decode (sn_SD s))), ns_HasSD = True\<rparr>
      else \<lparr>ns_SST = ucast (sn_SST s), ns_SD = (0, 0, 0), ns_HasSD = False\<rparr>)"

definition guti_of :: "string \<Rightarrow> string" where
  "guti_of supi = ''5g-guti-'' @ supi"

definition accept_hex :: "string \<Rightarrow> SNSSAI list \<Rightarrow> string" where
  "accept_hex supi slices = hex_encode (EncodeRegistrationAccept
     \<lparr>ra_RegistrationResult = RegResult3GPPAccess, ra_GUTI = guti_of supi,
      ra_AllowedNSSAI = map nas_nssai slices, ra_T3512Value = T3512Default\<rparr>)"

definition new_ue_context :: "amf_RegistrationRequest \<Rightarrow> int64 \<Rightarrow> bytes \<Rightarrow> SNSSAI list \<Rightarrow> UEStateMachine \<Rightarrow> int \<Rightarrow> UEContext" where
  "new_ue_context regReq amfUeNgapID kamfKey slices sm now = UEContext_zero\<lparr>
     ue_SUPI := rgq_SUPI regReq,
     ue_GUTI := guti_of (rgq_SUPI regReq),
     ue_RegistrationState := RMState_StoreValue (sm_RMState sm),
     ue_CmState := CMState_StoreValue (sm_CMState sm),
     ue_RANUeNgapID := rgq_RANUeNgapID regReq,
     ue_AMFUeNgapID := amfUeNgapID,
     ue_GnbID := rgq_GnbID regReq,
     ue_NSSAI := slices,
     ue_AllowedNSSAI := slices,
     ue_T3512Value := T3512Default,
     ue_RegistrationTime := sm_RMStateChangedAt sm,
     ue_LastActivity := now,
     ue_SecurityCtx := Some (SecurityContext_zero\<lparr>
       sc_KAMFKey := kamfKey,
       sc_NgKSI := 0,
       sc_SelectedCiphering := CipherAlg5GEA2,
       sc_SelectedIntegrity := IntegAlg5GIA2,
       sc_AuthStatus := ''AUTHENTICATED'',
       sc_SecurityActivated := True\<rparr>)\<rparr>"

text \<open>Steps 5 and 6, once the slices are admitted: the context is stored and the accept built.\<close>

definition reg_accept :: "'s KVStore \<Rightarrow> amf_RegistrationRequest \<Rightarrow> int64 \<Rightarrow> bytes \<Rightarrow> SNSSAI list \<Rightarrow> UEStateMachine \<Rightarrow> ('s, response) handler" where
  "reg_accept kv regReq amfUeNgapID kamfKey slices sm = do {
     now \<leftarrow> timeNow;
     e \<leftarrow> put_ue kv (rgq_SUPI regReq) (new_ue_context regReq amfUeNgapID kamfKey slices sm now);
     case e of
       Some err \<Rightarrow> State_Monad.return (problemResp 500 ''STORAGE_FAILURE'' (''store ue context: '' @ err_text err))
     | None \<Rightarrow> State_Monad.return (json_resp 200 (marshal_RegistrationResponse
         \<lparr>rgp_Status = ''registered'', rgp_SUPI = rgq_SUPI regReq, rgp_GUTI = guti_of (rgq_SUPI regReq),
          rgp_AllowedNSSAI = slices, rgp_T3512Value = T3512Default,
          rgp_NASMessage = accept_hex (rgq_SUPI regReq) slices, rgp_SecurityActivated = True\<rparr>))
   }"

text \<open>The state machine of the new UE after its two transitions, each with its clock reading.\<close>

definition registered_machine :: "string \<Rightarrow> int \<Rightarrow> int \<Rightarrow> UEStateMachine" where
  "registered_machine supi t1 t2 =
     snd (TransitionCM CMConnected t2 (snd (TransitionRM RMRegistered t1 (NewUEStateMachine supi))))"

definition reg_subscribe :: "(string \<Rightarrow> string) \<Rightarrow> 's KVStore \<Rightarrow> 's SBICaller \<Rightarrow> amf_RegistrationRequest \<Rightarrow> int64 \<Rightarrow> bytes \<Rightarrow> ('s, response) handler" where
  "reg_subscribe getenv kv sbi regReq amfUeNgapID kamfKey = do {
     (err, subData) \<leftarrow> CallFunction sbi ''udm-get-subscriber-data'' (JObj [(''supi'', JStr (rgq_SUPI regReq))])
       unmarshal_SubscriberData SubscriberData_zero;
     case err of
       Some e \<Rightarrow> State_Monad.return (problemResp 500 ''UPSTREAM_NF_FAILURE'' (''Nudm_SDM_Get: '' @ err_text e))
     | None \<Rightarrow> do {
         _ \<leftarrow> CallFunction_nil sbi ''udm-registration'' (marshal_udmRegistrationReq
                \<lparr>urr_SUPI = rgq_SUPI regReq, urr_AMFInstanceID = ''amf-001''\<rparr>);
         t1 \<leftarrow> timeNow;
         t2 \<leftarrow> timeNow;
         let sm = registered_machine (rgq_SUPI regReq) t1 t2;
         let slices = (case sub_AccessAndMobility subData of None \<Rightarrow> [] | Some am \<Rightarrow> am_NSSAI am);
         r \<leftarrow> reg_admission getenv sbi slices;
         (case r of
            Some resp \<Rightarrow> State_Monad.return resp
          | None \<Rightarrow> reg_accept kv regReq amfUeNgapID kamfKey slices sm)
       }
   }"

definition amf_registration :: "(string \<Rightarrow> string) \<Rightarrow> 's KVStore \<Rightarrow> 's SBICaller \<Rightarrow> request \<Rightarrow> ('s, response) handler" where
  "amf_registration getenv kv sbi req =
     (case unmarshal_body unmarshal_amf_RegistrationRequest amf_RegistrationRequest_zero (rq_Body req) of
        None \<Rightarrow> State_Monad.return (problemRespWithNAS 400 ''UE_IDENTITY_CANNOT_BE_DERIVED''
                  (''invalid JSON: '' @ err_text JsonErr) (reject_hex CauseUEIdentityCannotBeDerived))
      | Some regReq0 \<Rightarrow>
        if rgq_SUPI regReq0 = [] then
          State_Monad.return (problemRespWithNAS 400 ''UE_IDENTITY_CANNOT_BE_DERIVED''
            ''supi is required'' (reject_hex CauseUEIdentityCannotBeDerived))
        else
          let regReq = (if rgq_RegistrationType regReq0 = 0
                        then regReq0\<lparr>rgq_RegistrationType := RegTypeInitialRegistration\<rparr> else regReq0) in do {
          _ \<leftarrow> modify (\<lambda>w. w\<lparr>w_amfUeNgapIDCounter := w_amfUeNgapIDCounter w + 1\<rparr>);
          w \<leftarrow> State_Monad.get;
          let amfUeNgapID = w_amfUeNgapIDCounter w;
          a \<leftarrow> (if \<not> rgq_SkipAuth regReq then reg_authenticate kv sbi (rgq_SUPI regReq)
                else State_Monad.return (Inr []));
          (case a of
             Inl resp \<Rightarrow> State_Monad.return resp
           | Inr kamfKey \<Rightarrow> reg_subscribe getenv kv sbi regReq amfUeNgapID kamfKey)
        })"

section \<open>Deregistration\<close>

record DeregistrationRequest =
  drq_SUPI :: string
  drq_DeregistrationType :: uint8

definition DeregistrationRequest_zero :: DeregistrationRequest where
  "DeregistrationRequest_zero = \<lparr>drq_SUPI = [],
     drq_DeregistrationType = 0\<rparr>"

definition DeregistrationRequest_fields :: "DeregistrationRequest fields" where
  "DeregistrationRequest_fields = [(''supi'', fld drq_SUPI drq_SUPI_update dec_string),
     (''deregistration_type'', fld drq_DeregistrationType drq_DeregistrationType_update dec_uint)]"

definition unmarshal_DeregistrationRequest :: "DeregistrationRequest decoder" where
  "unmarshal_DeregistrationRequest = dec_struct DeregistrationRequest_fields"

definition marshal_DeregistrationRequest :: "DeregistrationRequest \<Rightarrow> json" where
  "marshal_DeregistrationRequest x = JObj ([(''supi'', JStr (drq_SUPI x))] @
     omitempty (drq_DeregistrationType x = 0) (''deregistration_type'', enc_uint (drq_DeregistrationType x)))"

lemma DeregistrationRequest_codec [simp, codec]: "unmarshal_DeregistrationRequest (marshal_DeregistrationRequest x) DeregistrationRequest_zero = Some x"
  by (cases x) (simp add: unmarshal_DeregistrationRequest_def marshal_DeregistrationRequest_def DeregistrationRequest_fields_def DeregistrationRequest_zero_def json_codec)

lemma DeregistrationRequest_not_null [simp]: "marshal_DeregistrationRequest x \<noteq> JNull"
  by (simp add: marshal_DeregistrationRequest_def)

record DeregistrationResponse =
  drp_Status :: string
  drp_SUPI :: string
  drp_NASMessage :: string

definition DeregistrationResponse_zero :: DeregistrationResponse where
  "DeregistrationResponse_zero = \<lparr>drp_Status = [],
     drp_SUPI = [],
     drp_NASMessage = []\<rparr>"

definition DeregistrationResponse_fields :: "DeregistrationResponse fields" where
  "DeregistrationResponse_fields = [(''status'', fld drp_Status drp_Status_update dec_string),
     (''supi'', fld drp_SUPI drp_SUPI_update dec_string),
     (''nas_message'', fld drp_NASMessage drp_NASMessage_update dec_string)]"

definition unmarshal_DeregistrationResponse :: "DeregistrationResponse decoder" where
  "unmarshal_DeregistrationResponse = dec_struct DeregistrationResponse_fields"

definition marshal_DeregistrationResponse :: "DeregistrationResponse \<Rightarrow> json" where
  "marshal_DeregistrationResponse x = JObj ([(''status'', JStr (drp_Status x)),
     (''supi'', JStr (drp_SUPI x))] @
     omitempty (drp_NASMessage x = []) (''nas_message'', JStr (drp_NASMessage x)))"

lemma DeregistrationResponse_codec [simp, codec]: "unmarshal_DeregistrationResponse (marshal_DeregistrationResponse x) DeregistrationResponse_zero = Some x"
  by (cases x) (simp add: unmarshal_DeregistrationResponse_def marshal_DeregistrationResponse_def DeregistrationResponse_fields_def DeregistrationResponse_zero_def json_codec)

lemma DeregistrationResponse_not_null [simp]: "marshal_DeregistrationResponse x \<noteq> JNull"
  by (simp add: marshal_DeregistrationResponse_def)

definition amf_deregistration :: "(string \<Rightarrow> string) \<Rightarrow> 's KVStore \<Rightarrow> 's SBICaller \<Rightarrow> request \<Rightarrow> ('s, response) handler" where
  "amf_deregistration getenv kv sbi req =
     (case unmarshal_body unmarshal_DeregistrationRequest DeregistrationRequest_zero (rq_Body req) of
        None \<Rightarrow> State_Monad.return (amf_errorResp 400 (''invalid JSON: '' @ err_text JsonErr))
      | Some deregReq \<Rightarrow>
        if drq_SUPI deregReq = [] then State_Monad.return (amf_errorResp 400 ''supi is required'')
        else let supi = drq_SUPI deregReq in do {
          r \<leftarrow> get_ue kv supi;
          orReturn r
            (\<lambda>e. State_Monad.return (amf_errorRespWithNAS 404 (reject_hex CauseImplicitlyDeregistered)
                   (''ue context not found: '' @ err_text e)))
            (\<lambda>ueCtx. do {
               _ \<leftarrow> (if nsacf_enabled getenv then forEach (ue_AllowedNSSAI ueCtx) (reg_count sbi ''DECREMENT'')
                    else State_Monad.return None);
               e \<leftarrow> kvDelete kv (ue_key supi);
               case e of
                 Some err \<Rightarrow> State_Monad.return (amf_errorResp 500 (''delete ue context: '' @ err_text err))
               | None \<Rightarrow> State_Monad.return (json_resp 200 (marshal_DeregistrationResponse
                   \<lparr>drp_Status = ''deregistered'', drp_SUPI = supi,
                    drp_NASMessage = hex_encode [EPD5GMM, SecurityHeaderPlain, MsgTypeDeregistrationAcceptUE]\<rparr>))
             })
        })"

section \<open>Service request\<close>

record ServiceRequest =
  srq_SUPI :: string

definition ServiceRequest_zero :: ServiceRequest where
  "ServiceRequest_zero = \<lparr>srq_SUPI = []\<rparr>"

definition ServiceRequest_fields :: "ServiceRequest fields" where
  "ServiceRequest_fields = [(''supi'', fld srq_SUPI srq_SUPI_update dec_string)]"

definition unmarshal_ServiceRequest :: "ServiceRequest decoder" where
  "unmarshal_ServiceRequest = dec_struct ServiceRequest_fields"

definition marshal_ServiceRequest :: "ServiceRequest \<Rightarrow> json" where
  "marshal_ServiceRequest x = JObj ([(''supi'', JStr (srq_SUPI x))])"

lemma ServiceRequest_codec [simp, codec]: "unmarshal_ServiceRequest (marshal_ServiceRequest x) ServiceRequest_zero = Some x"
  by (cases x) (simp add: unmarshal_ServiceRequest_def marshal_ServiceRequest_def ServiceRequest_fields_def ServiceRequest_zero_def json_codec)

lemma ServiceRequest_not_null [simp]: "marshal_ServiceRequest x \<noteq> JNull"
  by (simp add: marshal_ServiceRequest_def)

record ServiceResponse =
  srp_Status :: string
  srp_SUPI :: string
  srp_CmState :: string
  srp_NASMessage :: string

definition ServiceResponse_zero :: ServiceResponse where
  "ServiceResponse_zero = \<lparr>srp_Status = [],
     srp_SUPI = [],
     srp_CmState = [],
     srp_NASMessage = []\<rparr>"

definition ServiceResponse_fields :: "ServiceResponse fields" where
  "ServiceResponse_fields = [(''status'', fld srp_Status srp_Status_update dec_string),
     (''supi'', fld srp_SUPI srp_SUPI_update dec_string),
     (''cm_state'', fld srp_CmState srp_CmState_update dec_string),
     (''nas_message'', fld srp_NASMessage srp_NASMessage_update dec_string)]"

definition unmarshal_ServiceResponse :: "ServiceResponse decoder" where
  "unmarshal_ServiceResponse = dec_struct ServiceResponse_fields"

definition marshal_ServiceResponse :: "ServiceResponse \<Rightarrow> json" where
  "marshal_ServiceResponse x = JObj ([(''status'', JStr (srp_Status x)),
     (''supi'', JStr (srp_SUPI x)),
     (''cm_state'', JStr (srp_CmState x))] @
     omitempty (srp_NASMessage x = []) (''nas_message'', JStr (srp_NASMessage x)))"

lemma ServiceResponse_codec [simp, codec]: "unmarshal_ServiceResponse (marshal_ServiceResponse x) ServiceResponse_zero = Some x"
  by (cases x) (simp add: unmarshal_ServiceResponse_def marshal_ServiceResponse_def ServiceResponse_fields_def ServiceResponse_zero_def json_codec)

lemma ServiceResponse_not_null [simp]: "marshal_ServiceResponse x \<noteq> JNull"
  by (simp add: marshal_ServiceResponse_def)

definition amf_service_request :: "'s KVStore \<Rightarrow> request \<Rightarrow> ('s, response) handler" where
  "amf_service_request kv req =
     (case unmarshal_body unmarshal_ServiceRequest ServiceRequest_zero (rq_Body req) of
        None \<Rightarrow> State_Monad.return (amf_errorResp 400 (''invalid JSON: '' @ err_text JsonErr))
      | Some svcReq \<Rightarrow>
        if srq_SUPI svcReq = [] then State_Monad.return (amf_errorResp 400 ''supi is required'')
        else let supi = srq_SUPI svcReq in do {
          r \<leftarrow> get_ue kv supi;
          orReturn r
            (\<lambda>e. State_Monad.return (amf_errorResp 404 (''ue context not found: '' @ err_text e)))
            (\<lambda>ueCtx.
               if ue_RegistrationState ueCtx \<noteq> ''REGISTERED'' then
                 State_Monad.return (amf_errorRespWithNAS 409
                   (hex_encode [EPD5GMM, SecurityHeaderPlain, MsgTypeServiceReject, CauseImplicitlyDeregistered])
                   (''UE is not registered (state: '' @ ue_RegistrationState ueCtx @ '')''))
               else do {
                 now \<leftarrow> timeNow;
                 e \<leftarrow> put_ue kv supi (ueCtx\<lparr>ue_CmState := ''CONNECTED'', ue_LastActivity := now\<rparr>);
                 case e of
                   Some err \<Rightarrow> State_Monad.return (amf_errorResp 500 (''update ue context: '' @ err_text err))
                 | None \<Rightarrow> State_Monad.return (json_resp 200 (marshal_ServiceResponse
                     \<lparr>srp_Status = ''connected'', srp_SUPI = supi, srp_CmState = ''CONNECTED'',
                      srp_NASMessage = hex_encode [EPD5GMM, SecurityHeaderPlain, MsgTypeServiceAccept]\<rparr>))
               })
        })"

section \<open>Handover\<close>

record HandoverRequest =
  hoq_SUPI :: string
  hoq_TargetGnbID :: string
  hoq_Cause :: string

definition HandoverRequest_zero :: HandoverRequest where
  "HandoverRequest_zero = \<lparr>hoq_SUPI = [],
     hoq_TargetGnbID = [],
     hoq_Cause = []\<rparr>"

definition HandoverRequest_fields :: "HandoverRequest fields" where
  "HandoverRequest_fields = [(''supi'', fld hoq_SUPI hoq_SUPI_update dec_string),
     (''target_gnb_id'', fld hoq_TargetGnbID hoq_TargetGnbID_update dec_string),
     (''cause'', fld hoq_Cause hoq_Cause_update dec_string)]"

definition unmarshal_HandoverRequest :: "HandoverRequest decoder" where
  "unmarshal_HandoverRequest = dec_struct HandoverRequest_fields"

definition marshal_HandoverRequest :: "HandoverRequest \<Rightarrow> json" where
  "marshal_HandoverRequest x = JObj ([(''supi'', JStr (hoq_SUPI x)),
     (''target_gnb_id'', JStr (hoq_TargetGnbID x))] @
     omitempty (hoq_Cause x = []) (''cause'', JStr (hoq_Cause x)))"

lemma HandoverRequest_codec [simp, codec]: "unmarshal_HandoverRequest (marshal_HandoverRequest x) HandoverRequest_zero = Some x"
  by (cases x) (simp add: unmarshal_HandoverRequest_def marshal_HandoverRequest_def HandoverRequest_fields_def HandoverRequest_zero_def json_codec)

lemma HandoverRequest_not_null [simp]: "marshal_HandoverRequest x \<noteq> JNull"
  by (simp add: marshal_HandoverRequest_def)

record HandoverResponse =
  hop_Status :: string
  hop_SUPI :: string
  hop_SourceGnbID :: string
  hop_TargetGnbID :: string

definition HandoverResponse_zero :: HandoverResponse where
  "HandoverResponse_zero = \<lparr>hop_Status = [],
     hop_SUPI = [],
     hop_SourceGnbID = [],
     hop_TargetGnbID = []\<rparr>"

definition HandoverResponse_fields :: "HandoverResponse fields" where
  "HandoverResponse_fields = [(''status'', fld hop_Status hop_Status_update dec_string),
     (''supi'', fld hop_SUPI hop_SUPI_update dec_string),
     (''source_gnb_id'', fld hop_SourceGnbID hop_SourceGnbID_update dec_string),
     (''target_gnb_id'', fld hop_TargetGnbID hop_TargetGnbID_update dec_string)]"

definition unmarshal_HandoverResponse :: "HandoverResponse decoder" where
  "unmarshal_HandoverResponse = dec_struct HandoverResponse_fields"

definition marshal_HandoverResponse :: "HandoverResponse \<Rightarrow> json" where
  "marshal_HandoverResponse x = JObj ([(''status'', JStr (hop_Status x)),
     (''supi'', JStr (hop_SUPI x)),
     (''source_gnb_id'', JStr (hop_SourceGnbID x)),
     (''target_gnb_id'', JStr (hop_TargetGnbID x))])"

lemma HandoverResponse_codec [simp, codec]: "unmarshal_HandoverResponse (marshal_HandoverResponse x) HandoverResponse_zero = Some x"
  by (cases x) (simp add: unmarshal_HandoverResponse_def marshal_HandoverResponse_def HandoverResponse_fields_def HandoverResponse_zero_def json_codec)

lemma HandoverResponse_not_null [simp]: "marshal_HandoverResponse x \<noteq> JNull"
  by (simp add: marshal_HandoverResponse_def)

definition amf_handover :: "'s KVStore \<Rightarrow> request \<Rightarrow> ('s, response) handler" where
  "amf_handover kv req =
     (case unmarshal_body unmarshal_HandoverRequest HandoverRequest_zero (rq_Body req) of
        None \<Rightarrow> State_Monad.return (amf_errorResp 400 (''invalid JSON: '' @ err_text JsonErr))
      | Some hoReq \<Rightarrow>
        if hoq_SUPI hoReq = [] \<or> hoq_TargetGnbID hoReq = [] then
          State_Monad.return (amf_errorResp 400 ''supi and target_gnb_id are required'')
        else let supi = hoq_SUPI hoReq in do {
          r \<leftarrow> get_ue kv supi;
          orReturn r
            (\<lambda>e. State_Monad.return (amf_errorResp 404 (''ue context not found: '' @ err_text e)))
            (\<lambda>ueCtx.
               if ue_RegistrationState ueCtx \<noteq> ''REGISTERED'' then
                 State_Monad.return (amf_errorResp 409 (''UE not registered (state: '' @ ue_RegistrationState ueCtx @ '')''))
               else if ue_CmState ueCtx \<noteq> ''CONNECTED'' then
                 State_Monad.return (amf_errorResp 409 (''UE not connected (state: '' @ ue_CmState ueCtx @ '')''))
               else do {
                 now \<leftarrow> timeNow;
                 e \<leftarrow> put_ue kv supi (ueCtx\<lparr>ue_GnbID := hoq_TargetGnbID hoReq, ue_LastActivity := now\<rparr>);
                 case e of
                   Some err \<Rightarrow> State_Monad.return (amf_errorResp 500 (''update ue context: '' @ err_text err))
                 | None \<Rightarrow> State_Monad.return (json_resp 200 (marshal_HandoverResponse
                     \<lparr>hop_Status = ''handover_complete'', hop_SUPI = supi,
                      hop_SourceGnbID = ue_GnbID ueCtx, hop_TargetGnbID = hoq_TargetGnbID hoReq\<rparr>))
               })
        })"

section \<open>PDU session relay\<close>

record PDUSessionRelayRequest =
  psq_SUPI :: string
  psq_SNSSAI :: SNSSAI
  psq_DNN :: string

definition PDUSessionRelayRequest_zero :: PDUSessionRelayRequest where
  "PDUSessionRelayRequest_zero = \<lparr>psq_SUPI = [],
     psq_SNSSAI = SNSSAI_zero,
     psq_DNN = []\<rparr>"

definition PDUSessionRelayRequest_fields :: "PDUSessionRelayRequest fields" where
  "PDUSessionRelayRequest_fields = [(''supi'', fld psq_SUPI psq_SUPI_update dec_string),
     (''snssai'', fld psq_SNSSAI psq_SNSSAI_update unmarshal_SNSSAI),
     (''dnn'', fld psq_DNN psq_DNN_update dec_string)]"

definition unmarshal_PDUSessionRelayRequest :: "PDUSessionRelayRequest decoder" where
  "unmarshal_PDUSessionRelayRequest = dec_struct PDUSessionRelayRequest_fields"

definition marshal_PDUSessionRelayRequest :: "PDUSessionRelayRequest \<Rightarrow> json" where
  "marshal_PDUSessionRelayRequest x = JObj ([(''supi'', JStr (psq_SUPI x)),
     (''snssai'', marshal_SNSSAI (psq_SNSSAI x)),
     (''dnn'', JStr (psq_DNN x))])"

lemma PDUSessionRelayRequest_codec [simp, codec]: "unmarshal_PDUSessionRelayRequest (marshal_PDUSessionRelayRequest x) PDUSessionRelayRequest_zero = Some x"
  by (cases x) (simp add: unmarshal_PDUSessionRelayRequest_def marshal_PDUSessionRelayRequest_def PDUSessionRelayRequest_fields_def PDUSessionRelayRequest_zero_def json_codec)

lemma PDUSessionRelayRequest_not_null [simp]: "marshal_PDUSessionRelayRequest x \<noteq> JNull"
  by (simp add: marshal_PDUSessionRelayRequest_def)

record PDUSessionRelayResponse =
  psp_Status :: string
  psp_SessionID :: string
  psp_SUPI :: string

definition PDUSessionRelayResponse_zero :: PDUSessionRelayResponse where
  "PDUSessionRelayResponse_zero = \<lparr>psp_Status = [],
     psp_SessionID = [],
     psp_SUPI = []\<rparr>"

definition PDUSessionRelayResponse_fields :: "PDUSessionRelayResponse fields" where
  "PDUSessionRelayResponse_fields = [(''status'', fld psp_Status psp_Status_update dec_string),
     (''session_id'', fld psp_SessionID psp_SessionID_update dec_string),
     (''supi'', fld psp_SUPI psp_SUPI_update dec_string)]"

definition unmarshal_PDUSessionRelayResponse :: "PDUSessionRelayResponse decoder" where
  "unmarshal_PDUSessionRelayResponse = dec_struct PDUSessionRelayResponse_fields"

definition marshal_PDUSessionRelayResponse :: "PDUSessionRelayResponse \<Rightarrow> json" where
  "marshal_PDUSessionRelayResponse x = JObj ([(''status'', JStr (psp_Status x))] @
     omitempty (psp_SessionID x = []) (''session_id'', JStr (psp_SessionID x)) @
     [(''supi'', JStr (psp_SUPI x))])"

lemma PDUSessionRelayResponse_codec [simp, codec]: "unmarshal_PDUSessionRelayResponse (marshal_PDUSessionRelayResponse x) PDUSessionRelayResponse_zero = Some x"
  by (cases x) (simp add: unmarshal_PDUSessionRelayResponse_def marshal_PDUSessionRelayResponse_def PDUSessionRelayResponse_fields_def PDUSessionRelayResponse_zero_def json_codec)

lemma PDUSessionRelayResponse_not_null [simp]: "marshal_PDUSessionRelayResponse x \<noteq> JNull"
  by (simp add: marshal_PDUSessionRelayResponse_def)

record smfResponse =
  smr_Status :: string
  smr_SessionID :: string

definition smfResponse_zero :: smfResponse where
  "smfResponse_zero = \<lparr>smr_Status = [],
     smr_SessionID = []\<rparr>"

definition smfResponse_fields :: "smfResponse fields" where
  "smfResponse_fields = [(''status'', fld smr_Status smr_Status_update dec_string),
     (''session_id'', fld smr_SessionID smr_SessionID_update dec_string)]"

definition unmarshal_smfResponse :: "smfResponse decoder" where
  "unmarshal_smfResponse = dec_struct smfResponse_fields"

definition amf_pdu_session_relay :: "'s KVStore \<Rightarrow> 's SBICaller \<Rightarrow> request \<Rightarrow> ('s, response) handler" where
  "amf_pdu_session_relay kv sbi req =
     (case unmarshal_body unmarshal_PDUSessionRelayRequest PDUSessionRelayRequest_zero (rq_Body req) of
        None \<Rightarrow> State_Monad.return (amf_errorResp 400 (''invalid JSON: '' @ err_text JsonErr))
      | Some relayReq \<Rightarrow>
        if psq_SUPI relayReq = [] then State_Monad.return (amf_errorResp 400 ''supi is required'')
        else do {
          r \<leftarrow> get_ue kv (psq_SUPI relayReq);
          orReturn r
            (\<lambda>e. State_Monad.return (amf_errorResp 404 (''ue context not found: '' @ err_text e)))
            (\<lambda>ueCtx.
               if ue_RegistrationState ueCtx \<noteq> ''REGISTERED'' then
                 State_Monad.return (amf_errorResp 409 ''UE is not registered'')
               else do {
                 (err, smfResp) \<leftarrow> CallFunction sbi ''smf-pdu-session-create''
                   (marshal_PDUSessionRelayRequest relayReq) unmarshal_smfResponse smfResponse_zero;
                 case err of
                   Some e \<Rightarrow> State_Monad.return (amf_errorResp 502 (''Nsmf_PDUSession_CreateSMContext: '' @ err_text e))
                 | None \<Rightarrow> State_Monad.return (json_resp 200 (marshal_PDUSessionRelayResponse
                     \<lparr>psp_Status = smr_Status smfResp, psp_SessionID = smr_SessionID smfResp,
                      psp_SUPI = psq_SUPI relayReq\<rparr>))
               })
        })"

section \<open>What the AMF functions do to the store\<close>

lemma registered_machine_states:
  "sm_RMState (registered_machine supi t1 t2) = RMRegistered"
  "sm_CMState (registered_machine supi t1 t2) = CMConnected"
  "sm_RMStateChangedAt (registered_machine supi t1 t2) = t1"
  by (simp_all add: registered_machine_def TransitionRM_def TransitionCM_def NewUEStateMachine_def ue_states)

text \<open>A context as the AMF keeps it.\<close>

definition attached :: "string \<Rightarrow> UEContext \<Rightarrow> bool" where
  "attached supi ctx \<longleftrightarrow> ue_SUPI ctx = supi \<and> ue_RegistrationState ctx = ''REGISTERED'' \<and> ue_CmState ctx = ''CONNECTED''"

lemma new_ue_context_attached:
  "attached (rgq_SUPI regReq) (new_ue_context regReq n key slices (registered_machine supi t1 t2) now)"
  by (simp add: attached_def new_ue_context_def registered_machine_states RMState_StoreValue_def
      CMState_StoreValue_def ue_states)

text \<open>The AUSF answers no authentication with success.\<close>

definition ausf_never_succeeds :: "'s SBICaller \<Rightarrow> bool" where
  "ausf_never_succeeds sbi \<longleftrightarrow>
     (\<forall>p w. wp (CallFunction sbi ''ausf-authenticate'' p unmarshal_authResponse authResponse_zero)
        (\<lambda>(err, a) _. err \<noteq> None \<or> arr_AuthResult a \<noteq> ''SUCCESS'') w)"

context kv_store
begin

lemma reg_accept_ok:
  "wp (reg_accept kv regReq n key slices sm)
     (\<lambda>r w'. rs_StatusCode r = 200 \<longrightarrow>
        (\<exists>now. view (w_store w') (ue_key (rgq_SUPI regReq)) = Some (marshal_UEContext (new_ue_context regReq n key slices sm now))) \<and>
        rs_Body r = BJson (marshal_RegistrationResponse
          \<lparr>rgp_Status = ''registered'', rgp_SUPI = rgq_SUPI regReq, rgp_GUTI = guti_of (rgq_SUPI regReq),
           rgp_AllowedNSSAI = slices, rgp_T3512Value = T3512Default,
           rgp_NASMessage = accept_hex (rgq_SUPI regReq) slices, rgp_SecurityActivated = True\<rparr>)) w"
  by (auto simp: reg_accept_def put_ue_def wp intro!: wp_kvPut)

lemma reg_admission_not_ok:
  "wp (reg_admission getenv sbi slices) (\<lambda>r _. \<forall>resp. r = Some resp \<longrightarrow> rs_StatusCode resp \<noteq> 200) w"
proof -
  have check: "wp (forEach xs (reg_check sbi)) (\<lambda>r _. \<forall>resp. r = Some resp \<longrightarrow> rs_StatusCode resp = 403) w" for xs w
    by (induction xs arbitrary: w) (auto simp: wp reg_check_def intro!: wp_any [where m = "sbi f p" for f p] split: option.splits)
  have count: "wp (forEach xs (reg_count sbi op)) (\<lambda>r _. r = None) w" for xs w op
    by (induction xs arbitrary: w) (auto simp: wp reg_count_def intro!: wp_any [where m = "sbi f p" for f p])
  show ?thesis
    by (auto simp: reg_admission_def wp split: option.splits intro!: wp_mono [OF check] wp_mono [OF count])
qed

lemma reg_subscribe_ok:
  "wp (reg_subscribe getenv kv sbi regReq n key)
     (\<lambda>r w'. rs_StatusCode r = 200 \<longrightarrow>
        (\<exists>slices t1 t2 now. view (w_store w') (ue_key (rgq_SUPI regReq)) =
           Some (marshal_UEContext (new_ue_context regReq n key slices (registered_machine (rgq_SUPI regReq) t1 t2) now)))) w"
proof -
  have accept: "wp (reg_accept kv regReq n key slices (registered_machine (rgq_SUPI regReq) t1 t2))
     (\<lambda>r w'. rs_StatusCode r = 200 \<longrightarrow>
        (\<exists>slices t1 t2 now. view (w_store w') (ue_key (rgq_SUPI regReq)) =
           Some (marshal_UEContext (new_ue_context regReq n key slices (registered_machine (rgq_SUPI regReq) t1 t2) now)))) w"
    for slices t1 t2 w
    by (rule wp_mono [OF reg_accept_ok]) blast
  show ?thesis
    by (auto simp: reg_subscribe_def wp split: option.splits prod.splits
        intro!: wp_any [where m = "sbi f p" for f p] wp_mono [OF reg_admission_not_ok] accept)
qed

lemma reg_authenticate_fails:
  assumes "ausf_never_succeeds sbi"
  shows "wp (reg_authenticate kv sbi supi) (\<lambda>a _. \<exists>resp. a = Inl resp \<and> rs_StatusCode resp \<noteq> 200) w"
proof -
  have ausf: "wp (sbi ''ausf-authenticate'' p)
     (\<lambda>r _. \<forall>a. (None, a) = decode_result unmarshal_authResponse authResponse_zero r \<longrightarrow>
        arr_AuthResult a \<noteq> ''SUCCESS'') w" for p w
    by (rule wp_mono [OF assms [unfolded ausf_never_succeeds_def wp, rule_format]]) (auto split: prod.splits)
  show ?thesis
    by (auto simp: reg_authenticate_def wp split: option.splits prod.splits
        intro!: wp_any [where m = "sbi ''amf-auth-initiate'' p" for p] wp_mono [OF ausf] wp_kvGet)
qed

lemma reg_authenticate_resp: "wp (reg_authenticate kv sbi supi) (\<lambda>a _. \<forall>resp. a = Inl resp \<longrightarrow> rs_StatusCode resp \<noteq> 200) w"
  by (auto simp: reg_authenticate_def wp split: option.splits prod.splits sum.splits
      intro!: wp_any [where m = "sbi f p" for f p] wp_kvGet)

lemma amf_registration_ok:
  "wp (amf_registration getenv kv sbi req)
     (\<lambda>r w'. rs_StatusCode r = 200 \<longrightarrow>
        (\<exists>regReq ctx. unmarshal_body unmarshal_amf_RegistrationRequest amf_RegistrationRequest_zero (rq_Body req) = Some regReq \<and>
           rgq_SUPI regReq \<noteq> [] \<and> attached (rgq_SUPI regReq) ctx \<and>
           view (w_store w') (ue_key (rgq_SUPI regReq)) = Some (marshal_UEContext ctx))) w"
proof -
  have sub: "wp (reg_subscribe getenv kv sbi regReq n key)
     (\<lambda>r w'. rs_StatusCode r = 200 \<longrightarrow>
        (\<exists>ctx. attached (rgq_SUPI regReq) ctx \<and>
           view (w_store w') (ue_key (rgq_SUPI regReq)) = Some (marshal_UEContext ctx))) w" for regReq n key w
    by (rule wp_mono [OF reg_subscribe_ok]) (use new_ue_context_attached in blast)
  show ?thesis
    by (auto simp: amf_registration_def wp Let_def split: option.splits sum.splits
        intro!: wp_mono [OF reg_authenticate_resp] wp_mono [OF sub]) blast+
qed
end

section \<open>The UE contexts in the store\<close>

definition ue_store_ok :: "(string \<rightharpoonup> json) \<Rightarrow> bool" where
  "ue_store_ok s \<longleftrightarrow>
     (\<forall>supi j. s (ue_key supi) = Some j \<longrightarrow>
        (\<exists>ctx. unmarshal_UEContext j UEContext_zero = Some ctx \<and> attached supi ctx))"

lemma ue_store_put: "ue_store_ok s \<Longrightarrow> attached supi ctx \<Longrightarrow> ue_store_ok (s(ue_key supi \<mapsto> marshal_UEContext ctx))"
  by (auto simp: ue_store_ok_def)

lemma ue_store_del: "ue_store_ok s \<Longrightarrow> ue_store_ok (s(k := None))"
  by (auto simp: ue_store_ok_def)

lemma ue_store_put_other: "ue_store_ok s \<Longrightarrow> (\<And>supi. k \<noteq> ue_key supi) \<Longrightarrow> ue_store_ok (s(k \<mapsto> j))"
  by (auto simp: ue_store_ok_def)

lemma ue_store_get:
  "ue_store_ok s \<Longrightarrow> s (ue_key supi) = Some j \<Longrightarrow> unmarshal_UEContext j UEContext_zero = Some ctx \<Longrightarrow> attached supi ctx"
  by (fastforce simp: ue_store_ok_def)

lemma ue_store_other: "ue_store_ok s \<Longrightarrow> (\<And>k. \<exists>supi. k = ue_key supi \<Longrightarrow> s' k = s k) \<Longrightarrow> ue_store_ok s'"
  by (simp add: ue_store_ok_def)

context kv_store
begin

lemma amf_registration_keeps:
  assumes "\<And>f p. keeps view ue_store_ok (sbi f p)"
  shows "keeps view ue_store_ok (amf_registration getenv kv sbi req)"
  unfolding amf_registration_def reg_authenticate_def reg_subscribe_def reg_accept_def reg_admission_def
    reg_check_def reg_count_def put_ue_def
  by (intro keep assms ue_store_put new_ue_context_attached) simp_all

lemma amf_deregistration_keeps:
  assumes "\<And>f p. keeps view ue_store_ok (sbi f p)"
  shows "keeps view ue_store_ok (amf_deregistration getenv kv sbi req)"
  unfolding amf_deregistration_def get_ue_def reg_count_def
  by (intro keep assms ue_store_del) simp_all

lemma amf_service_request_keeps: "keeps view ue_store_ok (amf_service_request kv req)"
proof -
  have "ue_store_ok (m(ue_key supi \<mapsto> marshal_UEContext (ctx\<lparr>ue_CmState := ''CONNECTED'', ue_LastActivity := t\<rparr>)))"
    if "ue_store_ok m" "m (ue_key supi) = Some j"
      "unmarshal_UEContext j UEContext_zero = Some ctx" for m supi j ctx t
    using that ue_store_get [OF that] by (intro ue_store_put) (simp_all add: attached_def)
  then show ?thesis
    by (auto simp: keeps_def amf_service_request_def get_ue_def put_ue_def wp Let_def split: option.splits
        intro!: wp_kvGet wp_kvPut)
qed

lemma amf_handover_keeps: "keeps view ue_store_ok (amf_handover kv req)"
proof -
  have "ue_store_ok (m(ue_key supi \<mapsto> marshal_UEContext (ctx\<lparr>ue_GnbID := g, ue_LastActivity := t\<rparr>)))"
    if "ue_store_ok m" "m (ue_key supi) = Some j"
      "unmarshal_UEContext j UEContext_zero = Some ctx" for m supi j ctx t g
    using that ue_store_get [OF that] by (intro ue_store_put) (simp_all add: attached_def)
  then show ?thesis
    by (auto simp: keeps_def amf_handover_def get_ue_def put_ue_def wp Let_def split: option.splits
        intro!: wp_kvGet wp_kvPut)
qed

lemma amf_auth_initiate_keeps:
  assumes "\<And>f p. keeps view ue_store_ok (sbi f p)"
  shows "keeps view ue_store_ok (amf_auth_initiate kv sbi req)"
  unfolding amf_auth_initiate_def
  by (intro keep assms ue_store_put_other) (simp_all add: ue_key_def)

lemma amf_pdu_session_relay_keeps:
  assumes "\<And>f p. keeps view ue_store_ok (sbi f p)"
  shows "keeps view ue_store_ok (amf_pdu_session_relay kv sbi req)"
  unfolding amf_pdu_session_relay_def get_ue_def
  by (intro keep assms)

end

section \<open>Contexts and the state machine\<close>

definition sm_abs :: "UEStateMachine \<Rightarrow> UEContext \<Rightarrow> bool" where
  "sm_abs sm ctx \<longleftrightarrow> sm_SUPI sm = ue_SUPI ctx \<and>
     ue_RegistrationState ctx = RMState_StoreValue (sm_RMState sm) \<and>
     ue_CmState ctx = CMState_StoreValue (sm_CMState sm)"

lemma StoreValue_REGISTERED: "RMState_StoreValue s = ''REGISTERED'' \<longleftrightarrow> s = RMRegistered"
  by (simp add: RMState_StoreValue_def ue_states)

lemma sm_abs_connect:
  assumes "sm_abs sm ctx" "ue_RegistrationState ctx = ''REGISTERED''"
  shows "\<exists>sm'. (sm' = sm \<or> TransitionCM CMConnected t sm = (None, sm')) \<and> sm_abs sm' (ctx\<lparr>ue_CmState := ''CONNECTED'', ue_LastActivity := t\<rparr>)"
proof (cases "sm_CMState sm = CMConnected")
  case True
  then show ?thesis using assms by (auto simp: sm_abs_def CMState_StoreValue_def ue_states)
next
  case False
  let ?sm' = "snd (TransitionCM CMConnected t sm)"
  have rm: "sm_RMState sm = RMRegistered"
    using assms by (metis sm_abs_def StoreValue_REGISTERED)
  have "TransitionCM CMConnected t sm = (None, ?sm')" using rm False by (simp add: TransitionCM_def)
  moreover have "sm_abs ?sm' (ctx\<lparr>ue_CmState := ''CONNECTED'', ue_LastActivity := t\<rparr>)"
    using assms rm False by (simp add: sm_abs_def TransitionCM_def CMState_StoreValue_def ue_states)
  ultimately show ?thesis by blast
qed

context kv_store
begin

lemma amf_service_request_ok:
  "wp (amf_service_request kv req)
     (\<lambda>r w'. if rs_StatusCode r = 200 then
        (\<exists>svcReq j ctx. unmarshal_body unmarshal_ServiceRequest ServiceRequest_zero (rq_Body req) = Some svcReq \<and>
           view (w_store w) (ue_key (srq_SUPI svcReq)) = Some j \<and>
           unmarshal_UEContext j UEContext_zero = Some ctx \<and> ue_RegistrationState ctx = ''REGISTERED'' \<and>
           view (w_store w') = (view (w_store w))(ue_key (srq_SUPI svcReq) \<mapsto>
             marshal_UEContext (ctx\<lparr>ue_CmState := ''CONNECTED'', ue_LastActivity := w_times w (w_reads w)\<rparr>)))
      else rs_StatusCode r = 500 \<or> view (w_store w') = view (w_store w)) w"
  by (auto simp: amf_service_request_def get_ue_def put_ue_def wp Let_def split: option.splits
      intro!: wp_kvGet wp_kvPut)

lemma amf_handover_ok:
  "wp (amf_handover kv req)
     (\<lambda>r w'. if rs_StatusCode r = 200 then
        (\<exists>hoReq j ctx. unmarshal_body unmarshal_HandoverRequest HandoverRequest_zero (rq_Body req) = Some hoReq \<and>
           view (w_store w) (ue_key (hoq_SUPI hoReq)) = Some j \<and>
           unmarshal_UEContext j UEContext_zero = Some ctx \<and> ue_RegistrationState ctx = ''REGISTERED'' \<and>
           ue_CmState ctx = ''CONNECTED'' \<and>
           view (w_store w') = (view (w_store w))(ue_key (hoq_SUPI hoReq) \<mapsto>
             marshal_UEContext (ctx\<lparr>ue_GnbID := hoq_TargetGnbID hoReq, ue_LastActivity := w_times w (w_reads w)\<rparr>)) \<and>
           rs_Body r = BJson (marshal_HandoverResponse \<lparr>hop_Status = ''handover_complete'', hop_SUPI = hoq_SUPI hoReq,
             hop_SourceGnbID = ue_GnbID ctx, hop_TargetGnbID = hoq_TargetGnbID hoReq\<rparr>))
      else rs_StatusCode r = 500 \<or> view (w_store w') = view (w_store w)) w"
  by (auto simp: amf_handover_def get_ue_def put_ue_def wp Let_def split: option.splits
      intro!: wp_kvGet wp_kvPut)

lemma amf_deregistration_ok:
  "wp (amf_deregistration getenv kv sbi req)
     (\<lambda>r w'. rs_StatusCode r = 200 \<longrightarrow>
        (\<exists>deregReq. unmarshal_body unmarshal_DeregistrationRequest DeregistrationRequest_zero (rq_Body req) = Some deregReq \<and>
           view (w_store w') (ue_key (drq_SUPI deregReq)) = None \<and>
           rs_Body r = BJson (marshal_DeregistrationResponse \<lparr>drp_Status = ''deregistered'', drp_SUPI = drq_SUPI deregReq,
             drp_NASMessage = hex_encode [0x7E, 0x00, 0x46]\<rparr>))) w"
  by (auto simp: amf_deregistration_def get_ue_def wp Let_def nas_consts split: option.splits
      intro!: wp_kvGet wp_kvDelete wp_any [where m = "forEach xs f" for xs f])

end

section \<open>Sample data for the AMF\<close>

definition sample_ue :: UEContext where
  "sample_ue = UEContext_zero\<lparr>ue_SUPI := ''imsi-1'', ue_RegistrationState := ''REGISTERED'',
     ue_CmState := ''CONNECTED'', ue_GnbID := ''gnb-1''\<rparr>"

definition ue_world :: "(string \<rightharpoonup> json) world" where
  "ue_world = world_init [ue_key ''imsi-1'' \<mapsto> marshal_UEContext sample_ue]"

definition reg_req :: "bool \<Rightarrow> request" where
  "reg_req skip = \<lparr>rq_Body = Some (JObj [(''supi'', JStr ''imsi-1''), (''skip_auth'', JBool skip)]), rq_QueryString = []\<rparr>"

lemma reg_req_decodes:
  "unmarshal_body unmarshal_amf_RegistrationRequest amf_RegistrationRequest_zero (rq_Body (reg_req skip)) =
     Some \<lparr>rgq_SUPI = ''imsi-1'', rgq_RANUeNgapID = 0, rgq_GnbID = [], rgq_RegistrationType = 0,
       rgq_RequestedNSSAI = [], rgq_UESecurityCap = None, rgq_SkipAuth = skip\<rparr>"
  by (simp add: reg_req_def unmarshal_amf_RegistrationRequest_def amf_RegistrationRequest_fields_def
      amf_RegistrationRequest_zero_def fld_def)

section \<open>Properties\<close>

text \<open>C13: a registration answered with 200 has stored, under the SUPI of the request, a context that is
  registered and connected, whatever the other functions did; the SUPI was not empty.\<close>

theorem registration_attaches:
  assumes "kv_store kv view"
    and "run_state (amf_registration getenv kv sbi req) w = (r, w')" "rs_StatusCode r = 200"
  shows "\<exists>regReq ctx.
     unmarshal_body unmarshal_amf_RegistrationRequest amf_RegistrationRequest_zero (rq_Body req) = Some regReq \<and>
     rgq_SUPI regReq \<noteq> [] \<and> attached (rgq_SUPI regReq) ctx \<and>
     view (w_store w') (ue_key (rgq_SUPI regReq)) = Some (marshal_UEContext ctx)"
  using wpD [OF kv_store.amf_registration_ok [OF assms(1)] assms(2)] assms(3) by simp

theorem registration_attaches_witness:
  "\<exists>ctx. attached ''imsi-1'' ctx \<and>
     w_store (snd (run_state (amf_registration no_env MockKVStore empty_sbi (reg_req True)) (world_init NewMockKVStore)))
       (ue_key ''imsi-1'') = Some (marshal_UEContext ctx)"
proof -
  have "rs_StatusCode (fst (run_state (amf_registration no_env MockKVStore empty_sbi (reg_req True)) (world_init NewMockKVStore))) = 200"
    unfolding status_wp
    by (simp add: amf_registration_def reg_req_decodes reg_subscribe_def reg_accept_def reg_admission_def
        nsacf_enabled_def no_env_def put_ue_def empty_sbi_def wp Let_def unmarshal_SubscriberData_def)
  then show ?thesis
    using registration_attaches [OF mock.kv_store_axioms surjective_pairing, of no_env empty_sbi "reg_req True" "world_init NewMockKVStore"]
    by (simp add: reg_req_decodes)
qed

text \<open>C14: a UE that does not ask to skip authentication is registered only if the AUSF reports
  success: when no call to the AUSF does, the registration is not answered with 200.\<close>

theorem no_registration_without_ausf:
  assumes "kv_store kv view" "ausf_never_succeeds sbi"
    and "unmarshal_body unmarshal_amf_RegistrationRequest amf_RegistrationRequest_zero (rq_Body req) = Some regReq"
    and "\<not> rgq_SkipAuth regReq"
    and "run_state (amf_registration getenv kv sbi req) w = (r, w')"
  shows "rs_StatusCode r \<noteq> 200"
proof -
  have "wp (amf_registration getenv kv sbi req) (\<lambda>r _. rs_StatusCode r \<noteq> 200) w"
    using assms(3,4)
    by (auto simp: amf_registration_def wp Let_def intro!: wp_mono [OF kv_store.reg_authenticate_fails [OF assms(1,2)]])
  from wpD [OF this assms(5)] show ?thesis .
qed

theorem no_registration_without_ausf_witness:
  "rs_StatusCode (fst (run_state (amf_registration no_env MockKVStore empty_sbi (reg_req False)) (world_init NewMockKVStore))) \<noteq> 200"
proof -
  have "ausf_never_succeeds (empty_sbi :: (string \<rightharpoonup> json) SBICaller)"
    by (simp add: ausf_never_succeeds_def empty_sbi_def wp unmarshal_authResponse_def authResponse_zero_def)
  then show ?thesis
    using no_registration_without_ausf [OF mock.kv_store_axioms _ reg_req_decodes _ surjective_pairing,
        of empty_sbi False no_env "world_init NewMockKVStore"] by simp
qed

text \<open>C15: a successful service request is a step of the UE's state machine: if the machine agrees with
  the stored context, it either is connected already or has an accepted transition to
  CM-CONNECTED, and agrees with the context stored afterwards; nothing else changes in the store,
  and an answer other than 200 and 500 changes nothing at all.\<close>

theorem service_request_refines:
  assumes "kv_store kv view" "run_state (amf_service_request kv req) w = (r, w')"
  shows "if rs_StatusCode r = 200 then
     (\<exists>svcReq j ctx ctx'. unmarshal_body unmarshal_ServiceRequest ServiceRequest_zero (rq_Body req) = Some svcReq \<and>
        view (w_store w) (ue_key (srq_SUPI svcReq)) = Some j \<and> unmarshal_UEContext j UEContext_zero = Some ctx \<and>
        view (w_store w') = (view (w_store w))(ue_key (srq_SUPI svcReq) \<mapsto> marshal_UEContext ctx') \<and>
        (\<forall>sm. sm_abs sm ctx \<longrightarrow> (\<exists>sm'. (sm' = sm \<or> TransitionCM CMConnected (w_times w (w_reads w)) sm = (None, sm')) \<and> sm_abs sm' ctx' \<and>
           IsRegistered sm' \<and> IsConnected sm')))
   else rs_StatusCode r = 500 \<or> view (w_store w') = view (w_store w)"
proof (cases "rs_StatusCode r = 200")
  case True
  have conn: "IsRegistered sm \<and> IsConnected sm"
    if "sm_abs sm ctx" "ue_RegistrationState ctx = ''REGISTERED''" "ue_CmState ctx = ''CONNECTED''" for sm ctx
    using that unfolding sm_abs_def IsRegistered_def IsConnected_def
    by (auto simp: RMState_StoreValue_def CMState_StoreValue_def ue_states split: if_splits)
  from True wpD [OF kv_store.amf_service_request_ok [OF assms(1)] assms(2)]
  obtain svcReq j ctx where d: "unmarshal_body unmarshal_ServiceRequest ServiceRequest_zero (rq_Body req) = Some svcReq"
    and s: "view (w_store w) (ue_key (srq_SUPI svcReq)) = Some j" "unmarshal_UEContext j UEContext_zero = Some ctx"
    "ue_RegistrationState ctx = ''REGISTERED''" "view (w_store w') = (view (w_store w))(ue_key (srq_SUPI svcReq) \<mapsto>
       marshal_UEContext (ctx\<lparr>ue_CmState := ''CONNECTED'', ue_LastActivity := w_times w (w_reads w)\<rparr>))"
    by auto
  let ?ctx' = "ctx\<lparr>ue_CmState := ''CONNECTED'', ue_LastActivity := w_times w (w_reads w)\<rparr>"
  have "\<exists>sm'. (sm' = sm \<or> TransitionCM CMConnected (w_times w (w_reads w)) sm = (None, sm')) \<and> sm_abs sm' ?ctx' \<and> IsRegistered sm' \<and> IsConnected sm'"
    if "sm_abs sm ctx" for sm
    using sm_abs_connect [OF that s(3), of "w_times w (w_reads w)"] conn [of _ ?ctx'] s(3) by auto
  with True d s(1,2,4) show ?thesis by auto
next
  case False
  with wpD [OF kv_store.amf_service_request_ok [OF assms(1)] assms(2)] show ?thesis by simp
qed

theorem service_request_refines_witness:
  "\<exists>ctx'. w_store (snd (run_state (amf_service_request MockKVStore (body_req [(''supi'', JStr ''imsi-1'')])) ue_world))
     = (w_store ue_world)(ue_key ''imsi-1'' \<mapsto> marshal_UEContext ctx')"
proof -
  have dec: "unmarshal_body unmarshal_ServiceRequest ServiceRequest_zero (rq_Body (body_req [(''supi'', JStr ''imsi-1'')]))
      = Some \<lparr>srq_SUPI = ''imsi-1''\<rparr>"
    by (simp add: body_req_def unmarshal_ServiceRequest_def ServiceRequest_fields_def ServiceRequest_zero_def fld_def)
  have "rs_StatusCode (fst (run_state (amf_service_request MockKVStore (body_req [(''supi'', JStr ''imsi-1'')])) ue_world)) = 200"
    unfolding status_wp
    by (simp add: amf_service_request_def dec get_ue_def put_ue_def wp Let_def ue_world_def world_init_def sample_ue_def)
  then show ?thesis
    using service_request_refines [OF mock.kv_store_axioms surjective_pairing, of "body_req [(''supi'', JStr ''imsi-1'')]" ue_world]
    by (auto simp: dec)
qed

text \<open>C16: a successful handover found the UE registered and connected, moved it to the target gNB and
  touched nothing else of the context but the time of last activity; it reports the gNB the UE
  came from.  An answer other than 200 and 500 leaves the store unchanged.\<close>

theorem handover_spec:
  assumes "kv_store kv view" "run_state (amf_handover kv req) w = (r, w')"
  shows "if rs_StatusCode r = 200 then
        (\<exists>hoReq j ctx. unmarshal_body unmarshal_HandoverRequest HandoverRequest_zero (rq_Body req) = Some hoReq \<and>
           view (w_store w) (ue_key (hoq_SUPI hoReq)) = Some j \<and>
           unmarshal_UEContext j UEContext_zero = Some ctx \<and> ue_RegistrationState ctx = ''REGISTERED'' \<and>
           ue_CmState ctx = ''CONNECTED'' \<and>
           view (w_store w') = (view (w_store w))(ue_key (hoq_SUPI hoReq) \<mapsto>
             marshal_UEContext (ctx\<lparr>ue_GnbID := hoq_TargetGnbID hoReq, ue_LastActivity := w_times w (w_reads w)\<rparr>)) \<and>
           rs_Body r = BJson (marshal_HandoverResponse \<lparr>hop_Status = ''handover_complete'', hop_SUPI = hoq_SUPI hoReq,
             hop_SourceGnbID = ue_GnbID ctx, hop_TargetGnbID = hoq_TargetGnbID hoReq\<rparr>))
      else rs_StatusCode r = 500 \<or> view (w_store w') = view (w_store w)"
  using wpD [OF kv_store.amf_handover_ok [OF assms(1)] assms(2)] .

definition ho_req :: "string \<Rightarrow> request" where
  "ho_req gnb = \<lparr>rq_Body = Some (marshal_HandoverRequest \<lparr>hoq_SUPI = ''imsi-1'', hoq_TargetGnbID = gnb, hoq_Cause = []\<rparr>), rq_QueryString = []\<rparr>"

theorem handover_spec_witness:
  "\<exists>ctx. w_store (snd (run_state (amf_handover MockKVStore (ho_req ''gnb-2'')) ue_world)) =
     (w_store ue_world)(ue_key ''imsi-1'' \<mapsto> marshal_UEContext (ctx\<lparr>ue_GnbID := ''gnb-2'', ue_LastActivity := 0\<rparr>))"
proof -
  have "rs_StatusCode (fst (run_state (amf_handover MockKVStore (ho_req ''gnb-2'')) ue_world)) = 200"
    unfolding status_wp
    by (simp add: amf_handover_def ho_req_def get_ue_def put_ue_def wp Let_def ue_world_def world_init_def sample_ue_def)
  then show ?thesis
    using handover_spec [OF mock.kv_store_axioms surjective_pairing, of "ho_req ''gnb-2''" ue_world]
    by (auto simp: ho_req_def) (auto simp: ue_world_def world_init_def)
qed

text \<open>C17: a deregistration answered with 200 has removed the UE's context, whatever the slice counters'
  function did, and carries the NAS Deregistration Accept.\<close>

theorem deregistration_detaches:
  assumes "kv_store kv view"
    and "run_state (amf_deregistration getenv kv sbi req) w = (r, w')" "rs_StatusCode r = 200"
  shows "\<exists>deregReq. unmarshal_body unmarshal_DeregistrationRequest DeregistrationRequest_zero (rq_Body req) = Some deregReq \<and>
     view (w_store w') (ue_key (drq_SUPI deregReq)) = None \<and>
     rs_Body r = BJson (marshal_DeregistrationResponse \<lparr>drp_Status = ''deregistered'', drp_SUPI = drq_SUPI deregReq,
       drp_NASMessage = hex_encode [0x7E, 0x00, 0x46]\<rparr>)"
  using wpD [OF kv_store.amf_deregistration_ok [OF assms(1)] assms(2)] assms(3) by simp

theorem deregistration_detaches_witness:
  "w_store (snd (run_state (amf_deregistration no_env MockKVStore empty_sbi (body_req [(''supi'', JStr ''imsi-1'')])) ue_world))
     (ue_key ''imsi-1'') = None"
proof -
  have dec: "unmarshal_body unmarshal_DeregistrationRequest DeregistrationRequest_zero (rq_Body (body_req [(''supi'', JStr ''imsi-1'')]))
      = Some \<lparr>drq_SUPI = ''imsi-1'', drq_DeregistrationType = 0\<rparr>"
    by (simp add: body_req_def unmarshal_DeregistrationRequest_def DeregistrationRequest_fields_def DeregistrationRequest_zero_def fld_def)
  have "rs_StatusCode (fst (run_state (amf_deregistration no_env MockKVStore empty_sbi (body_req [(''supi'', JStr ''imsi-1'')])) ue_world)) = 200"
    unfolding status_wp
    by (simp add: amf_deregistration_def dec get_ue_def wp Let_def nsacf_enabled_def no_env_def ue_world_def world_init_def)
  then show ?thesis
    using deregistration_detaches [OF mock.kv_store_axioms surjective_pairing, of no_env empty_sbi
        "body_req [(''supi'', JStr ''imsi-1'')]" ue_world]
    by (simp add: dec)
qed

end
