(* ===== verification/Slices.thy ===== *)
theory Slices
  imports Faas
begin

text \<open>
  Network slices: slice selection by the NSSF (\<^verbatim>\<open>functions/nssf/slice-select\<close>) and slice admission
  control by the NSACF (\<^verbatim>\<open>functions/nsacf\<close>), which compares the counters under
  \<^verbatim>\<open>nsacf-counters/{slice}\<close> with the limits under \<^verbatim>\<open>nsacf-policies/{slice}\<close>.
\<close>

section \<open>NSSF\<close>

record SliceSelectRequest =
  ssq_RequestedNSSAI :: "SNSSAI list"
  ssq_PLMN :: PlmnID

definition SliceSelectRequest_zero :: SliceSelectRequest where
  "SliceSelectRequest_zero = \<lparr>ssq_RequestedNSSAI = [],
     ssq_PLMN = PlmnID_zero\<rparr>"

definition SliceSelectRequest_fields :: "SliceSelectRequest fields" where
  "SliceSelectRequest_fields = [(''requested_nssai'', fld ssq_RequestedNSSAI ssq_RequestedNSSAI_update (dec_list unmarshal_SNSSAI SNSSAI_zero)),
     (''plmn'', fld ssq_PLMN ssq_PLMN_update unmarshal_PlmnID)]"

definition unmarshal_SliceSelectRequest :: "SliceSelectRequest decoder" where
  "unmarshal_SliceSelectRequest = dec_struct SliceSelectRequest_fields"

definition marshal_SliceSelectRequest :: "SliceSelectRequest \<Rightarrow> json" where
  "marshal_SliceSelectRequest x = JObj ([(''requested_nssai'', enc_list marshal_SNSSAI (ssq_RequestedNSSAI x)),
     (''plmn'', marshal_PlmnID (ssq_PLMN x))])"

lemma SliceSelectRequest_codec [simp, codec]: "unmarshal_SliceSelectRequest (marshal_SliceSelectRequest x) SliceSelectRequest_zero = Some x"
  by (cases x) (simp add: unmarshal_SliceSelectRequest_def marshal_SliceSelectRequest_def SliceSelectRequest_fields_def SliceSelectRequest_zero_def json_codec)

lemma SliceSelectRequest_not_null [simp]: "marshal_SliceSelectRequest x \<noteq> JNull"
  by (simp add: marshal_SliceSelectRequest_def)

definition ConfiguredSlices :: "SNSSAI list" where
  "ConfiguredSlices =
     [\<lparr>sn_SST = 1, sn_SD = ''010203''\<rparr>, \<lparr>sn_SST = 1, sn_SD = ''112233''\<rparr>,
      \<lparr>sn_SST = 2, sn_SD = ''010203''\<rparr>, \<lparr>sn_SST = 3, sn_SD = ''010203''\<rparr>]"

text \<open>\<open>fmt.Sprintf("%d-%s", s.SST, s.SD)\<close>.\<close>

definition slice_text :: "int32 \<Rightarrow> string \<Rightarrow> string" where
  "slice_text sst sd = show_int (sint sst) @ ''-'' @ sd"

definition slice_matches :: "SNSSAI list \<Rightarrow> SNSSAI \<Rightarrow> bool" where
  "slice_matches configured requested \<longleftrightarrow>
     (let configSet = set (map (\<lambda>s. slice_text (sn_SST s) (sn_SD s)) configured) in
      slice_text (sn_SST requested) (sn_SD requested) \<in> configSet \<or>
      slice_text (sn_SST requested) [] \<in> configSet)"

text \<open>The loop over the requested slices, with its two result slices.\<close>

fun select_loop :: "SNSSAI list \<Rightarrow> SNSSAI list \<Rightarrow> SNSSAI list \<times> SNSSAI list \<Rightarrow> SNSSAI list \<times> SNSSAI list" where
  "select_loop configured [] acc = acc"
| "select_loop configured (r # rs) (allowed, rejected) =
     (if slice_matches configured r then select_loop configured rs (allowed @ [r], rejected)
      else select_loop configured rs (allowed, rejected @ [r]))"

text \<open>The allowed list is never nil, so that it is written as an array even when empty.\<close>

definition marshal_SliceSelectResponse :: "SNSSAI list \<Rightarrow> SNSSAI list \<Rightarrow> json" where
  "marshal_SliceSelectResponse allowed rejected =
     JObj ([(''allowed_nssai'', JArr (map marshal_SNSSAI allowed))] @
       omitempty (rejected = []) (''rejected_nssai'', enc_list marshal_SNSSAI rejected))"

definition nssf_slice_select :: "'s KVStore \<Rightarrow> request \<Rightarrow> ('s, response) handler" where
  "nssf_slice_select kv req =
     (case unmarshal_body unmarshal_SliceSelectRequest SliceSelectRequest_zero (rq_Body req) of
        None \<Rightarrow> State_Monad.return (errorResp 400 (''invalid JSON: '' @ err_text JsonErr))
      | Some ssReq \<Rightarrow>
        if ssq_RequestedNSSAI ssReq = [] then State_Monad.return (errorResp 400 ''requested_nssai is required'')
        else do {
          r \<leftarrow> kvGet kv ''nssf/configured-slices'' (dec_list unmarshal_SNSSAI SNSSAI_zero) [];
          let configured = (case r of
              Inr stored \<Rightarrow> if stored \<noteq> [] then stored else ConfiguredSlices
            | Inl e \<Rightarrow> ConfiguredSlices);
          let (allowed, rejected) = select_loop configured (ssq_RequestedNSSAI ssReq) ([], []);
          State_Monad.return (json_resp 200 (marshal_SliceSelectResponse allowed rejected))
        })"

section \<open>NSACF\<close>

record AvailabilityCheckRequest =
  acq_SNSSAI :: SNSSAI
  acq_CheckType :: string

definition AvailabilityCheckRequest_zero :: AvailabilityCheckRequest where
  "AvailabilityCheckRequest_zero = \<lparr>acq_SNSSAI = SNSSAI_zero,
     acq_CheckType = []\<rparr>"

definition AvailabilityCheckRequest_fields :: "AvailabilityCheckRequest fields" where
  "AvailabilityCheckRequest_fields = [(''snssai'', fld acq_SNSSAI acq_SNSSAI_update unmarshal_SNSSAI),
     (''check_type'', fld acq_CheckType acq_CheckType_update dec_string)]"

definition unmarshal_AvailabilityCheckRequest :: "AvailabilityCheckRequest decoder" where
  "unmarshal_AvailabilityCheckRequest = dec_struct AvailabilityCheckRequest_fields"

definition marshal_AvailabilityCheckRequest :: "AvailabilityCheckRequest \<Rightarrow> json" where
  "marshal_AvailabilityCheckRequest x = JObj ([(''snssai'', marshal_SNSSAI (acq_SNSSAI x)),
     (''check_type'', JStr (acq_CheckType x))])"

lemma AvailabilityCheckRequest_codec [simp, codec]: "unmarshal_AvailabilityCheckRequest (marshal_AvailabilityCheckRequest x) AvailabilityCheckRequest_zero = Some x"
  by (cases x) (simp add: unmarshal_AvailabilityCheckRequest_def marshal_AvailabilityCheckRequest_def AvailabilityCheckRequest_fields_def AvailabilityCheckRequest_zero_def json_codec)

lemma AvailabilityCheckRequest_not_null [simp]: "marshal_AvailabilityCheckRequest x \<noteq> JNull"
  by (simp add: marshal_AvailabilityCheckRequest_def)

record AvailabilityCheckResponse =
  acp_Allowed :: bool
  acp_SNSSAI :: SNSSAI
  acp_CheckType :: string
  acp_Current :: int64
  acp_Max :: int64
  acp_Cause :: string

definition AvailabilityCheckResponse_zero :: AvailabilityCheckResponse where
  "AvailabilityCheckResponse_zero = \<lparr>acp_Allowed = False,
     acp_SNSSAI = SNSSAI_zero,
     acp_CheckType = [],
     acp_Current = 0,
     acp_Max = 0,
     acp_Cause = []\<rparr>"

definition AvailabilityCheckResponse_fields :: "AvailabilityCheckResponse fields" where
  "AvailabilityCheckResponse_fields = [(''allowed'', fld acp_Allowed acp_Allowed_update dec_bool),
     (''snssai'', fld acp_SNSSAI acp_SNSSAI_update unmarshal_SNSSAI),
     (''check_type'', fld acp_CheckType acp_CheckType_update dec_string),
     (''current'', fld acp_Current acp_Current_update dec_sint),
     (''max'', fld acp_Max acp_Max_update dec_sint),
     (''cause'', fld acp_Cause acp_Cause_update dec_string)]"

definition unmarshal_AvailabilityCheckResponse :: "AvailabilityCheckResponse decoder" where
  "unmarshal_AvailabilityCheckResponse = dec_struct AvailabilityCheckResponse_fields"

definition marshal_AvailabilityCheckResponse :: "AvailabilityCheckResponse \<Rightarrow> json" where
  "marshal_AvailabilityCheckResponse x = JObj ([(''allowed'', JBool (acp_Allowed x)),
     (''snssai'', marshal_SNSSAI (acp_SNSSAI x)),
     (''check_type'', JStr (acp_CheckType x)),
     (''current'', enc_sint (acp_Current x)),
     (''max'', enc_sint (acp_Max x))] @
     omitempty (acp_Cause x = []) (''cause'', JStr (acp_Cause x)))"

lemma AvailabilityCheckResponse_codec [simp, codec]: "unmarshal_AvailabilityCheckResponse (marshal_AvailabilityCheckResponse x) AvailabilityCheckResponse_zero = Some x"
  by (cases x) (simp add: unmarshal_AvailabilityCheckResponse_def marshal_AvailabilityCheckResponse_def AvailabilityCheckResponse_fields_def AvailabilityCheckResponse_zero_def json_codec)

lemma AvailabilityCheckResponse_not_null [simp]: "marshal_AvailabilityCheckResponse x \<noteq> JNull"
  by (simp add: marshal_AvailabilityCheckResponse_def)

record UpdateCountersRequest =
  ucq_SNSSAI :: SNSSAI
  ucq_CounterType :: string
  ucq_Operation :: string

definition UpdateCountersRequest_zero :: UpdateCountersRequest where
  "UpdateCountersRequest_zero = \<lparr>ucq_SNSSAI = SNSSAI_zero,
     ucq_CounterType = [],
     ucq_Operation = []\<rparr>"

definition UpdateCountersRequest_fields :: "UpdateCountersRequest fields" where
  "UpdateCountersRequest_fields = [(''snssai'', fld ucq_SNSSAI ucq_SNSSAI_update unmarshal_SNSSAI),
     (''counter_type'', fld ucq_CounterType ucq_CounterType_update dec_string),
     (''operation'', fld ucq_Operation ucq_Operation_update dec_string)]"

definition unmarshal_UpdateCountersRequest :: "UpdateCountersRequest decoder" where
  "unmarshal_UpdateCountersRequest = dec_struct UpdateCountersRequest_fields"

definition marshal_UpdateCountersRequest :: "UpdateCountersRequest \<Rightarrow> json" where
  "marshal_UpdateCountersRequest x = JObj ([(''snssai'', marshal_SNSSAI (ucq_SNSSAI x)),
     (''counter_type'', JStr (ucq_CounterType x)),
     (''operation'', JStr (ucq_Operation x))])"

lemma UpdateCountersRequest_codec [simp, codec]: "unmarshal_UpdateCountersRequest (marshal_UpdateCountersRequest x) UpdateCountersRequest_zero = Some x"
  by (cases x) (simp add: unmarshal_UpdateCountersRequest_def marshal_UpdateCountersRequest_def UpdateCountersRequest_fields_def UpdateCountersRequest_zero_def json_codec)

lemma UpdateCountersRequest_not_null [simp]: "marshal_UpdateCountersRequest x \<noteq> JNull"
  by (simp add: marshal_UpdateCountersRequest_def)

definition sliceKeyFromSNSSAI :: "SNSSAI \<Rightarrow> string" where
  "sliceKeyFromSNSSAI s =
     (if sn_SD s = [] then show_int (sint (sn_SST s)) else show_int (sint (sn_SST s)) @ ''-'' @ sn_SD s)"

definition policy_key :: "SNSSAI \<Rightarrow> string" where
  "policy_key s = ''nsacf-policies/'' @ sliceKeyFromSNSSAI s"

definition counters_key :: "SNSSAI \<Rightarrow> string" where
  "counters_key s = ''nsacf-counters/'' @ sliceKeyFromSNSSAI s"

definition zero_counters :: "SNSSAI \<Rightarrow> SliceCounters" where
  "zero_counters s = \<lparr>ctr_SST = sn_SST s, ctr_SD = sn_SD s, ctr_CurrentUEs = 0, ctr_CurrentSessions = 0\<rparr>"

text \<open>The \<open>switch\<close> on the check type: the current value, the limit and the decision.\<close>

definition admission :: "string \<Rightarrow> SliceCounters \<Rightarrow> SliceAdmissionPolicy \<Rightarrow> int64 \<times> int64 \<times> bool" where
  "admission checkType counters policy =
     (if checkType = ''UE'' then
        (ctr_CurrentUEs counters, pol_MaxUEs policy, \<not> sint (ctr_CurrentUEs counters) \<ge> sint (pol_MaxUEs policy))
      else
        (ctr_CurrentSessions counters, pol_MaxSessions policy,
         \<not> sint (ctr_CurrentSessions counters) \<ge> sint (pol_MaxSessions policy)))"

definition nsacf_slice_availability_check :: "(string \<Rightarrow> string) \<Rightarrow> 's KVStore \<Rightarrow> request \<Rightarrow> ('s, response) handler" where
  "nsacf_slice_availability_check getenv kv req =
     (if getenv ''ENABLE_NSACF'' \<noteq> ''true'' then
        State_Monad.return (json_resp 200 (marshal_AvailabilityCheckResponse
          (AvailabilityCheckResponse_zero\<lparr>acp_Allowed := True\<rparr>)))
      else case unmarshal_body unmarshal_AvailabilityCheckRequest AvailabilityCheckRequest_zero (rq_Body req) of
        None \<Rightarrow> State_Monad.return (errorResp 400 (''invalid JSON: '' @ err_text JsonErr))
      | Some checkReq \<Rightarrow>
        if sint (sn_SST (acq_SNSSAI checkReq)) \<le> 0 then State_Monad.return (errorResp 400 ''snssai.sst must be > 0'')
        else if acq_CheckType checkReq \<noteq> ''UE'' \<and> acq_CheckType checkReq \<noteq> ''PDU_SESSION'' then
          State_Monad.return (errorResp 400 ''check_type must be UE or PDU_SESSION'')
        else do {
          p \<leftarrow> kvGet kv (policy_key (acq_SNSSAI checkReq)) unmarshal_SliceAdmissionPolicy SliceAdmissionPolicy_zero;
          orReturn p
            (\<lambda>e. State_Monad.return (json_resp 200 (marshal_AvailabilityCheckResponse
               (AvailabilityCheckResponse_zero\<lparr>acp_Allowed := True, acp_SNSSAI := acq_SNSSAI checkReq,
                  acp_CheckType := acq_CheckType checkReq\<rparr>))))
            (\<lambda>policy. do {
               c \<leftarrow> kvGet kv (counters_key (acq_SNSSAI checkReq)) unmarshal_SliceCounters SliceCounters_zero;
               let counters = (case c of Inl e \<Rightarrow> zero_counters (acq_SNSSAI checkReq) | Inr x \<Rightarrow> x);
               let (current, limit, allowed) = admission (acq_CheckType checkReq) counters policy;
               State_Monad.return (json_resp (if allowed then 200 else 403) (marshal_AvailabilityCheckResponse
                 \<lparr>acp_Allowed = allowed, acp_SNSSAI = acq_SNSSAI checkReq, acp_CheckType = acq_CheckType checkReq,
                  acp_Current = current, acp_Max = limit,
                  acp_Cause = (if allowed then [] else ''SLICE_NOT_AVAILABLE'')\<rparr>))
             })
        })"

text \<open>\<open>v++\<close>, and \<open>v--\<close> with the clamp at zero, on an \<open>int64\<close>.\<close>

definition bump :: "string \<Rightarrow> int64 \<Rightarrow> int64" where
  "bump operation v =
     (if operation = ''INCREMENT'' then v + 1 else if sint (v - 1) < 0 then 0 else v - 1)"

definition update_counter :: "string \<Rightarrow> string \<Rightarrow> SliceCounters \<Rightarrow> SliceCounters" where
  "update_counter counterType operation c =
     (if counterType = ''UE'' then c\<lparr>ctr_CurrentUEs := bump operation (ctr_CurrentUEs c)\<rparr>
      else c\<lparr>ctr_CurrentSessions := bump operation (ctr_CurrentSessions c)\<rparr>)"

definition nsacf_update_counters :: "(string \<Rightarrow> string) \<Rightarrow> 's KVStore \<Rightarrow> request \<Rightarrow> ('s, response) handler" where
  "nsacf_update_counters getenv kv req =
     (if getenv ''ENABLE_NSACF'' \<noteq> ''true'' then
        State_Monad.return (json_resp 200 (JObj [(''status'', JStr ''disabled'')]))
      else case unmarshal_body unmarshal_UpdateCountersRequest UpdateCountersRequest_zero (rq_Body req) of
        None \<Rightarrow> State_Monad.return (errorResp 400 (''invalid JSON: '' @ err_text JsonErr))
      | Some updateReq \<Rightarrow>
        if sint (sn_SST (ucq_SNSSAI updateReq)) \<le> 0 then State_Monad.return (errorResp 400 ''snssai.sst must be > 0'')
        else if ucq_CounterType updateReq \<noteq> ''UE'' \<and> ucq_CounterType updateReq \<noteq> ''PDU_SESSION'' then
          State_Monad.return (errorResp 400 ''counter_type must be UE or PDU_SESSION'')
        else if ucq_Operation updateReq \<noteq> ''INCREMENT'' \<and> ucq_Operation updateReq \<noteq> ''DECREMENT'' then
          State_Monad.return (errorResp 400 ''operation must be INCREMENT or DECREMENT'')
        else do {
          c \<leftarrow> kvGet kv (counters_key (ucq_SNSSAI updateReq)) unmarshal_SliceCounters SliceCounters_zero;
          let counters = update_counter (ucq_CounterType updateReq) (ucq_Operation updateReq)
                (case c of Inl e \<Rightarrow> zero_counters (ucq_SNSSAI updateReq) | Inr x \<Rightarrow> x);
          e \<leftarrow> kvPut kv (counters_key (ucq_SNSSAI updateReq)) (marshal_SliceCounters counters);
          case e of
            Some err \<Rightarrow> State_Monad.return (errorResp 500 (''failed to update counters: '' @ err_text err))
          | None \<Rightarrow> State_Monad.return (json_resp 200 (marshal_SliceCounters counters))
        })"

section \<open>Slice selection\<close>

lemma slice_text_inject [simp]: "slice_text a b = slice_text a' b' \<longleftrightarrow> a = a' \<and> b = b'"
proof
  assume e: "slice_text a b = slice_text a' b'"
  have cut: "x = x' \<and> y = y'" if "show_nat x @ ''-'' @ y = show_nat x' @ ''-'' @ y'" for x y x' y'
  proof -
    have tw: "takeWhile (\<lambda>c. c \<noteq> CHR ''-'') (show_nat n @ ''-'' @ z) = show_nat n" for n z
      using show_nat_no_minus [of n] by (subst takeWhile_append2) auto
    from that have "show_nat x = show_nat x'" by (metis tw)
    with that show ?thesis by simp
  qed
  have minus: "show_nat x @ ''-'' @ y \<noteq> CHR ''-'' # z" for x y z
    using show_nat_no_minus [of x] show_nat_nonempty [of x] by (cases "show_nat x") auto
  have "sint a = sint a' \<and> b = b'"
  proof (cases "sint a < 0"; cases "sint a' < 0")
    assume "sint a < 0" "sint a' < 0"
    with e cut [of "nat (- sint a)" b "nat (- sint a')" b'] show ?thesis by (auto simp: slice_text_def show_int_def)
  next
    assume "\<not> sint a < 0" "\<not> sint a' < 0"
    with e cut [of "nat (sint a)" b "nat (sint a')" b'] show ?thesis by (auto simp: slice_text_def show_int_def)
  next
    assume "sint a < 0" "\<not> sint a' < 0"
    with e minus [of "nat (sint a')" b'] show ?thesis by (auto simp: slice_text_def show_int_def) metis
  next
    assume "\<not> sint a < 0" "sint a' < 0"
    with e minus [of "nat (sint a)" b] show ?thesis by (auto simp: slice_text_def show_int_def)
  qed
  then show "a = a' \<and> b = b'" by (auto intro: signed_word_eqI)
qed simp

lemma slice_matches_iff:
  "slice_matches configured r \<longleftrightarrow> r \<in> set configured \<or> \<lparr>sn_SST = sn_SST r, sn_SD = []\<rparr> \<in> set configured"
proof -
  have in_set: "slice_text a b \<in> set (map (\<lambda>s. slice_text (sn_SST s) (sn_SD s)) configured) \<longleftrightarrow> \<lparr>sn_SST = a, sn_SD = b\<rparr> \<in> set configured" for a b
  proof
    assume "slice_text a b \<in> set (map (\<lambda>s. slice_text (sn_SST s) (sn_SD s)) configured)"
    then obtain s where s: "s \<in> set configured" "a = sn_SST s" "b = sn_SD s" by auto
    then have "s = \<lparr>sn_SST = a, sn_SD = b\<rparr>" by simp
    with s(1) show "\<lparr>sn_SST = a, sn_SD = b\<rparr> \<in> set configured" by simp
  qed force
  show ?thesis unfolding slice_matches_def Let_def in_set by (cases r) simp
qed

lemma select_loop_partition:
  "select_loop configured rs (a, b) = (a @ filter (slice_matches configured) rs, b @ filter (\<lambda>r. \<not> slice_matches configured r) rs)"
  by (induction rs arbitrary: a b) auto

text \<open>The slices of the network: those of the store, when it has a readable list that is not empty, and otherwise the built-in ones.\<close>

definition slices_in_force :: "(string \<rightharpoonup> json) \<Rightarrow> SNSSAI list" where
  "slices_in_force s =
     (case s ''nssf/configured-slices'' of
        None \<Rightarrow> ConfiguredSlices
      | Some j \<Rightarrow> (case dec_list unmarshal_SNSSAI SNSSAI_zero j [] of
            Some (sl # sls) \<Rightarrow> sl # sls
          | _ \<Rightarrow> ConfiguredSlices))"

text \<open>C37: over a store that does not fail, the NSSF answers with a partition of the requested slices, each part in their order: allowed
  are exactly those that are configured as they are or whose SST is configured without an SD.  A list of slices in the store
  that can be read and is not empty replaces the built-in ones; the store is not changed.\<close>

theorem nssf_partition:
  assumes "reliable_store kv view"
    and "unmarshal_body unmarshal_SliceSelectRequest SliceSelectRequest_zero (rq_Body req) = Some ssReq"
    and "ssq_RequestedNSSAI ssReq \<noteq> []"
    and "run_state (nssf_slice_select kv req) w = (r, w')"
  shows "(let configured = set (slices_in_force (view (w_store w)));
             allowed = filter (\<lambda>s. s \<in> configured \<or> \<lparr>sn_SST = sn_SST s, sn_SD = []\<rparr> \<in> configured) (ssq_RequestedNSSAI ssReq);
             rejected = filter (\<lambda>s. s \<notin> configured \<and> \<lparr>sn_SST = sn_SST s, sn_SD = []\<rparr> \<notin> configured) (ssq_RequestedNSSAI ssReq)
         in r = json_resp 200 (marshal_SliceSelectResponse allowed rejected)) \<and>
       view (w_store w') = view (w_store w)"
proof -
  have "wp (nssf_slice_select kv req) (\<lambda>r w'.
       r = json_resp 200 (marshal_SliceSelectResponse (filter (slice_matches (slices_in_force (view (w_store w)))) (ssq_RequestedNSSAI ssReq))
          (filter (\<lambda>r. \<not> slice_matches (slices_in_force (view (w_store w))) r) (ssq_RequestedNSSAI ssReq))) \<and>
       view (w_store w') = view (w_store w)) w"
    using assms(2,3)
    by (auto simp: nssf_slice_select_def slices_in_force_def wp Let_def select_loop_partition split: option.splits list.splits
        intro!: reliable_store.wp_kvGet_reliable [OF assms(1)])
  from wpD [OF this assms(4)] show ?thesis unfolding slice_matches_iff [abs_def] by (simp add: Let_def)
qed

text \<open>A store whose list replaces the built-in slices: the built-in slice 1-010203 is rejected, a slice of SST 7 is allowed.\<close>

definition sst7_store :: "string \<rightharpoonup> json" where
  "sst7_store = [''nssf/configured-slices'' \<mapsto> JArr [JObj [(''sst'', JNum 7)]]]"

definition two_slices_req :: request where
  "two_slices_req = body_req [(''requested_nssai'', JArr [JObj [(''sst'', JNum 7), (''sd'', JStr ''00000A'')],
     JObj [(''sst'', JNum 1), (''sd'', JStr ''010203'')]])]"

theorem nssf_partition_witness:
  "fst (run_state (nssf_slice_select MockKVStore two_slices_req) (world_init sst7_store)) =
     json_resp 200 (marshal_SliceSelectResponse [\<lparr>sn_SST = 7, sn_SD = ''00000A''\<rparr>] [\<lparr>sn_SST = 1, sn_SD = ''010203''\<rparr>])"
proof -
  note codec = unmarshal_SNSSAI_def SNSSAI_fields_def SNSSAI_zero_def
  have dec: "unmarshal_body unmarshal_SliceSelectRequest SliceSelectRequest_zero (rq_Body two_slices_req)
      = Some \<lparr>ssq_RequestedNSSAI = [\<lparr>sn_SST = 7, sn_SD = ''00000A''\<rparr>, \<lparr>sn_SST = 1, sn_SD = ''010203''\<rparr>], ssq_PLMN = PlmnID_zero\<rparr>"
    by (simp add: two_slices_req_def body_req_def unmarshal_SliceSelectRequest_def SliceSelectRequest_fields_def
        SliceSelectRequest_zero_def fld_def codec)
  have "slices_in_force sst7_store = [\<lparr>sn_SST = 7, sn_SD = []\<rparr>]"
    by (simp add: slices_in_force_def sst7_store_def fld_def codec)
  then show ?thesis
    using nssf_partition [OF mock.reliable_store_axioms dec _ surjective_pairing, of "world_init sst7_store"]
    by (simp add: world_init_def Let_def)
qed

section \<open>Admission control\<close>

text \<open>The counters of a slice in the store; a missing or unreadable entry counts as zero.\<close>

definition counters_at :: "(string \<rightharpoonup> json) \<Rightarrow> SNSSAI \<Rightarrow> SliceCounters" where
  "counters_at s n = (case s (counters_key n) of
       None \<Rightarrow> zero_counters n
     | Some j \<Rightarrow> (case unmarshal_SliceCounters j SliceCounters_zero of None \<Rightarrow> zero_counters n | Some c \<Rightarrow> c))"

definition counter_value :: "string \<Rightarrow> SliceCounters \<Rightarrow> int64" where
  "counter_value t c = (if t = ''UE'' then ctr_CurrentUEs c else ctr_CurrentSessions c)"

definition policy_limit :: "string \<Rightarrow> SliceAdmissionPolicy \<Rightarrow> int64" where
  "policy_limit t p = (if t = ''UE'' then pol_MaxUEs p else pol_MaxSessions p)"

definition check_req :: "SNSSAI \<Rightarrow> string \<Rightarrow> request" where
  "check_req n t = \<lparr>rq_Body = Some (check_payload n t), rq_QueryString = []\<rparr>"

definition count_req :: "SNSSAI \<Rightarrow> string \<Rightarrow> string \<Rightarrow> request" where
  "count_req n t op = \<lparr>rq_Body = Some (counter_payload n t op), rq_QueryString = []\<rparr>"

lemma check_req_decodes:
  "unmarshal_body unmarshal_AvailabilityCheckRequest AvailabilityCheckRequest_zero (rq_Body (check_req n t)) =
     Some \<lparr>acq_SNSSAI = n, acq_CheckType = t\<rparr>"
  by (simp add: check_req_def check_payload_def unmarshal_AvailabilityCheckRequest_def AvailabilityCheckRequest_fields_def
      AvailabilityCheckRequest_zero_def fld_def)

lemma count_req_decodes:
  "unmarshal_body unmarshal_UpdateCountersRequest UpdateCountersRequest_zero (rq_Body (count_req n t op)) =
     Some \<lparr>ucq_SNSSAI = n, ucq_CounterType = t, ucq_Operation = op\<rparr>"
  by (simp add: count_req_def counter_payload_def unmarshal_UpdateCountersRequest_def UpdateCountersRequest_fields_def
      UpdateCountersRequest_zero_def fld_def)

lemma counters_at_put [simp]: "counters_at (s(counters_key n \<mapsto> marshal_SliceCounters c)) n = c"
  by (simp add: counters_at_def)

lemma counter_value_update [simp]: "counter_value t (update_counter t op c) = bump op (counter_value t c)"
  by (simp add: counter_value_def update_counter_def)

lemma sint_word64: "- (2 ^ 63) \<le> i \<Longrightarrow> i < 2 ^ 63 \<Longrightarrow> sint (word_of_int i :: int64) = i"
  by (simp add: sint_sbintrunc' signed_take_bit_int_eq_self)

lemma sint_bump:
  assumes "0 \<le> sint v" "sint v < 2 ^ 63 - 1"
  shows "sint (bump op v) = (if op = ''INCREMENT'' then sint v + 1 else max 0 (sint v - 1))"
proof -
  have "v + 1 = word_of_int (sint v + 1)" "v - 1 = word_of_int (sint v - 1)" by simp_all
  then have "sint (v + 1) = sint v + 1" "sint (v - 1) = sint v - 1"
    using assms sint_word64 [of "sint v + 1"] sint_word64 [of "sint v - 1"] by simp_all
  with assms show ?thesis by (auto simp: bump_def)
qed

text \<open>A slice under admission control: the NSACF is enabled and the slice has a readable policy.\<close>

definition policed :: "(string \<Rightarrow> string) \<Rightarrow> (string \<rightharpoonup> json) \<Rightarrow> SNSSAI \<Rightarrow> SliceAdmissionPolicy \<Rightarrow> bool" where
  "policed getenv s n p \<longleftrightarrow> nsacf_enabled getenv \<and> 0 < sint (sn_SST n) \<and>
     (\<exists>j. s (policy_key n) = Some j \<and> unmarshal_SliceAdmissionPolicy j SliceAdmissionPolicy_zero = Some p)"

definition count_type :: "string \<Rightarrow> bool" where
  "count_type t \<longleftrightarrow> t = ''UE'' \<or> t = ''PDU_SESSION''"

lemma policed_put [simp]: "policed getenv (s(counters_key m \<mapsto> j)) n p = policed getenv s n p"
  by (simp add: policed_def policy_key_def counters_key_def)

lemma admission_eq:
  "count_type t \<Longrightarrow> admission t c p = (counter_value t c, policy_limit t p, sint (counter_value t c) < sint (policy_limit t p))"
  by (auto simp: admission_def counter_value_def policy_limit_def count_type_def)

context reliable_store
begin

lemma nsacf_check_ok:
  assumes "policed getenv (view (w_store w)) n p" "count_type t"
  shows "wp (nsacf_slice_availability_check getenv kv (check_req n t))
    (\<lambda>r w'. view (w_store w') = view (w_store w) \<and>
       rs_StatusCode r = (if sint (counter_value t (counters_at (view (w_store w)) n)) < sint (policy_limit t p) then 200 else 403)) w"
proof -
  obtain j where j: "view (w_store w) (policy_key n) = Some j" "unmarshal_SliceAdmissionPolicy j SliceAdmissionPolicy_zero = Some p"
    using assms(1) by (auto simp: policed_def)
  show ?thesis
    using assms
    by (auto simp: nsacf_slice_availability_check_def check_req_decodes wp Let_def policed_def nsacf_enabled_def count_type_def
        j counters_at_def admission_eq split: option.splits intro!: wp_kvGet_reliable)
qed

lemma nsacf_update_ok:
  assumes "nsacf_enabled getenv" "0 < sint (sn_SST n)" "count_type t" "op = ''INCREMENT'' \<or> op = ''DECREMENT''"
  shows "wp (nsacf_update_counters getenv kv (count_req n t op))
    (\<lambda>r w'. rs_StatusCode r = 200 \<and>
       view (w_store w') = (view (w_store w))(counters_key n \<mapsto> marshal_SliceCounters (update_counter t op (counters_at (view (w_store w)) n)))) w"
  using assms
  by (auto simp: nsacf_update_counters_def count_req_decodes wp Let_def nsacf_enabled_def count_type_def counters_at_def
      split: option.splits intro!: wp_kvGet_reliable wp_kvPut_reliable)

end

text \<open>A client that asks first and counts only what was admitted, and one that leaves.\<close>

definition admit :: "(string \<Rightarrow> string) \<Rightarrow> 's KVStore \<Rightarrow> SNSSAI \<Rightarrow> string \<Rightarrow> ('s, response) handler" where
  "admit getenv kv n t = do {
     r \<leftarrow> nsacf_slice_availability_check getenv kv (check_req n t);
     if rs_StatusCode r = 200 then nsacf_update_counters getenv kv (count_req n t ''INCREMENT'')
     else State_Monad.return r
   }"

definition leave :: "(string \<Rightarrow> string) \<Rightarrow> 's KVStore \<Rightarrow> SNSSAI \<Rightarrow> string \<Rightarrow> ('s, response) handler" where
  "leave getenv kv n t = nsacf_update_counters getenv kv (count_req n t ''DECREMENT'')"

fun traffic :: "(string \<Rightarrow> string) \<Rightarrow> 's KVStore \<Rightarrow> SNSSAI \<Rightarrow> string \<Rightarrow> bool list \<Rightarrow> ('s, unit) handler" where
  "traffic getenv kv n t [] = State_Monad.return ()"
| "traffic getenv kv n t (arrives # es) =
     State_Monad.bind (if arrives then admit getenv kv n t else leave getenv kv n t) (\<lambda>_. traffic getenv kv n t es)"

definition within_limit :: "string \<Rightarrow> SliceAdmissionPolicy \<Rightarrow> (string \<rightharpoonup> json) \<Rightarrow> SNSSAI \<Rightarrow> bool" where
  "within_limit t p s n \<longleftrightarrow> 0 \<le> sint (counter_value t (counters_at s n)) \<and> sint (counter_value t (counters_at s n)) \<le> sint (policy_limit t p)"

context reliable_store
begin

lemma admit_ok:
  assumes "policed getenv (view (w_store w)) n p" "count_type t" "within_limit t p (view (w_store w)) n"
  shows "wp (admit getenv kv n t) (\<lambda>r w'. policed getenv (view (w_store w')) n p \<and> within_limit t p (view (w_store w')) n) w"
proof -
  let ?v = "counter_value t (counters_at (view (w_store w)) n)"
  have en: "nsacf_enabled getenv" "0 < sint (sn_SST n)" using assms(1) by (auto simp: policed_def)
  have lim: "sint (policy_limit t p) < 2 ^ 63" using sint_less [of "policy_limit t p"] by simp
  have inc: "sint (bump ''INCREMENT'' ?v) = sint ?v + 1" if "sint ?v < sint (policy_limit t p)"
    using sint_bump [of ?v "''INCREMENT''"] assms(3) that lim by (simp add: within_limit_def)
  show ?thesis
    unfolding admit_def wp
    by (rule wp_mono [OF nsacf_check_ok [OF assms(1,2)]])
      (use assms inc in \<open>auto simp: wp within_limit_def split: if_splits intro!: wp_mono [OF nsacf_update_ok [OF en assms(2)]]\<close>)
qed

lemma leave_ok:
  assumes "policed getenv (view (w_store w)) n p" "count_type t" "within_limit t p (view (w_store w)) n"
  shows "wp (leave getenv kv n t) (\<lambda>r w'. policed getenv (view (w_store w')) n p \<and> within_limit t p (view (w_store w')) n) w"
proof -
  let ?v = "counter_value t (counters_at (view (w_store w)) n)"
  have en: "nsacf_enabled getenv" "0 < sint (sn_SST n)" using assms(1) by (auto simp: policed_def)
  have dec: "0 \<le> sint (bump ''DECREMENT'' ?v)" "sint (bump ''DECREMENT'' ?v) \<le> sint (policy_limit t p)"
    using assms(3) sint_word64 [of "sint ?v - 1"] sint_less [of ?v] by (auto simp: bump_def within_limit_def)
  show ?thesis
    unfolding leave_def
    by (rule wp_mono [OF nsacf_update_ok [OF en assms(2)]]) (use assms(1) dec in \<open>auto simp: within_limit_def\<close>)
qed

lemma traffic_ok:
  assumes "policed getenv (view (w_store w)) n p" "count_type t" "within_limit t p (view (w_store w)) n"
  shows "wp (traffic getenv kv n t es) (\<lambda>_ w'. policed getenv (view (w_store w')) n p \<and> within_limit t p (view (w_store w')) n) w"
  using assms
proof (induction es arbitrary: w)
  case Nil
  then show ?case by (simp add: wp)
next
  case (Cons e es)
  show ?case
    unfolding traffic.simps wp
    using Cons admit_ok [OF Cons.prems] leave_ok [OF Cons.prems]
    by (cases e) (auto elim!: wp_mono)
qed

end

text \<open>C33: if every arrival asks the NSACF and is counted only when admitted, the count of a policed slice stays
  between zero and the limit of its policy, over any sequence of arrivals and departures.\<close>

theorem nsacf_limit_respected:
  assumes "reliable_store kv view" "policed getenv (view (w_store w)) n p" "t = ''UE'' \<or> t = ''PDU_SESSION''"
    and "within_limit t p (view (w_store w)) n"
    and "run_state (traffic getenv kv n t es) w = (u, w')"
  shows "within_limit t p (view (w_store w')) n"
  using wpD [OF reliable_store.traffic_ok [OF assms(1,2) _ assms(4)] assms(5)] assms(3) by (simp add: count_type_def)

definition sample_slice :: SNSSAI where
  "sample_slice = \<lparr>sn_SST = 1, sn_SD = ''010203''\<rparr>"

definition sample_policy :: SliceAdmissionPolicy where
  "sample_policy = \<lparr>pol_SST = 1, pol_SD = ''010203'', pol_MaxUEs = 1, pol_MaxSessions = 1\<rparr>"

definition policed_world :: "(string \<rightharpoonup> json) world" where
  "policed_world = world_init [policy_key sample_slice \<mapsto> marshal_SliceAdmissionPolicy sample_policy]"

lemma policed_world_facts:
  "policed all_on (w_store policed_world) sample_slice sample_policy"
  "within_limit ''UE'' sample_policy (w_store policed_world) sample_slice"
  by (simp_all add: policed_def policed_world_def world_init_def all_on_def nsacf_enabled_def sample_slice_def within_limit_def
      counters_at_def counters_key_def policy_key_def zero_counters_def counter_value_def policy_limit_def sample_policy_def)

theorem nsacf_limit_respected_witness:
  "within_limit ''UE'' sample_policy (w_store (snd (run_state (traffic all_on MockKVStore sample_slice ''UE'' [True, True, False, True]) policed_world))) sample_slice"
  using nsacf_limit_respected [of MockKVStore "\<lambda>m. m" all_on policed_world sample_slice sample_policy "''UE''" "[True, True, False, True]",
      OF mock.reliable_store_axioms _ _ _ surjective_pairing] policed_world_facts by simp

end
