(* ===== verification/Policy.thy ===== *)
theory Policy
  imports Faas
begin

text \<open>
  Policy control by the PCF (\<^verbatim>\<open>functions/pcf\<close>) and the PCF bindings of the BSF
  (\<^verbatim>\<open>functions/bsf\<close>): a binding is stored under \<^verbatim>\<open>bsf-bindings/{id}\<close> with two indices,
  \<^verbatim>\<open>bsf-by-ip/{address}\<close> and \<^verbatim>\<open>bsf-by-supi/{supi}/{dnn}\<close>, that hold its identifier.
\<close>

section \<open>PCF\<close>

record AMBR =
  ambr_Uplink :: uint64
  ambr_Downlink :: uint64

definition AMBR_zero :: AMBR where
  "AMBR_zero = \<lparr>ambr_Uplink = 0,
     ambr_Downlink = 0\<rparr>"

definition AMBR_fields :: "AMBR fields" where
  "AMBR_fields = [(''uplink'', fld ambr_Uplink ambr_Uplink_update dec_uint),
     (''downlink'', fld ambr_Downlink ambr_Downlink_update dec_uint)]"

definition unmarshal_AMBR :: "AMBR decoder" where
  "unmarshal_AMBR = dec_struct AMBR_fields"

definition marshal_AMBR :: "AMBR \<Rightarrow> json" where
  "marshal_AMBR x = JObj ([(''uplink'', enc_uint (ambr_Uplink x)),
     (''downlink'', enc_uint (ambr_Downlink x))])"

lemma AMBR_codec [simp, codec]: "unmarshal_AMBR (marshal_AMBR x) AMBR_zero = Some x"
  by (cases x) (simp add: unmarshal_AMBR_def marshal_AMBR_def AMBR_fields_def AMBR_zero_def json_codec)

lemma AMBR_not_null [simp]: "marshal_AMBR x \<noteq> JNull"
  by (simp add: marshal_AMBR_def)

record SessionRule =
  sru_SessionAMBR :: "AMBR option"
  sru_DefQFI :: uint8

definition SessionRule_zero :: SessionRule where
  "SessionRule_zero = \<lparr>sru_SessionAMBR = None,
     sru_DefQFI = 0\<rparr>"

definition SessionRule_fields :: "SessionRule fields" where
  "SessionRule_fields = [(''sess_ambr'', fld sru_SessionAMBR sru_SessionAMBR_update (dec_ptr unmarshal_AMBR AMBR_zero)),
     (''def_qos_flow_indication'', fld sru_DefQFI sru_DefQFI_update dec_uint)]"

definition unmarshal_SessionRule :: "SessionRule decoder" where
  "unmarshal_SessionRule = dec_struct SessionRule_fields"

definition marshal_SessionRule :: "SessionRule \<Rightarrow> json" where
  "marshal_SessionRule x = JObj (omitempty (sru_SessionAMBR x = None) (''sess_ambr'', enc_ptr marshal_AMBR (sru_SessionAMBR x)) @
     omitempty (sru_DefQFI x = 0) (''def_qos_flow_indication'', enc_uint (sru_DefQFI x)))"

lemma SessionRule_codec [simp, codec]: "unmarshal_SessionRule (marshal_SessionRule x) SessionRule_zero = Some x"
  by (cases x) (simp add: unmarshal_SessionRule_def marshal_SessionRule_def SessionRule_fields_def SessionRule_zero_def json_codec dec_ptr_enc)

lemma SessionRule_not_null [simp]: "marshal_SessionRule x \<noteq> JNull"
  by (simp add: marshal_SessionRule_def)

record PolicyCreateRequest =
  pcq_SUPI :: string
  pcq_SNSSAI :: SNSSAI
  pcq_DNN :: string

definition PolicyCreateRequest_zero :: PolicyCreateRequest where
  "PolicyCreateRequest_zero = \<lparr>pcq_SUPI = [],
     pcq_SNSSAI = SNSSAI_zero,
     pcq_DNN = []\<rparr>"

definition PolicyCreateRequest_fields :: "PolicyCreateRequest fields" where
  "PolicyCreateRequest_fields = [(''supi'', fld pcq_SUPI pcq_SUPI_update dec_string),
     (''snssai'', fld pcq_SNSSAI pcq_SNSSAI_update unmarshal_SNSSAI),
     (''dnn'', fld pcq_DNN pcq_DNN_update dec_string)]"

definition unmarshal_PolicyCreateRequest :: "PolicyCreateRequest decoder" where
  "unmarshal_PolicyCreateRequest = dec_struct PolicyCreateRequest_fields"

definition marshal_PolicyCreateRequest :: "PolicyCreateRequest \<Rightarrow> json" where
  "marshal_PolicyCreateRequest x = JObj ([(''supi'', JStr (pcq_SUPI x)),
     (''snssai'', marshal_SNSSAI (pcq_SNSSAI x)),
     (''dnn'', JStr (pcq_DNN x))])"

lemma PolicyCreateRequest_codec [simp, codec]: "unmarshal_PolicyCreateRequest (marshal_PolicyCreateRequest x) PolicyCreateRequest_zero = Some x"
  by (cases x) (simp add: unmarshal_PolicyCreateRequest_def marshal_PolicyCreateRequest_def PolicyCreateRequest_fields_def PolicyCreateRequest_zero_def json_codec)

lemma PolicyCreateRequest_not_null [simp]: "marshal_PolicyCreateRequest x \<noteq> JNull"
  by (simp add: marshal_PolicyCreateRequest_def)

record PolicyDecision =
  pd_PolicyID :: string
  pd_QFI :: uint8
  pd_AMBRUL :: uint64
  pd_AMBRDL :: uint64
  pd_FiveQI :: int64
  pd_SessRules :: "(string \<times> SessionRule) list"

definition PolicyDecision_zero :: PolicyDecision where
  "PolicyDecision_zero = \<lparr>pd_PolicyID = [], pd_QFI = 0, pd_AMBRUL = 0, pd_AMBRDL = 0, pd_FiveQI = 0, pd_SessRules = []\<rparr>"

definition PolicyDecision_fields :: "PolicyDecision fields" where
  "PolicyDecision_fields = [(''policy_id'', fld pd_PolicyID pd_PolicyID_update dec_string),
     (''qfi'', fld pd_QFI pd_QFI_update dec_uint),
     (''ambr_ul'', fld pd_AMBRUL pd_AMBRUL_update dec_uint),
     (''ambr_dl'', fld pd_AMBRDL pd_AMBRDL_update dec_uint),
     (''5qi'', fld pd_FiveQI pd_FiveQI_update dec_sint),
     (''sess_rules'', fld pd_SessRules pd_SessRules_update (dec_map unmarshal_SessionRule SessionRule_zero))]"

definition unmarshal_PolicyDecision :: "PolicyDecision decoder" where
  "unmarshal_PolicyDecision = dec_struct PolicyDecision_fields"

definition marshal_PolicyDecision :: "PolicyDecision \<Rightarrow> json" where
  "marshal_PolicyDecision x = JObj ([(''policy_id'', JStr (pd_PolicyID x)),
     (''qfi'', enc_uint (pd_QFI x)),
     (''ambr_ul'', enc_uint (pd_AMBRUL x)),
     (''ambr_dl'', enc_uint (pd_AMBRDL x)),
     (''5qi'', enc_sint (pd_FiveQI x))] @
     omitempty (pd_SessRules x = []) (''sess_rules'', enc_map marshal_SessionRule (pd_SessRules x)))"

lemma PolicyDecision_codec [simp, codec]: "unmarshal_PolicyDecision (marshal_PolicyDecision x) PolicyDecision_zero = Some x"
  by (cases x) (simp add: unmarshal_PolicyDecision_def marshal_PolicyDecision_def PolicyDecision_fields_def
      PolicyDecision_zero_def json_codec)

definition mk_policy :: "uint8 \<Rightarrow> uint64 \<Rightarrow> uint64 \<Rightarrow> int64 \<Rightarrow> PolicyDecision" where
  "mk_policy qfi ul dl q = PolicyDecision_zero\<lparr>pd_QFI := qfi, pd_AMBRUL := ul, pd_AMBRDL := dl, pd_FiveQI := q\<rparr>"

definition defaultPolicies :: "(int32 \<times> PolicyDecision) list" where
  "defaultPolicies =
     [(1, mk_policy 1 1000000 5000000 9), (2, mk_policy 7 500000 500000 7), (3, mk_policy 9 100000 100000 9)]"

definition default_policy :: "int32 \<Rightarrow> PolicyDecision" where
  "default_policy sst = (case map_of defaultPolicies sst of Some d \<Rightarrow> d | None \<Rightarrow> mk_policy 1 1000000 5000000 9)"

definition configured_policy_key :: "PolicyCreateRequest \<Rightarrow> string" where
  "configured_policy_key r = ''policies/sst-'' @ show_int (sint (sn_SST (pcq_SNSSAI r))) @ ''-sd-'' @ sn_SD (pcq_SNSSAI r)
     @ ''-dnn-'' @ pcq_DNN r"

definition active_policy_key :: "string \<Rightarrow> string" where
  "active_policy_key i = ''active-policies/'' @ i"

definition pcf_policy_create :: "'s KVStore \<Rightarrow> request \<Rightarrow> ('s, response) handler" where
  "pcf_policy_create kv req =
     (case unmarshal_body unmarshal_PolicyCreateRequest PolicyCreateRequest_zero (rq_Body req) of
        None \<Rightarrow> State_Monad.return (errorResp 400 (''invalid JSON: '' @ err_text JsonErr))
      | Some pcfReq \<Rightarrow>
        if pcq_SUPI pcfReq = [] then State_Monad.return (errorResp 400 ''supi is required'')
        else do {
          r \<leftarrow> kvGet kv (configured_policy_key pcfReq) unmarshal_PolicyDecision PolicyDecision_zero;
          let base = (case r of Inl e \<Rightarrow> default_policy (sn_SST (pcq_SNSSAI pcfReq)) | Inr p \<Rightarrow> p);
          _ \<leftarrow> modify (\<lambda>w. w\<lparr>w_policyCounter := w_policyCounter w + 1\<rparr>);
          w \<leftarrow> State_Monad.get;
          let policy = base\<lparr>
            pd_PolicyID := ''pol-'' @ pcq_SUPI pcfReq @ ''-'' @ show_nat (unat (w_policyCounter w)),
            pd_SessRules := [(''sr-1'', \<lparr>sru_SessionAMBR = Some \<lparr>ambr_Uplink = pd_AMBRUL base, ambr_Downlink = pd_AMBRDL base\<rparr>,
                                          sru_DefQFI = pd_QFI base\<rparr>)]\<rparr>;
          _ \<leftarrow> kvPut kv (active_policy_key (pd_PolicyID policy)) (marshal_PolicyDecision policy);
          State_Monad.return (json_resp 201 (marshal_PolicyDecision policy))
        })"

text \<open>The decision as \<^verbatim>\<open>policy-get\<close> declares it, without the session rules.\<close>

record PolicyView =
  pv_PolicyID :: string
  pv_QFI :: uint8
  pv_AMBRUL :: uint64
  pv_AMBRDL :: uint64
  pv_FiveQI :: int64

definition PolicyView_zero :: PolicyView where
  "PolicyView_zero = \<lparr>pv_PolicyID = [],
     pv_QFI = 0,
     pv_AMBRUL = 0,
     pv_AMBRDL = 0,
     pv_FiveQI = 0\<rparr>"

definition PolicyView_fields :: "PolicyView fields" where
  "PolicyView_fields = [(''policy_id'', fld pv_PolicyID pv_PolicyID_update dec_string),
     (''qfi'', fld pv_QFI pv_QFI_update dec_uint),
     (''ambr_ul'', fld pv_AMBRUL pv_AMBRUL_update dec_uint),
     (''ambr_dl'', fld pv_AMBRDL pv_AMBRDL_update dec_uint),
     (''5qi'', fld pv_FiveQI pv_FiveQI_update dec_sint)]"

definition unmarshal_PolicyView :: "PolicyView decoder" where
  "unmarshal_PolicyView = dec_struct PolicyView_fields"

definition marshal_PolicyView :: "PolicyView \<Rightarrow> json" where
  "marshal_PolicyView x = JObj ([(''policy_id'', JStr (pv_PolicyID x)),
     (''qfi'', enc_uint (pv_QFI x)),
     (''ambr_ul'', enc_uint (pv_AMBRUL x)),
     (''ambr_dl'', enc_uint (pv_AMBRDL x)),
     (''5qi'', enc_sint (pv_FiveQI x))])"

lemma PolicyView_codec [simp, codec]: "unmarshal_PolicyView (marshal_PolicyView x) PolicyView_zero = Some x"
  by (cases x) (simp add: unmarshal_PolicyView_def marshal_PolicyView_def PolicyView_fields_def PolicyView_zero_def json_codec)

lemma PolicyView_not_null [simp]: "marshal_PolicyView x \<noteq> JNull"
  by (simp add: marshal_PolicyView_def)

definition extractPolicyID :: "request \<Rightarrow> string" where
  "extractPolicyID req =
     (if query_param req ''policy_id'' \<noteq> [] then query_param req ''policy_id''
      else (case unmarshal_body (dec_struct [(''policy_id'', dec_string)]) [] (rq_Body req) of
              Some s \<Rightarrow> s
            | None \<Rightarrow> []))"

definition pcf_policy_get :: "'s KVStore \<Rightarrow> request \<Rightarrow> ('s, response) handler" where
  "pcf_policy_get kv req =
     (let policyID = extractPolicyID req in
      if policyID = [] then State_Monad.return (errorResp 400 ''policy_id is required'')
      else do {
        r \<leftarrow> kvGet kv (active_policy_key policyID) unmarshal_PolicyView PolicyView_zero;
        orReturn r
          (\<lambda>e. State_Monad.return
             (if is_not_found e then errorResp 404 (''policy '' @ policyID @ '' not found'')
              else errorResp 500 (''get policy: '' @ err_text e)))
          (\<lambda>policy. State_Monad.return (json_resp 200 (marshal_PolicyView policy)))
      })"

section \<open>BSF\<close>

record BindingRegisterRequest =
  brq_SUPI :: string
  brq_DNN :: string
  brq_SNSSAI :: SNSSAI
  brq_PCFAddress :: string
  brq_UEAddress :: string
  brq_PDUSessionID :: string

definition BindingRegisterRequest_zero :: BindingRegisterRequest where
  "BindingRegisterRequest_zero = \<lparr>brq_SUPI = [],
     brq_DNN = [],
     brq_SNSSAI = SNSSAI_zero,
     brq_PCFAddress = [],
     brq_UEAddress = [],
     brq_PDUSessionID = []\<rparr>"

definition BindingRegisterRequest_fields :: "BindingRegisterRequest fields" where
  "BindingRegisterRequest_fields = [(''supi'', fld brq_SUPI brq_SUPI_update dec_string),
     (''dnn'', fld brq_DNN brq_DNN_update dec_string),
     (''snssai'', fld brq_SNSSAI brq_SNSSAI_update unmarshal_SNSSAI),
     (''pcf_address'', fld brq_PCFAddress brq_PCFAddress_update dec_string),
     (''ue_address'', fld brq_UEAddress brq_UEAddress_update dec_string),
     (''pdu_session_id'', fld brq_PDUSessionID brq_PDUSessionID_update dec_string)]"

definition unmarshal_BindingRegisterRequest :: "BindingRegisterRequest decoder" where
  "unmarshal_BindingRegisterRequest = dec_struct BindingRegisterRequest_fields"

definition marshal_BindingRegisterRequest :: "BindingRegisterRequest \<Rightarrow> json" where
  "marshal_BindingRegisterRequest x = JObj ([(''supi'', JStr (brq_SUPI x)),
     (''dnn'', JStr (brq_DNN x)),
     (''snssai'', marshal_SNSSAI (brq_SNSSAI x)),
     (''pcf_address'', JStr (brq_PCFAddress x))] @
     omitempty (brq_UEAddress x = []) (''ue_address'', JStr (brq_UEAddress x)) @
     [(''pdu_session_id'', JStr (brq_PDUSessionID x))])"

lemma BindingRegisterRequest_codec [simp, codec]: "unmarshal_BindingRegisterRequest (marshal_BindingRegisterRequest x) BindingRegisterRequest_zero = Some x"
  by (cases x) (simp add: unmarshal_BindingRegisterRequest_def marshal_BindingRegisterRequest_def BindingRegisterRequest_fields_def BindingRegisterRequest_zero_def json_codec)

lemma BindingRegisterRequest_not_null [simp]: "marshal_BindingRegisterRequest x \<noteq> JNull"
  by (simp add: marshal_BindingRegisterRequest_def)

record BindingDiscoverRequest =
  bdq_UEAddress :: string
  bdq_SUPI :: string
  bdq_DNN :: string

definition BindingDiscoverRequest_zero :: BindingDiscoverRequest where
  "BindingDiscoverRequest_zero = \<lparr>bdq_UEAddress = [],
     bdq_SUPI = [],
     bdq_DNN = []\<rparr>"

definition BindingDiscoverRequest_fields :: "BindingDiscoverRequest fields" where
  "BindingDiscoverRequest_fields = [(''ue_address'', fld bdq_UEAddress bdq_UEAddress_update dec_string),
     (''supi'', fld bdq_SUPI bdq_SUPI_update dec_string),
     (''dnn'', fld bdq_DNN bdq_DNN_update dec_string)]"

definition unmarshal_BindingDiscoverRequest :: "BindingDiscoverRequest decoder" where
  "unmarshal_BindingDiscoverRequest = dec_struct BindingDiscoverRequest_fields"

definition marshal_BindingDiscoverRequest :: "BindingDiscoverRequest \<Rightarrow> json" where
  "marshal_BindingDiscoverRequest x = JObj (omitempty (bdq_UEAddress x = []) (''ue_address'', JStr (bdq_UEAddress x)) @
     omitempty (bdq_SUPI x = []) (''supi'', JStr (bdq_SUPI x)) @
     omitempty (bdq_DNN x = []) (''dnn'', JStr (bdq_DNN x)))"

lemma BindingDiscoverRequest_codec [simp, codec]: "unmarshal_BindingDiscoverRequest (marshal_BindingDiscoverRequest x) BindingDiscoverRequest_zero = Some x"
  by (cases x) (simp add: unmarshal_BindingDiscoverRequest_def marshal_BindingDiscoverRequest_def BindingDiscoverRequest_fields_def BindingDiscoverRequest_zero_def json_codec)

lemma BindingDiscoverRequest_not_null [simp]: "marshal_BindingDiscoverRequest x \<noteq> JNull"
  by (simp add: marshal_BindingDiscoverRequest_def)

record BindingDeregisterRequest =
  bgq_BindingID :: string

definition BindingDeregisterRequest_zero :: BindingDeregisterRequest where
  "BindingDeregisterRequest_zero = \<lparr>bgq_BindingID = []\<rparr>"

definition BindingDeregisterRequest_fields :: "BindingDeregisterRequest fields" where
  "BindingDeregisterRequest_fields = [(''binding_id'', fld bgq_BindingID bgq_BindingID_update dec_string)]"

definition unmarshal_BindingDeregisterRequest :: "BindingDeregisterRequest decoder" where
  "unmarshal_BindingDeregisterRequest = dec_struct BindingDeregisterRequest_fields"

definition marshal_BindingDeregisterRequest :: "BindingDeregisterRequest \<Rightarrow> json" where
  "marshal_BindingDeregisterRequest x = JObj ([(''binding_id'', JStr (bgq_BindingID x))])"

lemma BindingDeregisterRequest_codec [simp, codec]: "unmarshal_BindingDeregisterRequest (marshal_BindingDeregisterRequest x) BindingDeregisterRequest_zero = Some x"
  by (cases x) (simp add: unmarshal_BindingDeregisterRequest_def marshal_BindingDeregisterRequest_def BindingDeregisterRequest_fields_def BindingDeregisterRequest_zero_def json_codec)

lemma BindingDeregisterRequest_not_null [simp]: "marshal_BindingDeregisterRequest x \<noteq> JNull"
  by (simp add: marshal_BindingDeregisterRequest_def)

definition bsf_key :: "string \<Rightarrow> string" where
  "bsf_key i = ''bsf-bindings/'' @ i"

definition bsf_ip_key :: "string \<Rightarrow> string" where
  "bsf_ip_key ip = ''bsf-by-ip/'' @ ip"

definition bsf_supi_key :: "string \<Rightarrow> string \<Rightarrow> string" where
  "bsf_supi_key supi dnn = ''bsf-by-supi/'' @ supi @ ''/'' @ dnn"

definition disabled_resp :: response where
  "disabled_resp = json_resp 200 (JObj [(''status'', JStr ''disabled'')])"

definition bsf_binding_register :: "(string \<Rightarrow> string) \<Rightarrow> 's KVStore \<Rightarrow> request \<Rightarrow> ('s, response) handler" where
  "bsf_binding_register getenv kv req =
     (if getenv ''ENABLE_BSF'' \<noteq> ''true'' then State_Monad.return disabled_resp
      else case unmarshal_body unmarshal_BindingRegisterRequest BindingRegisterRequest_zero (rq_Body req) of
        None \<Rightarrow> State_Monad.return (errorResp 400 (''invalid JSON: '' @ err_text JsonErr))
      | Some regReq \<Rightarrow>
        if brq_SUPI regReq = [] then State_Monad.return (errorResp 400 ''supi is required'')
        else if brq_PDUSessionID regReq = [] then State_Monad.return (errorResp 400 ''pdu_session_id is required'')
        else do {
          _ \<leftarrow> modify (\<lambda>w. w\<lparr>w_bindingCounter := w_bindingCounter w + 1\<rparr>);
          w \<leftarrow> State_Monad.get;
          let dnn = (if brq_DNN regReq = [] then ''internet'' else brq_DNN regReq);
          let bindingID = ''bsf-'' @ brq_SUPI regReq @ ''-'' @ show_nat (unat (w_bindingCounter w));
          let binding = \<lparr>bind_BindingID = bindingID, bind_SUPI = brq_SUPI regReq, bind_DNN = dnn,
            bind_SNSSAI = brq_SNSSAI regReq,
            bind_PCFAddress = (if brq_PCFAddress regReq = [] then ''pcf-001'' else brq_PCFAddress regReq),
            bind_UEAddress = brq_UEAddress regReq, bind_PDUSessionID = brq_PDUSessionID regReq\<rparr>;
          e1 \<leftarrow> kvPut kv (bsf_key bindingID) (marshal_PCFBinding binding);
          case e1 of
            Some err \<Rightarrow> State_Monad.return (errorResp 500 (''failed to store binding: '' @ err_text err))
          | None \<Rightarrow> do {
              e2 \<leftarrow> (if brq_UEAddress regReq \<noteq> [] then kvPut kv (bsf_ip_key (brq_UEAddress regReq)) (JStr bindingID)
                    else State_Monad.return None);
              case e2 of
                Some err \<Rightarrow> State_Monad.return (errorResp 500 (''failed to store ip index: '' @ err_text err))
              | None \<Rightarrow> do {
                  e3 \<leftarrow> kvPut kv (bsf_supi_key (brq_SUPI regReq) dnn) (JStr bindingID);
                  case e3 of
                    Some err \<Rightarrow> State_Monad.return (errorResp 500 (''failed to store supi index: '' @ err_text err))
                  | None \<Rightarrow> State_Monad.return (json_resp 201 (marshal_PCFBinding binding))
                }
            }
        })"

definition store_failure :: "string \<Rightarrow> goerr \<Rightarrow> response" where
  "store_failure missing e =
     (if is_not_found e then errorResp 404 missing else errorResp 500 (''store error: '' @ err_text e))"

definition bsf_load :: "'s KVStore \<Rightarrow> string \<Rightarrow> ('s, response) handler" where
  "bsf_load kv bindingID = do {
     r \<leftarrow> kvGet kv (bsf_key bindingID) unmarshal_PCFBinding PCFBinding_zero;
     orReturn r
       (\<lambda>e. State_Monad.return (store_failure (''binding '' @ bindingID @ '' not found'') e))
       (\<lambda>binding. State_Monad.return (json_resp 200 (marshal_PCFBinding binding)))
   }"

definition bsf_binding_discover :: "(string \<Rightarrow> string) \<Rightarrow> 's KVStore \<Rightarrow> request \<Rightarrow> ('s, response) handler" where
  "bsf_binding_discover getenv kv req =
     (if getenv ''ENABLE_BSF'' \<noteq> ''true'' then State_Monad.return disabled_resp
      else case unmarshal_body unmarshal_BindingDiscoverRequest BindingDiscoverRequest_zero (rq_Body req) of
        None \<Rightarrow> State_Monad.return (errorResp 400 (''invalid JSON: '' @ err_text JsonErr))
      | Some discReq \<Rightarrow>
        if bdq_UEAddress discReq = [] \<and> bdq_SUPI discReq = [] then
          State_Monad.return (errorResp 400 ''at least one of ue_address or supi is required'')
        else if bdq_UEAddress discReq \<noteq> [] then do {
          r \<leftarrow> kvGet kv (bsf_ip_key (bdq_UEAddress discReq)) dec_string [];
          orReturn r
            (\<lambda>e. State_Monad.return (store_failure (''no binding for ue_address '' @ bdq_UEAddress discReq) e))
            (bsf_load kv)
        } else
          let dnn = (if bdq_DNN discReq = [] then ''internet'' else bdq_DNN discReq) in do {
          r \<leftarrow> kvGet kv (bsf_supi_key (bdq_SUPI discReq) dnn) dec_string [];
          orReturn r
            (\<lambda>e. State_Monad.return (store_failure (''no binding for supi '' @ bdq_SUPI discReq @ '' dnn '' @ dnn) e))
            (bsf_load kv)
        })"

definition bsf_binding_deregister :: "(string \<Rightarrow> string) \<Rightarrow> 's KVStore \<Rightarrow> request \<Rightarrow> ('s, response) handler" where
  "bsf_binding_deregister getenv kv req =
     (if getenv ''ENABLE_BSF'' \<noteq> ''true'' then State_Monad.return disabled_resp
      else case unmarshal_body unmarshal_BindingDeregisterRequest BindingDeregisterRequest_zero (rq_Body req) of
        None \<Rightarrow> State_Monad.return (errorResp 400 (''invalid JSON: '' @ err_text JsonErr))
      | Some deregReq \<Rightarrow>
        if bgq_BindingID deregReq = [] then State_Monad.return (errorResp 400 ''binding_id is required'')
        else do {
          r \<leftarrow> kvGet kv (bsf_key (bgq_BindingID deregReq)) unmarshal_PCFBinding PCFBinding_zero;
          orReturn r
            (\<lambda>e. State_Monad.return (store_failure (''binding '' @ bgq_BindingID deregReq @ '' not found'') e))
            (\<lambda>binding. do {
               _ \<leftarrow> (if bind_UEAddress binding \<noteq> [] then kvDelete kv (bsf_ip_key (bind_UEAddress binding))
                    else State_Monad.return None);
               _ \<leftarrow> kvDelete kv (bsf_supi_key (bind_SUPI binding) (bind_DNN binding));
               _ \<leftarrow> kvDelete kv (bsf_key (bgq_BindingID deregReq));
               State_Monad.return (json_resp 200 (JObj [(''binding_id'', JStr (bgq_BindingID deregReq)),
                 (''status'', JStr ''deregistered'')]))
             })
        })"

section \<open>Properties\<close>

lemma PolicyView_of_decision:
  "unmarshal_PolicyView (marshal_PolicyDecision d) PolicyView_zero =
     Some \<lparr>pv_PolicyID = pd_PolicyID d, pv_QFI = pd_QFI d, pv_AMBRUL = pd_AMBRUL d, pv_AMBRDL = pd_AMBRDL d, pv_FiveQI = pd_FiveQI d\<rparr>"
  by (simp add: unmarshal_PolicyView_def marshal_PolicyDecision_def PolicyView_fields_def PolicyView_zero_def json_codec)

text \<open>The decision for a request: the configured policy of the slice and data network when it can be read,
  the default policy of the slice's SST otherwise.\<close>

definition policy_base :: "(string \<rightharpoonup> json) \<Rightarrow> PolicyCreateRequest \<Rightarrow> PolicyDecision" where
  "policy_base s r = (case s (configured_policy_key r) of
       None \<Rightarrow> default_policy (sn_SST (pcq_SNSSAI r))
     | Some j \<Rightarrow> (case unmarshal_PolicyDecision j PolicyDecision_zero of
                   None \<Rightarrow> default_policy (sn_SST (pcq_SNSSAI r)) | Some p \<Rightarrow> p))"

definition get_policy_req :: "string \<Rightarrow> request" where
  "get_policy_req i = body_req [(''policy_id'', JStr i)]"

lemma get_policy_req_id [simp]: "extractPolicyID (get_policy_req i) = i"
  by (simp add: extractPolicyID_def get_policy_req_def body_req_def query_param_def)

definition policy_id_for :: "PolicyCreateRequest \<Rightarrow> uint64 \<Rightarrow> string" where
  "policy_id_for r c = ''pol-'' @ pcq_SUPI r @ ''-'' @ show_nat (unat c)"

context reliable_store
begin

lemma pcf_policy_create_ok:
  assumes "unmarshal_body unmarshal_PolicyCreateRequest PolicyCreateRequest_zero (rq_Body req) = Some r" "pcq_SUPI r \<noteq> []"
  shows "wp (pcf_policy_create kv req) (\<lambda>resp w'.
     let base = policy_base (view (w_store w)) r;
         d = base\<lparr>pd_PolicyID := policy_id_for r (w_policyCounter w + 1),
               pd_SessRules := [(''sr-1'', \<lparr>sru_SessionAMBR = Some \<lparr>ambr_Uplink = pd_AMBRUL base, ambr_Downlink = pd_AMBRDL base\<rparr>,
                                             sru_DefQFI = pd_QFI base\<rparr>)]\<rparr> in
     resp = json_resp 201 (marshal_PolicyDecision d) \<and> w_policyCounter w' = w_policyCounter w + 1 \<and>
     view (w_store w') = (view (w_store w))(active_policy_key (pd_PolicyID d) \<mapsto> marshal_PolicyDecision d)) w"
  using assms
  by (auto simp: pcf_policy_create_def wp Let_def policy_base_def policy_id_for_def split: option.splits
      intro!: wp_kvGet_reliable wp_kvPut_reliable)

end

text \<open>A policy the PCF decided can be read back under the identifier it was given, with the QoS values of
  the decision: the configured policy of the slice and data network, or the default of the slice type.\<close>

theorem pcf_create_get:
  assumes "reliable_store kv view"
    and "unmarshal_body unmarshal_PolicyCreateRequest PolicyCreateRequest_zero (rq_Body req) = Some q" "pcq_SUPI q \<noteq> []"
    and "run_state (pcf_policy_create kv req) w = (r, w1)"
    and "run_state (pcf_policy_get kv (get_policy_req (policy_id_for q (w_policyCounter w + 1)))) w1 = (r', w2)"
  shows "rs_StatusCode r = 201 \<and>
     (let base = policy_base (view (w_store w)) q in
      r' = json_resp 200 (marshal_PolicyView \<lparr>pv_PolicyID = policy_id_for q (w_policyCounter w + 1), pv_QFI = pd_QFI base,
             pv_AMBRUL = pd_AMBRUL base, pv_AMBRDL = pd_AMBRDL base, pv_FiveQI = pd_FiveQI base\<rparr>))"
proof -
  have ne: "policy_id_for q c \<noteq> []" for c by (simp add: policy_id_for_def)
  note c = wpD [OF reliable_store.pcf_policy_create_ok [OF assms(1-3)] assms(4), unfolded Let_def]
  have "wp (pcf_policy_get kv (get_policy_req (policy_id_for q (w_policyCounter w + 1)))) (\<lambda>resp _. resp = json_resp 200 (marshal_PolicyView
      \<lparr>pv_PolicyID = policy_id_for q (w_policyCounter w + 1), pv_QFI = pd_QFI (policy_base (view (w_store w)) q),
       pv_AMBRUL = pd_AMBRUL (policy_base (view (w_store w)) q), pv_AMBRDL = pd_AMBRDL (policy_base (view (w_store w)) q),
       pv_FiveQI = pd_FiveQI (policy_base (view (w_store w)) q)\<rparr>)) w1"
    unfolding pcf_policy_get_def
    by (auto simp: ne wp Let_def c PolicyView_of_decision intro!: reliable_store.wp_kvGet_reliable [OF assms(1)])
  from wpD [OF this assms(5)] c show ?thesis by (simp add: Let_def)
qed

definition policy_req :: request where
  "policy_req = \<lparr>rq_Body = Some (marshal_PolicyCreateRequest \<lparr>pcq_SUPI = ''imsi-1'', pcq_SNSSAI = \<lparr>sn_SST = 2, sn_SD = []\<rparr>, pcq_DNN = ''ims''\<rparr>),
     rq_QueryString = []\<rparr>"

theorem pcf_create_get_witness:
  "fst (run_state (pcf_policy_get MockKVStore (get_policy_req ''pol-imsi-1-1'')) (snd (run_state (pcf_policy_create MockKVStore policy_req) (world_init NewMockKVStore)))) =
     json_resp 200 (marshal_PolicyView \<lparr>pv_PolicyID = ''pol-imsi-1-1'', pv_QFI = 7, pv_AMBRUL = 500000, pv_AMBRDL = 500000, pv_FiveQI = 7\<rparr>)"
proof -
  let ?q = "\<lparr>pcq_SUPI = ''imsi-1'', pcq_SNSSAI = \<lparr>sn_SST = 2, sn_SD = []\<rparr>, pcq_DNN = ''ims''\<rparr>"
  let ?w = "world_init NewMockKVStore :: (string \<rightharpoonup> json) world"
  have dec: "unmarshal_body unmarshal_PolicyCreateRequest PolicyCreateRequest_zero (rq_Body policy_req) = Some ?q"
    by (simp add: policy_req_def)
  have i: "policy_id_for ?q (w_policyCounter ?w + 1) = ''pol-imsi-1-1''"
    by (simp add: policy_id_for_def world_init_def show_nat.simps digit_chars)
  have b: "policy_base (w_store ?w) ?q = mk_policy 7 500000 500000 7"
    by (simp add: policy_base_def world_init_def NewMockKVStore_def default_policy_def defaultPolicies_def)
  show ?thesis
    using pcf_create_get [of MockKVStore "\<lambda>m. m" policy_req ?q ?w, OF mock.reliable_store_axioms dec _ surjective_pairing surjective_pairing]
    by (simp add: i b Let_def mk_policy_def PolicyDecision_zero_def)
qed

section \<open>Bindings\<close>

definition binding_for :: "BindingRegisterRequest \<Rightarrow> uint64 \<Rightarrow> PCFBinding" where
  "binding_for q c =
     \<lparr>bind_BindingID = ''bsf-'' @ brq_SUPI q @ ''-'' @ show_nat (unat c), bind_SUPI = brq_SUPI q,
      bind_DNN = (if brq_DNN q = [] then ''internet'' else brq_DNN q), bind_SNSSAI = brq_SNSSAI q,
      bind_PCFAddress = (if brq_PCFAddress q = [] then ''pcf-001'' else brq_PCFAddress q),
      bind_UEAddress = brq_UEAddress q, bind_PDUSessionID = brq_PDUSessionID q\<rparr>"

lemma bsf_keys_distinct [simp]:
  "bsf_key i \<noteq> bsf_ip_key j" "bsf_ip_key i \<noteq> bsf_key j" "bsf_key i \<noteq> bsf_supi_key a b" "bsf_supi_key a b \<noteq> bsf_key i"
  "bsf_ip_key i \<noteq> bsf_supi_key a b" "bsf_supi_key a b \<noteq> bsf_ip_key i"
  "bsf_key i = bsf_key j \<longleftrightarrow> i = j" "bsf_ip_key i = bsf_ip_key j \<longleftrightarrow> i = j"
  by (simp_all add: bsf_key_def bsf_ip_key_def bsf_supi_key_def)

definition discover_req :: "string \<Rightarrow> string \<Rightarrow> string \<Rightarrow> request" where
  "discover_req ip supi dnn = \<lparr>rq_Body = Some (marshal_BindingDiscoverRequest \<lparr>bdq_UEAddress = ip, bdq_SUPI = supi, bdq_DNN = dnn\<rparr>), rq_QueryString = []\<rparr>"

definition deregister_req :: "string \<Rightarrow> request" where
  "deregister_req i = \<lparr>rq_Body = Some (marshal_BindingDeregisterRequest \<lparr>bgq_BindingID = i\<rparr>), rq_QueryString = []\<rparr>"

context reliable_store
begin

lemma bsf_register_ok:
  assumes "getenv ''ENABLE_BSF'' = ''true''"
    and "unmarshal_body unmarshal_BindingRegisterRequest BindingRegisterRequest_zero (rq_Body req) = Some q"
    and "brq_SUPI q \<noteq> []" "brq_PDUSessionID q \<noteq> []"
  shows "wp (bsf_binding_register getenv kv req) (\<lambda>r w'.
     let b = binding_for q (w_bindingCounter w + 1); s = (view (w_store w))(bsf_key (bind_BindingID b) \<mapsto> marshal_PCFBinding b) in
     r = json_resp 201 (marshal_PCFBinding b) \<and> w_bindingCounter w' = w_bindingCounter w + 1 \<and>
     view (w_store w') = (if bind_UEAddress b = [] then s else s(bsf_ip_key (bind_UEAddress b) \<mapsto> JStr (bind_BindingID b)))
       (bsf_supi_key (bind_SUPI b) (bind_DNN b) \<mapsto> JStr (bind_BindingID b))) w"
  using assms
  by (auto simp: bsf_binding_register_def wp Let_def binding_for_def intro!: wp_kvPut_reliable)

lemma bsf_load_ok:
  assumes "view (w_store w) (bsf_key (bind_BindingID b)) = Some (marshal_PCFBinding b)"
  shows "wp (bsf_load kv (bind_BindingID b)) (\<lambda>r w'. r = json_resp 200 (marshal_PCFBinding b) \<and> view (w_store w') = view (w_store w)) w"
  using assms by (auto simp: bsf_load_def wp intro!: wp_kvGet_reliable)

lemma bsf_discover_ip:
  assumes "getenv ''ENABLE_BSF'' = ''true''" "ip \<noteq> []"
    and "view (w_store w) (bsf_ip_key ip) = Some (JStr (bind_BindingID b))"
    and "view (w_store w) (bsf_key (bind_BindingID b)) = Some (marshal_PCFBinding b)"
  shows "wp (bsf_binding_discover getenv kv (discover_req ip supi dnn)) (\<lambda>r _. r = json_resp 200 (marshal_PCFBinding b)) w"
  using assms
  by (auto simp: bsf_binding_discover_def discover_req_def wp intro!: wp_kvGet_reliable wp_mono [OF bsf_load_ok])

lemma bsf_discover_supi:
  assumes "getenv ''ENABLE_BSF'' = ''true''" "supi \<noteq> []" "dnn \<noteq> []"
    and "view (w_store w) (bsf_supi_key supi dnn) = Some (JStr (bind_BindingID b))"
    and "view (w_store w) (bsf_key (bind_BindingID b)) = Some (marshal_PCFBinding b)"
  shows "wp (bsf_binding_discover getenv kv (discover_req [] supi dnn)) (\<lambda>r _. r = json_resp 200 (marshal_PCFBinding b)) w"
  using assms
  by (auto simp: bsf_binding_discover_def discover_req_def wp Let_def intro!: wp_kvGet_reliable wp_mono [OF bsf_load_ok])

end

text \<open>C38: a binding that was registered is found by the UE's address and by SUPI and data network, and it is the
  binding the registration reported.\<close>

theorem bsf_register_discover:
  assumes "reliable_store kv view" "getenv ''ENABLE_BSF'' = ''true''"
    and "unmarshal_body unmarshal_BindingRegisterRequest BindingRegisterRequest_zero (rq_Body req) = Some q"
    and "brq_SUPI q \<noteq> []" "brq_PDUSessionID q \<noteq> []" "brq_UEAddress q \<noteq> []"
    and "run_state (bsf_binding_register getenv kv req) w = (r, w1)"
  shows "let b = binding_for q (w_bindingCounter w + 1) in
     r = json_resp 201 (marshal_PCFBinding b) \<and>
     fst (run_state (bsf_binding_discover getenv kv (discover_req (brq_UEAddress q) supi dnn)) w1) = json_resp 200 (marshal_PCFBinding b) \<and>
     fst (run_state (bsf_binding_discover getenv kv (discover_req [] (brq_SUPI q) (bind_DNN b))) w1) = json_resp 200 (marshal_PCFBinding b)"
proof -
  let ?b = "binding_for q (w_bindingCounter w + 1)"
  have b: "bind_UEAddress ?b = brq_UEAddress q" "bind_SUPI ?b = brq_SUPI q" "bind_DNN ?b \<noteq> []" by (simp_all add: binding_for_def)
  note c = wpD [OF reliable_store.bsf_register_ok [where getenv = getenv, OF assms(1-5)] assms(7), unfolded Let_def b(1,2), simplified assms(6)]
  have s: "view (w_store w1) (bsf_key (bind_BindingID ?b)) = Some (marshal_PCFBinding ?b)"
    "view (w_store w1) (bsf_ip_key (brq_UEAddress q)) = Some (JStr (bind_BindingID ?b))"
    "view (w_store w1) (bsf_supi_key (brq_SUPI q) (bind_DNN ?b)) = Some (JStr (bind_BindingID ?b))"
    using c assms(6) by simp_all
  have run: "fst (run_state m w1) = x" if "wp m (\<lambda>r _. r = x) w1" for m x
    using that by (simp add: wp_def split_beta)
  show ?thesis
    using c reliable_store.bsf_discover_ip [where getenv = getenv, OF assms(1,2,6) s(2,1)] reliable_store.bsf_discover_supi [where getenv = getenv, OF assms(1,2,4) b(3) s(3,1)]
    by (simp add: Let_def run)
qed

definition bind_req :: "BindingRegisterRequest" where
  "bind_req = \<lparr>brq_SUPI = ''imsi-1'', brq_DNN = [], brq_SNSSAI = SNSSAI_zero, brq_PCFAddress = [], brq_UEAddress = ''10.45.0.1'',
     brq_PDUSessionID = ''pdu-imsi-1-1''\<rparr>"

theorem bsf_register_discover_witness:
  "fst (run_state (bsf_binding_discover all_on MockKVStore (discover_req ''10.45.0.1'' [] []))
     (snd (run_state (bsf_binding_register all_on MockKVStore \<lparr>rq_Body = Some (marshal_BindingRegisterRequest bind_req), rq_QueryString = []\<rparr>)
        (world_init NewMockKVStore)))) = json_resp 200 (marshal_PCFBinding (binding_for bind_req 1))"
  using bsf_register_discover [of MockKVStore "\<lambda>m. m" all_on "\<lparr>rq_Body = Some (marshal_BindingRegisterRequest bind_req), rq_QueryString = []\<rparr>" bind_req,
      OF mock.reliable_store_axioms _ _ _ _ _ surjective_pairing, of "world_init NewMockKVStore" "[]" "[]"]
  by (simp add: all_on_def bind_req_def world_init_def Let_def)

text \<open>
  The SUPI index holds one binding per data network, the latest, but a deregistration removes it whichever binding
  it was made for: after an older session of the same UE and data network is released, the newer
  binding is still stored and can no longer be found by SUPI.
\<close>

theorem bsf_deregister_drops_newer:
  assumes "reliable_store kv view" "getenv ''ENABLE_BSF'' = ''true''"
    and old: "view (w_store w) (bsf_key (bind_BindingID b1)) = Some (marshal_PCFBinding b1)" "bind_BindingID b1 \<noteq> []"
    and new: "view (w_store w) (bsf_key (bind_BindingID b2)) = Some (marshal_PCFBinding b2)" "bind_BindingID b2 \<noteq> bind_BindingID b1"
    and "bind_SUPI b2 = bind_SUPI b1" "bind_DNN b2 = bind_DNN b1"
    and "run_state (bsf_binding_deregister getenv kv (deregister_req (bind_BindingID b1))) w = (r, w1)"
  shows "rs_StatusCode r = 200 \<and> view (w_store w1) (bsf_key (bind_BindingID b2)) = Some (marshal_PCFBinding b2) \<and>
     view (w_store w1) (bsf_supi_key (bind_SUPI b2) (bind_DNN b2)) = None"
proof -
  have "wp (bsf_binding_deregister getenv kv (deregister_req (bind_BindingID b1)))
     (\<lambda>r w1. rs_StatusCode r = 200 \<and> view (w_store w1) (bsf_key (bind_BindingID b2)) = Some (marshal_PCFBinding b2) \<and>
        view (w_store w1) (bsf_supi_key (bind_SUPI b2) (bind_DNN b2)) = None) w"
    using assms(2-8)
    by (auto simp: bsf_binding_deregister_def deregister_req_def wp
        intro!: reliable_store.wp_kvGet_reliable [OF assms(1)] reliable_store.wp_kvDelete_reliable [OF assms(1)])
  from wpD [OF this assms(9)] show ?thesis .
qed

end
