(* ===== verification/Float64.thy ===== *)
theory Float64
  imports Encodings Complex_Main
begin

text \<open>
  Go's \<open>float64\<close>: IEEE 754 binary64 with rounding to nearest, ties to even.  A finite value is the rational number it
  stands for (the two zeros are one value here: no code of the repository divides by a zero or prints one), so that the result
  of an operation is the rounding of the exact result.  The functions are executable.
\<close>

datatype float64 = Fin rat | Infinite bool | NaN

section \<open>Rounding\<close>

text \<open>The exponent of a positive number: the greatest \<open>e\<close> with \<open>2 powi e \<le> x\<close>.\<close>

function ilog2 :: "int \<Rightarrow> int" where
  "ilog2 n = (if n < 2 then 0 else ilog2 (n div 2) + 1)"
  by pat_completeness auto
termination by (relation "measure nat") auto

declare ilog2.simps [simp del]

definition binexp :: "rat \<Rightarrow> int" where
  "binexp x =
     (let (a, b) = quotient_of x; e = ilog2 a - ilog2 b in
      if 2 powi e \<le> x then e else e - 1)"

definition half_even :: "rat \<Rightarrow> int" where
  "half_even m =
     (let f = \<lfloor>m\<rfloor>; d = m - of_int f in
      if d < 1 / 2 then f else if d > 1 / 2 then f + 1 else if even f then f else f + 1)"

text \<open>The distance of neighbouring floats around \<open>x\<close>, down to that of the subnormal numbers.\<close>

definition quantum :: "rat \<Rightarrow> rat" where
  "quantum x = 2 powi (max (binexp \<bar>x\<bar>) (- 1022) - 52)"

definition round64 :: "rat \<Rightarrow> float64" where
  "round64 x =
     (if x = 0 then Fin 0
      else let r = of_int (half_even (x / quantum x)) * quantum x in
        if \<bar>r\<bar> < 2 ^ 1024 then Fin r else Infinite (x < 0))"

section \<open>Operations\<close>

fun fadd :: "float64 \<Rightarrow> float64 \<Rightarrow> float64" where
  "fadd (Fin a) (Fin b) = round64 (a + b)"
| "fadd NaN _ = NaN"
| "fadd _ NaN = NaN"
| "fadd (Infinite s) (Infinite t) = (if s = t then Infinite s else NaN)"
| "fadd (Infinite s) (Fin _) = Infinite s"
| "fadd (Fin _) (Infinite t) = Infinite t"

fun fmul :: "float64 \<Rightarrow> float64 \<Rightarrow> float64" where
  "fmul (Fin a) (Fin b) = round64 (a * b)"
| "fmul NaN _ = NaN"
| "fmul _ NaN = NaN"
| "fmul (Infinite s) (Infinite t) = Infinite (s \<noteq> t)"
| "fmul (Infinite s) (Fin b) = (if b = 0 then NaN else Infinite (s \<noteq> (b < 0)))"
| "fmul (Fin a) (Infinite t) = (if a = 0 then NaN else Infinite ((a < 0) \<noteq> t))"

fun fdiv :: "float64 \<Rightarrow> float64 \<Rightarrow> float64" where
  "fdiv (Fin a) (Fin b) = (if b = 0 then (if a = 0 then NaN else Infinite (a < 0)) else round64 (a / b))"
| "fdiv NaN _ = NaN"
| "fdiv _ NaN = NaN"
| "fdiv (Infinite s) (Infinite t) = NaN"
| "fdiv (Infinite s) (Fin b) = Infinite (s \<noteq> (b < 0))"
| "fdiv (Fin a) (Infinite t) = Fin 0"

text \<open>\<open>x == y\<close>.\<close>

fun feq :: "float64 \<Rightarrow> float64 \<Rightarrow> bool" where
  "feq (Fin a) (Fin b) = (a = b)"
| "feq (Infinite s) (Infinite t) = (s = t)"
| "feq _ _ = False"

text \<open>\<open>float64(n)\<close> of an integer, and \<open>int64(f)\<close>: towards zero.  A value outside \<open>int64\<close> gives the most negative number, as the
  conversion instruction of amd64 does.\<close>

definition of_integer :: "int \<Rightarrow> float64" where
  "of_integer n = round64 (of_int n)"

definition rat_trunc :: "rat \<Rightarrow> int" where
  "rat_trunc r = (if 0 \<le> r then \<lfloor>r\<rfloor> else \<lceil>r\<rceil>)"

fun to_int64 :: "float64 \<Rightarrow> int64" where
  "to_int64 (Fin r) = (let n = rat_trunc r in if - (2 ^ 63) \<le> n \<and> n < 2 ^ 63 then word_of_int n else word_of_int (2 ^ 63))"
| "to_int64 _ = word_of_int (2 ^ 63)"

section \<open>Text\<close>

text \<open>The token that \<open>fmt\<close> scans for the verb \<open>%f\<close>: each \<open>accept\<close> of the scanner takes one character of a set.\<close>

fun accept_seq :: "string list \<Rightarrow> string \<Rightarrow> string \<times> string \<times> bool" where
  "accept_seq [] s = ([], s, True)"
| "accept_seq (cs # css) [] = ([], [], False)"
| "accept_seq (cs # css) (c # s) =
     (if c \<in> set cs then (let (b, r, ok) = accept_seq css s in (c # b, r, ok)) else ([], c # s, False))"

definition accept_all :: "string \<Rightarrow> string \<Rightarrow> string \<times> string" where
  "accept_all cs s = (takeWhile (\<lambda>c. c \<in> set cs) s, dropWhile (\<lambda>c. c \<in> set cs) s)"

definition floatToken :: "string \<Rightarrow> string" where
  "floatToken s =
     (let (b1, s1, nan) = accept_seq [''nN'', ''aA'', ''nN''] s in
      if nan then b1
      else
        let (b2, s2, _) = accept_seq [''+-''] s1; (b3, s3, inf) = accept_seq [''iI'', ''nN'', ''fF''] s2 in
        if inf then b1 @ b2 @ b3
        else
          let (b4, s4, hex) = accept_seq [''0'', ''xX''] s3;
              digits = (if hex then ''0123456789aAbBcCdDeEfF_'' else ''0123456789_'');
              (b5, s5) = accept_all digits s4;
              (b6, s6, dot) = accept_seq [''.''] s5;
              (b7, s7) = (if dot then accept_all digits s6 else ([], s6));
              (b8, s8, ex) = accept_seq [if hex then ''pP'' else ''eEpP''] s7;
              (b9, s9, _) = (if ex then accept_seq [''+-''] s8 else ([], s8, False));
              (b10, _) = (if ex then accept_all ''0123456789_'' s9 else ([], s9))
          in b1 @ b2 @ b3 @ b4 @ b5 @ b6 @ b7 @ b8 @ b9 @ b10)"

text \<open>\<open>strconv.underscoreOK\<close> after the sign and the base prefix; \<open>saw\<close> is the class of the last character.\<close>

fun underscores_ok :: "bool \<Rightarrow> char \<Rightarrow> string \<Rightarrow> bool" where
  "underscores_ok hex saw [] = (saw \<noteq> CHR ''_'')"
| "underscores_ok hex saw (c # s) =
     (if is_digit c \<or> (hex \<and> hex_val c \<noteq> None) then underscores_ok hex CHR ''0'' s
      else if c = CHR ''_'' then saw = CHR ''0'' \<and> underscores_ok hex CHR ''_'' s
      else saw \<noteq> CHR ''_'' \<and> underscores_ok hex CHR ''!'' s)"

definition digits_value :: "nat \<Rightarrow> string \<Rightarrow> nat" where
  "digits_value base ds = foldl (\<lambda>n c. base * n + the (hex_val c)) 0 ds"

definition exponent_value :: "string \<Rightarrow> int" where
  "exponent_value ds = foldl (\<lambda>e c. if e < 10000 then 10 * e + int (the (hex_val c)) else e) 0 ds"

definition not_underscore :: "string \<Rightarrow> string" where
  "not_underscore = filter (\<lambda>c. c \<noteq> CHR ''_'')"

definition sign_of :: "string \<Rightarrow> bool \<times> string" where
  "sign_of s = (case s of [] \<Rightarrow> (False, [])
     | c # r \<Rightarrow> if c = CHR ''-'' then (True, r) else if c = CHR ''+'' then (False, r) else (False, s))"

text \<open>The number a text stands for, exactly; \<open>None\<close> is a syntax error.\<close>

definition readFloat :: "string \<Rightarrow> rat option" where
  "readFloat s =
     (let (neg, s0) = sign_of s;
          hex = (2 < length s0 \<and> s0 ! 0 = CHR ''0'' \<and> s0 ! 1 \<in> {CHR ''x'', CHR ''X''});
          s1 = (if hex then drop 2 s0 else s0);
          base = (if hex then 16 else 10);
          digits = (if hex then ''0123456789aAbBcCdDeEfF_'' else ''0123456789_'');
          (w, s2) = accept_all digits s1;
          (_, s3, dot) = accept_seq [''.''] s2;
          (f, s4) = (if dot then accept_all digits s3 else ([], s3));
          (_, s5, ex) = accept_seq [if hex then ''pP'' else ''eE''] s4;
          (eneg, s6) = (if ex then sign_of s5 else (False, s5));
          (eds, s7) = (if ex then accept_all ''0123456789_'' s6 else ([], s6));
          frac = not_underscore f;
          mant = of_nat (digits_value base (not_underscore w @ frac));
          e = (if eneg then - exponent_value (not_underscore eds) else exponent_value (not_underscore eds));
          x = (if hex then mant * 2 powi (e - 4 * int (length frac)) else mant * 10 powi (e - int (length frac)))
      in if not_underscore (w @ f) = [] \<or> s7 \<noteq> [] \<or> (ex \<and> (eds = [] \<or> hd eds = CHR ''_'')) \<or> (hex \<and> \<not> ex) \<or>
            (CHR ''_'' \<in> set s \<and> \<not> underscores_ok hex (if hex then CHR ''0'' else CHR ''^'') s1)
         then None else Some (if neg then - x else x))"

text \<open>\<open>strconv.ParseFloat(s, 64)\<close>; \<open>None\<close> is a syntax or range error.\<close>

definition ParseFloat :: "string \<Rightarrow> float64 option" where
  "ParseFloat s =
     (let (neg, r) = sign_of s; (_, t, inf) = accept_seq [''iI'', ''nN'', ''fF''] r; (_, _, inity) = accept_seq [''iI'', ''nN'', ''iI'', ''tT'', ''yY''] t;
          (_, u, nan) = accept_seq [''nN'', ''aA'', ''nN''] s in
      if inf \<and> (t = [] \<or> (inity \<and> length t = 5)) then Some (Infinite neg)
      else if nan \<and> u = [] then Some NaN
      else case readFloat s of
        None \<Rightarrow> None
      | Some x \<Rightarrow> (case round64 x of Fin r \<Rightarrow> Some (Fin r) | _ \<Rightarrow> None))"

text \<open>\<open>strconv.Atoi\<close>.\<close>

definition Atoi :: "string \<Rightarrow> int option" where
  "Atoi s =
     (let (neg, ds) = sign_of s; n = (if neg then - int (read_nat ds) else int (read_nat ds)) in
      if ds = [] \<or> \<not> list_all is_digit ds \<or> n < - (2 ^ 63) \<or> 2 ^ 63 \<le> n then None else Some n)"

fun Ldexp :: "float64 \<Rightarrow> int \<Rightarrow> float64" where
  "Ldexp (Fin a) m = round64 (a * 2 powi m)"
| "Ldexp f m = f"

definition convertFloat :: "string \<Rightarrow> float64 option" where
  "convertFloat str =
     (if CHR ''p'' \<in> set str \<and> CHR ''x'' \<notin> set str \<and> CHR ''X'' \<notin> set str then
        (let pre = takeWhile (\<lambda>c. c \<noteq> CHR ''p'') str in
         case (ParseFloat pre, Atoi (drop (Suc (length pre)) str)) of
           (Some f, Some m) \<Rightarrow> Some (Ldexp f m)
         | _ \<Rightarrow> None)
      else ParseFloat str)"

text \<open>
  \<open>fmt.Sscanf(s, "%f", &f)\<close> into an \<open>f\<close> that is 0 beforehand: blanks are skipped, a newline or the end of the text is an error, and
  after an error \<open>f\<close> keeps its 0.  White space outside ASCII is not known here.
\<close>

definition sscanf_float :: "string \<Rightarrow> float64" where
  "sscanf_float s =
     (let r = dropWhile is_blank s in
      if r = [] \<or> hd r = CHR 0x0A then Fin 0
      else (case convertFloat (floatToken r) of None \<Rightarrow> Fin 0 | Some f \<Rightarrow> f))"

section \<open>The exponent\<close>

lemma ilog2_nonneg [simp]: "0 \<le> ilog2 n"
  by (induction n rule: ilog2.induct) (subst ilog2.simps, auto)

lemma ilog2_bounds: "0 < n \<Longrightarrow> 2 ^ nat (ilog2 n) \<le> n \<and> n < 2 ^ Suc (nat (ilog2 n))"
proof (induction n rule: ilog2.induct)
  case (1 n)
  show ?case
  proof (cases "n < 2")
    case True
    with 1(2) show ?thesis by (simp add: ilog2.simps [of n])
  next
    case False
    with 1 have "2 ^ nat (ilog2 (n div 2)) \<le> n div 2" "n div 2 < 2 ^ Suc (nat (ilog2 (n div 2)))" by auto
    then have "2 * 2 ^ nat (ilog2 (n div 2)) \<le> n" "n < 2 * 2 ^ Suc (nat (ilog2 (n div 2)))" by linarith+
    with False show ?thesis by (simp add: ilog2.simps [of n] nat_add_distrib)
  qed
qed

lemma ilog2_powi:
  assumes "0 < n"
  shows "2 powi ilog2 n \<le> (of_int n :: rat)" "(of_int n :: rat) < 2 * 2 powi ilog2 n"
proof -
  have "of_int (2 ^ nat (ilog2 n)) \<le> (of_int n :: rat)" "(of_int n :: rat) < of_int (2 ^ Suc (nat (ilog2 n)))"
    using ilog2_bounds [OF assms] by (simp_all only: of_int_le_iff of_int_less_iff)
  then show "2 powi ilog2 n \<le> (of_int n :: rat)" "(of_int n :: rat) < 2 * 2 powi ilog2 n"
    by (simp_all add: power_int_def)
qed

lemma binexp_bounds:
  assumes "0 < x"
  shows "2 powi binexp x \<le> x" "x < 2 powi (binexp x + 1)"
proof -
  obtain a b where q: "quotient_of x = (a, b)" by (cases "quotient_of x")
  then have b: "0 < b" and x: "x = of_int a / of_int b"
    using quotient_of_denom_pos quotient_of_div by auto
  with assms have a: "0 < a" by (simp add: zero_less_divide_iff)
  let ?e = "ilog2 a - ilog2 b"
  note A = ilog2_powi [OF a] and B = ilog2_powi [OF b]
  have "x \<le> of_int a / 2 powi ilog2 b" unfolding x using B(1) a b by (intro divide_left_mono) auto
  also have "\<dots> < 2 * 2 powi ilog2 a / 2 powi ilog2 b" using A(2) by (intro divide_strict_right_mono) auto
  finally have up: "x < 2 powi (?e + 1)" by (simp add: power_int_add_1 power_int_diff mult.commute)
  have "2 powi ilog2 a / (2 * 2 powi ilog2 b) < (2 powi ilog2 a / of_int b :: rat)"
    using B(2) b by (intro divide_strict_left_mono) auto
  also have "\<dots> \<le> x" unfolding x using A(1) b by (intro divide_right_mono) auto
  finally have lo: "2 powi (?e - 1) < x" by (simp add: power_int_diff mult.commute)
  from lo up show "2 powi binexp x \<le> x" "x < 2 powi (binexp x + 1)"
    by (auto simp: binexp_def q Let_def)
qed

section \<open>The rounding error\<close>

lemma half_even_error: "\<bar>of_int (half_even m) - m\<bar> \<le> 1 / 2"
proof -
  have "of_int \<lfloor>m\<rfloor> \<le> m" "m < of_int \<lfloor>m\<rfloor> + 1" by linarith+
  then show ?thesis by (auto simp: half_even_def Let_def abs_le_iff)
qed

lemma half_even_int [simp]: "half_even (of_int n) = n"
  by (simp add: half_even_def)

lemma half_even_eq: "\<bar>m - of_int n\<bar> < 1 / 2 \<Longrightarrow> half_even m = n"
  using half_even_error [of m] by linarith

lemma half_even_nonneg: "0 \<le> m \<Longrightarrow> 0 \<le> half_even m"
  by (auto simp: half_even_def Let_def)

lemma quantum_pos [simp]: "0 < quantum x" "quantum x \<noteq> 0"
  by (simp_all add: quantum_def)

text \<open>The nearest multiple of the quantum.\<close>

definition nearest :: "rat \<Rightarrow> rat" where
  "nearest x = of_int (half_even (x / quantum x)) * quantum x"

lemma nearest_error: "\<bar>nearest x - x\<bar> \<le> quantum x / 2"
proof -
  have "nearest x - x = (of_int (half_even (x / quantum x)) - x / quantum x) * quantum x"
    by (simp add: nearest_def left_diff_distrib)
  then have "\<bar>nearest x - x\<bar> = \<bar>of_int (half_even (x / quantum x)) - x / quantum x\<bar> * quantum x"
    by (simp add: abs_mult less_imp_le)
  also have "\<dots> \<le> 1 / 2 * quantum x"
    using half_even_error by (intro mult_right_mono) (auto intro: less_imp_le)
  finally show ?thesis by simp
qed

lemma binexp_less:
  assumes "x \<noteq> 0" "\<bar>x\<bar> < 2 powi k"
  shows "binexp \<bar>x\<bar> < k"
proof (rule ccontr)
  assume "\<not> binexp \<bar>x\<bar> < k"
  then have "(2 :: rat) powi k \<le> 2 powi binexp \<bar>x\<bar>" by (intro power_int_increasing) auto
  with assms binexp_bounds(1) [of "\<bar>x\<bar>"] show False by simp
qed

lemma binexp_ge:
  assumes "2 powi k \<le> \<bar>x\<bar>"
  shows "k \<le> binexp \<bar>x\<bar>"
proof (rule ccontr)
  assume "\<not> k \<le> binexp \<bar>x\<bar>"
  then have "(2 :: rat) powi (binexp \<bar>x\<bar> + 1) \<le> 2 powi k" by (intro power_int_increasing) auto
  moreover have "0 < \<bar>x\<bar>" using assms by (rule less_le_trans [rotated]) simp
  ultimately show False using assms binexp_bounds(2) [of "\<bar>x\<bar>"] by simp
qed

lemma quantum_le:
  assumes "x \<noteq> 0" "\<bar>x\<bar> < 2 powi (k + 53)" "- 1074 \<le> k"
  shows "quantum x \<le> 2 powi k"
  using binexp_less [OF assms(1,2)] assms(3) unfolding quantum_def by (intro power_int_increasing) auto

text \<open>Integers below \<open>2 ^ 53\<close> are exact.\<close>

lemma of_integer_exact:
  assumes "\<bar>n\<bar> < 2 ^ 53"
  shows "of_integer n = Fin (of_int n)"
proof (cases "n = 0")
  case False
  let ?x = "of_int n :: rat" and ?e = "binexp \<bar>of_int n\<bar>"
  have bound: "\<bar>?x\<bar> < 2 ^ 53" using assms by (metis of_int_abs of_int_less_iff of_int_numeral of_int_power)
  have e: "?e < 53" using False bound by (intro binexp_less) auto
  have "1 \<le> \<bar>?x\<bar>" using False by (metis abs_ge_zero int_one_le_iff_zero_less le_less of_int_1_le_iff of_int_abs zero_less_abs_iff)
  then have "0 \<le> ?e" by (intro binexp_ge) simp
  with e have "quantum ?x = 1 / 2 ^ nat (52 - ?e)"
    by (simp add: quantum_def power_int_def divide_simps power_inverse)
  then have q: "?x / quantum ?x = of_int (n * 2 ^ nat (52 - ?e))" "of_int (n * 2 ^ nat (52 - ?e)) * quantum ?x = ?x"
    by simp_all
  have "(2 :: rat) ^ 53 \<le> 2 ^ 1024" by (rule power_increasing) simp_all
  with bound have "\<bar>?x\<bar> < 2 ^ 1024" by linarith
  then show ?thesis using False by (simp only: of_integer_def round64_def q half_even_int Let_def) simp
qed (simp add: of_integer_def round64_def)

text \<open>Values that are not huge round to a float at most half a quantum away.\<close>

lemma round64_near:
  assumes "\<bar>x\<bar> < 2 ^ 1023"
  shows "round64 x = Fin (if x = 0 then 0 else nearest x)"
proof (cases "x = 0")
  case False
  have "quantum x \<le> 2 powi 971" using assms False by (intro quantum_le) simp_all
  with nearest_error [of x] have "\<bar>nearest x - x\<bar> \<le> 2 ^ 971" by simp
  moreover have "(2 :: rat) ^ 971 \<le> 2 ^ 1023" by (rule power_increasing) simp_all
  ultimately have "\<bar>nearest x\<bar> < 2 ^ 1023 + 2 ^ 1023" using assms by linarith
  then have "\<bar>nearest x\<bar> < 2 ^ 1024" by simp
  with False show ?thesis by (simp add: round64_def nearest_def)
qed (simp add: round64_def)

section \<open>Signs\<close>

text \<open>Not negative and not \<open>NaN\<close>.\<close>

fun fnonneg :: "float64 \<Rightarrow> bool" where
  "fnonneg (Fin r) = (0 \<le> r)"
| "fnonneg (Infinite s) = (\<not> s)"
| "fnonneg NaN = False"

lemma round64_nonneg: "0 \<le> x \<Longrightarrow> fnonneg (round64 x)"
  by (auto simp: round64_def Let_def half_even_nonneg less_imp_le [OF quantum_pos(1)])

lemma fadd_nonneg: "fnonneg a \<Longrightarrow> fnonneg b \<Longrightarrow> fnonneg (fadd a b)"
  by (cases "(a, b)" rule: fadd.cases) (auto simp: round64_nonneg)

lemma fadd_NaN [simp]: "fadd NaN y = NaN" "fadd x NaN = NaN"
  by (cases y; simp) (cases x; simp)

lemma fmul_NaN [simp]: "fmul NaN y = NaN" "fmul x NaN = NaN"
  by (cases y; simp) (cases x; simp)

lemma feq_NaN [simp]: "\<not> feq NaN y" "\<not> feq x NaN"
  by (cases y; simp) (cases x; simp)


section \<open>Durations\<close>

text \<open>\<open>time.Duration.Seconds\<close> of a number of nanoseconds.\<close>

definition Duration_Seconds :: "int \<Rightarrow> float64" where
  "Duration_Seconds d =
     (let sec = (if 0 \<le> d then d div 1000000000 else - ((- d) div 1000000000)); nsec = d - sec * 1000000000 in
      fadd (of_integer sec) (fdiv (of_integer nsec) (Fin 1000000000)))"

lemma round64_bound:
  assumes "\<bar>x\<bar> < 2 powi (k + 53)" "- 1074 \<le> k" "k \<le> 900"
  obtains r where "round64 x = Fin r" "\<bar>r - x\<bar> \<le> 2 powi k / 2"
proof (cases "x = 0")
  case False
  have "(2 :: rat) powi (k + 53) \<le> 2 powi 1023" using assms(3) by (intro power_int_increasing) auto
  with assms(1) have "\<bar>x\<bar> < 2 ^ 1023" by simp
  from round64_near [OF this] nearest_error [of x] quantum_le [OF False assms(1,2)] False
  show ?thesis by (intro that [of "nearest x"]) auto
qed (auto simp: round64_def intro: that)

text \<open>Up to \<open>2 ^ 24\<close> seconds the conversion to whole seconds is exact: the two rounding errors together stay below the nanosecond
  that separates the duration from the next second.\<close>

lemma Seconds_exact:
  assumes "0 \<le> d" "d < 2 ^ 24 * 1000000000"
  shows "to_int64 (Duration_Seconds d) = word_of_int (d div 1000000000)"
proof -
  let ?s = "d div 1000000000" and ?n = "d mod 1000000000"
  have s: "0 \<le> ?s" "?s < 2 ^ 24" and n: "0 \<le> ?n" "?n < 1000000000" using assms by (auto simp: div_less_iff_less_mult)
  have D: "Duration_Seconds d = fadd (Fin (of_int ?s)) (round64 (of_int ?n / 1000000000))"
    using assms s n of_integer_exact [of ?s] of_integer_exact [of ?n]
    by (simp add: Duration_Seconds_def minus_div_mult_eq_mod)
  show ?thesis
  proof (cases "?n = 0")
    case True
    have "of_integer ?s = Fin (of_int ?s)" using s by (intro of_integer_exact) auto
    with True s show ?thesis by (simp add: D round64_def [of 0] of_integer_def rat_trunc_def)
  next
    case False
    define x :: rat where "x = of_int ?n / 1000000000"
    with False n have x: "1 / 1000000000 \<le> x" "x \<le> 999999999 / 1000000000" by (simp_all add: divide_simps)
    then obtain b where b: "round64 x = Fin b" "\<bar>b - x\<bar> \<le> 2 powi (-53) / 2" 
      using round64_bound [of x "-53"] by (auto simp: abs_less_iff)
    have powers: "(2 :: rat) powi (-53) = 1 / 9007199254740992" "(2 :: rat) powi (-29) = 1 / 536870912"
      by (simp_all add: power_int_minus_divide)
    from b(2) x have b1: "0 \<le> b" "b < 1" unfolding powers by linarith+
    have s1: "0 \<le> (of_int ?s :: rat)" "(of_int ?s :: rat) \<le> 16777215" using s by simp_all
    then obtain r where r: "round64 (of_int ?s + b) = Fin r" "\<bar>r - (of_int ?s + b)\<bar> \<le> 2 powi (-29) / 2"
      using b1 round64_bound [of "of_int ?s + b" "-29"] by (auto simp: abs_less_iff)
    have "of_int ?s \<le> r" "r < of_int ?s + 1" using r(2) b(2) x unfolding powers by linarith+
    then have "rat_trunc r = ?s" using s1 by (simp add: rat_trunc_def floor_eq_iff)
    with s show ?thesis by (simp add: D b r flip: x_def)
  qed
qed

text \<open>Evaluation, given the exponent and the significand.\<close>

lemma round64_eval:
  assumes "2 powi k \<le> \<bar>x\<bar>" "\<bar>x\<bar> < 2 powi (k + 1)" "- 1022 \<le> k" "k < 1000"
    and "\<bar>x * 2 powi (52 - k) - of_int m\<bar> < 1 / 2"
  shows "round64 x = Fin (of_int m * 2 powi (k - 52))"
proof -
  have x: "x \<noteq> 0" using assms(1) by (metis abs_zero linorder_not_less zero_less_numeral zero_less_power_int)
  have "binexp \<bar>x\<bar> = k" using binexp_less [OF x assms(2)] binexp_ge [OF assms(1)] by simp
  then have q: "quantum x = 2 powi (k - 52)" using assms(3) by (simp add: quantum_def max_def)
  have "x / quantum x = x * 2 powi (52 - k)" by (simp add: q power_int_diff)
  with assms(5) q half_even_eq have "nearest x = of_int m * 2 powi (k - 52)" by (simp add: nearest_def)
  moreover have "(2 :: rat) powi (k + 1) \<le> 2 powi 1023" using assms(4) by (intro power_int_increasing) auto
  ultimately show ?thesis using round64_near [of x] assms(2) x by simp
qed

text \<open>The bound is sharp: one nanosecond short of \<open>2 ^ 25\<close> seconds counts as \<open>2 ^ 25\<close>.\<close>

lemma late_seconds: "to_int64 (Duration_Seconds (2 ^ 25 * 1000000000 - 1)) = word_of_int (2 ^ 25)"
proof -
  have "of_integer 33554431 = Fin 33554431" "of_integer 999999999 = Fin 999999999"
    using of_integer_exact [of 33554431] of_integer_exact [of 999999999] by simp_all
  moreover have "round64 (999999999 / 1000000000) = Fin (9007199245733793 / 9007199254740992)"
    by (subst round64_eval [where k = "-1" and m = 9007199245733793]) (simp_all add: power_int_minus_divide)
  moreover have "round64 (33554431 + 9007199245733793 / 9007199254740992) = Fin 33554432"
    by (subst round64_eval [where k = 24 and m = 9007199254740992]) (simp_all add: power_int_minus_divide)
  ultimately show ?thesis by (simp add: Duration_Seconds_def rat_trunc_def)
qed

end
