(* ===== verification/Charging.thy ===== *)
theory Charging
  imports Faas Float64
begin

text \<open>
  Converged charging by the CHF (\<^verbatim>\<open>functions/chf\<close>): a charging session per PDU session under
  \<^verbatim>\<open>charging-sessions/{id}\<close>, volume reports that extend the quota, and the charging data record a
  release leaves under \<^verbatim>\<open>charging-records/cdr-{id}\<close>.
\<close>

definition chg_disabled :: response where
  "chg_disabled = json_resp 200 (JObj [(''status'', JStr ''disabled'')])"

definition chg_key :: "string \<Rightarrow> string" where
  "chg_key i = ''charging-sessions/'' @ i"

definition cdr_key :: "string \<Rightarrow> string" where
  "cdr_key i = ''charging-records/'' @ i"

section \<open>Create\<close>

record ChargingCreateRequest =
  ccq_SUPI :: string
  ccq_PDUSessionID :: string
  ccq_DNN :: string
  ccq_SNSSAI :: SNSSAI
  ccq_ChargingType :: string

definition ChargingCreateRequest_zero :: ChargingCreateRequest where
  "ChargingCreateRequest_zero = \<lparr>ccq_SUPI = [],
     ccq_PDUSessionID = [],
     ccq_DNN = [],
     ccq_SNSSAI = SNSSAI_zero,
     ccq_ChargingType = []\<rparr>"

definition ChargingCreateRequest_fields :: "ChargingCreateRequest fields" where
  "ChargingCreateRequest_fields = [(''supi'', fld ccq_SUPI ccq_SUPI_update dec_string),
     (''pdu_session_id'', fld ccq_PDUSessionID ccq_PDUSessionID_update dec_string),
     (''dnn'', fld ccq_DNN ccq_DNN_update dec_string),
     (''snssai'', fld ccq_SNSSAI ccq_SNSSAI_update unmarshal_SNSSAI),
     (''charging_type'', fld ccq_ChargingType ccq_ChargingType_update dec_string)]"

definition unmarshal_ChargingCreateRequest :: "ChargingCreateRequest decoder" where
  "unmarshal_ChargingCreateRequest = dec_struct ChargingCreateRequest_fields"

definition marshal_ChargingCreateRequest :: "ChargingCreateRequest \<Rightarrow> json" where
  "marshal_ChargingCreateRequest x = JObj ([(''supi'', JStr (ccq_SUPI x)),
     (''pdu_session_id'', JStr (ccq_PDUSessionID x)),
     (''dnn'', JStr (ccq_DNN x)),
     (''snssai'', marshal_SNSSAI (ccq_SNSSAI x))] @
     omitempty (ccq_ChargingType x = []) (''charging_type'', JStr (ccq_ChargingType x)))"

lemma ChargingCreateRequest_codec [simp, codec]: "unmarshal_ChargingCreateRequest (marshal_ChargingCreateRequest x) ChargingCreateRequest_zero = Some x"
  by (cases x) (simp add: unmarshal_ChargingCreateRequest_def marshal_ChargingCreateRequest_def ChargingCreateRequest_fields_def ChargingCreateRequest_zero_def json_codec)

lemma ChargingCreateRequest_not_null [simp]: "marshal_ChargingCreateRequest x \<noteq> JNull"
  by (simp add: marshal_ChargingCreateRequest_def)

definition defaultGrantedUnits :: uint64 where
  "defaultGrantedUnits = 1000000"

definition chf_charging_create :: "(string \<Rightarrow> string) \<Rightarrow> 's KVStore \<Rightarrow> request \<Rightarrow> ('s, response) handler" where
  "chf_charging_create getenv kv req =
     (if getenv ''ENABLE_CHARGING'' \<noteq> ''true'' then State_Monad.return chg_disabled
      else case unmarshal_body unmarshal_ChargingCreateRequest ChargingCreateRequest_zero (rq_Body req) of
        None \<Rightarrow> State_Monad.return (errorResp 400 (''invalid JSON: '' @ err_text JsonErr))
      | Some cReq \<Rightarrow>
        if ccq_SUPI cReq = [] then State_Monad.return (errorResp 400 ''supi is required'')
        else if ccq_PDUSessionID cReq = [] then State_Monad.return (errorResp 400 ''pdu_session_id is required'')
        else do {
          _ \<leftarrow> modify (\<lambda>w. w\<lparr>w_chargingCounter := w_chargingCounter w + 1\<rparr>);
          w \<leftarrow> State_Monad.get;
          let chargingID = ''chg-'' @ ccq_SUPI cReq @ ''-'' @ show_nat (unat (w_chargingCounter w));
          now \<leftarrow> timeNow;
          let session = \<lparr>cs_ChargingID = chargingID, cs_SUPI = ccq_SUPI cReq, cs_PDUSessionID = ccq_PDUSessionID cReq,
            cs_DNN = ccq_DNN cReq, cs_SNSSAI = ccq_SNSSAI cReq,
            cs_ChargingType = (if ccq_ChargingType cReq = [] then ''OFFLINE'' else ccq_ChargingType cReq),
            cs_State = ''ACTIVE'', cs_VolumeUplink = 0, cs_VolumeDownlink = 0,
            cs_GrantedUnits = defaultGrantedUnits, cs_CreatedAt = now, cs_LastUpdated = now\<rparr>;
          e \<leftarrow> kvPut kv (chg_key chargingID) (marshal_ChargingSession session);
          case e of
            Some err \<Rightarrow> State_Monad.return (errorResp 500 (''store session: '' @ err_text err))
          | None \<Rightarrow> State_Monad.return (json_resp 201 (marshal_ChargingSession session))
        })"

section \<open>Update\<close>

record ChargingUpdateRequest =
  cuq_ChargingID :: string
  cuq_VolumeUplink :: uint64
  cuq_VolumeDownlink :: uint64

definition ChargingUpdateRequest_zero :: ChargingUpdateRequest where
  "ChargingUpdateRequest_zero = \<lparr>cuq_ChargingID = [],
     cuq_VolumeUplink = 0,
     cuq_VolumeDownlink = 0\<rparr>"

definition ChargingUpdateRequest_fields :: "ChargingUpdateRequest fields" where
  "ChargingUpdateRequest_fields = [(''charging_id'', fld cuq_ChargingID cuq_ChargingID_update dec_string),
     (''volume_uplink'', fld cuq_VolumeUplink cuq_VolumeUplink_update dec_uint),
     (''volume_downlink'', fld cuq_VolumeDownlink cuq_VolumeDownlink_update dec_uint)]"

definition unmarshal_ChargingUpdateRequest :: "ChargingUpdateRequest decoder" where
  "unmarshal_ChargingUpdateRequest = dec_struct ChargingUpdateRequest_fields"

definition marshal_ChargingUpdateRequest :: "ChargingUpdateRequest \<Rightarrow> json" where
  "marshal_ChargingUpdateRequest x = JObj ([(''charging_id'', JStr (cuq_ChargingID x)),
     (''volume_uplink'', enc_uint (cuq_VolumeUplink x)),
     (''volume_downlink'', enc_uint (cuq_VolumeDownlink x))])"

lemma ChargingUpdateRequest_codec [simp, codec]: "unmarshal_ChargingUpdateRequest (marshal_ChargingUpdateRequest x) ChargingUpdateRequest_zero = Some x"
  by (cases x) (simp add: unmarshal_ChargingUpdateRequest_def marshal_ChargingUpdateRequest_def ChargingUpdateRequest_fields_def ChargingUpdateRequest_zero_def json_codec)

lemma ChargingUpdateRequest_not_null [simp]: "marshal_ChargingUpdateRequest x \<noteq> JNull"
  by (simp add: marshal_ChargingUpdateRequest_def)

definition quotaIncrement :: uint64 where
  "quotaIncrement = 1000000"

text \<open>The usage report on the session: the volumes are summed in \<open>uint64\<close>; the quota grows once when
  the total exceeds it.\<close>

definition report_usage :: "ChargingUpdateRequest \<Rightarrow> ChargingSession \<Rightarrow> ChargingSession \<times> bool" where
  "report_usage uReq s =
     (let s1 = s\<lparr>cs_VolumeUplink := cs_VolumeUplink s + cuq_VolumeUplink uReq,
                 cs_VolumeDownlink := cs_VolumeDownlink s + cuq_VolumeDownlink uReq\<rparr>;
          totalUsage = cs_VolumeUplink s1 + cs_VolumeDownlink s1 in
      if totalUsage > cs_GrantedUnits s1 then (s1\<lparr>cs_GrantedUnits := cs_GrantedUnits s1 + quotaIncrement\<rparr>, True)
      else (s1, False))"

text \<open>The response embeds the session's members and adds one.\<close>

definition marshal_ChargingUpdateResponse :: "ChargingSession \<Rightarrow> bool \<Rightarrow> json" where
  "marshal_ChargingUpdateResponse s granted =
     (case marshal_ChargingSession s of
        JObj ms \<Rightarrow> JObj (ms @ [(''additional_quota_granted'', JBool granted)])
      | j \<Rightarrow> j)"

definition chg_failure :: "string \<Rightarrow> goerr \<Rightarrow> response" where
  "chg_failure i e =
     (if is_not_found e then errorResp 404 (''charging session '' @ i @ '' not found'')
      else errorResp 500 (''get session: '' @ err_text e))"

definition chf_charging_update :: "(string \<Rightarrow> string) \<Rightarrow> 's KVStore \<Rightarrow> request \<Rightarrow> ('s, response) handler" where
  "chf_charging_update getenv kv req =
     (if getenv ''ENABLE_CHARGING'' \<noteq> ''true'' then State_Monad.return chg_disabled
      else case unmarshal_body unmarshal_ChargingUpdateRequest ChargingUpdateRequest_zero (rq_Body req) of
        None \<Rightarrow> State_Monad.return (errorResp 400 (''invalid JSON: '' @ err_text JsonErr))
      | Some uReq \<Rightarrow>
        if cuq_ChargingID uReq = [] then State_Monad.return (errorResp 400 ''charging_id is required'')
        else do {
          r \<leftarrow> kvGet kv (chg_key (cuq_ChargingID uReq)) unmarshal_ChargingSession ChargingSession_zero;
          orReturn r
            (\<lambda>e. State_Monad.return (chg_failure (cuq_ChargingID uReq) e))
            (\<lambda>session0. do {
               let (session1, granted) = report_usage uReq session0;
               now \<leftarrow> timeNow;
               let session = session1\<lparr>cs_LastUpdated := now\<rparr>;
               e \<leftarrow> kvPut kv (chg_key (cuq_ChargingID uReq)) (marshal_ChargingSession session);
               case e of
                 Some err \<Rightarrow> State_Monad.return (errorResp 500 (''update session: '' @ err_text err))
               | None \<Rightarrow> State_Monad.return (json_resp 200 (marshal_ChargingUpdateResponse session granted))
             })
        })"

section \<open>Release\<close>

record ChargingReleaseRequest =
  crq_ChargingID :: string

definition ChargingReleaseRequest_zero :: ChargingReleaseRequest where
  "ChargingReleaseRequest_zero = \<lparr>crq_ChargingID = []\<rparr>"

definition ChargingReleaseRequest_fields :: "ChargingReleaseRequest fields" where
  "ChargingReleaseRequest_fields = [(''charging_id'', fld crq_ChargingID crq_ChargingID_update dec_string)]"

definition unmarshal_ChargingReleaseRequest :: "ChargingReleaseRequest decoder" where
  "unmarshal_ChargingReleaseRequest = dec_struct ChargingReleaseRequest_fields"

definition marshal_ChargingReleaseRequest :: "ChargingReleaseRequest \<Rightarrow> json" where
  "marshal_ChargingReleaseRequest x = JObj ([(''charging_id'', JStr (crq_ChargingID x))])"

lemma ChargingReleaseRequest_codec [simp, codec]: "unmarshal_ChargingReleaseRequest (marshal_ChargingReleaseRequest x) ChargingReleaseRequest_zero = Some x"
  by (cases x) (simp add: unmarshal_ChargingReleaseRequest_def marshal_ChargingReleaseRequest_def ChargingReleaseRequest_fields_def ChargingReleaseRequest_zero_def json_codec)

lemma ChargingReleaseRequest_not_null [simp]: "marshal_ChargingReleaseRequest x \<noteq> JNull"
  by (simp add: marshal_ChargingReleaseRequest_def)

text \<open>\<open>int64(now.Sub(start).Seconds())\<close>.\<close>

definition whole_seconds :: "int \<Rightarrow> int \<Rightarrow> int64" where
  "whole_seconds now start = to_int64 (Duration_Seconds (time_Since now start))"

lemma whole_seconds_exact:
  assumes "start \<le> now" "now - start < 2 ^ 24 * 1000000000"
  shows "sint (whole_seconds now start) = (now - start) div 1000000000"
proof -
  have "time_Since now start = now - start" using assms by (simp add: time_Since_def)
  moreover have "0 \<le> (now - start) div 1000000000" "(now - start) div 1000000000 < 2 ^ 24"
    using assms by (simp_all add: pos_imp_zdiv_nonneg_iff div_less_iff_less_mult)
  ultimately show ?thesis using Seconds_exact [of "now - start"] assms
    by (simp add: whole_seconds_def signed_take_bit_int_eq_self signed_of_int)
qed

definition make_cdr :: "string \<Rightarrow> ChargingSession \<Rightarrow> int \<Rightarrow> ChargingDataRecord" where
  "make_cdr chargingID s now =
     \<lparr>cdr_RecordID = ''cdr-'' @ chargingID, cdr_ChargingID = cs_ChargingID s, cdr_SUPI = cs_SUPI s,
      cdr_PDUSessionID = cs_PDUSessionID s, cdr_DNN = cs_DNN s, cdr_SNSSAI = cs_SNSSAI s,
      cdr_VolumeUplink = cs_VolumeUplink s, cdr_VolumeDownlink = cs_VolumeDownlink s,
      cdr_Duration = whole_seconds now (cs_CreatedAt s), cdr_StartTime = cs_CreatedAt s, cdr_EndTime = now\<rparr>"

definition chf_charging_release :: "(string \<Rightarrow> string) \<Rightarrow> 's KVStore \<Rightarrow> request \<Rightarrow> ('s, response) handler" where
  "chf_charging_release getenv kv req =
     (if getenv ''ENABLE_CHARGING'' \<noteq> ''true'' then State_Monad.return chg_disabled
      else case unmarshal_body unmarshal_ChargingReleaseRequest ChargingReleaseRequest_zero (rq_Body req) of
        None \<Rightarrow> State_Monad.return (errorResp 400 (''invalid JSON: '' @ err_text JsonErr))
      | Some rReq \<Rightarrow>
        if crq_ChargingID rReq = [] then State_Monad.return (errorResp 400 ''charging_id is required'')
        else do {
          r \<leftarrow> kvGet kv (chg_key (crq_ChargingID rReq)) unmarshal_ChargingSession ChargingSession_zero;
          orReturn r
            (\<lambda>e. State_Monad.return (chg_failure (crq_ChargingID rReq) e))
            (\<lambda>session. do {
               now \<leftarrow> timeNow;
               let cdr = make_cdr (crq_ChargingID rReq) session now;
               e \<leftarrow> kvPut kv (cdr_key (cdr_RecordID cdr)) (marshal_ChargingDataRecord cdr);
               case e of
                 Some err \<Rightarrow> State_Monad.return (errorResp 500 (''store CDR: '' @ err_text err))
               | None \<Rightarrow> do {
                   e2 \<leftarrow> kvDelete kv (chg_key (crq_ChargingID rReq));
                   case e2 of
                     Some err \<Rightarrow> State_Monad.return (errorResp 500 (''delete session: '' @ err_text err))
                   | None \<Rightarrow> State_Monad.return (json_resp 200 (marshal_ChargingDataRecord cdr))
                 }
             })
        })"

section \<open>Accounting\<close>

definition usage_req :: "string \<Rightarrow> uint64 \<times> uint64 \<Rightarrow> request" where
  "usage_req i v = \<lparr>rq_Body = Some (marshal_ChargingUpdateRequest
     \<lparr>cuq_ChargingID = i, cuq_VolumeUplink = fst v, cuq_VolumeDownlink = snd v\<rparr>), rq_QueryString = []\<rparr>"

definition end_req :: "string \<Rightarrow> request" where
  "end_req i = \<lparr>rq_Body = Some (marshal_ChargingReleaseRequest \<lparr>crq_ChargingID = i\<rparr>), rq_QueryString = []\<rparr>"

text \<open>A sequence of usage reports for one session.\<close>

fun report_all :: "(string \<Rightarrow> string) \<Rightarrow> 's KVStore \<Rightarrow> string \<Rightarrow> (uint64 \<times> uint64) list \<Rightarrow> ('s, unit) handler" where
  "report_all getenv kv i [] = State_Monad.return ()"
| "report_all getenv kv i (v # vs) =
     State_Monad.bind (chf_charging_update getenv kv (usage_req i v)) (\<lambda>_. report_all getenv kv i vs)"

definition charged :: "(string \<rightharpoonup> json) \<Rightarrow> string \<Rightarrow> ChargingSession \<Rightarrow> bool" where
  "charged s i x \<longleftrightarrow> s (chg_key i) = Some (marshal_ChargingSession x)"

lemma report_usage_volumes:
  "fst (report_usage u x) = x\<lparr>cs_VolumeUplink := cs_VolumeUplink x + cuq_VolumeUplink u,
     cs_VolumeDownlink := cs_VolumeDownlink x + cuq_VolumeDownlink u, cs_GrantedUnits := cs_GrantedUnits (fst (report_usage u x))\<rparr>"
  by (simp add: report_usage_def Let_def)

context reliable_store
begin

lemma chf_update_ok:
  assumes "getenv ''ENABLE_CHARGING'' = ''true''" "i \<noteq> []" "charged (view (w_store w)) i x"
  shows "wp (chf_charging_update getenv kv (usage_req i v)) (\<lambda>r w'. rs_StatusCode r = 200 \<and>
     view (w_store w') = (view (w_store w))(chg_key i \<mapsto> marshal_ChargingSession
        ((fst (report_usage \<lparr>cuq_ChargingID = i, cuq_VolumeUplink = fst v, cuq_VolumeDownlink = snd v\<rparr> x))\<lparr>cs_LastUpdated := w_times w (w_reads w)\<rparr>))) w"
  using assms
  by (auto simp: chf_charging_update_def usage_req_def charged_def wp Let_def split: prod.splits
      intro!: wp_kvGet_reliable wp_kvPut_reliable)

lemma chf_update_charged:
  assumes "getenv ''ENABLE_CHARGING'' = ''true''" "i \<noteq> []" "charged (view (w_store w)) i x"
  shows "wp (chf_charging_update getenv kv (usage_req i v)) (\<lambda>_ w'. \<exists>g now. charged (view (w_store w')) i
     (x\<lparr>cs_VolumeUplink := cs_VolumeUplink x + fst v, cs_VolumeDownlink := cs_VolumeDownlink x + snd v,
        cs_GrantedUnits := g, cs_LastUpdated := now\<rparr>)) w"
proof (rule wp_mono [OF chf_update_ok [where getenv = getenv, OF assms]], elim conjE)
  fix r w'
  let ?u = "\<lparr>cuq_ChargingID = i, cuq_VolumeUplink = fst v, cuq_VolumeDownlink = snd v\<rparr>"
  assume "view (w_store w') = (view (w_store w))(chg_key i \<mapsto> marshal_ChargingSession ((fst (report_usage ?u x))\<lparr>cs_LastUpdated := w_times w (w_reads w)\<rparr>))"
  then have "charged (view (w_store w')) i ((fst (report_usage ?u x))\<lparr>cs_LastUpdated := w_times w (w_reads w)\<rparr>)"
    by (simp add: charged_def)
  then show "\<exists>g now. charged (view (w_store w')) i
     (x\<lparr>cs_VolumeUplink := cs_VolumeUplink x + fst v, cs_VolumeDownlink := cs_VolumeDownlink x + snd v,
        cs_GrantedUnits := g, cs_LastUpdated := now\<rparr>)"
    by (subst (asm) report_usage_volumes) (auto simp: add.commute)
qed

lemma report_all_ok:
  assumes "getenv ''ENABLE_CHARGING'' = ''true''" "i \<noteq> []" "charged (view (w_store w)) i x"
  shows "wp (report_all getenv kv i vs) (\<lambda>_ w'. \<exists>g now. charged (view (w_store w')) i
     (x\<lparr>cs_VolumeUplink := cs_VolumeUplink x + sum_list (map fst vs), cs_VolumeDownlink := cs_VolumeDownlink x + sum_list (map snd vs),
        cs_GrantedUnits := g, cs_LastUpdated := now\<rparr>)) w"
  using assms(3)
proof (induction vs arbitrary: w x)
  case Nil
  show ?case unfolding report_all.simps wp
    by (rule exI [of _ "cs_GrantedUnits x"], rule exI [of _ "cs_LastUpdated x"]) (use Nil in simp)
next
  case (Cons v vs)
  let ?x = "\<lambda>g now. x\<lparr>cs_VolumeUplink := cs_VolumeUplink x + fst v, cs_VolumeDownlink := cs_VolumeDownlink x + snd v,
           cs_GrantedUnits := g, cs_LastUpdated := now\<rparr>"
  show ?case
    unfolding report_all.simps wp
  proof (rule wp_mono [OF chf_update_charged [where getenv = getenv, OF assms(1,2) Cons.prems]], elim exE)
    fix r g now and w1 :: "'a world"
    assume "charged (view (w_store w1)) i (?x g now)"
    from Cons.IH [OF this] show "wp (report_all getenv kv i vs) (\<lambda>_ w'. \<exists>g now. charged (view (w_store w')) i
     (x\<lparr>cs_VolumeUplink := cs_VolumeUplink x + sum_list (map fst (v # vs)), cs_VolumeDownlink := cs_VolumeDownlink x + sum_list (map snd (v # vs)),
        cs_GrantedUnits := g, cs_LastUpdated := now\<rparr>)) w1"
      by (simp add: add.assoc)
  qed
qed

lemma chf_release_ok:
  assumes "getenv ''ENABLE_CHARGING'' = ''true''" "i \<noteq> []" "charged (view (w_store w)) i x"
  shows "wp (chf_charging_release getenv kv (end_req i)) (\<lambda>r w'. let cdr = make_cdr i x (w_times w (w_reads w)) in
     r = json_resp 200 (marshal_ChargingDataRecord cdr) \<and>
     view (w_store w') = (view (w_store w))(cdr_key (''cdr-'' @ i) \<mapsto> marshal_ChargingDataRecord cdr, chg_key i := None)) w"
  using assms
  by (auto simp: chf_charging_release_def end_req_def charged_def wp Let_def make_cdr_def intro!: wp_kvGet_reliable wp_kvPut_reliable wp_kvDelete_reliable)

end

text \<open>C39: releasing a charging session after any sequence of usage reports writes a charging data record with the
  total volumes reported (modulo $2^{64}$, the width of the counters), for the subscriber and PDU session of the
  charging session, and removes the session; the record's duration, which the code computes in \<open>float64\<close>, is the exact
  number of whole seconds between the creation and the release for sessions of less than $2^{24}$ seconds (194 days).\<close>

theorem charging_accounts_all:
  assumes "reliable_store kv view" "getenv ''ENABLE_CHARGING'' = ''true''" "i \<noteq> []"
    and "view (w_store w) (chg_key i) = Some (marshal_ChargingSession x)"
    and "run_state (report_all getenv kv i vs) w = (u, w1)"
    and "run_state (chf_charging_release getenv kv (end_req i)) w1 = (r, w2)"
  shows "\<exists>cdr. r = json_resp 200 (marshal_ChargingDataRecord cdr) \<and>
     view (w_store w2) (cdr_key (''cdr-'' @ i)) = Some (marshal_ChargingDataRecord cdr) \<and>
     view (w_store w2) (chg_key i) = None \<and>
     cdr_SUPI cdr = cs_SUPI x \<and> cdr_PDUSessionID cdr = cs_PDUSessionID x \<and>
     cdr_VolumeUplink cdr = cs_VolumeUplink x + sum_list (map fst vs) \<and>
     cdr_VolumeDownlink cdr = cs_VolumeDownlink x + sum_list (map snd vs) \<and>
     cdr_StartTime cdr = cs_CreatedAt x \<and> cdr_EndTime cdr = w_times w1 (w_reads w1) \<and>
     (cdr_StartTime cdr \<le> cdr_EndTime cdr \<and> cdr_EndTime cdr - cdr_StartTime cdr < 2 ^ 24 * 1000000000 \<longrightarrow>
        sint (cdr_Duration cdr) = (cdr_EndTime cdr - cdr_StartTime cdr) div 1000000000)"
proof -
  have "charged (view (w_store w)) i x" using assms(4) by (simp add: charged_def)
  from wpD [OF reliable_store.report_all_ok [where getenv = getenv, OF assms(1-3) this] assms(5)]
  obtain g now where c: "charged (view (w_store w1)) i (x\<lparr>cs_VolumeUplink := cs_VolumeUplink x + sum_list (map fst vs),
      cs_VolumeDownlink := cs_VolumeDownlink x + sum_list (map snd vs), cs_GrantedUnits := g, cs_LastUpdated := now\<rparr>)" by blast
  have k: "cdr_key a \<noteq> chg_key b" for a b by (simp add: cdr_key_def chg_key_def)
  show ?thesis
    using wpD [OF reliable_store.chf_release_ok [where getenv = getenv, OF assms(1-3) c] assms(6), unfolded Let_def]
    by (intro exI conjI) (auto simp: k make_cdr_def whole_seconds_exact)
qed

definition sample_charge :: ChargingSession where
  "sample_charge = ChargingSession_zero\<lparr>cs_ChargingID := ''chg-imsi-1-1'', cs_SUPI := ''imsi-1'', cs_GrantedUnits := defaultGrantedUnits, cs_CreatedAt := 0\<rparr>"

definition charge_world :: "(string \<rightharpoonup> json) world" where
  "charge_world = (world_init [chg_key ''chg-imsi-1-1'' \<mapsto> marshal_ChargingSession sample_charge])\<lparr>w_times := \<lambda>n. int n * 1500000000\<rparr>"

lemma sample_reports:
  "wp (report_all all_on MockKVStore ''chg-imsi-1-1'' [(5, 7), (10, 20)]) (\<lambda>_ w. w_times w (w_reads w) = 3000000000) charge_world"
  by (simp add: chf_charging_update_def usage_req_def all_on_def wp Let_def charge_world_def world_init_def split_beta)

theorem charging_accounts_all_witness:
  "\<exists>cdr. w_store (snd (run_state (chf_charging_release all_on MockKVStore (end_req ''chg-imsi-1-1''))
       (snd (run_state (report_all all_on MockKVStore ''chg-imsi-1-1'' [(5, 7), (10, 20)]) charge_world)))) (cdr_key ''cdr-chg-imsi-1-1'') =
       Some (marshal_ChargingDataRecord cdr) \<and> cdr_VolumeUplink cdr = 15 \<and> cdr_VolumeDownlink cdr = 27 \<and>
       sint (cdr_Duration cdr) = 3"
proof -
  let ?w1 = "snd (run_state (report_all all_on MockKVStore ''chg-imsi-1-1'' [(5, 7), (10, 20)]) charge_world)"
  have "w_times ?w1 (w_reads ?w1) = 3000000000" using sample_reports by (simp add: wp_def split_beta del: report_all.simps)
  moreover have "all_on ''ENABLE_CHARGING'' = ''true''" "cs_CreatedAt sample_charge = 0" "cs_VolumeUplink sample_charge = 0"
    "cs_VolumeDownlink sample_charge = 0" "w_store charge_world (chg_key ''chg-imsi-1-1'') = Some (marshal_ChargingSession sample_charge)"
    by (simp_all add: all_on_def sample_charge_def ChargingSession_zero_def charge_world_def world_init_def)
  ultimately show ?thesis
    using charging_accounts_all [of MockKVStore "\<lambda>m. m" all_on "''chg-imsi-1-1''" charge_world sample_charge "[(5, 7), (10, 20)]",
      OF mock.reliable_store_axioms _ _ _ surjective_pairing surjective_pairing] by (auto simp del: report_all.simps)
qed

section \<open>Quota\<close>

text \<open>The volume used so far, as a number.\<close>

definition used_units :: "ChargingSession \<Rightarrow> nat" where
  "used_units x = unat (cs_VolumeUplink x) + unat (cs_VolumeDownlink x)"

fun report_usages :: "(uint64 \<times> uint64) list \<Rightarrow> ChargingSession \<Rightarrow> ChargingSession" where
  "report_usages [] x = x"
| "report_usages (v # vs) x =
     report_usages vs (fst (report_usage \<lparr>cuq_ChargingID = [], cuq_VolumeUplink = fst v, cuq_VolumeDownlink = snd v\<rparr> x))"

lemma unat_add64: "unat (a :: uint64) + unat b < 2 ^ 64 \<Longrightarrow> unat (a + b) = unat a + unat b"
  using unat_add_lem [of a b] by simp

text \<open>One report of at most a million units keeps the used volume within the grant.\<close>

lemma report_usage_quota:
  assumes "unat ul + unat dl \<le> 1000000" "used_units x \<le> unat (cs_GrantedUnits x)" "unat (cs_GrantedUnits x) < 2 ^ 63"
    and y: "y = fst (report_usage \<lparr>cuq_ChargingID = i, cuq_VolumeUplink = ul, cuq_VolumeDownlink = dl\<rparr> x)"
  shows "used_units y = used_units x + unat ul + unat dl" "used_units y \<le> unat (cs_GrantedUnits y)"
    "unat (cs_GrantedUnits y) \<le> unat (cs_GrantedUnits x) + 1000000"
proof -
  let ?u = "cs_VolumeUplink x" and ?d = "cs_VolumeDownlink x" and ?g = "cs_GrantedUnits x"
  have b: "unat ?u + unat ?d \<le> unat ?g" using assms(2) by (simp add: used_units_def)
  have ul: "unat (?u + ul) = unat ?u + unat ul" and dl: "unat (?d + dl) = unat ?d + unat dl"
    using b assms(1,3) by (simp_all add: unat_add64)
  have tot: "unat ((?u + ul) + (?d + dl)) = unat ?u + unat ul + unat ?d + unat dl"
    using b assms(1,3) ul dl by (subst unat_add64) simp_all
  have g: "unat (?g + quotaIncrement) = unat ?g + 1000000"
    using assms(3) by (subst unat_add64) (simp_all add: quotaIncrement_def)
  have vol: "cs_VolumeUplink y = ?u + ul" "cs_VolumeDownlink y = ?d + dl" by (simp_all add: y report_usage_def Let_def)
  have grant: "cs_GrantedUnits y = (if unat ?g < unat ?u + unat ul + unat ?d + unat dl then ?g + quotaIncrement else ?g)"
    using tot by (simp add: y report_usage_def Let_def word_less_nat_alt)
  show "used_units y = used_units x + unat ul + unat dl" by (simp add: used_units_def vol ul dl)
  then show "used_units y \<le> unat (cs_GrantedUnits y)"
    using b assms(1) by (auto simp: grant g used_units_def)
  show "unat (cs_GrantedUnits y) \<le> unat ?g + 1000000" by (simp add: grant g)
qed

text \<open>As long as every usage report is of at most a million units, the quota granted to a charging session
  covers the volume used, over any number of reports that fits the counters, and no volume is lost.\<close>

theorem charging_quota_covers:
  assumes "\<And>v. v \<in> set vs \<Longrightarrow> unat (fst v) + unat (snd v) \<le> 1000000"
    and "used_units x \<le> unat (cs_GrantedUnits x)" "unat (cs_GrantedUnits x) + 1000000 * length vs < 2 ^ 63"
  shows "used_units (report_usages vs x) \<le> unat (cs_GrantedUnits (report_usages vs x)) \<and>
    used_units (report_usages vs x) = used_units x + (\<Sum>v \<leftarrow> vs. unat (fst v) + unat (snd v))"
  using assms
proof (induction vs arbitrary: x)
  case (Cons v vs)
  let ?y = "fst (report_usage \<lparr>cuq_ChargingID = [], cuq_VolumeUplink = fst v, cuq_VolumeDownlink = snd v\<rparr> x)"
  have "unat (cs_GrantedUnits x) < 2 ^ 63" using Cons.prems(3) by simp
  note y = report_usage_quota [OF Cons.prems(1) Cons.prems(2) this refl, of v "[]", simplified]
  have len: "unat (cs_GrantedUnits ?y) + 1000000 * length vs < 2 ^ 63" using y(3) Cons.prems(3) by simp
  have "used_units (report_usages vs ?y) \<le> unat (cs_GrantedUnits (report_usages vs ?y)) \<and>
      used_units (report_usages vs ?y) = used_units ?y + (\<Sum>v \<leftarrow> vs. unat (fst v) + unat (snd v))"
    by (rule Cons.IH [OF _ y(2) len]) (use Cons.prems(1) in simp)
  then show ?case by (simp add: y(1))
qed simp

theorem charging_quota_covers_witness:
  "used_units (report_usages [(600000, 300000), (0, 900000)] sample_charge) = 1800000"
proof -
  have x: "used_units sample_charge = 0" "unat (cs_GrantedUnits sample_charge) = 1000000"
    by (simp_all add: sample_charge_def ChargingSession_zero_def used_units_def defaultGrantedUnits_def)
  have "unat (fst v) + unat (snd v) \<le> 1000000" if "v \<in> set [(600000, 300000), (0, 900000)]" for v :: "uint64 \<times> uint64"
    using that by auto
  from charging_quota_covers [of "[(600000, 300000), (0, 900000)]" sample_charge, OF this] show ?thesis by (simp add: x del: report_usages.simps)
qed

end
