(* ===== verification/Pfcp.thy ===== *)
theory Pfcp
  imports Faas
begin

text \<open>
  The N4 interface: the PFCP client \<^verbatim>\<open>pkg/pfcp/client.go\<close> by which the SMF drives the UPF.  The
  information elements and messages are the values the client passes to the constructors of
  \<^verbatim>\<open>go-pfcp\<close>; their wire format and the UDP socket are third-party code, parameters of the
  model (\<open>pfcp_lib\<close>).
\<close>

section \<open>IP addresses\<close>

text \<open>
  \<open>net.ParseIP(s) != nil\<close>.  An IPv4 address has four decimal fields up to 255 without leading
  zeros; in an IPv6 address \<open>ell\<close> records the ellipsis and \<open>i\<close> counts the octets read.
\<close>

definition ipv4_field :: "string \<Rightarrow> bool" where
  "ipv4_field f \<longleftrightarrow> f \<noteq> [] \<and> list_all is_digit f \<and> (hd f = CHR ''0'' \<longrightarrow> tl f = []) \<and> read_nat f \<le> 255"

definition parseIPv4 :: "string \<Rightarrow> bool" where
  "parseIPv4 s \<longleftrightarrow> (let fs = split_on (CHR ''.'') s in length fs = 4 \<and> list_all ipv4_field fs)"

definition is_hex :: "char \<Rightarrow> bool" where
  "is_hex c \<longleftrightarrow> hex_val c \<noteq> None"

definition ipv6_end :: "string \<Rightarrow> nat \<Rightarrow> bool \<Rightarrow> bool" where
  "ipv6_end s i ell \<longleftrightarrow> s = [] \<and> (if i < 16 then ell else \<not> ell)"

function parseIPv6_loop :: "string \<Rightarrow> nat \<Rightarrow> bool \<Rightarrow> bool" where
  "parseIPv6_loop s i ell =
     (if 16 \<le> i then ipv6_end s i ell
      else let h = takeWhile is_hex s; rest = dropWhile is_hex s in
        if h = [] \<or> 4 < length h then False
        else case rest of
          [] \<Rightarrow> ipv6_end [] (i + 2) ell
        | c # t \<Rightarrow>
            if c = CHR ''.'' then (ell \<or> i = 12) \<and> i + 4 \<le> 16 \<and> parseIPv4 s \<and> ipv6_end [] (i + 4) ell
            else if c \<noteq> CHR '':'' \<or> t = [] then False
            else if hd t = CHR '':'' then
              \<not> ell \<and> (if tl t = [] then ipv6_end [] (i + 2) True else parseIPv6_loop (tl t) (i + 2) True)
            else parseIPv6_loop t (i + 2) ell)"
  by pat_completeness auto
termination
  by (relation "measure (\<lambda>(s, i, ell). 16 - i)") auto

declare parseIPv6_loop.simps [simp del]

definition parseIPv6 :: "string \<Rightarrow> bool" where
  "parseIPv6 s \<longleftrightarrow>
     (if CHR ''%'' \<in> set s then False
      else if take 2 s = ''::'' then s = ''::'' \<or> parseIPv6_loop (drop 2 s) 0 True
      else parseIPv6_loop s 0 False)"

definition ParseIP :: "string \<Rightarrow> bool" where
  "ParseIP s \<longleftrightarrow>
     (case dropWhile (\<lambda>c. c \<noteq> CHR ''.'' \<and> c \<noteq> CHR '':'' \<and> c \<noteq> CHR ''%'') s of
        [] \<Rightarrow> False
      | c # _ \<Rightarrow> if c = CHR ''.'' then parseIPv4 s else c = CHR '':'' \<and> parseIPv6 s)"

lemma ipv4_field_show_nat: 
  assumes "n \<le> 255"
  shows "ipv4_field (show_nat n)"
proof -
  have "hd (show_nat m) = CHR ''0'' \<longrightarrow> tl (show_nat m) = []" for m
  proof (induction m rule: show_nat.induct)
    case (1 m)
    then show ?case
    proof (cases "m < 10")
      case False
      have "hd (show_nat (m div 10)) \<noteq> CHR ''0''"
      proof
        assume h: "hd (show_nat (m div 10)) = CHR ''0''"
        with 1 False have "show_nat (m div 10) = ''0''" by (cases "show_nat (m div 10)") auto
        then have "read_nat (show_nat (m div 10)) = read_nat ''0''" by simp
        then have "m div 10 = 0" unfolding read_show_nat by (simp add: read_nat_def digit_val_def)
        with False show False by simp
      qed
      with False show ?thesis by (simp add: show_nat.simps [of m])
    qed (simp add: show_nat.simps [of m])
  qed
  with assms show ?thesis using show_nat_digits [of n]
    by (simp add: ipv4_field_def list_all_iff)
qed

lemma dot_not_digit: "\<not> is_digit (CHR ''.'')"
  by (simp add: is_digit_def)

lemma show_nat_no_dot: "CHR ''.'' \<notin> set (show_nat n)"
  using show_nat_digits [of n] dot_not_digit by blast

text \<open>The dotted form of four fields is accepted.\<close>

lemma ParseIP_dotted:
  assumes "a \<le> 255" "b \<le> 255" "c \<le> 255" "d \<le> 255"
  shows "ParseIP (show_nat a @ ''.'' @ show_nat b @ ''.'' @ show_nat c @ ''.'' @ show_nat d)" (is "ParseIP ?s")
proof -
  have "split_on (CHR ''.'') ?s = [show_nat a, show_nat b, show_nat c, show_nat d]"
    using show_nat_no_dot by (simp add: split_on_append split_on_no_sep)
  then have v4: "parseIPv4 ?s" using assms by (simp add: parseIPv4_def ipv4_field_show_nat)
  let ?P = "\<lambda>x. x \<noteq> CHR ''.'' \<and> x \<noteq> CHR '':'' \<and> x \<noteq> CHR ''%''"
  have "\<forall>x \<in> set (show_nat a). ?P x"
    using show_nat_digits [of a] by (auto simp: is_digit_def)
  then have "dropWhile ?P ?s = CHR ''.'' # show_nat b @ ''.'' @ show_nat c @ ''.'' @ show_nat d"
    by (subst dropWhile_append2) auto
  with v4 show ?thesis by (simp add: ParseIP_def)
qed

section \<open>Messages\<close>

datatype pfcp_interface = SrcInterfaceAccess | DstInterfaceCore
datatype gate_status = GateStatusOpen

text \<open>An address argument is the text that \<open>net.ParseIP\<close> accepted, \<open>None\<close> for its nil.\<close>

definition parsed_ip :: "string \<Rightarrow> string option" where
  "parsed_ip s = (if ParseIP s then Some s else None)"

datatype pfcp_ie =
    NodeID string
  | RecoveryTimeStamp int
  | FSEID uint64 "string option"
  | CreatePDR "pfcp_ie list" | UpdatePDR "pfcp_ie list"
  | PDRID uint16 | Precedence uint32
  | PDI "pfcp_ie list" | SourceInterface pfcp_interface
  | FTEID uint8 uint32 "string option" | NetworkInstance string
  | CreateFAR "pfcp_ie list" | UpdateFAR "pfcp_ie list"
  | FARID uint32 | ApplyAction uint8
  | ForwardingParameters "pfcp_ie list" | DestinationInterface pfcp_interface
  | CreateQER "pfcp_ie list" | UpdateQER "pfcp_ie list"
  | QERID uint32 | GateStatus gate_status gate_status
  | MBR uint64 uint64 | GBR uint64 uint64
  | CreateURR "pfcp_ie list" | URRID uint32
  | MeasurementMethod nat nat nat | ReportingTriggers uint8

text \<open>The session messages carry the SEID and the sequence number of the header.\<close>

datatype pfcp_message =
    AssociationSetupRequest uint32 "pfcp_ie list"
  | SessionEstablishmentRequest uint64 uint32 "pfcp_ie list"
  | SessionModificationRequest uint64 uint32 "pfcp_ie list"
  | SessionDeletionRequest uint64 uint32

record SessionParams =
  sp_SEID :: uint64
  sp_UEIP :: string
  sp_TEID :: uint32
  sp_NodeID :: string
  sp_AMBRUL :: uint64
  sp_AMBRDL :: uint64
  sp_QFI :: uint8
  sp_NetworkDNN :: string

record ModifyParams =
  mp_AMBRUL :: uint64
  mp_AMBRDL :: uint64
  mp_QFI :: uint8

definition BuildAssociationSetupRequest :: "string \<Rightarrow> uint32 \<Rightarrow> int \<Rightarrow> pfcp_message" where
  "BuildAssociationSetupRequest nodeID seq now =
     AssociationSetupRequest seq
       [NodeID (if nodeID = [] then ''127.0.0.1'' else nodeID), RecoveryTimeStamp now]"

definition BuildEstablishSession :: "SessionParams \<Rightarrow> uint32 \<Rightarrow> pfcp_message" where
  "BuildEstablishSession p seq =
     (let nodeIP = (if sp_NodeID p = [] then ''127.0.0.1'' else sp_NodeID p);
          dnn = (if sp_NetworkDNN p = [] then ''internet'' else sp_NetworkDNN p)
      in SessionEstablishmentRequest (sp_SEID p) seq
        [NodeID nodeIP,
         FSEID (sp_SEID p) (parsed_ip nodeIP),
         CreatePDR [PDRID 1, Precedence 100,
           PDI [SourceInterface SrcInterfaceAccess, FTEID 0x01 (sp_TEID p) (parsed_ip (sp_UEIP p)), NetworkInstance dnn]],
         CreateFAR [FARID 1, ApplyAction 0x02, ForwardingParameters [DestinationInterface DstInterfaceCore]],
         CreateQER [QERID 1, GateStatus GateStatusOpen GateStatusOpen, MBR (sp_AMBRUL p) (sp_AMBRDL p), GBR 0 0],
         CreateURR [URRID 1, MeasurementMethod 0 1 1, ReportingTriggers 0x01]])"

definition BuildModifySession :: "uint64 \<Rightarrow> ModifyParams \<Rightarrow> uint32 \<Rightarrow> pfcp_message" where
  "BuildModifySession seid params seq =
     SessionModificationRequest seid seq
       ([UpdatePDR [PDRID 1, Precedence 100], UpdateFAR [FARID 1, ApplyAction 0x02]] @
        (if mp_AMBRUL params > 0 \<or> mp_AMBRDL params > 0
         then [UpdateQER [QERID 1, GateStatus GateStatusOpen GateStatusOpen, MBR (mp_AMBRUL params) (mp_AMBRDL params)]]
         else []))"

definition BuildDeleteSession :: "uint64 \<Rightarrow> uint32 \<Rightarrow> pfcp_message" where
  "BuildDeleteSession seid seq = SessionDeletionRequest seid seq"

section \<open>The client\<close>

text \<open>
  \<open>pf_marshal\<close> is \<open>MarshalLen\<close> and \<open>MarshalTo\<close> of the library's message (or its error); \<open>pf_send\<close>
  is \<open>Sender.Send\<close>, which may depend on all datagrams sent before.
\<close>

record pfcp_lib =
  pf_marshal :: "pfcp_message \<Rightarrow> string + bytes"
  pf_send :: "bytes list \<Rightarrow> bytes \<Rightarrow> string option"

definition nextSeq :: "('s, uint32) handler" where
  "nextSeq = State (\<lambda>w. (w_pfcpSeq w + 1, w\<lparr>w_pfcpSeq := w_pfcpSeq w + 1\<rparr>))"

definition sender_Send :: "pfcp_lib \<Rightarrow> bytes \<Rightarrow> ('s, goerr option) handler" where
  "sender_Send lib b = State (\<lambda>w. (map_option ExtErr (pf_send lib (w_n4 w) b), w\<lparr>w_n4 := w_n4 w @ [b]\<rparr>))"

text \<open>What the four requests share: marshal, then send.\<close>

definition marshal_send :: "pfcp_lib \<Rightarrow> string \<Rightarrow> pfcp_message \<Rightarrow> ('s, goerr option) handler" where
  "marshal_send lib what msg =
     (case pf_marshal lib msg of
        Inl t \<Rightarrow> State_Monad.return (Some (ExtErr (''marshal '' @ what @ '': '' @ t)))
      | Inr b \<Rightarrow> sender_Send lib b)"

definition AssociationSetup :: "pfcp_lib \<Rightarrow> string \<Rightarrow> ('s, goerr option) handler" where
  "AssociationSetup lib nodeID = do {
     seq \<leftarrow> nextSeq;
     now \<leftarrow> timeNow;
     marshal_send lib ''association setup'' (BuildAssociationSetupRequest nodeID seq now)
   }"

definition EstablishSessionWithParams :: "pfcp_lib \<Rightarrow> SessionParams \<Rightarrow> ('s, goerr option) handler" where
  "EstablishSessionWithParams lib p = do {
     seq \<leftarrow> nextSeq;
     marshal_send lib ''session establishment'' (BuildEstablishSession p seq)
   }"

definition EstablishSession :: "pfcp_lib \<Rightarrow> uint64 \<Rightarrow> string \<Rightarrow> uint32 \<Rightarrow> ('s, goerr option) handler" where
  "EstablishSession lib seid ueIP teid =
     EstablishSessionWithParams lib \<lparr>sp_SEID = seid, sp_UEIP = ueIP, sp_TEID = teid, sp_NodeID = [],
       sp_AMBRUL = 1000000, sp_AMBRDL = 5000000, sp_QFI = 0, sp_NetworkDNN = []\<rparr>"

definition ModifySession :: "pfcp_lib \<Rightarrow> uint64 \<Rightarrow> ModifyParams \<Rightarrow> ('s, goerr option) handler" where
  "ModifySession lib seid params = do {
     seq \<leftarrow> nextSeq;
     marshal_send lib ''session modification'' (BuildModifySession seid params seq)
   }"

definition DeleteSession :: "pfcp_lib \<Rightarrow> uint64 \<Rightarrow> ('s, goerr option) handler" where
  "DeleteSession lib seid = do {
     seq \<leftarrow> nextSeq;
     marshal_send lib ''session deletion'' (BuildDeleteSession seid seq)
   }"

lemma wp_nextSeq [wp]: "wp nextSeq Q = (\<lambda>w. Q (w_pfcpSeq w + 1) (w\<lparr>w_pfcpSeq := w_pfcpSeq w + 1\<rparr>))"
  by (simp add: fun_eq_iff wp_def nextSeq_def)

lemma wp_marshal_send [wp]:
  "wp (marshal_send lib what msg) Q =
     (\<lambda>w. case pf_marshal lib msg of
        Inl t \<Rightarrow> Q (Some (ExtErr (''marshal '' @ what @ '': '' @ t))) w
      | Inr b \<Rightarrow> Q (map_option ExtErr (pf_send lib (w_n4 w) b)) (w\<lparr>w_n4 := w_n4 w @ [b]\<rparr>))"
  by (simp add: fun_eq_iff wp_def marshal_send_def sender_Send_def State_Monad.return_def split: sum.splits)

lemmas pfcp_client_defs = AssociationSetup_def EstablishSession_def EstablishSessionWithParams_def
  ModifySession_def DeleteSession_def

text \<open>No request of the client touches the store.\<close>

lemma pfcp_touches [frame]:
  "touches view P (AssociationSetup lib nodeID)"
  "touches view P (EstablishSession lib seid ip teid)"
  "touches view P (ModifySession lib seid params)"
  "touches view P (DeleteSession lib seid)"
  by (auto simp: touches_def pfcp_client_defs wp split: sum.splits)

section \<open>Sequence numbers\<close>

text \<open>A request of the client, as a value, so that sequences of them can be spoken of.\<close>

datatype pfcp_call =
    CallAssociate string
  | CallEstablish uint64 string uint32
  | CallModify uint64 ModifyParams
  | CallDelete uint64

fun do_call :: "pfcp_lib \<Rightarrow> pfcp_call \<Rightarrow> ('s, goerr option) handler" where
  "do_call lib (CallAssociate n) = AssociationSetup lib n"
| "do_call lib (CallEstablish seid ip teid) = EstablishSession lib seid ip teid"
| "do_call lib (CallModify seid params) = ModifySession lib seid params"
| "do_call lib (CallDelete seid) = DeleteSession lib seid"

fun msg_seq :: "pfcp_message \<Rightarrow> uint32" where
  "msg_seq (AssociationSetupRequest seq _) = seq"
| "msg_seq (SessionEstablishmentRequest _ seq _) = seq"
| "msg_seq (SessionModificationRequest _ seq _) = seq"
| "msg_seq (SessionDeletionRequest _ seq) = seq"

fun do_calls :: "pfcp_lib \<Rightarrow> pfcp_call list \<Rightarrow> ('s, unit) handler" where
  "do_calls lib [] = State_Monad.return ()"
| "do_calls lib (c # cs) = State_Monad.bind (do_call lib c) (\<lambda>_. do_calls lib cs)"

fun msg_of :: "pfcp_call \<Rightarrow> uint32 \<Rightarrow> int \<Rightarrow> pfcp_message" where
  "msg_of (CallAssociate n) seq now = BuildAssociationSetupRequest n seq now"
| "msg_of (CallEstablish seid ip teid) seq now = BuildEstablishSession
     \<lparr>sp_SEID = seid, sp_UEIP = ip, sp_TEID = teid, sp_NodeID = [], sp_AMBRUL = 1000000, sp_AMBRDL = 5000000,
      sp_QFI = 0, sp_NetworkDNN = []\<rparr> seq"
| "msg_of (CallModify seid params) seq now = BuildModifySession seid params seq"
| "msg_of (CallDelete seid) seq now = BuildDeleteSession seid seq"

lemma msg_seq_of [simp]: "msg_seq (msg_of c seq now) = seq"
  by (cases c) (simp_all add: BuildAssociationSetupRequest_def BuildEstablishSession_def BuildModifySession_def
      BuildDeleteSession_def Let_def)

lemma do_call_run:
  assumes "\<And>m. pf_marshal lib m = Inr (wire m)"
  shows "wp (do_call lib c) (\<lambda>_ w'. w_pfcpSeq w' = w_pfcpSeq w + 1 \<and>
     (\<exists>now. w_n4 w' = w_n4 w @ [wire (msg_of c (w_pfcpSeq w + 1) now)])) w"
  by (cases c) (auto simp: pfcp_client_defs wp assms)

lemma do_calls_run:
  assumes "\<And>m. pf_marshal lib m = Inr (wire m)"
  shows "wp (do_calls lib cs) (\<lambda>_ w'. \<exists>nows. length nows = length cs \<and> w_n4 w' = w_n4 w @
     map (\<lambda>(i, c, now). wire (msg_of c (w_pfcpSeq w + of_nat (Suc i)) now)) (enumerate 0 (zip cs nows))) w"
proof (induction cs arbitrary: w)
  case Nil
  then show ?case by (simp add: wp)
next
  case (Cons c cs)
  show ?case
    unfolding do_calls.simps wp_basic
  proof (rule wp_mono [OF do_call_run [OF assms]], elim conjE exE)
    fix a :: "goerr option" and w1 :: "'a world" and now
    assume seq: "w_pfcpSeq w1 = w_pfcpSeq w + 1"
      and n4: "w_n4 w1 = w_n4 w @ [wire (msg_of c (w_pfcpSeq w + 1) now)]"
    show "wp (do_calls lib cs) (\<lambda>_ w'. \<exists>nows. length nows = length (c # cs) \<and> w_n4 w' = w_n4 w @
       map (\<lambda>(i, c, now). wire (msg_of c (w_pfcpSeq w + of_nat (Suc i)) now)) (enumerate 0 (zip (c # cs) nows))) w1"
    proof (rule wp_mono [OF Cons.IH], elim conjE exE)
      fix u w' nows
      assume "length nows = length cs" and "w_n4 w' = w_n4 w1 @
        map (\<lambda>(i, c, now). wire (msg_of c (w_pfcpSeq w1 + of_nat (Suc i)) now)) (enumerate 0 (zip cs nows))"
      then show "\<exists>nows. length nows = length (c # cs) \<and> w_n4 w' = w_n4 w @
        map (\<lambda>(i, c, now). wire (msg_of c (w_pfcpSeq w + of_nat (Suc i)) now)) (enumerate 0 (zip (c # cs) nows))"
        by (intro exI [of _ "now # nows"])
          (auto simp: n4 seq enumerate_Suc_eq split_beta algebra_simps)
    qed
  qed
qed

lemma distinct_seqs: "n \<le> 2 ^ 32 \<Longrightarrow> distinct (map (\<lambda>i. s + of_nat (Suc i) :: uint32) [0..<n])"
proof -
  assume n: "n \<le> 2 ^ 32"
  have "i = j" if "i < n" "j < n" "of_nat i = (of_nat j :: uint32)" for i j
  proof -
    have "unat (of_nat i :: uint32) = i" "unat (of_nat j :: uint32) = j"
      using that(1,2) n by (simp_all add: unat_of_nat)
    with that(3) show ?thesis by metis
  qed
  then show ?thesis by (auto simp: distinct_map inj_on_def)
qed

text \<open>The client sends one datagram per request, in order, and no two of up to $2^{32}$ requests share
  a sequence number: the numbers are the successors of the client's counter.\<close>

theorem pfcp_sequence:
  assumes "\<And>m. pf_marshal lib m = Inr (wire m)" and "length cs \<le> 2 ^ 32"
    and "run_state (do_calls lib cs) w = (u, w')"
  shows "\<exists>ms. w_n4 w' = w_n4 w @ map wire ms \<and> length ms = length cs \<and> distinct (map msg_seq ms) \<and>
     (\<forall>i < length cs. \<exists>now. ms ! i = msg_of (cs ! i) (w_pfcpSeq w + of_nat (Suc i)) now)"
proof -
  obtain nows where len: "length nows = length cs" and n4: "w_n4 w' = w_n4 w @
     map (\<lambda>(i, c, now). wire (msg_of c (w_pfcpSeq w + of_nat (Suc i)) now)) (enumerate 0 (zip cs nows))"
    using wpD [OF do_calls_run [OF assms(1)] assms(3)] by blast
  let ?ms = "map (\<lambda>(i, c, now). msg_of c (w_pfcpSeq w + of_nat (Suc i)) now) (enumerate 0 (zip cs nows))"
  have "map msg_seq ?ms = map (\<lambda>i. w_pfcpSeq w + of_nat (Suc i)) [0..<length cs]"
    by (rule nth_equalityI) (simp_all add: len nth_enumerate_eq)
  then have "distinct (map msg_seq ?ms)" using distinct_seqs [OF assms(2)] by metis
  then show ?thesis using len n4
    by (intro exI [of _ ?ms]) (auto simp: nth_enumerate_eq split_def comp_def)
qed

definition sample_pfcp :: pfcp_lib where
  "sample_pfcp = \<lparr>pf_marshal = (\<lambda>m. Inr (put_be32 (msg_seq m))), pf_send = (\<lambda>_ _. None)\<rparr>"

theorem pfcp_sequence_witness:
  "\<exists>ms. w_n4 (snd (run_state (do_calls sample_pfcp [CallAssociate [], CallDelete 7]) (world_init NewMockKVStore))) =
     map (\<lambda>m. put_be32 (msg_seq m)) ms \<and> distinct (map msg_seq ms)"
  using pfcp_sequence [of sample_pfcp "\<lambda>m. put_be32 (msg_seq m)" "[CallAssociate [], CallDelete 7]", OF _ _ surjective_pairing,
      of "world_init NewMockKVStore"]
  by (auto simp: sample_pfcp_def world_init_def)

end
