(* ===== verification/Smf.thy ===== *)
theory Smf
  imports Pfcp
begin

text \<open>
  The SMF functions (\<^verbatim>\<open>functions/smf\<close>): creation, update and release of a PDU session and the bare
  N4 set-up.  A session is stored under \<^verbatim>\<open>pdu-sessions/pdu-{supi}-{seid}\<close>, an address in use under
  \<^verbatim>\<open>ip-pool/allocated/{address}\<close>.  The package variables \<open>SBI\<close> and \<open>PFCP\<close>, which may be nil, are
  arguments of option type.
\<close>

section \<open>The address pool\<close>

definition ip_key :: "string \<Rightarrow> string" where
  "ip_key ip = ''ip-pool/allocated/'' @ ip"

definition session_key :: "string \<Rightarrow> string" where
  "session_key i = ''pdu-sessions/'' @ i"

definition IPPoolPrefix :: "(string \<Rightarrow> string) \<Rightarrow> string" where
  "IPPoolPrefix getenv = (if getenv ''UE_IP_POOL'' \<noteq> [] then getenv ''UE_IP_POOL'' else ''10.45'')"

definition ip_text :: "string \<Rightarrow> uint32 \<Rightarrow> uint32 \<Rightarrow> string" where
  "ip_text prefix subnet host = prefix @ ''.'' @ show_nat (unat subnet) @ ''.'' @ show_nat (unat host)"

text \<open>The cursor moves on: the next host, after host 254 the next subnet, after subnet 255 the first.\<close>

definition advance_pool :: "'s world \<Rightarrow> 's world" where
  "advance_pool w =
     (if w_ipPoolHost w + 1 > 254 then
        w\<lparr>w_ipPoolHost := 1, w_ipPoolSubnet := (if w_ipPoolSubnet w + 1 > 255 then 0 else w_ipPoolSubnet w + 1)\<rparr>
      else w\<lparr>w_ipPoolHost := w_ipPoolHost w + 1\<rparr>)"

text \<open>The loop of \<open>allocateIP\<close> with the number of attempts left.\<close>

fun allocateIP_loop :: "string \<Rightarrow> 's KVStore \<Rightarrow> nat \<Rightarrow> ('s, goerr + string) handler" where
  "allocateIP_loop prefix kv 0 = State_Monad.return (Inl (ExtErr ''IP pool exhausted''))"
| "allocateIP_loop prefix kv (Suc attempts) = do {
     w \<leftarrow> State_Monad.get;
     let ip = ip_text prefix (w_ipPoolSubnet w) (w_ipPoolHost w);
     _ \<leftarrow> modify advance_pool;
     r \<leftarrow> kvGet kv (ip_key ip) dec_string [];
     case r of
       Inl _ \<Rightarrow> do {
         e \<leftarrow> kvPut kv (ip_key ip) (JStr ip);
         State_Monad.return (case e of
             Some err \<Rightarrow> Inl (ExtErr (''record IP allocation: '' @ err_text err))
           | None \<Rightarrow> Inr ip)
       }
     | Inr _ \<Rightarrow> allocateIP_loop prefix kv attempts
   }"

definition allocateIP :: "string \<Rightarrow> 's KVStore \<Rightarrow> ('s, goerr + string) handler" where
  "allocateIP prefix kv = allocateIP_loop prefix kv 65024"

definition releaseIP :: "'s KVStore \<Rightarrow> string \<Rightarrow> ('s, goerr option) handler" where
  "releaseIP kv ip = kvDelete kv (ip_key ip)"

definition ResetIPPool :: "('s, unit) handler" where
  "ResetIPPool = modify (\<lambda>w. w\<lparr>w_ipPoolSubnet := 0, w_ipPoolHost := 1\<rparr>)"

definition nextSEID :: "('s, uint64) handler" where
  "nextSEID = State (\<lambda>w. (w_seidCounter w + 1, w\<lparr>w_seidCounter := w_seidCounter w + 1\<rparr>))"

lemma wp_nextSEID [wp]: "wp nextSEID Q = (\<lambda>w. Q (w_seidCounter w + 1) (w\<lparr>w_seidCounter := w_seidCounter w + 1\<rparr>))"
  by (simp add: fun_eq_iff wp_def nextSEID_def)

lemma touches_nextSEID [frame]: "touches view P nextSEID"
  by (simp add: touches_def wp)

section \<open>Session creation\<close>

record CreateSMContextRequest =
  csq_SUPI :: string
  csq_SNSSAI :: SNSSAI
  csq_DNN :: string
  csq_PDUType :: string
  csq_SSCMode :: uint8
  csq_SessionID :: uint8
  csq_SessionAMBRUL :: uint64
  csq_SessionAMBRDL :: uint64

definition CreateSMContextRequest_zero :: CreateSMContextRequest where
  "CreateSMContextRequest_zero = \<lparr>csq_SUPI = [],
     csq_SNSSAI = SNSSAI_zero,
     csq_DNN = [],
     csq_PDUType = [],
     csq_SSCMode = 0,
     csq_SessionID = 0,
     csq_SessionAMBRUL = 0,
     csq_SessionAMBRDL = 0\<rparr>"

definition CreateSMContextRequest_fields :: "CreateSMContextRequest fields" where
  "CreateSMContextRequest_fields = [(''supi'', fld csq_SUPI csq_SUPI_update dec_string),
     (''snssai'', fld csq_SNSSAI csq_SNSSAI_update unmarshal_SNSSAI),
     (''dnn'', fld csq_DNN csq_DNN_update dec_string),
     (''pdu_session_type'', fld csq_PDUType csq_PDUType_update dec_string),
     (''ssc_mode'', fld csq_SSCMode csq_SSCMode_update dec_uint),
     (''pdu_session_id'', fld csq_SessionID csq_SessionID_update dec_uint),
     (''session_ambr_ul'', fld csq_SessionAMBRUL csq_SessionAMBRUL_update dec_uint),
     (''session_ambr_dl'', fld csq_SessionAMBRDL csq_SessionAMBRDL_update dec_uint)]"

definition unmarshal_CreateSMContextRequest :: "CreateSMContextRequest decoder" where
  "unmarshal_CreateSMContextRequest = dec_struct CreateSMContextRequest_fields"

definition marshal_CreateSMContextRequest :: "CreateSMContextRequest \<Rightarrow> json" where
  "marshal_CreateSMContextRequest x = JObj ([(''supi'', JStr (csq_SUPI x)),
     (''snssai'', marshal_SNSSAI (csq_SNSSAI x)),
     (''dnn'', JStr (csq_DNN x))] @
     omitempty (csq_PDUType x = []) (''pdu_session_type'', JStr (csq_PDUType x)) @
     omitempty (csq_SSCMode x = 0) (''ssc_mode'', enc_uint (csq_SSCMode x)) @
     omitempty (csq_SessionID x = 0) (''pdu_session_id'', enc_uint (csq_SessionID x)) @
     omitempty (csq_SessionAMBRUL x = 0) (''session_ambr_ul'', enc_uint (csq_SessionAMBRUL x)) @
     omitempty (csq_SessionAMBRDL x = 0) (''session_ambr_dl'', enc_uint (csq_SessionAMBRDL x)))"

lemma CreateSMContextRequest_codec [simp, codec]: "unmarshal_CreateSMContextRequest (marshal_CreateSMContextRequest x) CreateSMContextRequest_zero = Some x"
  by (cases x) (simp add: unmarshal_CreateSMContextRequest_def marshal_CreateSMContextRequest_def CreateSMContextRequest_fields_def CreateSMContextRequest_zero_def json_codec)

lemma CreateSMContextRequest_not_null [simp]: "marshal_CreateSMContextRequest x \<noteq> JNull"
  by (simp add: marshal_CreateSMContextRequest_def)

record CreateSMContextResponse =
  csp_SessionID :: string
  csp_UEAddress :: string
  csp_State :: string
  csp_QFI :: uint8
  csp_AMBRUL :: uint64
  csp_AMBRDL :: uint64
  csp_DNN :: string

definition CreateSMContextResponse_zero :: CreateSMContextResponse where
  "CreateSMContextResponse_zero = \<lparr>csp_SessionID = [],
     csp_UEAddress = [],
     csp_State = [],
     csp_QFI = 0,
     csp_AMBRUL = 0,
     csp_AMBRDL = 0,
     csp_DNN = []\<rparr>"

definition CreateSMContextResponse_fields :: "CreateSMContextResponse fields" where
  "CreateSMContextResponse_fields = [(''session_id'', fld csp_SessionID csp_SessionID_update dec_string),
     (''ue_address'', fld csp_UEAddress csp_UEAddress_update dec_string),
     (''state'', fld csp_State csp_State_update dec_string),
     (''qfi'', fld csp_QFI csp_QFI_update dec_uint),
     (''session_ambr_ul'', fld csp_AMBRUL csp_AMBRUL_update dec_uint),
     (''session_ambr_dl'', fld csp_AMBRDL csp_AMBRDL_update dec_uint),
     (''dnn'', fld csp_DNN csp_DNN_update dec_string)]"

definition unmarshal_CreateSMContextResponse :: "CreateSMContextResponse decoder" where
  "unmarshal_CreateSMContextResponse = dec_struct CreateSMContextResponse_fields"

definition marshal_CreateSMContextResponse :: "CreateSMContextResponse \<Rightarrow> json" where
  "marshal_CreateSMContextResponse x = JObj ([(''session_id'', JStr (csp_SessionID x)),
     (''ue_address'', JStr (csp_UEAddress x)),
     (''state'', JStr (csp_State x)),
     (''qfi'', enc_uint (csp_QFI x)),
     (''session_ambr_ul'', enc_uint (csp_AMBRUL x)),
     (''session_ambr_dl'', enc_uint (csp_AMBRDL x)),
     (''dnn'', JStr (csp_DNN x))])"

lemma CreateSMContextResponse_codec [simp, codec]: "unmarshal_CreateSMContextResponse (marshal_CreateSMContextResponse x) CreateSMContextResponse_zero = Some x"
  by (cases x) (simp add: unmarshal_CreateSMContextResponse_def marshal_CreateSMContextResponse_def CreateSMContextResponse_fields_def CreateSMContextResponse_zero_def json_codec)

lemma CreateSMContextResponse_not_null [simp]: "marshal_CreateSMContextResponse x \<noteq> JNull"
  by (simp add: marshal_CreateSMContextResponse_def)

record SmPolicyCreateRequest =
  spq_SUPI :: string
  spq_SNSSAI :: SNSSAI
  spq_DNN :: string

definition SmPolicyCreateRequest_zero :: SmPolicyCreateRequest where
  "SmPolicyCreateRequest_zero = \<lparr>spq_SUPI = [],
     spq_SNSSAI = SNSSAI_zero,
     spq_DNN = []\<rparr>"

definition SmPolicyCreateRequest_fields :: "SmPolicyCreateRequest fields" where
  "SmPolicyCreateRequest_fields = [(''supi'', fld spq_SUPI spq_SUPI_update dec_string),
     (''snssai'', fld spq_SNSSAI spq_SNSSAI_update unmarshal_SNSSAI),
     (''dnn'', fld spq_DNN spq_DNN_update dec_string)]"

definition unmarshal_SmPolicyCreateRequest :: "SmPolicyCreateRequest decoder" where
  "unmarshal_SmPolicyCreateRequest = dec_struct SmPolicyCreateRequest_fields"

definition marshal_SmPolicyCreateRequest :: "SmPolicyCreateRequest \<Rightarrow> json" where
  "marshal_SmPolicyCreateRequest x = JObj ([(''supi'', JStr (spq_SUPI x)),
     (''snssai'', marshal_SNSSAI (spq_SNSSAI x)),
     (''dnn'', JStr (spq_DNN x))])"

lemma SmPolicyCreateRequest_codec [simp, codec]: "unmarshal_SmPolicyCreateRequest (marshal_SmPolicyCreateRequest x) SmPolicyCreateRequest_zero = Some x"
  by (cases x) (simp add: unmarshal_SmPolicyCreateRequest_def marshal_SmPolicyCreateRequest_def SmPolicyCreateRequest_fields_def SmPolicyCreateRequest_zero_def json_codec)

lemma SmPolicyCreateRequest_not_null [simp]: "marshal_SmPolicyCreateRequest x \<noteq> JNull"
  by (simp add: marshal_SmPolicyCreateRequest_def)

record SmAMBR =
  sam_Uplink :: uint64
  sam_Downlink :: uint64

definition SmAMBR_zero :: SmAMBR where
  "SmAMBR_zero = \<lparr>sam_Uplink = 0,
     sam_Downlink = 0\<rparr>"

definition SmAMBR_fields :: "SmAMBR fields" where
  "SmAMBR_fields = [(''uplink'', fld sam_Uplink sam_Uplink_update dec_uint),
     (''downlink'', fld sam_Downlink sam_Downlink_update dec_uint)]"

definition unmarshal_SmAMBR :: "SmAMBR decoder" where
  "unmarshal_SmAMBR = dec_struct SmAMBR_fields"

definition marshal_SmAMBR :: "SmAMBR \<Rightarrow> json" where
  "marshal_SmAMBR x = JObj ([(''uplink'', enc_uint (sam_Uplink x)),
     (''downlink'', enc_uint (sam_Downlink x))])"

lemma SmAMBR_codec [simp, codec]: "unmarshal_SmAMBR (marshal_SmAMBR x) SmAMBR_zero = Some x"
  by (cases x) (simp add: unmarshal_SmAMBR_def marshal_SmAMBR_def SmAMBR_fields_def SmAMBR_zero_def json_codec)

lemma SmAMBR_not_null [simp]: "marshal_SmAMBR x \<noteq> JNull"
  by (simp add: marshal_SmAMBR_def)

record SmSessionRule =
  ssr_SessionAMBR :: "SmAMBR option"

definition SmSessionRule_zero :: SmSessionRule where
  "SmSessionRule_zero = \<lparr>ssr_SessionAMBR = None\<rparr>"

definition SmSessionRule_fields :: "SmSessionRule fields" where
  "SmSessionRule_fields = [(''sess_ambr'', fld ssr_SessionAMBR ssr_SessionAMBR_update (dec_ptr unmarshal_SmAMBR SmAMBR_zero))]"

definition unmarshal_SmSessionRule :: "SmSessionRule decoder" where
  "unmarshal_SmSessionRule = dec_struct SmSessionRule_fields"

definition marshal_SmSessionRule :: "SmSessionRule \<Rightarrow> json" where
  "marshal_SmSessionRule x = JObj (omitempty (ssr_SessionAMBR x = None) (''sess_ambr'', enc_ptr marshal_SmAMBR (ssr_SessionAMBR x)))"

lemma SmSessionRule_codec [simp, codec]: "unmarshal_SmSessionRule (marshal_SmSessionRule x) SmSessionRule_zero = Some x"
  by (cases x) (simp add: unmarshal_SmSessionRule_def marshal_SmSessionRule_def SmSessionRule_fields_def SmSessionRule_zero_def json_codec dec_ptr_enc)

lemma SmSessionRule_not_null [simp]: "marshal_SmSessionRule x \<noteq> JNull"
  by (simp add: marshal_SmSessionRule_def)

record SmPolicyDecision =
  spd_PolicyID :: string
  spd_QFI :: uint8
  spd_AMBRUL :: uint64
  spd_AMBRDL :: uint64
  spd_FiveQI :: int64
  spd_SessRules :: "(string \<times> SmSessionRule) list"

definition SmPolicyDecision_zero :: SmPolicyDecision where
  "SmPolicyDecision_zero = \<lparr>spd_PolicyID = [], spd_QFI = 0, spd_AMBRUL = 0, spd_AMBRDL = 0, spd_FiveQI = 0, spd_SessRules = []\<rparr>"

definition SmPolicyDecision_fields :: "SmPolicyDecision fields" where
  "SmPolicyDecision_fields = [(''policy_id'', fld spd_PolicyID spd_PolicyID_update dec_string),
     (''qfi'', fld spd_QFI spd_QFI_update dec_uint),
     (''ambr_ul'', fld spd_AMBRUL spd_AMBRUL_update dec_uint),
     (''ambr_dl'', fld spd_AMBRDL spd_AMBRDL_update dec_uint),
     (''5qi'', fld spd_FiveQI spd_FiveQI_update dec_sint),
     (''sess_rules'', fld spd_SessRules spd_SessRules_update (dec_map unmarshal_SmSessionRule SmSessionRule_zero))]"

definition unmarshal_SmPolicyDecision :: "SmPolicyDecision decoder" where
  "unmarshal_SmPolicyDecision = dec_struct SmPolicyDecision_fields"

text \<open>The policy of the PCF, or the default policy when there is no SBI client.\<close>

definition sm_policy :: "'s SBICaller option \<Rightarrow> CreateSMContextRequest \<Rightarrow> ('s, goerr + SmPolicyDecision) handler" where
  "sm_policy SBI smReq =
     (case SBI of
        Some sbi \<Rightarrow> do {
          (err, policyResp) \<leftarrow> CallFunction sbi ''pcf-policy-create''
            (marshal_SmPolicyCreateRequest \<lparr>spq_SUPI = csq_SUPI smReq, spq_SNSSAI = csq_SNSSAI smReq, spq_DNN = csq_DNN smReq\<rparr>)
            unmarshal_SmPolicyDecision SmPolicyDecision_zero;
          State_Monad.return (case err of Some e \<Rightarrow> Inl e | None \<Rightarrow> Inr policyResp)
        }
      | None \<Rightarrow> State_Monad.return
          (Inr (SmPolicyDecision_zero\<lparr>spd_QFI := 1, spd_AMBRUL := 1000000, spd_AMBRDL := 5000000, spd_FiveQI := 9\<rparr>)))"

text \<open>Whether the NSACF refuses the session.\<close>

definition sm_refused :: "(string \<Rightarrow> string) \<Rightarrow> 's SBICaller option \<Rightarrow> SNSSAI \<Rightarrow> ('s, bool) handler" where
  "sm_refused getenv SBI snssai =
     (case SBI of
        Some sbi \<Rightarrow>
          if nsacf_enabled getenv then do {
            (err, allowed) \<leftarrow> CallFunction sbi ''nsacf-slice-availability-check'' (check_payload snssai ''PDU_SESSION'') dec_allowed False;
            State_Monad.return (err = None \<and> \<not> allowed)
          } else State_Monad.return False
      | None \<Rightarrow> State_Monad.return False)"

definition sm_establish ::
  "(uint64 \<Rightarrow> string \<Rightarrow> uint32 \<Rightarrow> ('s, goerr option) handler) option \<Rightarrow> uint64 \<Rightarrow> string \<Rightarrow> ('s, goerr option) handler" where
  "sm_establish PFCP seid ueIP =
     (case PFCP of Some establish \<Rightarrow> establish seid ueIP (ucast seid) | None \<Rightarrow> State_Monad.return None)"

definition session_id :: "string \<Rightarrow> uint64 \<Rightarrow> string" where
  "session_id supi seid = ''pdu-'' @ supi @ ''-'' @ show_nat (unat seid)"

definition new_session :: "(string \<Rightarrow> string) \<Rightarrow> CreateSMContextRequest \<Rightarrow> SmPolicyDecision \<Rightarrow> string \<Rightarrow> uint64 \<Rightarrow> int \<Rightarrow> PDUSession" where
  "new_session getenv smReq policy ueIP seid now =
     \<lparr>pdu_ID = session_id (csq_SUPI smReq) seid, pdu_SUPI = csq_SUPI smReq, pdu_SNSSAI = csq_SNSSAI smReq,
      pdu_DNN = csq_DNN smReq, pdu_PDUType = csq_PDUType smReq, pdu_UEAddress = ueIP,
      pdu_UPFID = getenv ''UPF_PFCP_ADDR'', pdu_State = ''ACTIVE'', pdu_QFI = spd_QFI policy,
      pdu_AMBRUL = (if csq_SessionAMBRUL smReq > 0 then csq_SessionAMBRUL smReq else spd_AMBRUL policy),
      pdu_AMBRDL = (if csq_SessionAMBRDL smReq > 0 then csq_SessionAMBRDL smReq else spd_AMBRDL policy),
      pdu_ChargingID = [], pdu_BSFBindingID = [], pdu_CreatedAt = now\<rparr>"

text \<open>The best-effort calls after the session is stored; each yields the session it leaves behind.\<close>

definition sm_bind_pcf :: "(string \<Rightarrow> string) \<Rightarrow> 's KVStore \<Rightarrow> 's SBICaller \<Rightarrow> PDUSession \<Rightarrow> ('s, PDUSession) handler" where
  "sm_bind_pcf getenv kv sbi session =
     (if getenv ''ENABLE_BSF'' = ''true'' then do {
        (_, bindingID) \<leftarrow> CallFunction sbi ''bsf-binding-register''
          (JObj [(''dnn'', JStr (pdu_DNN session)), (''pdu_session_id'', JStr (pdu_ID session)),
                 (''snssai'', marshal_SNSSAI (pdu_SNSSAI session)), (''supi'', JStr (pdu_SUPI session)),
                 (''ue_address'', JStr (pdu_UEAddress session))])
          (dec_struct [(''binding_id'', dec_string)]) [];
        if bindingID \<noteq> [] then do {
          _ \<leftarrow> kvPut kv (session_key (pdu_ID session)) (marshal_PDUSession (session\<lparr>pdu_BSFBindingID := bindingID\<rparr>));
          State_Monad.return (session\<lparr>pdu_BSFBindingID := bindingID\<rparr>)
        } else State_Monad.return session
      } else State_Monad.return session)"

definition sm_start_charging :: "(string \<Rightarrow> string) \<Rightarrow> 's KVStore \<Rightarrow> 's SBICaller \<Rightarrow> PDUSession \<Rightarrow> ('s, PDUSession) handler" where
  "sm_start_charging getenv kv sbi session =
     (if getenv ''ENABLE_CHARGING'' = ''true'' then do {
        (_, chargingID) \<leftarrow> CallFunction sbi ''chf-charging-create''
          (JObj [(''dnn'', JStr (pdu_DNN session)), (''pdu_session_id'', JStr (pdu_ID session)),
                 (''snssai'', marshal_SNSSAI (pdu_SNSSAI session)), (''supi'', JStr (pdu_SUPI session))])
          (dec_struct [(''charging_id'', dec_string)]) [];
        if chargingID \<noteq> [] then do {
          _ \<leftarrow> kvPut kv (session_key (pdu_ID session)) (marshal_PDUSession (session\<lparr>pdu_ChargingID := chargingID\<rparr>));
          State_Monad.return (session\<lparr>pdu_ChargingID := chargingID\<rparr>)
        } else State_Monad.return session
      } else State_Monad.return session)"

definition sm_count :: "(string \<Rightarrow> string) \<Rightarrow> 's SBICaller \<Rightarrow> SNSSAI \<Rightarrow> string \<Rightarrow> ('s, unit) handler" where
  "sm_count getenv sbi snssai operation =
     (if nsacf_enabled getenv then do {
        _ \<leftarrow> CallFunction_nil sbi ''nsacf-update-counters'' (counter_payload snssai ''PDU_SESSION'' operation);
        State_Monad.return ()
      } else State_Monad.return ())"

definition sm_register_session :: "(string \<Rightarrow> string) \<Rightarrow> 's KVStore \<Rightarrow> 's SBICaller option \<Rightarrow> PDUSession \<Rightarrow> ('s, unit) handler" where
  "sm_register_session getenv kv SBI session =
     (case SBI of
        Some sbi \<Rightarrow> do {
          session1 \<leftarrow> sm_bind_pcf getenv kv sbi session;
          session2 \<leftarrow> sm_start_charging getenv kv sbi session1;
          sm_count getenv sbi (pdu_SNSSAI session2) ''INCREMENT''
        }
      | None \<Rightarrow> State_Monad.return ())"

definition create_response :: "PDUSession \<Rightarrow> CreateSMContextResponse" where
  "create_response session =
     \<lparr>csp_SessionID = pdu_ID session, csp_UEAddress = pdu_UEAddress session, csp_State = ''ACTIVE'',
      csp_QFI = pdu_QFI session, csp_AMBRUL = pdu_AMBRUL session, csp_AMBRDL = pdu_AMBRDL session,
      csp_DNN = pdu_DNN session\<rparr>"

text \<open>Steps 4 to 6: the N4 session, the stored session, the answer.\<close>

definition sm_setup ::
  "(string \<Rightarrow> string) \<Rightarrow> 's KVStore \<Rightarrow> 's SBICaller option \<Rightarrow>
   (uint64 \<Rightarrow> string \<Rightarrow> uint32 \<Rightarrow> ('s, goerr option) handler) option \<Rightarrow>
   CreateSMContextRequest \<Rightarrow> SmPolicyDecision \<Rightarrow> string \<Rightarrow> ('s, response) handler" where
  "sm_setup getenv kv SBI PFCP smReq policy ueIP = do {
     seid \<leftarrow> nextSEID;
     e \<leftarrow> sm_establish PFCP seid ueIP;
     case e of
       Some err \<Rightarrow> do {
         _ \<leftarrow> releaseIP kv ueIP;
         State_Monad.return (errorResp 500 (''N4 Session Establishment: '' @ err_text err))
       }
     | None \<Rightarrow> do {
         now \<leftarrow> timeNow;
         let session = new_session getenv smReq policy ueIP seid now;
         e2 \<leftarrow> kvPut kv (session_key (pdu_ID session)) (marshal_PDUSession session);
         case e2 of
           Some err \<Rightarrow> do {
             _ \<leftarrow> releaseIP kv ueIP;
             State_Monad.return (errorResp 500 (''store session: '' @ err_text err))
           }
         | None \<Rightarrow> do {
             _ \<leftarrow> sm_register_session getenv kv SBI session;
             State_Monad.return (json_resp 201 (marshal_CreateSMContextResponse (create_response session)))
           }
       }
   }"

definition create_defaults :: "CreateSMContextRequest \<Rightarrow> CreateSMContextRequest" where
  "create_defaults smReq = smReq\<lparr>
     csq_DNN := (if csq_DNN smReq = [] then ''internet'' else csq_DNN smReq),
     csq_PDUType := (if csq_PDUType smReq = [] then ''IPv4'' else csq_PDUType smReq)\<rparr>"

definition smf_pdu_session_create ::
  "(string \<Rightarrow> string) \<Rightarrow> 's KVStore \<Rightarrow> 's SBICaller option \<Rightarrow>
   (uint64 \<Rightarrow> string \<Rightarrow> uint32 \<Rightarrow> ('s, goerr option) handler) option \<Rightarrow> request \<Rightarrow> ('s, response) handler" where
  "smf_pdu_session_create getenv kv SBI PFCP req =
     (case unmarshal_body unmarshal_CreateSMContextRequest CreateSMContextRequest_zero (rq_Body req) of
        None \<Rightarrow> State_Monad.return (errorResp 400 (''invalid JSON: '' @ err_text JsonErr))
      | Some smReq0 \<Rightarrow>
        if csq_SUPI smReq0 = [] then State_Monad.return (errorResp 400 ''supi is required'')
        else let smReq = create_defaults smReq0 in do {
          r \<leftarrow> sm_policy SBI smReq;
          orReturn r
            (\<lambda>e. State_Monad.return (errorResp 500 (''Npcf_SMPolicyControl_Create: '' @ err_text e)))
            (\<lambda>policy. do {
               refused \<leftarrow> sm_refused getenv SBI (csq_SNSSAI smReq);
               if refused then State_Monad.return (errorResp 403 ''slice not available for PDU session'')
               else do {
                 a \<leftarrow> allocateIP (IPPoolPrefix getenv) kv;
                 orReturn a
                   (\<lambda>e. State_Monad.return (errorResp 500 (''IP allocation: '' @ err_text e)))
                   (\<lambda>ueIP.
                      if \<not> ParseIP ueIP then do {
                        _ \<leftarrow> releaseIP kv ueIP;
                        State_Monad.return (errorResp 500 (''invalid allocated IP: '' @ ueIP))
                      }
                      else sm_setup getenv kv SBI PFCP smReq policy ueIP)
               }
             })
        })"

section \<open>Session release\<close>

record ReleaseSMContextRequest =
  rlq_SessionID :: string

definition ReleaseSMContextRequest_zero :: ReleaseSMContextRequest where
  "ReleaseSMContextRequest_zero = \<lparr>rlq_SessionID = []\<rparr>"

definition ReleaseSMContextRequest_fields :: "ReleaseSMContextRequest fields" where
  "ReleaseSMContextRequest_fields = [(''session_id'', fld rlq_SessionID rlq_SessionID_update dec_string)]"

definition unmarshal_ReleaseSMContextRequest :: "ReleaseSMContextRequest decoder" where
  "unmarshal_ReleaseSMContextRequest = dec_struct ReleaseSMContextRequest_fields"

definition marshal_ReleaseSMContextRequest :: "ReleaseSMContextRequest \<Rightarrow> json" where
  "marshal_ReleaseSMContextRequest x = JObj ([(''session_id'', JStr (rlq_SessionID x))])"

lemma ReleaseSMContextRequest_codec [simp, codec]: "unmarshal_ReleaseSMContextRequest (marshal_ReleaseSMContextRequest x) ReleaseSMContextRequest_zero = Some x"
  by (cases x) (simp add: unmarshal_ReleaseSMContextRequest_def marshal_ReleaseSMContextRequest_def ReleaseSMContextRequest_fields_def ReleaseSMContextRequest_zero_def json_codec)

lemma ReleaseSMContextRequest_not_null [simp]: "marshal_ReleaseSMContextRequest x \<noteq> JNull"
  by (simp add: marshal_ReleaseSMContextRequest_def)

definition extractSEID :: "string \<Rightarrow> uint64" where
  "extractSEID sessionID =
     (let parts = split_on (CHR ''-'') sessionID in
      if length parts < 2 then 0 else sscanf_uint64 (last parts))"

definition sm_call_if :: "'s SBICaller option \<Rightarrow> bool \<Rightarrow> string \<Rightarrow> json \<Rightarrow> ('s, unit) handler" where
  "sm_call_if SBI cond f payload =
     (case SBI of
        Some sbi \<Rightarrow>
          if cond then do {
            _ \<leftarrow> CallFunction_nil sbi f payload;
            State_Monad.return ()
          } else State_Monad.return ()
      | None \<Rightarrow> State_Monad.return ())"

definition sm_delete :: "(uint64 \<Rightarrow> ('s, goerr option) handler) option \<Rightarrow> uint64 \<Rightarrow> ('s, goerr option) handler" where
  "sm_delete PFCP seid = (case PFCP of Some del \<Rightarrow> del seid | None \<Rightarrow> State_Monad.return None)"

definition smf_pdu_session_release ::
  "(string \<Rightarrow> string) \<Rightarrow> 's KVStore \<Rightarrow> 's SBICaller option \<Rightarrow> (uint64 \<Rightarrow> ('s, goerr option) handler) option \<Rightarrow>
   request \<Rightarrow> ('s, response) handler" where
  "smf_pdu_session_release getenv kv SBI PFCP req =
     (case unmarshal_body unmarshal_ReleaseSMContextRequest ReleaseSMContextRequest_zero (rq_Body req) of
        None \<Rightarrow> State_Monad.return (errorResp 400 (''invalid JSON: '' @ err_text JsonErr))
      | Some relReq \<Rightarrow>
        if rlq_SessionID relReq = [] then State_Monad.return (errorResp 400 ''session_id is required'')
        else let sid = rlq_SessionID relReq in do {
          r \<leftarrow> kvGet kv (session_key sid) unmarshal_PDUSession PDUSession_zero;
          orReturn r
            (\<lambda>e. State_Monad.return
               (if is_not_found e then errorResp 404 (''session '' @ sid @ '' not found'')
                else errorResp 500 (''get session: '' @ err_text e)))
            (\<lambda>session. do {
               e \<leftarrow> sm_delete PFCP (extractSEID sid);
               case e of
                 Some err \<Rightarrow> State_Monad.return (errorResp 500 (''N4 Session Deletion: '' @ err_text err))
               | None \<Rightarrow> do {
                   _ \<leftarrow> (if pdu_UEAddress session \<noteq> [] then kvDelete kv (ip_key (pdu_UEAddress session))
                        else State_Monad.return None);
                   _ \<leftarrow> sm_call_if SBI (getenv ''ENABLE_CHARGING'' = ''true'' \<and> pdu_ChargingID session \<noteq> [])
                        ''chf-charging-release'' (JObj [(''charging_id'', JStr (pdu_ChargingID session))]);
                   _ \<leftarrow> sm_call_if SBI (getenv ''ENABLE_BSF'' = ''true'' \<and> pdu_BSFBindingID session \<noteq> [])
                        ''bsf-binding-deregister'' (JObj [(''binding_id'', JStr (pdu_BSFBindingID session))]);
                   _ \<leftarrow> sm_call_if SBI (nsacf_enabled getenv) ''nsacf-update-counters''
                        (counter_payload (pdu_SNSSAI session) ''PDU_SESSION'' ''DECREMENT'');
                   d \<leftarrow> kvDelete kv (session_key sid);
                   State_Monad.return (case d of
                       Some err \<Rightarrow> errorResp 500 (''delete session: '' @ err_text err)
                     | None \<Rightarrow> json_resp 200 (JObj [(''session_id'', JStr sid), (''state'', JStr ''RELEASED'')]))
                 }
             })
        })"

section \<open>Session update\<close>

record UpdateSMContextRequest =
  usq_SessionID :: string
  usq_AMBRUL :: uint64
  usq_AMBRDL :: uint64
  usq_QFI :: uint8

definition UpdateSMContextRequest_zero :: UpdateSMContextRequest where
  "UpdateSMContextRequest_zero = \<lparr>usq_SessionID = [],
     usq_AMBRUL = 0,
     usq_AMBRDL = 0,
     usq_QFI = 0\<rparr>"

definition UpdateSMContextRequest_fields :: "UpdateSMContextRequest fields" where
  "UpdateSMContextRequest_fields = [(''session_id'', fld usq_SessionID usq_SessionID_update dec_string),
     (''ambr_ul'', fld usq_AMBRUL usq_AMBRUL_update dec_uint),
     (''ambr_dl'', fld usq_AMBRDL usq_AMBRDL_update dec_uint),
     (''qfi'', fld usq_QFI usq_QFI_update dec_uint)]"

definition unmarshal_UpdateSMContextRequest :: "UpdateSMContextRequest decoder" where
  "unmarshal_UpdateSMContextRequest = dec_struct UpdateSMContextRequest_fields"

definition marshal_UpdateSMContextRequest :: "UpdateSMContextRequest \<Rightarrow> json" where
  "marshal_UpdateSMContextRequest x = JObj ([(''session_id'', JStr (usq_SessionID x))] @
     omitempty (usq_AMBRUL x = 0) (''ambr_ul'', enc_uint (usq_AMBRUL x)) @
     omitempty (usq_AMBRDL x = 0) (''ambr_dl'', enc_uint (usq_AMBRDL x)) @
     omitempty (usq_QFI x = 0) (''qfi'', enc_uint (usq_QFI x)))"

lemma UpdateSMContextRequest_codec [simp, codec]: "unmarshal_UpdateSMContextRequest (marshal_UpdateSMContextRequest x) UpdateSMContextRequest_zero = Some x"
  by (cases x) (simp add: unmarshal_UpdateSMContextRequest_def marshal_UpdateSMContextRequest_def UpdateSMContextRequest_fields_def UpdateSMContextRequest_zero_def json_codec)

lemma UpdateSMContextRequest_not_null [simp]: "marshal_UpdateSMContextRequest x \<noteq> JNull"
  by (simp add: marshal_UpdateSMContextRequest_def)

definition apply_update :: "UpdateSMContextRequest \<Rightarrow> PDUSession \<Rightarrow> PDUSession" where
  "apply_update u session = session\<lparr>
     pdu_AMBRUL := (if usq_AMBRUL u > 0 then usq_AMBRUL u else pdu_AMBRUL session),
     pdu_AMBRDL := (if usq_AMBRDL u > 0 then usq_AMBRDL u else pdu_AMBRDL session),
     pdu_QFI := (if usq_QFI u > 0 then usq_QFI u else pdu_QFI session)\<rparr>"

definition sm_modify ::
  "(uint64 \<Rightarrow> ModifyParams \<Rightarrow> ('s, goerr option) handler) option \<Rightarrow> uint64 \<Rightarrow> ModifyParams \<Rightarrow> ('s, goerr option) handler" where
  "sm_modify PFCP seid params = (case PFCP of Some modif \<Rightarrow> modif seid params | None \<Rightarrow> State_Monad.return None)"

definition smf_pdu_session_update ::
  "'s KVStore \<Rightarrow> (uint64 \<Rightarrow> ModifyParams \<Rightarrow> ('s, goerr option) handler) option \<Rightarrow> request \<Rightarrow> ('s, response) handler" where
  "smf_pdu_session_update kv PFCP req =
     (case unmarshal_body unmarshal_UpdateSMContextRequest UpdateSMContextRequest_zero (rq_Body req) of
        None \<Rightarrow> State_Monad.return (errorResp 400 (''invalid JSON: '' @ err_text JsonErr))
      | Some updateReq \<Rightarrow>
        if usq_SessionID updateReq = [] then State_Monad.return (errorResp 400 ''session_id is required'')
        else let sid = usq_SessionID updateReq in do {
          r \<leftarrow> kvGet kv (session_key sid) unmarshal_PDUSession PDUSession_zero;
          orReturn r
            (\<lambda>e. State_Monad.return
               (if is_not_found e then errorResp 404 (''session '' @ sid @ '' not found'')
                else errorResp 500 (''get session: '' @ err_text e)))
            (\<lambda>stored. let session = apply_update updateReq stored in do {
               e \<leftarrow> sm_modify PFCP (extractSEID sid)
                   \<lparr>mp_AMBRUL = pdu_AMBRUL session, mp_AMBRDL = pdu_AMBRDL session, mp_QFI = pdu_QFI session\<rparr>;
               case e of
                 Some err \<Rightarrow> State_Monad.return (errorResp 500 (''pfcp modify: '' @ err_text err))
               | None \<Rightarrow> do {
                   p \<leftarrow> kvPut kv (session_key sid) (marshal_PDUSession session);
                   State_Monad.return (case p of
                       Some err \<Rightarrow> errorResp 500 (''update session: '' @ err_text err)
                     | None \<Rightarrow> json_resp 200 (marshal_PDUSession session))
                 }
             })
        })"

section \<open>N4 session set-up\<close>

record N4SetupRequest =
  n4q_SEID :: uint64
  n4q_UEIP :: string
  n4q_TEID :: uint32

definition N4SetupRequest_zero :: N4SetupRequest where
  "N4SetupRequest_zero = \<lparr>n4q_SEID = 0,
     n4q_UEIP = [],
     n4q_TEID = 0\<rparr>"

definition N4SetupRequest_fields :: "N4SetupRequest fields" where
  "N4SetupRequest_fields = [(''seid'', fld n4q_SEID n4q_SEID_update dec_uint),
     (''ue_ip'', fld n4q_UEIP n4q_UEIP_update dec_string),
     (''teid'', fld n4q_TEID n4q_TEID_update dec_uint)]"

definition unmarshal_N4SetupRequest :: "N4SetupRequest decoder" where
  "unmarshal_N4SetupRequest = dec_struct N4SetupRequest_fields"

definition marshal_N4SetupRequest :: "N4SetupRequest \<Rightarrow> json" where
  "marshal_N4SetupRequest x = JObj ([(''seid'', enc_uint (n4q_SEID x)),
     (''ue_ip'', JStr (n4q_UEIP x)),
     (''teid'', enc_uint (n4q_TEID x))])"

lemma N4SetupRequest_codec [simp, codec]: "unmarshal_N4SetupRequest (marshal_N4SetupRequest x) N4SetupRequest_zero = Some x"
  by (cases x) (simp add: unmarshal_N4SetupRequest_def marshal_N4SetupRequest_def N4SetupRequest_fields_def N4SetupRequest_zero_def json_codec)

lemma N4SetupRequest_not_null [simp]: "marshal_N4SetupRequest x \<noteq> JNull"
  by (simp add: marshal_N4SetupRequest_def)

record N4SetupResponse =
  n4p_SEID :: uint64
  n4p_Status :: string

definition N4SetupResponse_zero :: N4SetupResponse where
  "N4SetupResponse_zero = \<lparr>n4p_SEID = 0,
     n4p_Status = []\<rparr>"

definition N4SetupResponse_fields :: "N4SetupResponse fields" where
  "N4SetupResponse_fields = [(''seid'', fld n4p_SEID n4p_SEID_update dec_uint),
     (''status'', fld n4p_Status n4p_Status_update dec_string)]"

definition unmarshal_N4SetupResponse :: "N4SetupResponse decoder" where
  "unmarshal_N4SetupResponse = dec_struct N4SetupResponse_fields"

definition marshal_N4SetupResponse :: "N4SetupResponse \<Rightarrow> json" where
  "marshal_N4SetupResponse x = JObj ([(''seid'', enc_uint (n4p_SEID x)),
     (''status'', JStr (n4p_Status x))])"

lemma N4SetupResponse_codec [simp, codec]: "unmarshal_N4SetupResponse (marshal_N4SetupResponse x) N4SetupResponse_zero = Some x"
  by (cases x) (simp add: unmarshal_N4SetupResponse_def marshal_N4SetupResponse_def N4SetupResponse_fields_def N4SetupResponse_zero_def json_codec)

lemma N4SetupResponse_not_null [simp]: "marshal_N4SetupResponse x \<noteq> JNull"
  by (simp add: marshal_N4SetupResponse_def)

definition smf_n4_session_setup ::
  "(uint64 \<Rightarrow> string \<Rightarrow> uint32 \<Rightarrow> ('s, goerr option) handler) option \<Rightarrow> request \<Rightarrow> ('s, response) handler" where
  "smf_n4_session_setup PFCP req =
     (case unmarshal_body unmarshal_N4SetupRequest N4SetupRequest_zero (rq_Body req) of
        None \<Rightarrow> State_Monad.return (errorResp 400 (''invalid JSON: '' @ err_text JsonErr))
      | Some n4Req \<Rightarrow>
        if n4q_UEIP n4Req = [] then State_Monad.return (errorResp 400 ''ue_ip is required'')
        else if n4q_SEID n4Req = 0 then State_Monad.return (errorResp 400 ''seid is required'')
        else do {
          e \<leftarrow> (case PFCP of
              Some establish \<Rightarrow> establish (n4q_SEID n4Req) (n4q_UEIP n4Req) (n4q_TEID n4Req)
            | None \<Rightarrow> State_Monad.return None);
          State_Monad.return (case e of
              Some err \<Rightarrow> errorResp 500 (''pfcp establish: '' @ err_text err)
            | None \<Rightarrow> json_resp 200 (marshal_N4SetupResponse \<lparr>n4p_SEID = n4q_SEID n4Req, n4p_Status = ''ESTABLISHED''\<rparr>))
        })"

end
