(* ===== verification/SmfSessions.thy ===== *)
theory SmfSessions
  imports Smf
begin

text \<open>
  What the SMF functions of \<^verbatim>\<open>functions/smf\<close> guarantee.  The address pool is a ring of 65024 positions
  on which \<open>allocateIP\<close> takes the first free one.  The locale \<open>smf_env\<close> states what the functions rely on
  (a store whose operations succeed, peers and an N4 client that leave the SMF's keys and counters alone)
  and holds the specification of each function; \<open>smf_reach\<close> are the worlds that sequences of invocations lead
  to, and \<open>smf_inv\<close> is their invariant: no two sessions share a UE address.
\<close>

section \<open>The pool as a ring\<close>

text \<open>
  The cursor is a position on the ring of the 65024 addresses; \<open>pool_ip\<close> is the address at a
  position.
\<close>

definition pool_ip :: "string \<Rightarrow> nat \<Rightarrow> string" where
  "pool_ip prefix p = prefix @ ''.'' @ show_nat (p div 254) @ ''.'' @ show_nat (p mod 254 + 1)"

definition pool_ok :: "'s world \<Rightarrow> bool" where
  "pool_ok w \<longleftrightarrow> unat (w_ipPoolSubnet w) \<le> 255 \<and> 1 \<le> unat (w_ipPoolHost w) \<and> unat (w_ipPoolHost w) \<le> 254"

definition pool_pos :: "'s world \<Rightarrow> nat" where
  "pool_pos w = unat (w_ipPoolSubnet w) * 254 + (unat (w_ipPoolHost w) - 1)"

lemma pool_pos_bound: "pool_ok w \<Longrightarrow> pool_pos w < 65024"
  by (auto simp: pool_ok_def pool_pos_def)

lemma pool_parts:
  assumes "pool_ok w"
  shows "pool_pos w div 254 = unat (w_ipPoolSubnet w)" "pool_pos w mod 254 + 1 = unat (w_ipPoolHost w)"
proof -
  obtain h where h: "unat (w_ipPoolHost w) = h + 1" "h < 254"
    using assms by (intro that [of "unat (w_ipPoolHost w) - 1"]) (auto simp: pool_ok_def)
  then show "pool_pos w div 254 = unat (w_ipPoolSubnet w)" "pool_pos w mod 254 + 1 = unat (w_ipPoolHost w)"
    by (simp_all add: pool_pos_def)
qed

lemma ip_text_pool: "pool_ok w \<Longrightarrow> ip_text prefix (w_ipPoolSubnet w) (w_ipPoolHost w) = pool_ip prefix (pool_pos w)"
  by (simp only: pool_ip_def ip_text_def pool_parts)

lemma uint32_inc: "unat (x :: uint32) \<le> 255 \<Longrightarrow> unat (x + 1) = unat x + 1"
  by (subst unat_plus_if_size) (simp add: word_size)

lemma uint32_gt: "(x :: uint32) > numeral n \<longleftrightarrow> unat (numeral n :: uint32) < unat x"
  by (simp add: word_less_nat_alt)

lemma advance_pool_ring:
  assumes "pool_ok w"
  shows "pool_ok (advance_pool w)" "pool_pos (advance_pool w) = (pool_pos w + 1) mod 65024"
proof -
  let ?s = "unat (w_ipPoolSubnet w)" and ?h = "unat (w_ipPoolHost w)"
  have b: "?s \<le> 255" "1 \<le> ?h" "?h \<le> 254" using assms by (auto simp: pool_ok_def)
  have i: "unat (w_ipPoolSubnet w + 1) = ?s + 1" "unat (w_ipPoolHost w + 1) = ?h + 1"
    using b by (simp_all add: uint32_inc)
  have h: "w_ipPoolHost w + 1 > 254 \<longleftrightarrow> ?h = 254" using b by (auto simp: uint32_gt i)
  have s: "w_ipPoolSubnet w + 1 > 255 \<longleftrightarrow> ?s = 255" using b by (auto simp: uint32_gt i)
  show "pool_ok (advance_pool w)"
    using b i by (simp add: pool_ok_def advance_pool_def h s)
  show "pool_pos (advance_pool w) = (pool_pos w + 1) mod 65024"
  proof (cases "?h = 254")
    case True
    then show ?thesis
      using b i by (cases "?s = 255") (simp_all add: pool_pos_def advance_pool_def h s)
  next
    case False
    then have "pool_pos w + 1 = ?s * 254 + ?h" using b by (simp add: pool_pos_def)
    moreover have "?s * 254 + ?h < 65024" using b False by linarith
    ultimately show ?thesis
      using b i False by (simp add: pool_pos_def advance_pool_def h)
  qed
qed

lemma advance_pool_store [simp]: "w_store (advance_pool w) = w_store w" "w_seidCounter (advance_pool w) = w_seidCounter w"
  by (simp_all add: advance_pool_def)

lemma pool_store [simp]: "pool_ok (w\<lparr>w_store := s\<rparr>) = pool_ok w" "pool_pos (w\<lparr>w_store := s\<rparr>) = pool_pos w"
  by (simp_all add: pool_ok_def pool_pos_def)

lemma ring_covers:
  assumes "p < (n :: nat)"
  shows "(\<exists>i < n. P ((p + i) mod n)) \<longleftrightarrow> (\<exists>q < n. P q)"
proof
  assume "\<exists>q < n. P q"
  then obtain q where q: "q < n" "P q" by blast
  have "(p + (q + n - p) mod n) mod n = (p + (q + n - p)) mod n" by (simp add: mod_add_right_eq)
  also have "\<dots> = q" using assms q(1) by simp
  finally have "P ((p + (q + n - p) mod n) mod n)" using q(2) by simp
  moreover have "(q + n - p) mod n < n" using assms by simp
  ultimately show "\<exists>i < n. P ((p + i) mod n)" by blast
next
  assume "\<exists>i < n. P ((p + i) mod n)"
  then obtain i where "P ((p + i) mod n)" by blast
  moreover have "(p + i) mod n < n" using assms by simp
  ultimately show "\<exists>q < n. P q" by blast
qed

text \<open>The pool entry of an address holds no text: the address can be handed out.\<close>

definition ip_free :: "(string \<rightharpoonup> json) \<Rightarrow> string \<Rightarrow> bool" where
  "ip_free s ip \<longleftrightarrow> (case s (ip_key ip) of None \<Rightarrow> True | Some j \<Rightarrow> dec_string j [] = None)"

definition alloc_post :: "('s \<Rightarrow> string \<rightharpoonup> json) \<Rightarrow> string set \<Rightarrow> 's world \<Rightarrow> goerr + string \<Rightarrow> 's world \<Rightarrow> bool" where
  "alloc_post view ips w r w' \<longleftrightarrow> pool_ok w' \<and> w_seidCounter w' = w_seidCounter w \<and>
     (case r of
        Inr ip \<Rightarrow> ip \<in> ips \<and> ip_free (view (w_store w)) ip \<and>
          view (w_store w') = (view (w_store w))(ip_key ip \<mapsto> JStr ip)
      | Inl e \<Rightarrow> e = ExtErr ''IP pool exhausted'' \<and> view (w_store w') = view (w_store w) \<and>
          (\<forall>ip \<in> ips. \<not> ip_free (view (w_store w)) ip))"

lemma ring_image: "p < (n :: nat) \<Longrightarrow> (\<lambda>i. f ((p + i) mod n)) ` {..<n} = f ` {..<n}"
  using ring_covers [of p n "\<lambda>q. x = f q" for x]
  by (simp add: set_eq_iff image_iff Bex_def)

context reliable_store
begin

lemma allocateIP_loop_spec:
  assumes "pool_ok w"
  shows "wp (allocateIP_loop prefix kv n)
    (alloc_post view ((\<lambda>i. pool_ip prefix ((pool_pos w + i) mod 65024)) ` {..<n}) w) w"
  using assms
proof (induction n arbitrary: w)
  case 0
  then show ?case by (simp add: wp alloc_post_def)
next
  case (Suc n)
  let ?ip = "pool_ip prefix (pool_pos w)" and ?s = "view (w_store w)"
  note ring = advance_pool_ring [OF Suc.prems]
  let ?ips = "(\<lambda>i. pool_ip prefix ((pool_pos w + Suc i) mod 65024)) ` {..<n}"
  have ips: "(\<lambda>i. pool_ip prefix ((pool_pos w + i) mod 65024)) ` {..<Suc n} = insert ?ip ?ips"
    using pool_pos_bound [OF Suc.prems] by (simp add: lessThan_Suc_eq_insert_0 image_image)
  have IH: "wp (allocateIP_loop prefix kv n) (alloc_post view ?ips w1) w1"
    if "pool_ok w1" "pool_pos w1 = pool_pos (advance_pool w)" for w1
    using Suc.IH [OF that(1)] unfolding that(2) ring(2) by (simp add: mod_simps)
  have fresh: "alloc_post view (insert ?ip ?ips) w (Inr ?ip) w'"
    if "ip_free ?s ?ip" "pool_ok w'" "w_seidCounter w' = w_seidCounter w" "view (w_store w') = ?s(ip_key ?ip \<mapsto> JStr ?ip)" for w'
    using that by (simp add: alloc_post_def)
  have more: "alloc_post view (insert ?ip ?ips) w r w'"
    if "\<not> ip_free ?s ?ip" "alloc_post view ?ips w1 r w'" "view (w_store w1) = ?s" "w_seidCounter w1 = w_seidCounter w" for r w' w1
    using that by (auto simp: alloc_post_def split: sum.splits)
  show ?case
    unfolding allocateIP_loop.simps wp Let_def ip_text_pool [OF Suc.prems] ips
  proof (rule wp_kvGet_reliable)
    fix s' assume s': "view s' = view (w_store (advance_pool w))"
    have pw: "pool_ok ((advance_pool w)\<lparr>w_store := s'\<rparr>)" using ring(1) by simp
    show "wp
          (case case view (w_store (advance_pool w)) (ip_key ?ip) of None \<Rightarrow> Inl (KeyNotFound (ip_key ?ip))
              | Some j \<Rightarrow> case dec_string j [] of None \<Rightarrow> Inl JsonErr | Some x \<Rightarrow> Inr x of
            Inl x \<Rightarrow> State_Monad.bind (kvPut kv (ip_key ?ip) (JStr ?ip))
              (\<lambda>e. State_Monad.return (case e of None \<Rightarrow> Inr ?ip | Some err \<Rightarrow> Inl (ExtErr (''record IP allocation: '' @ err_text err))))
          | Inr x \<Rightarrow> allocateIP_loop prefix kv n)
        (alloc_post view (insert ?ip ?ips) w) ((advance_pool w)\<lparr>w_store := s'\<rparr>)"
    proof (cases "ip_free ?s ?ip")
      case True
      have "wp (State_Monad.bind (kvPut kv (ip_key ?ip) (JStr ?ip))
              (\<lambda>e. State_Monad.return (case e of None \<Rightarrow> Inr ?ip | Some err \<Rightarrow> Inl (ExtErr (''record IP allocation: '' @ err_text err)))))
        (alloc_post view (insert ?ip ?ips) w) ((advance_pool w)\<lparr>w_store := s'\<rparr>)"
        unfolding wp by (rule wp_kvPut_reliable, unfold option.case, rule fresh [OF True]) (simp_all add: ring(1) s')
      with True show ?thesis by (auto simp: ip_free_def split: option.splits)
    next
      case False
      have "wp (allocateIP_loop prefix kv n) (alloc_post view (insert ?ip ?ips) w) ((advance_pool w)\<lparr>w_store := s'\<rparr>)"
        by (rule wp_mono [OF IH [OF pw]], simp, rule more [OF False], assumption) (simp_all add: s')
      with False show ?thesis by (auto simp: ip_free_def split: option.splits)
    qed
  qed
qed

lemma allocateIP_spec:
  assumes "pool_ok w"
  shows "wp (allocateIP prefix kv) (alloc_post view (pool_ip prefix ` {..<65024}) w) w"
  using allocateIP_loop_spec [OF assms, of prefix 65024]
  unfolding allocateIP_def ring_image [OF pool_pos_bound [OF assms], of "pool_ip prefix"] .

end

section \<open>What belongs to the SMF\<close>

definition smf_key :: "string \<Rightarrow> bool" where
  "smf_key k \<longleftrightarrow> (\<exists>i. k = session_key i) \<or> (\<exists>ip. k = ip_key ip)"

definition smf_view :: "(string \<rightharpoonup> json) \<Rightarrow> (string \<rightharpoonup> json)" where
  "smf_view s k = (if smf_key k then s k else None)"

definition smf_state :: "('s \<Rightarrow> string \<rightharpoonup> json) \<Rightarrow> 's world \<Rightarrow> (string \<rightharpoonup> json) \<times> uint32 \<times> uint32 \<times> uint64" where
  "smf_state view w = (smf_view (view (w_store w)), w_ipPoolSubnet w, w_ipPoolHost w, w_seidCounter w)"

text \<open>A run that leaves the SMF's part of the world alone: its keys and its package variables.\<close>

abbreviation smf_quiet :: "('s \<Rightarrow> string \<rightharpoonup> json) \<Rightarrow> ('s, 'a) handler \<Rightarrow> bool" where
  "smf_quiet view m \<equiv> preserves (smf_state view) m"

lemma smf_keys [simp]: "smf_key (session_key i)" "smf_key (ip_key ip)"
  by (auto simp: smf_key_def)

lemma key_diff [simp]:
  "session_key i \<noteq> ip_key ip" "ip_key ip \<noteq> session_key i"
  "session_key i = session_key j \<longleftrightarrow> i = j" "ip_key a = ip_key b \<longleftrightarrow> a = b"
  by (simp_all add: session_key_def ip_key_def)

lemma smf_view_at [simp]: "smf_key k \<Longrightarrow> smf_view s k = s k"
  by (simp add: smf_view_def)

lemma smf_view_upd: "smf_key k \<Longrightarrow> smf_view (s(k := v)) = (smf_view s)(k := v)"
  by (auto simp: smf_view_def fun_eq_iff)

lemma smf_state_reads [pres]: "reads_outside view (\<lambda>k. \<not> smf_key k) (smf_state view)"
  by (auto simp: reads_outside_def smf_state_def smf_view_def fun_eq_iff)

lemma ip_free_view: "ip_free (smf_view s) ip = ip_free s ip"
  by (simp add: ip_free_def)

lemma smf_stateD:
  assumes "smf_state view w' = smf_state view w"
  shows "smf_view (view (w_store w')) = smf_view (view (w_store w))" "w_seidCounter w' = w_seidCounter w"
    "pool_ok w' = pool_ok w" "ip_free (view (w_store w')) ip = ip_free (view (w_store w)) ip"
proof -
  show v: "smf_view (view (w_store w')) = smf_view (view (w_store w))" "w_seidCounter w' = w_seidCounter w" "pool_ok w' = pool_ok w"
    using assms by (auto simp: smf_state_def pool_ok_def)
  show "ip_free (view (w_store w')) ip = ip_free (view (w_store w)) ip"
    by (metis v(1) ip_free_view)
qed

lemma smf_quiet_pfcp: "smf_quiet view (EstablishSession lib seid ip teid)" "smf_quiet view (ModifySession lib seid params)"
  "smf_quiet view (DeleteSession lib seid)"
  by (auto simp: preserves_def smf_state_def pfcp_client_defs wp split: sum.splits)

lemma session_id_inject [simp]: "session_id supi a = session_id supi' b \<longleftrightarrow> supi = supi' \<and> a = b"
proof
  assume e: "session_id supi a = session_id supi' b"
  have "last (split_on (CHR ''-'') (session_id s c)) = show_nat (unat c)" for s c
    using last_split_on [OF show_nat_no_minus [of "unat c"], of "''pdu-'' @ s"] by (simp add: session_id_def)
  with e have "show_nat (unat a) = show_nat (unat b)" by metis
  with e show "supi = supi' \<and> a = b" by (simp add: session_id_def word_unat_eq_iff)
qed simp

section \<open>Sessions and their addresses\<close>

definition session_at :: "(string \<rightharpoonup> json) \<Rightarrow> string \<Rightarrow> PDUSession option" where
  "session_at s i = Option.bind (s (session_key i)) (\<lambda>j. unmarshal_PDUSession j PDUSession_zero)"

text \<open>
  Every stored session can be read, was created under a SEID not above the counter, and has its
  address recorded in the pool; no two sessions have the same address.
\<close>

definition sessions_ok :: "(string \<rightharpoonup> json) \<Rightarrow> nat \<Rightarrow> bool" where
  "sessions_ok s c \<longleftrightarrow>
     (\<forall>i. s (session_key i) \<noteq> None \<longrightarrow>
        (\<exists>sess seid. session_at s i = Some sess \<and> i = session_id (pdu_SUPI sess) seid \<and> unat seid \<le> c \<and>
           s (ip_key (pdu_UEAddress sess)) = Some (JStr (pdu_UEAddress sess)))) \<and>
     (\<forall>i i' sess sess'. session_at s i = Some sess \<longrightarrow> session_at s i' = Some sess' \<longrightarrow>
        pdu_UEAddress sess = pdu_UEAddress sess' \<longrightarrow> i = i')"

lemma session_at_upd [simp]:
  "session_at (s(session_key i \<mapsto> marshal_PDUSession x)) i' = (if i' = i then Some x else session_at s i')"
  "session_at (s(session_key i := None)) i' = (if i' = i then None else session_at s i')"
  "session_at (s(ip_key ip := v)) i' = session_at s i'"
  by (auto simp: session_at_def)

lemma session_at_view [simp]: "session_at (smf_view s) i = session_at s i"
  by (simp add: session_at_def)

lemma session_at_stored: "session_at s i = Some sess \<Longrightarrow> s (session_key i) \<noteq> None"
  by (cases "s (session_key i)") (simp_all add: session_at_def)

lemma sessions_ok_view: "sessions_ok (smf_view s) c = sessions_ok s c"
  by (simp add: sessions_ok_def)

lemma sessions_okD:
  assumes "sessions_ok s c" "session_at s i = Some sess"
  shows "s (ip_key (pdu_UEAddress sess)) = Some (JStr (pdu_UEAddress sess))"
    "\<exists>seid. i = session_id (pdu_SUPI sess) seid \<and> unat seid \<le> c"
    "session_at s i' = Some sess' \<Longrightarrow> pdu_UEAddress sess = pdu_UEAddress sess' \<Longrightarrow> i = i'"
  using assms session_at_stored [OF assms(2)] unfolding sessions_ok_def by fastforce+

lemma sessions_okI:
  assumes "\<And>i. s (session_key i) \<noteq> None \<Longrightarrow> \<exists>sess seid. session_at s i = Some sess \<and> i = session_id (pdu_SUPI sess) seid \<and>
      unat seid \<le> c \<and> s (ip_key (pdu_UEAddress sess)) = Some (JStr (pdu_UEAddress sess))"
    and "\<And>i i' sess sess'. session_at s i = Some sess \<Longrightarrow> session_at s i' = Some sess' \<Longrightarrow>
      pdu_UEAddress sess = pdu_UEAddress sess' \<Longrightarrow> i = i'"
  shows "sessions_ok s c"
  using assms by (simp add: sessions_ok_def)

lemma sessions_ok_mono: "sessions_ok s c \<Longrightarrow> c \<le> c' \<Longrightarrow> sessions_ok s c'"
  unfolding sessions_ok_def using le_trans by blast

lemma free_not_used: "sessions_ok s c \<Longrightarrow> ip_free s ip \<Longrightarrow> session_at s i = Some sess \<Longrightarrow> pdu_UEAddress sess \<noteq> ip"
  using sessions_okD(1) [of s c i sess] by (auto simp: ip_free_def)

lemma sessions_ok_stored: "sessions_ok s c \<Longrightarrow> s (session_key i) \<noteq> None \<Longrightarrow> \<exists>sess. session_at s i = Some sess"
  by (auto simp: sessions_ok_def)

lemma sessions_ok_drop: 
  assumes "sessions_ok s c" "ip_free s ip"
  shows "sessions_ok (s(ip_key ip := None)) c"
proof (rule sessions_okI)
  fix i assume "(s(ip_key ip := None)) (session_key i) \<noteq> None"
  then obtain sess where sess: "session_at s i = Some sess" using sessions_ok_stored [OF assms(1)] by auto
  show "\<exists>sess seid. session_at (s(ip_key ip := None)) i = Some sess \<and> i = session_id (pdu_SUPI sess) seid \<and> unat seid \<le> c \<and>
      (s(ip_key ip := None)) (ip_key (pdu_UEAddress sess)) = Some (JStr (pdu_UEAddress sess))"
    using sess sessions_okD(1,2) [OF assms(1) sess] free_not_used [OF assms sess] by auto
qed (use sessions_okD(3) [OF assms(1)] in auto)

lemma sessions_ok_create:
  assumes ok: "sessions_ok s c" and free: "ip_free s ip" and c: "c < unat seid"
    and sess: "pdu_UEAddress sess = ip" "pdu_SUPI sess = supi"
  shows "sessions_ok (s(ip_key ip \<mapsto> JStr ip, session_key (session_id supi seid) \<mapsto> marshal_PDUSession sess)) (unat seid)"
    (is "sessions_ok ?s _")
proof (rule sessions_okI)
  have other: "pdu_UEAddress x \<noteq> ip" if "session_at s i = Some x" for i x
    using free_not_used [OF ok free that] .
  fix i assume i: "?s (session_key i) \<noteq> None"
  show "\<exists>x n. session_at ?s i = Some x \<and> i = session_id (pdu_SUPI x) n \<and> unat n \<le> unat seid \<and>
      ?s (ip_key (pdu_UEAddress x)) = Some (JStr (pdu_UEAddress x))"
  proof (cases "i = session_id supi seid")
    case False
    with i obtain x where x: "session_at s i = Some x" using sessions_ok_stored [OF ok] by auto
    with False show ?thesis
      using sessions_okD(1,2) [OF ok x] other [OF x] c by (fastforce intro: less_imp_le le_trans)
  qed (use sess in auto)
next
  fix i i' x x'
  assume "session_at ?s i = Some x" "session_at ?s i' = Some x'" "pdu_UEAddress x = pdu_UEAddress x'"
  then show "i = i'"
    using free_not_used [OF ok free] sessions_okD(3) [OF ok] sess by (auto split: if_splits)
qed

lemma sessions_ok_update:
  assumes ok: "sessions_ok s c" and old: "session_at s i = Some old"
    and sess: "pdu_UEAddress sess = pdu_UEAddress old" "pdu_SUPI sess = pdu_SUPI old"
  shows "sessions_ok (s(session_key i \<mapsto> marshal_PDUSession sess)) c" (is "sessions_ok ?s c")
proof (rule sessions_okI)
  fix k assume k: "?s (session_key k) \<noteq> None"
  show "\<exists>x n. session_at ?s k = Some x \<and> k = session_id (pdu_SUPI x) n \<and> unat n \<le> c \<and>
      ?s (ip_key (pdu_UEAddress x)) = Some (JStr (pdu_UEAddress x))"
  proof (cases "k = i")
    case True
    then show ?thesis using sessions_okD(1,2) [OF ok old] sess by auto
  next
    case False
    with k obtain x where x: "session_at s k = Some x" using sessions_ok_stored [OF ok] by auto
    with False show ?thesis using sessions_okD(1,2) [OF ok x] by auto
  qed
next
  fix a b x y
  assume "session_at ?s a = Some x" "session_at ?s b = Some y" "pdu_UEAddress x = pdu_UEAddress y"
  then show "a = b"
    using sessions_okD(3) [OF ok old] sessions_okD(3) [OF ok] sess by (auto split: if_splits)
qed

lemma sessions_ok_release:
  assumes ok: "sessions_ok s c" and old: "session_at s i = Some old"
  shows "sessions_ok (s(ip_key (pdu_UEAddress old) := None, session_key i := None)) c" (is "sessions_ok ?s c")
proof (rule sessions_okI)
  fix k assume k: "?s (session_key k) \<noteq> None"
  then obtain x where x: "session_at s k = Some x" and ki: "k \<noteq> i"
    using sessions_ok_stored [OF ok] by (auto split: if_splits)
  have "pdu_UEAddress x \<noteq> pdu_UEAddress old" using sessions_okD(3) [OF ok x old] ki by blast
  with x ki show "\<exists>x n. session_at ?s k = Some x \<and> k = session_id (pdu_SUPI x) n \<and> unat n \<le> c \<and>
      ?s (ip_key (pdu_UEAddress x)) = Some (JStr (pdu_UEAddress x))"
    using sessions_okD(1,2) [OF ok x] by auto
qed (use sessions_okD(3) [OF ok] in \<open>auto split: if_splits\<close>)

text \<open>The invariant of the SMF's part of the world.\<close>

definition smf_inv :: "('s \<Rightarrow> string \<rightharpoonup> json) \<Rightarrow> 's world \<Rightarrow> bool" where
  "smf_inv view w \<longleftrightarrow> pool_ok w \<and> sessions_ok (view (w_store w)) (unat (w_seidCounter w))"

lemma smf_inv_state: "smf_state view w' = smf_state view w \<Longrightarrow> smf_inv view w' = smf_inv view w"
  using smf_stateD [of view w' w] sessions_ok_view by (metis smf_inv_def)

section \<open>The SMF in its environment\<close>

text \<open>
  A creation that stores its session: over the contents \<open>s\<close> it adds the record of the new session,
  completed with the identifiers of its binding and of its charging session, and reports the session.
\<close>

definition stores_session ::
  "(string \<Rightarrow> string) \<Rightarrow> CreateSMContextRequest \<Rightarrow> SmPolicyDecision \<Rightarrow> string \<Rightarrow> uint64 \<Rightarrow>
   (string \<rightharpoonup> json) \<Rightarrow> response \<Rightarrow> (string \<rightharpoonup> json) \<Rightarrow> bool" where
  "stores_session getenv smReq policy ip seid s r s' \<longleftrightarrow>
     (\<exists>now b c. smf_view s' = (smf_view s)(session_key (session_id (csq_SUPI smReq) seid) \<mapsto>
          marshal_PDUSession ((new_session getenv smReq policy ip seid now)\<lparr>pdu_BSFBindingID := b, pdu_ChargingID := c\<rparr>)) \<and>
        rs_Body r = BJson (marshal_CreateSMContextResponse (create_response (new_session getenv smReq policy ip seid now))))"

lemma pdu_ID_new [simp]: "pdu_ID (new_session getenv smReq policy ip seid now) = session_id (csq_SUPI smReq) seid"
  by (simp add: new_session_def)

text \<open>What a creation does to the SMF's part of the world.\<close>

definition create_post :: "('s \<Rightarrow> string \<rightharpoonup> json) \<Rightarrow> (string \<Rightarrow> string) \<Rightarrow> CreateSMContextRequest \<Rightarrow> 's world \<Rightarrow> response \<Rightarrow> 's world \<Rightarrow> bool" where
  "create_post view getenv smReq w r w' \<longleftrightarrow> pool_ok w' \<and>
     (if rs_StatusCode r = 201
      then \<exists>policy ip. ip \<in> pool_ip (IPPoolPrefix getenv) ` {..<65024} \<and> ParseIP ip \<and> ip_free (view (w_store w)) ip \<and>
        w_seidCounter w' = w_seidCounter w + 1 \<and>
        stores_session getenv smReq policy ip (w_seidCounter w + 1) ((view (w_store w))(ip_key ip \<mapsto> JStr ip)) r (view (w_store w'))
      else w_seidCounter w' \<in> {w_seidCounter w, w_seidCounter w + 1} \<and>
        (smf_view (view (w_store w')) = smf_view (view (w_store w)) \<or>
         (\<exists>ip. ip_free (view (w_store w)) ip \<and> smf_view (view (w_store w')) = (smf_view (view (w_store w)))(ip_key ip := None))))"

text \<open>The functions the SMF calls.\<close>

definition smf_peer :: "string \<Rightarrow> bool" where
  "smf_peer f \<longleftrightarrow> f \<in> {''pcf-policy-create'', ''nsacf-slice-availability-check'', ''nsacf-update-counters'',
     ''bsf-binding-register'', ''bsf-binding-deregister'', ''chf-charging-create'', ''chf-charging-release''}"

lemma smf_peers [simp]:
  "smf_peer ''pcf-policy-create''" "smf_peer ''nsacf-slice-availability-check''" "smf_peer ''nsacf-update-counters''"
  "smf_peer ''bsf-binding-register''" "smf_peer ''bsf-binding-deregister''" "smf_peer ''chf-charging-create''"
  "smf_peer ''chf-charging-release''"
  by (simp_all add: smf_peer_def)

text \<open>
  What the SMF functions rely on: a reliable store, peers that leave the SMF's keys and counters
  alone, and an N4 client that does too.
\<close>

locale smf_env = reliable_store kv view
  for kv :: "'s KVStore" and view :: "'s \<Rightarrow> string \<rightharpoonup> json" +
  fixes SBI :: "'s SBICaller option"
    and establish :: "(uint64 \<Rightarrow> string \<Rightarrow> uint32 \<Rightarrow> ('s, goerr option) handler) option"
    and modif :: "(uint64 \<Rightarrow> ModifyParams \<Rightarrow> ('s, goerr option) handler) option"
    and del :: "(uint64 \<Rightarrow> ('s, goerr option) handler) option"
  assumes sbi_quiet: "SBI = Some sbi \<Longrightarrow> smf_peer f \<Longrightarrow> smf_quiet view (sbi f p)"
    and establish_quiet: "establish = Some est \<Longrightarrow> smf_quiet view (est seid ip teid)"
    and modif_quiet: "modif = Some md \<Longrightarrow> smf_quiet view (md seid params)"
    and del_quiet: "del = Some dl \<Longrightarrow> smf_quiet view (dl seid)"
begin

lemma sm_policy_quiet: "smf_quiet view (sm_policy SBI smReq)"
  unfolding sm_policy_def by (intro pres sbi_quiet smf_peers)

lemma sm_refused_quiet: "smf_quiet view (sm_refused getenv SBI snssai)"
  unfolding sm_refused_def by (intro pres sbi_quiet smf_peers)

lemma sm_call_if_quiet: "smf_peer f \<Longrightarrow> smf_quiet view (sm_call_if SBI cond f payload)"
  unfolding sm_call_if_def by (intro pres sbi_quiet)

lemma sm_establish_quiet: "smf_quiet view (sm_establish establish seid ip)"
  unfolding sm_establish_def by (intro pres establish_quiet)

lemma sm_count_quiet: "SBI = Some sbi \<Longrightarrow> smf_quiet view (sm_count getenv sbi snssai op)"
  unfolding sm_count_def by (intro pres sbi_quiet smf_peers)

text \<open>After a session is stored, its record is at most completed with the identifiers of its binding
  and of its charging session.\<close>

definition completes :: "PDUSession \<Rightarrow> 's world \<Rightarrow> 's world \<Rightarrow> bool" where
  "completes session w w' \<longleftrightarrow>
     w_seidCounter w' = w_seidCounter w \<and> (pool_ok w' \<longleftrightarrow> pool_ok w) \<and>
     smf_view (view (w_store w')) = (smf_view (view (w_store w)))(session_key (pdu_ID session) \<mapsto> marshal_PDUSession session)"

lemma completes_refl: "view (w_store w) (session_key (pdu_ID session)) = Some (marshal_PDUSession session) \<Longrightarrow> completes session w w"
  by (simp add: completes_def fun_upd_idem)

lemma completes_quiet: "completes session w w' \<Longrightarrow> smf_state view w'' = smf_state view w' \<Longrightarrow> completes session w w''"
  using smf_stateD [of view w'' w'] by (simp add: completes_def)

lemma completes_put:
  "completes session w w' \<Longrightarrow> pdu_ID session' = pdu_ID session \<Longrightarrow>
   view s = (view (w_store w'))(session_key (pdu_ID session) \<mapsto> marshal_PDUSession session') \<Longrightarrow>
   completes session' w (w'\<lparr>w_store := s\<rparr>)"
  by (simp add: completes_def smf_view_upd)

lemma sm_bind_pcf_spec:
  assumes "SBI = Some sbi" "completes session w w0"
  shows "wp (sm_bind_pcf getenv kv sbi session) (\<lambda>session1 w'. completes session1 w w' \<and> (\<exists>b. session1 = session\<lparr>pdu_BSFBindingID := b\<rparr>)) w0"
proof -
  have id: "\<exists>b. session = session\<lparr>pdu_BSFBindingID := b\<rparr>" by (rule exI [of _ "pdu_BSFBindingID session"]) simp
  have upd: "\<exists>b. session\<lparr>pdu_BSFBindingID := x\<rparr> = session\<lparr>pdu_BSFBindingID := b\<rparr>" for x by blast
  have q: "completes session w w'" if "smf_state view w' = smf_state view w0" for w'
    using completes_quiet [OF assms(2) that] .
  show ?thesis
    using assms(2)
    by (auto simp: sm_bind_pcf_def wp id upd q split: prod.splits
        intro!: wp_preserves [OF sbi_quiet [OF assms(1) smf_peers(4)]] wp_kvPut_reliable completes_put [where session = session])
qed

lemma sm_start_charging_spec:
  assumes "SBI = Some sbi" "completes session w w0"
  shows "wp (sm_start_charging getenv kv sbi session) (\<lambda>session1 w'. completes session1 w w' \<and> (\<exists>c. session1 = session\<lparr>pdu_ChargingID := c\<rparr>)) w0"
proof -
  have id: "\<exists>c. session = session\<lparr>pdu_ChargingID := c\<rparr>" by (rule exI [of _ "pdu_ChargingID session"]) simp
  have upd: "\<exists>c. session\<lparr>pdu_ChargingID := x\<rparr> = session\<lparr>pdu_ChargingID := c\<rparr>" for x by blast
  have q: "completes session w w'" if "smf_state view w' = smf_state view w0" for w'
    using completes_quiet [OF assms(2) that] .
  show ?thesis
    using assms(2)
    by (auto simp: sm_start_charging_def wp id upd q split: prod.splits
        intro!: wp_preserves [OF sbi_quiet [OF assms(1) smf_peers(6)]] wp_kvPut_reliable completes_put [where session = session])
qed

lemma sm_register_session_spec:
  assumes "completes session w w0"
  shows "wp (sm_register_session getenv kv SBI session)
     (\<lambda>_ w'. \<exists>b c. completes (session\<lparr>pdu_BSFBindingID := b, pdu_ChargingID := c\<rparr>) w w') w0"
proof (cases SBI)
  case None
  have "completes (session\<lparr>pdu_BSFBindingID := pdu_BSFBindingID session, pdu_ChargingID := pdu_ChargingID session\<rparr>) w w0"
    using assms by simp
  then show ?thesis unfolding sm_register_session_def None option.case wp_basic by blast
next
  case (Some sbi)
  have count: "wp (sm_count getenv sbi snssai op) (\<lambda>_ w'. \<exists>b c. completes (session\<lparr>pdu_BSFBindingID := b, pdu_ChargingID := c\<rparr>) w w') w1"
    if "completes (session\<lparr>pdu_BSFBindingID := b, pdu_ChargingID := c\<rparr>) w w1" for snssai op b c w1
    by (rule wp_preserves [OF sm_count_quiet [OF Some]]) (use completes_quiet [OF that] in blast)
  show ?thesis
    unfolding sm_register_session_def Some option.case wp_basic
    by (rule wp_mono [OF sm_bind_pcf_spec [OF Some assms]], elim conjE exE, hypsubst,
        rule wp_mono [OF sm_start_charging_spec [OF Some]], assumption, elim conjE exE, hypsubst, rule count, simp)
qed

text \<open>The second half of the creation, from the allocated address on.\<close>

lemma sm_setup_spec:
  "wp (sm_setup getenv kv SBI establish smReq policy ip)
     (\<lambda>r w'. w_seidCounter w' = w_seidCounter w + 1 \<and> pool_ok w' = pool_ok w \<and>
        (if rs_StatusCode r = 201
         then stores_session getenv smReq policy ip (w_seidCounter w + 1) (view (w_store w)) r (view (w_store w'))
         else smf_view (view (w_store w')) = (smf_view (view (w_store w)))(ip_key ip := None))) w"
proof -
  have made: "stores_session getenv smReq policy ip seid s (json_resp 201 (marshal_CreateSMContextResponse
        (create_response (new_session getenv smReq policy ip seid now)))) s'"
    if "smf_view s' = (smf_view s)(session_key (session_id (csq_SUPI smReq) seid) \<mapsto>
        marshal_PDUSession ((new_session getenv smReq policy ip seid now)\<lparr>pdu_BSFBindingID := b, pdu_ChargingID := c\<rparr>))"
    for seid s s' now b c
    unfolding stores_session_def using that by auto
  have inc: "pool_ok (w\<lparr>w_seidCounter := c\<rparr>) = pool_ok w" "pool_ok (w1\<lparr>w_reads := n\<rparr>) = pool_ok w1" for c w1 n
    by (simp_all add: pool_ok_def)
  have reg: "wp (sm_register_session getenv kv SBI session) Q w1"
    if "view (w_store w1) (session_key (pdu_ID session)) = Some (marshal_PDUSession session)"
      "\<And>u w' b c. completes (session\<lparr>pdu_BSFBindingID := b, pdu_ChargingID := c\<rparr>) w1 w' \<Longrightarrow> Q u w'" for session Q w1
    by (rule wp_mono [OF sm_register_session_spec [OF completes_refl [OF that(1)]]]) (use that(2) in blast)
  show ?thesis
    unfolding sm_setup_def wp Let_def releaseIP_def
    apply (rule wp_preserves [OF sm_establish_quiet])
    subgoal for e w1
      using smf_stateD [of view w1 "w\<lparr>w_seidCounter := w_seidCounter w + 1\<rparr>"]
      apply (cases e)
       apply (auto simp: wp inc smf_view_upd completes_def intro!: wp_kvPut_reliable wp_kvDelete_reliable reg)
       apply (erule made)+
      done
    done
qed

lemma smf_pdu_session_create_spec:
  assumes "pool_ok w"
    and "unmarshal_body unmarshal_CreateSMContextRequest CreateSMContextRequest_zero (rq_Body req) = Some smReq"
  shows "wp (smf_pdu_session_create getenv kv SBI establish req) (create_post view getenv (create_defaults smReq) w) w"
proof -
  let ?smReq = "create_defaults smReq"
  have quiet: "create_post view getenv ?smReq w r w'" if "smf_state view w' = smf_state view w" "rs_StatusCode r \<noteq> 201" for r w'
    using smf_stateD [OF that(1)] assms(1) that(2) by (simp add: create_post_def)
  have rel: "create_post view getenv ?smReq w r w2"
    if "smf_state view w0 = smf_state view w" "alloc_post view ips w0 (Inr ip) w1" "w_seidCounter w2 \<in> {w_seidCounter w1, w_seidCounter w1 + 1}"
      "pool_ok w2" "smf_view (view (w_store w2)) = (smf_view (view (w_store w1)))(ip_key ip := None)" "rs_StatusCode r \<noteq> 201"
    for r w0 w1 w2 ip ips
    using that smf_stateD [OF that(1)]
    by (auto simp: create_post_def alloc_post_def smf_view_upd)
  have set_up: "wp (sm_setup getenv kv SBI establish ?smReq policy ip) (create_post view getenv ?smReq w) w1"
    if "smf_state view w0 = smf_state view w" "alloc_post view (pool_ip (IPPoolPrefix getenv) ` {..<65024}) w0 (Inr ip) w1" "ParseIP ip"
    for policy ip w0 w1
  proof (rule wp_mono [OF sm_setup_spec])
    fix r w2
    assume p: "w_seidCounter w2 = w_seidCounter w1 + 1 \<and> pool_ok w2 = pool_ok w1 \<and>
      (if rs_StatusCode r = 201
       then stores_session getenv ?smReq policy ip (w_seidCounter w1 + 1) (view (w_store w1)) r (view (w_store w2))
       else smf_view (view (w_store w2)) = (smf_view (view (w_store w1)))(ip_key ip := None))"
    show "create_post view getenv ?smReq w r w2"
    proof (cases "rs_StatusCode r = 201")
      case True
      have v: "smf_view (view (w_store w1)) = smf_view ((view (w_store w))(ip_key ip \<mapsto> JStr ip))"
        using that(2) smf_stateD [OF that(1)] by (simp add: alloc_post_def smf_view_upd)
      with True p have "stores_session getenv ?smReq policy ip (w_seidCounter w1 + 1) ((view (w_store w))(ip_key ip \<mapsto> JStr ip)) r (view (w_store w2))"
        by (simp add: stores_session_def)
      with True p that(2,3) smf_stateD [OF that(1)] show ?thesis
        unfolding create_post_def alloc_post_def by auto
    next
      case False
      with p that(2) show ?thesis by (intro rel [OF that(1,2)]) (auto simp: alloc_post_def)
    qed
  qed
  have alloc: "wp (allocateIP (IPPoolPrefix getenv) kv)
      (\<lambda>a. wp (orReturn a (\<lambda>e. State_Monad.return (errorResp 500 (''IP allocation: '' @ err_text e)))
         (\<lambda>ueIP. if \<not> ParseIP ueIP then do {
              _ \<leftarrow> releaseIP kv ueIP;
              State_Monad.return (errorResp 500 (''invalid allocated IP: '' @ ueIP))
            } else sm_setup getenv kv SBI establish ?smReq policy ueIP))
         (create_post view getenv ?smReq w)) w0" if "smf_state view w0 = smf_state view w" for policy w0
  proof (rule wp_mono [OF allocateIP_spec])
    show "pool_ok w0" using smf_stateD [OF that] assms(1) by simp
    fix a w1
    assume a: "alloc_post view (pool_ip (IPPoolPrefix getenv) ` {..<65024}) w0 a w1"
    show "wp (orReturn a (\<lambda>e. State_Monad.return (errorResp 500 (''IP allocation: '' @ err_text e)))
         (\<lambda>ueIP. if \<not> ParseIP ueIP then do {
              _ \<leftarrow> releaseIP kv ueIP;
              State_Monad.return (errorResp 500 (''invalid allocated IP: '' @ ueIP))
            } else sm_setup getenv kv SBI establish ?smReq policy ueIP))
         (create_post view getenv ?smReq w) w1"
    proof (cases a)
      case (Inl e)
      with a smf_stateD [OF that] show ?thesis by (simp add: wp create_post_def alloc_post_def)
    next
      case (Inr ip)
      note ok = a [unfolded Inr]
      show ?thesis
        unfolding Inr orReturn_simps
        using set_up [OF that ok] ok
        by (auto simp: wp releaseIP_def smf_view_upd alloc_post_def intro!: wp_kvDelete_reliable rel [OF that ok])
    qed
  qed
  show ?thesis
    unfolding smf_pdu_session_create_def assms(2) option.case wp Let_def
    apply (split if_split, intro conjI impI)
     apply (simp add: quiet)
    apply (rule wp_preserves [OF sm_policy_quiet])
    subgoal for r w1
      apply (cases r; simp only: sum.case)
       apply (simp add: quiet)
      apply (rule wp_preserves [OF sm_refused_quiet])
      subgoal for policy refused w2
        using alloc [of w2 policy, unfolded wp] by (cases refused) (simp_all add: quiet)
      done
    done
qed

end

lemma extractSEID_session_id [simp, codec]: "extractSEID (session_id supi seid) = seid"
proof -
  have s: "session_id supi seid = (''pdu-'' @ supi) @ CHR ''-'' # show_nat (unat seid)" by (simp add: session_id_def)
  have "length (split_on (CHR ''-'') (session_id supi seid)) \<ge> 2"
    unfolding s split_on_append by (simp add: Suc_le_eq)
  moreover have "last (split_on (CHR ''-'') (session_id supi seid)) = show_nat (unat seid)"
    unfolding s by (rule last_split_on [OF show_nat_no_minus])
  ultimately show ?thesis by (simp add: extractSEID_def Let_def)
qed

text \<open>What a release and an update do to the SMF's part of the world.\<close>

definition release_post :: "('s \<Rightarrow> string \<rightharpoonup> json) \<Rightarrow> request \<Rightarrow> 's world \<Rightarrow> response \<Rightarrow> 's world \<Rightarrow> bool" where
  "release_post view req w r w' \<longleftrightarrow> w_seidCounter w' = w_seidCounter w \<and> pool_ok w' = pool_ok w \<and>
     (if rs_StatusCode r = 200
      then \<exists>relReq session.
        unmarshal_body unmarshal_ReleaseSMContextRequest ReleaseSMContextRequest_zero (rq_Body req) = Some relReq \<and>
        session_at (view (w_store w)) (rlq_SessionID relReq) = Some session \<and>
        smf_view (view (w_store w')) =
          (if pdu_UEAddress session = [] then smf_view (view (w_store w))
           else (smf_view (view (w_store w)))(ip_key (pdu_UEAddress session) := None))
          (session_key (rlq_SessionID relReq) := None)
      else smf_view (view (w_store w')) = smf_view (view (w_store w)))"

definition update_post :: "('s \<Rightarrow> string \<rightharpoonup> json) \<Rightarrow> request \<Rightarrow> 's world \<Rightarrow> response \<Rightarrow> 's world \<Rightarrow> bool" where
  "update_post view req w r w' \<longleftrightarrow> w_seidCounter w' = w_seidCounter w \<and> pool_ok w' = pool_ok w \<and>
     (if rs_StatusCode r = 200
      then \<exists>updReq old.
        unmarshal_body unmarshal_UpdateSMContextRequest UpdateSMContextRequest_zero (rq_Body req) = Some updReq \<and>
        session_at (view (w_store w)) (usq_SessionID updReq) = Some old \<and>
        smf_view (view (w_store w')) =
          (smf_view (view (w_store w)))(session_key (usq_SessionID updReq) \<mapsto> marshal_PDUSession (apply_update updReq old)) \<and>
        rs_Body r = BJson (marshal_PDUSession (apply_update updReq old))
      else smf_view (view (w_store w')) = smf_view (view (w_store w)))"

lemma session_get_cases:
  "(case s (session_key i) of None \<Rightarrow> Inl (KeyNotFound (session_key i))
    | Some j \<Rightarrow> (case unmarshal_PDUSession j PDUSession_zero of None \<Rightarrow> Inl JsonErr | Some v \<Rightarrow> Inr v)) = Inr session \<Longrightarrow>
   session_at s i = Some session"
  by (auto simp: session_at_def split: option.splits)

context smf_env
begin

lemma sm_delete_quiet: "smf_quiet view (sm_delete del seid)"
  unfolding sm_delete_def by (intro pres del_quiet)

lemma sm_modify_quiet: "smf_quiet view (sm_modify modif seid params)"
  unfolding sm_modify_def by (intro pres modif_quiet)

text \<open>Reading a session leaves the world as it is and yields the stored session, or an error.\<close>

lemma wp_get_session:
  assumes "\<And>e w'. smf_state view w' = smf_state view w \<Longrightarrow> Q (Inl e) w'"
    and "\<And>session w'. smf_state view w' = smf_state view w \<Longrightarrow> session_at (view (w_store w)) i = Some session \<Longrightarrow> Q (Inr session) w'"
  shows "wp (kvGet kv (session_key i) unmarshal_PDUSession PDUSession_zero) Q w"
proof (rule wp_kvGet_reliable)
  fix s' assume s: "view s' = view (w_store w)"
  have st: "smf_state view (w\<lparr>w_store := s'\<rparr>) = smf_state view w" by (simp add: smf_state_def s)
  show "Q (case view (w_store w) (session_key i) of None \<Rightarrow> Inl (KeyNotFound (session_key i))
      | Some j \<Rightarrow> (case unmarshal_PDUSession j PDUSession_zero of None \<Rightarrow> Inl JsonErr | Some v \<Rightarrow> Inr v)) (w\<lparr>w_store := s'\<rparr>)"
    using assms [OF st] by (auto simp: session_at_def split: option.splits)
qed

lemma smf_pdu_session_update_spec: "wp (smf_pdu_session_update kv modif req) (update_post view req w) w"
proof -
  have quiet: "update_post view req w r w'" if "smf_state view w' = smf_state view w" "rs_StatusCode r \<noteq> 200" for r w'
    using smf_stateD [OF that(1)] that(2) by (simp add: update_post_def)
  show ?thesis
  proof (cases "unmarshal_body unmarshal_UpdateSMContextRequest UpdateSMContextRequest_zero (rq_Body req)")
    case None
    then show ?thesis by (simp add: smf_pdu_session_update_def wp quiet)
  next
    case (Some u)
    have put: "wp (kvPut kv (session_key (usq_SessionID u)) (marshal_PDUSession (apply_update u old)))
        (\<lambda>p. update_post view req w (case p of
            Some err \<Rightarrow> errorResp 500 (''update session: '' @ err_text err)
          | None \<Rightarrow> json_resp 200 (marshal_PDUSession (apply_update u old)))) w2"
      if "smf_state view w2 = smf_state view w" "session_at (view (w_store w)) (usq_SessionID u) = Some old" for w2 old
      by (rule wp_kvPut_reliable) (use smf_stateD [OF that(1)] that(2) Some in \<open>auto simp: update_post_def smf_view_upd\<close>)
    show ?thesis
      using Some
      by (auto simp: smf_pdu_session_update_def wp quiet put split: option.splits
          intro!: wp_get_session wp_preserves [OF sm_modify_quiet])
  qed
qed

lemma smf_pdu_session_release_spec: "wp (smf_pdu_session_release getenv kv SBI del req) (release_post view req w) w"
proof -
  have quiet: "release_post view req w r w'" if "smf_state view w' = smf_state view w" "rs_StatusCode r \<noteq> 200" for r w'
    using smf_stateD [OF that(1)] that(2) by (simp add: release_post_def)
  show ?thesis
  proof (cases "unmarshal_body unmarshal_ReleaseSMContextRequest ReleaseSMContextRequest_zero (rq_Body req)")
    case None
    then show ?thesis by (simp add: smf_pdu_session_release_def wp quiet)
  next
    case (Some q)
    let ?sid = "rlq_SessionID q"
    define gone where "gone session = (if pdu_UEAddress session = [] then smf_view (view (w_store w))
        else (smf_view (view (w_store w)))(ip_key (pdu_UEAddress session) := None))" for session :: PDUSession
    define freed where "freed session w1 \<longleftrightarrow> w_seidCounter w1 = w_seidCounter w \<and> pool_ok w1 = pool_ok w \<and>
        smf_view (view (w_store w1)) = gone session" for session and w1 :: "'s world"
    have freed_quiet: "freed session w2" if "freed session w1" "smf_state view w2 = smf_state view w1" for session w1 w2
      using that smf_stateD [OF that(2)] by (simp add: freed_def)
    have final: "wp (kvDelete kv (session_key ?sid)) (\<lambda>d. release_post view req w (case d of
            Some err \<Rightarrow> errorResp 500 (''delete session: '' @ err_text err)
          | None \<Rightarrow> json_resp 200 (JObj [(''session_id'', JStr ?sid), (''state'', JStr ''RELEASED'')]))) w1"
      if "freed session w1" "session_at (view (w_store w)) ?sid = Some session" for w1 session
      by (rule wp_kvDelete_reliable) (use that Some in \<open>auto simp: release_post_def freed_def gone_def smf_view_upd\<close>)
    have calls: "wp (sm_call_if SBI c1 f1 p1) (\<lambda>_. wp (sm_call_if SBI c2 f2 p2) (\<lambda>_. wp (sm_call_if SBI c3 f3 p3)
          (\<lambda>_. wp (kvDelete kv (session_key ?sid)) (\<lambda>d. release_post view req w (case d of
            Some err \<Rightarrow> errorResp 500 (''delete session: '' @ err_text err)
          | None \<Rightarrow> json_resp 200 (JObj [(''session_id'', JStr ?sid), (''state'', JStr ''RELEASED'')])))))) w1"
      if "freed session w1" "session_at (view (w_store w)) ?sid = Some session" "smf_peer f1" "smf_peer f2" "smf_peer f3"
      for w1 session c1 f1 p1 c2 f2 p2 c3 f3 p3
      by (rule wp_preserves [OF sm_call_if_quiet [OF that(3)]], rule wp_preserves [OF sm_call_if_quiet [OF that(4)]],
          rule wp_preserves [OF sm_call_if_quiet [OF that(5)]]) (use that freed_quiet final in blast)
    have freed1: "freed session w1" if "smf_state view w1 = smf_state view w" "pdu_UEAddress session = []" for session w1
      using smf_stateD [OF that(1)] that(2) by (simp add: freed_def gone_def)
    have freed2: "freed session (w1\<lparr>w_store := s'\<rparr>)"
      if "smf_state view w1 = smf_state view w" "pdu_UEAddress session \<noteq> []"
        "view s' = (view (w_store w1))(ip_key (pdu_UEAddress session) := None)" for session w1 s'
      using smf_stateD [OF that(1)] that(2,3) by (simp add: freed_def gone_def smf_view_upd)
    show ?thesis
      using Some
      apply (auto simp: smf_pdu_session_release_def wp quiet split: option.splits
          intro!: wp_get_session wp_preserves [OF sm_delete_quiet])
       apply (rule wp_kvDelete_reliable, rule calls [OF freed2], assumption+, (rule smf_peers)+)
      apply (rule calls [OF freed1], assumption+, (rule smf_peers)+)
      done
  qed
qed

end

lemma sessions_ok_forget: "sessions_ok s c \<Longrightarrow> sessions_ok (s(session_key i := None)) c"
  unfolding sessions_ok_def by auto

lemma unat_succ64: "(x :: uint64) \<noteq> - 1 \<Longrightarrow> unat (x + 1) = unat x + 1"
proof -
  assume "x \<noteq> - 1"
  then have "x + 1 \<noteq> 0" by (simp only: eq_neg_iff_add_eq_0 [symmetric] not_False_eq_True)
  then have "unat (1 + x) = Suc (unat x)" by (intro unatSuc) (simp only: add.commute not_False_eq_True)
  then show ?thesis by (simp only: add.commute Suc_eq_plus1)
qed

lemma apply_update_keeps [simp]:
  "pdu_UEAddress (apply_update u s) = pdu_UEAddress s" "pdu_SUPI (apply_update u s) = pdu_SUPI s"
  by (simp_all add: apply_update_def)

lemma new_session_simps [simp]:
  "pdu_UEAddress (new_session getenv smReq policy ip seid now) = ip"
  "pdu_SUPI (new_session getenv smReq policy ip seid now) = csq_SUPI smReq"
  by (simp_all add: new_session_def)

lemma create_post_inv:
  assumes "smf_inv view w" "w_seidCounter w \<noteq> - 1" "create_post view getenv smReq w r w'"
  shows "smf_inv view w'"
proof -
  let ?s = "view (w_store w)" and ?c = "unat (w_seidCounter w)"
  have ok: "sessions_ok ?s ?c" using assms(1) by (simp add: smf_inv_def)
  have c: "unat (w_seidCounter w + 1) = ?c + 1" by (rule unat_succ64 [OF assms(2)])
  have ok': "sessions_ok (smf_view ?s) ?c" using ok by (simp only: sessions_ok_view)
  have drop: "sessions_ok ((smf_view ?s)(ip_key ip := None)) ?c" if "ip_free ?s ip" for ip
    using sessions_ok_drop [OF ok'] that by (simp only: ip_free_view)
  have "sessions_ok (smf_view (view (w_store w'))) (unat (w_seidCounter w'))"
  proof (cases "rs_StatusCode r = 201")
    case True
    with assms(3) obtain policy ip now b d where ip: "ip_free ?s ip" and c': "w_seidCounter w' = w_seidCounter w + 1"
      and v: "smf_view (view (w_store w')) = (smf_view (?s(ip_key ip \<mapsto> JStr ip)))(session_key (session_id (csq_SUPI smReq) (w_seidCounter w + 1)) \<mapsto>
          marshal_PDUSession ((new_session getenv smReq policy ip (w_seidCounter w + 1) now)\<lparr>pdu_BSFBindingID := b, pdu_ChargingID := d\<rparr>))"
      unfolding create_post_def stores_session_def by auto
    show ?thesis
      unfolding v c' smf_view_upd [OF smf_keys(2)]
      by (rule sessions_ok_create [of _ ?c]) (use ok ip c in \<open>simp_all add: sessions_ok_view ip_free_view\<close>)
  next
    case False
    with assms(3) have "?c \<le> unat (w_seidCounter w')" "sessions_ok (smf_view (view (w_store w'))) ?c"
      using c ok' drop by (auto simp: create_post_def)
    then show ?thesis by (blast intro: sessions_ok_mono)
  qed
  with assms(3) show ?thesis by (simp add: smf_inv_def create_post_def sessions_ok_view)
qed

lemma release_post_inv:
  assumes "smf_inv view w" "release_post view req w r w'"
  shows "smf_inv view w'"
proof -
  have ok: "sessions_ok (smf_view (view (w_store w))) (unat (w_seidCounter w))"
    using assms(1) by (simp add: smf_inv_def sessions_ok_view)
  have "sessions_ok (smf_view (view (w_store w'))) (unat (w_seidCounter w'))"
    using assms(2) ok sessions_ok_release [OF ok] sessions_ok_forget [OF ok]
    by (auto simp: release_post_def split: if_splits)
  with assms show ?thesis by (simp add: smf_inv_def release_post_def sessions_ok_view)
qed

lemma update_post_inv:
  assumes "smf_inv view w" "update_post view req w r w'"
  shows "smf_inv view w'"
proof -
  have ok: "sessions_ok (smf_view (view (w_store w))) (unat (w_seidCounter w))"
    using assms(1) by (simp add: smf_inv_def sessions_ok_view)
  have "sessions_ok (smf_view (view (w_store w'))) (unat (w_seidCounter w'))"
    using assms(2) ok by (auto simp: update_post_def intro!: sessions_ok_update [OF ok] split: if_splits)
  with assms show ?thesis by (simp add: smf_inv_def update_post_def sessions_ok_view)
qed

section \<open>Runs of the SMF functions\<close>

text \<open>
  The worlds that sequences of invocations lead to, from an empty SMF: any order of the three
  functions, with steps of other functions, which leave the SMF's part of the world alone, in between.
\<close>

inductive smf_reach ::
  "(string \<Rightarrow> string) \<Rightarrow> 's KVStore \<Rightarrow> ('s \<Rightarrow> string \<rightharpoonup> json) \<Rightarrow> 's SBICaller option \<Rightarrow>
   (uint64 \<Rightarrow> string \<Rightarrow> uint32 \<Rightarrow> ('s, goerr option) handler) option \<Rightarrow>
   (uint64 \<Rightarrow> ModifyParams \<Rightarrow> ('s, goerr option) handler) option \<Rightarrow>
   (uint64 \<Rightarrow> ('s, goerr option) handler) option \<Rightarrow> 's world \<Rightarrow> bool"
  for getenv kv view SBI establish modif del where
  start: "smf_view (view (w_store w)) = Map.empty \<Longrightarrow> pool_ok w \<Longrightarrow>
    smf_reach getenv kv view SBI establish modif del w"
| create: "smf_reach getenv kv view SBI establish modif del w \<Longrightarrow> w_seidCounter w \<noteq> - 1 \<Longrightarrow>
    run_state (smf_pdu_session_create getenv kv SBI establish req) w = (r, w') \<Longrightarrow>
    smf_reach getenv kv view SBI establish modif del w'"
| update: "smf_reach getenv kv view SBI establish modif del w \<Longrightarrow>
    run_state (smf_pdu_session_update kv modif req) w = (r, w') \<Longrightarrow>
    smf_reach getenv kv view SBI establish modif del w'"
| release: "smf_reach getenv kv view SBI establish modif del w \<Longrightarrow>
    run_state (smf_pdu_session_release getenv kv SBI del req) w = (r, w') \<Longrightarrow>
    smf_reach getenv kv view SBI establish modif del w'"
| other: "smf_reach getenv kv view SBI establish modif del w \<Longrightarrow> smf_state view w' = smf_state view w \<Longrightarrow>
    smf_reach getenv kv view SBI establish modif del w'"

inductive_cases smf_reachE: "smf_reach getenv kv view SBI establish modif del w"

context smf_env
begin

lemma create_inv:
  assumes "smf_inv view w" "w_seidCounter w \<noteq> - 1"
    and run: "run_state (smf_pdu_session_create getenv kv SBI establish req) w = (r, w')"
  shows "smf_inv view w'"
proof (cases "unmarshal_body unmarshal_CreateSMContextRequest CreateSMContextRequest_zero (rq_Body req)")
  case None
  with run show ?thesis using assms(1) by (simp add: smf_pdu_session_create_def State_Monad.return_def)
next
  case (Some smReq)
  have "pool_ok w" using assms(1) by (simp add: smf_inv_def)
  from wpD [OF smf_pdu_session_create_spec [OF this Some] run] show ?thesis
    by (rule create_post_inv [OF assms(1,2)])
qed

lemma reach_inv: "smf_reach getenv kv view SBI establish modif del w \<Longrightarrow> smf_inv view w"
proof (induction rule: smf_reach.induct)
  case (start w)
  have "sessions_ok (smf_view (view (w_store w))) c" for c
    by (rule sessions_okI) (auto simp: start session_at_def)
  with start(2) show ?case by (simp only: smf_inv_def sessions_ok_view simp_thms)
next
  case (create w req r w')
  then show ?case by (blast intro: create_inv)
next
  case (update w req r w')
  from wpD [OF smf_pdu_session_update_spec update(2)] show ?case by (rule update_post_inv [OF update(3)])
next
  case (release w req r w')
  from wpD [OF smf_pdu_session_release_spec release(2)] show ?case by (rule release_post_inv [OF release(3)])
next
  case (other w w')
  then show ?case using smf_inv_state by blast
qed

end

text \<open>The deployed creation function has no SBI client; its N4 client is the PFCP client.\<close>

interpretation smf_mock: smf_env MockKVStore "\<lambda>m. m" None "Some (EstablishSession sample_pfcp)"
  "Some (ModifySession sample_pfcp)" "Some (DeleteSession sample_pfcp)"
  by unfold_locales (auto intro: smf_quiet_pfcp)

section \<open>Properties\<close>

text \<open>C7: over a store that does not fail, in every world that invocations of the SMF functions lead to, in any order and with any requests,
  no two stored sessions have the same UE address, and the address of every stored session is recorded in
  the pool, so that it is not handed out again.\<close>

theorem ue_addresses_unique:
  assumes "smf_env kv view SBI establish modif del"
    and "smf_reach getenv kv view SBI establish modif del w"
  shows "(\<forall>i i' x y. session_at (view (w_store w)) i = Some x \<and> session_at (view (w_store w)) i' = Some y \<and>
            pdu_UEAddress x = pdu_UEAddress y \<longrightarrow> i = i') \<and>
         (\<forall>i x. session_at (view (w_store w)) i = Some x \<longrightarrow> \<not> ip_free (view (w_store w)) (pdu_UEAddress x))"
proof -
  have ok: "sessions_ok (view (w_store w)) (unat (w_seidCounter w))"
    using smf_env.reach_inv [OF assms] by (simp add: smf_inv_def)
  show ?thesis using sessions_okD(3) [OF ok] free_not_used [OF ok] by blast
qed

definition create_req :: "string \<Rightarrow> request" where
  "create_req supi = body_req [(''supi'', JStr supi)]"

definition smf_world :: "(string \<rightharpoonup> json) world" where
  "smf_world = snd (run_state (smf_pdu_session_create no_env MockKVStore None (Some (EstablishSession sample_pfcp)) (create_req ''imsi-1''))
     (world_init NewMockKVStore))"

lemma smf_world_reach:
  "smf_reach no_env MockKVStore (\<lambda>m. m) None (Some (EstablishSession sample_pfcp)) (Some (ModifySession sample_pfcp))
     (Some (DeleteSession sample_pfcp)) smf_world"
  by (rule smf_reach.create [where w = "world_init NewMockKVStore", OF smf_reach.start])
    (auto simp: smf_world_def world_init_def NewMockKVStore_def smf_view_def pool_ok_def intro: prod.collapse [symmetric])

theorem ue_addresses_unique_witness:
  "\<nexists>i x. session_at (w_store smf_world) i = Some x \<and> ip_free (w_store smf_world) (pdu_UEAddress x)"
  using ue_addresses_unique [OF smf_mock.smf_env_axioms smf_world_reach] by blast

text \<open>C18: on a store whose operations succeed, \<open>allocateIP\<close> returns an address of the pool that was free and
  records it, changing nothing else; it reports exhaustion only when all 65024 addresses are taken.\<close>

theorem allocateIP_sound_complete:
  assumes "reliable_store kv view" "pool_ok w" "run_state (allocateIP prefix kv) w = (res, w')"
  shows "case res of
       Inr ip \<Rightarrow> (\<exists>p < 65024. ip = pool_ip prefix p) \<and> ip_free (view (w_store w)) ip \<and>
         view (w_store w') = (view (w_store w))(ip_key ip \<mapsto> JStr ip)
     | Inl e \<Rightarrow> e = ExtErr ''IP pool exhausted'' \<and> view (w_store w') = view (w_store w) \<and>
         (\<forall>p < 65024. \<not> ip_free (view (w_store w)) (pool_ip prefix p))"
  using wpD [OF reliable_store.allocateIP_spec [OF assms(1,2)] assms(3)]
  by (auto simp: alloc_post_def split: sum.splits)

theorem allocateIP_sound_complete_witness:
  "w_store (snd (run_state (allocateIP ''10.45'' MockKVStore) (world_init NewMockKVStore))) (ip_key ''10.45.0.1'') = Some (JStr ''10.45.0.1'')"
proof -
  have "(65024 :: nat) = Suc 65023" by simp
  then have f: "fst (run_state (allocateIP ''10.45'' MockKVStore) (world_init NewMockKVStore)) = Inr ''10.45.0.1''"
    unfolding allocateIP_def by (simp only: allocateIP_loop.simps)
      (simp add: State_Monad.bind_def State_Monad.get_def State_Monad.return_def modify_def kvGet_def kvPut_def kv_get_as_def Let_def
        world_init_def NewMockKVStore_def ip_text_def show_nat.simps digit_chars)
  have "pool_ok (world_init NewMockKVStore)" by (simp add: pool_ok_def world_init_def)
  from allocateIP_sound_complete [OF mock.reliable_store_axioms this surjective_pairing, of "''10.45''"] show ?thesis
    by (simp add: f)
qed

text \<open>C21: over a store that does not fail, a session creation answered with 201 took an address of the pool that was free, recorded it,
  advanced the SEID counter by one and stored the session it reports, and no other session or recorded address in the store
  changes; any other answer stored no session, left no address behind and advanced the SEID counter by at most one.  The
  pool's cursor, which every allocation moves, stays inside the pool.\<close>

theorem session_create_spec:
  assumes "smf_env kv view SBI establish modif del" "pool_ok w"
    and "unmarshal_body unmarshal_CreateSMContextRequest CreateSMContextRequest_zero (rq_Body req) = Some smReq"
    and "run_state (smf_pdu_session_create getenv kv SBI establish req) w = (r, w')"
  shows "pool_ok w' \<and> (if rs_StatusCode r = 201
     then \<exists>policy ip now b c. (\<exists>p < 65024. ip = pool_ip (IPPoolPrefix getenv) p) \<and> ParseIP ip \<and> ip_free (view (w_store w)) ip \<and>
        w_seidCounter w' = w_seidCounter w + 1 \<and>
        (let session = new_session getenv (create_defaults smReq) policy ip (w_seidCounter w + 1) now in
         smf_view (view (w_store w')) = (smf_view (view (w_store w)))(ip_key ip \<mapsto> JStr ip,
           session_key (pdu_ID session) \<mapsto> marshal_PDUSession (session\<lparr>pdu_BSFBindingID := b, pdu_ChargingID := c\<rparr>)) \<and>
         rs_Body r = BJson (marshal_CreateSMContextResponse (create_response session)))
     else w_seidCounter w' \<in> {w_seidCounter w, w_seidCounter w + 1} \<and>
        (smf_view (view (w_store w')) = smf_view (view (w_store w)) \<or>
         (\<exists>ip. ip_free (view (w_store w)) ip \<and> smf_view (view (w_store w')) = (smf_view (view (w_store w)))(ip_key ip := None))))"
  using wpD [OF smf_env.smf_pdu_session_create_spec [OF assms(1-3)] assms(4)]
  unfolding create_post_def stores_session_def
  by (fastforce simp: smf_view_upd Let_def create_defaults_def split: if_splits)

lemma create_req_decodes:
  "unmarshal_body unmarshal_CreateSMContextRequest CreateSMContextRequest_zero (rq_Body (create_req supi)) =
     Some (CreateSMContextRequest_zero\<lparr>csq_SUPI := supi\<rparr>)"
  by (simp add: create_req_def body_req_def unmarshal_CreateSMContextRequest_def CreateSMContextRequest_fields_def
      CreateSMContextRequest_zero_def fld_def)

text \<open>Releasing a session with answer 200 removes its record and returns its address to the pool; an
  answer other than 200 changes nothing of the SMF.\<close>

theorem session_release_spec:
  assumes "smf_env kv view SBI establish modif del"
    and "run_state (smf_pdu_session_release getenv kv SBI del req) w = (r, w')"
  shows "release_post view req w r w'"
  using wpD [OF smf_env.smf_pdu_session_release_spec [OF assms(1)] assms(2)] .

text \<open>The N4 session that a release deletes and an update modifies is the one the creation established:
  the SEID read back from a session identifier is the SEID it was made from, whatever the SUPI.\<close>

theorem session_seid_roundtrip: "extractSEID (session_id supi seid) = seid"
  by (rule extractSEID_session_id)

lemma create_defaults_SUPI [simp]: "csq_SUPI (create_defaults smReq) = csq_SUPI smReq"
  by (simp add: create_defaults_def)

lemma default_pool_parses: "p < 65024 \<Longrightarrow> ParseIP (pool_ip ''10.45'' p)"
proof -
  assume p: "p < 65024"
  have "''10.45'' = show_nat 10 @ ''.'' @ show_nat 45" by (simp add: show_nat.simps digit_chars)
  moreover have "p div 254 \<le> 255" "p mod 254 + 1 \<le> 255" using p by linarith+
  ultimately show ?thesis
    using ParseIP_dotted [of 10 45 "p div 254" "p mod 254 + 1"] by (simp add: pool_ip_def)
qed

text \<open>An N4 client that accepts every session.\<close>

definition n4_accepts :: "(uint64 \<Rightarrow> string \<Rightarrow> uint32 \<Rightarrow> ('s, goerr option) handler) option \<Rightarrow> bool" where
  "n4_accepts PFCP \<longleftrightarrow> (\<forall>seid ip w. wp (sm_establish PFCP seid ip) (\<lambda>e _. e = None) w)"

context smf_env
begin

lemma create_succeeds:
  assumes "SBI = None" "n4_accepts establish" "pool_ok w" "IPPoolPrefix getenv = ''10.45''"
    and "unmarshal_body unmarshal_CreateSMContextRequest CreateSMContextRequest_zero (rq_Body req) = Some smReq" "csq_SUPI smReq \<noteq> []"
    and free: "p < 65024" "ip_free (view (w_store w)) (pool_ip ''10.45'' p)"
  shows "wp (smf_pdu_session_create getenv kv SBI establish req) (\<lambda>r _. rs_StatusCode r = 201) w"
proof -
  have set_up: "wp (sm_setup getenv kv None establish q policy ip) (\<lambda>r _. rs_StatusCode r = 201) w1" for q policy ip w1
    unfolding sm_setup_def wp
    by (rule wp_mono [OF assms(2) [unfolded n4_accepts_def, rule_format]])
      (auto simp: wp sm_register_session_def intro!: wp_kvPut_reliable)
  have alloc: "wp (allocateIP ''10.45'' kv) (\<lambda>a _. \<exists>ip. a = Inr ip \<and> ParseIP ip) w"
    by (rule wp_mono [OF allocateIP_spec [OF assms(3)]])
      (use free in \<open>auto simp: alloc_post_def default_pool_parses split: sum.splits\<close>)
  show ?thesis
    using assms(4-6) unfolding assms(1)
    by (auto simp: smf_pdu_session_create_def sm_policy_def sm_refused_def wp Let_def
        intro!: wp_mono [OF alloc] wp_mono [OF set_up])
qed

end

lemma sample_n4_accepts: "n4_accepts (Some (EstablishSession sample_pfcp))"
  by (auto simp: n4_accepts_def sm_establish_def pfcp_client_defs wp sample_pfcp_def)

lemma IPPoolPrefix_default [simp]: "IPPoolPrefix no_env = ''10.45''"
  by (simp add: IPPoolPrefix_def no_env_def)

lemma pool_ok_init [simp]: "pool_ok (world_init s)"
  by (simp add: pool_ok_def world_init_def)

text \<open>With the default pool and no SBI client, as the function is deployed, a creation for a non-empty SUPI
  succeeds whenever the UPF accepts sessions and any address of the pool is free.\<close>

theorem session_create_succeeds:
  assumes "smf_env kv view None establish modif del" "n4_accepts establish" "pool_ok w" "IPPoolPrefix getenv = ''10.45''"
    and "unmarshal_body unmarshal_CreateSMContextRequest CreateSMContextRequest_zero (rq_Body req) = Some smReq" "csq_SUPI smReq \<noteq> []"
    and "p < 65024" "ip_free (view (w_store w)) (pool_ip ''10.45'' p)"
  shows "rs_StatusCode (fst (run_state (smf_pdu_session_create getenv kv None establish req) w)) = 201"
  unfolding status_wp
  using smf_env.create_succeeds [OF assms(1) refl assms(2-8)] .

theorem session_create_succeeds_witness:
  "rs_StatusCode (fst (run_state (smf_pdu_session_create no_env MockKVStore None (Some (EstablishSession sample_pfcp)) (create_req ''imsi-1''))
     (world_init NewMockKVStore))) = 201"
  by (rule session_create_succeeds [OF smf_mock.smf_env_axioms sample_n4_accepts _ _ create_req_decodes, where p = 0])
    (simp_all add: ip_free_def world_init_def NewMockKVStore_def pool_ok_def)

lemma smf_world_created:
  "\<exists>r. run_state (smf_pdu_session_create no_env MockKVStore None (Some (EstablishSession sample_pfcp)) (create_req ''imsi-1''))
     (world_init NewMockKVStore) = (r, smf_world) \<and> rs_StatusCode r = 201"
proof -
  let ?m = "smf_pdu_session_create no_env MockKVStore None (Some (EstablishSession sample_pfcp)) (create_req ''imsi-1'')"
  have "rs_StatusCode (fst (run_state ?m (world_init NewMockKVStore))) = 201"
    unfolding status_wp
    by (rule smf_mock.create_succeeds [OF refl sample_n4_accepts _ _ create_req_decodes, where p = 0])
      (simp_all add: ip_free_def world_init_def NewMockKVStore_def pool_ok_def)
  then show ?thesis unfolding smf_world_def by (metis prod.collapse)
qed

theorem session_create_spec_witness:
  "\<exists>ip. ParseIP ip \<and> smf_view (w_store smf_world) (ip_key ip) = Some (JStr ip) \<and>
     session_at (w_store smf_world) (session_id ''imsi-1'' 1) \<noteq> None"
proof -
  obtain r where r: "run_state (smf_pdu_session_create no_env MockKVStore None (Some (EstablishSession sample_pfcp)) (create_req ''imsi-1''))
     (world_init NewMockKVStore) = (r, smf_world)" "rs_StatusCode r = 201" using smf_world_created by blast
  have c: "w_seidCounter (world_init NewMockKVStore :: (string \<rightharpoonup> json) world) + 1 = 1" by (simp add: world_init_def)
  from session_create_spec [OF smf_mock.smf_env_axioms pool_ok_init create_req_decodes r(1)] r(2) c
  obtain policy ip now b d where ip: "ParseIP ip" and v: "smf_view (w_store smf_world) =
      (smf_view (w_store (world_init NewMockKVStore)))(ip_key ip \<mapsto> JStr ip, session_key (session_id ''imsi-1'' 1) \<mapsto>
        marshal_PDUSession ((new_session no_env (create_defaults (CreateSMContextRequest_zero\<lparr>csq_SUPI := ''imsi-1''\<rparr>)) policy ip 1 now)
          \<lparr>pdu_BSFBindingID := b, pdu_ChargingID := d\<rparr>))"
    by (auto simp: Let_def)
  have "session_at (smf_view (w_store smf_world)) (session_id ''imsi-1'' 1) \<noteq> None" unfolding v by simp
  moreover have "smf_view (w_store smf_world) (ip_key ip) = Some (JStr ip)" unfolding v by simp
  ultimately show ?thesis using ip by auto
qed

definition release_req :: "string \<Rightarrow> request" where
  "release_req sid = body_req [(''session_id'', JStr sid)]"

lemma release_req_decodes:
  "unmarshal_body unmarshal_ReleaseSMContextRequest ReleaseSMContextRequest_zero (rq_Body (release_req sid)) = Some \<lparr>rlq_SessionID = sid\<rparr>"
  by (simp add: release_req_def body_req_def unmarshal_ReleaseSMContextRequest_def ReleaseSMContextRequest_fields_def
      ReleaseSMContextRequest_zero_def fld_def)

theorem session_release_spec_witness:
  "release_post (\<lambda>m. m) (release_req (session_id ''imsi-1'' 1)) smf_world
     (fst (run_state (smf_pdu_session_release no_env MockKVStore None (Some (DeleteSession sample_pfcp)) (release_req (session_id ''imsi-1'' 1))) smf_world))
     (snd (run_state (smf_pdu_session_release no_env MockKVStore None (Some (DeleteSession sample_pfcp)) (release_req (session_id ''imsi-1'' 1))) smf_world))"
  by (rule session_release_spec [OF smf_mock.smf_env_axioms surjective_pairing])

text \<open>Creating a session and releasing it leaves the SMF as it was, but for the counters: the session's
  record is gone, its address is free again and every other key of the SMF has its old value.\<close>

theorem create_release_roundtrip:
  assumes env: "smf_env kv view SBI establish modif del" and inv: "smf_inv view w"
    and dec: "unmarshal_body unmarshal_CreateSMContextRequest CreateSMContextRequest_zero (rq_Body req) = Some smReq"
    and c: "run_state (smf_pdu_session_create getenv kv SBI establish req) w = (r, w1)" "rs_StatusCode r = 201"
    and d: "run_state (smf_pdu_session_release getenv kv SBI del
             (release_req (session_id (csq_SUPI smReq) (w_seidCounter w + 1)))) w1 = (r', w2)" "rs_StatusCode r' = 200"
    and room: "w_seidCounter w \<noteq> - 1"
  shows "\<exists>ip. ip_free (view (w_store w)) ip \<and> smf_view (view (w_store w2)) = (smf_view (view (w_store w)))(ip_key ip := None)"
proof -
  let ?sid = "session_id (csq_SUPI smReq) (w_seidCounter w + 1)" and ?s = "view (w_store w)"
  have "pool_ok w" using inv by (simp add: smf_inv_def)
  from wpD [OF smf_env.smf_pdu_session_create_spec [OF env this dec] c(1), unfolded create_post_def] c(2)
  obtain policy ip where ip: "ip \<in> pool_ip (IPPoolPrefix getenv) ` {..<65024}" "ip_free ?s ip"
    and st: "stores_session getenv (create_defaults smReq) policy ip (w_seidCounter w + 1) (?s(ip_key ip \<mapsto> JStr ip)) r (view (w_store w1))"
    by auto
  then obtain now b g where v: "smf_view (view (w_store w1)) = (smf_view ?s)(ip_key ip \<mapsto> JStr ip, session_key ?sid \<mapsto>
      marshal_PDUSession ((new_session getenv (create_defaults smReq) policy ip (w_seidCounter w + 1) now)
        \<lparr>pdu_BSFBindingID := b, pdu_ChargingID := g\<rparr>))"
    unfolding stores_session_def by (auto simp: smf_view_upd)
  have at: "session_at (smf_view (view (w_store w1))) ?sid = Some ((new_session getenv (create_defaults smReq) policy ip (w_seidCounter w + 1) now)
        \<lparr>pdu_BSFBindingID := b, pdu_ChargingID := g\<rparr>)" unfolding v by simp
  have ne: "ip \<noteq> []" using ip(1) by (auto simp: pool_ip_def)
  have fresh: "?s (session_key ?sid) = None"
  proof (rule ccontr)
    assume "?s (session_key ?sid) \<noteq> None"
    moreover have ok: "sessions_ok ?s (unat (w_seidCounter w))" using inv by (simp add: smf_inv_def)
    ultimately obtain sess where "session_at ?s ?sid = Some sess" using sessions_ok_stored by blast
    from sessions_okD(2) [OF ok this] have "unat (w_seidCounter w + 1) \<le> unat (w_seidCounter w)" by auto
    then show False using unat_succ64 [OF room] by simp
  qed
  have "smf_view (view (w_store w2)) = (smf_view (view (w_store w1)))(ip_key ip := None, session_key ?sid := None)"
    using wpD [OF smf_env.smf_pdu_session_release_spec [OF env] d(1)] d(2) at ne
    by (auto simp: release_post_def release_req_decodes)
  also have "\<dots> = (smf_view ?s)(ip_key ip := None)" unfolding v using fresh by (auto simp: fun_eq_iff)
  finally show ?thesis using ip(2) by blast
qed

lemma smf_world_session: "session_at (w_store smf_world) (session_id ''imsi-1'' 1) \<noteq> None"
proof -
  obtain r where r: "run_state (smf_pdu_session_create no_env MockKVStore None (Some (EstablishSession sample_pfcp)) (create_req ''imsi-1''))
     (world_init NewMockKVStore) = (r, smf_world)" "rs_StatusCode r = 201" using smf_world_created by blast
  have c: "w_seidCounter (world_init NewMockKVStore :: (string \<rightharpoonup> json) world) + 1 = 1" by (simp add: world_init_def)
  from wpD [OF smf_mock.smf_pdu_session_create_spec [OF pool_ok_init create_req_decodes] r(1)] r(2) c
  obtain s x where "smf_view (w_store smf_world) = s(session_key (session_id ''imsi-1'' 1) \<mapsto> marshal_PDUSession x)"
    by (auto simp: create_post_def stores_session_def)
  then have "session_at (smf_view (w_store smf_world)) (session_id ''imsi-1'' 1) \<noteq> None" by simp
  then show ?thesis by simp
qed

lemma smf_world_release:
  "rs_StatusCode (fst (run_state (smf_pdu_session_release no_env MockKVStore None (Some (DeleteSession sample_pfcp))
     (release_req (session_id ''imsi-1'' 1))) smf_world)) = 200"
proof -
  obtain x where "session_at (w_store smf_world) (session_id ''imsi-1'' 1) = Some x" using smf_world_session by blast
  then obtain j where "w_store smf_world (session_key (session_id ''imsi-1'' 1)) = Some j" "unmarshal_PDUSession j PDUSession_zero = Some x"
    by (cases "w_store smf_world (session_key (session_id ''imsi-1'' 1))") (auto simp: session_at_def)
  moreover have "session_id ''imsi-1'' 1 \<noteq> []" by (simp add: session_id_def)
  ultimately show ?thesis
    unfolding status_wp
    by (simp add: smf_pdu_session_release_def release_req_decodes wp Let_def sm_delete_def pfcp_client_defs sample_pfcp_def
        sm_call_if_def)
qed

lemma smf_inv_init: "smf_inv (\<lambda>m. m) (world_init NewMockKVStore)"
  by (rule smf_mock.reach_inv [of no_env, OF smf_reach.start]) (simp_all add: world_init_def NewMockKVStore_def smf_view_def fun_eq_iff pool_ok_def)

theorem create_release_roundtrip_witness:
  "\<exists>ip. smf_view (w_store (snd (run_state (smf_pdu_session_release no_env MockKVStore None (Some (DeleteSession sample_pfcp))
     (release_req (session_id ''imsi-1'' 1))) smf_world))) = (smf_view NewMockKVStore)(ip_key ip := None)"
proof -
  obtain r where r: "run_state (smf_pdu_session_create no_env MockKVStore None (Some (EstablishSession sample_pfcp)) (create_req ''imsi-1''))
     (world_init NewMockKVStore) = (r, smf_world)" "rs_StatusCode r = 201" using smf_world_created by blast
  let ?w = "world_init NewMockKVStore :: (string \<rightharpoonup> json) world"
  have w: "w_seidCounter ?w + 1 = 1" "w_seidCounter ?w \<noteq> - 1" "w_store ?w = NewMockKVStore"
    by (simp_all add: world_init_def)
  from create_release_roundtrip [OF smf_mock.smf_env_axioms smf_inv_init create_req_decodes r surjective_pairing]
  show ?thesis using smf_world_release by (simp add: w) blast
qed

end
