(* ===== verification/Nrf.thy ===== *)
theory Nrf
  imports Faas
begin

text \<open>
  The NF repository (\<^verbatim>\<open>functions/nrf\<close>): registration of an NF profile under
  \<^verbatim>\<open>/nrf/nf-instances/{id}\<close>, status notifications, and discovery by NF type, which scans all
  profiles with a prefix query.  The store is etcd behind the interface \<open>NRFStore\<close>.
\<close>

section \<open>Operations\<close>

definition nf_key :: "string \<Rightarrow> string" where
  "nf_key i = ''/nrf/nf-instances/'' @ i"

definition nrf_error :: "int \<Rightarrow> string \<Rightarrow> response" where
  "nrf_error code msg =
     \<lparr>rs_StatusCode = code, rs_Body = BText (''{\"error\":\"'' @ msg @ ''\"}''), rs_Header = []\<rparr>"

lemma nrf_error_status [simp]: "rs_StatusCode (nrf_error n t) = n"
  by (simp add: nrf_error_def)

definition nrf_register :: "'s KVStore \<Rightarrow> request \<Rightarrow> ('s, response) handler" where
  "nrf_register kv req =
     (case unmarshal_body unmarshal_NFProfile NFProfile_zero (rq_Body req) of
        None \<Rightarrow> State_Monad.return (nrf_error 400 (''invalid body: '' @ err_text JsonErr))
      | Some profile \<Rightarrow>
        if nf_NFInstanceID profile = [] then State_Monad.return (nrf_error 400 ''nfInstanceId is required'')
        else do {
          let profile = profile\<lparr>nf_NFStatus := ''REGISTERED''\<rparr>;
          e \<leftarrow> kvPut kv (nf_key (nf_NFInstanceID profile)) (marshal_NFProfile profile);
          (case e of
             Some err \<Rightarrow> State_Monad.return (nrf_error 500 (''store put: '' @ err_text err))
           | None \<Rightarrow> State_Monad.return (json_resp 201 (marshal_NFProfile profile)))
        })"

record StatusNotification =
  stn_NFInstanceID :: string
  stn_NFStatus :: string

definition StatusNotification_zero :: StatusNotification where
  "StatusNotification_zero = \<lparr>stn_NFInstanceID = [],
     stn_NFStatus = []\<rparr>"

definition StatusNotification_fields :: "StatusNotification fields" where
  "StatusNotification_fields = [(''nfInstanceId'', fld stn_NFInstanceID stn_NFInstanceID_update dec_string),
     (''nfStatus'', fld stn_NFStatus stn_NFStatus_update dec_string)]"

definition unmarshal_StatusNotification :: "StatusNotification decoder" where
  "unmarshal_StatusNotification = dec_struct StatusNotification_fields"

definition marshal_StatusNotification :: "StatusNotification \<Rightarrow> json" where
  "marshal_StatusNotification x = JObj ([(''nfInstanceId'', JStr (stn_NFInstanceID x)),
     (''nfStatus'', JStr (stn_NFStatus x))])"

lemma StatusNotification_codec [simp, codec]: "unmarshal_StatusNotification (marshal_StatusNotification x) StatusNotification_zero = Some x"
  by (cases x) (simp add: unmarshal_StatusNotification_def marshal_StatusNotification_def StatusNotification_fields_def StatusNotification_zero_def json_codec)

lemma StatusNotification_not_null [simp]: "marshal_StatusNotification x \<noteq> JNull"
  by (simp add: marshal_StatusNotification_def)

definition nrf_status_notify :: "'s KVStore \<Rightarrow> request \<Rightarrow> ('s, response) handler" where
  "nrf_status_notify kv req =
     (case unmarshal_body unmarshal_StatusNotification StatusNotification_zero (rq_Body req) of
        None \<Rightarrow> State_Monad.return (nrf_error 400 (''invalid body: '' @ err_text JsonErr))
      | Some notif \<Rightarrow>
        if stn_NFInstanceID notif = [] then State_Monad.return (nrf_error 400 ''nfInstanceId is required'')
        else do {
          r \<leftarrow> kvGet kv (nf_key (stn_NFInstanceID notif)) unmarshal_NFProfile NFProfile_zero;
          orReturn r (\<lambda>e. State_Monad.return (nrf_error 404 (''nf instance not found: '' @ err_text e))) (\<lambda>profile. do {
            e \<leftarrow> kvPut kv (nf_key (stn_NFInstanceID notif)) (marshal_NFProfile (profile\<lparr>nf_NFStatus := stn_NFStatus notif\<rparr>));
            (case e of
               Some err \<Rightarrow> State_Monad.return (nrf_error 500 (''store put: '' @ err_text err))
             | None \<Rightarrow> State_Monad.return \<lparr>rs_StatusCode = 204, rs_Body = BEmpty, rs_Header = []\<rparr>)
          })
        })"

text \<open>
  \<open>params, _ := url.ParseQuery(q)\<close>: the error is dropped, so the pairs that can be read count and
  the others do not.
\<close>

definition ParseQuery_values :: "string \<Rightarrow> (string \<times> string) list" where
  "ParseQuery_values q =
     List.map_filter query_pair (filter (\<lambda>p. CHR '';'' \<notin> set p \<and> p \<noteq> []) (split_on (CHR ''&'') q))"

definition kvGetByPrefix :: "'s NRFStore \<Rightarrow> string \<Rightarrow> ('s, goerr + json list) handler" where
  "kvGetByPrefix ns p = State (\<lambda>w. apsnd (\<lambda>s. w\<lparr>w_store := s\<rparr>) (nrf_GetByPrefix ns p (w_store w)))"

text \<open>The loop over the documents found; one that is no profile is skipped.\<close>

fun match_loop :: "string \<Rightarrow> json list \<Rightarrow> NFProfile list \<Rightarrow> NFProfile list" where
  "match_loop nfType [] matched = matched"
| "match_loop nfType (data # results) matched =
     (case unmarshal_NFProfile data NFProfile_zero of
        None \<Rightarrow> match_loop nfType results matched
      | Some profile \<Rightarrow>
          match_loop nfType results (if nf_NFType profile = nfType then matched @ [profile] else matched))"

text \<open>The result list is never nil, so it is written as an array.\<close>

definition marshal_DiscoverResult :: "NFProfile list \<Rightarrow> json" where
  "marshal_DiscoverResult ps = JObj [(''nfInstances'', JArr (map marshal_NFProfile ps))]"

definition nrf_discover :: "'s NRFStore \<Rightarrow> request \<Rightarrow> ('s, response) handler" where
  "nrf_discover ns req =
     (let nfType = values_Get (ParseQuery_values (rq_QueryString req)) ''target-nf-type'' in
      if nfType = [] then State_Monad.return (nrf_error 400 ''target-nf-type query parameter is required'')
      else do {
        r \<leftarrow> kvGetByPrefix ns ''/nrf/nf-instances/'';
        orReturn r (\<lambda>e. State_Monad.return (nrf_error 500 (''store query: '' @ err_text e)))
          (\<lambda>results. State_Monad.return (json_resp 200 (marshal_DiscoverResult (match_loop nfType results []))))
      })"

section \<open>What discovery returns\<close>

text \<open>The profiles of a type among the contents of the registry.\<close>

definition discoverable :: "(string \<rightharpoonup> json) \<Rightarrow> string \<Rightarrow> NFProfile set" where
  "discoverable m nfType =
     {p. nf_NFType p = nfType \<and>
         (\<exists>k j. m k = Some j \<and> starts_with ''/nrf/nf-instances/'' k \<and> unmarshal_NFProfile j NFProfile_zero = Some p)}"

lemma set_match_loop:
  "set (match_loop t js acc) = set acc \<union> {p. nf_NFType p = t \<and> (\<exists>j \<in> set js. unmarshal_NFProfile j NFProfile_zero = Some p)}"
  by (induction js arbitrary: acc) (auto split: option.splits)

lemma discoverable_docs:
  "set js = {j. \<exists>k. m k = Some j \<and> starts_with ''/nrf/nf-instances/'' k} \<Longrightarrow> discoverable m t = set (match_loop t js [])"
  by (auto simp: set_match_loop discoverable_def)

lemma discoverable_put:
  "nf_NFType p = t \<Longrightarrow> p \<in> discoverable (m(nf_key i \<mapsto> marshal_NFProfile p)) t"
  unfolding discoverable_def nf_key_def
  by (auto intro!: exI [of _ "''/nrf/nf-instances/'' @ i"] exI [of _ "marshal_NFProfile p"] simp del: append.simps)

context nrf_store
begin

lemma wp_kvGetByPrefix:
  assumes "\<And>js s'. view s' = view (w_store w) \<Longrightarrow>
      set js = {j. \<exists>k. view (w_store w) k = Some j \<and> starts_with p k} \<Longrightarrow> Q (Inr js) (w\<lparr>w_store := s'\<rparr>)"
    and "\<And>e s'. view s' = view (w_store w) \<Longrightarrow> Q (Inl e) (w\<lparr>w_store := s'\<rparr>)"
  shows "wp (kvGetByPrefix ns p) Q w"
proof -
  obtain r s' where r: "nrf_GetByPrefix ns p (w_store w) = (r, s')" by fastforce
  then show ?thesis
    using assms prefix_view [OF r] prefix_docs [of p "w_store w" _ s']
    by (cases r) (auto simp: wp_def kvGetByPrefix_def)
qed

lemma nrf_discover_lists:
  "wp (nrf_discover ns req) (\<lambda>r w'. view (w_store w') = view (w_store w) \<and> (rs_StatusCode r = 200 \<longrightarrow>
     (\<exists>ps. rs_Body r = BJson (marshal_DiscoverResult ps) \<and>
        set ps = discoverable (view (w_store w)) (values_Get (ParseQuery_values (rq_QueryString req)) ''target-nf-type'')))) w"
  unfolding nrf_discover_def
  by (auto simp: wp discoverable_docs [symmetric] intro!: wp_kvGetByPrefix exI [of _ "match_loop _ _ []"])

lemma nrf_register_stores:
  assumes "unmarshal_body unmarshal_NFProfile NFProfile_zero (rq_Body req) = Some p"
  shows "wp (nrf_register (nrf_kv ns) req) (\<lambda>r w'. rs_StatusCode r = 201 \<longrightarrow>
     view (w_store w') = (view (w_store w))(nf_key (nf_NFInstanceID p) \<mapsto> marshal_NFProfile (p\<lparr>nf_NFStatus := ''REGISTERED''\<rparr>))) w"
  unfolding nrf_register_def assms
  by (auto simp: wp Let_def intro!: wp_kvPut)

lemma nrf_status_notify_updates:
  assumes "unmarshal_body unmarshal_StatusNotification StatusNotification_zero (rq_Body req) = Some n"
  shows "wp (nrf_status_notify (nrf_kv ns) req) (\<lambda>r w'. rs_StatusCode r = 204 \<longrightarrow>
     (\<exists>j p. view (w_store w) (nf_key (stn_NFInstanceID n)) = Some j \<and> unmarshal_NFProfile j NFProfile_zero = Some p \<and>
       view (w_store w') = (view (w_store w))(nf_key (stn_NFInstanceID n) \<mapsto> marshal_NFProfile (p\<lparr>nf_NFStatus := stn_NFStatus n\<rparr>)))) w"
  unfolding nrf_status_notify_def assms
  by (auto simp: wp Let_def intro!: wp_kvPut wp_kvGet)

end

text \<open>C36: a profile that \<open>nrf-register\<close> acknowledged is found by discovery: a successful query for its type that directly
  follows lists it with status REGISTERED, and lists exactly the profiles of that type that the registry holds.\<close>

theorem nrf_register_discover:
  assumes "nrf_store ns view"
    and "unmarshal_body unmarshal_NFProfile NFProfile_zero (rq_Body req) = Some p"
    and "run_state (nrf_register (nrf_kv ns) req) w = (r1, w1)" "rs_StatusCode r1 = 201"
    and "values_Get (ParseQuery_values (rq_QueryString q)) ''target-nf-type'' = nf_NFType p"
    and "run_state (nrf_discover ns q) w1 = (r2, w2)" "rs_StatusCode r2 = 200"
  shows "\<exists>ps. rs_Body r2 = BJson (marshal_DiscoverResult ps) \<and> p\<lparr>nf_NFStatus := ''REGISTERED''\<rparr> \<in> set ps \<and>
    set ps = discoverable (view (w_store w1)) (nf_NFType p)"
proof -
  have w1: "view (w_store w1) = (view (w_store w))(nf_key (nf_NFInstanceID p) \<mapsto> marshal_NFProfile (p\<lparr>nf_NFStatus := ''REGISTERED''\<rparr>))"
    using wpD [OF nrf_store.nrf_register_stores [OF assms(1,2)] assms(3)] assms(4) by blast
  show ?thesis
    using wpD [OF nrf_store.nrf_discover_lists [OF assms(1)] assms(6)] assms(5,7)
    by (auto simp: w1 discoverable_put)
qed

definition sample_nf :: NFProfile where
  "sample_nf = NFProfile_zero\<lparr>nf_NFInstanceID := ''amf-1'', nf_NFType := ''AMF''\<rparr>"

definition nf_req :: "NFProfile \<Rightarrow> request" where
  "nf_req p = \<lparr>rq_Body = Some (marshal_NFProfile p), rq_QueryString = []\<rparr>"

definition nf_query :: "string \<Rightarrow> request" where
  "nf_query t = \<lparr>rq_Body = None, rq_QueryString = ''target-nf-type='' @ t\<rparr>"

theorem nrf_register_discover_witness:
  "\<exists>ps. rs_Body (fst (run_state (nrf_discover (EtcdNRFStore mem_etcd) (nf_query ''AMF''))
      (snd (run_state (nrf_register (EtcdStore mem_etcd) (nf_req sample_nf)) (world_init []))))) = BJson (marshal_DiscoverResult ps) \<and>
    sample_nf\<lparr>nf_NFStatus := ''REGISTERED''\<rparr> \<in> set ps"
proof -
  let ?kv = "EtcdStore mem_etcd" and ?ns = "EtcdNRFStore mem_etcd"
  let ?w1 = "snd (run_state (nrf_register ?kv (nf_req sample_nf)) (world_init []))"
  have kv: "nrf_kv ?ns = ?kv" by (simp add: EtcdNRFStore_def)
  note defs = EtcdNRFStore_def EtcdStore_def EtcdStore_Put_def EtcdStore_GetByPrefix_def mem_etcd_def kvPut_def kvGetByPrefix_def
    State_Monad.bind_def State_Monad.return_def Let_def
  have q: "values_Get (ParseQuery_values ''target-nf-type=AMF'') ''target-nf-type'' = ''AMF''" by code_simp
  have s1: "rs_StatusCode (fst (run_state (nrf_register ?kv (nf_req sample_nf)) (world_init []))) = 201"
    by (simp add: nrf_register_def nf_req_def sample_nf_def defs)
  have s2: "rs_StatusCode (fst (run_state (nrf_discover ?ns (nf_query ''AMF'')) ?w1)) = 200"
    by (simp add: nrf_discover_def nf_query_def defs q)
  show ?thesis
    using nrf_register_discover [OF memd.es.nrf_store_axioms, of "nf_req sample_nf" sample_nf "world_init []" _ ?w1 "nf_query ''AMF''",
        unfolded kv, OF _ prod.collapse [symmetric] s1 _ prod.collapse [symmetric] s2]
    by (auto simp: nf_req_def nf_query_def sample_nf_def q)
qed

text \<open>
  A status notification changes the status and nothing else, and discovery does not look at the
  status: an instance reported as \<open>SUSPENDED\<close> or \<open>UNDISCOVERABLE\<close> stays in the answer.
\<close>

theorem nrf_discovery_ignores_status:
  assumes "nrf_store ns view"
    and "unmarshal_body unmarshal_StatusNotification StatusNotification_zero (rq_Body req) = Some n"
    and "run_state (nrf_status_notify (nrf_kv ns) req) w = (r1, w1)" "rs_StatusCode r1 = 204"
    and "view (w_store w) (nf_key (stn_NFInstanceID n)) = Some (marshal_NFProfile p)"
    and "values_Get (ParseQuery_values (rq_QueryString q)) ''target-nf-type'' = nf_NFType p"
    and "run_state (nrf_discover ns q) w1 = (r2, w2)" "rs_StatusCode r2 = 200"
  shows "\<exists>ps. rs_Body r2 = BJson (marshal_DiscoverResult ps) \<and> p\<lparr>nf_NFStatus := stn_NFStatus n\<rparr> \<in> set ps"
proof -
  have w1: "view (w_store w1) = (view (w_store w))(nf_key (stn_NFInstanceID n) \<mapsto> marshal_NFProfile (p\<lparr>nf_NFStatus := stn_NFStatus n\<rparr>))"
    using wpD [OF nrf_store.nrf_status_notify_updates [OF assms(1,2)] assms(3)] assms(4,5) by auto
  show ?thesis
    using wpD [OF nrf_store.nrf_discover_lists [OF assms(1)] assms(7)] assms(6,8)
    by (auto simp: w1 discoverable_put)
qed

end
