(* ===== verification/Nwdaf.thy ===== *)
theory Nwdaf
  imports Slices
begin

text \<open>
  Data analytics by the NWDAF (\<^verbatim>\<open>functions/nwdaf\<close>): load reports of NF instances and of slices are
  collected under \<^verbatim>\<open>nf-metrics/{id}\<close> and \<^verbatim>\<open>slice-metrics/{slice}\<close>, the latter with the counters of
  the NSACF, and a subscription is answered with the report at hand.

  The functions only pass \<open>float64\<close> values on, from one document to another.  The conversions
  between number literals, integers and IEEE values are a parameter \<open>fl\<close>; what \<open>encoding/json\<close>
  documents of them, that a value is written as a number that reads back as the same value, is the
  locale \<open>float64_json\<close>.
\<close>

section \<open>Floating-point members\<close>

record 'f float64_conv =
  fl_zero :: 'f
  fl_parse :: "json \<Rightarrow> 'f option"
  fl_format :: "'f \<Rightarrow> json"
  fl_of_int :: "int64 \<Rightarrow> 'f"

fun is_number :: "json \<Rightarrow> bool" where
  "is_number (JNum n) = True"
| "is_number (JDec s) = True"
| "is_number _ = False"

definition dec_float :: "'f float64_conv \<Rightarrow> 'f decoder" where
  "dec_float fl j v = (if j = JNull then Some v else if is_number j then fl_parse fl j else None)"

locale float64_json =
  fixes fl :: "'f float64_conv"
  assumes format_number: "is_number (fl_format fl x)"
    and parse_format: "fl_parse fl (fl_format fl x) = Some x"
begin

lemma dec_float_format [simp]: "dec_float fl (fl_format fl x) v = Some x"
proof -
  have "fl_format fl x \<noteq> JNull" using format_number [of x] by (metis is_number.simps(3))
  then show ?thesis by (simp add: dec_float_def format_number parse_format)
qed

end

text \<open>Integral values, with the integer literals as their text.\<close>

definition int_float :: "int float64_conv" where
  "int_float = \<lparr>fl_zero = 0, fl_parse = (\<lambda>j. case j of JNum n \<Rightarrow> Some n | _ \<Rightarrow> None), fl_format = JNum, fl_of_int = sint\<rparr>"

interpretation int_float: float64_json int_float
  by unfold_locales (simp_all add: int_float_def)

section \<open>Documents\<close>

record 'f NFLoadInfo =
  nfl_NFInstanceID :: string
  nfl_NFType :: string
  nfl_CPUUsage :: 'f
  nfl_MemUsage :: 'f
  nfl_NfLoad :: int64
  nfl_Timestamp :: int

definition NFLoadInfo_zero :: "'f float64_conv \<Rightarrow> 'f NFLoadInfo" where
  "NFLoadInfo_zero fl = \<lparr>nfl_NFInstanceID = [], nfl_NFType = [], nfl_CPUUsage = fl_zero fl, nfl_MemUsage = fl_zero fl,
     nfl_NfLoad = 0, nfl_Timestamp = zero_time\<rparr>"

definition NFLoadInfo_fields :: "'f float64_conv \<Rightarrow> 'f NFLoadInfo fields" where
  "NFLoadInfo_fields fl = [(''nf_instance_id'', fld nfl_NFInstanceID nfl_NFInstanceID_update dec_string),
     (''nf_type'', fld nfl_NFType nfl_NFType_update dec_string),
     (''cpu_usage'', fld nfl_CPUUsage nfl_CPUUsage_update (dec_float fl)),
     (''mem_usage'', fld nfl_MemUsage nfl_MemUsage_update (dec_float fl)),
     (''nf_load'', fld nfl_NfLoad nfl_NfLoad_update dec_sint),
     (''timestamp'', fld nfl_Timestamp nfl_Timestamp_update dec_time)]"

definition unmarshal_NFLoadInfo :: "'f float64_conv \<Rightarrow> 'f NFLoadInfo decoder" where
  "unmarshal_NFLoadInfo fl = dec_struct (NFLoadInfo_fields fl)"

definition marshal_NFLoadInfo :: "'f float64_conv \<Rightarrow> 'f NFLoadInfo \<Rightarrow> json" where
  "marshal_NFLoadInfo fl x = JObj [(''nf_instance_id'', JStr (nfl_NFInstanceID x)),
     (''nf_type'', JStr (nfl_NFType x)),
     (''cpu_usage'', fl_format fl (nfl_CPUUsage x)),
     (''mem_usage'', fl_format fl (nfl_MemUsage x)),
     (''nf_load'', enc_sint (nfl_NfLoad x)),
     (''timestamp'', JTime (nfl_Timestamp x))]"

record 'f SliceLoadInfo =
  sli_SST :: int32
  sli_SD :: string
  sli_CurrentUEs :: int64
  sli_CurrentSessions :: int64
  sli_MeanNFLoad :: 'f
  sli_Timestamp :: int

definition SliceLoadInfo_zero :: "'f float64_conv \<Rightarrow> 'f SliceLoadInfo" where
  "SliceLoadInfo_zero fl = \<lparr>sli_SST = 0, sli_SD = [], sli_CurrentUEs = 0, sli_CurrentSessions = 0,
     sli_MeanNFLoad = fl_zero fl, sli_Timestamp = zero_time\<rparr>"

definition SliceLoadInfo_fields :: "'f float64_conv \<Rightarrow> 'f SliceLoadInfo fields" where
  "SliceLoadInfo_fields fl = [(''sst'', fld sli_SST sli_SST_update dec_sint),
     (''sd'', fld sli_SD sli_SD_update dec_string),
     (''current_ues'', fld sli_CurrentUEs sli_CurrentUEs_update dec_sint),
     (''current_sessions'', fld sli_CurrentSessions sli_CurrentSessions_update dec_sint),
     (''mean_nf_load'', fld sli_MeanNFLoad sli_MeanNFLoad_update (dec_float fl)),
     (''timestamp'', fld sli_Timestamp sli_Timestamp_update dec_time)]"

definition unmarshal_SliceLoadInfo :: "'f float64_conv \<Rightarrow> 'f SliceLoadInfo decoder" where
  "unmarshal_SliceLoadInfo fl = dec_struct (SliceLoadInfo_fields fl)"

definition marshal_SliceLoadInfo :: "'f float64_conv \<Rightarrow> 'f SliceLoadInfo \<Rightarrow> json" where
  "marshal_SliceLoadInfo fl x = JObj ([(''sst'', enc_sint (sli_SST x))] @
     omitempty (sli_SD x = []) (''sd'', JStr (sli_SD x)) @
     [(''current_ues'', enc_sint (sli_CurrentUEs x)),
     (''current_sessions'', enc_sint (sli_CurrentSessions x)),
     (''mean_nf_load'', fl_format fl (sli_MeanNFLoad x)),
     (''timestamp'', JTime (sli_Timestamp x))])"

context float64_json
begin

lemma NFLoadInfo_codec: "unmarshal_NFLoadInfo fl (marshal_NFLoadInfo fl x) (NFLoadInfo_zero fl) = Some x"
  by (cases x) (simp add: unmarshal_NFLoadInfo_def marshal_NFLoadInfo_def NFLoadInfo_fields_def NFLoadInfo_zero_def json_codec)

lemma SliceLoadInfo_codec: "unmarshal_SliceLoadInfo fl (marshal_SliceLoadInfo fl x) (SliceLoadInfo_zero fl) = Some x"
  by (cases x) (simp add: unmarshal_SliceLoadInfo_def marshal_SliceLoadInfo_def SliceLoadInfo_fields_def SliceLoadInfo_zero_def json_codec)

end

record 'f DataCollectRequest =
  dcq_CollectType :: string
  dcq_NFInstanceID :: string
  dcq_NFType :: string
  dcq_CPUUsage :: 'f
  dcq_MemUsage :: 'f
  dcq_NfLoad :: int64
  dcq_SNSSAI :: "SNSSAI option"

definition DataCollectRequest_zero :: "'f float64_conv \<Rightarrow> 'f DataCollectRequest" where
  "DataCollectRequest_zero fl = \<lparr>dcq_CollectType = [], dcq_NFInstanceID = [], dcq_NFType = [], dcq_CPUUsage = fl_zero fl,
     dcq_MemUsage = fl_zero fl, dcq_NfLoad = 0, dcq_SNSSAI = None\<rparr>"

definition DataCollectRequest_fields :: "'f float64_conv \<Rightarrow> 'f DataCollectRequest fields" where
  "DataCollectRequest_fields fl = [(''collect_type'', fld dcq_CollectType dcq_CollectType_update dec_string),
     (''nf_instance_id'', fld dcq_NFInstanceID dcq_NFInstanceID_update dec_string),
     (''nf_type'', fld dcq_NFType dcq_NFType_update dec_string),
     (''cpu_usage'', fld dcq_CPUUsage dcq_CPUUsage_update (dec_float fl)),
     (''mem_usage'', fld dcq_MemUsage dcq_MemUsage_update (dec_float fl)),
     (''nf_load'', fld dcq_NfLoad dcq_NfLoad_update dec_sint),
     (''snssai'', fld dcq_SNSSAI dcq_SNSSAI_update (dec_ptr unmarshal_SNSSAI SNSSAI_zero))]"

definition unmarshal_DataCollectRequest :: "'f float64_conv \<Rightarrow> 'f DataCollectRequest decoder" where
  "unmarshal_DataCollectRequest fl = dec_struct (DataCollectRequest_fields fl)"

record AnalyticsSubscribeRequest =
  asq_EventID :: string
  asq_TargetNF :: string
  asq_SNSSAI :: "SNSSAI option"
  asq_NotificationURI :: string

definition AnalyticsSubscribeRequest_zero :: AnalyticsSubscribeRequest where
  "AnalyticsSubscribeRequest_zero = \<lparr>asq_EventID = [],
     asq_TargetNF = [],
     asq_SNSSAI = None,
     asq_NotificationURI = []\<rparr>"

definition AnalyticsSubscribeRequest_fields :: "AnalyticsSubscribeRequest fields" where
  "AnalyticsSubscribeRequest_fields = [(''event_id'', fld asq_EventID asq_EventID_update dec_string),
     (''target_nf'', fld asq_TargetNF asq_TargetNF_update dec_string),
     (''snssai'', fld asq_SNSSAI asq_SNSSAI_update (dec_ptr unmarshal_SNSSAI SNSSAI_zero)),
     (''notification_uri'', fld asq_NotificationURI asq_NotificationURI_update dec_string)]"

definition unmarshal_AnalyticsSubscribeRequest :: "AnalyticsSubscribeRequest decoder" where
  "unmarshal_AnalyticsSubscribeRequest = dec_struct AnalyticsSubscribeRequest_fields"

record AnalyticsSubscription =
  asub_SubscriptionID :: string
  asub_EventID :: string
  asub_TargetNF :: string
  asub_SNSSAI :: "SNSSAI option"
  asub_NotificationURI :: string

definition AnalyticsSubscription_zero :: AnalyticsSubscription where
  "AnalyticsSubscription_zero = \<lparr>asub_SubscriptionID = [],
     asub_EventID = [],
     asub_TargetNF = [],
     asub_SNSSAI = None,
     asub_NotificationURI = []\<rparr>"

definition marshal_AnalyticsSubscription :: "AnalyticsSubscription \<Rightarrow> json" where
  "marshal_AnalyticsSubscription x = JObj ([(''subscription_id'', JStr (asub_SubscriptionID x)),
     (''event_id'', JStr (asub_EventID x))] @
     omitempty (asub_TargetNF x = []) (''target_nf'', JStr (asub_TargetNF x)) @
     omitempty (asub_SNSSAI x = None) (''snssai'', enc_ptr marshal_SNSSAI (asub_SNSSAI x)) @
     omitempty (asub_NotificationURI x = []) (''notification_uri'', JStr (asub_NotificationURI x)))"

text \<open>\<open>AnalyticsSubscribeResponse\<close>: the data are an interface value, absent when nil.\<close>

definition marshal_AnalyticsSubscribeResponse :: "string \<Rightarrow> string \<Rightarrow> json option \<Rightarrow> json" where
  "marshal_AnalyticsSubscribeResponse subID eventID analyticsData =
     JObj ([(''subscription_id'', JStr subID), (''event_id'', JStr eventID)] @
       omitempty (analyticsData = None) (''analytics_data'', enc_ptr (\<lambda>j. j) analyticsData))"

section \<open>Collection\<close>

definition nf_metrics_key :: "string \<Rightarrow> string" where
  "nf_metrics_key i = ''nf-metrics/'' @ i"

definition slice_metrics_key :: "SNSSAI \<Rightarrow> string" where
  "slice_metrics_key s = ''slice-metrics/'' @ sliceKeyFromSNSSAI s"

definition handleNFLoad :: "'f float64_conv \<Rightarrow> 's KVStore \<Rightarrow> 'f DataCollectRequest \<Rightarrow> ('s, response) handler" where
  "handleNFLoad fl kv collectReq =
     (if dcq_NFInstanceID collectReq = [] then State_Monad.return (errorResp 400 ''nf_instance_id is required for NF_LOAD'')
      else do {
        let nfType = (if dcq_NFType collectReq = [] then ''NF'' else dcq_NFType collectReq);
        now \<leftarrow> timeNow;
        let info = \<lparr>nfl_NFInstanceID = dcq_NFInstanceID collectReq, nfl_NFType = nfType, nfl_CPUUsage = dcq_CPUUsage collectReq,
          nfl_MemUsage = dcq_MemUsage collectReq, nfl_NfLoad = dcq_NfLoad collectReq, nfl_Timestamp = now\<rparr>;
        e \<leftarrow> kvPut kv (nf_metrics_key (dcq_NFInstanceID collectReq)) (marshal_NFLoadInfo fl info);
        (case e of
           Some err \<Rightarrow> State_Monad.return (errorResp 500 (''store put: '' @ err_text err))
         | None \<Rightarrow> State_Monad.return (json_resp 200 (marshal_NFLoadInfo fl info)))
      })"

definition handleSliceLoad :: "'f float64_conv \<Rightarrow> 's KVStore \<Rightarrow> 'f DataCollectRequest \<Rightarrow> ('s, response) handler" where
  "handleSliceLoad fl kv collectReq =
     (case dcq_SNSSAI collectReq of
        None \<Rightarrow> State_Monad.return (errorResp 400 ''snssai with sst > 0 is required for SLICE_LOAD'')
      | Some s \<Rightarrow>
        if sint (sn_SST s) \<le> 0 then State_Monad.return (errorResp 400 ''snssai with sst > 0 is required for SLICE_LOAD'')
        else do {
          r \<leftarrow> kvGet kv (counters_key s) unmarshal_SliceCounters SliceCounters_zero;
          let (currentUEs, currentSessions) =
            (case r of Inr counters \<Rightarrow> (ctr_CurrentUEs counters, ctr_CurrentSessions counters) | Inl _ \<Rightarrow> (0, 0));
          now \<leftarrow> timeNow;
          let info = \<lparr>sli_SST = sn_SST s, sli_SD = sn_SD s, sli_CurrentUEs = currentUEs, sli_CurrentSessions = currentSessions,
            sli_MeanNFLoad = fl_of_int fl (dcq_NfLoad collectReq), sli_Timestamp = now\<rparr>;
          e \<leftarrow> kvPut kv (slice_metrics_key s) (marshal_SliceLoadInfo fl info);
          (case e of
             Some err \<Rightarrow> State_Monad.return (errorResp 500 (''store put: '' @ err_text err))
           | None \<Rightarrow> State_Monad.return (json_resp 200 (marshal_SliceLoadInfo fl info)))
        })"

definition nwdaf_data_collect :: "'f float64_conv \<Rightarrow> 's KVStore \<Rightarrow> request \<Rightarrow> ('s, response) handler" where
  "nwdaf_data_collect fl kv req =
     (case unmarshal_body (unmarshal_DataCollectRequest fl) (DataCollectRequest_zero fl) (rq_Body req) of
        None \<Rightarrow> State_Monad.return (errorResp 400 (''invalid JSON: '' @ err_text JsonErr))
      | Some collectReq \<Rightarrow>
        if dcq_CollectType collectReq \<noteq> ''NF_LOAD'' \<and> dcq_CollectType collectReq \<noteq> ''SLICE_LOAD''
        then State_Monad.return (errorResp 400 ''collect_type must be NF_LOAD or SLICE_LOAD'')
        else if dcq_CollectType collectReq = ''NF_LOAD'' then handleNFLoad fl kv collectReq
        else handleSliceLoad fl kv collectReq)"

section \<open>Subscription\<close>

definition fetchNFLoad :: "'f float64_conv \<Rightarrow> 's KVStore \<Rightarrow> string \<Rightarrow> ('s, 'f NFLoadInfo) handler" where
  "fetchNFLoad fl kv targetNF =
     (if targetNF = [] then State_Monad.return (NFLoadInfo_zero fl)
      else do {
        r \<leftarrow> kvGet kv (nf_metrics_key targetNF) (unmarshal_NFLoadInfo fl) (NFLoadInfo_zero fl);
        State_Monad.return (case r of Inl _ \<Rightarrow> (NFLoadInfo_zero fl)\<lparr>nfl_NFInstanceID := targetNF\<rparr> | Inr info \<Rightarrow> info)
      })"

definition fetchSliceLoad :: "'f float64_conv \<Rightarrow> 's KVStore \<Rightarrow> SNSSAI option \<Rightarrow> ('s, 'f SliceLoadInfo) handler" where
  "fetchSliceLoad fl kv snssai =
     (case snssai of
        None \<Rightarrow> State_Monad.return (SliceLoadInfo_zero fl)
      | Some s \<Rightarrow> do {
          r \<leftarrow> kvGet kv (slice_metrics_key s) (unmarshal_SliceLoadInfo fl) (SliceLoadInfo_zero fl);
          State_Monad.return (case r of
              Inl _ \<Rightarrow> (SliceLoadInfo_zero fl)\<lparr>sli_SST := sn_SST s, sli_SD := sn_SD s\<rparr>
            | Inr info \<Rightarrow> info)
        })"

definition sub_id :: "uint64 \<Rightarrow> string" where
  "sub_id n = ''nwdaf-sub-'' @ show_nat (unat n)"

definition sub_store_key :: "string \<Rightarrow> string" where
  "sub_store_key i = ''nwdaf-subscriptions/'' @ i"

definition fetch_analytics :: "'f float64_conv \<Rightarrow> 's KVStore \<Rightarrow> AnalyticsSubscribeRequest \<Rightarrow> ('s, json option) handler" where
  "fetch_analytics fl kv subReq =
     (if asq_EventID subReq = ''NF_LOAD'' then do {
        info \<leftarrow> fetchNFLoad fl kv (asq_TargetNF subReq);
        State_Monad.return (Some (marshal_NFLoadInfo fl info))
      }
      else if asq_EventID subReq = ''SLICE_LOAD'' then do {
        info \<leftarrow> fetchSliceLoad fl kv (asq_SNSSAI subReq);
        State_Monad.return (Some (marshal_SliceLoadInfo fl info))
      }
      else State_Monad.return None)"

definition nwdaf_analytics_subscribe :: "'f float64_conv \<Rightarrow> 's KVStore \<Rightarrow> request \<Rightarrow> ('s, response) handler" where
  "nwdaf_analytics_subscribe fl kv req =
     (case unmarshal_body unmarshal_AnalyticsSubscribeRequest AnalyticsSubscribeRequest_zero (rq_Body req) of
        None \<Rightarrow> State_Monad.return (errorResp 400 (''invalid JSON: '' @ err_text JsonErr))
      | Some subReq \<Rightarrow>
        if asq_EventID subReq \<noteq> ''NF_LOAD'' \<and> asq_EventID subReq \<noteq> ''SLICE_LOAD'' \<and> asq_EventID subReq \<noteq> ''UE_MOBILITY''
        then State_Monad.return (errorResp 400 ''event_id must be NF_LOAD, SLICE_LOAD, or UE_MOBILITY'')
        else do {
          modify (\<lambda>w. w\<lparr>w_subCounter := w_subCounter w + 1\<rparr>);
          w \<leftarrow> State_Monad.get;
          let subID = sub_id (w_subCounter w);
          let sub = \<lparr>asub_SubscriptionID = subID, asub_EventID = asq_EventID subReq, asub_TargetNF = asq_TargetNF subReq,
            asub_SNSSAI = asq_SNSSAI subReq, asub_NotificationURI = asq_NotificationURI subReq\<rparr>;
          e \<leftarrow> kvPut kv (sub_store_key subID) (marshal_AnalyticsSubscription sub);
          (case e of
             Some err \<Rightarrow> State_Monad.return (errorResp 500 (''store put: '' @ err_text err))
           | None \<Rightarrow> do {
               analyticsData \<leftarrow> fetch_analytics fl kv subReq;
               State_Monad.return (json_resp 201 (marshal_AnalyticsSubscribeResponse subID (asq_EventID subReq) analyticsData))
             })
        })"

section \<open>Properties\<close>

lemma nwdaf_keys [simp]:
  "slice_metrics_key s \<noteq> sub_store_key i"
  "sub_store_key i \<noteq> slice_metrics_key s"
  "counters_key s \<noteq> slice_metrics_key s'"
  by (simp_all add: slice_metrics_key_def sub_store_key_def counters_key_def)

definition collect_req :: "SNSSAI \<Rightarrow> int64 \<Rightarrow> request" where
  "collect_req s load = body_req [(''collect_type'', JStr ''SLICE_LOAD''), (''nf_load'', enc_sint load), (''snssai'', marshal_SNSSAI s)]"

definition subscribe_req :: "SNSSAI \<Rightarrow> request" where
  "subscribe_req s = body_req [(''event_id'', JStr ''SLICE_LOAD''), (''snssai'', marshal_SNSSAI s)]"

lemma collect_req_decoded:
  "unmarshal_body (unmarshal_DataCollectRequest fl) (DataCollectRequest_zero fl) (rq_Body (collect_req s load)) =
     Some ((DataCollectRequest_zero fl)\<lparr>dcq_CollectType := ''SLICE_LOAD'', dcq_NfLoad := load, dcq_SNSSAI := Some s\<rparr>)"
  using dec_ptr_enc [of unmarshal_SNSSAI marshal_SNSSAI SNSSAI_zero "Some s"]
  by (simp add: collect_req_def body_req_def unmarshal_DataCollectRequest_def DataCollectRequest_fields_def
      DataCollectRequest_zero_def json_codec enc_ptr_def)

lemma subscribe_req_decoded:
  "unmarshal_body unmarshal_AnalyticsSubscribeRequest AnalyticsSubscribeRequest_zero (rq_Body (subscribe_req s)) =
     Some (AnalyticsSubscribeRequest_zero\<lparr>asq_EventID := ''SLICE_LOAD'', asq_SNSSAI := Some s\<rparr>)"
  using dec_ptr_enc [of unmarshal_SNSSAI marshal_SNSSAI SNSSAI_zero "Some s"]
  by (simp add: subscribe_req_def body_req_def unmarshal_AnalyticsSubscribeRequest_def AnalyticsSubscribeRequest_fields_def
      AnalyticsSubscribeRequest_zero_def json_codec enc_ptr_def)

text \<open>The slice report that a collection writes at time \<open>now\<close>, given the NSACF's counters.\<close>

definition slice_report :: "'f float64_conv \<Rightarrow> SNSSAI \<Rightarrow> int64 \<Rightarrow> SliceCounters \<Rightarrow> int \<Rightarrow> 'f SliceLoadInfo" where
  "slice_report fl s load c now = \<lparr>sli_SST = sn_SST s, sli_SD = sn_SD s, sli_CurrentUEs = ctr_CurrentUEs c,
     sli_CurrentSessions = ctr_CurrentSessions c, sli_MeanNFLoad = fl_of_int fl load, sli_Timestamp = now\<rparr>"

context reliable_store
begin

lemma nwdaf_collect_ok:
  assumes "0 < sint (sn_SST s)" "view (w_store w) (counters_key s) = Some (marshal_SliceCounters c)"
  shows "wp (nwdaf_data_collect fl kv (collect_req s load)) (\<lambda>r w'. rs_StatusCode r = 200 \<and>
     view (w_store w') = (view (w_store w))(slice_metrics_key s \<mapsto>
        marshal_SliceLoadInfo fl (slice_report fl s load c (w_times w (w_reads w))))) w"
  using assms unfolding nwdaf_data_collect_def collect_req_decoded handleSliceLoad_def
  by (auto simp: wp Let_def slice_report_def intro!: wp_kvGet_reliable wp_kvPut_reliable)

lemma nwdaf_subscribe_ok:
  assumes "float64_json fl" "view (w_store w) (slice_metrics_key s) = Some (marshal_SliceLoadInfo fl info)"
  shows "wp (nwdaf_analytics_subscribe fl kv (subscribe_req s)) (\<lambda>r w'.
     r = json_resp 201 (marshal_AnalyticsSubscribeResponse (sub_id (w_subCounter w + 1)) ''SLICE_LOAD''
           (Some (marshal_SliceLoadInfo fl info)))) w"
  using assms unfolding nwdaf_analytics_subscribe_def subscribe_req_decoded fetch_analytics_def fetchSliceLoad_def
  by (auto simp: wp Let_def float64_json.SliceLoadInfo_codec intro!: wp_kvGet_reliable wp_kvPut_reliable)

end

text \<open>A slice load report collected by the NWDAF carries the UE and session counters the NSACF holds for the
  slice, and a later subscription to the slice's load is answered with exactly that report.\<close>

theorem nwdaf_collect_subscribe:
  assumes "reliable_store kv view" "float64_json fl" "0 < sint (sn_SST s)"
    and "view (w_store w) (counters_key s) = Some (marshal_SliceCounters c)"
    and "run_state (nwdaf_data_collect fl kv (collect_req s load)) w = (r1, w1)"
    and "run_state (nwdaf_analytics_subscribe fl kv (subscribe_req s)) w1 = (r2, w2)"
  shows "rs_StatusCode r1 = 200 \<and> rs_StatusCode r2 = 201 \<and>
    rs_Body r2 = BJson (marshal_AnalyticsSubscribeResponse (sub_id (w_subCounter w1 + 1)) ''SLICE_LOAD''
      (Some (marshal_SliceLoadInfo fl (slice_report fl s load c (w_times w (w_reads w))))))"
proof -
  note c = wpD [OF reliable_store.nwdaf_collect_ok [OF assms(1,3,4)] assms(5)]
  then have "view (w_store w1) (slice_metrics_key s) =
      Some (marshal_SliceLoadInfo fl (slice_report fl s load c (w_times w (w_reads w))))" by simp
  from wpD [OF reliable_store.nwdaf_subscribe_ok [OF assms(1,2) this] assms(6)] c show ?thesis by simp
qed

definition metrics_world :: "(string \<rightharpoonup> json) world" where
  "metrics_world = world_init [counters_key sample_slice \<mapsto>
     marshal_SliceCounters \<lparr>ctr_SST = 1, ctr_SD = ''010203'', ctr_CurrentUEs = 4, ctr_CurrentSessions = 6\<rparr>]"

theorem nwdaf_collect_subscribe_witness:
  "rs_StatusCode (fst (run_state (nwdaf_analytics_subscribe int_float MockKVStore (subscribe_req sample_slice))
     (snd (run_state (nwdaf_data_collect int_float MockKVStore (collect_req sample_slice 30)) metrics_world)))) = 201"
  using nwdaf_collect_subscribe [of MockKVStore "\<lambda>m. m" int_float sample_slice metrics_world
      "\<lparr>ctr_SST = 1, ctr_SD = ''010203'', ctr_CurrentUEs = 4, ctr_CurrentSessions = 6\<rparr>" 30,
      OF mock.reliable_store_axioms int_float.float64_json_axioms _ _ surjective_pairing surjective_pairing]
  by (simp add: metrics_world_def world_init_def sample_slice_def)

end
