(* ===== verification/Isolation.thy ===== *)
theory Isolation
  imports Subscriber Amf Policy Charging SmfSessions Nrf Nwdaf
begin

text \<open>
  Which part of the shared store a function can change.  The UE contexts belong to the AMF, the
  sessions, the address pool and the two counters to the SMF; every other function leaves both alone,
  whatever it is asked.  These are the facts the properties of the whole system rest on.
\<close>

section \<open>The AMF's and the SMF's part\<close>

definition core_state ::
  "('s \<Rightarrow> string \<rightharpoonup> json) \<Rightarrow> 's world \<Rightarrow> (string \<Rightarrow> json option) \<times> (string \<rightharpoonup> json) \<times> uint32 \<times> uint32 \<times> uint64" where
  "core_state view w = ((\<lambda>supi. view (w_store w) (ue_key supi)), smf_state view w)"

definition core_key :: "string \<Rightarrow> bool" where
  "core_key k \<longleftrightarrow> smf_key k \<or> (\<exists>supi. k = ue_key supi)"

abbreviation core_quiet :: "('s \<Rightarrow> string \<rightharpoonup> json) \<Rightarrow> ('s, 'a) handler \<Rightarrow> bool" where
  "core_quiet view m \<equiv> preserves (core_state view) m"

lemma core_state_reads [pres]: "reads_outside view (\<lambda>k. \<not> core_key k) (core_state view)"
  by (auto simp: reads_outside_def core_state_def core_key_def smf_state_def smf_view_def fun_eq_iff)

lemma core_quiet_smf: "core_quiet view m \<Longrightarrow> smf_quiet view m"
  unfolding preserves_def core_state_def prod.inject by (blast intro: wp_mono)

lemma preserves_res [pres]:
  "(\<And>a. preserves g (f a)) \<Longrightarrow> (\<And>e. preserves g (h e)) \<Longrightarrow> preserves g m \<Longrightarrow>
   preserves g (case x of Ok a \<Rightarrow> f a | Error e \<Rightarrow> h e | Panic \<Rightarrow> m)"
  by (cases x) simp_all

lemma preserves_bool [pres]: "preserves g m \<Longrightarrow> preserves g n \<Longrightarrow> preserves g (case b of True \<Rightarrow> m | False \<Rightarrow> n)"
  by (cases b) simp_all

lemma preserves_randRead [pres]: "(\<And>w n. g (w\<lparr>w_draws := n\<rparr>) = g w) \<Longrightarrow> preserves g randRead"
  by (simp add: preserves_def wp)

lemmas smf_key_defs = core_key_def smf_key_def ue_key_def session_key_def ip_key_def

lemma not_core_keys [simp]:
  "\<not> core_key (sub_key i)" "\<not> core_key (av_key i)" "\<not> core_key (active_policy_key i)" "\<not> core_key (bsf_key i)" "\<not> core_key (bsf_ip_key i)" "\<not> core_key (bsf_supi_key i j)"
  "\<not> core_key (chg_key i)" "\<not> core_key (cdr_key i)" "\<not> core_key (counters_key s)"
  "\<not> core_key (nf_metrics_key i)" "\<not> core_key (slice_metrics_key s)" "\<not> core_key (sub_store_key i)"
  by (auto simp: smf_key_defs sub_key_def av_key_def active_policy_key_def bsf_key_def bsf_ip_key_def bsf_supi_key_def
      chg_key_def cdr_key_def counters_key_def nf_metrics_key_def slice_metrics_key_def sub_store_key_def)

lemma core_state_fields [simp]:
  "core_state view (w\<lparr>w_reads := n\<rparr>) = core_state view w"
  "core_state view (w\<lparr>w_draws := n\<rparr>) = core_state view w"
  "core_state view (w\<lparr>w_amfUeNgapIDCounter := i\<rparr>) = core_state view w"
  "core_state view (w\<lparr>w_chargingCounter := c\<rparr>) = core_state view w"
  "core_state view (w\<lparr>w_bindingCounter := c\<rparr>) = core_state view w"
  "core_state view (w\<lparr>w_policyCounter := c\<rparr>) = core_state view w"
  "core_state view (w\<lparr>w_subCounter := c\<rparr>) = core_state view w"
  by (simp_all add: core_state_def smf_state_def)

section \<open>The other functions\<close>

context kv_store
begin

lemmas quiet_put = preserves_kvPut [OF core_state_reads]
lemmas quiet_del = preserves_kvDelete [OF core_state_reads]
lemmas quiet_get = preserves_kvGet [OF core_state_reads]

lemma subscriber_quiet:
  "core_quiet view (udr_data_read kv req)" "core_quiet view (udr_data_write kv req)"
  "core_quiet view (udm_generate_auth_data lib kv req)" "core_quiet view (udm_get_subscriber_data kv req)"
  "core_quiet view (ausf_authenticate kv req)"
  unfolding udr_data_read_def udr_data_write_def udm_generate_auth_data_def udm_get_subscriber_data_def ausf_authenticate_def
  by (intro pres quiet_put quiet_del quiet_get; simp)+

lemma slices_quiet:
  "core_quiet view (nssf_slice_select kv req)" "core_quiet view (nsacf_slice_availability_check env kv req)"
  "core_quiet view (nsacf_update_counters env kv req)"
  unfolding nssf_slice_select_def nsacf_slice_availability_check_def nsacf_update_counters_def
  by (intro pres quiet_put quiet_del quiet_get; simp)+

lemma policy_quiet:
  "core_quiet view (pcf_policy_create kv req)" "core_quiet view (pcf_policy_get kv req)"
  "core_quiet view (bsf_binding_register env kv req)" "core_quiet view (bsf_binding_discover env kv req)"
  "core_quiet view (bsf_binding_deregister env kv req)"
  unfolding pcf_policy_create_def pcf_policy_get_def bsf_binding_register_def bsf_binding_discover_def bsf_load_def
    bsf_binding_deregister_def
  by (intro pres quiet_put quiet_del quiet_get; simp)+

lemma charging_quiet:
  "core_quiet view (chf_charging_create env kv req)" "core_quiet view (chf_charging_update env kv req)"
  "core_quiet view (chf_charging_release env kv req)"
  unfolding chf_charging_create_def chf_charging_update_def chf_charging_release_def
  by (intro pres quiet_put quiet_del quiet_get; simp)+

lemma nwdaf_quiet:
  "core_quiet view (nwdaf_analytics_subscribe fl kv req)" "core_quiet view (nwdaf_data_collect fl kv req)"
  unfolding nwdaf_analytics_subscribe_def nwdaf_data_collect_def handleNFLoad_def handleSliceLoad_def fetch_analytics_def
    fetchNFLoad_def fetchSliceLoad_def
  by (intro pres quiet_put quiet_del quiet_get; simp)+

end

section \<open>The AMF leaves the SMF's part alone\<close>

text \<open>The functions the AMF calls, apart from the SMF.\<close>

definition amf_peer :: "string \<Rightarrow> bool" where
  "amf_peer f \<longleftrightarrow> f \<in> {''amf-auth-initiate'', ''ausf-authenticate'', ''udm-generate-auth-data'', ''udm-get-subscriber-data'',
     ''udm-registration'', ''nsacf-slice-availability-check'', ''nsacf-update-counters''}"

lemma amf_peers [simp]:
  "amf_peer ''amf-auth-initiate''" "amf_peer ''ausf-authenticate''" "amf_peer ''udm-generate-auth-data''"
  "amf_peer ''udm-get-subscriber-data''" "amf_peer ''udm-registration''" "amf_peer ''nsacf-slice-availability-check''"
  "amf_peer ''nsacf-update-counters''"
  by (simp_all add: amf_peer_def)

lemma keeps_nextSEID [keep]: "keeps view I nextSEID"
  by (simp add: keeps_def wp_def nextSEID_def)

lemma smf_state_fields [simp]:
  "smf_state view (w\<lparr>w_reads := n\<rparr>) = smf_state view w"
  "smf_state view (w\<lparr>w_amfUeNgapIDCounter := i\<rparr>) = smf_state view w"
  by (simp_all add: smf_state_def)

context kv_store
begin

lemmas smf_quiet_put = preserves_kvPut [OF smf_state_reads]
lemmas smf_quiet_del = preserves_kvDelete [OF smf_state_reads]
lemmas smf_quiet_get = preserves_kvGet [OF smf_state_reads]

lemma amf_calling_quiet:
  assumes "\<And>f p. amf_peer f \<Longrightarrow> smf_quiet view (sbi f p)"
  shows "smf_quiet view (amf_registration env kv sbi req)" "smf_quiet view (amf_deregistration env kv sbi req)"
    "smf_quiet view (amf_auth_initiate kv sbi req)"
  unfolding amf_registration_def amf_deregistration_def amf_auth_initiate_def reg_authenticate_def reg_subscribe_def
    reg_admission_def reg_accept_def reg_check_def reg_count_def get_ue_def put_ue_def
  by (intro pres assms smf_quiet_put smf_quiet_del smf_quiet_get; simp add: smf_key_defs)+

lemma amf_quiet: "smf_quiet view (amf_service_request kv req)" "smf_quiet view (amf_handover kv req)"
  unfolding amf_service_request_def amf_handover_def get_ue_def put_ue_def
  by (intro pres smf_quiet_put smf_quiet_del smf_quiet_get; simp add: smf_key_defs)+

section \<open>The SMF leaves the UE contexts alone\<close>

lemma allocateIP_keeps: "keeps view ue_store_ok (allocateIP_loop p kv n)"
proof (induction n)
  case (Suc n)
  then show ?case
    by (auto simp: ip_key_def ue_key_def intro!: keep ue_store_put_other)
qed (auto intro!: keep)

lemma smf_keeps:
  assumes "\<And>f p. keeps view ue_store_ok (sbi f p)"
  shows "keeps view ue_store_ok (smf_pdu_session_create env kv (Some sbi) None req)"
    "keeps view ue_store_ok (smf_pdu_session_release env kv (Some sbi) None req)"
    "keeps view ue_store_ok (smf_pdu_session_update kv None req)"
    "keeps view ue_store_ok (smf_n4_session_setup None req)"
proof -
  have key: "session_key i \<noteq> ue_key supi" "ip_key i \<noteq> ue_key supi" for i supi by (simp_all add: session_key_def ip_key_def ue_key_def)
  show "keeps view ue_store_ok (smf_pdu_session_create env kv (Some sbi) None req)"
    unfolding smf_pdu_session_create_def sm_policy_def sm_refused_def allocateIP_def sm_setup_def sm_establish_def
      sm_register_session_def sm_bind_pcf_def sm_start_charging_def sm_count_def releaseIP_def option.case
    by (intro keep assms allocateIP_keeps ue_store_put_other ue_store_del key; simp)
  show "keeps view ue_store_ok (smf_pdu_session_release env kv (Some sbi) None req)"
    unfolding smf_pdu_session_release_def sm_delete_def sm_call_if_def option.case
    by (intro keep assms ue_store_put_other ue_store_del key; simp)
  show "keeps view ue_store_ok (smf_pdu_session_update kv None req)" "keeps view ue_store_ok (smf_n4_session_setup None req)"
    unfolding smf_pdu_session_update_def sm_modify_def smf_n4_session_setup_def option.case
    by (intro keep assms ue_store_put_other ue_store_del key; simp)+
qed

end

lemma core_quiet_keeps: "core_quiet view m \<Longrightarrow> keeps view ue_store_ok m"
  unfolding keeps_def
  by (intro allI impI, erule wp_preserves) (auto simp: core_state_def ue_store_ok_def fun_eq_iff)

end
