(* ===== verification/Gateway.thy ===== *)
theory Gateway
  imports Isolation
begin

text \<open>
  The gateway of the integration tests (\<^verbatim>\<open>cmd/testgateway/main.go\<close>): all functions behind one HTTP
  server, each under \<^verbatim>\<open>/function/{name}\<close>, with the SBI client of the functions pointing back at the
  server.  The NRF functions use etcd, all others Redis; the SMF has no PFCP client.

  \<open>serve\<close> is the routing table over a given SBI client, \<open>post\<close> ties the knot: the transport that posts
  to the gateway itself.  A function may call functions that call functions, so \<open>post\<close> has a
  depth; a depth of two is enough for every request, which \<open>gateway_call_depth\<close> shows.
\<close>

section \<open>Two servers\<close>

definition on_fst :: "('r \<Rightarrow> 'x \<times> 'r) \<Rightarrow> 'r \<times> 'e \<Rightarrow> 'x \<times> ('r \<times> 'e)" where
  "on_fst f s = apsnd (\<lambda>r. (r, snd s)) (f (fst s))"

definition on_snd :: "('e \<Rightarrow> 'x \<times> 'e) \<Rightarrow> 'r \<times> 'e \<Rightarrow> 'x \<times> ('r \<times> 'e)" where
  "on_snd f s = apsnd (\<lambda>e. (fst s, e)) (f (snd s))"

definition redis_side :: "'r KVStore \<Rightarrow> ('r \<times> 'e) KVStore" where
  "redis_side kv = \<lparr>kv_Put = (\<lambda>k j. on_fst (kv_Put kv k j)), kv_Get = (\<lambda>k. on_fst (kv_Get kv k)),
     kv_Delete = (\<lambda>k. on_fst (kv_Delete kv k))\<rparr>"

definition etcd_side :: "'e NRFStore \<Rightarrow> ('r \<times> 'e) NRFStore" where
  "etcd_side ns = \<lparr>nrf_kv = \<lparr>kv_Put = (\<lambda>k j. on_snd (kv_Put (nrf_kv ns) k j)), kv_Get = (\<lambda>k. on_snd (kv_Get (nrf_kv ns) k)),
     kv_Delete = (\<lambda>k. on_snd (kv_Delete (nrf_kv ns) k))\<rparr>,
     nrf_GetByPrefix = (\<lambda>p. on_snd (nrf_GetByPrefix ns p))\<rparr>"

section \<open>The gateway\<close>

text \<open>What \<open>main\<close> sets up: the environment, the Milenage library, the number conversions, the two stores.\<close>

record ('r, 'e, 'f) gateway =
  gw_env :: "string \<Rightarrow> string"
  gw_aka :: aka_lib
  gw_float :: "'f float64_conv"
  gw_redis :: "'r KVStore"
  gw_etcd :: "'e NRFStore"

text \<open>\<open>wrapHandler\<close>: a run that panicked answers nothing, and the client's connection breaks.\<close>

definition wrapHandler :: "response \<Rightarrow> string + response" where
  "wrapHandler resp =
     (if resp = crash_resp then Inl ''EOF''
      else if rs_StatusCode resp = 0 then Inr (resp\<lparr>rs_StatusCode := 200\<rparr>) else Inr resp)"

definition routes ::
  "('r, 'e, 'f) gateway \<Rightarrow> ('r \<times> 'e) SBICaller \<Rightarrow> (string \<times> (request \<Rightarrow> ('r \<times> 'e, response) handler)) list" where
  "routes g sbi =
     (let env = gw_env g; kv = redis_side (gw_redis g); ns = etcd_side (gw_etcd g); fl = gw_float g in
      [(''nrf-register'', nrf_register (nrf_kv ns)),
       (''nrf-discover'', nrf_discover ns),
       (''nrf-status-notify'', nrf_status_notify (nrf_kv ns)),
       (''amf-initial-registration'', amf_registration env kv sbi),
       (''amf-deregistration'', amf_deregistration env kv sbi),
       (''amf-service-request'', amf_service_request kv),
       (''amf-pdu-session-relay'', amf_pdu_session_relay kv sbi),
       (''amf-handover'', amf_handover kv),
       (''amf-auth-initiate'', amf_auth_initiate kv sbi),
       (''smf-pdu-session-create'', smf_pdu_session_create env kv (Some sbi) None),
       (''smf-pdu-session-update'', smf_pdu_session_update kv None),
       (''smf-pdu-session-release'', smf_pdu_session_release env kv (Some sbi) None),
       (''smf-n4-session-setup'', smf_n4_session_setup None),
       (''udm-generate-auth-data'', udm_generate_auth_data (gw_aka g) kv),
       (''udm-get-subscriber-data'', udm_get_subscriber_data kv),
       (''udr-data-read'', udr_data_read kv),
       (''udr-data-write'', udr_data_write kv),
       (''ausf-authenticate'', ausf_authenticate kv),
       (''pcf-policy-create'', pcf_policy_create kv),
       (''pcf-policy-get'', pcf_policy_get kv),
       (''nssf-slice-select'', nssf_slice_select kv),
       (''nwdaf-analytics-subscribe'', nwdaf_analytics_subscribe fl kv),
       (''nwdaf-data-collect'', nwdaf_data_collect fl kv),
       (''chf-charging-create'', chf_charging_create env kv),
       (''chf-charging-update'', chf_charging_update env kv),
       (''chf-charging-release'', chf_charging_release env kv),
       (''nsacf-slice-availability-check'', nsacf_slice_availability_check env kv),
       (''nsacf-update-counters'', nsacf_update_counters env kv),
       (''bsf-binding-register'', bsf_binding_register env kv),
       (''bsf-binding-discover'', bsf_binding_discover env kv),
       (''bsf-binding-deregister'', bsf_binding_deregister env kv)])"

text \<open>The answer of \<open>http.ServeMux\<close> to a path without a handler.\<close>

definition mux_not_found :: response where
  "mux_not_found = \<lparr>rs_StatusCode = 404, rs_Body = BText ''404 page not found'',
     rs_Header = [(''Content-Type'', ''text/plain; charset=utf-8''), (''X-Content-Type-Options'', ''nosniff'')]\<rparr>"

definition serve ::
  "('r, 'e, 'f) gateway \<Rightarrow> ('r \<times> 'e) SBICaller \<Rightarrow> string \<Rightarrow> request \<Rightarrow> ('r \<times> 'e, string + response) handler" where
  "serve g sbi funcName req =
     (case map_of (routes g sbi) funcName of
        None \<Rightarrow> State_Monad.return (Inr mux_not_found)
      | Some h \<Rightarrow> do {
          resp \<leftarrow> h req;
          State_Monad.return (wrapHandler resp)
        })"

text \<open>An SBI call is a POST of the payload without a query string.\<close>

fun post :: "('r, 'e, 'f) gateway \<Rightarrow> nat \<Rightarrow> ('r \<times> 'e) transport" where
  "post g 0 funcName payload = State_Monad.return (Inl ''depth'')"
| "post g (Suc n) funcName payload =
     serve g (Client_post (post g n)) funcName \<lparr>rq_Body = Some payload, rq_QueryString = []\<rparr>"

text \<open>A request from outside, whose handler calls others through the gateway.\<close>

definition gateway_handle ::
  "('r, 'e, 'f) gateway \<Rightarrow> string \<Rightarrow> request \<Rightarrow> ('r \<times> 'e, string + response) handler" where
  "gateway_handle g funcName req = serve g (Client_post (post g 2)) funcName req"

section \<open>Call depth\<close>

text \<open>A handler depends on its SBI client only through the functions it calls.\<close>

definition same_on :: "string list \<Rightarrow> 's SBICaller \<Rightarrow> 's SBICaller \<Rightarrow> bool" where
  "same_on fs sbi sbi' \<longleftrightarrow> list_all (\<lambda>f. sbi f = sbi' f) fs"

lemmas sbi_calls = CallFunction_def CallFunction_nil_def same_on_def

lemma Client_post_same: "post1 f = post2 f \<Longrightarrow> Client_post post1 f = Client_post post2 f"
  by (intro ext) (simp add: Client_post_def)

lemma auth_initiate_calls:
  "same_on [''udm-generate-auth-data''] sbi sbi' \<Longrightarrow> amf_auth_initiate kv sbi = amf_auth_initiate kv sbi'"
  by (intro ext) (simp add: amf_auth_initiate_def sbi_calls Let_def cong: option.case_cong if_cong)

lemma reg_count_calls: "same_on [''nsacf-update-counters''] sbi sbi' \<Longrightarrow> reg_count sbi = reg_count sbi'"
  by (intro ext) (simp add: reg_count_def sbi_calls Let_def cong: option.case_cong if_cong)

lemma reg_check_calls: "same_on [''nsacf-slice-availability-check''] sbi sbi' \<Longrightarrow> reg_check sbi = reg_check sbi'"
  by (intro ext) (simp add: reg_check_def sbi_calls Let_def cong: option.case_cong if_cong)

lemma reg_authenticate_calls:
  "same_on [''amf-auth-initiate'', ''ausf-authenticate''] sbi sbi' \<Longrightarrow> reg_authenticate kv sbi = reg_authenticate kv sbi'"
  by (intro ext) (simp add: reg_authenticate_def sbi_calls Let_def cong: option.case_cong if_cong)

lemma registration_calls:
  assumes "same_on [''amf-auth-initiate'', ''ausf-authenticate'', ''udm-get-subscriber-data'', ''udm-registration'',
     ''nsacf-slice-availability-check'', ''nsacf-update-counters''] sbi sbi'"
  shows "amf_registration env kv sbi = amf_registration env kv sbi'"
proof -
  have eqs: "reg_authenticate kv sbi = reg_authenticate kv sbi'" "reg_check sbi = reg_check sbi'" "reg_count sbi = reg_count sbi'"
    using assms by (auto simp: same_on_def intro: reg_authenticate_calls reg_check_calls reg_count_calls)
  have "reg_subscribe env kv sbi = reg_subscribe env kv sbi'"
    using assms by (intro ext) (simp add: reg_subscribe_def reg_admission_def sbi_calls eqs Let_def cong: option.case_cong if_cong)
  with eqs(1) show ?thesis by (intro ext) (simp add: amf_registration_def Let_def cong: option.case_cong if_cong)
qed

lemma deregistration_calls:
  "same_on [''nsacf-update-counters''] sbi sbi' \<Longrightarrow> amf_deregistration env kv sbi = amf_deregistration env kv sbi'"
  by (rule ext, drule reg_count_calls) (simp add: amf_deregistration_def Let_def cong: option.case_cong if_cong)

lemma relay_calls:
  "same_on [''smf-pdu-session-create''] sbi sbi' \<Longrightarrow> amf_pdu_session_relay kv sbi = amf_pdu_session_relay kv sbi'"
  by (intro ext) (simp add: amf_pdu_session_relay_def sbi_calls Let_def cong: option.case_cong if_cong)

lemma sm_policy_calls: "same_on [''pcf-policy-create''] sbi sbi' \<Longrightarrow> sm_policy (Some sbi) = sm_policy (Some sbi')"
  by (intro ext) (simp add: sm_policy_def sbi_calls Let_def cong: option.case_cong if_cong)

lemma sm_refused_calls:
  "same_on [''nsacf-slice-availability-check''] sbi sbi' \<Longrightarrow> sm_refused env (Some sbi) = sm_refused env (Some sbi')"
  by (intro ext) (simp add: sm_refused_def sbi_calls Let_def cong: option.case_cong if_cong)

lemma sm_register_calls:
  "same_on [''bsf-binding-register'', ''chf-charging-create'', ''nsacf-update-counters''] sbi sbi' \<Longrightarrow>
   sm_register_session env kv (Some sbi) = sm_register_session env kv (Some sbi')"
  by (intro ext) (simp add: sm_register_session_def sm_bind_pcf_def sm_start_charging_def sm_count_def sbi_calls Let_def cong: option.case_cong if_cong)

lemma session_create_calls:
  assumes "same_on [''pcf-policy-create'', ''nsacf-slice-availability-check'', ''bsf-binding-register'', ''chf-charging-create'',
     ''nsacf-update-counters''] sbi sbi'"
  shows "smf_pdu_session_create env kv (Some sbi) pfcp = smf_pdu_session_create env kv (Some sbi') pfcp"
proof -
  have "sm_policy (Some sbi) = sm_policy (Some sbi')" "sm_refused env (Some sbi) = sm_refused env (Some sbi')"
    "sm_register_session env kv (Some sbi) = sm_register_session env kv (Some sbi')"
    using assms by (auto simp: same_on_def intro: sm_policy_calls sm_refused_calls sm_register_calls)
  then show ?thesis by (intro ext) (simp add: smf_pdu_session_create_def sm_setup_def Let_def cong: option.case_cong if_cong)
qed

lemma session_release_calls:
  "same_on [''chf-charging-release'', ''bsf-binding-deregister'', ''nsacf-update-counters''] sbi sbi' \<Longrightarrow>
   smf_pdu_session_release env kv (Some sbi) pfcp = smf_pdu_session_release env kv (Some sbi') pfcp"
  by (intro ext) (simp add: smf_pdu_session_release_def sm_call_if_def sbi_calls Let_def cong: option.case_cong if_cong)

text \<open>The functions that call no other.\<close>

definition leaf :: "string \<Rightarrow> bool" where
  "leaf f \<longleftrightarrow> f \<notin> {''amf-initial-registration'', ''amf-deregistration'', ''amf-pdu-session-relay'', ''amf-auth-initiate'',
     ''smf-pdu-session-create'', ''smf-pdu-session-release''}"

lemma leaf_serve: "leaf f \<Longrightarrow> serve g sbi f = serve g sbi' f"
  by (rule ext) (simp add: serve_def routes_def leaf_def Let_def)

lemma post_step: "post g (Suc n) f = (\<lambda>p. serve g (Client_post (post g n)) f \<lparr>rq_Body = Some p, rq_QueryString = []\<rparr>)"
  by (rule ext) simp

lemma post_leaf: "leaf f \<Longrightarrow> post g (Suc n) f = post g (Suc 0) f"
  unfolding post_step using leaf_serve [of f g "Client_post (post g n)" "Client_post (post g 0)"] by simp

lemma post_mid:
  assumes "f \<noteq> ''amf-initial-registration''" "f \<noteq> ''amf-pdu-session-relay''"
  shows "serve g (Client_post (post g (Suc n))) f = serve g (Client_post (post g (Suc 0))) f"
proof -
  have c: "Client_post (post g (Suc n)) f = Client_post (post g (Suc 0)) f" if "leaf f" for f
    by (rule Client_post_same, rule post_leaf [OF that])
  have "same_on fs (Client_post (post g (Suc n))) (Client_post (post g (Suc 0)))" if "list_all leaf fs" for fs
    using that c by (simp add: same_on_def list_all_iff)
  note eqs = this [THEN auth_initiate_calls] this [THEN deregistration_calls] this [THEN session_create_calls]
    this [THEN session_release_calls]
  show ?thesis
    using assms eqs by (intro ext) (simp add: serve_def routes_def leaf_def Let_def)
qed

lemma post_depth: "post g (Suc (Suc n)) f = post g 2 f" if "f \<noteq> ''amf-initial-registration''" "f \<noteq> ''amf-pdu-session-relay''"
  unfolding post_step numeral_2_eq_2 post_mid [OF that, of g n] ..

lemma serve_depth: "serve g (Client_post (post g (Suc (Suc n)))) f = serve g (Client_post (post g 2)) f"
proof -
  let ?s = "Client_post (post g (Suc (Suc n)))" and ?t = "Client_post (post g 2)"
  have "?s f = ?t f" if "f \<noteq> ''amf-initial-registration''" "f \<noteq> ''amf-pdu-session-relay''" for f
    by (rule Client_post_same, rule post_depth [OF that])
  then have same: "same_on fs ?s ?t" if "''amf-initial-registration'' \<notin> set fs" "''amf-pdu-session-relay'' \<notin> set fs" for fs
    using that unfolding same_on_def list_all_iff by metis
  show ?thesis
  proof (cases "f = ''amf-initial-registration'' \<or> f = ''amf-pdu-session-relay''")
    case True
    have "amf_registration env kv ?s = amf_registration env kv ?t" for env kv
      by (rule registration_calls, rule same) simp_all
    moreover have "amf_pdu_session_relay kv ?s = amf_pdu_session_relay kv ?t" for kv
      by (rule relay_calls, rule same) simp_all
    ultimately show ?thesis using True by (intro ext) (auto simp: serve_def routes_def Let_def)
  next
    case False
    then have f: "f \<noteq> ''amf-initial-registration''" "f \<noteq> ''amf-pdu-session-relay''" by blast+
    show ?thesis unfolding numeral_2_eq_2 post_mid [OF f, of g "Suc n"] post_mid [OF f, of g "Suc 0"] ..
  qed
qed

text \<open>C34: calls between the functions end: however deep calls through the gateway may nest, no request to any of the
  functions nests them deeper than two, so every request has the result that \<open>gateway_handle\<close> gives it.\<close>

theorem gateway_call_depth: "serve g (Client_post (post g (n + 2))) f req = gateway_handle g f req"
  using serve_depth [of g n f] by (simp add: gateway_handle_def)

section \<open>Isolation of the stores\<close>

context reliable_store
begin

lemma redis_side_reliable: "reliable_store (redis_side kv) (view \<circ> fst)"
proof
  fix k j and s :: "'a \<times> 'b"
  note defs = redis_side_def on_fst_def apsnd_def map_prod_def split_beta
  show "fst (kv_Put (redis_side kv) k j s) = None" "fst (kv_Delete (redis_side kv) k s) = None"
    "fst (kv_Get (redis_side kv) k s) = (case (view \<circ> fst) s k of None \<Rightarrow> Inl (KeyNotFound k) | Some j \<Rightarrow> Inr j)"
    by (simp_all add: defs put_total del_total get_total)
qed (auto simp: redis_side_def on_fst_def apsnd_def map_prod_def split: prod.splits
    dest: put_ok put_err get_view get_ok get_missing del_ok del_err)

end

lemma etcd_side_quiet:
  "core_quiet (view \<circ> fst) (kvPut (nrf_kv (etcd_side ns)) k j)"
  "core_quiet (view \<circ> fst) (kvGet (nrf_kv (etcd_side ns)) k dec zero)"
  "core_quiet (view \<circ> fst) (kvGetByPrefix (etcd_side ns) p)"
  by (simp_all add: preserves_def wp_def kvPut_def kvGet_def kv_get_as_def kvGetByPrefix_def etcd_side_def on_snd_def
      core_state_def smf_state_def split_beta split: sum.splits)

lemma nrf_quiet:
  "core_quiet (view \<circ> fst) (nrf_register (nrf_kv (etcd_side ns)) req)"
  "core_quiet (view \<circ> fst) (nrf_status_notify (nrf_kv (etcd_side ns)) req)"
  "core_quiet (view \<circ> fst) (nrf_discover (etcd_side ns) req)"
  unfolding nrf_register_def nrf_status_notify_def nrf_discover_def
  by (intro pres etcd_side_quiet)+

section \<open>UE contexts\<close>

lemma routes_keep:
  assumes "reliable_store (gw_redis g) view" "\<And>f p. keeps (view \<circ> fst) ue_store_ok (sbi f p)"
  shows "list_all (\<lambda>(f, h). keeps (view \<circ> fst) ue_store_ok (h req)) (routes g sbi)"
proof -
  have kv: "kv_store (redis_side (gw_redis g)) (view \<circ> fst)"
    using reliable_store.redis_side_reliable [OF assms(1)] by (rule reliable_store.axioms(1))
  note quiet = kv_store.subscriber_quiet [OF kv] kv_store.slices_quiet [OF kv] kv_store.policy_quiet [OF kv]
    kv_store.charging_quiet [OF kv] kv_store.nwdaf_quiet [OF kv] nrf_quiet
  note keep = kv_store.amf_registration_keeps [OF kv assms(2)] kv_store.amf_deregistration_keeps [OF kv assms(2)]
    kv_store.amf_service_request_keeps [OF kv] kv_store.amf_handover_keeps [OF kv] kv_store.amf_auth_initiate_keeps [OF kv assms(2)]
    kv_store.amf_pdu_session_relay_keeps [OF kv assms(2)] kv_store.smf_keeps [OF kv assms(2)]
  show ?thesis
    by (simp add: routes_def Let_def keep quiet [THEN core_quiet_keeps])
qed

lemma serve_keeps:
  assumes "reliable_store (gw_redis g) view" "\<And>f p. keeps (view \<circ> fst) ue_store_ok (sbi f p)"
  shows "keeps (view \<circ> fst) ue_store_ok (serve g sbi f req)"
proof -
  have "keeps (view \<circ> fst) ue_store_ok (h req)" if "map_of (routes g sbi) f = Some h" for h
    using routes_keep [where sbi = sbi and req = req, OF assms] map_of_SomeD [OF that] by (auto simp: list_all_iff)
  then show ?thesis unfolding serve_def by (intro keep)
qed

lemma Client_post_keeps: "keeps view I (post' f p) \<Longrightarrow> keeps view I (Client_post post' f p)"
  unfolding Client_post_def by (intro keep)

lemma post_keeps:
  assumes "reliable_store (gw_redis g) view"
  shows "keeps (view \<circ> fst) ue_store_ok (post g n f p)"
proof (induction n arbitrary: f p)
  case (Suc n)
  then show ?case unfolding post.simps by (intro serve_keeps [OF assms] Client_post_keeps)
qed (simp add: keep)

section \<open>Sessions\<close>

lemma serve_quiet:
  assumes "reliable_store (gw_redis g) view" "\<And>f p. amf_peer f \<Longrightarrow> smf_quiet (view \<circ> fst) (sbi f p)"
    and "f \<notin> {''smf-pdu-session-create'', ''smf-pdu-session-update'', ''smf-pdu-session-release'', ''amf-pdu-session-relay''}"
  shows "smf_quiet (view \<circ> fst) (serve g sbi f req)"
proof -
  have kv: "kv_store (redis_side (gw_redis g)) (view \<circ> fst)"
    using reliable_store.redis_side_reliable [OF assms(1)] by (rule reliable_store.axioms(1))
  note quiet = kv_store.subscriber_quiet [OF kv] kv_store.slices_quiet [OF kv] kv_store.policy_quiet [OF kv]
    kv_store.charging_quiet [OF kv] kv_store.nwdaf_quiet [OF kv] nrf_quiet
  note amf = kv_store.amf_calling_quiet [OF kv assms(2)] kv_store.amf_quiet [OF kv]
  have n4: "smf_quiet (view \<circ> fst) (smf_n4_session_setup None req)"
    unfolding smf_n4_session_setup_def option.case by (intro pres)
  have "list_all (\<lambda>(f, h). f \<in> {''smf-pdu-session-create'', ''smf-pdu-session-update'', ''smf-pdu-session-release'', ''amf-pdu-session-relay''} \<or>
      smf_quiet (view \<circ> fst) (h req)) (routes g sbi)"
    by (simp add: routes_def Let_def amf n4 quiet [THEN core_quiet_smf])
  then have "smf_quiet (view \<circ> fst) (h req)" if "map_of (routes g sbi) f = Some h" for h
    using map_of_SomeD [OF that] assms(3) by (auto simp: list_all_iff)
  then show ?thesis unfolding serve_def by (intro pres)
qed

lemma Client_post_quiet: "preserves h (post' f p) \<Longrightarrow> preserves h (Client_post post' f p)"
  unfolding Client_post_def by (intro pres)

lemma post_quiet:
  assumes "reliable_store (gw_redis g) view" "amf_peer f \<or> smf_peer f"
  shows "smf_quiet (view \<circ> fst) (post g n f p)"
  using assms(2)
proof (induction n arbitrary: f p)
  case (Suc n)
  then show ?case
    unfolding post.simps by (intro serve_quiet [OF assms(1)] Client_post_quiet Suc.IH) (auto simp: amf_peer_def smf_peer_def)
qed (simp add: pres)

lemma gateway_smf_env:
  assumes "reliable_store (gw_redis g) view"
  shows "smf_env (redis_side (gw_redis g)) (view \<circ> fst) (Some (Client_post (post g n))) None None None"
proof (intro smf_env.intro smf_env_axioms.intro)
  show "reliable_store (redis_side (gw_redis g)) (view \<circ> fst)"
    by (rule reliable_store.redis_side_reliable [OF assms])
  fix sbi f p
  assume "Some (Client_post (post g n)) = Some sbi" "smf_peer f"
  then show "smf_quiet (view \<circ> fst) (sbi f p)"
    using post_quiet [OF assms, of f n p] by (auto intro: Client_post_quiet)
qed simp_all

text \<open>The SMF's invariant survives every request, through whatever function it comes.\<close>

lemma serve_create_inv:
  assumes "reliable_store (gw_redis g) view" "smf_inv (view \<circ> fst) w" "w_seidCounter w \<noteq> - 1"
  shows "wp (serve g (Client_post (post g n)) ''smf-pdu-session-create'' req) (\<lambda>_. smf_inv (view \<circ> fst)) w"
proof -
  have "wp (smf_pdu_session_create (gw_env g) (redis_side (gw_redis g)) (Some (Client_post (post g n))) None req)
      (\<lambda>_. smf_inv (view \<circ> fst)) w"
    unfolding wp_def split_beta
    by (rule smf_env.create_inv [OF gateway_smf_env [OF assms(1)] assms(2,3) prod.collapse [symmetric]])
  then show ?thesis by (simp add: serve_def routes_def Let_def wp)
qed

lemma serve_relay_inv:
  fixes w :: "('r \<times> 'e) world"
  assumes "reliable_store (gw_redis g) view" "smf_inv (view \<circ> fst) w" "w_seidCounter w \<noteq> - 1"
  shows "wp (serve g (Client_post (post g n)) ''amf-pdu-session-relay'' req) (\<lambda>_. smf_inv (view \<circ> fst)) w"
proof -
  have kv: "kv_store (redis_side (gw_redis g)) (view \<circ> fst)"
    using reliable_store.redis_side_reliable [OF assms(1)] by (rule reliable_store.axioms(1))
  have call: "wp (post g n ''smf-pdu-session-create'' p) (\<lambda>_. smf_inv (view \<circ> fst)) w'"
    if "smf_state (view \<circ> fst) w' = smf_state (view \<circ> fst) w" for w' :: "('r \<times> 'e) world" and p
    using that assms serve_create_inv [OF assms(1), of w'] smf_inv_state [OF that] smf_stateD(2) [OF that]
    by (cases n) (simp_all add: wp)
  have get: "smf_quiet (view \<circ> fst) (get_ue (redis_side (gw_redis g)) supi)" for supi
    unfolding get_ue_def by (intro kv_store.smf_quiet_get [OF kv])
  have inv: "smf_inv (view \<circ> fst) w'" if "smf_state (view \<circ> fst) w' = smf_state (view \<circ> fst) w" for w' :: "('r \<times> 'e) world"
    using assms(2) smf_inv_state [OF that] by simp
  have "wp (amf_pdu_session_relay (redis_side (gw_redis g)) (Client_post (post g n)) req) (\<lambda>_. smf_inv (view \<circ> fst)) w"
    using assms(2)
    by (auto simp: amf_pdu_session_relay_def wp inv split: option.splits sum.splits
        intro!: wp_preserves [OF get] wp_mono [OF call])
  then show ?thesis by (simp add: serve_def routes_def Let_def wp)
qed

lemma serve_smf_inv:
  assumes r: "reliable_store (gw_redis g) view" and inv: "smf_inv (view \<circ> fst) w" "w_seidCounter w \<noteq> - 1"
  shows "wp (serve g (Client_post (post g n)) f req) (\<lambda>_. smf_inv (view \<circ> fst)) w"
proof -
  note env = gateway_smf_env [OF r, of n]
  consider "f = ''smf-pdu-session-create''" | "f = ''amf-pdu-session-relay''" | "f = ''smf-pdu-session-update''"
    | "f = ''smf-pdu-session-release''"
    | "f \<notin> {''smf-pdu-session-create'', ''smf-pdu-session-update'', ''smf-pdu-session-release'', ''amf-pdu-session-relay''}"
    by blast
  then show ?thesis
  proof cases
    case 3
    have "wp (smf_pdu_session_update (redis_side (gw_redis g)) None req) (\<lambda>_. smf_inv (view \<circ> fst)) w"
      by (rule wp_mono [OF smf_env.smf_pdu_session_update_spec [OF env]]) (rule update_post_inv [OF inv(1)])
    with 3 show ?thesis by (simp add: serve_def routes_def Let_def wp)
  next
    case 4
    have "wp (smf_pdu_session_release (gw_env g) (redis_side (gw_redis g)) (Some (Client_post (post g n))) None req)
        (\<lambda>_. smf_inv (view \<circ> fst)) w"
      by (rule wp_mono [OF smf_env.smf_pdu_session_release_spec [OF env]]) (rule release_post_inv [OF inv(1)])
    with 4 show ?thesis by (simp add: serve_def routes_def Let_def wp)
  next
    case 5
    show ?thesis
      by (rule wp_preserves [OF serve_quiet [OF r _ 5]])
        (use inv(1) smf_inv_state in \<open>auto intro!: Client_post_quiet post_quiet [OF r]\<close>)
  qed (use serve_create_inv [OF assms] serve_relay_inv [OF assms] in simp_all)
qed

section \<open>Runs of the system\<close>

text \<open>
  The worlds that sequences of requests to any of the functions lead to, from a Redis store without
  UE contexts, sessions and allocated addresses, as long as the 64-bit session counter has not run out.
\<close>

inductive gw_reach :: "('r, 'e, 'f) gateway \<Rightarrow> ('r \<Rightarrow> string \<rightharpoonup> json) \<Rightarrow> ('r \<times> 'e) world \<Rightarrow> bool" for g view where
  start: "(\<And>k. core_key k \<Longrightarrow> view (fst (w_store w)) k = None) \<Longrightarrow> pool_ok w \<Longrightarrow> gw_reach g view w"
| request: "gw_reach g view w \<Longrightarrow> w_seidCounter w \<noteq> - 1 \<Longrightarrow> run_state (gateway_handle g f req) w = (r, w') \<Longrightarrow>
    gw_reach g view w'"

inductive_cases gw_reachE: "gw_reach g view w"

lemma core_keys [simp]: "core_key (ue_key supi)" "core_key (session_key i)" "core_key (ip_key ip)"
  by (auto simp: core_key_def)

lemma gw_reach_inv:
  assumes "reliable_store (gw_redis g) view" "gw_reach g view w"
  shows "smf_inv (view \<circ> fst) w \<and> ue_store_ok (view (fst (w_store w)))"
  using assms(2)
proof induction
  case (start w)
  have "sessions_ok (view (fst (w_store w))) c" for c
    by (rule sessions_okI) (simp_all add: start session_at_def)
  with start show ?case by (simp add: smf_inv_def ue_store_ok_def)
next
  case (request w f req r w')
  have "smf_inv (view \<circ> fst) w'"
    using wpD [OF serve_smf_inv [OF assms(1)]] request unfolding gateway_handle_def by blast
  moreover have "ue_store_ok (view (fst (w_store w')))"
    using serve_keeps [where sbi = "Client_post (post g 2)" and f = f and req = req, OF assms(1) Client_post_keeps [OF post_keeps [OF assms(1)]]]
      request by (auto simp: gateway_handle_def keeps_def dest: wpD)
  ultimately show ?case ..
qed

text \<open>C1: over a Redis store that does not fail, in every state that any sequence of requests to any of the functions of the system leads to, no two PDU
  sessions have the same UE address, the address of every session is recorded as allocated, and every
  stored UE context is the context of a registered UE under its own SUPI.\<close>

theorem gateway_invariant:
  assumes "reliable_store (gw_redis g) view" "gw_reach g view w"
  defines "s \<equiv> view (fst (w_store w))"
  shows "(\<forall>i i' x y. session_at s i = Some x \<and> session_at s i' = Some y \<and> pdu_UEAddress x = pdu_UEAddress y \<longrightarrow> i = i') \<and>
    (\<forall>i x. session_at s i = Some x \<longrightarrow> \<not> ip_free s (pdu_UEAddress x)) \<and>
    (\<forall>supi j. s (ue_key supi) = Some j \<longrightarrow>
       (\<exists>ctx. unmarshal_UEContext j UEContext_zero = Some ctx \<and> ue_SUPI ctx = supi \<and> ue_RegistrationState ctx = ''REGISTERED''))"
proof -
  have ok: "sessions_ok s (unat (w_seidCounter w))" and ue: "ue_store_ok s"
    using gw_reach_inv [OF assms(1,2)] by (simp_all add: smf_inv_def s_def)
  show ?thesis
    using sessions_okD(3) [OF ok] free_not_used [OF ok] ue unfolding ue_store_ok_def attached_def by blast
qed

definition sample_gateway :: "(string \<rightharpoonup> json, (string \<times> json) list, int) gateway" where
  "sample_gateway = \<lparr>gw_env = all_on, gw_aka = sample_lib, gw_float = int_float, gw_redis = RedisStore mem_redis,
     gw_etcd = EtcdNRFStore mem_etcd\<rparr>"

lemma sample_gateway_reliable: "reliable_store (gw_redis sample_gateway) (\<lambda>m. m)"
  using mock.reliable_store_axioms by (simp add: sample_gateway_def RedisStore_mem_redis)

theorem gateway_invariant_witness:
  "\<not> (\<exists>i i' x y. i \<noteq> i' \<and>
      session_at (fst (w_store (snd (run_state (gateway_handle sample_gateway ''smf-pdu-session-create'' (create_req ''imsi-1''))
        (world_init (Map.empty, [])))))) i = Some x \<and>
      session_at (fst (w_store (snd (run_state (gateway_handle sample_gateway ''smf-pdu-session-create'' (create_req ''imsi-1''))
        (world_init (Map.empty, [])))))) i' = Some y \<and> pdu_UEAddress x = pdu_UEAddress y)"
proof -
  have "gw_reach sample_gateway (\<lambda>m. m) (world_init (Map.empty, []))"
    by (rule gw_reach.start) (simp_all add: world_init_def pool_ok_def)
  from gw_reach.request [OF this _ prod.collapse [symmetric]]
  have "gw_reach sample_gateway (\<lambda>m. m) (snd (run_state (gateway_handle sample_gateway ''smf-pdu-session-create'' (create_req ''imsi-1''))
        (world_init (Map.empty, []))))" by (simp add: world_init_def)
  from gateway_invariant [OF sample_gateway_reliable this] show ?thesis by blast
qed

section \<open>Admission control\<close>

text \<open>The answers of the NSACF: a refusal has a status of 400 or above.\<close>

definition admits_or_fails :: "response \<Rightarrow> bool" where
  "admits_or_fails r \<longleftrightarrow> 400 \<le> rs_StatusCode r \<or>
     (\<exists>x. acp_Allowed x \<and> r = json_resp 200 (marshal_AvailabilityCheckResponse x))"

lemma admits_or_fails_simps [simp]:
  "400 \<le> n \<Longrightarrow> admits_or_fails (errorResp n t)"
  "acp_Allowed x \<Longrightarrow> admits_or_fails (json_resp 200 (marshal_AvailabilityCheckResponse x))"
  "admits_or_fails (json_resp 403 j)"
  by (auto simp: admits_or_fails_def)

lemma nsacf_check_answers: "wp (nsacf_slice_availability_check env kv req) (\<lambda>r _. admits_or_fails r) w"
  unfolding nsacf_slice_availability_check_def
  by (auto simp: wp Let_def split: option.splits prod.splits sum.splits intro!: wp_any)

text \<open>What the SBI client makes of such an answer: an error or a permission, never a refusal.\<close>

lemma dec_allowed_answer: "dec_allowed (marshal_AvailabilityCheckResponse x) False = Some (acp_Allowed x)"
  by (simp add: dec_allowed_def marshal_AvailabilityCheckResponse_def fld_def dec_members_append omitempty_def)

lemma wrapHandler_status [simp]: "rs_StatusCode r \<noteq> 0 \<Longrightarrow> wrapHandler r = Inr r"
  by (auto simp: wrapHandler_def)

definition not_refused :: "goerr option \<times> bool \<Rightarrow> bool" where
  "not_refused r \<longleftrightarrow> fst r \<noteq> None \<or> snd r"

lemma admits_or_fails_call:
  "admits_or_fails r \<Longrightarrow> not_refused (decode_result dec_allowed False (check_status f (wrapHandler r)))"
  by (auto simp: admits_or_fails_def check_status_error dec_allowed_answer not_refused_def)

lemma check_call:
  "wp (CallFunction (Client_post (post g n)) ''nsacf-slice-availability-check'' p dec_allowed False) (\<lambda>r _. not_refused r) w"
proof (cases n)
  case (Suc m)
  have "wp (serve g sbi ''nsacf-slice-availability-check'' req)
      (\<lambda>r _. not_refused (decode_result dec_allowed False (check_status f r))) w" for sbi req f
    by (simp add: serve_def routes_def Let_def wp) (rule wp_mono [OF nsacf_check_answers], rule admits_or_fails_call)
  with Suc show ?thesis by (simp add: wp)
qed (simp add: wp check_status_def not_refused_def)

lemma reg_admission_passes:
  "wp (reg_admission env (Client_post (post g n)) slices) (\<lambda>r _. r = None) (w :: ('r \<times> 'e) world)"
proof -
  have check: "wp (reg_check (Client_post (post g n)) s) (\<lambda>r _. r = None) w" for s w
    unfolding reg_check_def wp_basic by (rule wp_mono [OF check_call]) (auto simp: wp not_refused_def)
  have loop: "wp (forEach ss body) (\<lambda>r _. r = None) w"
    if "\<And>s w. wp (body s) (\<lambda>r _. r = None) w" for ss body and w :: "('r \<times> 'e) world"
    by (induction ss arbitrary: w) (auto simp: wp intro!: wp_mono [OF that])
  have count: "wp (reg_count sbi op s) (\<lambda>r _. r = None) w" for sbi op s and w :: "('r \<times> 'e) world"
    by (auto simp: reg_count_def wp intro!: wp_any)
  show ?thesis
    unfolding reg_admission_def by (auto simp: wp intro!: wp_mono [OF loop [OF check]] wp_mono [OF loop [OF count]])
qed

lemma sm_refused_passes: "wp (sm_refused env (Some (Client_post (post g n))) snssai) (\<lambda>r _. \<not> r) w"
proof (cases "nsacf_enabled env")
  case True
  show ?thesis
    unfolding sm_refused_def option.case if_P [OF True] wp_basic
    by (rule wp_mono [OF check_call]) (auto simp: wp not_refused_def)
qed (simp add: sm_refused_def wp)

text \<open>C35: a refusal of the NSACF is never enforced: whatever limits and counters the NSACF holds, the admission step of
  the AMF's registration lets every slice pass and the SMF's session creation is never refused, since the
  refusal's status 403 reaches them as a failed call, which they ignore.\<close>

theorem admission_never_enforced:
  "fst (run_state (reg_admission env (Client_post (post g n)) slices) w) = None \<and>
   \<not> fst (run_state (sm_refused env (Some (Client_post (post g n))) snssai) w)"
  using reg_admission_passes [of env g n slices w] sm_refused_passes [of env g n snssai w] by (simp add: wp_def split_beta)

end
