(* ===== verification/Attach.thy ===== *)
theory Attach
  imports Gateway
begin

text \<open>
  The attach of a UE through the whole system: the AMF's registration calls its own authentication
  function, which calls the UDM, then the AUSF, then the UDM again, each through the gateway.
\<close>

section \<open>Attach\<close>

context reliable_store
begin

lemma udm_generate_succeeds:
  assumes "view (w_store w) (sub_key supi) = Some (marshal_SubscriberData sub)" "sub_AuthenticationData sub = Some ad"
    and "unmarshal_body unmarshal_AuthDataRequest AuthDataRequest_zero (rq_Body req) = Some authReq" "adr_SUPI authReq = supi" "supi \<noteq> []"
    and "GenerateAuthVector lib (w_rand w (w_draws w)) (ad_PermanentKey ad) (ad_OPc ad) (advanceSQN (ad_SQN ad)) (ad_AMF ad)
      (effective_snn authReq) = Ok av"
  shows "wp (udm_generate_auth_data lib kv req) (\<lambda>r w'. r = json_resp 200 (marshal_AuthDataResponse (challenge ad av)) \<and>
     view (w_store w') = (view (w_store w))(sub_key supi \<mapsto> marshal_SubscriberData
        (sub\<lparr>sub_AuthenticationData := Some (ad\<lparr>ad_SQN := advanceSQN (ad_SQN ad)\<rparr>)\<rparr>), av_key supi \<mapsto> marshal_AuthVector av)) w"
  using assms by (auto simp: udm_generate_auth_data_def wp Let_def intro!: wp_kvGet_reliable wp_kvPut_reliable)

lemma ausf_accepts:
  assumes "view (w_store w) (av_key supi) = Some (marshal_AuthVector av)" "supi \<noteq> []" "av_XRES av \<noteq> []"
    and "unmarshal_body unmarshal_AuthRequest AuthRequest_zero (rq_Body req) = Some \<lparr>arq_SUPI = supi, arq_RESstar = hex_encode (av_XRES av)\<rparr>"
  shows "wp (ausf_authenticate kv req) (\<lambda>r w'. r = json_resp 200 (marshal_AuthResponse
       \<lparr>arp_AuthResult = ''SUCCESS'', arp_SUPI = supi, arp_KAUSF = hex_encode (av_KAUSF av)\<rparr>) \<and>
     view (w_store w') = (view (w_store w))(av_key supi := None)) w"
  using assms
  by (auto simp: ausf_authenticate_def wp ConstantTimeCompare_def intro!: wp_kvGet_reliable wp_kvDelete_reliable)

lemma udm_get_succeeds:
  assumes "view (w_store w) (sub_key supi) = Some (marshal_SubscriberData sub)" "extractSUPI req = supi" "supi \<noteq> []"
  shows "wp (udm_get_subscriber_data kv req) (\<lambda>r w'. r = json_resp 200 (marshal_SubscriberDataResponse
       \<lparr>sdr_SUPI = sub_SUPI sub, sdr_AccessAndMobility = sub_AccessAndMobility sub, sdr_SessionManagement = sub_SessionManagement sub\<rparr>)) w"
  using assms by (auto simp: udm_get_subscriber_data_def wp Let_def intro!: wp_kvGet_reliable)

end

text \<open>A subscriber whose vector the library can compute from the next random draw.\<close>

definition provisioned ::
  "('r, 'e, 'f) gateway \<Rightarrow> ('r \<Rightarrow> string \<rightharpoonup> json) \<Rightarrow> ('r \<times> 'e) world \<Rightarrow> string \<Rightarrow> SubscriberData \<Rightarrow> AuthVector \<Rightarrow> bool" where
  "provisioned g view w supi sub av \<longleftrightarrow> supi \<noteq> [] \<and>
     view (fst (w_store w)) (sub_key supi) = Some (marshal_SubscriberData sub) \<and>
     (\<exists>ad. sub_AuthenticationData sub = Some ad \<and>
        GenerateAuthVector (gw_aka g) (w_rand w (w_draws w)) (ad_PermanentKey ad) (ad_OPc ad) (advanceSQN (ad_SQN ad)) (ad_AMF ad)
          default_snn = Ok av)"

text \<open>The subscription as the store holds it once the sequence number was advanced.\<close>

definition same_subscription :: "SubscriberData \<Rightarrow> SubscriberData \<Rightarrow> bool" where
  "same_subscription sub sub' \<longleftrightarrow> sub_SUPI sub' = sub_SUPI sub \<and> sub_AccessAndMobility sub' = sub_AccessAndMobility sub \<and>
     sub_SessionManagement sub' = sub_SessionManagement sub"

definition subscribed :: "string \<Rightarrow> SubscriberData \<Rightarrow> (string \<rightharpoonup> json) \<Rightarrow> bool" where
  "subscribed supi sub m \<longleftrightarrow> (\<exists>sub'. same_subscription sub sub' \<and> m (sub_key supi) = Some (marshal_SubscriberData sub'))"

definition challenged :: "string \<Rightarrow> SubscriberData \<Rightarrow> AuthVector \<Rightarrow> (string \<rightharpoonup> json) \<Rightarrow> bool" where
  "challenged supi sub av m \<longleftrightarrow> subscribed supi sub m \<and> m (av_key supi) = Some (marshal_AuthVector av)"

lemma challenged_put:
  "same_subscription sub sub' \<Longrightarrow>
   challenged supi sub av (m(sub_key supi \<mapsto> marshal_SubscriberData sub', av_key supi \<mapsto> marshal_AuthVector av))"
  by (auto simp: challenged_def subscribed_def)

lemma challenged_other: "challenged supi sub av m \<Longrightarrow> k \<noteq> sub_key supi \<Longrightarrow> k \<noteq> av_key supi \<Longrightarrow> challenged supi sub av (m(k := v))"
  by (auto simp: challenged_def subscribed_def)

text \<open>The answer of the AMF that carries the challenge of a vector.\<close>

definition initiated :: "AuthVector \<Rightarrow> string + response \<Rightarrow> bool" where
  "initiated av r \<longleftrightarrow> (\<exists>x. r = Inr (json_resp 200 (marshal_AuthInitiateResponse x)) \<and>
     aip_RAND x = hex_encode (av_RAND av) \<and> aip_AUTN x = hex_encode (av_AUTN av))"

lemma initiated_json:
  "initiated av (Inr (json_resp 200 (marshal_AuthInitiateResponse
     \<lparr>aip_AuthType = t, aip_RAND = hex_encode (av_RAND av), aip_AUTN = hex_encode (av_AUTN av), aip_SUPI = supi\<rparr>)))"
  unfolding initiated_def
  by (rule exI [of _ "\<lparr>aip_AuthType = t, aip_RAND = hex_encode (av_RAND av), aip_AUTN = hex_encode (av_AUTN av), aip_SUPI = supi\<rparr>"]) simp

text \<open>What the AMF leaves for the front end while the challenge is out.\<close>

definition pending_doc :: "AuthVector \<Rightarrow> json" where
  "pending_doc av = JObj [(''kausf'', JStr (hex_encode (av_KAUSF av))), (''xres_star'', JStr (hex_encode (av_XRES av)))]"

lemma challenge_decoded:
  "unmarshal_udmAuthDataResponse (marshal_AuthDataResponse (challenge ad av)) udmAuthDataResponse_zero =
     Some \<lparr>uad_AuthType = ad_AuthMethod ad, uad_RAND = hex_encode (av_RAND av), uad_AUTN = hex_encode (av_AUTN av),
       uad_XRESstar = hex_encode (av_XRES av), uad_KAUSF = hex_encode (av_KAUSF av)\<rparr>"
  by (simp add: unmarshal_udmAuthDataResponse_def udmAuthDataResponse_fields_def udmAuthDataResponse_zero_def
      marshal_AuthDataResponse_def challenge_def json_codec)

lemma initiate_decoded: "\<exists>c. unmarshal_authChallenge (marshal_AuthInitiateResponse x) authChallenge_zero = Some c"
  by (simp add: unmarshal_authChallenge_def authChallenge_fields_def marshal_AuthInitiateResponse_def json_codec)

lemma pending_key [simp]: "CHR ''a'' # CHR ''u'' # CHR ''t'' # CHR ''h'' # CHR ''-'' # CHR ''p'' # k \<noteq> sub_key s"
  "CHR ''a'' # CHR ''u'' # CHR ''t'' # CHR ''h'' # CHR ''-'' # CHR ''p'' # k \<noteq> av_key s"
  by (simp_all add: sub_key_def av_key_def)

lemma wp_serve:
  "map_of (routes g sbi) f = Some h \<Longrightarrow> wp (serve g sbi f req) Q = wp (h req) (\<lambda>r. Q (wrapHandler r))"
  by (simp add: serve_def wp)

lemma routes_at:
  "map_of (routes g sbi) ''udm-generate-auth-data'' = Some (udm_generate_auth_data (gw_aka g) (redis_side (gw_redis g)))"
  "map_of (routes g sbi) ''udm-get-subscriber-data'' = Some (udm_get_subscriber_data (redis_side (gw_redis g)))"
  "map_of (routes g sbi) ''ausf-authenticate'' = Some (ausf_authenticate (redis_side (gw_redis g)))"
  "map_of (routes g sbi) ''amf-auth-initiate'' = Some (amf_auth_initiate (redis_side (gw_redis g)) sbi)"
  "map_of (routes g sbi) ''amf-initial-registration'' = Some (amf_registration (gw_env g) (redis_side (gw_redis g)) sbi)"
  "map_of (routes g sbi) ''udm-registration'' = None"
  by (simp_all add: routes_def Let_def)

lemmas wp_routes = wp_serve [OF routes_at(1)] wp_serve [OF routes_at(2)] wp_serve [OF routes_at(3)] wp_serve [OF routes_at(4)]
  wp_serve [OF routes_at(5)]

lemma post_udm:
  assumes r: "reliable_store (gw_redis g) view" and p: "provisioned g view w supi sub av"
  shows "wp (post g (Suc n) ''udm-generate-auth-data'' (JObj [(''serving_network_name'', JStr default_snn), (''supi'', JStr supi)]))
    (\<lambda>r w'. (\<exists>ad. r = Inr (json_resp 200 (marshal_AuthDataResponse (challenge ad av)))) \<and>
       challenged supi sub av ((view \<circ> fst) (w_store w'))) w"
proof -
  obtain ad where ad: "sub_AuthenticationData sub = Some ad"
    "GenerateAuthVector (gw_aka g) (w_rand w (w_draws w)) (ad_PermanentKey ad) (ad_OPc ad) (advanceSQN (ad_SQN ad)) (ad_AMF ad)
          default_snn = Ok av" using p by (auto simp: provisioned_def)
  let ?req = "\<lparr>rq_Body = Some (JObj [(''serving_network_name'', JStr default_snn), (''supi'', JStr supi)]), rq_QueryString = []\<rparr>"
  let ?a = "\<lparr>adr_SUPI = supi, adr_ServingNetworkName = default_snn\<rparr>"
  have d: "unmarshal_body unmarshal_AuthDataRequest AuthDataRequest_zero (rq_Body ?req) = Some ?a"
    by (simp add: unmarshal_AuthDataRequest_def AuthDataRequest_fields_def AuthDataRequest_zero_def json_codec)
  have s: "effective_snn ?a = default_snn" by (simp add: effective_snn_def)
  have "wp (udm_generate_auth_data (gw_aka g) (redis_side (gw_redis g)) ?req)
      (\<lambda>r w'. r = json_resp 200 (marshal_AuthDataResponse (challenge ad av)) \<and>
        (view \<circ> fst) (w_store w') = ((view \<circ> fst) (w_store w))(sub_key supi \<mapsto> marshal_SubscriberData
        (sub\<lparr>sub_AuthenticationData := Some (ad\<lparr>ad_SQN := advanceSQN (ad_SQN ad)\<rparr>)\<rparr>), av_key supi \<mapsto> marshal_AuthVector av)) w"
    by (rule reliable_store.udm_generate_succeeds [OF reliable_store.redis_side_reliable [OF r] _ ad(1) d])
      (use p ad s in \<open>simp_all add: provisioned_def\<close>)
  then show ?thesis
    unfolding post.simps wp_routes by (rule wp_mono) (auto simp: same_subscription_def intro!: challenged_put)
qed

lemma post_auth_initiate:
  assumes r: "reliable_store (gw_redis g) view" and p: "provisioned g view w supi sub av"
  shows "wp (post g (Suc (Suc n)) ''amf-auth-initiate'' (JObj [(''supi'', JStr supi)]))
    (\<lambda>r w'. initiated av r \<and> challenged supi sub av ((view \<circ> fst) (w_store w')) \<and>
       (av_XRES av \<noteq> [] \<longrightarrow> (view \<circ> fst) (w_store w') (''auth-pending:'' @ supi) = Some (pending_doc av))) w"
proof -
  let ?req = "\<lparr>rq_Body = Some (JObj [(''supi'', JStr supi)]), rq_QueryString = []\<rparr>"
  have d: "unmarshal_body unmarshal_AuthInitiateRequest AuthInitiateRequest_zero (rq_Body ?req) =
      Some \<lparr>aiq_SUPI = supi, aiq_ServingNetworkName = []\<rparr>"
    by (simp add: unmarshal_AuthInitiateRequest_def AuthInitiateRequest_fields_def AuthInitiateRequest_zero_def json_codec)
  note put = reliable_store.wp_kvPut_reliable [OF reliable_store.redis_side_reliable [OF r]]
  have supi: "supi \<noteq> []" using p by (simp add: provisioned_def)
  show ?thesis
    unfolding post.simps(2) [of g "Suc n"] wp_routes amf_auth_initiate_def d option.case
    by (simp add: supi wp del: post.simps) (rule wp_mono [OF post_udm [OF r p]],
        auto simp: challenge_decoded wp initiated_json pending_doc_def intro!: put challenged_other)
qed

lemma initiated_call: "initiated av r \<Longrightarrow> fst (decode_result unmarshal_authChallenge authChallenge_zero (check_status f r)) = None"
  unfolding initiated_def using initiate_decoded by (elim exE) (auto split: option.splits)

lemma post_ausf:
  assumes r: "reliable_store (gw_redis g) view" and "challenged supi sub av ((view \<circ> fst) (w_store w))" "supi \<noteq> []" "av_XRES av \<noteq> []"
  shows "wp (post g (Suc n) ''ausf-authenticate'' (JObj [(''res_star'', JStr (hex_encode (av_XRES av))), (''supi'', JStr supi)]))
    (\<lambda>r w'. r = Inr (json_resp 200 (marshal_AuthResponse
         \<lparr>arp_AuthResult = ''SUCCESS'', arp_SUPI = supi, arp_KAUSF = hex_encode (av_KAUSF av)\<rparr>)) \<and>
       subscribed supi sub ((view \<circ> fst) (w_store w'))) w"
proof -
  let ?req = "\<lparr>rq_Body = Some (JObj [(''res_star'', JStr (hex_encode (av_XRES av))), (''supi'', JStr supi)]), rq_QueryString = []\<rparr>"
  have d: "unmarshal_body unmarshal_AuthRequest AuthRequest_zero (rq_Body ?req) =
      Some \<lparr>arq_SUPI = supi, arq_RESstar = hex_encode (av_XRES av)\<rparr>"
    by (simp add: unmarshal_AuthRequest_def AuthRequest_fields_def AuthRequest_zero_def json_codec)
  have av: "(view \<circ> fst) (w_store w) (av_key supi) = Some (marshal_AuthVector av)" using assms(2) by (simp add: challenged_def)
  show ?thesis
    unfolding post.simps wp_routes
    by (rule wp_mono [OF reliable_store.ausf_accepts [OF reliable_store.redis_side_reliable [OF r] av assms(3,4) d]])
      (use assms(2) in \<open>auto simp: challenged_def subscribed_def\<close>)
qed

lemma auth_success_decoded:
  "unmarshal_authResponse (marshal_AuthResponse \<lparr>arp_AuthResult = a, arp_SUPI = supi, arp_KAUSF = k\<rparr>) authResponse_zero =
     Some \<lparr>arr_AuthResult = a, arr_SUPI = supi, arr_KAUSF = k\<rparr>"
  by (simp add: unmarshal_authResponse_def authResponse_fields_def authResponse_zero_def marshal_AuthResponse_def json_codec)

lemma reg_authenticate_succeeds:
  fixes w :: "('r \<times> 'e) world"
  assumes r: "reliable_store (gw_redis g) view" "aka_documented (gw_aka g)" and p: "provisioned g view w supi sub av"
  shows "wp (reg_authenticate (redis_side (gw_redis g)) (Client_post (post g 2)) supi)
    (\<lambda>a w'. a = Inr (av_KAUSF av) \<and>
       subscribed supi sub ((view \<circ> fst) (w_store w'))) w"
proof -
  have supi: "supi \<noteq> []" and x: "av_XRES av \<noteq> []"
    using p GenerateAuthVector_XRES [OF r(2)] by (force simp: provisioned_def)+
  note get = reliable_store.wp_kvGet_reliable [OF reliable_store.redis_side_reliable [OF r(1)]]
  have verify: "wp (post g 2 ''ausf-authenticate'' (JObj [(''res_star'', JStr (hex_encode (av_XRES av))), (''supi'', JStr supi)])) Q w1"
    if "challenged supi sub av ((view \<circ> fst) (w_store w1))"
      "\<And>w'. subscribed supi sub ((view \<circ> fst) (w_store w')) \<Longrightarrow>
        Q (Inr (json_resp 200 (marshal_AuthResponse
         \<lparr>arp_AuthResult = ''SUCCESS'', arp_SUPI = supi, arp_KAUSF = hex_encode (av_KAUSF av)\<rparr>))) w'" for Q w1
    unfolding numeral_2_eq_2 by (rule wp_mono [OF post_ausf [OF r(1) that(1) supi x]]) (use that(2) in auto)
  have init: "wp (post g 2 ''amf-auth-initiate'' (JObj [(''supi'', JStr supi)])) (\<lambda>r w'. initiated av r \<and>
       challenged supi sub av ((view \<circ> fst) (w_store w'))) w"
    unfolding numeral_2_eq_2 by (rule wp_mono [OF post_auth_initiate [OF r(1) p]]) blast
  have av: "view (fst (w_store w1)) (av_key supi) = Some (marshal_AuthVector av)"
    if "challenged supi sub av ((view \<circ> fst) (w_store w1))" for w1 :: "('r \<times> 'e) world"
    using that by (simp add: challenged_def)
  show ?thesis
    using av unfolding reg_authenticate_def
    by (auto simp: wp split_beta initiated_call auth_success_decoded intro!: wp_mono [OF init] get verify)
qed

definition delivers :: "SubscriberData \<Rightarrow> string + response \<Rightarrow> bool" where
  "delivers sub r \<longleftrightarrow> (\<exists>j s. r = Inr (json_resp 200 j) \<and> unmarshal_SubscriberData j SubscriberData_zero = Some s \<and>
     sub_AccessAndMobility s = sub_AccessAndMobility sub)"

lemma delivers_call:
  "delivers sub r \<Longrightarrow> fst (decode_result unmarshal_SubscriberData SubscriberData_zero (check_status f r)) = None \<and>
   sub_AccessAndMobility (snd (decode_result unmarshal_SubscriberData SubscriberData_zero (check_status f r))) = sub_AccessAndMobility sub"
  by (auto simp: delivers_def)

lemma subscription_decoded:
  "unmarshal_SubscriberData (marshal_SubscriberDataResponse x) SubscriberData_zero =
     Some \<lparr>sub_SUPI = sdr_SUPI x, sub_AuthenticationData = None, sub_AccessAndMobility = sdr_AccessAndMobility x,
       sub_SessionManagement = sdr_SessionManagement x\<rparr>"
  by (cases x) (simp add: unmarshal_SubscriberData_def SubscriberData_fields_def SubscriberData_zero_def marshal_SubscriberDataResponse_def
      json_codec dec_ptr_enc)

lemma post_get_subscriber:
  assumes r: "reliable_store (gw_redis g) view" and "subscribed supi sub ((view \<circ> fst) (w_store w))" "supi \<noteq> []"
  shows "wp (post g (Suc n) ''udm-get-subscriber-data'' (JObj [(''supi'', JStr supi)])) (\<lambda>r _. delivers sub r) w"
proof -
  obtain sub' where s: "same_subscription sub sub'" "(view \<circ> fst) (w_store w) (sub_key supi) = Some (marshal_SubscriberData sub')"
    using assms(2) by (auto simp: subscribed_def)
  have e: "extractSUPI \<lparr>rq_Body = Some (JObj [(''supi'', JStr supi)]), rq_QueryString = []\<rparr> = supi"
    by (simp add: extractSUPI_def query_param_def)
  show ?thesis
    unfolding post.simps wp_routes
    by (rule wp_mono [OF reliable_store.udm_get_succeeds [OF reliable_store.redis_side_reliable [OF r] s(2) e assms(3)]])
      (use s(1) in \<open>auto simp: delivers_def subscription_decoded same_subscription_def\<close>)
qed

lemma post_udm_registration: "wp (post g (Suc n) ''udm-registration'' p) Q = Q (Inr mux_not_found)"
  by (simp add: fun_eq_iff serve_def routes_at wp)

text \<open>The stored context of an attached UE, its slices and its key.\<close>

definition attached_ue :: "string \<Rightarrow> SNSSAI list \<Rightarrow> bytes \<Rightarrow> (string \<rightharpoonup> json) \<Rightarrow> bool" where
  "attached_ue supi slices key m \<longleftrightarrow> (\<exists>ctx sc. m (ue_key supi) = Some (marshal_UEContext ctx) \<and> attached supi ctx \<and>
     ue_AllowedNSSAI ctx = slices \<and> ue_SecurityCtx ctx = Some sc \<and> sc_KAMFKey sc = key)"

lemma attached_ue_put:
  "attached_ue (rgq_SUPI regReq) slices key (m(ue_key (rgq_SUPI regReq) \<mapsto>
     marshal_UEContext (new_ue_context regReq i key slices (registered_machine supi t1 t2) now)))"
  using new_ue_context_attached [of regReq i key slices supi t1 t2 now] by (auto simp: attached_ue_def new_ue_context_def)

definition subscribed_slices :: "SubscriberData \<Rightarrow> SNSSAI list" where
  "subscribed_slices sub = (case sub_AccessAndMobility sub of None \<Rightarrow> [] | Some am \<Rightarrow> am_NSSAI am)"

definition registered_resp :: "string \<Rightarrow> response \<Rightarrow> bool" where
  "registered_resp supi r \<longleftrightarrow> (\<exists>x. r = json_resp 200 (marshal_RegistrationResponse x) \<and> rgp_GUTI x = guti_of supi)"

lemma registered_respI: "rgp_GUTI x = guti_of supi \<Longrightarrow> registered_resp supi (json_resp 200 (marshal_RegistrationResponse x))"
  unfolding registered_resp_def by blast

lemma registered_resp_status: "registered_resp supi r \<Longrightarrow> rs_StatusCode r = 200"
  by (auto simp: registered_resp_def)

lemma reg_subscribe_succeeds:
  assumes r: "reliable_store (gw_redis g) view" and "subscribed supi sub ((view \<circ> fst) (w_store w))" "supi \<noteq> []" and supi: "supi = rgq_SUPI regReq"
  shows "wp (reg_subscribe env (redis_side (gw_redis g)) (Client_post (post g 2)) regReq i key)
    (\<lambda>r w'. registered_resp supi r \<and> attached_ue supi (subscribed_slices sub) key ((view \<circ> fst) (w_store w'))) w"
proof -
  note put = reliable_store.wp_kvPut_reliable [OF reliable_store.redis_side_reliable [OF r]]
  have get: "wp (post g 2 ''udm-get-subscriber-data'' (JObj [(''supi'', JStr supi)])) (\<lambda>r _. delivers sub r) w"
    unfolding numeral_2_eq_2 by (rule post_get_subscriber [OF assms(1-3)])
  have reg: "wp (post g 2 ''udm-registration'' p) Q = Q (Inr mux_not_found)" for p Q
    unfolding numeral_2_eq_2 by (rule post_udm_registration)
  show ?thesis
    using get unfolding supi reg_subscribe_def reg_accept_def put_ue_def
    by (auto simp: wp split_beta delivers_call reg Let_def registered_respI subscribed_slices_def [symmetric]
        elim!: wp_mono intro!: wp_mono [OF reg_admission_passes] put attached_ue_put)
qed

text \<open>C2: a provisioned UE can attach: when a subscriber is stored and its authentication vector can be computed, an
  initial registration through the system, which runs 5G-AKA between the AMF, the UDM and the AUSF and reads the
  subscription from the UDM, is answered with 200 and leaves the UE's context registered and connected, with the
  subscribed slices as the allowed ones and with the key of the authentication.\<close>

theorem provisioned_ue_attaches:
  assumes "reliable_store (gw_redis g) view" "aka_documented (gw_aka g)" "provisioned g view w (rgq_SUPI regReq) sub av"
    and "unmarshal_body unmarshal_amf_RegistrationRequest amf_RegistrationRequest_zero (rq_Body req) = Some regReq" "\<not> rgq_SkipAuth regReq"
  shows "wp (gateway_handle g ''amf-initial-registration'' req) (\<lambda>r w'. (\<exists>resp. r = Inr resp \<and> rs_StatusCode resp = 200) \<and>
    attached_ue (rgq_SUPI regReq) (subscribed_slices sub) (av_KAUSF av) (view (fst (w_store w')))) w"
proof -
  have p: "provisioned g view (w\<lparr>w_amfUeNgapIDCounter := i\<rparr>) (rgq_SUPI regReq) sub av" for i
    using assms(3) by (simp add: provisioned_def)
  have supi: "rgq_SUPI regReq \<noteq> []" using assms(3) by (simp add: provisioned_def)
  note auth = wp_mono [OF reg_authenticate_succeeds [OF assms(1,2) p]]
  note sub = wp_mono [OF reg_subscribe_succeeds [OF assms(1)]]
  have "wp (amf_registration (gw_env g) (redis_side (gw_redis g)) (Client_post (post g 2)) req)
      (\<lambda>r w'. rs_StatusCode r = 200 \<and> attached_ue (rgq_SUPI regReq) (subscribed_slices sub) (av_KAUSF av) ((view \<circ> fst) (w_store w'))) w"
    using assms(5) supi unfolding amf_registration_def assms(4) option.case
    by (auto simp: wp Let_def registered_resp_status intro!: auth sub)
  then show ?thesis unfolding gateway_handle_def wp_routes by (rule wp_mono) auto
qed

definition attach_world :: "((string \<rightharpoonup> json) \<times> (string \<times> json) list) world" where
  "attach_world = world_init ([sub_key ''imsi-1'' \<mapsto> marshal_SubscriberData sample_sub], [])"

theorem provisioned_ue_attaches_witness:
  "\<exists>av :: AuthVector. wp (gateway_handle sample_gateway ''amf-initial-registration'' (reg_req False))
     (\<lambda>r w'. (\<exists>resp. r = Inr resp \<and> rs_StatusCode resp = 200) \<and> attached_ue ''imsi-1'' [] (av_KAUSF av) (fst (w_store w'))) attach_world"
proof -
  obtain av where av: "GenerateAuthVector sample_lib (Some (replicate 16 0)) (ad_PermanentKey sample_auth)
      (ad_OPc sample_auth) (advanceSQN (ad_SQN sample_auth)) (ad_AMF sample_auth) default_snn = Ok av"
    using sample_vector by blast
  have "provisioned sample_gateway (\<lambda>m. m) attach_world ''imsi-1'' sample_sub av"
    using av by (simp add: provisioned_def attach_world_def world_init_def sample_gateway_def sample_sub_def)
  then show ?thesis
    using provisioned_ue_attaches [OF sample_gateway_reliable _ _ reg_req_decodes [of False], of attach_world sample_sub av]
      sample_lib_documented
    by - (rule exI [of _ av], simp add: sample_gateway_def subscribed_slices_def sample_sub_def)
qed

end
