(* ===== verification/Ngap.thy ===== *)
theory Ngap
  imports Nas Crypto
begin

text \<open>
  The NGAP codec \<^verbatim>\<open>pkg/ngap/decoder.go\<close>.  The APER coding itself is the library \<^verbatim>\<open>free5gc/ngap\<close>, a parameter
  (\<open>ngap_lib\<close>); the types below are those of its package \<open>ngapType\<close> with the members that the program reads or
  writes.  A CHOICE of the library is a struct with a tag \<open>Present\<close> and one pointer per alternative, and a record
  here; the tags and the other constants are known by name only, \<open>\<dots>_other\<close> being any further value.
\<close>

section \<open>Types of the library\<close>

datatype ProcedureCode =
    ProcedureCodeNGSetup
  | ProcedureCodeInitialUEMessage
  | ProcedureCodeUplinkNASTransport
  | ProcedureCodeDownlinkNASTransport
  | ProcedureCodeInitialContextSetup
  | ProcedureCode_other int64

datatype ProtocolIEID =
    ProtocolIEIDAMFName
  | ProtocolIEIDServedGUAMIList
  | ProtocolIEIDRelativeAMFCapacity
  | ProtocolIEIDPLMNSupportList
  | ProtocolIEIDAMFUENGAPID
  | ProtocolIEIDRANUENGAPID
  | ProtocolIEIDNASPDU
  | ProtocolIEIDGUAMI
  | ProtocolIEIDAllowedNSSAI
  | ProtocolIEIDUESecurityCapabilities
  | ProtocolIEIDSecurityKey
  | ProtocolIEID_other int64

datatype Criticality = CriticalityPresentReject | CriticalityPresentIgnore | CriticalityPresentNotify

text \<open>A member of a list of protocol IEs.\<close>

record 'v ProtocolIE =
  ie_Id :: ProtocolIEID
  ie_Criticality :: Criticality
  ie_Value :: 'v

record BitString =
  bs_Bytes :: bytes
  bs_BitLength :: uint64

record GUAMI =
  gu_PLMNIdentity :: bytes
  gu_AMFRegionID :: BitString
  gu_AMFSetID :: BitString
  gu_AMFPointer :: BitString

text \<open>\<open>ngapType.SNSSAI\<close>, with an optional SD.\<close>

record ngap_SNSSAI =
  sn_SST :: bytes
  sn_SD :: "bytes option"

record PLMNSupportItem =
  ps_PLMNIdentity :: bytes
  ps_SliceSupportList :: "ngap_SNSSAI list"

record UESecurityCapabilities =
  us_NRencryptionAlgorithms :: BitString
  us_NRintegrityProtectionAlgorithms :: BitString
  us_EUTRAencryptionAlgorithms :: BitString
  us_EUTRAintegrityProtectionAlgorithms :: BitString

datatype InitialUEMessageIEsPresent =
    InitialUEMessageIEsPresentRANUENGAPID
  | InitialUEMessageIEsPresentNASPDU
  | InitialUEMessageIEsPresent_other int64

record InitialUEMessageIEsValue =
  iu_Present :: InitialUEMessageIEsPresent
  iu_RANUENGAPID :: "int64 option"
  iu_NASPDU :: "bytes option"

text \<open>The IEs of an uplink and of a downlink NAS transport have the same members of interest.\<close>

datatype NASTransportIEsPresent =
    NASTransportIEsPresentAMFUENGAPID
  | NASTransportIEsPresentRANUENGAPID
  | NASTransportIEsPresentNASPDU
  | NASTransportIEsPresent_other int64

record NASTransportIEsValue =
  nt_Present :: NASTransportIEsPresent
  nt_AMFUENGAPID :: "int64 option"
  nt_RANUENGAPID :: "int64 option"
  nt_NASPDU :: "bytes option"

datatype InitialContextSetupRequestIEsPresent =
    InitialContextSetupRequestIEsPresentAMFUENGAPID
  | InitialContextSetupRequestIEsPresentRANUENGAPID
  | InitialContextSetupRequestIEsPresentGUAMI
  | InitialContextSetupRequestIEsPresentAllowedNSSAI
  | InitialContextSetupRequestIEsPresentUESecurityCapabilities
  | InitialContextSetupRequestIEsPresentSecurityKey
  | InitialContextSetupRequestIEsPresentNASPDU
  | InitialContextSetupRequestIEsPresent_other int64

record InitialContextSetupRequestIEsValue =
  ic_Present :: InitialContextSetupRequestIEsPresent
  ic_AMFUENGAPID :: "int64 option"
  ic_RANUENGAPID :: "int64 option"
  ic_GUAMI :: "GUAMI option"
  ic_AllowedNSSAI :: "ngap_SNSSAI list option"
  ic_UESecurityCapabilities :: "UESecurityCapabilities option"
  ic_SecurityKey :: "BitString option"
  ic_NASPDU :: "bytes option"

datatype NGSetupResponseIEsPresent =
    NGSetupResponseIEsPresentAMFName
  | NGSetupResponseIEsPresentServedGUAMIList
  | NGSetupResponseIEsPresentRelativeAMFCapacity
  | NGSetupResponseIEsPresentPLMNSupportList
  | NGSetupResponseIEsPresent_other int64

record NGSetupResponseIEsValue =
  sr_Present :: NGSetupResponseIEsPresent
  sr_AMFName :: "string option"
  sr_ServedGUAMIList :: "GUAMI list option"
  sr_RelativeAMFCapacity :: "int64 option"
  sr_PLMNSupportList :: "PLMNSupportItem list option"

datatype InitiatingMessagePresent =
    InitiatingMessagePresentInitialUEMessage
  | InitiatingMessagePresentUplinkNASTransport
  | InitiatingMessagePresentDownlinkNASTransport
  | InitiatingMessagePresentInitialContextSetupRequest
  | InitiatingMessagePresentNGSetupRequest
  | InitiatingMessagePresent_other int64

record InitiatingMessageValue =
  iv_Present :: InitiatingMessagePresent
  iv_InitialUEMessage :: "InitialUEMessageIEsValue ProtocolIE list option"
  iv_UplinkNASTransport :: "NASTransportIEsValue ProtocolIE list option"
  iv_DownlinkNASTransport :: "NASTransportIEsValue ProtocolIE list option"
  iv_InitialContextSetupRequest :: "InitialContextSetupRequestIEsValue ProtocolIE list option"

record InitiatingMessage =
  im_ProcedureCode :: ProcedureCode
  im_Criticality :: Criticality
  im_Value :: InitiatingMessageValue

datatype SuccessfulOutcomePresent = SuccessfulOutcomePresentNGSetupResponse | SuccessfulOutcomePresent_other int64

record SuccessfulOutcomeValue =
  sv_Present :: SuccessfulOutcomePresent
  sv_NGSetupResponse :: "NGSetupResponseIEsValue ProtocolIE list option"

record SuccessfulOutcome =
  so_ProcedureCode :: ProcedureCode
  so_Criticality :: Criticality
  so_Value :: SuccessfulOutcomeValue

record UnsuccessfulOutcome =
  uo_ProcedureCode :: ProcedureCode

datatype NGAPPDUPresent =
    NGAPPDUPresentInitiatingMessage
  | NGAPPDUPresentSuccessfulOutcome
  | NGAPPDUPresentUnsuccessfulOutcome
  | NGAPPDUPresent_other int64

record NGAPPDU =
  np_Present :: NGAPPDUPresent
  np_InitiatingMessage :: "InitiatingMessage option"
  np_SuccessfulOutcome :: "SuccessfulOutcome option"
  np_UnsuccessfulOutcome :: "UnsuccessfulOutcome option"

text \<open>\<open>ngap.Decoder\<close> and \<open>ngap.Encoder\<close>; \<open>Inl\<close> is an error.\<close>

record ngap_lib =
  ngap_Decoder :: "bytes \<Rightarrow> string + NGAPPDU"
  ngap_Encoder :: "NGAPPDU \<Rightarrow> string + bytes"

section \<open>Parsing\<close>

record NGAPContext =
  nc_PDU :: NGAPPDU
  nc_ProcedureCode :: ProcedureCode
  nc_MessageType :: int64
  nc_RANUeNgapID :: int64
  nc_AMFUeNgapID :: int64
  nc_NASPDU :: bytes
  nc_UserLocationInfo :: bytes

text \<open>The bodies of the loops: an IE whose pointer is nil is skipped.\<close>

definition initial_ue_ie :: "InitialUEMessageIEsValue ProtocolIE \<Rightarrow> NGAPContext \<Rightarrow> NGAPContext" where
  "initial_ue_ie ie ctx =
     (case iu_Present (ie_Value ie) of
        InitialUEMessageIEsPresentRANUENGAPID \<Rightarrow>
          (case iu_RANUENGAPID (ie_Value ie) of None \<Rightarrow> ctx | Some v \<Rightarrow> ctx\<lparr>nc_RANUeNgapID := v\<rparr>)
      | InitialUEMessageIEsPresentNASPDU \<Rightarrow>
          (case iu_NASPDU (ie_Value ie) of None \<Rightarrow> ctx | Some v \<Rightarrow> ctx\<lparr>nc_NASPDU := v\<rparr>)
      | InitialUEMessageIEsPresent_other _ \<Rightarrow> ctx)"

definition nas_transport_ie :: "NASTransportIEsValue ProtocolIE \<Rightarrow> NGAPContext \<Rightarrow> NGAPContext" where
  "nas_transport_ie ie ctx =
     (case nt_Present (ie_Value ie) of
        NASTransportIEsPresentAMFUENGAPID \<Rightarrow>
          (case nt_AMFUENGAPID (ie_Value ie) of None \<Rightarrow> ctx | Some v \<Rightarrow> ctx\<lparr>nc_AMFUeNgapID := v\<rparr>)
      | NASTransportIEsPresentRANUENGAPID \<Rightarrow>
          (case nt_RANUENGAPID (ie_Value ie) of None \<Rightarrow> ctx | Some v \<Rightarrow> ctx\<lparr>nc_RANUeNgapID := v\<rparr>)
      | NASTransportIEsPresentNASPDU \<Rightarrow>
          (case nt_NASPDU (ie_Value ie) of None \<Rightarrow> ctx | Some v \<Rightarrow> ctx\<lparr>nc_NASPDU := v\<rparr>)
      | NASTransportIEsPresent_other _ \<Rightarrow> ctx)"

definition extractInitiatingIEs :: "InitiatingMessage \<Rightarrow> NGAPContext \<Rightarrow> NGAPContext" where
  "extractInitiatingIEs msg ctx =
     (let v = im_Value msg in
      case iv_Present v of
        InitiatingMessagePresentInitialUEMessage \<Rightarrow>
          (case iv_InitialUEMessage v of None \<Rightarrow> ctx | Some ies \<Rightarrow> fold initial_ue_ie ies ctx)
      | InitiatingMessagePresentUplinkNASTransport \<Rightarrow>
          (case iv_UplinkNASTransport v of None \<Rightarrow> ctx | Some ies \<Rightarrow> fold nas_transport_ie ies ctx)
      | InitiatingMessagePresentDownlinkNASTransport \<Rightarrow>
          (case iv_DownlinkNASTransport v of None \<Rightarrow> ctx | Some ies \<Rightarrow> fold nas_transport_ie ies ctx)
      | _ \<Rightarrow> ctx)"

text \<open>\<open>&NGAPContext{PDU: pdu}\<close>.\<close>

definition new_NGAPContext :: "NGAPPDU \<Rightarrow> NGAPContext" where
  "new_NGAPContext pdu = \<lparr>nc_PDU = pdu, nc_ProcedureCode = ProcedureCode_other 0, nc_MessageType = 0,
     nc_RANUeNgapID = 0, nc_AMFUeNgapID = 0, nc_NASPDU = [], nc_UserLocationInfo = []\<rparr>"

definition parse_pdu :: "NGAPPDU \<Rightarrow> (string, NGAPContext) res" where
  "parse_pdu pdu =
     (let ctx = new_NGAPContext pdu in
      case np_Present pdu of
        NGAPPDUPresentInitiatingMessage \<Rightarrow>
          (case np_InitiatingMessage pdu of
             None \<Rightarrow> Error ''initiating message is nil''
           | Some m \<Rightarrow> Ok (extractInitiatingIEs m (ctx\<lparr>nc_ProcedureCode := im_ProcedureCode m, nc_MessageType := 0\<rparr>)))
      | NGAPPDUPresentSuccessfulOutcome \<Rightarrow>
          (case np_SuccessfulOutcome pdu of
             None \<Rightarrow> Error ''successful outcome is nil''
           | Some m \<Rightarrow> Ok (ctx\<lparr>nc_ProcedureCode := so_ProcedureCode m, nc_MessageType := 1\<rparr>))
      | NGAPPDUPresentUnsuccessfulOutcome \<Rightarrow>
          (case np_UnsuccessfulOutcome pdu of
             None \<Rightarrow> Error ''unsuccessful outcome is nil''
           | Some m \<Rightarrow> Ok (ctx\<lparr>nc_ProcedureCode := uo_ProcedureCode m, nc_MessageType := 2\<rparr>))
      | NGAPPDUPresent_other n \<Rightarrow> Error (''unknown NGAP PDU present: '' @ show_int (sint n)))"

definition ParseNGAPMessage :: "ngap_lib \<Rightarrow> bytes \<Rightarrow> (string, NGAPContext) res" where
  "ParseNGAPMessage lib data = rbind (lift_err ''ngap aper decode: '' (ngap_Decoder lib data)) parse_pdu"

section \<open>Building\<close>

text \<open>The zero values of the CHOICE structs, in which a literal of the source sets the tag and one member.\<close>

definition NASTransportIEsValue_zero :: NASTransportIEsValue where
  "NASTransportIEsValue_zero = \<lparr>nt_Present = NASTransportIEsPresent_other 0, nt_AMFUENGAPID = None, nt_RANUENGAPID = None, nt_NASPDU = None\<rparr>"

definition InitialContextSetupRequestIEsValue_zero :: InitialContextSetupRequestIEsValue where
  "InitialContextSetupRequestIEsValue_zero = \<lparr>ic_Present = InitialContextSetupRequestIEsPresent_other 0, ic_AMFUENGAPID = None,
     ic_RANUENGAPID = None, ic_GUAMI = None, ic_AllowedNSSAI = None, ic_UESecurityCapabilities = None, ic_SecurityKey = None, ic_NASPDU = None\<rparr>"

definition NGSetupResponseIEsValue_zero :: NGSetupResponseIEsValue where
  "NGSetupResponseIEsValue_zero = \<lparr>sr_Present = NGSetupResponseIEsPresent_other 0, sr_AMFName = None, sr_ServedGUAMIList = None,
     sr_RelativeAMFCapacity = None, sr_PLMNSupportList = None\<rparr>"

definition InitiatingMessageValue_zero :: InitiatingMessageValue where
  "InitiatingMessageValue_zero = \<lparr>iv_Present = InitiatingMessagePresent_other 0, iv_InitialUEMessage = None,
     iv_UplinkNASTransport = None, iv_DownlinkNASTransport = None, iv_InitialContextSetupRequest = None\<rparr>"

definition initiating :: "ProcedureCode \<Rightarrow> Criticality \<Rightarrow> InitiatingMessageValue \<Rightarrow> NGAPPDU" where
  "initiating pc crit v = \<lparr>np_Present = NGAPPDUPresentInitiatingMessage,
     np_InitiatingMessage = Some \<lparr>im_ProcedureCode = pc, im_Criticality = crit, im_Value = v\<rparr>,
     np_SuccessfulOutcome = None, np_UnsuccessfulOutcome = None\<rparr>"

definition eval_GUAMI :: "bytes \<Rightarrow> GUAMI" where
  "eval_GUAMI plmnBytes = \<lparr>gu_PLMNIdentity = plmnBytes,
     gu_AMFRegionID = \<lparr>bs_Bytes = [0x01], bs_BitLength = 8\<rparr>,
     gu_AMFSetID = \<lparr>bs_Bytes = [0x00, 0x40], bs_BitLength = 10\<rparr>,
     gu_AMFPointer = \<lparr>bs_Bytes = [0x00], bs_BitLength = 6\<rparr>\<rparr>"

definition buildServedGUAMIList :: "bytes \<Rightarrow> GUAMI list" where
  "buildServedGUAMIList plmnBytes = [eval_GUAMI plmnBytes]"

definition ng_setup_response_pdu :: "bytes \<Rightarrow> byte \<Rightarrow> bytes \<Rightarrow> NGAPPDU" where
  "ng_setup_response_pdu plmnBytes sst sd =
     (let z = NGSetupResponseIEsValue_zero in
      \<lparr>np_Present = NGAPPDUPresentSuccessfulOutcome, np_InitiatingMessage = None,
       np_SuccessfulOutcome = Some \<lparr>so_ProcedureCode = ProcedureCodeNGSetup, so_Criticality = CriticalityPresentReject,
         so_Value = \<lparr>sv_Present = SuccessfulOutcomePresentNGSetupResponse, sv_NGSetupResponse = Some
           [\<lparr>ie_Id = ProtocolIEIDAMFName, ie_Criticality = CriticalityPresentReject,
             ie_Value = z\<lparr>sr_Present := NGSetupResponseIEsPresentAMFName, sr_AMFName := Some ''serverless5gc-amf''\<rparr>\<rparr>,
            \<lparr>ie_Id = ProtocolIEIDServedGUAMIList, ie_Criticality = CriticalityPresentReject,
             ie_Value = z\<lparr>sr_Present := NGSetupResponseIEsPresentServedGUAMIList,
               sr_ServedGUAMIList := Some (buildServedGUAMIList plmnBytes)\<rparr>\<rparr>,
            \<lparr>ie_Id = ProtocolIEIDRelativeAMFCapacity, ie_Criticality = CriticalityPresentIgnore,
             ie_Value = z\<lparr>sr_Present := NGSetupResponseIEsPresentRelativeAMFCapacity, sr_RelativeAMFCapacity := Some 255\<rparr>\<rparr>,
            \<lparr>ie_Id = ProtocolIEIDPLMNSupportList, ie_Criticality = CriticalityPresentReject,
             ie_Value = z\<lparr>sr_Present := NGSetupResponseIEsPresentPLMNSupportList,
               sr_PLMNSupportList := Some [\<lparr>ps_PLMNIdentity = plmnBytes,
                 ps_SliceSupportList = [\<lparr>sn_SST = [sst], sn_SD = Some sd\<rparr>]\<rparr>]\<rparr>\<rparr>]\<rparr>\<rparr>,
       np_UnsuccessfulOutcome = None\<rparr>)"

definition BuildNGSetupResponse :: "ngap_lib \<Rightarrow> bytes \<Rightarrow> byte \<Rightarrow> bytes \<Rightarrow> string + bytes" where
  "BuildNGSetupResponse lib plmnBytes sst sd = ngap_Encoder lib (ng_setup_response_pdu plmnBytes sst sd)"

definition downlink_nas_pdu :: "int64 \<Rightarrow> int64 \<Rightarrow> bytes \<Rightarrow> NGAPPDU" where
  "downlink_nas_pdu amfUeNgapID ranUeNgapID nasPDU =
     (let z = NASTransportIEsValue_zero in
      initiating ProcedureCodeDownlinkNASTransport CriticalityPresentIgnore
        (InitiatingMessageValue_zero\<lparr>iv_Present := InitiatingMessagePresentDownlinkNASTransport, iv_DownlinkNASTransport := Some
          [\<lparr>ie_Id = ProtocolIEIDAMFUENGAPID, ie_Criticality = CriticalityPresentReject,
            ie_Value = z\<lparr>nt_Present := NASTransportIEsPresentAMFUENGAPID, nt_AMFUENGAPID := Some amfUeNgapID\<rparr>\<rparr>,
           \<lparr>ie_Id = ProtocolIEIDRANUENGAPID, ie_Criticality = CriticalityPresentReject,
            ie_Value = z\<lparr>nt_Present := NASTransportIEsPresentRANUENGAPID, nt_RANUENGAPID := Some ranUeNgapID\<rparr>\<rparr>,
           \<lparr>ie_Id = ProtocolIEIDNASPDU, ie_Criticality = CriticalityPresentReject,
            ie_Value = z\<lparr>nt_Present := NASTransportIEsPresentNASPDU, nt_NASPDU := Some nasPDU\<rparr>\<rparr>]\<rparr>))"

definition BuildDownlinkNASTransport :: "ngap_lib \<Rightarrow> int64 \<Rightarrow> int64 \<Rightarrow> bytes \<Rightarrow> string + bytes" where
  "BuildDownlinkNASTransport lib amfUeNgapID ranUeNgapID nasPDU = ngap_Encoder lib (downlink_nas_pdu amfUeNgapID ranUeNgapID nasPDU)"

definition alg_bits :: BitString where
  "alg_bits = \<lparr>bs_Bytes = [0xC0, 0x00], bs_BitLength = 16\<rparr>"

definition initial_context_pdu :: "int64 \<Rightarrow> int64 \<Rightarrow> bytes \<Rightarrow> bytes \<Rightarrow> byte \<Rightarrow> bytes \<Rightarrow> NGAPPDU" where
  "initial_context_pdu amfUeNgapID ranUeNgapID nasPDU plmnBytes sst sd =
     (let z = InitialContextSetupRequestIEsValue_zero; secKey = replicate 32 0 in
      initiating ProcedureCodeInitialContextSetup CriticalityPresentReject
        (InitiatingMessageValue_zero\<lparr>iv_Present := InitiatingMessagePresentInitialContextSetupRequest, iv_InitialContextSetupRequest := Some
          [\<lparr>ie_Id = ProtocolIEIDAMFUENGAPID, ie_Criticality = CriticalityPresentReject,
            ie_Value = z\<lparr>ic_Present := InitialContextSetupRequestIEsPresentAMFUENGAPID, ic_AMFUENGAPID := Some amfUeNgapID\<rparr>\<rparr>,
           \<lparr>ie_Id = ProtocolIEIDRANUENGAPID, ie_Criticality = CriticalityPresentReject,
            ie_Value = z\<lparr>ic_Present := InitialContextSetupRequestIEsPresentRANUENGAPID, ic_RANUENGAPID := Some ranUeNgapID\<rparr>\<rparr>,
           \<lparr>ie_Id = ProtocolIEIDGUAMI, ie_Criticality = CriticalityPresentReject,
            ie_Value = z\<lparr>ic_Present := InitialContextSetupRequestIEsPresentGUAMI, ic_GUAMI := Some (eval_GUAMI plmnBytes)\<rparr>\<rparr>,
           \<lparr>ie_Id = ProtocolIEIDAllowedNSSAI, ie_Criticality = CriticalityPresentReject,
            ie_Value = z\<lparr>ic_Present := InitialContextSetupRequestIEsPresentAllowedNSSAI,
              ic_AllowedNSSAI := Some [\<lparr>sn_SST = [sst], sn_SD = Some sd\<rparr>]\<rparr>\<rparr>,
           \<lparr>ie_Id = ProtocolIEIDUESecurityCapabilities, ie_Criticality = CriticalityPresentReject,
            ie_Value = z\<lparr>ic_Present := InitialContextSetupRequestIEsPresentUESecurityCapabilities,
              ic_UESecurityCapabilities := Some \<lparr>us_NRencryptionAlgorithms = alg_bits, us_NRintegrityProtectionAlgorithms = alg_bits,
                us_EUTRAencryptionAlgorithms = alg_bits, us_EUTRAintegrityProtectionAlgorithms = alg_bits\<rparr>\<rparr>\<rparr>,
           \<lparr>ie_Id = ProtocolIEIDSecurityKey, ie_Criticality = CriticalityPresentReject,
            ie_Value = z\<lparr>ic_Present := InitialContextSetupRequestIEsPresentSecurityKey,
              ic_SecurityKey := Some \<lparr>bs_Bytes = secKey, bs_BitLength = 256\<rparr>\<rparr>\<rparr>,
           \<lparr>ie_Id = ProtocolIEIDNASPDU, ie_Criticality = CriticalityPresentIgnore,
            ie_Value = z\<lparr>ic_Present := InitialContextSetupRequestIEsPresentNASPDU, ic_NASPDU := Some nasPDU\<rparr>\<rparr>]\<rparr>))"

definition BuildInitialContextSetupRequest ::
  "ngap_lib \<Rightarrow> int64 \<Rightarrow> int64 \<Rightarrow> bytes \<Rightarrow> bytes \<Rightarrow> byte \<Rightarrow> bytes \<Rightarrow> string + bytes" where
  "BuildInitialContextSetupRequest lib amfUeNgapID ranUeNgapID nasPDU plmnBytes sst sd =
     ngap_Encoder lib (initial_context_pdu amfUeNgapID ranUeNgapID nasPDU plmnBytes sst sd)"

text \<open>\<open>PLMNBytes\<close>; arithmetic on bytes wraps, and indexing a short MNC panics.\<close>

definition PLMNBytes :: "string \<Rightarrow> string \<Rightarrow> (string, bytes) res" where
  "PLMNBytes mcc mnc =
     (let c = (\<lambda>s i. rbind (idx s i) (\<lambda>ch. Ok (byte_of_char ch - 48))) in
      if length mcc \<noteq> 3 then Ok [0, 0, 0]
      else
        rbind (c mcc 1) (\<lambda>m1. rbind (c mcc 0) (\<lambda>m0. rbind (c mcc 2) (\<lambda>m2.
          let b0 = push_bit 4 m1 OR m0 in
          rbind (if length mnc = 2 then Ok (0xF0 OR m2)
                 else rbind (c mnc 0) (\<lambda>n0. Ok (push_bit 4 n0 OR m2))) (\<lambda>b1.
          rbind (if length mnc = 2 then rbind (c mnc 1) (\<lambda>n1. rbind (c mnc 0) (\<lambda>n0. Ok (push_bit 4 n1 OR n0)))
                 else rbind (c mnc 2) (\<lambda>n2. rbind (c mnc 1) (\<lambda>n1. Ok (push_bit 4 n2 OR n1)))) (\<lambda>b2.
            Ok [b0, b1, b2]))))))"

section \<open>Extraction\<close>

text \<open>The values that IEs of a NAS transport carry for a member of the context, in their order.\<close>

definition transport_vals :: "NASTransportIEsPresent \<Rightarrow> (NASTransportIEsValue \<Rightarrow> 'v option) \<Rightarrow> NASTransportIEsValue ProtocolIE list \<Rightarrow> 'v list" where
  "transport_vals tag sel ies = List.map_filter (\<lambda>ie. if nt_Present (ie_Value ie) = tag then sel (ie_Value ie) else None) ies"

lemma fold_nas_transport:
  "fold nas_transport_ie ies ctx = ctx
     \<lparr>nc_AMFUeNgapID := last (nc_AMFUeNgapID ctx # transport_vals NASTransportIEsPresentAMFUENGAPID nt_AMFUENGAPID ies),
      nc_RANUeNgapID := last (nc_RANUeNgapID ctx # transport_vals NASTransportIEsPresentRANUENGAPID nt_RANUENGAPID ies),
      nc_NASPDU := last (nc_NASPDU ctx # transport_vals NASTransportIEsPresentNASPDU nt_NASPDU ies)\<rparr>"
proof (induction ies arbitrary: ctx)
  case (Cons ie ies)
  then show ?case
    by (simp add: nas_transport_ie_def transport_vals_def split: NASTransportIEsPresent.splits option.splits)
qed (simp add: transport_vals_def)

definition uplink_nas_pdu :: "NASTransportIEsValue ProtocolIE list \<Rightarrow> NGAPPDU" where
  "uplink_nas_pdu ies = initiating ProcedureCodeUplinkNASTransport CriticalityPresentIgnore
     (InitiatingMessageValue_zero\<lparr>iv_Present := InitiatingMessagePresentUplinkNASTransport, iv_UplinkNASTransport := Some ies\<rparr>)"

text \<open>Of an uplink NAS transport the parser takes, for each of the UE ids and the NAS message, the last IE that carries it, in
  whatever order and number the IEs come; an id that no IE carries is 0 and a NAS message that none carries is empty.\<close>

theorem uplink_last_ie_wins:
  assumes "ngap_Decoder lib bs = Inr (uplink_nas_pdu ies)"
  shows "\<exists>ctx. ParseNGAPMessage lib bs = Ok ctx \<and> nc_MessageType ctx = 0 \<and> nc_ProcedureCode ctx = ProcedureCodeUplinkNASTransport \<and>
    nc_AMFUeNgapID ctx = last (0 # transport_vals NASTransportIEsPresentAMFUENGAPID nt_AMFUENGAPID ies) \<and>
    nc_RANUeNgapID ctx = last (0 # transport_vals NASTransportIEsPresentRANUENGAPID nt_RANUENGAPID ies) \<and>
    nc_NASPDU ctx = last ([] # transport_vals NASTransportIEsPresentNASPDU nt_NASPDU ies)"
  using assms
  by (simp add: ParseNGAPMessage_def parse_pdu_def uplink_nas_pdu_def initiating_def extractInitiatingIEs_def
      new_NGAPContext_def fold_nas_transport)

section \<open>Round trip\<close>

text \<open>The library decodes what it encoded.\<close>

definition roundtrips :: "ngap_lib \<Rightarrow> NGAPPDU \<Rightarrow> bool" where
  "roundtrips lib p \<longleftrightarrow> (\<forall>bs. ngap_Encoder lib p = Inr bs \<longrightarrow> ngap_Decoder lib bs = Inr p)"

lemma parse_downlink:
  "parse_pdu (downlink_nas_pdu a r n) = Ok \<lparr>nc_PDU = downlink_nas_pdu a r n, nc_ProcedureCode = ProcedureCodeDownlinkNASTransport,
     nc_MessageType = 0, nc_RANUeNgapID = r, nc_AMFUeNgapID = a, nc_NASPDU = n, nc_UserLocationInfo = []\<rparr>"
  by (simp add: parse_pdu_def downlink_nas_pdu_def initiating_def extractInitiatingIEs_def new_NGAPContext_def
      nas_transport_ie_def)

text \<open>A downlink NAS transport that was built and encoded parses back to the same UE ids and the same NAS message.\<close>

theorem downlink_roundtrip:
  assumes "roundtrips lib (downlink_nas_pdu a r n)" "BuildDownlinkNASTransport lib a r n = Inr bs"
  shows "ParseNGAPMessage lib bs = Ok \<lparr>nc_PDU = downlink_nas_pdu a r n, nc_ProcedureCode = ProcedureCodeDownlinkNASTransport,
     nc_MessageType = 0, nc_RANUeNgapID = r, nc_AMFUeNgapID = a, nc_NASPDU = n, nc_UserLocationInfo = []\<rparr>"
  using assms by (simp add: roundtrips_def BuildDownlinkNASTransport_def ParseNGAPMessage_def parse_downlink)

section \<open>PLMN identities\<close>

lemma nibble_or_table:
  "list_all (\<lambda>a. list_all (\<lambda>b. push_bit 4 (of_nat a) OR of_nat b = bcd_pair b a) [0..<16]) [0..<16]"
  by code_simp

lemma nibble_or: "a < 16 \<Longrightarrow> b < 16 \<Longrightarrow> push_bit 4 (of_nat a) OR of_nat b = bcd_pair b a"
  using nibble_or_table unfolding list_all_iff set_upt by (meson atLeastLessThan_iff le0)

lemma filler_or: "b < 16 \<Longrightarrow> 0xF0 OR of_nat b = bcd_pair b 15"
  using nibble_or [of 15 b] by simp

lemma byte_of_digit: "d < 10 \<Longrightarrow> byte_of_char (digit d) - 48 = of_nat d"
  by (simp add: byte_of_char_def of_char_digit)

lemma PLMNBytes_digits:
  assumes "m0 < 10" "m1 < 10" "m2 < 10" "n0 < 10" "n1 < 10"
  shows "PLMNBytes (map digit [m0, m1, m2]) (map digit [n0, n1]) = Ok [bcd_pair m0 m1, bcd_pair m2 15, bcd_pair n0 n1]"
    and "n2 < 10 \<Longrightarrow> PLMNBytes (map digit [m0, m1, m2]) (map digit [n0, n1, n2]) = Ok [bcd_pair m0 m1, bcd_pair m2 n0, bcd_pair n1 n2]"
  using assms by (simp_all add: PLMNBytes_def byte_of_digit nibble_or filler_or numeral_2_eq_2)

lemma PLMNBytes_panic: "PLMNBytes mcc mnc = Panic \<longleftrightarrow> length mcc = 3 \<and> length mnc < 2"
  by (auto simp: PLMNBytes_def idx_def Let_def rbind_eq_Panic split: if_splits)

text \<open>C28: the PLMN identity that the proxy announces, read as the PLMN of a SUCI by the NAS decoder, is the configured one when
  the MNC has two digits; a three-digit MNC is read with its first digit moved to the end, since \<open>PLMNBytes\<close> orders
  the digits as TS 38.413 does and not as TS 24.501.\<close>

theorem plmn_bytes_in_suci:
  assumes "a < 10" "b < 10" "c < 10" "\<forall>d \<in> set mnc. d < 10" "length mnc = 2 \<or> length mnc = 3"
    and "\<forall>d \<in> set msin. d < 10" "msin \<noteq> []" "length mid = 4"
  shows "\<exists>plmn. PLMNBytes (map digit [a, b, c]) (map digit mnc) = Ok plmn \<and> length plmn = 3 \<and>
    decodeSUCI (0x01 # plmn @ mid @ bcd_pack msin) =
      Ok (''imsi-'' @ map digit ([a, b, c] @ (if length mnc = 2 then mnc else rotate1 mnc) @ msin))"
proof -
  consider d e where "mnc = [d, e]" | d e f where "mnc = [d, e, f]"
    using assms(5) by (auto simp: numeral_2_eq_2 numeral_3_eq_3 length_Suc_conv)
  then show ?thesis
  proof cases
    case 1
    then show ?thesis
      using decodeSUCI_wire [of a b c mnc msin mid] PLMNBytes_digits(1) [of a b c d e] assms
      by (simp add: suci_wire_def)
  next
    case 2
    then show ?thesis
      using decodeSUCI_wire [of a b c "rotate1 mnc" msin mid] PLMNBytes_digits(2) [of a b c d e f] assms
      by (simp add: suci_wire_def)
  qed
qed

theorem plmn_bytes_in_suci_witness:
  "\<exists>plmn. PLMNBytes ''310'' ''410'' = Ok plmn \<and> length plmn = 3 \<and>
    decodeSUCI (0x01 # plmn @ [0, 0, 0, 0] @ bcd_pack [1, 2]) = Ok ''imsi-31010412''"
  using plmn_bytes_in_suci [of 3 1 0 "[4, 1, 0]" "[1, 2]" "[0, 0, 0, 0]"] by (simp add: digit_chars)

section \<open>A small APER stand-in\<close>

text \<open>An encoder for the downlink NAS transports and its decoder, at which the round trip can be evaluated.\<close>

definition sample_ngap_encode :: "NGAPPDU \<Rightarrow> string + bytes" where
  "sample_ngap_encode p = (case parse_pdu p of
       Ok ctx \<Rightarrow> (if p = downlink_nas_pdu (nc_AMFUeNgapID ctx) (nc_RANUeNgapID ctx) (nc_NASPDU ctx) \<and>
            nc_AMFUeNgapID ctx < 256 \<and> nc_RANUeNgapID ctx < 256
          then Inr (ucast (nc_AMFUeNgapID ctx) # ucast (nc_RANUeNgapID ctx) # nc_NASPDU ctx) else Inl ''unsupported'')
     | _ \<Rightarrow> Inl ''unsupported'')"

definition sample_ngap :: ngap_lib where
  "sample_ngap = \<lparr>ngap_Decoder = (\<lambda>bs. case bs of a # r # n \<Rightarrow> Inr (downlink_nas_pdu (ucast a) (ucast r) n) | _ \<Rightarrow> Inl ''short''),
     ngap_Encoder = sample_ngap_encode\<rparr>"

theorem downlink_roundtrip_witness:
  "\<exists>bs ctx. BuildDownlinkNASTransport sample_ngap 100 42 [0x7E, 0x00, 0x42, 0x01] = Inr bs \<and> ParseNGAPMessage sample_ngap bs = Ok ctx \<and>
     nc_AMFUeNgapID ctx = 100 \<and> nc_RANUeNgapID ctx = 42 \<and> nc_NASPDU ctx = [0x7E, 0x00, 0x42, 0x01]"
proof -
  have b: "BuildDownlinkNASTransport sample_ngap 100 42 [0x7E, 0x00, 0x42, 0x01] = Inr [100, 42, 0x7E, 0x00, 0x42, 0x01]"
    by (simp add: BuildDownlinkNASTransport_def sample_ngap_def sample_ngap_encode_def parse_downlink)
  then have "roundtrips sample_ngap (downlink_nas_pdu 100 42 [0x7E, 0x00, 0x42, 0x01])"
    by (simp add: roundtrips_def BuildDownlinkNASTransport_def) (simp add: sample_ngap_def)
  from downlink_roundtrip [OF this b] b show ?thesis by simp
qed

theorem uplink_last_ie_wins_witness:
  "\<exists>lib bs ctx. ParseNGAPMessage lib bs = Ok ctx \<and> nc_RANUeNgapID ctx = 7 \<and> nc_NASPDU ctx = []"
proof -
  define ie where "ie = (\<lambda>r. \<lparr>ie_Id = ProtocolIEIDRANUENGAPID, ie_Criticality = CriticalityPresentReject,
    ie_Value = NASTransportIEsValue_zero\<lparr>nt_Present := NASTransportIEsPresentRANUENGAPID, nt_RANUENGAPID := Some r\<rparr>\<rparr>)"
  define lib where "lib = sample_ngap\<lparr>ngap_Decoder := (\<lambda>_. Inr (uplink_nas_pdu [ie 3, ie 7]))\<rparr>"
  have "ngap_Decoder lib [] = Inr (uplink_nas_pdu [ie 3, ie 7])" by (simp add: lib_def)
  from uplink_last_ie_wins [OF this] show ?thesis
    by (auto simp: transport_vals_def ie_def)
qed

end
