(* ===== verification/SctpProxy.thy ===== *)
theory SctpProxy
  imports Ngap Faas
begin

text \<open>
  The N2 front end \<^verbatim>\<open>cmd/sctp-proxy\<close>: it terminates NGAP from the base stations, keeps a state machine per UE and
  calls the core's functions over HTTP.

  The proxy's own state is the map from RAN-UE-NGAP-ID to UE context and the counter of AMF-UE-NGAP-IDs; with the
  \<open>world\<close> of the functions behind it, it is the state \<open>'s proxy\<close> of a state monad.  The source mutates UE contexts
  through a pointer that the map holds; here an operation on a UE context takes it and returns it updated, also when it fails,
  and its caller writes it back to the map.  NGAP coding, key derivation and the two functions of the NAS library
  (\<open>f5_nas\<close>) are parameters.
\<close>

section \<open>States and contexts\<close>

definition UEStateIdle :: string where "UEStateIdle = ''IDLE''"
definition UEStateAuthSent :: string where "UEStateAuthSent = ''AUTH_SENT''"
definition UEStateSMCSent :: string where "UEStateSMCSent = ''SMC_SENT''"
definition UEStateRegistered :: string where "UEStateRegistered = ''REGISTERED''"
definition UEStatePDUSessionActive :: string where "UEStatePDUSessionActive = ''PDU_SESSION_ACTIVE''"

lemmas proxy_states = UEStateIdle_def UEStateAuthSent_def UEStateSMCSent_def UEStateRegistered_def UEStatePDUSessionActive_def

record proxy_UEContext =
  pu_SUPI :: string
  pu_State :: string
  pu_AMFUeNgapID :: int64
  pu_RANUeNgapID :: int64
  pu_XRES :: bytes
  pu_DLSeqNum :: byte
  pu_KAUSF :: bytes
  pu_KNASint :: bytes
  pu_KNASenc :: bytes
  pu_DLCount :: uint32
  pu_UESecCap :: "UESecurityCapability option"

section \<open>The backend\<close>

record proxy_AuthInitiateResponse =
  pa_AuthType :: string
  pa_RAND :: string
  pa_AUTN :: string
  pa_SUPI :: string

definition proxy_AuthInitiateResponse_zero :: proxy_AuthInitiateResponse where
  "proxy_AuthInitiateResponse_zero = \<lparr>pa_AuthType = [],
     pa_RAND = [],
     pa_AUTN = [],
     pa_SUPI = []\<rparr>"

definition proxy_AuthInitiateResponse_fields :: "proxy_AuthInitiateResponse fields" where
  "proxy_AuthInitiateResponse_fields = [(''auth_type'', fld pa_AuthType pa_AuthType_update dec_string),
     (''rand'', fld pa_RAND pa_RAND_update dec_string),
     (''autn'', fld pa_AUTN pa_AUTN_update dec_string),
     (''supi'', fld pa_SUPI pa_SUPI_update dec_string)]"

definition unmarshal_proxy_AuthInitiateResponse :: "proxy_AuthInitiateResponse decoder" where
  "unmarshal_proxy_AuthInitiateResponse = dec_struct proxy_AuthInitiateResponse_fields"

record RegisterRequest =
  prq_SUPI :: string
  prq_SkipAuth :: bool

definition RegisterRequest_zero :: RegisterRequest where
  "RegisterRequest_zero = \<lparr>prq_SUPI = [],
     prq_SkipAuth = False\<rparr>"

definition marshal_RegisterRequest :: "RegisterRequest \<Rightarrow> json" where
  "marshal_RegisterRequest x = JObj ([(''supi'', JStr (prq_SUPI x)),
     (''skip_auth'', JBool (prq_SkipAuth x))])"

record RegisterResponse =
  prp_Status :: string
  prp_SUPI :: string
  prp_GUTI :: string
  prp_NASMessage :: string

definition RegisterResponse_zero :: RegisterResponse where
  "RegisterResponse_zero = \<lparr>prp_Status = [],
     prp_SUPI = [],
     prp_GUTI = [],
     prp_NASMessage = []\<rparr>"

definition RegisterResponse_fields :: "RegisterResponse fields" where
  "RegisterResponse_fields = [(''status'', fld prp_Status prp_Status_update dec_string),
     (''supi'', fld prp_SUPI prp_SUPI_update dec_string),
     (''guti'', fld prp_GUTI prp_GUTI_update dec_string),
     (''nas_message'', fld prp_NASMessage prp_NASMessage_update dec_string)]"

definition unmarshal_RegisterResponse :: "RegisterResponse decoder" where
  "unmarshal_RegisterResponse = dec_struct RegisterResponse_fields"

record PDUSessionRequest =
  psq_SUPI :: string
  psq_PDUSessionID :: uint8
  psq_DNN :: string
  psq_SNSSAISSt :: uint8
  psq_SNSSAISD :: string

definition PDUSessionRequest_zero :: PDUSessionRequest where
  "PDUSessionRequest_zero = \<lparr>psq_SUPI = [],
     psq_PDUSessionID = 0,
     psq_DNN = [],
     psq_SNSSAISSt = 0,
     psq_SNSSAISD = []\<rparr>"

definition marshal_PDUSessionRequest :: "PDUSessionRequest \<Rightarrow> json" where
  "marshal_PDUSessionRequest x = JObj ([(''supi'', JStr (psq_SUPI x)),
     (''pdu_session_id'', enc_uint (psq_PDUSessionID x)),
     (''dnn'', JStr (psq_DNN x)),
     (''snssai_sst'', enc_uint (psq_SNSSAISSt x)),
     (''snssai_sd'', JStr (psq_SNSSAISD x))])"

record PDUSessionResponse =
  psp_Status :: string
  psp_PDUAddress :: string

definition PDUSessionResponse_zero :: PDUSessionResponse where
  "PDUSessionResponse_zero = \<lparr>psp_Status = [],
     psp_PDUAddress = []\<rparr>"

definition PDUSessionResponse_fields :: "PDUSessionResponse fields" where
  "PDUSessionResponse_fields = [(''status'', fld psp_Status psp_Status_update dec_string),
     (''pdu_address'', fld psp_PDUAddress psp_PDUAddress_update dec_string)]"

definition unmarshal_PDUSessionResponse :: "PDUSessionResponse decoder" where
  "unmarshal_PDUSessionResponse = dec_struct PDUSessionResponse_fields"


text \<open>The interface \<open>CoreBackend\<close>; \<open>Inl\<close> is an error.\<close>

record 's CoreBackend =
  be_AuthInitiate :: "string \<Rightarrow> ('s, goerr + proxy_AuthInitiateResponse) handler"
  be_Register :: "RegisterRequest \<Rightarrow> ('s, goerr + RegisterResponse) handler"
  be_PDUSessionCreate :: "PDUSessionRequest \<Rightarrow> ('s, goerr + PDUSessionResponse) handler"

text \<open>
  The common part of the three calls of \<open>HTTPBackend\<close>: post, test the status, decode.  The body that a status error
  quotes is not kept.
\<close>

definition backend_call ::
  "'s transport \<Rightarrow> string \<Rightarrow> int list \<Rightarrow> string \<Rightarrow> json \<Rightarrow> 'a decoder \<Rightarrow> 'a \<Rightarrow> ('s, goerr + 'a) handler" where
  "backend_call post funcName good what payload dec zero = do {
     r \<leftarrow> post funcName payload;
     State_Monad.return (case r of
         Inl t \<Rightarrow> Inl (ExtErr (funcName @ '': '' @ t))
       | Inr resp \<Rightarrow>
           if rs_StatusCode resp \<notin> set good then Inl (StatusErr funcName (rs_StatusCode resp))
           else (case unmarshal_body dec zero (body_doc (rs_Body resp)) of
                   None \<Rightarrow> Inl (ExtErr (''decode '' @ what @ '' response: '' @ err_text JsonErr))
                 | Some v \<Rightarrow> Inr v))
   }"

definition HTTPBackend_AuthInitiate :: "'s transport \<Rightarrow> string \<Rightarrow> ('s, goerr + proxy_AuthInitiateResponse) handler" where
  "HTTPBackend_AuthInitiate post supi = backend_call post ''amf-auth-initiate'' [200] ''auth'' (JObj [(''supi'', JStr supi)])
     unmarshal_proxy_AuthInitiateResponse proxy_AuthInitiateResponse_zero"

definition HTTPBackend_Register :: "'s transport \<Rightarrow> RegisterRequest \<Rightarrow> ('s, goerr + RegisterResponse) handler" where
  "HTTPBackend_Register post req = backend_call post ''amf-initial-registration'' [200] ''register'' (marshal_RegisterRequest req)
     unmarshal_RegisterResponse RegisterResponse_zero"

definition HTTPBackend_PDUSessionCreate :: "'s transport \<Rightarrow> PDUSessionRequest \<Rightarrow> ('s, goerr + PDUSessionResponse) handler" where
  "HTTPBackend_PDUSessionCreate post req = backend_call post ''smf-pdu-session-create'' [200, 201] ''pdu session'' (marshal_PDUSessionRequest req)
     unmarshal_PDUSessionResponse PDUSessionResponse_zero"

definition NewHTTPBackend :: "'s transport \<Rightarrow> 's CoreBackend" where
  "NewHTTPBackend post = \<lparr>be_AuthInitiate = HTTPBackend_AuthInitiate post, be_Register = HTTPBackend_Register post,
     be_PDUSessionCreate = HTTPBackend_PDUSessionCreate post\<rparr>"

section \<open>The NAS library\<close>

text \<open>
  Constants of \<^verbatim>\<open>free5gc/nas\<close> that are known by name, and the members of its Security Mode Command that the proxy
  sets; \<open>SetLen\<close> of a variable-length member allocates its buffer.
\<close>

datatype f5_const =
    Epd5GSMobilityManagementMessage
  | SecurityModeCommandIMEISVRequestType
  | SecurityModeCommandAdditional5GSecurityInformationType
  | AlgIntegrity128NIA2
  | Bearer3GPP
  | DirectionDownlink

record f5_SecurityModeCommand =
  f5_Iei :: uint8
  f5_ExtendedProtocolDiscriminator :: f5_const
  f5_SecurityHeaderType :: uint8
  f5_MessageType :: uint8
  f5_TypeOfCipheringAlgorithm :: uint8
  f5_TypeOfIntegrityProtectionAlgorithm :: uint8
  f5_NasKeySetIdentifiler :: uint8
  f5_ReplayedLen :: uint8
  f5_ReplayedBuffer :: bytes
  f5_IMEISVRequest :: "f5_const \<times> uint8"
  f5_Additional5GSecurityInformation :: "f5_const \<times> uint8 \<times> uint8 \<times> uint8"

text \<open>\<open>EncodeSecurityModeCommand\<close>, and \<open>NASMacCalculate(alg, key, count, bearer, direction, message)\<close>.\<close>

record f5_nas =
  f5_EncodeSecurityModeCommand :: "f5_SecurityModeCommand \<Rightarrow> string + bytes"
  f5_NASMacCalculate :: "f5_const \<Rightarrow> bytes \<Rightarrow> uint32 \<Rightarrow> f5_const \<Rightarrow> f5_const \<Rightarrow> bytes \<Rightarrow> string + bytes"

section \<open>The proxy\<close>

record 's SCTPProxy =
  sp_listenAddr :: string
  sp_backend :: "'s CoreBackend"
  sp_store :: "'s KVStore"
  sp_plmnBytes :: bytes
  sp_sst :: byte
  sp_sd :: bytes
  sp_ngap :: ngap_lib
  sp_aka :: aka_lib
  sp_nas :: f5_nas

record 's proxy =
  px_ueMap :: "int64 \<rightharpoonup> proxy_UEContext"
  px_amfUeNgapIDCounter :: int64
  px_world :: "'s world"

type_synonym ('s, 'a) proxy_op = "('s proxy, 'a) state"
type_synonym replies = "(string, bytes list) res"

definition new_proxy :: "'s world \<Rightarrow> 's proxy" where
  "new_proxy w = \<lparr>px_ueMap = Map.empty, px_amfUeNgapIDCounter = 0, px_world = w\<rparr>"

definition on_world :: "('s, 'a) handler \<Rightarrow> ('s, 'a) proxy_op" where
  "on_world m = State (\<lambda>p. apsnd (\<lambda>w. p\<lparr>px_world := w\<rparr>) (run_state m (px_world p)))"

definition allocAMFUeNgapID :: "('s, int64) proxy_op" where
  "allocAMFUeNgapID = State (\<lambda>p. let i = px_amfUeNgapIDCounter p + 1 in (i, p\<lparr>px_amfUeNgapIDCounter := i\<rparr>))"

definition getUE :: "int64 \<Rightarrow> ('s, proxy_UEContext option) proxy_op" where
  "getUE ranUeNgapID = State (\<lambda>p. (px_ueMap p ranUeNgapID, p))"

definition storeUE :: "int64 \<Rightarrow> proxy_UEContext \<Rightarrow> ('s, unit) proxy_op" where
  "storeUE ranUeNgapID ue = modify (\<lambda>p. p\<lparr>px_ueMap := (px_ueMap p)(ranUeNgapID \<mapsto> ue)\<rparr>)"

text \<open>\<open>fmt.Errorf("\<dots>: %w", err)\<close> on the result of the library.\<close>

definition one_reply :: "string \<Rightarrow> string + bytes \<Rightarrow> replies" where
  "one_reply what r = rbind (lift_err (what @ '': '') r) (\<lambda>b. Ok [b])"

subsection \<open>NG setup\<close>

definition handleNGSetup :: "'s SCTPProxy \<Rightarrow> replies" where
  "handleNGSetup c = one_reply ''build ng setup response'' (BuildNGSetupResponse (sp_ngap c) (sp_plmnBytes c) (sp_sst c) (sp_sd c))"

subsection \<open>Initial UE message\<close>

text \<open>The struct that \<open>auth-pending:{supi}\<close> is read into.\<close>

record authPending =
  ap_XRES :: string
  ap_KAUSF :: string

definition authPending_zero :: authPending where
  "authPending_zero = \<lparr>ap_XRES = [],
     ap_KAUSF = []\<rparr>"

definition authPending_fields :: "authPending fields" where
  "authPending_fields = [(''xres_star'', fld ap_XRES ap_XRES_update dec_string),
     (''kausf'', fld ap_KAUSF ap_KAUSF_update dec_string)]"

definition unmarshal_authPending :: "authPending decoder" where
  "unmarshal_authPending = dec_struct authPending_fields"

text \<open>\<open>if err != nil { log } else { \<dots> }\<close>: an error leaves the value as it is.\<close>

definition orLog :: "(string, 'a) res \<Rightarrow> 'b \<Rightarrow> ('a \<Rightarrow> (string, 'b) res) \<Rightarrow> (string, 'b) res" where
  "orLog r unchanged f = (case r of Panic \<Rightarrow> Panic | Error _ \<Rightarrow> Ok unchanged | Ok a \<Rightarrow> f a)"

text \<open>The NAS keys from \<open>KAUSF\<close>.\<close>

definition derive_nas_keys :: "aka_lib \<Rightarrow> proxy_UEContext \<Rightarrow> (string, proxy_UEContext) res" where
  "derive_nas_keys lib ue =
     (if length (pu_KAUSF ue) > 0 then
        rbind (slice (pu_SUPI ue) (length ''imsi-'') (length (pu_SUPI ue))) (\<lambda>supiDigits.
        orLog (DeriveKSEAF lib (pu_KAUSF ue) ''5G:mnc001.mcc001.3gppnetwork.org'') ue (\<lambda>kseaf.
        orLog (DeriveKAMF lib kseaf supiDigits [0x00, 0x00]) ue (\<lambda>kamf.
        orLog (DeriveKNASKeys lib kamf CipherAlg5GEA0 IntegAlg5GIA2) ue (\<lambda>(knasEnc, knasInt).
          Ok (ue\<lparr>pu_KNASenc := knasEnc, pu_KNASint := knasInt\<rparr>)))))
      else Ok ue)"

lemma orLog_eq_Ok: "orLog r b f = Ok c \<longleftrightarrow> (\<exists>e. r = Error e \<and> b = c) \<or> (\<exists>a. r = Ok a \<and> f a = Ok c)"
  by (cases r) (auto simp: orLog_def)

lemma orLog_neq_Panic: "r \<noteq> Panic \<Longrightarrow> (\<And>a. r = Ok a \<Longrightarrow> f a \<noteq> Panic) \<Longrightarrow> orLog r b f \<noteq> Panic"
  by (cases r) (auto simp: orLog_def)

definition new_proxy_UE :: "string \<Rightarrow> int64 \<Rightarrow> int64 \<Rightarrow> UESecurityCapability option \<Rightarrow> proxy_UEContext" where
  "new_proxy_UE supi amfUeNgapID ranUeNgapID cap = \<lparr>pu_SUPI = supi, pu_State = UEStateIdle, pu_AMFUeNgapID = amfUeNgapID,
     pu_RANUeNgapID = ranUeNgapID, pu_XRES = [], pu_DLSeqNum = 0, pu_KAUSF = [], pu_KNASint = [], pu_KNASenc = [], pu_DLCount = 0,
     pu_UESecCap = cap\<rparr>"

text \<open>The challenge: the keys, then the NAS message, then its NGAP form; the context is in the map throughout.\<close>

definition send_challenge ::
  "'s SCTPProxy \<Rightarrow> int64 \<Rightarrow> proxy_UEContext \<Rightarrow> proxy_AuthInitiateResponse \<Rightarrow> ('s, replies) proxy_op" where
  "send_challenge c ranID ue authResp =
     (case derive_nas_keys (sp_aka c) ue of
        Panic \<Rightarrow> State_Monad.return Panic
      | Error e \<Rightarrow> State_Monad.return (Error e)
      | Ok ue' \<Rightarrow> do {
          _ \<leftarrow> storeUE ranID ue';
          case EncodeAuthenticationRequest (fst (hex_decode (pa_RAND authResp))) (fst (hex_decode (pa_AUTN authResp))) of
            Panic \<Rightarrow> State_Monad.return Panic
          | Error e \<Rightarrow> State_Monad.return (Error e)
          | Ok nasAuthReq \<Rightarrow>
              (case BuildDownlinkNASTransport (sp_ngap c) (pu_AMFUeNgapID ue') ranID nasAuthReq of
                 Inl e \<Rightarrow> State_Monad.return (Error (''build downlink nas (auth req): '' @ e))
               | Inr dlNAS \<Rightarrow> do {
                   _ \<leftarrow> storeUE ranID (ue'\<lparr>pu_State := UEStateAuthSent\<rparr>);
                   State_Monad.return (Ok [dlNAS])
                 })
        })"

definition handleInitialUEMessage :: "'s SCTPProxy \<Rightarrow> NGAPContext \<Rightarrow> ('s, replies) proxy_op" where
  "handleInitialUEMessage c ngapCtx =
     (if nc_NASPDU ngapCtx = [] then State_Monad.return (Error ''initial UE message has no NAS PDU'')
      else case wrap_err ''decode registration request: '' (DecodeRegistrationRequest (nc_NASPDU ngapCtx)) of
        Panic \<Rightarrow> State_Monad.return Panic
      | Error e \<Rightarrow> State_Monad.return (Error e)
      | Ok regReq \<Rightarrow>
          let supi = mi_Value (rr_MobileIdentity regReq); ranID = nc_RANUeNgapID ngapCtx in do {
          amfUeNgapID \<leftarrow> allocAMFUeNgapID;
          let ue = new_proxy_UE supi amfUeNgapID ranID (rr_UESecCap regReq);
          _ \<leftarrow> storeUE ranID ue;
          a \<leftarrow> on_world (be_AuthInitiate (sp_backend c) supi);
          case a of
            Inl e \<Rightarrow> State_Monad.return (Error (''auth initiate for '' @ supi @ '': '' @ err_text e))
          | Inr authResp \<Rightarrow> do {
              g \<leftarrow> on_world (kvGet (sp_store c) (''auth-pending:'' @ supi) unmarshal_authPending authPending_zero);
              send_challenge c ranID
                (case g of
                   Inl _ \<Rightarrow> ue
                 | Inr pending \<Rightarrow> ue\<lparr>pu_XRES := fst (hex_decode (ap_XRES pending)), pu_KAUSF := fst (hex_decode (ap_KAUSF pending))\<rparr>)
                authResp
            }
        })"

subsection \<open>Protected NAS messages\<close>

text \<open>\<open>copy(knasIntArr[:], knasInt)\<close>.\<close>

definition key_array :: "bytes \<Rightarrow> bytes" where
  "key_array k = take 16 (k @ replicate 16 0)"

definition buildSecurityProtectedNAS :: "f5_nas \<Rightarrow> bytes \<Rightarrow> bytes \<Rightarrow> byte \<Rightarrow> byte \<Rightarrow> uint32 \<Rightarrow> string + bytes" where
  "buildSecurityProtectedNAS nas knasInt plainNAS secHdrType sqn dlCount =
     (if knasInt = [] then Inr (WrapSecurityHeader plainNAS secHdrType sqn)
      else case f5_NASMacCalculate nas AlgIntegrity128NIA2 (key_array knasInt) dlCount Bearer3GPP DirectionDownlink (sqn # plainNAS) of
        Inl e \<Rightarrow> Inl (''compute NAS MAC: '' @ e)
      | Inr mac \<Rightarrow> Inr ([EPD5GMM, secHdrType] @ mac @ [sqn] @ plainNAS))"

subsection \<open>Authentication response\<close>

definition smc_message :: "proxy_UEContext \<Rightarrow> f5_SecurityModeCommand" where
  "smc_message ue =
     (let (len, buf) =
        (case pu_UESecCap ue of
           Some cap \<Rightarrow>
             if length (cap_RawBytes cap) > 0
             then let n = of_nat (length (cap_RawBytes cap)) :: uint8 in (n, take (unat n) (cap_RawBytes cap))
             else (2, [0xF0, 0xF0])
         | None \<Rightarrow> (2, [0xF0, 0xF0]))
      in \<lparr>f5_Iei = 0, f5_ExtendedProtocolDiscriminator = Epd5GSMobilityManagementMessage,
          f5_SecurityHeaderType = SecurityHeaderPlain, f5_MessageType = MsgTypeSecurityModeCommand,
          f5_TypeOfCipheringAlgorithm = CipherAlg5GEA0, f5_TypeOfIntegrityProtectionAlgorithm = IntegAlg5GIA2,
          f5_NasKeySetIdentifiler = 0, f5_ReplayedLen = len, f5_ReplayedBuffer = buf,
          f5_IMEISVRequest = (SecurityModeCommandIMEISVRequestType, 1),
          f5_Additional5GSecurityInformation = (SecurityModeCommandAdditional5GSecurityInformationType, 1, 0, 0)\<rparr>)"

text \<open>The comparison of RES* with XRES* is written to the log and has no other effect.\<close>

definition handleAuthResponse :: "'s SCTPProxy \<Rightarrow> proxy_UEContext \<Rightarrow> NGAPContext \<Rightarrow> proxy_UEContext \<times> replies" where
  "handleAuthResponse c ue ngapCtx =
     (if pu_State ue \<noteq> UEStateAuthSent then
        (ue, Error (''UE '' @ pu_SUPI ue @ '': auth response in unexpected state '' @ pu_State ue))
      else case wrap_err ''decode auth response: '' (DecodeAuthenticationResponse (nc_NASPDU ngapCtx)) of
        Panic \<Rightarrow> (ue, Panic)
      | Error e \<Rightarrow> (ue, Error e)
      | Ok resStar \<Rightarrow>
          (case f5_EncodeSecurityModeCommand (sp_nas c) (smc_message ue) of
             Inl e \<Rightarrow> (ue, Error (''encode SMC: '' @ e))
           | Inr smcPlain \<Rightarrow>
               (case buildSecurityProtectedNAS (sp_nas c) (pu_KNASint ue) smcPlain SecurityHeaderIntegrityProtectedNewCtx 0 (pu_DLCount ue) of
                  Inl e \<Rightarrow> (ue, Error (''build SMC with MAC: '' @ e))
                | Inr smc \<Rightarrow>
                    let ue1 = ue\<lparr>pu_DLCount := pu_DLCount ue + 1\<rparr> in
                    (case BuildDownlinkNASTransport (sp_ngap c) (pu_AMFUeNgapID ue) (pu_RANUeNgapID ue) smc of
                       Inl e \<Rightarrow> (ue1, Error (''build downlink nas (smc): '' @ e))
                     | Inr dlNAS \<Rightarrow> (ue1\<lparr>pu_DLSeqNum := 1, pu_State := UEStateSMCSent\<rparr>, Ok [dlNAS])))))"

subsection \<open>Security mode complete\<close>

definition proxy_accept :: "string \<Rightarrow> bytes" where
  "proxy_accept guti = EncodeRegistrationAccept
     \<lparr>ra_RegistrationResult = RegResult3GPPAccess, ra_GUTI = guti, ra_AllowedNSSAI = [], ra_T3512Value = T3512Default\<rparr>"

definition handleSecurityModeComplete :: "'s SCTPProxy \<Rightarrow> proxy_UEContext \<Rightarrow> ('s, proxy_UEContext \<times> replies) handler" where
  "handleSecurityModeComplete c ue =
     (if pu_State ue \<noteq> UEStateSMCSent then
        State_Monad.return (ue, Error (''UE '' @ pu_SUPI ue @ '': SMC complete in unexpected state '' @ pu_State ue))
      else do {
        r \<leftarrow> be_Register (sp_backend c) \<lparr>prq_SUPI = pu_SUPI ue, prq_SkipAuth = True\<rparr>;
        State_Monad.return (case r of
            Inl e \<Rightarrow> (ue, Error (''register '' @ pu_SUPI ue @ '': '' @ err_text e))
          | Inr regResp \<Rightarrow>
              (case buildSecurityProtectedNAS (sp_nas c) (pu_KNASint ue) (proxy_accept (prp_GUTI regResp))
                      SecurityHeaderIntegrityProtectedCiphered (pu_DLSeqNum ue) (pu_DLCount ue) of
                 Inl e \<Rightarrow> (ue, Error (''build reg accept with MAC: '' @ e))
               | Inr regAcceptNAS \<Rightarrow>
                   let ue1 = ue\<lparr>pu_DLSeqNum := pu_DLSeqNum ue + 1, pu_DLCount := pu_DLCount ue + 1\<rparr> in
                   (case BuildInitialContextSetupRequest (sp_ngap c) (pu_AMFUeNgapID ue) (pu_RANUeNgapID ue) regAcceptNAS
                           (sp_plmnBytes c) (sp_sst c) (sp_sd c) of
                      Inl e \<Rightarrow> (ue1, Error (''build initial context setup: '' @ e))
                    | Inr icsr \<Rightarrow> (ue1\<lparr>pu_State := UEStateRegistered\<rparr>, Ok [icsr]))))
      })"

subsection \<open>PDU sessions\<close>

definition buildPDUSessionAcceptNAS :: "uint8 \<Rightarrow> uint8 \<Rightarrow> bytes" where
  "buildPDUSessionAcceptNAS pduSessionID pti =
     (let inner =
        [EPD5GSM, pduSessionID, pti, 0xC2, 0x11,
         0x00, 0x06, 0x01, 0x00, 0x03, 0x21, 0x01, 0x06,
         0x06, 0x01, 0x00, 0x00, 0x01, 0x00, 0x00,
         0x29, 0x05, 0x01, 0x0A, 0x0A, 0x00, 0x01]
      in [EPD5GMM, SecurityHeaderPlain, MsgTypeDLNASTransport, 0x01] @ put_be16 (length inner) @ inner @ [0x12, pduSessionID])"

definition session_request :: "'s SCTPProxy \<Rightarrow> string \<Rightarrow> uint8 \<Rightarrow> string \<Rightarrow> NSSAI option \<Rightarrow> PDUSessionRequest" where
  "session_request c supi pduSessionID dnn snssai =
     \<lparr>psq_SUPI = supi, psq_PDUSessionID = pduSessionID, psq_DNN = (if dnn = [] then ''internet'' else dnn),
      psq_SNSSAISSt = (case snssai of None \<Rightarrow> sp_sst c | Some n \<Rightarrow> ns_SST n),
      psq_SNSSAISD = (case snssai of
          Some n \<Rightarrow> if ns_HasSD n then (case ns_SD n of (a, b, d) \<Rightarrow> hex_encode [a, b, d]) else hex_encode (sp_sd c)
        | None \<Rightarrow> hex_encode (sp_sd c))\<rparr>"

definition handlePDUSessionEstablishment ::
  "'s SCTPProxy \<Rightarrow> proxy_UEContext \<Rightarrow> uint8 \<Rightarrow> uint8 \<Rightarrow> string \<Rightarrow> NSSAI option \<Rightarrow> ('s, proxy_UEContext \<times> replies) handler" where
  "handlePDUSessionEstablishment c ue pduSessionID pti dnn snssai = do {
     r \<leftarrow> be_PDUSessionCreate (sp_backend c) (session_request c (pu_SUPI ue) pduSessionID dnn snssai);
     State_Monad.return (case r of
         Inl e \<Rightarrow> (ue, Error (''pdu session create for '' @ pu_SUPI ue @ '': '' @ err_text e))
       | Inr _ \<Rightarrow>
           (case buildSecurityProtectedNAS (sp_nas c) (pu_KNASint ue) (buildPDUSessionAcceptNAS pduSessionID pti)
                   SecurityHeaderIntegrityProtectedCiphered (pu_DLSeqNum ue) (pu_DLCount ue) of
              Inl e \<Rightarrow> (ue, Error (''build pdu accept with MAC: '' @ e))
            | Inr pduAcceptNAS \<Rightarrow>
                let ue1 = ue\<lparr>pu_DLSeqNum := pu_DLSeqNum ue + 1, pu_DLCount := pu_DLCount ue + 1\<rparr> in
                (case BuildDownlinkNASTransport (sp_ngap c) (pu_AMFUeNgapID ue) (pu_RANUeNgapID ue) pduAcceptNAS of
                   Inl e \<Rightarrow> (ue1, Error (''build downlink nas (pdu accept): '' @ e))
                 | Inr dlNAS \<Rightarrow> (ue1\<lparr>pu_State := UEStatePDUSessionActive\<rparr>, Ok [dlNAS]))))
   }"

definition handleULNASTransport :: "'s SCTPProxy \<Rightarrow> proxy_UEContext \<Rightarrow> NGAPContext \<Rightarrow> ('s, proxy_UEContext \<times> replies) handler" where
  "handleULNASTransport c ue ngapCtx =
     (case wrap_err ''decode UL NAS transport: '' (DecodeULNASTransport (nc_NASPDU ngapCtx)) of
        Panic \<Rightarrow> State_Monad.return (ue, Panic)
      | Error e \<Rightarrow> State_Monad.return (ue, Error e)
      | Ok ul \<Rightarrow>
          let payload = ul_payload ul in
          if length payload < 4 then State_Monad.return (ue, Error ''UL NAS transport payload too short'')
          else if payload ! 0 = EPD5GSM \<and> payload ! 3 = MsgTypePDUSessionEstablishmentRequest then
            handlePDUSessionEstablishment c ue (ul_pduSessionID ul) (payload ! 2) (ul_dnn ul) (ul_snssai ul)
          else State_Monad.return (ue, Ok []))"

subsection \<open>Dispatch\<close>

definition uplink_dispatch :: "'s SCTPProxy \<Rightarrow> proxy_UEContext \<Rightarrow> NGAPContext \<Rightarrow> ('s, proxy_UEContext \<times> replies) handler" where
  "uplink_dispatch c ue ngapCtx =
     (let nasEPD = nc_NASPDU ngapCtx ! 0; nasMsgType = nc_NASPDU ngapCtx ! 2 in
      if nasEPD = EPD5GMM \<and> nasMsgType = MsgTypeAuthenticationResponse then State_Monad.return (handleAuthResponse c ue ngapCtx)
      else if nasEPD = EPD5GMM \<and> nasMsgType = MsgTypeSecurityModeComplete then handleSecurityModeComplete c ue
      else if nasEPD = EPD5GMM \<and> nasMsgType = MsgTypeULNASTransport then handleULNASTransport c ue ngapCtx
      else State_Monad.return (ue, Ok []))"

definition handleUplinkNASTransport :: "'s SCTPProxy \<Rightarrow> NGAPContext \<Rightarrow> ('s, replies) proxy_op" where
  "handleUplinkNASTransport c ngapCtx =
     (if length (nc_NASPDU ngapCtx) < 3 then State_Monad.return (Error ''uplink NAS transport: NAS PDU too short'')
      else do {
        u \<leftarrow> getUE (nc_RANUeNgapID ngapCtx);
        case u of
          None \<Rightarrow> State_Monad.return (Error (''no UE context for RAN-UE-NGAP-ID '' @ show_int (sint (nc_RANUeNgapID ngapCtx))))
        | Some ue \<Rightarrow>
            (case StripSecurityHeader (nc_NASPDU ngapCtx) of
               Panic \<Rightarrow> State_Monad.return Panic
             | Error e \<Rightarrow> State_Monad.return (Error e)
             | Ok nasPDU \<Rightarrow>
                 if length nasPDU < 3 then State_Monad.return (Error ''inner NAS PDU too short after stripping security header'')
                 else do {
                   (ue', r) \<leftarrow> on_world (uplink_dispatch c ue (ngapCtx\<lparr>nc_NASPDU := nasPDU\<rparr>));
                   _ \<leftarrow> storeUE (nc_RANUeNgapID ngapCtx) ue';
                   State_Monad.return r
                 })
      })"

text \<open>The replies with the SCTP stream that they go to.\<close>

definition handleNGAPMessage :: "'s SCTPProxy \<Rightarrow> bytes \<Rightarrow> ('s, (string, bytes list \<times> uint16) res) proxy_op" where
  "handleNGAPMessage c data =
     (case wrap_err ''parse ngap: '' (ParseNGAPMessage (sp_ngap c) data) of
        Panic \<Rightarrow> State_Monad.return Panic
      | Error e \<Rightarrow> State_Monad.return (Error e)
      | Ok ctx \<Rightarrow>
          if nc_MessageType ctx = 0 \<and> nc_ProcedureCode ctx = ProcedureCodeNGSetup then
            State_Monad.return (rbind (handleNGSetup c) (\<lambda>rs. Ok (rs, 0)))
          else if nc_MessageType ctx = 0 \<and> nc_ProcedureCode ctx = ProcedureCodeInitialUEMessage then do {
            r \<leftarrow> handleInitialUEMessage c ctx;
            State_Monad.return (rbind r (\<lambda>rs. Ok (rs, 1)))
          }
          else if nc_MessageType ctx = 0 \<and> nc_ProcedureCode ctx = ProcedureCodeUplinkNASTransport then do {
            r \<leftarrow> handleUplinkNASTransport c ctx;
            State_Monad.return (rbind r (\<lambda>rs. Ok (rs, 1)))
          }
          else State_Monad.return (Ok ([], 0)))"

subsection \<open>A connection\<close>

text \<open>
  One association with a base station: \<open>SCTPRead\<close> yields a message, or an error that ends the connection; the
  \<open>k\<close>-th \<open>SCTPWrite\<close> of the connection succeeds or not (\<open>wok k\<close>).  The result is what was written (stream, payload
  protocol, message) and how the connection stands after the messages: waiting for the next, closed, or the process
  dead of a panic.
\<close>

datatype conn_end = Waiting | Closed | Crashed

type_synonym sent = "(uint16 \<times> uint32 \<times> bytes) list"

fun write_all :: "(nat \<Rightarrow> bool) \<Rightarrow> nat \<Rightarrow> uint16 \<Rightarrow> bytes list \<Rightarrow> sent \<times> bool" where
  "write_all wok k stream [] = ([], True)"
| "write_all wok k stream (resp # responses) =
     (if wok k then apfst (Cons (stream, 60, resp)) (write_all wok (k + 1) stream responses) else ([], False))"

fun handleConnection :: "'s SCTPProxy \<Rightarrow> (nat \<Rightarrow> bool) \<Rightarrow> nat \<Rightarrow> bytes option list \<Rightarrow> ('s, sent \<times> conn_end) proxy_op" where
  "handleConnection c wok k [] = State_Monad.return ([], Waiting)"
| "handleConnection c wok k (None # reads) = State_Monad.return ([], Closed)"
| "handleConnection c wok k (Some data # reads) = do {
     r \<leftarrow> handleNGAPMessage c data;
     case r of
       Panic \<Rightarrow> State_Monad.return ([], Crashed)
     | Error _ \<Rightarrow> handleConnection c wok k reads
     | Ok (responses, streamID) \<Rightarrow>
         let (out, good) = write_all wok k streamID responses in
         if good then do {
           (more, st) \<leftarrow> handleConnection c wok (k + length responses) reads;
           State_Monad.return (out @ more, st)
         }
         else State_Monad.return (out, Closed)
   }"

subsection \<open>Configuration\<close>

definition env_or :: "(string \<Rightarrow> string) \<Rightarrow> string \<Rightarrow> string \<Rightarrow> string" where
  "env_or getenv k d = (if getenv k = [] then d else getenv k)"

text \<open>\<open>main\<close>: the configuration from the environment, over the transport to a gateway address and the store at a Redis address.\<close>

definition proxy_main ::
  "(string \<Rightarrow> string) \<Rightarrow> (string \<Rightarrow> 's transport) \<Rightarrow> (string \<Rightarrow> 's KVStore) \<Rightarrow> ngap_lib \<Rightarrow> aka_lib \<Rightarrow> f5_nas \<Rightarrow> (string, 's SCTPProxy) res" where
  "proxy_main getenv http redis ngap aka nas =
     rbind (PLMNBytes (env_or getenv ''PLMN_MCC'' ''001'') (env_or getenv ''PLMN_MNC'' ''01'')) (\<lambda>plmn.
       Ok \<lparr>sp_listenAddr = env_or getenv ''SCTP_LISTEN_ADDR'' ''0.0.0.0:38412'',
           sp_backend = NewHTTPBackend (http (env_or getenv ''OPENFAAS_GATEWAY'' ''http://gateway.openfaas:8080/function/'')),
           sp_store = redis (env_or getenv ''REDIS_ADDR'' ''localhost:6379''),
           sp_plmnBytes = plmn, sp_sst = 0x01, sp_sd = fst (hex_decode (env_or getenv ''SNSSAI_SD'' ''010203'')),
           sp_ngap = ngap, sp_aka = aka, sp_nas = nas\<rparr>)"

end
