(* ===== verification/ProxyRuns.thy ===== *)
theory ProxyRuns
  imports SctpProxy Subscriber
begin

text \<open>
  The behaviour of the proxy: what an uplink message does to a UE context, the NAS counts of its downlink messages,
  integrity protection, the invariant of its UE map over any messages, and the absence of panics.
\<close>

section \<open>Weakest preconditions of the proxy's operations\<close>

lemma wp_proxy [wp]:
  "wp (on_world m) Q = (\<lambda>p. wp m (\<lambda>a w. Q a (p\<lparr>px_world := w\<rparr>)) (px_world p))"
  "wp (getUE i) R = (\<lambda>p. R (px_ueMap p i) p)"
  "wp (storeUE i ue) S = (\<lambda>p. S () (p\<lparr>px_ueMap := (px_ueMap p)(i \<mapsto> ue)\<rparr>))"
  "wp allocAMFUeNgapID T = (\<lambda>p. T (px_amfUeNgapIDCounter p + 1) (p\<lparr>px_amfUeNgapIDCounter := px_amfUeNgapIDCounter p + 1\<rparr>))"
  by (simp_all add: fun_eq_iff wp_def on_world_def getUE_def storeUE_def modify_def allocAMFUeNgapID_def Let_def split_beta)

lemma wp_case_sum [wp]: "wp (case x of Inl a \<Rightarrow> f a | Inr b \<Rightarrow> g b) Q = (case x of Inl a \<Rightarrow> wp (f a) Q | Inr b \<Rightarrow> wp (g b) Q)"
  by (cases x) simp_all

section \<open>What an uplink message does to a UE context\<close>

text \<open>The members that an uplink message never changes.\<close>

definition same_identity :: "proxy_UEContext \<Rightarrow> proxy_UEContext \<Rightarrow> bool" where
  "same_identity ue ue' \<longleftrightarrow> pu_SUPI ue' = pu_SUPI ue \<and> pu_AMFUeNgapID ue' = pu_AMFUeNgapID ue \<and> pu_RANUeNgapID ue' = pu_RANUeNgapID ue \<and>
     pu_XRES ue' = pu_XRES ue \<and> pu_KAUSF ue' = pu_KAUSF ue \<and> pu_KNASint ue' = pu_KNASint ue \<and> pu_KNASenc ue' = pu_KNASenc ue \<and>
     pu_UESecCap ue' = pu_UESecCap ue"

text \<open>The transitions of the state of a UE.\<close>

inductive ue_next :: "string \<Rightarrow> string \<Rightarrow> bool" where
  stay: "ue_next s s"
| authenticated: "ue_next UEStateAuthSent UEStateSMCSent"
| registered: "ue_next UEStateSMCSent UEStateRegistered"
| session: "ue_next s UEStatePDUSessionActive"

inductive_cases ue_nextE: "ue_next s t"

text \<open>A reply that carries a NAS message protected with the integrity key and the downlink count of the UE.\<close>

definition sends_protected :: "'s SCTPProxy \<Rightarrow> proxy_UEContext \<Rightarrow> bytes \<Rightarrow> bool" where
  "sends_protected c ue bs \<longleftrightarrow> (\<exists>plain hdr sqn nas.
     hdr \<in> {SecurityHeaderIntegrityProtectedNewCtx, SecurityHeaderIntegrityProtectedCiphered} \<and>
     buildSecurityProtectedNAS (sp_nas c) (pu_KNASint ue) plain hdr sqn (pu_DLCount ue) = Inr nas \<and>
     (BuildDownlinkNASTransport (sp_ngap c) (pu_AMFUeNgapID ue) (pu_RANUeNgapID ue) nas = Inr bs \<or>
      BuildInitialContextSetupRequest (sp_ngap c) (pu_AMFUeNgapID ue) (pu_RANUeNgapID ue) nas (sp_plmnBytes c) (sp_sst c) (sp_sd c) = Inr bs))"

text \<open>A message without a reply changes at most the counters; one with a reply sends one protected message.\<close>

definition uplink_effect :: "'s SCTPProxy \<Rightarrow> proxy_UEContext \<Rightarrow> proxy_UEContext \<times> replies \<Rightarrow> bool" where
  "uplink_effect c ue = (\<lambda>(ue', r). same_identity ue ue' \<and> r \<noteq> Panic \<and>
     (case r of
        Ok (bs # rest) \<Rightarrow> rest = [] \<and> sends_protected c ue bs \<and> pu_DLCount ue' = pu_DLCount ue + 1 \<and>
          pu_State ue' \<noteq> UEStateIdle \<and> pu_State ue' \<noteq> UEStateAuthSent \<and> ue_next (pu_State ue) (pu_State ue')
      | _ \<Rightarrow> pu_State ue' = pu_State ue \<and> (pu_DLCount ue' = pu_DLCount ue \<or> pu_DLCount ue' = pu_DLCount ue + 1)))"

lemma same_identity_refl [simp]: "same_identity ue ue"
  by (simp add: same_identity_def)

lemma sends_protectedI:
  "buildSecurityProtectedNAS (sp_nas c) (pu_KNASint ue) plain hdr sqn (pu_DLCount ue) = Inr nas \<Longrightarrow>
   hdr \<in> {SecurityHeaderIntegrityProtectedNewCtx, SecurityHeaderIntegrityProtectedCiphered} \<Longrightarrow>
   BuildDownlinkNASTransport (sp_ngap c) (pu_AMFUeNgapID ue) (pu_RANUeNgapID ue) nas = Inr bs \<or>
   BuildInitialContextSetupRequest (sp_ngap c) (pu_AMFUeNgapID ue) (pu_RANUeNgapID ue) nas (sp_plmnBytes c) (sp_sst c) (sp_sd c) = Inr bs \<Longrightarrow>
   sends_protected c ue bs"
  unfolding sends_protected_def by blast

lemmas next_states = ue_next.intros [unfolded proxy_states]

lemma handleAuthResponse_effect: "uplink_effect c ue (handleAuthResponse c ue ctx)"
  using decoders_no_panic(3) [of "nc_NASPDU ctx"]
  by (auto simp: uplink_effect_def handleAuthResponse_def Let_def same_identity_def proxy_states wrap_err_def
      split: res.splits sum.splits list.splits intro!: next_states elim!: sends_protectedI)

lemma handleSecurityModeComplete_effect: "wp (handleSecurityModeComplete c ue) (\<lambda>x _. uplink_effect c ue x) w"
  by (auto simp: uplink_effect_def handleSecurityModeComplete_def wp Let_def same_identity_def proxy_states
      split: sum.splits intro!: wp_any next_states elim!: sends_protectedI)

lemma handlePDUSessionEstablishment_effect: "wp (handlePDUSessionEstablishment c ue i pti dnn n) (\<lambda>x _. uplink_effect c ue x) w"
  by (auto simp: uplink_effect_def handlePDUSessionEstablishment_def wp Let_def same_identity_def proxy_states
      split: sum.splits intro!: wp_any next_states elim!: sends_protectedI)

lemma uplink_effect_nop:
  "uplink_effect c ue (ue, Ok [])" "uplink_effect c ue (ue, Error e)"
  by (simp_all add: uplink_effect_def)

lemma handleULNASTransport_effect: "wp (handleULNASTransport c ue ctx) (\<lambda>x _. uplink_effect c ue x) w"
  using decoders_no_panic(5) [of "nc_NASPDU ctx"]
  by (auto simp: handleULNASTransport_def wp Let_def uplink_effect_nop wrap_err_def handlePDUSessionEstablishment_effect split: res.splits)

lemma uplink_dispatch_effect: "wp (uplink_dispatch c ue ctx) (\<lambda>x _. uplink_effect c ue x) w"
  by (simp add: uplink_dispatch_def wp Let_def uplink_effect_nop handleAuthResponse_effect handleSecurityModeComplete_effect
      handleULNASTransport_effect)

lemma uplink_next: "uplink_effect c ue (ue', r) \<Longrightarrow> ue_next (pu_State ue) (pu_State ue')"
  by (auto simp: uplink_effect_def intro: ue_next.stay split: res.splits list.splits)

section \<open>NAS counts\<close>

text \<open>A sequence of uplink messages of one UE, with all messages that are sent in reply.\<close>

fun uplink_run :: "'s SCTPProxy \<Rightarrow> proxy_UEContext \<Rightarrow> NGAPContext list \<Rightarrow> ('s, proxy_UEContext \<times> bytes list) handler" where
  "uplink_run c ue [] = State_Monad.return (ue, [])"
| "uplink_run c ue (ctx # ctxs) = do {
     (ue', r) \<leftarrow> uplink_dispatch c ue ctx;
     (ue'', outs) \<leftarrow> uplink_run c ue' ctxs;
     State_Monad.return (ue'', (case r of Ok out \<Rightarrow> out | _ \<Rightarrow> []) @ outs)
   }"

text \<open>
  An NGAP message to the UE whose NAS message is \<open>header, MAC, sequence number, plain message\<close>, the MAC being the one that the
  library computes under the UE's integrity key and the count \<open>n\<close> over the sequence number and the plain message.
\<close>

definition mac_under :: "'s SCTPProxy \<Rightarrow> proxy_UEContext \<Rightarrow> uint32 \<Rightarrow> bytes \<Rightarrow> bool" where
  "mac_under c ue n bs \<longleftrightarrow> (\<exists>hdr mac sqn plain nas.
     f5_NASMacCalculate (sp_nas c) AlgIntegrity128NIA2 (key_array (pu_KNASint ue)) n Bearer3GPP DirectionDownlink (sqn # plain) = Inr mac \<and>
     nas = [EPD5GMM, hdr] @ mac @ [sqn] @ plain \<and>
     (BuildDownlinkNASTransport (sp_ngap c) (pu_AMFUeNgapID ue) (pu_RANUeNgapID ue) nas = Inr bs \<or>
      BuildInitialContextSetupRequest (sp_ngap c) (pu_AMFUeNgapID ue) (pu_RANUeNgapID ue) nas (sp_plmnBytes c) (sp_sst c) (sp_sd c) = Inr bs))"

lemma sends_protected_mac: "sends_protected c ue bs \<Longrightarrow> pu_KNASint ue \<noteq> [] \<Longrightarrow> mac_under c ue (pu_DLCount ue) bs"
proof -
  assume "sends_protected c ue bs" and k: "pu_KNASint ue \<noteq> []"
  then obtain plain hdr sqn nas
    where nas: "buildSecurityProtectedNAS (sp_nas c) (pu_KNASint ue) plain hdr sqn (pu_DLCount ue) = Inr nas"
      and out: "BuildDownlinkNASTransport (sp_ngap c) (pu_AMFUeNgapID ue) (pu_RANUeNgapID ue) nas = Inr bs \<or>
        BuildInitialContextSetupRequest (sp_ngap c) (pu_AMFUeNgapID ue) (pu_RANUeNgapID ue) nas (sp_plmnBytes c) (sp_sst c) (sp_sd c) = Inr bs"
    unfolding sends_protected_def by blast
  from nas k obtain mac where "f5_NASMacCalculate (sp_nas c) AlgIntegrity128NIA2 (key_array (pu_KNASint ue)) (pu_DLCount ue) Bearer3GPP
      DirectionDownlink (sqn # plain) = Inr mac" and "nas = [EPD5GMM, hdr] @ mac @ [sqn] @ plain"
    by (auto simp: buildSecurityProtectedNAS_def split: sum.splits)
  with out show "mac_under c ue (pu_DLCount ue) bs" unfolding mac_under_def by blast
qed

lemma mac_under_same: "same_identity ue ue' \<Longrightarrow> mac_under c ue' = mac_under c ue"
  by (simp add: fun_eq_iff mac_under_def same_identity_def)

text \<open>Counts that move forward from \<open>d\<close> by less than \<open>n\<close>.\<close>

definition counts_from :: "uint32 \<Rightarrow> nat \<Rightarrow> uint32 list \<Rightarrow> bool" where
  "counts_from d n cs \<longleftrightarrow> (\<exists>is. cs = map (\<lambda>i. d + of_nat i) is \<and> sorted_wrt (<) is \<and> (\<forall>i \<in> set is. i < n))"

lemma counts_fromI: "cs = map (\<lambda>i. d + of_nat i) js \<Longrightarrow> sorted_wrt (<) js \<Longrightarrow> \<forall>i \<in> set js. i < n \<Longrightarrow> counts_from d n cs"
  by (auto simp: counts_from_def)

lemma counts_from_weaken: "counts_from d n cs \<Longrightarrow> counts_from d (Suc n) cs"
  by (force simp: counts_from_def intro: less_SucI)

lemma counts_from_shift:
  assumes "counts_from (d + 1) n cs"
  shows "counts_from d (Suc n) cs" "counts_from d (Suc n) (d # cs)"
proof -
  obtain js where js: "cs = map (\<lambda>i. d + 1 + of_nat i) js" "sorted_wrt (<) js" "\<forall>i \<in> set js. i < n"
    using assms by (auto simp: counts_from_def)
  have m: "cs = map (\<lambda>i. d + of_nat i) (map Suc js)"
    unfolding js(1) map_map by (rule map_cong) (simp_all add: add.assoc)
  have s: "sorted_wrt (<) (map Suc js)" using js(2) by (simp add: sorted_wrt_map)
  show "counts_from d (Suc n) cs" by (rule counts_fromI [OF m s]) (use js(3) in simp)
  show "counts_from d (Suc n) (d # cs)"
    by (rule counts_fromI [of _ _ "0 # map Suc js"]) (use js(3) s m in simp_all)
qed

text \<open>What a run of \<open>n\<close> messages sends, protected under counts that move forward from the one of the UE.\<close>

definition protected_from :: "'s SCTPProxy \<Rightarrow> proxy_UEContext \<Rightarrow> nat \<Rightarrow> bytes list \<Rightarrow> bool" where
  "protected_from c ue n outs \<longleftrightarrow> (\<exists>cs. counts_from (pu_DLCount ue) n cs \<and> list_all2 (mac_under c ue) cs outs)"

lemma protected_from_step:
  assumes "uplink_effect c ue (ue', r)" "pu_KNASint ue \<noteq> []" "protected_from c ue' n outs"
  shows "protected_from c ue (Suc n) ((case r of Ok out \<Rightarrow> out | _ \<Rightarrow> []) @ outs)"
proof -
  have same: "same_identity ue ue'" using assms(1) by (simp add: uplink_effect_def)
  obtain cs where cs: "counts_from (pu_DLCount ue') n cs" "list_all2 (mac_under c ue) cs outs"
    using assms(3) by (auto simp: protected_from_def mac_under_same [OF same])
  show ?thesis
  proof (cases "\<exists>bs rest. r = Ok (bs # rest)")
    case True
    then obtain bs rest where r: "r = Ok (bs # rest)" by blast
    have e: "rest = []" "sends_protected c ue bs" "pu_DLCount ue' = pu_DLCount ue + 1"
      using assms(1) by (simp_all add: uplink_effect_def r)
    have "counts_from (pu_DLCount ue) (Suc n) (pu_DLCount ue # cs)" using cs(1) e(3) counts_from_shift(2) by simp
    moreover have "list_all2 (mac_under c ue) (pu_DLCount ue # cs) (bs # outs)"
      using cs(2) sends_protected_mac [OF e(2) assms(2)] by simp
    ultimately show ?thesis unfolding protected_from_def r e(1) by auto
  next
    case False
    then have o: "(case r of Ok out \<Rightarrow> out | _ \<Rightarrow> []) = []" by (cases "case r of Ok out \<Rightarrow> out | _ \<Rightarrow> []") (auto split: res.splits)
    have "pu_DLCount ue' = pu_DLCount ue \<or> pu_DLCount ue' = pu_DLCount ue + 1"
      using assms(1) False by (auto simp: uplink_effect_def split: res.splits list.splits)
    then have "counts_from (pu_DLCount ue) (Suc n) cs" using cs(1) counts_from_shift(1) counts_from_weaken by auto
    with cs(2) show ?thesis unfolding protected_from_def o by auto
  qed
qed

lemma same_identity_trans: "same_identity ue ue' \<Longrightarrow> same_identity ue' ue'' \<Longrightarrow> same_identity ue ue''"
  by (simp add: same_identity_def)

lemma uplink_run_counts:
  "pu_KNASint ue \<noteq> [] \<Longrightarrow>
   wp (uplink_run c ue ctxs) (\<lambda>(ue', outs) _. same_identity ue ue' \<and> protected_from c ue (length ctxs) outs) w"
proof (induction ctxs arbitrary: ue w)
  case Nil
  then show ?case by (auto simp: wp protected_from_def counts_from_def)
next
  case (Cons ctx ctxs)
  have step: "same_identity ue ue'' \<and> protected_from c ue (Suc (length ctxs)) ((case r of Ok out \<Rightarrow> out | _ \<Rightarrow> []) @ outs)"
    if "uplink_effect c ue (ue', r)" "same_identity ue' ue''" "protected_from c ue' (length ctxs) outs" for ue' r ue'' outs
    using that protected_from_step [OF that(1) Cons.prems that(3)] same_identity_trans [of ue ue' ue'']
    by (simp add: uplink_effect_def)
  have key: "pu_KNASint ue' \<noteq> []" if "uplink_effect c ue (ue', r)" for ue' r
    using that Cons.prems by (simp add: uplink_effect_def same_identity_def)
  show ?case
    by (auto simp: wp intro!: wp_mono [OF uplink_dispatch_effect] wp_mono [OF Cons.IH [OF key]] dest: step)
qed

lemma counts_distinct: "counts_from d n cs \<Longrightarrow> n \<le> 2 ^ 32 \<Longrightarrow> distinct cs"
proof -
  assume "counts_from d n cs" and n: "n \<le> 2 ^ 32"
  then obtain js where js: "cs = map (\<lambda>i. d + of_nat i) js" "sorted_wrt (<) js" "\<forall>i \<in> set js. i < n"
    by (auto simp: counts_from_def)
  have "inj_on (\<lambda>i. d + of_nat i) (set js)"
  proof (rule inj_onI)
    fix x y
    assume xy: "x \<in> set js" "y \<in> set js" "d + of_nat x = d + of_nat y"
    then have "unat (of_nat x :: uint32) = unat (of_nat y :: uint32)" by simp
    moreover have "x < 2 ^ 32" "y < 2 ^ 32" using js(3) xy(1,2) n by fastforce+
    ultimately show "x = y" by (simp add: unat_of_nat)
  qed
  with js(1,2) show ?thesis by (simp add: distinct_map strict_sorted_iff)
qed

text \<open>C12: no NAS count is used twice: over any sequence of fewer than $2^{32}$ uplink messages of a UE that has an integrity key,
  whatever they hold and whatever the core answers, every message that the proxy sends is an NGAP message to the UE whose NAS message
  carries a MAC computed under the UE's integrity key and a downlink count of its own, different from the counts of all the other
  messages; the integrity key, the ciphering key and KAUSF stay the same.\<close>

theorem nas_counts_distinct:
  assumes "length ctxs < 2 ^ 32" "pu_KNASint ue \<noteq> []" "run_state (uplink_run c ue ctxs) w = ((ue', outs), w')"
  shows "(\<exists>cs. distinct cs \<and> list_all2 (mac_under c ue) cs outs) \<and>
    pu_KNASint ue' = pu_KNASint ue \<and> pu_KNASenc ue' = pu_KNASenc ue \<and> pu_KAUSF ue' = pu_KAUSF ue"
proof -
  have r: "same_identity ue ue'" "protected_from c ue (length ctxs) outs"
    using wpD [OF uplink_run_counts [OF assms(2)] assms(3)] by simp_all
  obtain cs where "counts_from (pu_DLCount ue) (length ctxs) cs" "list_all2 (mac_under c ue) cs outs"
    using r(2) by (auto simp: protected_from_def)
  moreover from this(1) have "distinct cs" by (rule counts_distinct) (use assms(1) in simp)
  ultimately show ?thesis using r(1) by (auto simp: same_identity_def)
qed


section \<open>Integrity protection\<close>

text \<open>What the NAS library documents of its MAC: four bytes.\<close>

definition mac_documented :: "f5_nas \<Rightarrow> bool" where
  "mac_documented nas \<longleftrightarrow> (\<forall>alg k n b d m mac. f5_NASMacCalculate nas alg k n b d m = Inr mac \<longrightarrow> length mac = 4)"

text \<open>C26: what the proxy protects, the receiver gets back: stripping the security header of a protected message yields the plain message;
  and under an integrity key, the bytes 2 to 5 are the MAC that the receiver computes over the sequence number and the
  message that follow, with the downlink count of the sender.\<close>

theorem protected_nas_roundtrip:
  assumes "mac_documented nas" "buildSecurityProtectedNAS nas k plain hdr sqn n = Inr out"
    and "hdr AND 0x0F \<noteq> 0" "plain \<noteq> []"
  shows "StripSecurityHeader out = Ok plain \<and> length out = 7 + length plain \<and> out ! 6 = sqn \<and>
    (k \<noteq> [] \<longrightarrow> f5_NASMacCalculate nas AlgIntegrity128NIA2 (key_array k) n Bearer3GPP DirectionDownlink (drop 6 out) = Inr (take 4 (drop 2 out)))"
proof (cases "k = []")
  case True
  then show ?thesis
    using assms by (auto simp: buildSecurityProtectedNAS_def WrapSecurityHeader_def StripSecurityHeader_def nas_consts)
next
  case False
  then obtain mac where mac: "f5_NASMacCalculate nas AlgIntegrity128NIA2 (key_array k) n Bearer3GPP DirectionDownlink (sqn # plain) = Inr mac"
    "out = [EPD5GMM, hdr] @ mac @ [sqn] @ plain" "length mac = 4"
    using assms(1,2) by (auto simp: buildSecurityProtectedNAS_def mac_documented_def split: sum.splits)
  then obtain a b c d where "mac = [a, b, c, d]"
    by (auto simp: numeral_eq_Suc length_Suc_conv)
  with mac assms(3,4) show ?thesis
    by (simp add: StripSecurityHeader_def nas_consts)
qed

section \<open>Authentication\<close>

text \<open>C27: the proxy does not act on the RES* of a UE: with any authentication response that decodes the UE proceeds to the Security Mode
  Command in the same way, whatever RES* it holds and whatever XRES* the core stored.\<close>

theorem res_star_not_enforced:
  assumes "DecodeAuthenticationResponse (nc_NASPDU ctx) = Ok res1" "DecodeAuthenticationResponse (nc_NASPDU ctx') = Ok res2"
  shows "handleAuthResponse c (ue\<lparr>pu_XRES := x\<rparr>) ctx = apfst (\<lambda>u. u\<lparr>pu_XRES := x\<rparr>) (handleAuthResponse c ue ctx')"
  using assms by (simp add: handleAuthResponse_def smc_message_def Let_def split: sum.splits)

section \<open>Identities\<close>

lemma ie_loop_keeps:
  assumes "\<And>t v m m'. on_ie t v m = Ok m' \<Longrightarrow> P m \<Longrightarrow> P m'"
  shows "P m \<Longrightarrow> ie_loop on_ie data offset m = Ok m' \<Longrightarrow> P m'"
proof (induction offset m rule: offset_induct [where data = data])
  case (step offset m)
  from step(2,3) show ?case
    by (auto simp: ie_loop.simps [of on_ie data offset m] Let_def rbind_eq_Ok split: if_splits)
      (rule step(1) [OF _ _ assms], auto)
qed

lemma identity_length: "decode_identity v = Ok x \<Longrightarrow> 5 \<le> length (mi_Value x)"
  by (auto simp: decode_identity_def decodeSUCI_def decodeGUTI_def Let_def rbind_eq_Ok split: if_splits)

lemma registration_supi_length: "DecodeRegistrationRequest data = Ok r \<Longrightarrow> 5 \<le> length (mi_Value (rr_MobileIdentity r))"
  by (auto simp: DecodeRegistrationRequest_def Let_def rbind_eq_Ok registration_ie_def dest: identity_length split: if_splits
      elim!: ie_loop_keeps [where P = "\<lambda>m. 5 \<le> length (mi_Value (rr_MobileIdentity m))", rotated 2])

section \<open>A new UE context\<close>

definition keyed :: "proxy_UEContext \<Rightarrow> bool" where
  "keyed ue \<longleftrightarrow> pu_KNASint ue = [] \<or> length (pu_KNASint ue) = 16"

definition fresh_ue :: "int64 \<Rightarrow> int64 \<Rightarrow> proxy_UEContext \<Rightarrow> bool" where
  "fresh_ue i amf ue \<longleftrightarrow> pu_RANUeNgapID ue = i \<and> pu_AMFUeNgapID ue = amf \<and> pu_DLCount ue = 0 \<and> pu_DLSeqNum ue = 0 \<and>
     pu_State ue \<in> {UEStateIdle, UEStateAuthSent} \<and> keyed ue"

lemma last16_length: "last16 v = Ok x \<Longrightarrow> length x = 16"
  by (auto simp: last16_def split: if_splits)

lemma derive_nas_keys_fresh: "derive_nas_keys lib ue = Ok ue' \<Longrightarrow> fresh_ue i amf ue \<Longrightarrow> fresh_ue i amf ue'"
  by (auto simp: derive_nas_keys_def rbind_eq_Ok DeriveKNASKeys_def fresh_ue_def keyed_def orLog_eq_Ok
      dest: last16_length split: if_splits)

lemma derive_nas_keys_no_panic:
  assumes "aka_documented lib" "5 \<le> length (pu_SUPI ue)"
  shows "derive_nas_keys lib ue \<noteq> Panic"
proof -
  have last: "GetKDFValue lib k fc ps = Inr v \<Longrightarrow> last16 v \<noteq> Panic" for k fc ps v
    using assms(1) by (auto simp: aka_documented_def last16_def)
  have keys: "DeriveKNASKeys lib kamf a b \<noteq> Panic" for kamf a b
    by (auto simp: DeriveKNASKeys_def lift_err_def rbind_eq_Panic last split: sum.splits)
  have kdf: "DeriveKSEAF lib k snn \<noteq> Panic" "DeriveKAMF lib k d x \<noteq> Panic" for k snn d x
    by (auto simp: DeriveKSEAF_def DeriveKAMF_def lift_err_def Let_def split: sum.splits)
  have "orLog (DeriveKSEAF lib k snn) ue (\<lambda>kseaf. orLog (DeriveKAMF lib kseaf d x) ue (\<lambda>kamf.
      orLog (DeriveKNASKeys lib kamf a b) ue (\<lambda>(e, i). Ok (f e i)))) \<noteq> Panic" for k snn d x a b f
    by (intro orLog_neq_Panic kdf keys) (simp split: prod.splits)
  then show ?thesis using assms(2) by (simp add: derive_nas_keys_def)
qed

text \<open>The proxy's state after an initial UE message.\<close>

definition has_fresh :: "int64 \<Rightarrow> int64 \<Rightarrow> (int64 \<rightharpoonup> proxy_UEContext) \<Rightarrow> 's proxy \<Rightarrow> bool" where
  "has_fresh i amf m p \<longleftrightarrow> px_amfUeNgapIDCounter p = amf \<and> (\<exists>ue. px_ueMap p = m(i \<mapsto> ue) \<and> fresh_ue i amf ue)"

definition initial_effect :: "int64 \<Rightarrow> 's proxy \<Rightarrow> 's proxy \<Rightarrow> bool" where
  "initial_effect i p p' \<longleftrightarrow> px_ueMap p' = px_ueMap p \<and> px_amfUeNgapIDCounter p' = px_amfUeNgapIDCounter p \<or>
     has_fresh i (px_amfUeNgapIDCounter p + 1) (px_ueMap p) p'"

lemma new_proxy_UE_fresh [simp]: "fresh_ue i amf (new_proxy_UE supi amf i cap)"
  "fresh_ue i amf (ue\<lparr>pu_XRES := x, pu_KAUSF := k\<rparr>) \<longleftrightarrow> fresh_ue i amf ue"
  "fresh_ue i amf ue \<Longrightarrow> fresh_ue i amf (ue\<lparr>pu_State := UEStateAuthSent\<rparr>)"
  by (simp_all add: fresh_ue_def new_proxy_UE_def keyed_def)

lemma has_fresh_store:
  "has_fresh i amf m p \<Longrightarrow> fresh_ue i amf ue \<Longrightarrow> has_fresh i amf m (p\<lparr>px_ueMap := (px_ueMap p)(i \<mapsto> ue)\<rparr>)"
  by (auto simp: has_fresh_def)

lemma send_challenge_effect:
  assumes "fresh_ue i amf ue" "has_fresh i amf m q"
  shows "wp (send_challenge c i ue a) (\<lambda>_. has_fresh i amf m) q"
  using assms
  by (auto simp: send_challenge_def wp intro: has_fresh_store dest!: derive_nas_keys_fresh split: res.splits sum.splits)

lemma handleInitialUEMessage_effect:
  fixes p :: "'s proxy"
  shows "wp (handleInitialUEMessage c ctx) (\<lambda>_ p'. initial_effect (nc_RANUeNgapID ctx) p p') p"
proof -
  let ?P = "\<lambda>q :: 's proxy. has_fresh (nc_RANUeNgapID ctx) (px_amfUeNgapIDCounter p + 1) (px_ueMap p) q"
  have start: "?P (p\<lparr>px_amfUeNgapIDCounter := px_amfUeNgapIDCounter p + 1,
      px_ueMap := (px_ueMap p)(nc_RANUeNgapID ctx \<mapsto> new_proxy_UE supi (px_amfUeNgapIDCounter p + 1) (nc_RANUeNgapID ctx) cap), px_world := w\<rparr>)"
    for supi cap w by (auto simp: has_fresh_def)
  have send: "wp (send_challenge c (nc_RANUeNgapID ctx) ue a) (\<lambda>_ p'. initial_effect (nc_RANUeNgapID ctx) p p') q"
    if "fresh_ue (nc_RANUeNgapID ctx) (px_amfUeNgapIDCounter p + 1) ue" "?P q" for ue a q
    by (rule wp_mono [OF send_challenge_effect [OF that]]) (simp add: initial_effect_def)
  have stop: "initial_effect (nc_RANUeNgapID ctx) p p" "?P q \<Longrightarrow> initial_effect (nc_RANUeNgapID ctx) p q" for q
    by (simp_all add: initial_effect_def)
  show ?thesis
    by (auto simp: handleInitialUEMessage_def wp Let_def stop split: res.splits sum.splits
      intro!: wp_any [where m = "be_AuthInitiate (sp_backend c) supi" for supi] wp_any [where m = "kvGet kv k d z" for kv k d z]
        send start stop)
qed

section \<open>Runs\<close>

text \<open>The states that NGAP messages of any base station, in any order, lead to, as long as the 64-bit id counter has not run out.\<close>

inductive px_reach :: "'s SCTPProxy \<Rightarrow> 's proxy \<Rightarrow> bool" for c where
  start: "px_reach c (new_proxy w)"
| message: "px_reach c p \<Longrightarrow> px_amfUeNgapIDCounter p \<noteq> - 1 \<Longrightarrow> run_state (handleNGAPMessage c data) p = (r, p') \<Longrightarrow> px_reach c p'"
| core: "px_reach c p \<Longrightarrow> px_reach c (p\<lparr>px_world := w\<rparr>)"

inductive_cases px_reachE: "px_reach c p"

definition ue_entry_ok :: "int64 \<Rightarrow> int64 \<Rightarrow> proxy_UEContext \<Rightarrow> bool" where
  "ue_entry_ok counter i ue \<longleftrightarrow> pu_RANUeNgapID ue = i \<and> keyed ue \<and>
     pu_State ue \<in> {UEStateIdle, UEStateAuthSent, UEStateSMCSent, UEStateRegistered, UEStatePDUSessionActive} \<and>
     pu_AMFUeNgapID ue \<noteq> 0 \<and> pu_AMFUeNgapID ue \<le> counter"

definition px_inv :: "'s proxy \<Rightarrow> bool" where
  "px_inv p \<longleftrightarrow> (\<forall>i ue. px_ueMap p i = Some ue \<longrightarrow> ue_entry_ok (px_amfUeNgapIDCounter p) i ue) \<and>
     (\<forall>i j ue ue'. px_ueMap p i = Some ue \<and> px_ueMap p j = Some ue' \<and> pu_AMFUeNgapID ue = pu_AMFUeNgapID ue' \<longrightarrow> i = j)"

lemma px_inv_initial:
  assumes "px_inv p" "initial_effect i p p'" "px_amfUeNgapIDCounter p \<noteq> - 1"
  shows "px_inv p'"
proof -
  let ?n = "px_amfUeNgapIDCounter p"
  have n: "?n < ?n + 1" "?n + 1 \<noteq> 0"
    using assms(3) unatSuc [of ?n] by (simp_all add: word_less_nat_alt add.commute add_eq_0_iff)
  have le: "x \<le> ?n \<Longrightarrow> x \<le> ?n + 1 \<and> x \<noteq> ?n + 1" for x using n(1) by auto
  from assms(2) consider "px_ueMap p' = px_ueMap p" "px_amfUeNgapIDCounter p' = ?n"
    | ue where "px_amfUeNgapIDCounter p' = ?n + 1" "px_ueMap p' = (px_ueMap p)(i \<mapsto> ue)" "fresh_ue i (?n + 1) ue"
    by (auto simp: initial_effect_def has_fresh_def)
  then show ?thesis
  proof cases
    case 1
    then show ?thesis using assms(1) by (simp add: px_inv_def)
  next
    case 2
    have new: "ue_entry_ok (?n + 1) i ue" using 2(3) n(2) by (auto simp: ue_entry_ok_def fresh_ue_def)
    have old: "ue_entry_ok (?n + 1) j u \<and> pu_AMFUeNgapID u \<noteq> pu_AMFUeNgapID ue" if "px_ueMap p j = Some u" for j u
      using assms(1) that le [of "pu_AMFUeNgapID u"] 2(3) by (auto simp: px_inv_def ue_entry_ok_def fresh_ue_def)
    show ?thesis
      unfolding px_inv_def 2(1,2) using assms(1) new old by (auto simp: px_inv_def) metis+
  qed
qed

lemma px_inv_update:
  assumes "px_inv p" "px_ueMap p i = Some ue" "uplink_effect c ue (ue', r)"
  shows "px_inv (p\<lparr>px_world := w, px_ueMap := (px_ueMap p)(i \<mapsto> ue')\<rparr>)"
proof -
  have s: "same_identity ue ue'" using assms(3) by (simp add: uplink_effect_def)
  have old: "ue_entry_ok (px_amfUeNgapIDCounter p) i ue" using assms(1,2) by (simp add: px_inv_def)
  have "ue_entry_ok (px_amfUeNgapIDCounter p) i ue'"
    using s old uplink_next [OF assms(3)] by (auto simp: ue_entry_ok_def same_identity_def keyed_def elim!: ue_nextE)
  with assms(1,2) s show ?thesis by (auto simp: px_inv_def same_identity_def)
qed

lemma handleUplinkNASTransport_inv:
  assumes "px_inv p"
  shows "wp (handleUplinkNASTransport c ctx) (\<lambda>_. px_inv) p"
  using assms
  by (auto simp: handleUplinkNASTransport_def wp split: option.splits res.splits
      intro!: wp_mono [OF uplink_dispatch_effect] intro: px_inv_update)

lemma handleNGAPMessage_inv:
  assumes "px_inv p" "px_amfUeNgapIDCounter p \<noteq> - 1"
  shows "wp (handleNGAPMessage c data) (\<lambda>_. px_inv) p"
  using assms px_inv_initial
  by (auto simp: handleNGAPMessage_def wp split: res.splits
      intro!: wp_mono [OF handleInitialUEMessage_effect] handleUplinkNASTransport_inv)

lemma px_inv_world [simp]: "px_inv (p\<lparr>px_world := w\<rparr>) \<longleftrightarrow> px_inv p"
  by (simp add: px_inv_def)

lemma px_inv_new [simp]: "px_inv (new_proxy w)"
  by (simp add: px_inv_def new_proxy_def)

lemma px_reach_inv: "px_reach c p \<Longrightarrow> px_inv p"
  by (induction rule: px_reach.induct) (auto dest: wpD [OF handleNGAPMessage_inv])

text \<open>C6: in every state that NGAP messages of the base stations lead to, in any order and with any answers of the core, each UE context is
  found under its own RAN-UE-NGAP-ID, has an AMF-UE-NGAP-ID that no other UE context has, is in one of the five states,
  and has either no integrity key or one of 16 bytes.\<close>

theorem proxy_invariant:
  assumes "px_reach c p"
  shows "(\<forall>i ue. px_ueMap p i = Some ue \<longrightarrow> pu_RANUeNgapID ue = i \<and> (pu_KNASint ue = [] \<or> length (pu_KNASint ue) = 16) \<and>
      pu_State ue \<in> {''IDLE'', ''AUTH_SENT'', ''SMC_SENT'', ''REGISTERED'', ''PDU_SESSION_ACTIVE''}) \<and>
    (\<forall>i j ue ue'. px_ueMap p i = Some ue \<and> px_ueMap p j = Some ue' \<and> pu_AMFUeNgapID ue = pu_AMFUeNgapID ue' \<longrightarrow> i = j)"
  using px_reach_inv [OF assms] by (auto simp: px_inv_def ue_entry_ok_def keyed_def proxy_states)

section \<open>Panics\<close>

text \<open>A backend whose challenges are long enough, in every state of the core.\<close>

definition challenges_ok :: "'s CoreBackend \<Rightarrow> bool" where
  "challenges_ok be \<longleftrightarrow> (\<forall>supi w. wp (be_AuthInitiate be supi) (\<lambda>a _. \<forall>resp. a = Inr resp \<longrightarrow>
     16 \<le> length (fst (hex_decode (pa_RAND resp))) \<and> 16 \<le> length (fst (hex_decode (pa_AUTN resp)))) w)"

lemma send_challenge_no_panic:
  assumes "aka_documented (sp_aka c)" "5 \<le> length (pu_SUPI ue)"
    and "16 \<le> length (fst (hex_decode (pa_RAND a)))" "16 \<le> length (fst (hex_decode (pa_AUTN a)))"
  shows "wp (send_challenge c i ue a) (\<lambda>r _. r \<noteq> Panic) p"
  using derive_nas_keys_no_panic [OF assms(1,2)] assms(3,4)
  by (auto simp: send_challenge_def EncodeAuthenticationRequest_def wp split: res.splits sum.splits)

lemma handleInitialUEMessage_no_panic:
  assumes "aka_documented (sp_aka c)" "challenges_ok (sp_backend c)"
  shows "wp (handleInitialUEMessage c ctx) (\<lambda>r _. r \<noteq> Panic) p"
proof -
  have len: "5 \<le> length (mi_Value (rr_MobileIdentity r))"
    if "wrap_err e (DecodeRegistrationRequest (nc_NASPDU ctx)) = Ok r" for e r
    using that registration_supi_length by (auto simp: wrap_err_def split: res.splits)
  have ch: "wp (be_AuthInitiate (sp_backend c) supi) (\<lambda>a _. \<forall>resp. a = Inr resp \<longrightarrow>
     16 \<le> length (fst (hex_decode (pa_RAND resp))) \<and> 16 \<le> length (fst (hex_decode (pa_AUTN resp)))) w" for supi w
    using assms(2) by (simp add: challenges_ok_def)
  show ?thesis
    using decoders_no_panic(1) [of "nc_NASPDU ctx"] 
    by (auto simp: handleInitialUEMessage_def wp Let_def new_proxy_UE_def split: res.splits sum.splits intro: len
      intro!: wp_mono [OF ch] wp_any [where m = "kvGet kv k d z" for kv k d z] send_challenge_no_panic [OF assms(1)])
      (use len in simp_all)
qed

lemma handleUplinkNASTransport_no_panic: "wp (handleUplinkNASTransport c ctx) (\<lambda>r _. r \<noteq> Panic) p"
  using decoders_no_panic(6) [of "nc_NASPDU ctx"]
  by (auto simp: handleUplinkNASTransport_def wp uplink_effect_def split: option.splits res.splits
      intro!: wp_mono [OF uplink_dispatch_effect])

lemma parse_no_panic: "ParseNGAPMessage lib data \<noteq> Panic"
  by (auto simp: ParseNGAPMessage_def parse_pdu_def Let_def lift_err_def split: sum.splits NGAPPDUPresent.splits option.splits)

lemma handleNGAPMessage_no_panic:
  assumes "aka_documented (sp_aka c)" "challenges_ok (sp_backend c)"
  shows "wp (handleNGAPMessage c data) (\<lambda>r _. r \<noteq> Panic) p"
proof -
  have ng: "handleNGSetup c \<noteq> Panic" by (simp add: handleNGSetup_def one_reply_def lift_err_def split: sum.splits)
  show ?thesis
    using parse_no_panic [of "sp_ngap c" data] ng
    by (auto simp: handleNGAPMessage_def wp rbind_eq_Panic split: res.splits
        intro!: wp_mono [OF handleInitialUEMessage_no_panic [OF assms(1,2)]] wp_mono [OF handleUplinkNASTransport_no_panic])
qed

section \<open>Connections\<close>

text \<open>A message allocates at most one id, and is answered on stream 0 or 1.\<close>

lemma handleNGAPMessage_counter:
  "wp (handleNGAPMessage c data) (\<lambda>r p'. px_amfUeNgapIDCounter p' \<in> {px_amfUeNgapIDCounter p, px_amfUeNgapIDCounter p + 1}) p"
proof -
  have up: "wp (handleUplinkNASTransport c ctx) (\<lambda>r p'. px_amfUeNgapIDCounter p' = px_amfUeNgapIDCounter p) p" for ctx
    by (auto simp: handleUplinkNASTransport_def wp split_beta split: option.splits res.splits
        intro!: wp_any [where m = "uplink_dispatch c ue x" for ue x])
  show ?thesis
    by (auto simp: handleNGAPMessage_def wp initial_effect_def has_fresh_def split: res.splits
        intro!: wp_mono [OF handleInitialUEMessage_effect] wp_mono [OF up])
qed

lemma handleNGAPMessage_stream:
  "wp (handleNGAPMessage c data) (\<lambda>r _. \<forall>out s. r = Ok (out, s) \<longrightarrow> s \<in> {0, 1}) p"
  by (auto simp: handleNGAPMessage_def wp rbind_eq_Ok split: res.splits
      intro!: wp_any [where m = "handleInitialUEMessage c x" for x] wp_any [where m = "handleUplinkNASTransport c x" for x])

definition ngap_write :: "uint16 \<times> uint32 \<times> bytes \<Rightarrow> bool" where
  "ngap_write x \<longleftrightarrow> fst x \<in> {0, 1} \<and> fst (snd x) = 60"

lemma write_all_ngap: "s \<in> {0, 1} \<Longrightarrow> list_all ngap_write (fst (write_all wok k s rs))"
  by (induction rs arbitrary: k) (auto simp: ngap_write_def)

definition conn_ok :: "sent \<times> conn_end \<Rightarrow> 's proxy \<Rightarrow> bool" where
  "conn_ok x p \<longleftrightarrow> px_inv p \<and> list_all ngap_write (fst x) \<and> snd x \<noteq> Crashed"

lemma handleConnection_ok:
  assumes "aka_documented (sp_aka c)" "challenges_ok (sp_backend c)"
  shows "px_inv p \<Longrightarrow> unat (px_amfUeNgapIDCounter p) + length reads < 2 ^ 64 \<Longrightarrow> wp (handleConnection c wok k reads) conn_ok p"
proof (induction reads arbitrary: p k)
  case Nil
  then show ?case by (simp add: wp conn_ok_def)
next
  case (Cons x reads)
  show ?case
  proof (cases x)
    case None
    with Cons show ?thesis by (simp add: wp conn_ok_def)
  next
    case (Some data)
    let ?n = "px_amfUeNgapIDCounter p"
    have n: "?n \<noteq> - 1" using Cons.prems(2) by (auto simp: unsigned_minus_1_eq_mask mask_eq_exp_minus_1)
    then have "unat (1 + ?n) = Suc (unat ?n)" by (intro unatSuc) (simp add: add_eq_0_iff)
    then have bound: "unat m + length reads < 2 ^ 64" if "m \<in> {?n, ?n + 1}" for m
      using that Cons.prems(2) by (auto simp: add.commute)
    have rest: "wp (handleConnection c wok k' reads) conn_ok q" if "px_inv q" "px_amfUeNgapIDCounter q \<in> {?n, ?n + 1}" for q k'
      using that Cons.IH bound by blast
    have more: "wp (handleConnection c wok k' reads) (\<lambda>x. conn_ok (out @ fst x, snd x)) q"
      if "list_all ngap_write out" "px_inv q" "px_amfUeNgapIDCounter q \<in> {?n, ?n + 1}" for out q k'
      by (rule wp_mono [OF rest [OF that(2,3)]]) (use that(1) in \<open>simp add: conn_ok_def\<close>)
    note step = wp_conj [OF handleNGAPMessage_inv [OF Cons.prems(1) n] wp_conj [OF handleNGAPMessage_no_panic [OF assms]
      wp_conj [OF handleNGAPMessage_counter handleNGAPMessage_stream]]]
    show ?thesis
      unfolding Some handleConnection.simps wp_basic
      by (rule wp_mono [OF step])
        (auto simp: wp split_beta write_all_ngap conn_ok_def [of "(x, Closed)" for x] split: res.splits intro!: rest more)
  qed
qed

text \<open>C11: no base station can take the proxy down or corrupt its state: as long as the core's challenges hold 16 bytes each of RAND and
  AUTN, a connection over which any messages arrive, in whatever reachable state it starts, never ends in a panic, writes
  only NGAP payloads (protocol identifier 60) on streams 0 and 1, and leaves UE contexts under their own RAN ids with unique AMF ids.\<close>

theorem connection_safe:
  assumes "aka_documented (sp_aka c)" "challenges_ok (sp_backend c)" "px_reach c p"
    and "unat (px_amfUeNgapIDCounter p) + length reads < 2 ^ 64"
    and "run_state (handleConnection c wok 0 reads) p = ((out, st), p')"
  shows "st \<noteq> Crashed \<and> (\<forall>(stream, ppid, bs) \<in> set out. stream \<in> {0, 1} \<and> ppid = 60) \<and>
    (\<forall>i ue. px_ueMap p' i = Some ue \<longrightarrow> pu_RANUeNgapID ue = i) \<and>
    (\<forall>i j ue ue'. px_ueMap p' i = Some ue \<and> px_ueMap p' j = Some ue' \<and> pu_AMFUeNgapID ue = pu_AMFUeNgapID ue' \<longrightarrow> i = j)"
proof -
  have "conn_ok (out, st) p'"
    using wpD [OF handleConnection_ok [OF assms(1,2) px_reach_inv [OF assms(3)] assms(4)] assms(5)] .
  then show ?thesis
    by (auto simp: conn_ok_def px_inv_def ue_entry_ok_def ngap_write_def list_all_iff)
qed

section \<open>A small network\<close>

text \<open>
  Libraries and a core at which the properties can be evaluated: a message is a procedure byte and a NAS message, of the
  UE 7; the core challenges with zeros and accepts every request.
\<close>

definition initial_ue_pdu :: "int64 \<Rightarrow> bytes \<Rightarrow> NGAPPDU" where
  "initial_ue_pdu i nas =
     (let z = \<lparr>iu_Present = InitialUEMessageIEsPresent_other 0, iu_RANUENGAPID = None, iu_NASPDU = None\<rparr> in
      initiating ProcedureCodeInitialUEMessage CriticalityPresentIgnore
        (InitiatingMessageValue_zero\<lparr>iv_Present := InitiatingMessagePresentInitialUEMessage, iv_InitialUEMessage := Some
          [\<lparr>ie_Id = ProtocolIEIDRANUENGAPID, ie_Criticality = CriticalityPresentReject,
            ie_Value = z\<lparr>iu_Present := InitialUEMessageIEsPresentRANUENGAPID, iu_RANUENGAPID := Some i\<rparr>\<rparr>,
           \<lparr>ie_Id = ProtocolIEIDNASPDU, ie_Criticality = CriticalityPresentReject,
            ie_Value = z\<lparr>iu_Present := InitialUEMessageIEsPresentNASPDU, iu_NASPDU := Some nas\<rparr>\<rparr>]\<rparr>))"

definition sample_uplink :: "int64 \<Rightarrow> bytes \<Rightarrow> NGAPPDU" where
  "sample_uplink i nas = uplink_nas_pdu
     [\<lparr>ie_Id = ProtocolIEIDRANUENGAPID, ie_Criticality = CriticalityPresentReject,
       ie_Value = NASTransportIEsValue_zero\<lparr>nt_Present := NASTransportIEsPresentRANUENGAPID, nt_RANUENGAPID := Some i\<rparr>\<rparr>,
      \<lparr>ie_Id = ProtocolIEIDNASPDU, ie_Criticality = CriticalityPresentReject,
       ie_Value = NASTransportIEsValue_zero\<lparr>nt_Present := NASTransportIEsPresentNASPDU, nt_NASPDU := Some nas\<rparr>\<rparr>]"

definition sample_radio :: ngap_lib where
  "sample_radio = \<lparr>ngap_Decoder = (\<lambda>bs. case bs of [] \<Rightarrow> Inl ''empty''
       | t # nas \<Rightarrow> Inr (if t = 0 then initial_ue_pdu 7 nas else sample_uplink 7 nas)),
     ngap_Encoder = (\<lambda>p. Inr [0x2A])\<rparr>"

definition sample_nas :: f5_nas where
  "sample_nas = \<lparr>f5_EncodeSecurityModeCommand = (\<lambda>m. Inr (f5_MessageType m # f5_ReplayedBuffer m)),
     f5_NASMacCalculate = (\<lambda>alg k n b d m. Inr (put_be32 n))\<rparr>"

definition sample_core :: "'s CoreBackend" where
  "sample_core = \<lparr>be_AuthInitiate = (\<lambda>supi. State_Monad.return (Inr \<lparr>pa_AuthType = [], pa_RAND = hex_encode (replicate 16 0),
       pa_AUTN = hex_encode (replicate 16 0), pa_SUPI = supi\<rparr>)),
     be_Register = (\<lambda>r. State_Monad.return (Inr RegisterResponse_zero)),
     be_PDUSessionCreate = (\<lambda>r. State_Monad.return (Inr PDUSessionResponse_zero))\<rparr>"

definition sample_front :: "(string \<rightharpoonup> json) SCTPProxy" where
  "sample_front = \<lparr>sp_listenAddr = [], sp_backend = sample_core, sp_store = MockKVStore, sp_plmnBytes = [0x00, 0xF1, 0x10], sp_sst = 1,
     sp_sd = [1, 2, 3], sp_ngap = sample_radio, sp_aka = sample_lib, sp_nas = sample_nas\<rparr>"

definition sample_reg_req :: bytes where
  "sample_reg_req = [0x7E, 0x00, 0x41, 0x01, 0x00, 0x09] @ suci_wire (0, 0, 1) [0, 1] [1] [0, 0, 0, 0]"

definition sample_auth_resp :: bytes where
  "sample_auth_resp = [0x7E, 0x00, 0x57, 0x2D, 0x01, 0xAA]"

definition sample_smc_complete :: bytes where
  "sample_smc_complete = [0x7E, 0x00, 0x5E]"

lemma sample_messages:
  "case DecodeRegistrationRequest sample_reg_req of Ok rr \<Rightarrow> mi_Value (rr_MobileIdentity rr) = ''imsi-001011'' | _ \<Rightarrow> False"
  "DecodeAuthenticationResponse sample_auth_resp = Ok [0xAA]"
  "DecodeSecurityModeComplete sample_smc_complete = Ok \<lparr>sc_IMEISV = []\<rparr>"
  by code_simp+

definition sample_ctx :: "bytes \<Rightarrow> NGAPContext" where
  "sample_ctx nas = (new_NGAPContext (sample_uplink 7 nas))\<lparr>nc_ProcedureCode := ProcedureCodeUplinkNASTransport, nc_RANUeNgapID := 7, nc_NASPDU := nas\<rparr>"

definition sample_ue :: proxy_UEContext where
  "sample_ue = (new_proxy_UE ''imsi-001011'' 1 7 None)\<lparr>pu_State := UEStateAuthSent, pu_KNASint := replicate 16 1\<rparr>"

lemma sample_parse:
  "ParseNGAPMessage sample_radio (0 # nas) = Ok ((new_NGAPContext (initial_ue_pdu 7 nas))
     \<lparr>nc_ProcedureCode := ProcedureCodeInitialUEMessage, nc_RANUeNgapID := 7, nc_NASPDU := nas\<rparr>)"
  "ParseNGAPMessage sample_radio (1 # nas) = Ok (sample_ctx nas)"
  by (simp_all add: ParseNGAPMessage_def parse_pdu_def sample_radio_def initial_ue_pdu_def sample_uplink_def uplink_nas_pdu_def sample_ctx_def
      initiating_def extractInitiatingIEs_def new_NGAPContext_def initial_ue_ie_def nas_transport_ie_def)

lemma sample_auth_step:
  "handleAuthResponse sample_front sample_ue (sample_ctx sample_auth_resp) =
     (sample_ue\<lparr>pu_DLCount := 1, pu_DLSeqNum := 1, pu_State := UEStateSMCSent\<rparr>, Ok [[0x2A]])"
  by (simp add: handleAuthResponse_def sample_ue_def new_proxy_UE_def sample_ctx_def sample_messages sample_front_def sample_nas_def
      buildSecurityProtectedNAS_def BuildDownlinkNASTransport_def sample_radio_def)

lemma sample_dispatch:
  "run_state (uplink_dispatch sample_front sample_ue (sample_ctx sample_auth_resp)) w =
     ((sample_ue\<lparr>pu_DLCount := 1, pu_DLSeqNum := 1, pu_State := UEStateSMCSent\<rparr>, Ok [[0x2A]]), w)"
  by (rule run_state_eq)
    (simp add: uplink_dispatch_def wp sample_auth_step, simp add: sample_ctx_def sample_auth_resp_def nas_consts)

theorem nas_counts_distinct_witness:
  "\<exists>ue' outs w' cs. run_state (uplink_run sample_front sample_ue [sample_ctx sample_auth_resp, sample_ctx sample_auth_resp])
     (world_init Map.empty) = ((ue', [0x2A] # outs), w') \<and> distinct cs \<and> list_all2 (mac_under sample_front sample_ue) cs ([0x2A] # outs)"
proof -
  let ?run = "uplink_run sample_front sample_ue [sample_ctx sample_auth_resp, sample_ctx sample_auth_resp]"
  obtain ue' outs w' where run: "run_state ?run (world_init Map.empty) = ((ue', outs), w')" by (metis prod.exhaust)
  have key: "pu_KNASint sample_ue \<noteq> []" by (simp add: sample_ue_def)
  have "wp ?run (\<lambda>x _. \<exists>rest. snd x = [0x2A] # rest) (world_init Map.empty)"
    by (simp add: wp wp_run [OF sample_dispatch] split_beta) (simp add: wp_def)
  with run obtain rest where "outs = [0x2A] # rest" by (auto simp: wp_def)
  with run nas_counts_distinct [OF _ key run] show ?thesis by auto
qed


theorem protected_nas_roundtrip_witness:
  "StripSecurityHeader ([0x7E, 0x02] @ put_be32 5 @ [9] @ [0x7E, 0, 0x42]) = Ok [0x7E, 0, 0x42]"
proof -
  have "mac_documented sample_nas" by (auto simp: mac_documented_def sample_nas_def put_be32_def)
  moreover have "buildSecurityProtectedNAS sample_nas (replicate 16 1) [0x7E, 0, 0x42] 0x02 9 5 =
      Inr ([0x7E, 0x02] @ put_be32 5 @ [9] @ [0x7E, 0, 0x42])"
    by (simp add: buildSecurityProtectedNAS_def sample_nas_def nas_consts)
  ultimately show ?thesis
    using protected_nas_roundtrip [of sample_nas "replicate 16 1" "[0x7E, 0, 0x42]" "0x02" 9 5] by simp
qed

theorem res_star_not_enforced_witness:
  "snd (handleAuthResponse sample_front (sample_ue\<lparr>pu_XRES := [1, 2, 3]\<rparr>) (sample_ctx sample_auth_resp)) = Ok [[0x2A]]"
proof -
  have d: "DecodeAuthenticationResponse (nc_NASPDU (sample_ctx sample_auth_resp)) = Ok [0xAA]"
    by (simp add: sample_ctx_def sample_messages)
  show ?thesis unfolding res_star_not_enforced [OF d d] sample_auth_step by simp
qed

lemma sample_first_message:
  "\<exists>ue. px_ueMap (snd (run_state (handleNGAPMessage sample_front (0 # sample_reg_req)) (new_proxy (world_init Map.empty)))) 7 = Some ue \<and>
     pu_SUPI ue = ''imsi-001011'' \<and> pu_State ue = UEStateAuthSent"
proof -
  obtain rr where rr: "DecodeRegistrationRequest sample_reg_req = Ok rr" "mi_Value (rr_MobileIdentity rr) = ''imsi-001011''"
    using sample_messages(1) by (auto split: res.splits)
  have enc: "ngap_Encoder sample_radio m = Inr [0x2A]" for m by (simp add: sample_radio_def)
  have ne: "sample_reg_req \<noteq> []" by (simp add: sample_reg_req_def)
  have "wp (handleNGAPMessage sample_front (0 # sample_reg_req)) (\<lambda>_ p. \<exists>ue. px_ueMap p 7 = Some ue \<and>
     pu_SUPI ue = ''imsi-001011'' \<and> pu_State ue = UEStateAuthSent) (new_proxy (world_init Map.empty))"
    by (simp add: handleNGAPMessage_def sample_front_def sample_parse handleInitialUEMessage_def rr ne wp sample_core_def send_challenge_def
        derive_nas_keys_def new_proxy_UE_def EncodeAuthenticationRequest_def BuildDownlinkNASTransport_def enc new_proxy_def world_init_def new_NGAPContext_def initial_ue_pdu_def initiating_def)
  thus ?thesis by (simp add: wp_def split_beta)
qed

theorem proxy_invariant_witness:
  "\<exists>ue. px_ueMap (snd (run_state (handleNGAPMessage sample_front (0 # sample_reg_req)) (new_proxy (world_init Map.empty)))) 7 = Some ue \<and>
     pu_SUPI ue = ''imsi-001011'' \<and> pu_State ue = ''AUTH_SENT'' \<and> pu_RANUeNgapID ue = 7"
proof -
  have "px_reach sample_front (snd (run_state (handleNGAPMessage sample_front (0 # sample_reg_req)) (new_proxy (world_init Map.empty))))"
    by (rule px_reach.message [OF px_reach.start _ prod.collapse [symmetric]]) (simp add: new_proxy_def)
  from proxy_invariant [OF this] sample_first_message show ?thesis unfolding proxy_states by blast
qed

theorem connection_safe_witness:
  "\<exists>out st p'. run_state (handleConnection sample_front (\<lambda>_. True) 0 [Some (0 # sample_reg_req), Some (1 # sample_auth_resp), None])
     (new_proxy (world_init Map.empty)) = ((out, st), p') \<and> st \<noteq> Crashed"
proof -
  obtain out st p' where run: "run_state (handleConnection sample_front (\<lambda>_. True) 0
      [Some (0 # sample_reg_req), Some (1 # sample_auth_resp), None]) (new_proxy (world_init Map.empty)) = ((out, st), p')"
    by (metis prod.exhaust)
  have "aka_documented (sp_aka sample_front)" "challenges_ok (sp_backend sample_front)"
    by (simp_all add: sample_front_def sample_lib_documented challenges_ok_def sample_core_def wp)
  from connection_safe [OF this px_reach.start _ run] run show ?thesis by (simp add: new_proxy_def del: handleConnection.simps)
qed

end
