(* ===== verification/ProxyAttach.thy ===== *)
theory ProxyAttach
  imports Attach ProxyRuns
begin

text \<open>
  The proxy in front of the whole core: its backend posts to the gateway and it reads the store that the
  functions use.  The attach of a UE from the base station to the core.
\<close>

section \<open>The proxy in front of the gateway\<close>

definition gateway_transport :: "('r, 'e, 'f) gateway \<Rightarrow> ('r \<times> 'e) transport" where
  "gateway_transport g funcName payload = gateway_handle g funcName \<lparr>rq_Body = Some payload, rq_QueryString = []\<rparr>"

lemma gateway_transport_post: "gateway_transport g f p = post g 3 f p"
  by (simp add: gateway_transport_def gateway_handle_def numeral_3_eq_3 numeral_2_eq_2)

definition fronts :: "('r, 'e, 'f) gateway \<Rightarrow> ('r \<times> 'e) SCTPProxy \<Rightarrow> bool" where
  "fronts g c \<longleftrightarrow> sp_backend c = NewHTTPBackend (gateway_transport g) \<and> sp_store c = redis_side (gw_redis g)"

section \<open>Requests\<close>

text \<open>The slice of a PDU session that a UE asks for never reaches the SMF: the SMF decodes the proxy's request to one with the subscriber,
  the DNN and the session id, and with the zero S-NSSAI whatever slice the proxy put in, since the two use
  different member names.\<close>

theorem proxy_slice_not_received:
  "unmarshal_CreateSMContextRequest (marshal_PDUSessionRequest x) CreateSMContextRequest_zero =
     Some (CreateSMContextRequest_zero\<lparr>csq_SUPI := psq_SUPI x, csq_DNN := psq_DNN x, csq_SessionID := psq_PDUSessionID x\<rparr>)"
  by (simp add: unmarshal_CreateSMContextRequest_def CreateSMContextRequest_fields_def CreateSMContextRequest_zero_def
      marshal_PDUSessionRequest_def json_codec)

section \<open>The challenge\<close>

lemma GenerateAuthVector_sizes:
  assumes "aka_documented lib" "GenerateAuthVector lib rnd k opc sqn amf snn = Ok av"
  shows "length (av_AUTN av) = 16" "rnd = Some (av_RAND av)"
  using assms by (auto simp: GenerateAuthVector_def GenerateAuthVectorWithRAND_def aka_documented_def rbind_eq_Ok split: option.splits)
    (auto simp: lift_err_def split: sum.splits)

definition challenge_for :: "AuthVector \<Rightarrow> goerr + proxy_AuthInitiateResponse \<Rightarrow> bool" where
  "challenge_for av a \<longleftrightarrow> (\<exists>resp. a = Inr resp \<and> pa_RAND resp = hex_encode (av_RAND av) \<and> pa_AUTN resp = hex_encode (av_AUTN av))"

lemma challenge_for_decoded:
  "initiated av r \<Longrightarrow> \<exists>resp. r = Inr resp \<and> rs_StatusCode resp = 200 \<and>
     challenge_for av (case unmarshal_body unmarshal_proxy_AuthInitiateResponse proxy_AuthInitiateResponse_zero (body_doc (rs_Body resp)) of
        None \<Rightarrow> Inl e | Some v \<Rightarrow> Inr v)"
  by (auto simp: initiated_def challenge_for_def unmarshal_proxy_AuthInitiateResponse_def proxy_AuthInitiateResponse_fields_def
      proxy_AuthInitiateResponse_zero_def marshal_AuthInitiateResponse_def json_codec)

lemma proxy_auth_initiate:
  assumes "reliable_store (gw_redis g) view" "provisioned g view w supi sub av"
  shows "wp (HTTPBackend_AuthInitiate (gateway_transport g) supi) (\<lambda>a w'. challenge_for av a \<and>
     subscribed supi sub ((view \<circ> fst) (w_store w')) \<and>
     (av_XRES av \<noteq> [] \<longrightarrow> (view \<circ> fst) (w_store w') (''auth-pending:'' @ supi) = Some (pending_doc av))) w"
  unfolding HTTPBackend_AuthInitiate_def backend_call_def gateway_transport_post numeral_3_eq_3 wp_basic
  by (rule wp_mono [OF post_auth_initiate [OF assms]])
    (auto simp: challenged_def dest!: challenge_for_decoded)

section \<open>The registration\<close>

lemma register_decoded:
  "registered_resp supi r \<Longrightarrow> rs_StatusCode r = 200 \<and> (\<exists>v. unmarshal_body unmarshal_RegisterResponse RegisterResponse_zero (body_doc (rs_Body r)) = Some v \<and>
     prp_GUTI v = guti_of supi)"
  by (auto simp: registered_resp_def unmarshal_RegisterResponse_def RegisterResponse_fields_def RegisterResponse_zero_def
      marshal_RegistrationResponse_def json_codec)

lemma proxy_register:
  fixes w :: "('r \<times> 'e) world"
  assumes "reliable_store (gw_redis g) view" "subscribed supi sub ((view \<circ> fst) (w_store w))" "supi \<noteq> []"
  shows "wp (HTTPBackend_Register (gateway_transport g) \<lparr>prq_SUPI = supi, prq_SkipAuth = True\<rparr>) (\<lambda>a w'.
     (\<exists>v. a = Inr v \<and> prp_GUTI v = guti_of supi) \<and> attached_ue supi (subscribed_slices sub) [] ((view \<circ> fst) (w_store w'))) w"
proof -
  let ?j = "marshal_RegisterRequest \<lparr>prq_SUPI = supi, prq_SkipAuth = True\<rparr>"
  obtain rq where rq: "unmarshal_amf_RegistrationRequest ?j amf_RegistrationRequest_zero = Some rq" "rgq_SUPI rq = supi" "rgq_SkipAuth rq"
    by (simp add: unmarshal_amf_RegistrationRequest_def amf_RegistrationRequest_fields_def amf_RegistrationRequest_zero_def
        marshal_RegisterRequest_def json_codec)
  have "wp (amf_registration (gw_env g) (redis_side (gw_redis g)) (Client_post (post g 2)) \<lparr>rq_Body = Some ?j, rq_QueryString = []\<rparr>)
      (\<lambda>r w'. registered_resp supi r \<and> attached_ue supi (subscribed_slices sub) [] ((view \<circ> fst) (w_store w'))) w"
    using assms(2,3) rq
    by (auto simp: amf_registration_def wp Let_def intro!: wp_mono [OF reg_subscribe_succeeds [OF assms(1)]])
  then show ?thesis
    unfolding HTTPBackend_Register_def backend_call_def gateway_transport_def gateway_handle_def wp_basic wp_routes
    by (rule wp_mono) (auto dest!: register_decoded)
qed

section \<open>The messages of an attach\<close>

definition carries :: "'s SCTPProxy \<Rightarrow> bytes \<Rightarrow> ProcedureCode \<Rightarrow> int64 \<Rightarrow> bytes \<Rightarrow> bool" where
  "carries c d pc i nas \<longleftrightarrow> (\<exists>ctx. ParseNGAPMessage (sp_ngap c) d = Ok ctx \<and> nc_MessageType ctx = 0 \<and> nc_ProcedureCode ctx = pc \<and>
     nc_RANUeNgapID ctx = i \<and> nc_NASPDU ctx = nas)"

text \<open>The libraries can code what the proxy sends to the UE with the ids \<open>amf\<close> and \<open>i\<close>.\<close>

definition codes_for :: "'s SCTPProxy \<Rightarrow> int64 \<Rightarrow> int64 \<Rightarrow> bool" where
  "codes_for c amf i \<longleftrightarrow>
     (\<forall>nas. \<exists>bs. BuildDownlinkNASTransport (sp_ngap c) amf i nas = Inr bs) \<and>
     (\<forall>nas. \<exists>bs. BuildInitialContextSetupRequest (sp_ngap c) amf i nas (sp_plmnBytes c) (sp_sst c) (sp_sd c) = Inr bs) \<and>
     (\<forall>m. \<exists>b. f5_EncodeSecurityModeCommand (sp_nas c) m = Inr b) \<and>
     (\<forall>alg k n b d m. \<exists>mac. f5_NASMacCalculate (sp_nas c) alg k n b d m = Inr mac)"

lemma codes_forD:
  assumes "codes_for c amf i"
  shows "\<exists>bs. BuildDownlinkNASTransport (sp_ngap c) amf i nas = Inr bs"
    and "\<exists>bs. BuildInitialContextSetupRequest (sp_ngap c) amf i nas (sp_plmnBytes c) (sp_sst c) (sp_sd c) = Inr bs"
    and "\<exists>b. f5_EncodeSecurityModeCommand (sp_nas c) m = Inr b"
    and "\<exists>out. buildSecurityProtectedNAS (sp_nas c) k nas h s n = Inr out"
  using assms by (auto simp: codes_for_def buildSecurityProtectedNAS_def split: sum.splits) (metis sum.distinct(1))

text \<open>The UE context of the proxy in the course of the attach.\<close>

definition proxy_ue :: "int64 \<Rightarrow> string \<Rightarrow> int64 \<Rightarrow> AuthVector \<Rightarrow> string \<Rightarrow> 's proxy \<Rightarrow> bool" where
  "proxy_ue i supi amf av st p \<longleftrightarrow> (\<exists>ue. px_ueMap p i = Some ue \<and> pu_State ue = st \<and> pu_SUPI ue = supi \<and> pu_AMFUeNgapID ue = amf \<and>
     pu_RANUeNgapID ue = i \<and> pu_XRES ue = av_XRES av \<and> pu_KAUSF ue = av_KAUSF av)"

lemma pending_decoded:
  "unmarshal_authPending (pending_doc av) authPending_zero = Some \<lparr>ap_XRES = hex_encode (av_XRES av), ap_KAUSF = hex_encode (av_KAUSF av)\<rparr>"
  by (simp add: unmarshal_authPending_def authPending_fields_def authPending_zero_def pending_doc_def json_codec)

definition challenge_sent :: "'s SCTPProxy \<Rightarrow> int64 \<Rightarrow> int64 \<Rightarrow> AuthVector \<Rightarrow> bytes \<Rightarrow> bool" where
  "challenge_sent c amf i av b \<longleftrightarrow> (\<exists>req. EncodeAuthenticationRequest (av_RAND av) (av_AUTN av) = Ok req \<and>
     BuildDownlinkNASTransport (sp_ngap c) amf i req = Inr b)"

lemma derive_nas_keys_identity:
  "derive_nas_keys lib ue = Ok ue' \<Longrightarrow> pu_SUPI ue' = pu_SUPI ue \<and> pu_AMFUeNgapID ue' = pu_AMFUeNgapID ue \<and>
     pu_RANUeNgapID ue' = pu_RANUeNgapID ue \<and> pu_XRES ue' = pu_XRES ue \<and> pu_KAUSF ue' = pu_KAUSF ue"
  by (auto simp: derive_nas_keys_def rbind_eq_Ok orLog_eq_Ok split: if_splits)

lemma send_challenge_succeeds:
  assumes "aka_documented (sp_aka c)" "5 \<le> length (pu_SUPI ue)" "challenge_for av (Inr a)" "length (av_RAND av) = 16" "length (av_AUTN av) = 16"
    and "codes_for c amf i" "pu_AMFUeNgapID ue = amf" "pu_RANUeNgapID ue = i" "pu_SUPI ue = supi"
    and "pu_XRES ue = av_XRES av" "pu_KAUSF ue = av_KAUSF av"
  shows "wp (send_challenge c i ue a) (\<lambda>r p'. (\<exists>b. r = Ok [b] \<and> challenge_sent c amf i av b) \<and>
     proxy_ue i supi amf av UEStateAuthSent p' \<and> px_world p' = px_world p) p"
proof -
  have "derive_nas_keys (sp_aka c) ue \<noteq> Error e" for e
    using assms(2) by (auto simp: derive_nas_keys_def orLog_def split: res.splits)
  then obtain ue' where ue': "derive_nas_keys (sp_aka c) ue = Ok ue'"
    using derive_nas_keys_no_panic [OF assms(1,2)] by (cases "derive_nas_keys (sp_aka c) ue") auto
  obtain req where req: "EncodeAuthenticationRequest (av_RAND av) (av_AUTN av) = Ok req"
    using assms(4,5) by (simp add: EncodeAuthenticationRequest_def)
  obtain b where b: "BuildDownlinkNASTransport (sp_ngap c) amf i req = Inr b"
    using codes_forD(1) [OF assms(6)] by blast
  have "challenge_sent c amf i av b" using req b by (auto simp: challenge_sent_def)
  then show ?thesis
    using assms(3,7-) derive_nas_keys_identity [OF ue'] req b
    by (auto simp: send_challenge_def ue' wp challenge_for_def proxy_ue_def)
qed

text \<open>The parts of the core's state that the attach relies on between its messages.\<close>

lemma attach_challenge:
  assumes r: "fronts g c" "reliable_store (gw_redis g) view" "aka_documented (gw_aka g)" "aka_documented (sp_aka c)"
    and m: "carries c d ProcedureCodeInitialUEMessage i nas" "DecodeRegistrationRequest nas = Ok rr" "mi_Value (rr_MobileIdentity rr) = supi"
    and p: "provisioned g view (px_world p) supi sub av" "length (av_RAND av) = 16"
    and amf: "amf = px_amfUeNgapIDCounter p + 1" "codes_for c amf i"
  shows "wp (handleNGAPMessage c d) (\<lambda>r p'. (\<exists>b. r = Ok ([b], 1) \<and> challenge_sent c amf i av b) \<and>
     proxy_ue i supi amf av UEStateAuthSent p' \<and> subscribed supi sub (view (fst (w_store (px_world p'))))) p"
proof -
  obtain ctx where ctx: "ParseNGAPMessage (sp_ngap c) d = Ok ctx" "nc_MessageType ctx = 0" "nc_ProcedureCode ctx = ProcedureCodeInitialUEMessage"
    "nc_RANUeNgapID ctx = i" "nc_NASPDU ctx = nas" using m(1) by (auto simp: carries_def)
  have nas: "nas \<noteq> []" using m(2) by (auto simp: DecodeRegistrationRequest_def)
  have len: "5 \<le> length supi" using registration_supi_length [OF m(2)] m(3) by simp
  obtain k opc sqn af where gen: "GenerateAuthVector (gw_aka g) (w_rand (px_world p) (w_draws (px_world p))) k opc sqn af default_snn = Ok av"
    using p(1) by (auto simp: provisioned_def)
  have av: "length (av_AUTN av) = 16" "av_XRES av \<noteq> []"
    using GenerateAuthVector_sizes(1) [OF r(3) gen] GenerateAuthVector_XRES [OF r(3) gen] by auto
  note get = reliable_store.wp_kvGet_reliable [OF reliable_store.redis_side_reliable [OF r(2)]]
  have start: "wp (send_challenge c i (new_proxy_UE supi amf i cap\<lparr>pu_XRES := av_XRES av, pu_KAUSF := av_KAUSF av\<rparr>) a)
      (\<lambda>r p'. (\<exists>b. r = Ok [b] \<and> challenge_sent c amf i av b) \<and> proxy_ue i supi amf av UEStateAuthSent p' \<and>
        subscribed supi sub (view (fst (w_store (px_world p'))))) q"
    if "challenge_for av (Inr a)" "subscribed supi sub (view (fst (w_store (px_world q))))" for cap a q
    by (rule wp_mono [OF send_challenge_succeeds [OF r(4) _ that(1) p(2) av(1) amf(2)]])
      (use len that(2) in \<open>auto simp: new_proxy_UE_def\<close>)
  have c: "sp_backend c = NewHTTPBackend (gateway_transport g)" "sp_store c = redis_side (gw_redis g)" using r(1) by (auto simp: fronts_def)
  have "wp (handleInitialUEMessage c ctx) (\<lambda>r p'. (\<exists>b. r = Ok [b] \<and> challenge_sent c amf i av b) \<and>
     proxy_ue i supi amf av UEStateAuthSent p' \<and> subscribed supi sub (view (fst (w_store (px_world p'))))) p"
    using nas av unfolding handleInitialUEMessage_def ctx m(2,3) wrap_err_simps res.case c
    by (auto simp: wp Let_def NewHTTPBackend_def amf(1) [symmetric] m(3) pending_decoded challenge_for_def [of _ "Inl e" for e]
        intro!: wp_mono [OF proxy_auth_initiate [OF r(2) p(1)]] get start split: sum.splits)
  then show ?thesis
    by (auto simp: handleNGAPMessage_def ctx wp elim!: wp_mono)
qed

lemma strip_length: "StripSecurityHeader nas = Ok inner \<Longrightarrow> length inner \<le> length nas"
  by (auto simp: StripSecurityHeader_def Let_def split: if_splits)

lemma decoded_types:
  "DecodeAuthenticationResponse d = Ok x \<Longrightarrow> 3 \<le> length d \<and> d ! 0 = EPD5GMM \<and> d ! 2 = MsgTypeAuthenticationResponse"
  "DecodeSecurityModeComplete d = Ok y \<Longrightarrow> 3 \<le> length d \<and> d ! 0 = EPD5GMM \<and> d ! 2 = MsgTypeSecurityModeComplete"
  by (auto simp: DecodeAuthenticationResponse_def DecodeSecurityModeComplete_def rbind_eq_Ok idx_def split: if_splits)

lemma uplink_known_ue:
  assumes m: "carries c d ProcedureCodeUplinkNASTransport i nas" "StripSecurityHeader nas = Ok inner" "3 \<le> length inner"
    and ue: "px_ueMap p i = Some ue"
    and step: "\<And>ctx. nc_NASPDU ctx = inner \<Longrightarrow> wp (uplink_dispatch c ue ctx)
      (\<lambda>x w. Q (rbind (snd x) (\<lambda>rs. Ok (rs, 1))) (p\<lparr>px_world := w, px_ueMap := (px_ueMap p)(i \<mapsto> fst x)\<rparr>)) (px_world p)"
  shows "wp (handleNGAPMessage c d) Q p"
proof -
  obtain ctx where ctx: "ParseNGAPMessage (sp_ngap c) d = Ok ctx" "nc_MessageType ctx = 0" "nc_ProcedureCode ctx = ProcedureCodeUplinkNASTransport"
    "nc_RANUeNgapID ctx = i" "nc_NASPDU ctx = nas" using m(1) by (auto simp: carries_def)
  have len: "\<not> length nas < 3" "\<not> length inner < 3" using strip_length [OF m(2)] m(3) by simp_all
  show ?thesis
    using step [of "ctx\<lparr>nc_NASPDU := inner\<rparr>"] unfolding handleNGAPMessage_def ctx wrap_err_simps res.case
    by (simp add: handleUplinkNASTransport_def ctx ue m(2) len wp split_beta)
qed

lemma attach_response:
  assumes m: "carries c d ProcedureCodeUplinkNASTransport i nas" "StripSecurityHeader nas = Ok inner" "DecodeAuthenticationResponse inner = Ok res"
    and p: "proxy_ue i supi amf av UEStateAuthSent p" "subscribed supi sub (view (fst (w_store (px_world p))))" "codes_for c amf i"
  shows "wp (handleNGAPMessage c d) (\<lambda>r p'. (\<exists>b. r = Ok ([b], 1)) \<and> proxy_ue i supi amf av UEStateSMCSent p' \<and>
     subscribed supi sub (view (fst (w_store (px_world p'))))) p"
proof -
  obtain ue where ue: "px_ueMap p i = Some ue" "pu_State ue = UEStateAuthSent" "pu_SUPI ue = supi" "pu_AMFUeNgapID ue = amf"
    "pu_RANUeNgapID ue = i" "pu_XRES ue = av_XRES av" "pu_KAUSF ue = av_KAUSF av" using p(1) by (auto simp: proxy_ue_def)
  note ty = decoded_types(1) [OF m(3)]
  show ?thesis
  proof (rule uplink_known_ue [OF m(1,2) _ ue(1)])
    fix ctx :: NGAPContext
    assume ctx: "nc_NASPDU ctx = inner"
    obtain plain where plain: "f5_EncodeSecurityModeCommand (sp_nas c) (smc_message ue) = Inr plain" using codes_forD(3) [OF p(3)] by blast
    obtain smc where smc: "buildSecurityProtectedNAS (sp_nas c) (pu_KNASint ue) plain SecurityHeaderIntegrityProtectedNewCtx 0 (pu_DLCount ue) = Inr smc"
      using codes_forD(4) [OF p(3)] by blast
    obtain b where b: "BuildDownlinkNASTransport (sp_ngap c) amf i smc = Inr b" using codes_forD(1) [OF p(3)] by blast
    show "wp (uplink_dispatch c ue ctx) (\<lambda>x w. (\<exists>b. rbind (snd x) (\<lambda>rs. Ok (rs, 1)) = Ok ([b], 1)) \<and>
        proxy_ue i supi amf av UEStateSMCSent (p\<lparr>px_world := w, px_ueMap := (px_ueMap p)(i \<mapsto> fst x)\<rparr>) \<and>
        subscribed supi sub (view (fst (w_store (px_world (p\<lparr>px_world := w, px_ueMap := (px_ueMap p)(i \<mapsto> fst x)\<rparr>)))))) (px_world p)"
      using ty p(2) ue(2-) by (simp add: uplink_dispatch_def ctx Let_def wp handleAuthResponse_def m(3) plain smc b proxy_ue_def)
  qed (use ty in simp)
qed

lemma attach_complete:
  fixes p :: "('r \<times> 'e) proxy"
  assumes r: "fronts g c" "reliable_store (gw_redis g) view"
    and m: "carries c d ProcedureCodeUplinkNASTransport i nas" "StripSecurityHeader nas = Ok inner" "DecodeSecurityModeComplete inner = Ok x"
    and p: "proxy_ue i supi amf av UEStateSMCSent p" "subscribed supi sub (view (fst (w_store (px_world p))))" "codes_for c amf i" "supi \<noteq> []"
  shows "wp (handleNGAPMessage c d) (\<lambda>r p'. (\<exists>b. r = Ok ([b], 1)) \<and> proxy_ue i supi amf av UEStateRegistered p' \<and>
     attached_ue supi (subscribed_slices sub) [] (view (fst (w_store (px_world p'))))) p"
proof -
  obtain ue where ue: "px_ueMap p i = Some ue" "pu_State ue = UEStateSMCSent" "pu_SUPI ue = supi" "pu_AMFUeNgapID ue = amf"
    "pu_RANUeNgapID ue = i" "pu_XRES ue = av_XRES av" "pu_KAUSF ue = av_KAUSF av" using p(1) by (auto simp: proxy_ue_def)
  note ty = decoded_types(2) [OF m(3)]
  have c: "sp_backend c = NewHTTPBackend (gateway_transport g)" using r(1) by (simp add: fronts_def)
  show ?thesis
  proof (rule uplink_known_ue [OF m(1,2) _ ue(1)])
    fix ctx :: NGAPContext
    assume ctx: "nc_NASPDU ctx = inner"
    obtain acc where acc: "buildSecurityProtectedNAS (sp_nas c) (pu_KNASint ue) (proxy_accept (guti_of supi))
        SecurityHeaderIntegrityProtectedCiphered (pu_DLSeqNum ue) (pu_DLCount ue) = Inr acc"
      using codes_forD(4) [OF p(3)] by blast
    obtain b where b: "BuildInitialContextSetupRequest (sp_ngap c) amf i acc (sp_plmnBytes c) (sp_sst c) (sp_sd c) = Inr b"
      using codes_forD(2) [OF p(3)] by blast
    have t: "MsgTypeSecurityModeComplete \<noteq> MsgTypeAuthenticationResponse" by (simp add: nas_consts)
    have reg: "wp (HTTPBackend_Register (gateway_transport g) \<lparr>prq_SUPI = supi, prq_SkipAuth = True\<rparr>) (\<lambda>a w'.
       (\<exists>v. a = Inr v \<and> prp_GUTI v = guti_of supi) \<and> attached_ue supi (subscribed_slices sub) [] (view (fst (w_store w')))) (px_world p)"
      using proxy_register [OF r(2) _ p(4)] p(2) by simp
    show "wp (uplink_dispatch c ue ctx) (\<lambda>x w. (\<exists>b. rbind (snd x) (\<lambda>rs. Ok (rs, 1)) = Ok ([b], 1)) \<and>
        proxy_ue i supi amf av UEStateRegistered (p\<lparr>px_world := w, px_ueMap := (px_ueMap p)(i \<mapsto> fst x)\<rparr>) \<and>
        attached_ue supi (subscribed_slices sub) [] (view (fst (w_store (px_world (p\<lparr>px_world := w, px_ueMap := (px_ueMap p)(i \<mapsto> fst x)\<rparr>)))))) (px_world p)"
      using ty t
      by (simp add: uplink_dispatch_def ctx Let_def wp handleSecurityModeComplete_def c NewHTTPBackend_def ue)
        (rule wp_mono [OF reg], auto simp: acc b ue proxy_ue_def)
  qed (use ty in simp)
qed

text \<open>C3: a provisioned UE attaches through the front end: when its Registration Request, an Authentication Response and a Security Mode
  Complete arrive over a connection, the proxy answers each with one message, the first of them the challenge of an
  authentication vector of the subscriber, and ends with the UE registered both in the proxy and in the core, there with the
  subscribed slices.  The RES* of the Authentication Response may be any: the
  proxy registers the UE without authentication in the core.\<close>

theorem proxy_attach:
  fixes p :: "('r \<times> 'e) proxy"
  assumes r: "fronts g c" "reliable_store (gw_redis g) view" "aka_documented (gw_aka g)" "aka_documented (sp_aka c)"
    and m1: "carries c d1 ProcedureCodeInitialUEMessage i nas1" "DecodeRegistrationRequest nas1 = Ok rr" "mi_Value (rr_MobileIdentity rr) = supi"
    and m2: "carries c d2 ProcedureCodeUplinkNASTransport i nas2" "StripSecurityHeader nas2 = Ok inner2" "DecodeAuthenticationResponse inner2 = Ok res"
    and m3: "carries c d3 ProcedureCodeUplinkNASTransport i nas3" "StripSecurityHeader nas3 = Ok inner3" "DecodeSecurityModeComplete inner3 = Ok x"
    and p: "provisioned g view (px_world p) supi sub av" "length (av_RAND av) = 16"
    and amf: "amf = px_amfUeNgapIDCounter p + 1" "codes_for c amf i"
  shows "wp (handleConnection c (\<lambda>_. True) k [Some d1, Some d2, Some d3]) (\<lambda>(out, st) p'.
     st = Waiting \<and> (\<exists>b1 b2 b3. out = [(1, 60, b1), (1, 60, b2), (1, 60, b3)] \<and> challenge_sent c amf i av b1) \<and>
     proxy_ue i supi amf av UEStateRegistered p' \<and> attached_ue supi (subscribed_slices sub) [] (view (fst (w_store (px_world p'))))) p"
proof -
  have supi: "supi \<noteq> []" using p(1) by (simp add: provisioned_def)
  note s2 = wp_mono [OF attach_response [OF m2 _ _ amf(2)]]
  note s3 = wp_mono [OF attach_complete [OF r(1,2) m3 _ _ amf(2) supi]]
  show ?thesis
    by (auto simp: wp Let_def intro!: wp_mono [OF attach_challenge [OF r m1 p amf]] s2 s3)
qed

definition sample_front_end :: "((string \<rightharpoonup> json) \<times> (string \<times> json) list) SCTPProxy" where
  "sample_front_end = \<lparr>sp_listenAddr = [], sp_backend = NewHTTPBackend (gateway_transport sample_gateway),
     sp_store = redis_side (gw_redis sample_gateway), sp_plmnBytes = [0x00, 0xF1, 0x10], sp_sst = 1,
     sp_sd = [1, 2, 3], sp_ngap = sample_radio, sp_aka = sample_lib, sp_nas = sample_nas\<rparr>"

definition sample_network :: "((string \<rightharpoonup> json) \<times> (string \<times> json) list) proxy" where
  "sample_network = new_proxy (world_init ([sub_key ''imsi-001011'' \<mapsto> marshal_SubscriberData sample_sub], []))"

theorem proxy_attach_witness:
  "\<exists>amf av. wp (handleConnection sample_front_end (\<lambda>_. True) 0
       [Some (0 # sample_reg_req), Some (1 # sample_auth_resp), Some (1 # sample_smc_complete)])
     (\<lambda>(out, st) p'. st = Waiting \<and> length out = 3 \<and> proxy_ue 7 ''imsi-001011'' amf av UEStateRegistered p' \<and>
        attached_ue ''imsi-001011'' [] [] (fst (w_store (px_world p')))) sample_network"
proof -
  have lib: "sp_ngap sample_front_end = sample_radio" "sp_nas sample_front_end = sample_nas" "sp_aka sample_front_end = sample_lib"
    "gw_aka sample_gateway = sample_lib" by (simp_all add: sample_front_end_def sample_gateway_def)
  obtain av where av: "GenerateAuthVector sample_lib (Some (replicate 16 0)) (ad_PermanentKey sample_auth)
      (ad_OPc sample_auth) (advanceSQN (ad_SQN sample_auth)) (ad_AMF sample_auth) default_snn = Ok av"
    using sample_vector by blast
  have prov: "provisioned sample_gateway (\<lambda>m. m) (px_world sample_network) ''imsi-001011'' sample_sub av"
    using av by (simp add: provisioned_def sample_network_def new_proxy_def world_init_def sample_gateway_def sample_sub_def)
  have rand: "length (av_RAND av) = 16" using GenerateAuthVector_sizes(2) [OF sample_lib_documented av] by (metis length_replicate option.inject)
  obtain rr where rr: "DecodeRegistrationRequest sample_reg_req = Ok rr" "mi_Value (rr_MobileIdentity rr) = ''imsi-001011''"
    using sample_messages(1) by (auto split: res.splits)
  have c: "carries sample_front_end (0 # sample_reg_req) ProcedureCodeInitialUEMessage 7 sample_reg_req"
    "carries sample_front_end (1 # sample_auth_resp) ProcedureCodeUplinkNASTransport 7 sample_auth_resp"
    "carries sample_front_end (1 # sample_smc_complete) ProcedureCodeUplinkNASTransport 7 sample_smc_complete"
    by (simp_all add: carries_def lib sample_parse) (simp_all add: sample_ctx_def new_NGAPContext_def)
  have strip: "StripSecurityHeader sample_auth_resp = Ok sample_auth_resp" "StripSecurityHeader sample_smc_complete = Ok sample_smc_complete"
    by (simp_all add: StripSecurityHeader_def sample_auth_resp_def sample_smc_complete_def nas_consts)
  have codes: "codes_for sample_front_end (px_amfUeNgapIDCounter sample_network + 1) 7"
    by (simp add: codes_for_def lib sample_radio_def sample_nas_def BuildDownlinkNASTransport_def BuildInitialContextSetupRequest_def)
  have f: "fronts sample_gateway sample_front_end" by (simp add: fronts_def sample_front_end_def)
  show ?thesis
    by (intro exI, rule wp_mono [OF proxy_attach [OF f sample_gateway_reliable _ _ c(1) rr c(2) strip(1) sample_messages(2)
          c(3) strip(2) sample_messages(3) prov rand refl codes]])
      (auto simp: lib sample_lib_documented subscribed_slices_def sample_sub_def)
qed

end
