(* ===== verification/CostExporter.thy ===== *)
theory CostExporter
  imports KVStore Float64
begin

text \<open>
  The cost exporter of the evaluation (\<^verbatim>\<open>eval/scripts/cost-exporter/main.go\<close>): every 15 seconds it asks Prometheus for the
  invocations and the average duration of each function over the last hour and sets its gauges to the projected cost under
  AWS pricing.  HTTP is a parameter: what \<open>http.Get\<close> of a URL yields.  The gauges are the state.  Floating-point values are those of
  the theory \<open>Float64\<close>; constants are rounded to \<open>float64\<close> where an operation uses them.
\<close>

section \<open>Query results\<close>

text \<open>A value decoded into \<open>interface{}\<close>; what is neither a string nor a number is never looked into.\<close>

datatype iface = INil | IString string | IFloat float64 | IOther

text \<open>
  A number is decoded by \<open>strconv.ParseFloat\<close>, whose range error fails the decoding, inside arrays and objects as well.
\<close>

fun number_float :: "json \<Rightarrow> float64 option" where
  "number_float (JNum n) = (case of_integer n of Fin r \<Rightarrow> Some (Fin r) | _ \<Rightarrow> None)"
| "number_float (JDec s) = ParseFloat s"
| "number_float _ = None"

fun numbers_in_range :: "json \<Rightarrow> bool" where
  "numbers_in_range (JArr js) = list_all numbers_in_range js"
| "numbers_in_range (JObj ms) = list_all (\<lambda>(k, j). numbers_in_range j) ms"
| "numbers_in_range (JNum n) = (number_float (JNum n) \<noteq> None)"
| "numbers_in_range (JDec s) = (number_float (JDec s) \<noteq> None)"
| "numbers_in_range _ = True"

definition dec_iface :: "json \<Rightarrow> iface option" where
  "dec_iface j =
     (case j of
        JNull \<Rightarrow> Some INil
      | JStr s \<Rightarrow> Some (IString s)
      | JTime t \<Rightarrow> Some (IString (time_text t))
      | JNum n \<Rightarrow> map_option IFloat (number_float j)
      | JDec s \<Rightarrow> map_option IFloat (number_float j)
      | _ \<Rightarrow> if numbers_in_range j then Some IOther else None)"

text \<open>\<open>[2]interface{}\<close>: further elements are dropped without being decoded, missing ones are zeroed.\<close>

fun dec_pair :: "(iface \<times> iface) decoder" where
  "dec_pair (JArr js) v =
     (case js of
        [] \<Rightarrow> Some (INil, INil)
      | [a] \<Rightarrow> map_option (\<lambda>x. (x, INil)) (dec_iface a)
      | a # b # _ \<Rightarrow> (case (dec_iface a, dec_iface b) of (Some x, Some y) \<Rightarrow> Some (x, y) | _ \<Rightarrow> None))"
| "dec_pair JNull v = Some v"
| "dec_pair _ v = None"

record prom_sample =
  ps_Metric :: "(string \<times> string) list"
  ps_Value :: "iface \<times> iface"

record prom_data =
  pd_ResultType :: string
  pd_Result :: "prom_sample list"

record prometheusQueryResult =
  pq_Status :: string
  pq_Data :: prom_data

definition prom_sample_zero :: prom_sample where
  "prom_sample_zero = \<lparr>ps_Metric = [], ps_Value = (INil, INil)\<rparr>"

definition prom_data_zero :: prom_data where
  "prom_data_zero = \<lparr>pd_ResultType = [], pd_Result = []\<rparr>"

definition prometheusQueryResult_zero :: prometheusQueryResult where
  "prometheusQueryResult_zero = \<lparr>pq_Status = [], pq_Data = prom_data_zero\<rparr>"

text \<open>Decoding into a map that exists already adds to it; a later member wins.\<close>

fun dec_labels :: "(string \<times> string) list decoder" where
  "dec_labels j v = (if j = JNull then Some [] else map_option (\<lambda>m. v @ m) (dec_map dec_string [] j v))"

definition unmarshal_prom_sample :: "prom_sample decoder" where
  "unmarshal_prom_sample = dec_struct [(''metric'', fld ps_Metric ps_Metric_update dec_labels),
     (''value'', fld ps_Value ps_Value_update dec_pair)]"

definition unmarshal_prom_data :: "prom_data decoder" where
  "unmarshal_prom_data = dec_struct [(''resultType'', fld pd_ResultType pd_ResultType_update dec_string),
     (''result'', fld pd_Result pd_Result_update (dec_list unmarshal_prom_sample prom_sample_zero))]"

definition unmarshal_prometheusQueryResult :: "prometheusQueryResult decoder" where
  "unmarshal_prometheusQueryResult = dec_struct [(''status'', fld pq_Status pq_Status_update dec_string),
     (''data'', fld pq_Data pq_Data_update unmarshal_prom_data)]"

text \<open>\<open>r.Metric["function_name"]\<close> and \<open>r.Value[1]\<close>.\<close>

definition function_name :: "prom_sample \<Rightarrow> string" where
  "function_name r = (case map_of (rev (ps_Metric r)) ''function_name'' of None \<Rightarrow> [] | Some n \<Rightarrow> n)"

fun parseFloat :: "iface \<Rightarrow> float64" where
  "parseFloat (IString s) = sscanf_float s"
| "parseFloat (IFloat f) = f"
| "parseFloat _ = Fin 0"

definition sample_value :: "prom_sample \<Rightarrow> float64" where
  "sample_value r = parseFloat (snd (ps_Value r))"

section \<open>Queries\<close>

text \<open>What an \<open>http.Get\<close> leads to: its error, an error of reading the body, or a body, which may not be JSON.\<close>

datatype http_reply = GetFailed string | ReadFailed string | Replied "json option"

definition queryPrometheus ::
  "(string \<Rightarrow> http_reply) \<Rightarrow> string \<Rightarrow> string \<Rightarrow> string + prometheusQueryResult" where
  "queryPrometheus http_get promURL query =
     (case http_get (promURL @ ''/api/v1/query?query='' @ query) of
        GetFailed e \<Rightarrow> Inl (''query prometheus: '' @ e)
      | ReadFailed e \<Rightarrow> Inl (''read response: '' @ e)
      | Replied body \<Rightarrow>
          (case unmarshal_body unmarshal_prometheusQueryResult prometheusQueryResult_zero body of
             None \<Rightarrow> Inl (''unmarshal: '' @ err_text JsonErr)
           | Some result \<Rightarrow> Inr result))"

definition invocation_query :: string where
  "invocation_query = ''sum(increase(gateway_function_invocation_total[1h])) by (function_name)''"

definition duration_query :: string where
  "duration_query = ''rate(gateway_functions_seconds_sum[1h]) / rate(gateway_functions_seconds_count[1h])''"

section \<open>Costs\<close>

definition lambdaPricePerGBSecond :: float64 where
  "lambdaPricePerGBSecond = round64 (166667 / 10000000000)"

definition lambdaPricePerRequest :: float64 where
  "lambdaPricePerRequest = round64 (2 / 10000000)"

definition fargatePricePerVCPUHour :: float64 where
  "fargatePricePerVCPUHour = round64 (4048 / 100000)"

definition fargatePricePerGBHour :: float64 where
  "fargatePricePerGBHour = round64 (4445 / 1000000)"

definition baselineVCPUs :: int where "baselineVCPUs = 8"

definition baselineMemryGB :: int where "baselineMemryGB = 16"

definition defaultMemoryMB :: float64 where "defaultMemoryMB = Fin 128"

definition lambda_cost :: "float64 \<Rightarrow> float64 \<Rightarrow> float64" where
  "lambda_cost avgDuration invocations =
     (let gbSeconds = fmul (fmul (fdiv defaultMemoryMB (Fin 1024)) avgDuration) invocations;
          computeCost = fmul gbSeconds lambdaPricePerGBSecond;
          requestCost = fmul invocations lambdaPricePerRequest
      in fadd computeCost requestCost)"

definition fargateCostPerHour :: float64 where
  "fargateCostPerHour = fadd (fmul (of_integer baselineVCPUs) fargatePricePerVCPUHour) (fmul (of_integer baselineMemryGB) fargatePricePerGBHour)"

text \<open>The map of durations; an absent name reads as 0.\<close>

definition durations_of :: "prometheusQueryResult \<Rightarrow> string \<Rightarrow> float64" where
  "durations_of res =
     (if pq_Status res = ''success'' then foldl (\<lambda>m r. m(function_name r := sample_value r)) (\<lambda>_. Fin 0) (pd_Result (pq_Data res))
      else (\<lambda>_. Fin 0))"

definition avg_duration :: "(string \<Rightarrow> float64) \<Rightarrow> string \<Rightarrow> float64" where
  "avg_duration durations fname = (if feq (durations fname) (Fin 0) then round64 (1 / 10) else durations fname)"

section \<open>The gauges\<close>

record cost_gauges =
  functionCost :: "string \<times> string \<rightharpoonup> float64"
  totalCostServerless :: float64
  totalCostTraditional :: "string \<rightharpoonup> float64"
  functionInvocations :: "string \<rightharpoonup> float64"

text \<open>The registered collectors before the first collection.\<close>

definition gauges_init :: cost_gauges where
  "gauges_init = \<lparr>functionCost = Map.empty, totalCostServerless = Fin 0, totalCostTraditional = Map.empty, functionInvocations = Map.empty\<rparr>"

definition collect_sample :: "(string \<Rightarrow> float64) \<Rightarrow> cost_gauges \<times> float64 \<Rightarrow> prom_sample \<Rightarrow> cost_gauges \<times> float64" where
  "collect_sample durations st r =
     (let (g, totalServerlessCost) = st; fname = function_name r; invocations = sample_value r;
          lambdaCost = lambda_cost (avg_duration durations fname) invocations
      in (g\<lparr>functionInvocations := (functionInvocations g)(fname \<mapsto> invocations),
            functionCost := (functionCost g)((fname, ''lambda'') \<mapsto> lambdaCost)\<rparr>,
          fadd totalServerlessCost lambdaCost))"

definition collectCosts :: "(string \<Rightarrow> http_reply) \<Rightarrow> string \<Rightarrow> cost_gauges \<Rightarrow> cost_gauges" where
  "collectCosts http_get promURL g =
     (case queryPrometheus http_get promURL invocation_query of
        Inl _ \<Rightarrow> g
      | Inr invocResult \<Rightarrow>
          (case queryPrometheus http_get promURL duration_query of
             Inl _ \<Rightarrow> g
           | Inr durationResult \<Rightarrow>
               let durations = durations_of durationResult;
                   (g', totalServerlessCost) =
                     (if pq_Status invocResult = ''success''
                      then foldl (collect_sample durations) (g, Fin 0) (pd_Result (pq_Data invocResult)) else (g, Fin 0))
               in g'\<lparr>totalCostServerless := totalServerlessCost,
                     totalCostTraditional := (totalCostTraditional g')(''open5gs'' \<mapsto> fargateCostPerHour, ''free5gc'' \<mapsto> fargateCostPerHour)\<rparr>))"

text \<open>\<open>main\<close>: the configuration, and the gauges after a number of rounds of the endless loop.\<close>

definition exporter_config :: "(string \<Rightarrow> string) \<Rightarrow> string \<times> string" where
  "exporter_config getenv =
     (if getenv ''PROMETHEUS_URL'' = [] then ''http://prometheus:9090'' else getenv ''PROMETHEUS_URL'',
      if getenv ''LISTEN_ADDR'' = [] then '':9200'' else getenv ''LISTEN_ADDR'')"

definition exporter_rounds :: "(string \<Rightarrow> string) \<Rightarrow> (string \<Rightarrow> http_reply) list \<Rightarrow> cost_gauges" where
  "exporter_rounds getenv replies = foldl (\<lambda>g http_get. collectCosts http_get (fst (exporter_config getenv)) g) gauges_init replies"

section \<open>One collection\<close>

definition sample_cost :: "(string \<Rightarrow> float64) \<Rightarrow> prom_sample \<Rightarrow> float64" where
  "sample_cost durations r = lambda_cost (avg_duration durations (function_name r)) (sample_value r)"

text \<open>The last of several samples of one function determines its gauges, while all of them count towards the total.\<close>

lemma foldl_collect_sample:
  "foldl (collect_sample durations) (g, t) rows =
     (g\<lparr>functionInvocations := functionInvocations g ++ map_of (rev (map (\<lambda>r. (function_name r, sample_value r)) rows)),
        functionCost := functionCost g ++ map_of (rev (map (\<lambda>r. ((function_name r, ''lambda''), sample_cost durations r)) rows))\<rparr>,
      foldl fadd t (map (sample_cost durations) rows))"
  by (induction rows arbitrary: g t) (simp_all add: collect_sample_def sample_cost_def Let_def map_of_append map_add_assoc)

lemma collectCosts_ok:
  assumes "queryPrometheus http_get promURL invocation_query = Inr invocResult"
    and "queryPrometheus http_get promURL duration_query = Inr durationResult" "pq_Status invocResult = ''success''"
    and "rows = pd_Result (pq_Data invocResult)" "durations = durations_of durationResult"
  shows "collectCosts http_get promURL g =
    g\<lparr>functionInvocations := functionInvocations g ++ map_of (rev (map (\<lambda>r. (function_name r, sample_value r)) rows)),
      functionCost := functionCost g ++ map_of (rev (map (\<lambda>r. ((function_name r, ''lambda''), sample_cost durations r)) rows)),
      totalCostServerless := foldl fadd (Fin 0) (map (sample_cost durations) rows),
      totalCostTraditional := (totalCostTraditional g)(''open5gs'' \<mapsto> fargateCostPerHour, ''free5gc'' \<mapsto> fargateCostPerHour)\<rparr>"
  using assms by (simp add: collectCosts_def foldl_collect_sample Let_def)

lemma foldl_fadd_NaN: "foldl fadd NaN xs = NaN"
  by (induction xs) simp_all

lemma foldl_fadd_NaN_mem: "NaN \<in> set xs \<Longrightarrow> foldl fadd t xs = NaN"
  by (induction xs arbitrary: t) (auto simp: foldl_fadd_NaN)

lemma foldl_fadd_nonneg: "fnonneg t \<Longrightarrow> \<forall>x \<in> set xs. fnonneg x \<Longrightarrow> fnonneg (foldl fadd t xs)"
  by (induction xs arbitrary: t) (auto simp: fadd_nonneg)

lemma lambda_cost_NaN [simp]: "lambda_cost NaN n = NaN"
  by (simp add: lambda_cost_def Let_def)

text \<open>The prices and the default duration are positive.\<close>

lemma prices:
  "lambdaPricePerGBSecond = Fin (307446349453295 / 18446744073709551616)"
  "lambdaPricePerRequest = Fin (944473296573929 / 4722366482869645213696)"
  "fargatePricePerVCPUHour = Fin (2916891406655323 / 72057594037927936)"
  "fargatePricePerGBHour = Fin (5124736087977435 / 1152921504606846976)"
  "round64 (1 / 10) = Fin (3602879701896397 / 36028797018963968)"
  "fdiv defaultMemoryMB (Fin 1024) = Fin (1 / 8)"
      apply (subst lambdaPricePerGBSecond_def, subst round64_eval [where k = "-16" and m = 4919141591252720]; simp add: power_int_minus_divide)
     apply (subst lambdaPricePerRequest_def, subst round64_eval [where k = "-23" and m = 7555786372591432]; simp add: power_int_minus_divide)
    apply (subst fargatePricePerVCPUHour_def, subst round64_eval [where k = "-5" and m = 5833782813310646]; simp add: power_int_minus_divide)
   apply (subst fargatePricePerGBHour_def, subst round64_eval [where k = "-8" and m = 5124736087977435]; simp add: power_int_minus_divide)
  apply (subst round64_eval [where k = "-4" and m = 7205759403792794]; simp add: power_int_minus_divide)
  apply (simp add: defaultMemoryMB_def, subst round64_eval [where k = "-3" and m = 4503599627370496]; simp add: power_int_minus_divide)
  done

lemma fargate_cost: "fargateCostPerHour = Fin (7114966835305005 / 18014398509481984)"
proof -
  have "of_integer 8 = Fin 8" "of_integer 16 = Fin 16" using of_integer_exact [of 8] of_integer_exact [of 16] by simp_all
  moreover have "round64 (8 * (2916891406655323 / 72057594037927936)) = Fin (2916891406655323 / 9007199254740992)"
    by (subst round64_eval [where k = "-2" and m = 5833782813310646]; simp add: power_int_minus_divide)
  moreover have "round64 (16 * (5124736087977435 / 1152921504606846976)) = Fin (5124736087977435 / 72057594037927936)"
    by (subst round64_eval [where k = "-4" and m = 5124736087977435]; simp add: power_int_minus_divide)
  moreover have "round64 (2916891406655323 / 9007199254740992 + 5124736087977435 / 72057594037927936) = Fin (7114966835305005 / 18014398509481984)"
    by (subst round64_eval [where k = "-2" and m = 7114966835305005]; simp add: power_int_minus_divide)
  ultimately show ?thesis by (simp add: fargateCostPerHour_def prices baselineVCPUs_def baselineMemryGB_def)
qed

text \<open>A value that Prometheus can report of a counter or a duration: a number, not negative and not close to the end of the range.\<close>

fun fmeasure :: "float64 \<Rightarrow> bool" where
  "fmeasure (Fin x) = (0 \<le> x \<and> x < 2 ^ 1000)"
| "fmeasure _ = False"

lemma round64_measure: "0 \<le> x \<Longrightarrow> x < 2 ^ 1023 \<Longrightarrow> \<exists>r. round64 x = Fin r \<and> 0 \<le> r"
  using round64_near [of x] round64_nonneg [of x] by (auto simp: abs_less_iff)

lemma lambda_cost_nonneg:
  assumes "fmeasure d" "fmeasure n"
  shows "fnonneg (lambda_cost d n)"
proof -
  obtain a b where ab: "d = Fin a" "n = Fin b" "0 \<le> a" "0 \<le> b" "a < 2 ^ 1000"
    using assms by (cases d; cases n) auto
  have "1 / 8 * a < 2 ^ 1023" using ab(3,5) power_increasing [of 1000 1023 "2 :: rat"] by linarith
  then obtain c where c: "round64 (1 / 8 * a) = Fin c" "0 \<le> c" using round64_measure [of "1 / 8 * a"] ab(3) by auto
  have "fnonneg (fmul (round64 (c * b)) (Fin p))" if "0 < p" for p
    using round64_nonneg [of "c * b"] c(2) ab(4) that by (cases "round64 (c * b)") (auto simp: round64_nonneg)
  then show ?thesis using c ab
    by (auto simp: lambda_cost_def Let_def prices simp del: times_divide_eq_left mult_1 intro!: fadd_nonneg round64_nonneg)
qed

lemma avg_duration_measure: "fmeasure (durations f) \<Longrightarrow> fmeasure (avg_duration durations f)"
proof -
  have "(1 :: rat) \<le> 2 ^ 1000" by (rule one_le_power) simp
  then show "fmeasure (durations f) \<Longrightarrow> fmeasure (avg_duration durations f)" by (auto simp: avg_duration_def prices(5) elim: order.strict_trans2 [rotated])
qed

section \<open>Properties\<close>

text \<open>C40: a collection over numbers that are not negative and below $2^{1000}$ sets, for every function reported, the cost of its last sample, and as the total
  the floating-point sum of the costs of all samples in their order, none of them negative or NaN; the hourly cost of each baseline
  is 0.39496 USD up to $10^{-16}$, less than two units in the last place; the gauges of a function that is not reported any more keep their values.\<close>

theorem collect_costs_effect:
  assumes "queryPrometheus http_get promURL invocation_query = Inr invocResult"
    and "queryPrometheus http_get promURL duration_query = Inr durationResult" "pq_Status invocResult = ''success''"
    and "rows = pd_Result (pq_Data invocResult)"
    and "\<And>r. r \<in> set rows \<Longrightarrow> fmeasure (sample_value r) \<and> fmeasure (durations_of durationResult (function_name r))"
    and g': "g' = collectCosts http_get promURL g"
  shows "totalCostServerless g' = foldl fadd (Fin 0) (map (sample_cost (durations_of durationResult)) rows) \<and> fnonneg (totalCostServerless g') \<and>
    (\<forall>pre r post. rows = pre @ r # post \<and> function_name r \<notin> function_name ` set post \<longrightarrow>
       functionCost g' (function_name r, ''lambda'') = Some (sample_cost (durations_of durationResult) r) \<and>
       fnonneg (sample_cost (durations_of durationResult) r)) \<and>
    (\<forall>f. f \<notin> function_name ` set rows \<longrightarrow> functionCost g' (f, ''lambda'') = functionCost g (f, ''lambda'') \<and>
       functionInvocations g' f = functionInvocations g f) \<and>
    (\<exists>c. totalCostTraditional g' ''open5gs'' = Some (Fin c) \<and> totalCostTraditional g' ''free5gc'' = Some (Fin c) \<and>
       \<bar>c - 39496 / 100000\<bar> < 1 / 10 ^ 16)"
proof -
  let ?cost = "sample_cost (durations_of durationResult)"
  note ok = collectCosts_ok [OF assms(1-4) refl, of g, folded g']
  have nonneg: "fnonneg (?cost r)" if "r \<in> set rows" for r
    using assms(5) [OF that] by (auto simp: sample_cost_def intro!: lambda_cost_nonneg avg_duration_measure)
  have "fnonneg (foldl fadd (Fin 0) (map ?cost rows))" using nonneg by (intro foldl_fadd_nonneg) auto
  moreover have "functionCost g' (f, ''lambda'') = functionCost g (f, ''lambda'') \<and> functionInvocations g' f = functionInvocations g f"
    if "f \<notin> function_name ` set rows" for f
    using that by (auto simp: ok map_add_def image_iff split: option.splits dest!: map_of_SomeD)
  moreover have "functionCost g' (function_name r, ''lambda'') = Some (?cost r)" if "rows = pre @ r # post" "function_name r \<notin> function_name ` set post" for pre r post
  proof -
    have "map_of (rev (map (\<lambda>r. ((function_name r, ''lambda''), ?cost r)) post)) (function_name r, ''lambda'') = None"
      using that(2) by (auto simp: map_of_eq_None_iff)
    then show ?thesis by (simp add: ok that(1) map_of_append map_add_def)
  qed
  moreover have "\<exists>c. totalCostTraditional g' ''open5gs'' = Some (Fin c) \<and> totalCostTraditional g' ''free5gc'' = Some (Fin c) \<and>
       \<bar>c - 39496 / 100000\<bar> < 1 / 10 ^ 16"
    by (intro exI [of _ "7114966835305005 / 18014398509481984"]) (simp add: ok fargate_cost)
  moreover have "totalCostServerless g' = foldl fadd (Fin 0) (map ?cost rows)" by (simp add: ok)
  ultimately show ?thesis using nonneg by auto
qed

text \<open>One function whose average duration is NaN, which is what the quotient of two zero rates is for a function that was idle for an
  hour, makes the total cost of all functions NaN: the default duration is used only for the value 0.\<close>

theorem idle_function_total_nan:
  assumes "queryPrometheus http_get promURL invocation_query = Inr invocResult"
    and "queryPrometheus http_get promURL duration_query = Inr durationResult" "pq_Status invocResult = ''success''"
    and "r \<in> set (pd_Result (pq_Data invocResult))" "durations_of durationResult (function_name r) = NaN"
  shows "totalCostServerless (collectCosts http_get promURL g) = NaN"
proof -
  have "sample_cost (durations_of durationResult) r = NaN" using assms(5) by (simp add: sample_cost_def avg_duration_def)
  then have "NaN \<in> set (map (sample_cost (durations_of durationResult)) (pd_Result (pq_Data invocResult)))" using assms(4) by force
  then show ?thesis by (simp add: collectCosts_ok [OF assms(1-3) refl refl] foldl_fadd_NaN_mem)
qed

section \<open>A Prometheus server\<close>

definition prom_row :: "string \<Rightarrow> string \<Rightarrow> json" where
  "prom_row f v = JObj [(''metric'', JObj [(''function_name'', JStr f)]), (''value'', JArr [JNum 1700000000, JStr v])]"

definition prom_reply :: "json list \<Rightarrow> http_reply" where
  "prom_reply rows = Replied (Some (JObj [(''status'', JStr ''success''),
     (''data'', JObj [(''resultType'', JStr ''vector''), (''result'', JArr rows)])]))"

definition sample_server :: "string \<Rightarrow> string \<Rightarrow> http_reply" where
  "sample_server d url = (if url = ''http://p/api/v1/query?query='' @ invocation_query then prom_reply [prom_row ''amf'' ''120'']
     else prom_reply [prom_row ''amf'' d])"

definition sample_row :: "string \<Rightarrow> string \<Rightarrow> prom_sample" where
  "sample_row f v = \<lparr>ps_Metric = [(''function_name'', f)], ps_Value = (IFloat (Fin 1700000000), IString v)\<rparr>"

lemma unmarshal_prom_row [simp]: "unmarshal_prom_sample (prom_row f v) prom_sample_zero = Some (sample_row f v)"
  using of_integer_exact [of 1700000000]
  by (simp add: unmarshal_prom_sample_def prom_row_def prom_sample_zero_def fld_def dec_iface_def sample_row_def)

lemma sample_queries:
  "queryPrometheus (sample_server d) ''http://p'' invocation_query = Inr \<lparr>pq_Status = ''success'',
     pq_Data = \<lparr>pd_ResultType = ''vector'', pd_Result = [sample_row ''amf'' ''120'']\<rparr>\<rparr>"
  "queryPrometheus (sample_server d) ''http://p'' duration_query = Inr \<lparr>pq_Status = ''success'',
     pq_Data = \<lparr>pd_ResultType = ''vector'', pd_Result = [sample_row ''amf'' d]\<rparr>\<rparr>"
  by (simp_all add: queryPrometheus_def sample_server_def prom_reply_def unmarshal_prometheusQueryResult_def prometheusQueryResult_zero_def
      unmarshal_prom_data_def prom_data_zero_def fld_def duration_query_def invocation_query_def)

lemma sample_rows:
  "function_name (sample_row f v) = f" "sample_value (sample_row f v) = sscanf_float v"
  by (simp_all add: function_name_def sample_value_def sample_row_def)

lemma sample_numbers: "sscanf_float ''120'' = Fin 120" "sscanf_float ''NaN'' = NaN" "sscanf_float ''0'' = Fin 0"
proof -
  have "readFloat ''120'' = Some 120" "floatToken ''120'' = ''120''" by code_simp+
  moreover have "round64 120 = Fin 120" using of_integer_exact [of 120] by (simp add: of_integer_def)
  ultimately show "sscanf_float ''120'' = Fin 120"
    by (simp add: sscanf_float_def is_blank_def convertFloat_def ParseFloat_def sign_of_def)
qed code_simp+

theorem collect_costs_effect_witness:
  "fnonneg (totalCostServerless (collectCosts (sample_server ''0'') ''http://p'' gauges_init))"
proof -
  have m: "fmeasure (sample_value r) \<and> fmeasure (durations_of \<lparr>pq_Status = ''success'',
      pq_Data = \<lparr>pd_ResultType = ''vector'', pd_Result = [sample_row ''amf'' ''0'']\<rparr>\<rparr> (function_name r))"
    if "r \<in> set (pd_Result (pq_Data \<lparr>pq_Status = ''success'', pq_Data = \<lparr>pd_ResultType = ''vector'', pd_Result = [sample_row ''amf'' ''120'']\<rparr>\<rparr>))" for r
    using that by (simp add: sample_rows sample_numbers durations_of_def)
  show ?thesis
    by (rule collect_costs_effect [OF sample_queries(1) sample_queries(2) _ refl m refl, THEN conjunct2, THEN conjunct1]) simp_all
qed

theorem idle_function_total_nan_witness:
  "totalCostServerless (collectCosts (sample_server ''NaN'') ''http://p'' gauges_init) = NaN"
  by (rule idle_function_total_nan [where r = "sample_row ''amf'' ''120''", OF sample_queries]) (simp_all add: sample_rows sample_numbers durations_of_def)

end
