(* ===== verification/VerifyKausf.thy ===== *)
theory VerifyKausf
  imports ProxyRuns
begin

text \<open>
  The check of captured security contexts (\<^verbatim>\<open>cmd/verify-kausf/main.go\<close>): from the RAND and AUTN of a captured challenge it derives, as
  the SIM would, the key hierarchy of the test subscriber and compares the MAC of the captured Security Mode Command.  The
  derivation is the other side of what the UDM and the proxy compute, so that a capture of this core is always confirmed.
  The output is the list of what is printed.
\<close>

section \<open>The program\<close>

text \<open>\<open>milenage.GenerateKeysWithAUTN(opc, k, rand, autn)\<close> yields \<open>(sqnHE, ak, ik, ck, res)\<close>.\<close>

type_synonym autn_keys = "bytes \<Rightarrow> bytes \<Rightarrow> bytes \<Rightarrow> bytes \<Rightarrow> string + (bytes \<times> bytes \<times> bytes \<times> bytes \<times> bytes)"

text \<open>\<open>copy(dst, src)\<close>, and \<open>v, _ := f()\<close>: the zero value after an error.\<close>

definition go_copy :: "'a list \<Rightarrow> 'a list \<Rightarrow> 'a list" where
  "go_copy dst src = take (length dst) src @ drop (length src) dst"

definition ignore_err :: "'a \<Rightarrow> ('e, 'a) res \<Rightarrow> ('e, 'a) res" where
  "ignore_err zero r = (case r of Error _ \<Rightarrow> Ok zero | _ \<Rightarrow> r)"

definition newline :: string where
  "newline = [CHR 0x0A]"

definition test_k :: bytes where
  "test_k = fst (hex_decode ''465B5CE8B199B49FAA5F0A2EE238A6BC'')"

definition test_opc :: bytes where
  "test_opc = fst (hex_decode ''E8ED289DEBA952E4283B54E88E6183CA'')"

definition show_bool :: "bool \<Rightarrow> string" where
  "show_bool b = (if b then ''true'' else ''false'')"

definition concat_keys :: "bytes \<Rightarrow> bytes \<Rightarrow> bytes" where
  "concat_keys ck ik = (let key = go_copy (replicate 32 0) ck in take 16 key @ go_copy (drop 16 key) ik)"

definition verifyCapture ::
  "aka_lib \<Rightarrow> autn_keys \<Rightarrow> (bytes \<Rightarrow> block_fn) \<Rightarrow> string \<Rightarrow> string \<Rightarrow> string \<Rightarrow> string \<Rightarrow> string \<Rightarrow> (string, string list) res" where
  "verifyCapture lib keys aes label randHex autnHex smcPlainHex wireMACHex =
     (let banner = newline @ ''=== '' @ label @ '' ==='' @ newline;
          randVal = fst (hex_decode randHex); autnWire = fst (hex_decode autnHex) in
      case keys test_opc test_k randVal autnWire of
        Inl err \<Rightarrow> Ok [banner, ''GenerateKeysWithAUTN error: '' @ err @ newline]
      | Inr (sqnHE, _, ik, ck, _) \<Rightarrow>
          rbind (slice autnWire 0 6) (\<lambda>sqnXorAK.
          let snn = ''5G:mnc001.mcc001.3gppnetwork.org''; snnBytes = bytes_of snn; key = concat_keys ck ik in
          rbind (ignore_err [] (lift_err [] (GetKDFValue lib key FC_FOR_KAUSF_DERIVATION
            [snnBytes, KDFLen lib snnBytes, sqnXorAK, KDFLen lib sqnXorAK]))) (\<lambda>kausf.
          rbind (ignore_err [] (DeriveKSEAF lib kausf snn)) (\<lambda>kseaf.
          rbind (ignore_err [] (DeriveKAMF lib kseaf ''001010000000001'' [0x00, 0x00])) (\<lambda>kamf.
          rbind (ignore_err ([], []) (DeriveKNASKeys lib kamf 0x00 0x02)) (\<lambda>(knasEnc, knasInt).
          let smcPlain = fst (hex_decode smcPlainHex); macInput = 0x00 # smcPlain in
          rbind (ignore_err [] (ComputeNASMAC aes knasInt 0 0x01 0x01 macInput)) (\<lambda>mac.
            Ok [banner,
              ''SQN='' @ hex_encode sqnHE @ '' SQN^AK='' @ hex_encode sqnXorAK @ newline,
              ''KAUSF='' @ hex_encode kausf @ newline,
              ''KSEAF='' @ hex_encode kseaf @ newline,
              ''KAMF='' @ hex_encode kamf @ newline,
              ''KNASint='' @ hex_encode knasInt @ '' KNASenc='' @ hex_encode knasEnc @ newline,
              ''Computed MAC='' @ hex_encode mac @ newline,
              ''Wire MAC    ='' @ wireMACHex @ newline,
              ''MAC match: '' @ show_bool (hex_encode mac = wireMACHex) @ newline])))))))"

definition verify_main :: "aka_lib \<Rightarrow> autn_keys \<Rightarrow> (bytes \<Rightarrow> block_fn) \<Rightarrow> (string, string list) res" where
  "verify_main lib keys aes =
     rbind (verifyCapture lib keys aes ''Open5GS'' ''ec6a117c3390b2d7ab0f7378ebb6f9c2'' ''cde755cee8d98000fe625770fe2f929f''
       ''7e005d020004f0f0f0f0e1360102'' ''8736f2ab'') (\<lambda>a.
     rbind (verifyCapture lib keys aes ''Our Proxy'' ''49a91f595f84c7388f409f2728f5f902'' ''295be99dec21800032f1b4317f2a6a12''
       ''7e005d020004f0f0f0f0'' ''46593a3b'') (\<lambda>b.
       Ok (a @ b)))"

section \<open>Agreement with the core\<close>

text \<open>
  What the libraries document: the SIM's function recovers from an AUTN what the home network put in, with keys of 16 bytes; the MAC of
  the NAS library under 128-NIA2 with bearer 1 (3GPP access) and direction 1 (downlink) is the one of \<^verbatim>\<open>pkg/crypto\<close>, as
  \<^verbatim>\<open>compare_test.go\<close> checks for one message.
\<close>

definition autn_documented :: "aka_lib \<Rightarrow> autn_keys \<Rightarrow> bool" where
  "autn_documented lib keys \<longleftrightarrow>
     (\<forall>opc k r sqn amf ik ck res autn. GenerateAKAParameters lib opc k r sqn amf = Inr (ik, ck, res, autn) \<longrightarrow>
        length ik = 16 \<and> length ck = 16 \<and> (\<exists>ak. keys opc k r autn = Inr (sqn, ak, ik, ck, res)))"

definition nia2_documented :: "f5_nas \<Rightarrow> (bytes \<Rightarrow> block_fn) \<Rightarrow> bool" where
  "nia2_documented nas aes \<longleftrightarrow>
     (\<forall>k n m mac. length k = 16 \<and> f5_NASMacCalculate nas AlgIntegrity128NIA2 k n Bearer3GPP DirectionDownlink m = Inr mac \<longrightarrow>
        ComputeNASMAC aes k n 1 1 m = Ok mac)"

lemma concat_keys_eq: "length ck = 16 \<Longrightarrow> length ik = 16 \<Longrightarrow> concat_keys ck ik = ck @ ik"
  by (simp add: concat_keys_def go_copy_def)

lemma ignore_err_Ok [simp]: "ignore_err z (Ok v) = Ok v"
  by (simp add: ignore_err_def)

lemma wrap_err_eq_Ok [simp]: "wrap_err p m = Ok a \<longleftrightarrow> m = Ok a"
  by (cases m) simp_all

lemma lift_err_eq_Ok [simp]: "lift_err p m = Ok a \<longleftrightarrow> m = Inr a"
  by (cases m) simp_all

lemma DeriveKNASKeys_length: "DeriveKNASKeys lib k c i = Ok (e, n) \<Longrightarrow> length n = 16"
  by (auto simp: DeriveKNASKeys_def rbind_eq_Ok last16_def split: if_splits)

lemma nas_keys_chain:
  assumes "derive_nas_keys lib ue = Ok ue'" "pu_KNASint ue = []" "pu_KNASint ue' \<noteq> []" "pu_SUPI ue = ''imsi-'' @ digits"
  obtains kseaf kamf enc where "DeriveKSEAF lib (pu_KAUSF ue) ''5G:mnc001.mcc001.3gppnetwork.org'' = Ok kseaf"
    "DeriveKAMF lib kseaf digits [0x00, 0x00] = Ok kamf" "DeriveKNASKeys lib kamf CipherAlg5GEA0 IntegAlg5GIA2 = Ok (enc, pu_KNASint ue')"
  using assms by (auto simp: derive_nas_keys_def orLog_eq_Ok split: if_splits)

text \<open>C23: the key derivation on the SIM's side agrees with the core's: for a challenge that the authentication vector generation made for the
  test subscriber, and a first downlink message that the proxy protected with the NAS keys derived from that vector, the check run
  on the captured RAND, AUTN, plain message and MAC prints the vector's KAUSF, the proxy's integrity key and a match of the MACs.\<close>

theorem own_capture_verified:
  assumes lib: "autn_documented lib keys" "nia2_documented nas aes"
    and av: "GenerateAuthVectorWithRAND lib test_k test_opc sqn amf rnd ''5G:mnc001.mcc001.3gppnetwork.org'' = Ok av"
    and ue: "derive_nas_keys lib ue = Ok ue'" "pu_KNASint ue = []" "pu_KNASint ue' \<noteq> []"
      "pu_SUPI ue = ''imsi-001010000000001''" "pu_KAUSF ue = av_KAUSF av"
    and wire: "buildSecurityProtectedNAS nas (pu_KNASint ue') plain hdr 0 0 = Inr out" "mac_documented nas"
  shows "\<exists>lines. verifyCapture lib keys aes label (hex_encode (av_RAND av)) (hex_encode (av_AUTN av)) (hex_encode plain)
      (hex_encode (take 4 (drop 2 out))) = Ok lines \<and>
    lines ! 2 = ''KAUSF='' @ hex_encode (av_KAUSF av) @ newline \<and>
    (\<exists>enc. lines ! 5 = ''KNASint='' @ hex_encode (pu_KNASint ue') @ '' KNASenc='' @ hex_encode enc @ newline) \<and>
    last lines = ''MAC match: true'' @ newline"
proof -
  obtain ik ck res where aka: "GenerateAKAParameters lib test_opc test_k rnd sqn amf = Inr (ik, ck, res, av_AUTN av)" "av_RAND av = rnd"
    and kausf: "deriveKAUSF lib ck ik ''5G:mnc001.mcc001.3gppnetwork.org'' sqn (av_AUTN av) = Ok (av_KAUSF av)"
    using av by (auto simp: GenerateAuthVectorWithRAND_def rbind_eq_Ok)
  obtain ak where k: "keys test_opc test_k rnd (av_AUTN av) = Inr (sqn, ak, ik, ck, res)" "concat_keys ck ik = ck @ ik"
    using lib(1) [unfolded autn_documented_def, rule_format, OF aka(1)] by (auto simp: concat_keys_eq)
  obtain kseaf kamf enc where chain: "DeriveKSEAF lib (av_KAUSF av) ''5G:mnc001.mcc001.3gppnetwork.org'' = Ok kseaf"
    "DeriveKAMF lib kseaf ''001010000000001'' [0x00, 0x00] = Ok kamf" "DeriveKNASKeys lib kamf 0 2 = Ok (enc, pu_KNASint ue')"
    by (rule nas_keys_chain [OF ue(1-3), of "''001010000000001''", unfolded ue(5) nas_consts]) (simp add: ue(4))
  then have len: "length (pu_KNASint ue') = 16" by (blast intro: DeriveKNASKeys_length)
  then obtain mac where mac: "ComputeNASMAC aes (pu_KNASint ue') 0 1 1 (0 # plain) = Ok mac" "mac = take 4 (drop 2 out)"
    using wire lib(2) ue(3) by (auto simp: buildSecurityProtectedNAS_def nia2_documented_def mac_documented_def key_array_def split: sum.splits)
  from kausf obtain x where x: "(slice (av_AUTN av) 0 6 :: (string, bytes) res) = Ok x"
    "GetKDFValue lib (ck @ ik) FC_FOR_KAUSF_DERIVATION [bytes_of ''5G:mnc001.mcc001.3gppnetwork.org'',
       KDFLen lib (bytes_of ''5G:mnc001.mcc001.3gppnetwork.org''), x, KDFLen lib x] = Inr (av_KAUSF av)"
    unfolding deriveKAUSF_def rbind_eq_Ok Let_def lift_err_eq_Ok by blast
  show ?thesis
    using k x chain mac by (simp add: verifyCapture_def aka(2) show_bool_def Let_def)
qed

section \<open>A capture\<close>

definition usim_lib :: aka_lib where
  "usim_lib = \<lparr>GenerateAKAParameters = (\<lambda>opc k r sqn amf. if length sqn = 6 then Inr (key_array k, key_array opc, r, sqn @ replicate 10 0)
       else Inl ''sqn''),
     GetKDFValue = (\<lambda>key fc ps. Inr (replicate 32 (of_nat (length (concat ps))))), KDFLen = (\<lambda>p. put_be16 (length p))\<rparr>"

definition usim_keys :: autn_keys where
  "usim_keys opc k r autn = Inr (take 6 autn, [], key_array k, key_array opc, r)"

definition usim_aes :: "bytes \<Rightarrow> block_fn" where
  "usim_aes k b = key_array (last k # b)"

definition usim_nas :: f5_nas where
  "usim_nas = \<lparr>f5_EncodeSecurityModeCommand = (\<lambda>m. Inr []),
     f5_NASMacCalculate = (\<lambda>alg k n b d m. case ComputeNASMAC usim_aes k n 1 1 m of Ok mac \<Rightarrow> Inr mac | _ \<Rightarrow> Inl ''mac'')\<rparr>"

lemma usim_documented: "autn_documented usim_lib usim_keys" "nia2_documented usim_nas usim_aes" "mac_documented usim_nas"
  by (auto simp: autn_documented_def usim_lib_def usim_keys_def key_array_def nia2_documented_def usim_nas_def mac_documented_def
      ComputeNASMAC_def slice_def Let_def split: res.splits if_splits)

definition usim_av :: AuthVector where
  "usim_av = (case GenerateAuthVectorWithRAND usim_lib test_k test_opc (replicate 6 9) [0x80, 0] (replicate 16 7) ''5G:mnc001.mcc001.3gppnetwork.org'' of
     Ok av \<Rightarrow> av | _ \<Rightarrow> AuthVector_zero)"

definition usim_ue :: proxy_UEContext where
  "usim_ue = (new_proxy_UE ''imsi-001010000000001'' 1 1 None)\<lparr>pu_KAUSF := av_KAUSF usim_av\<rparr>"

definition smc_capture :: bytes where
  "smc_capture = (case derive_nas_keys usim_lib usim_ue of
     Ok ue' \<Rightarrow> (case buildSecurityProtectedNAS usim_nas (pu_KNASint ue') [0x7E, 0, 0x5D] 0x03 0 0 of Inr out \<Rightarrow> out | Inl _ \<Rightarrow> []) | _ \<Rightarrow> [])"

lemma usim_kausf: "GenerateAuthVectorWithRAND usim_lib k opc sqn amf r snn = Ok av \<Longrightarrow> length (av_KAUSF av) = 32"
  by (auto simp: GenerateAuthVectorWithRAND_def rbind_eq_Ok deriveKAUSF_def Let_def usim_lib_def)

lemma usim_run:
  "GenerateAuthVectorWithRAND usim_lib test_k test_opc (replicate 6 9) [0x80, 0] (replicate 16 7) ''5G:mnc001.mcc001.3gppnetwork.org'' = Ok usim_av"
  "\<exists>ue'. derive_nas_keys usim_lib usim_ue = Ok ue' \<and> pu_KNASint ue' \<noteq> [] \<and>
     buildSecurityProtectedNAS usim_nas (pu_KNASint ue') [0x7E, 0, 0x5D] 0x03 0 0 = Inr smc_capture"
proof -
  show av: "GenerateAuthVectorWithRAND usim_lib test_k test_opc (replicate 6 9) [0x80, 0] (replicate 16 7) ''5G:mnc001.mcc001.3gppnetwork.org'' = Ok usim_av"
    by (simp add: usim_av_def GenerateAuthVectorWithRAND_def usim_lib_def deriveXRESStar_def deriveKAUSF_def Let_def last16_def)
  show "\<exists>ue'. derive_nas_keys usim_lib usim_ue = Ok ue' \<and> pu_KNASint ue' \<noteq> [] \<and>
     buildSecurityProtectedNAS usim_nas (pu_KNASint ue') [0x7E, 0, 0x5D] 0x03 0 0 = Inr smc_capture"
  proof -
    have len: "length (av_KAUSF usim_av) = 32" by (rule usim_kausf [OF av])
    have "length (usim_aes k b) = 16" for k b by (auto simp: usim_aes_def key_array_def min_def)
    then have "length (aesCMAC (usim_aes k) m) = 16" for k m unfolding aesCMAC_def Let_def split_beta .
    then have mac: "\<exists>mac. ComputeNASMAC usim_aes (replicate 16 x) n 1 1 m = Ok mac" for x n m
      by (simp add: ComputeNASMAC_def Let_def)
    obtain x where x: "derive_nas_keys usim_lib usim_ue = Ok (usim_ue\<lparr>pu_KNASenc := replicate 16 x, pu_KNASint := replicate 16 x\<rparr>)"
      using len by (simp add: derive_nas_keys_def usim_ue_def new_proxy_UE_def orLog_def DeriveKSEAF_def DeriveKAMF_def DeriveKNASKeys_def
          last16_def usim_lib_def Let_def)
    from mac [of x 0 "[0, 0x7E, 0, 0x5D]"] x show ?thesis
      by (auto simp: smc_capture_def buildSecurityProtectedNAS_def usim_nas_def key_array_def)
  qed
qed

theorem own_capture_verified_witness:
  "\<exists>lines. verifyCapture usim_lib usim_keys usim_aes ''Our Proxy'' (hex_encode (av_RAND usim_av)) (hex_encode (av_AUTN usim_av))
     (hex_encode [0x7E, 0, 0x5D]) (hex_encode (take 4 (drop 2 smc_capture))) = Ok lines \<and> last lines = ''MAC match: true'' @ newline"
proof -
  obtain ue' where ue': "derive_nas_keys usim_lib usim_ue = Ok ue'" "pu_KNASint ue' \<noteq> []"
    "buildSecurityProtectedNAS usim_nas (pu_KNASint ue') [0x7E, 0, 0x5D] 0x03 0 0 = Inr smc_capture"
    using usim_run(2) by blast
  have "pu_KNASint usim_ue = []" "pu_SUPI usim_ue = ''imsi-001010000000001''" "pu_KAUSF usim_ue = av_KAUSF usim_av"
    by (simp_all add: usim_ue_def new_proxy_UE_def)
  from own_capture_verified [OF usim_documented(1,2) usim_run(1) ue'(1) this(1) ue'(2) this(2,3) ue'(3) usim_documented(3), of "''Our Proxy''"]
  show ?thesis by blast
qed

end
