(* ===== verification/TypedStore.thy ===== *)
theory TypedStore
  imports Gateway SctpProxy
begin

text \<open>
  The types of the shared store.  The functions agree on the meaning of a key only by its text: one function marshals a struct of
  its own under a prefix, another one unmarshals what it finds there into a struct of its own, declared elsewhere.  \<open>store_types\<close>
  lists, for each prefix, the type that its readers expect, and the store is typed when every document decodes at the type of
  its key.  Every function keeps the store typed, so no read in the system ever fails on the form of a document.
\<close>

named_theorems typed \<open>documents of the type of their key\<close>

section \<open>Types of keys\<close>

definition decodes :: "'a decoder \<Rightarrow> 'a \<Rightarrow> json \<Rightarrow> bool" where
  "decodes dec zero j \<longleftrightarrow> dec j zero \<noteq> None"

definition store_types :: "'f float64_conv \<Rightarrow> (string \<times> (json \<Rightarrow> bool)) list" where
  "store_types fl =
     [(''ue:'', decodes unmarshal_UEContext UEContext_zero),
      (''auth-pending:'', decodes unmarshal_authPending authPending_zero),
      (''pdu-sessions/'', decodes unmarshal_PDUSession PDUSession_zero),
      (''ip-pool/allocated/'', decodes dec_string []),
      (''subscribers/'', decodes unmarshal_SubscriberData SubscriberData_zero),
      (''auth-vectors/'', decodes unmarshal_AuthVector AuthVector_zero),
      (''nssf/configured-slices'', decodes (dec_list unmarshal_SNSSAI SNSSAI_zero) []),
      (''nsacf-policies/'', decodes unmarshal_SliceAdmissionPolicy SliceAdmissionPolicy_zero),
      (''nsacf-counters/'', decodes unmarshal_SliceCounters SliceCounters_zero),
      (''policies/'', decodes unmarshal_PolicyDecision PolicyDecision_zero),
      (''active-policies/'', decodes unmarshal_PolicyView PolicyView_zero),
      (''bsf-bindings/'', decodes unmarshal_PCFBinding PCFBinding_zero),
      (''bsf-by-ip/'', decodes dec_string []),
      (''bsf-by-supi/'', decodes dec_string []),
      (''charging-sessions/'', decodes unmarshal_ChargingSession ChargingSession_zero),
      (''charging-records/'', decodes unmarshal_ChargingDataRecord ChargingDataRecord_zero),
      (''nf-metrics/'', decodes (unmarshal_NFLoadInfo fl) (NFLoadInfo_zero fl)),
      (''slice-metrics/'', decodes (unmarshal_SliceLoadInfo fl) (SliceLoadInfo_zero fl))]"

definition typed_at :: "'f float64_conv \<Rightarrow> string \<Rightarrow> json \<Rightarrow> bool" where
  "typed_at fl k j \<longleftrightarrow> list_all (\<lambda>(p, has_type). take (length p) k = p \<longrightarrow> has_type j) (store_types fl)"

definition store_typed :: "'f float64_conv \<Rightarrow> (string \<rightharpoonup> json) \<Rightarrow> bool" where
  "store_typed fl s \<longleftrightarrow> (\<forall>k j. s k = Some j \<longrightarrow> typed_at fl k j)"

lemma decodesI: "dec j zero = Some v \<Longrightarrow> decodes dec zero j"
  by (simp add: decodes_def)

lemma store_typed_put: "typed_at fl k j \<Longrightarrow> store_typed fl s \<Longrightarrow> store_typed fl (s(k \<mapsto> j))"
  by (simp add: store_typed_def)

lemma store_typed_del: "store_typed fl s \<Longrightarrow> store_typed fl (s(k := None))"
  by (simp add: store_typed_def)

lemmas typed_defs = typed_at_def store_types_def ue_key_def session_key_def ip_key_def sub_key_def av_key_def counters_key_def policy_key_def
  configured_policy_key_def active_policy_key_def bsf_key_def bsf_ip_key_def bsf_supi_key_def chg_key_def cdr_key_def nf_metrics_key_def
  slice_metrics_key_def sub_store_key_def

lemma pending_decodes: "decodes unmarshal_authPending authPending_zero (JObj [(''kausf'', JStr a), (''xres_star'', JStr b)])"
  by (simp add: decodes_def unmarshal_authPending_def authPending_fields_def authPending_zero_def fld_def)

lemma written_typed [typed]:
  "typed_at fl (ue_key i) (marshal_UEContext x1)"
  "typed_at fl (''auth-pending:'' @ i) (JObj [(''kausf'', JStr a), (''xres_star'', JStr b)])"
  "typed_at fl (session_key i) (marshal_PDUSession x2)"
  "typed_at fl (ip_key i) (JStr a)"
  "typed_at fl (sub_key i) (marshal_SubscriberData x3)"
  "typed_at fl (av_key i) (marshal_AuthVector x4)"
  "typed_at fl (counters_key s) (marshal_SliceCounters x5)"
  "typed_at fl (active_policy_key i) (marshal_PolicyDecision x6)"
  "typed_at fl (bsf_key i) (marshal_PCFBinding x7)"
  "typed_at fl (bsf_ip_key i) (JStr a)"
  "typed_at fl (bsf_supi_key i d) (JStr a)"
  "typed_at fl (chg_key i) (marshal_ChargingSession x8)"
  "typed_at fl (cdr_key i) (marshal_ChargingDataRecord x9)"
  "typed_at fl (sub_store_key i) j"
  by (simp_all add: typed_defs pending_decodes, simp_all add: decodes_def PolicyView_of_decision)

lemma metrics_typed [typed]:
  assumes "float64_json fl"
  shows "typed_at fl (nf_metrics_key i) (marshal_NFLoadInfo fl x)" "typed_at fl (slice_metrics_key s) (marshal_SliceLoadInfo fl y)"
  by (simp_all add: typed_defs decodes_def float64_json.NFLoadInfo_codec [OF assms] float64_json.SliceLoadInfo_codec [OF assms])

section \<open>Every function keeps the store typed\<close>

lemma keeps_bool [keep]: "keeps view I m \<Longrightarrow> keeps view I n \<Longrightarrow> keeps view I (case b of True \<Rightarrow> m | False \<Rightarrow> n)"
  by (cases b) simp_all

lemmas keep_typed = keep store_typed_put store_typed_del typed

context kv_store
begin

lemmas kv_typed = keeps_kvPut keeps_kvDelete keeps_kvGet keep_typed

lemma subscriber_typed:
  "keeps view (store_typed fl) (udr_data_read kv req)" "keeps view (store_typed fl) (udr_data_write kv req)"
  "keeps view (store_typed fl) (udm_generate_auth_data lib kv req)" "keeps view (store_typed fl) (udm_get_subscriber_data kv req)"
  "keeps view (store_typed fl) (ausf_authenticate kv req)"
  unfolding udr_data_read_def udr_data_write_def udm_generate_auth_data_def udm_get_subscriber_data_def ausf_authenticate_def
  by (intro kv_typed; assumption?)+

lemma slices_typed:
  "keeps view (store_typed fl) (nssf_slice_select kv req)" "keeps view (store_typed fl) (nsacf_slice_availability_check env kv req)"
  "keeps view (store_typed fl) (nsacf_update_counters env kv req)"
  unfolding nssf_slice_select_def nsacf_slice_availability_check_def nsacf_update_counters_def
  by (intro kv_typed; assumption?)+

lemma policy_typed:
  "keeps view (store_typed fl) (pcf_policy_create kv req)" "keeps view (store_typed fl) (pcf_policy_get kv req)"
  "keeps view (store_typed fl) (bsf_binding_register env kv req)" "keeps view (store_typed fl) (bsf_binding_discover env kv req)"
  "keeps view (store_typed fl) (bsf_binding_deregister env kv req)"
  unfolding pcf_policy_create_def pcf_policy_get_def bsf_binding_register_def bsf_binding_discover_def bsf_load_def
    bsf_binding_deregister_def
  by (intro kv_typed; simp?)+

lemma charging_typed:
  "keeps view (store_typed fl) (chf_charging_create env kv req)" "keeps view (store_typed fl) (chf_charging_update env kv req)"
  "keeps view (store_typed fl) (chf_charging_release env kv req)"
  unfolding chf_charging_create_def chf_charging_update_def chf_charging_release_def
  by (intro kv_typed; simp?)+

lemma nwdaf_typed:
  assumes "float64_json fl"
  shows "keeps view (store_typed fl) (nwdaf_analytics_subscribe fl kv req)" "keeps view (store_typed fl) (nwdaf_data_collect fl kv req)"
  unfolding nwdaf_analytics_subscribe_def nwdaf_data_collect_def handleNFLoad_def handleSliceLoad_def fetch_analytics_def
    fetchNFLoad_def fetchSliceLoad_def
  by (intro kv_typed assms; simp?)+

lemma amf_typed:
  assumes "\<And>f p. keeps view (store_typed fl) (sbi f p)"
  shows "keeps view (store_typed fl) (amf_registration env kv sbi req)" "keeps view (store_typed fl) (amf_deregistration env kv sbi req)"
    "keeps view (store_typed fl) (amf_auth_initiate kv sbi req)" "keeps view (store_typed fl) (amf_pdu_session_relay kv sbi req)"
    "keeps view (store_typed fl) (amf_service_request kv req)" "keeps view (store_typed fl) (amf_handover kv req)"
  unfolding amf_registration_def amf_deregistration_def amf_auth_initiate_def amf_pdu_session_relay_def amf_service_request_def
    amf_handover_def reg_authenticate_def reg_subscribe_def reg_admission_def reg_accept_def reg_check_def reg_count_def get_ue_def put_ue_def
  by (intro kv_typed assms; simp?)+

lemma allocateIP_typed: "keeps view (store_typed fl) (allocateIP_loop p kv n)"
proof (induction n)
  case (Suc n)
  then show ?case unfolding allocateIP_loop.simps by (intro kv_typed; simp?)
qed (simp add: keep)

lemma smf_typed:
  assumes "\<And>f p. keeps view (store_typed fl) (sbi f p)"
  shows "keeps view (store_typed fl) (smf_pdu_session_create env kv (Some sbi) None req)"
    "keeps view (store_typed fl) (smf_pdu_session_release env kv (Some sbi) None req)"
    "keeps view (store_typed fl) (smf_pdu_session_update kv None req)" "keeps view (store_typed fl) (smf_n4_session_setup None req)"
  unfolding smf_pdu_session_create_def sm_policy_def sm_refused_def allocateIP_def sm_setup_def sm_establish_def
    sm_register_session_def sm_bind_pcf_def sm_start_charging_def sm_count_def releaseIP_def smf_pdu_session_release_def sm_delete_def
    sm_call_if_def smf_pdu_session_update_def sm_modify_def smf_n4_session_setup_def option.case
  by (intro kv_typed assms allocateIP_typed; simp?)+

end

lemma nrf_typed:
  "keeps (view \<circ> fst) I (nrf_register (nrf_kv (etcd_side ns)) req)"
  "keeps (view \<circ> fst) I (nrf_status_notify (nrf_kv (etcd_side ns)) req)"
  "keeps (view \<circ> fst) I (nrf_discover (etcd_side ns) req)"
proof -
  have etcd: "keeps (view \<circ> fst) I (kvPut (nrf_kv (etcd_side ns)) k j)" "keeps (view \<circ> fst) I (kvGet (nrf_kv (etcd_side ns)) k dec zero)"
    "keeps (view \<circ> fst) I (kvGetByPrefix (etcd_side ns) p)" for k j dec zero p
    by (simp_all add: keeps_def wp_def kvPut_def kvGet_def kv_get_as_def kvGetByPrefix_def etcd_side_def on_snd_def split_beta split: sum.splits)
  show "keeps (view \<circ> fst) I (nrf_register (nrf_kv (etcd_side ns)) req)" "keeps (view \<circ> fst) I (nrf_status_notify (nrf_kv (etcd_side ns)) req)"
    "keeps (view \<circ> fst) I (nrf_discover (etcd_side ns) req)"
    unfolding nrf_register_def nrf_status_notify_def nrf_discover_def by (intro keep etcd)+
qed

section \<open>The gateway\<close>

lemma routes_typed:
  assumes "reliable_store (gw_redis g) view" "float64_json (gw_float g)" "\<And>f p. keeps (view \<circ> fst) (store_typed (gw_float g)) (sbi f p)"
  shows "list_all (\<lambda>(f, h). keeps (view \<circ> fst) (store_typed (gw_float g)) (h req)) (routes g sbi)"
proof -
  have kv: "kv_store (redis_side (gw_redis g)) (view \<circ> fst)"
    using reliable_store.redis_side_reliable [OF assms(1)] by (rule reliable_store.axioms(1))
  show ?thesis
    by (simp add: routes_def Let_def kv_store.subscriber_typed [OF kv] kv_store.slices_typed [OF kv] kv_store.policy_typed [OF kv]
        kv_store.charging_typed [OF kv] kv_store.nwdaf_typed [OF kv assms(2)] kv_store.amf_typed [OF kv assms(3)]
        kv_store.smf_typed [OF kv assms(3)] nrf_typed)
qed

lemma serve_typed:
  assumes "reliable_store (gw_redis g) view" "float64_json (gw_float g)" "\<And>f p. keeps (view \<circ> fst) (store_typed (gw_float g)) (sbi f p)"
  shows "keeps (view \<circ> fst) (store_typed (gw_float g)) (serve g sbi f req)"
proof -
  have "keeps (view \<circ> fst) (store_typed (gw_float g)) (h req)" if "map_of (routes g sbi) f = Some h" for h
    using routes_typed [where sbi = sbi and req = req, OF assms] map_of_SomeD [OF that] by (auto simp: list_all_iff)
  then show ?thesis unfolding serve_def by (intro keep)
qed

lemma post_typed:
  assumes "reliable_store (gw_redis g) view" "float64_json (gw_float g)"
  shows "keeps (view \<circ> fst) (store_typed (gw_float g)) (post g n f p)"
proof (induction n arbitrary: f p)
  case (Suc n)
  then show ?case unfolding post.simps by (intro serve_typed [OF assms] Client_post_keeps)
qed (simp add: keep)

text \<open>Any sequence of requests to any of the functions.\<close>

fun serve_all :: "('r, 'e, 'f) gateway \<Rightarrow> (string \<times> request) list \<Rightarrow> ('r \<times> 'e, unit) handler" where
  "serve_all g [] = State_Monad.return ()"
| "serve_all g ((f, req) # rs) = do { _ \<leftarrow> gateway_handle g f req; serve_all g rs }"

lemma serve_all_typed:
  assumes "reliable_store (gw_redis g) view" "float64_json (gw_float g)"
  shows "keeps (view \<circ> fst) (store_typed (gw_float g)) (serve_all g rs)"
proof (induction rs)
  case (Cons x rs)
  then show ?case
    by (cases x) (simp add: gateway_handle_def, intro keep serve_typed [OF assms, unfolded comp_def] Client_post_keeps
        post_typed [OF assms, unfolded comp_def])
qed (simp add: keep)

text \<open>The reads of the program: what a key is read as, in which function.\<close>

definition reads_as :: "'s KVStore \<Rightarrow> 's world \<Rightarrow> string \<Rightarrow> 'a decoder \<Rightarrow> 'a \<Rightarrow> bool" where
  "reads_as kv w k dec zero \<longleftrightarrow> fst (run_state (kvGet kv k dec zero) w) \<noteq> Inl JsonErr"

definition reads_decode :: "'f float64_conv \<Rightarrow> 's KVStore \<Rightarrow> 's world \<Rightarrow> bool" where
  "reads_decode fl kv w \<longleftrightarrow>
     ((\<forall>i. reads_as kv w (ue_key i) unmarshal_UEContext UEContext_zero) \<and>
      (\<forall>i. reads_as kv w (session_key i) unmarshal_PDUSession PDUSession_zero) \<and>
      (\<forall>i. reads_as kv w (sub_key i) unmarshal_SubscriberData SubscriberData_zero) \<and>
      (\<forall>i. reads_as kv w (av_key i) unmarshal_AuthVector AuthVector_zero) \<and>
      (\<forall>i. reads_as kv w (''auth-pending:'' @ i) unmarshal_authPending authPending_zero) \<and>
      (\<forall>i. reads_as kv w (active_policy_key i) unmarshal_PolicyView PolicyView_zero) \<and>
      (\<forall>r. reads_as kv w (configured_policy_key r) unmarshal_PolicyDecision PolicyDecision_zero) \<and>
      (\<forall>i. reads_as kv w (bsf_key i) unmarshal_PCFBinding PCFBinding_zero) \<and>
      (\<forall>i. reads_as kv w (chg_key i) unmarshal_ChargingSession ChargingSession_zero) \<and>
      reads_as kv w ''nssf/configured-slices'' (dec_list unmarshal_SNSSAI SNSSAI_zero) [] \<and>
      (\<forall>s. reads_as kv w (policy_key s) unmarshal_SliceAdmissionPolicy SliceAdmissionPolicy_zero \<and>
           reads_as kv w (counters_key s) unmarshal_SliceCounters SliceCounters_zero) \<and>
      (\<forall>i d. reads_as kv w (bsf_ip_key i) dec_string [] \<and> reads_as kv w (bsf_supi_key i d) dec_string [] \<and>
           reads_as kv w (ip_key i) dec_string []) \<and>
      (\<forall>i s. reads_as kv w (nf_metrics_key i) (unmarshal_NFLoadInfo fl) (NFLoadInfo_zero fl) \<and>
           reads_as kv w (slice_metrics_key s) (unmarshal_SliceLoadInfo fl) (SliceLoadInfo_zero fl)))"

context reliable_store
begin

lemma read_typed:
  assumes "\<And>j. view (w_store w) k = Some j \<Longrightarrow> decodes dec zero j"
  shows "reads_as kv w k dec zero"
proof -
  have "wp (kvGet kv k dec zero) (\<lambda>r _. r \<noteq> Inl JsonErr) w"
    using assms by (intro wp_kvGet_reliable) (auto simp: decodes_def split: option.splits)
  then show ?thesis by (simp add: reads_as_def wp_def split_beta)
qed

lemma typed_reads:
  assumes "store_typed fl (view (w_store w))"
  shows "reads_decode fl kv w"
proof -
  have t: "typed_at fl k j" if "view (w_store w) k = Some j" for k j using assms that by (simp add: store_typed_def)
  show ?thesis unfolding reads_decode_def
    by (intro conjI allI read_typed; drule t; simp add: typed_defs)
qed

end

text \<open>C4: the store stays well typed: from a store in which every document has the type that the readers of its key expect, any
  sequence of requests to any of the functions of the gateway leads to such a store, and there every read of the shared
  Redis store that a function or the proxy makes finds either nothing or a document it can decode.\<close>

theorem gateway_store_typed:
  assumes "reliable_store (gw_redis g) view" "float64_json (gw_float g)"
    and "store_typed (gw_float g) (view (fst (w_store w)))" "run_state (serve_all g rs) w = (u, w')"
  shows "store_typed (gw_float g) (view (fst (w_store w'))) \<and> reads_decode (gw_float g) (redis_side (gw_redis g)) w'"
proof -
  have "store_typed (gw_float g) ((view \<circ> fst) (w_store w'))"
    using serve_all_typed [OF assms(1,2), of rs] assms(3,4) by (auto simp: keeps_def dest: wpD)
  then show ?thesis
    using reliable_store.typed_reads [OF reliable_store.redis_side_reliable [OF assms(1)]] by fastforce
qed

theorem gateway_store_typed_witness:
  "reads_decode int_float (redis_side (RedisStore mem_redis)) (snd (run_state (serve_all sample_gateway
     [(''smf-pdu-session-create'', create_req ''imsi-1''), (''udm-generate-auth-data'', body_req [(''supi'', JStr ''imsi-1'')])])
     (world_init ([sub_key ''imsi-1'' \<mapsto> marshal_SubscriberData sample_sub], []))))"
proof -
  have g: "gw_float sample_gateway = int_float" "gw_redis sample_gateway = RedisStore mem_redis" by (simp_all add: sample_gateway_def)
  have "store_typed (gw_float sample_gateway) [sub_key ''imsi-1'' \<mapsto> marshal_SubscriberData sample_sub]"
    by (rule store_typed_put) (simp_all add: written_typed store_typed_def)
  then have "store_typed (gw_float sample_gateway) (fst (w_store (world_init ([sub_key ''imsi-1'' \<mapsto> marshal_SubscriberData sample_sub], []))))"
    by (simp add: world_init_def)
  from gateway_store_typed [OF sample_gateway_reliable _ this prod.collapse [symmetric]] int_float.float64_json_axioms
  show ?thesis unfolding g by blast
qed

end
