(* ===== verification/Replicas.thy ===== *)
theory Replicas
  imports Isolation
begin

text \<open>
  Concurrent runs.  Functions run as several replicas and serve several requests at a time; only a single operation of the store is
  atomic, while the other theories take a whole handler as one step.  Here the two handlers whose results depend on it, the
  update of the NSACF counters and the allocation of an address, are given as programs of store accesses.  Each program is
  proved to be the handler when it runs alone, and the step relation \<open>conc\<close> runs any number of programs, one access at a time.
\<close>

section \<open>Programs of store accesses\<close>

datatype 'a prog =
    Done 'a
  | Get string "goerr + json \<Rightarrow> 'a prog"
  | Put string json "goerr option \<Rightarrow> 'a prog"

text \<open>A program run alone on a store, and as a handler.\<close>

primrec kv_exec :: "'s KVStore \<Rightarrow> 'a prog \<Rightarrow> 's \<Rightarrow> 'a \<times> 's" where
  "kv_exec kv (Done a) = (\<lambda>s. (a, s))"
| "kv_exec kv (Get k f) = (\<lambda>s. let (r, s') = kv_Get kv k s in kv_exec kv (f r) s')"
| "kv_exec kv (Put k j f) = (\<lambda>s. let (r, s') = kv_Put kv k j s in kv_exec kv (f r) s')"

definition as_handler :: "'s KVStore \<Rightarrow> 'a prog \<Rightarrow> ('s, 'a) handler" where
  "as_handler kv p = State (\<lambda>w. let (a, s') = kv_exec kv p (w_store w) in (a, w\<lparr>w_store := s'\<rparr>))"

definition decoded :: "'a decoder \<Rightarrow> 'a \<Rightarrow> goerr + json \<Rightarrow> goerr + 'a" where
  "decoded dec zero r = (case r of Inl e \<Rightarrow> Inl e | Inr j \<Rightarrow> (case dec j zero of None \<Rightarrow> Inl JsonErr | Some v \<Rightarrow> Inr v))"

definition get_as :: "string \<Rightarrow> 'a decoder \<Rightarrow> 'a \<Rightarrow> (goerr + 'a \<Rightarrow> 'b prog) \<Rightarrow> 'b prog" where
  "get_as k dec zero f = Get k (\<lambda>r. f (decoded dec zero r))"

lemma run_as_handler: "run_state (as_handler kv p) w = (let (a, s') = kv_exec kv p (w_store w) in (a, w\<lparr>w_store := s'\<rparr>))"
  by (simp add: as_handler_def)

lemma as_handler_simps:
  "as_handler kv (Done a) = State_Monad.return a"
  "as_handler kv (get_as k dec zero f) = State_Monad.bind (kvGet kv k dec zero) (\<lambda>r. as_handler kv (f r))"
  "as_handler kv (Put k j g) = State_Monad.bind (kvPut kv k j) (\<lambda>r. as_handler kv (g r))"
  by (rule state.expand, rule ext, simp add: as_handler_def get_as_def kvGet_def kvPut_def kv_get_as_def decoded_def State_Monad.bind_def State_Monad.return_def
      split_beta Let_def apsnd_def map_prod_def split: prod.splits sum.splits)+

lemma as_handler_if: "as_handler kv (if b then p else q) = (if b then as_handler kv p else as_handler kv q)"
  by simp

lemma as_handler_option: "as_handler kv (case x of None \<Rightarrow> p | Some a \<Rightarrow> f a) = (case x of None \<Rightarrow> as_handler kv p | Some a \<Rightarrow> as_handler kv (f a))"
  by (cases x) simp_all

section \<open>The handlers as programs\<close>

definition update_counters_prog :: "(string \<Rightarrow> string) \<Rightarrow> request \<Rightarrow> response prog" where
  "update_counters_prog getenv req =
     (if getenv ''ENABLE_NSACF'' \<noteq> ''true'' then Done (json_resp 200 (JObj [(''status'', JStr ''disabled'')]))
      else case unmarshal_body unmarshal_UpdateCountersRequest UpdateCountersRequest_zero (rq_Body req) of
        None \<Rightarrow> Done (errorResp 400 (''invalid JSON: '' @ err_text JsonErr))
      | Some updateReq \<Rightarrow>
        if sint (sn_SST (ucq_SNSSAI updateReq)) \<le> 0 then Done (errorResp 400 ''snssai.sst must be > 0'')
        else if ucq_CounterType updateReq \<noteq> ''UE'' \<and> ucq_CounterType updateReq \<noteq> ''PDU_SESSION'' then
          Done (errorResp 400 ''counter_type must be UE or PDU_SESSION'')
        else if ucq_Operation updateReq \<noteq> ''INCREMENT'' \<and> ucq_Operation updateReq \<noteq> ''DECREMENT'' then
          Done (errorResp 400 ''operation must be INCREMENT or DECREMENT'')
        else
          get_as (counters_key (ucq_SNSSAI updateReq)) unmarshal_SliceCounters SliceCounters_zero (\<lambda>c.
            let counters = update_counter (ucq_CounterType updateReq) (ucq_Operation updateReq)
                  (case c of Inl e \<Rightarrow> zero_counters (ucq_SNSSAI updateReq) | Inr x \<Rightarrow> x) in
            Put (counters_key (ucq_SNSSAI updateReq)) (marshal_SliceCounters counters) (\<lambda>e.
              case e of
                Some err \<Rightarrow> Done (errorResp 500 (''failed to update counters: '' @ err_text err))
              | None \<Rightarrow> Done (json_resp 200 (marshal_SliceCounters counters)))))"

lemma update_counters_prog_handler: "as_handler kv (update_counters_prog getenv req) = nsacf_update_counters getenv kv req"
  by (simp only: update_counters_prog_def nsacf_update_counters_def as_handler_simps as_handler_if as_handler_option Let_def)

text \<open>The allocation of an address, on the cursor of one replica.\<close>

definition next_cursor :: "uint32 \<times> uint32 \<Rightarrow> uint32 \<times> uint32" where
  "next_cursor c = (case c of (subnet, host) \<Rightarrow>
     if host + 1 > 254 then ((if subnet + 1 > 255 then 0 else subnet + 1), 1) else (subnet, host + 1))"

primrec allocate_prog :: "string \<Rightarrow> nat \<Rightarrow> uint32 \<times> uint32 \<Rightarrow> ((goerr + string) \<times> uint32 \<times> uint32) prog" where
  "allocate_prog prefix 0 = (\<lambda>c. Done (Inl (ExtErr ''IP pool exhausted''), c))"
| "allocate_prog prefix (Suc attempts) = (\<lambda>c.
     let ip = ip_text prefix (fst c) (snd c) in
     get_as (ip_key ip) dec_string [] (\<lambda>r. case r of
       Inl _ \<Rightarrow> Put (ip_key ip) (JStr ip) (\<lambda>e. Done (case e of
           Some err \<Rightarrow> Inl (ExtErr (''record IP allocation: '' @ err_text err))
         | None \<Rightarrow> Inr ip, next_cursor c))
     | Inr _ \<Rightarrow> allocate_prog prefix attempts (next_cursor c)))"

lemma allocate_prog_handler:
  "run_state (allocateIP_loop prefix kv n) w =
     (let ((r, c), s') = kv_exec kv (allocate_prog prefix n (w_ipPoolSubnet w, w_ipPoolHost w)) (w_store w) in
      (r, w\<lparr>w_store := s', w_ipPoolSubnet := fst c, w_ipPoolHost := snd c\<rparr>))"
proof (induction n arbitrary: w)
  case (Suc n)
  show ?case
    by (simp add: State_Monad.bind_def State_Monad.return_def State_Monad.get_def modify_def kvGet_def kvPut_def kv_get_as_def get_as_def decoded_def next_cursor_def advance_pool_def
        Suc.IH Let_def split_beta apsnd_def map_prod_def split: sum.splits option.splits)
qed simp

section \<open>Interleaving\<close>

text \<open>One access of a program to a store whose operations do not fail.\<close>

fun store_access :: "'a prog \<Rightarrow> (string \<rightharpoonup> json) \<Rightarrow> 'a prog \<times> (string \<rightharpoonup> json)" where
  "store_access (Done a) s = (Done a, s)"
| "store_access (Get k f) s = (f (case s k of None \<Rightarrow> Inl (KeyNotFound k) | Some j \<Rightarrow> Inr j), s)"
| "store_access (Put k j f) s = (f None, s(k \<mapsto> j))"

inductive conc :: "(string \<rightharpoonup> json) \<times> 'a prog list \<Rightarrow> (string \<rightharpoonup> json) \<times> 'a prog list \<Rightarrow> bool" where
  step: "i < length ps \<Longrightarrow> store_access (ps ! i) s = (p', s') \<Longrightarrow> conc (s, ps) (s', ps[i := p'])"

inductive_cases concE: "conc (s, ps) x"

lemma conc_at: "store_access p s = (p', s') \<Longrightarrow> conc (s, pre @ p # post) (s', pre @ p' # post)"
  using conc.step [of "length pre" "pre @ p # post" s p' s'] by simp

text \<open>A program that nobody interrupts runs as it does alone.\<close>

lemma conc_alone:
  "kv_exec MockKVStore p s = (a, s') \<Longrightarrow> conc\<^sup>*\<^sup>* (s, pre @ p # post) (s', pre @ Done a # post)"
proof (induction p arbitrary: s)
  case (Get k f)
  let ?r = "case s k of None \<Rightarrow> Inl (KeyNotFound k) | Some j \<Rightarrow> Inr j"
  have "kv_exec MockKVStore (f ?r) s = (a, s')" using Get.prems by (simp split: option.splits)
  then have "conc\<^sup>*\<^sup>* (s, pre @ f ?r # post) (s', pre @ Done a # post)" by (rule Get.IH [OF rangeI])
  moreover have "conc (s, pre @ Get k f # post) (s, pre @ f ?r # post)" by (rule conc_at) simp
  ultimately show ?case by (rule converse_rtranclp_into_rtranclp [rotated])
next
  case (Put k j f)
  have "kv_exec MockKVStore (f None) (s(k \<mapsto> j)) = (a, s')" using Put.prems by (simp only: kv_exec.simps Let_def mock_simps prod.case)
  then have "conc\<^sup>*\<^sup>* (s(k \<mapsto> j), pre @ f None # post) (s', pre @ Done a # post)" by (rule Put.IH [OF rangeI])
  moreover have "conc (s, pre @ Put k j f # post) (s(k \<mapsto> j), pre @ f None # post)" by (rule conc_at) simp
  ultimately show ?case by (rule converse_rtranclp_into_rtranclp [rotated])
qed simp

text \<open>Programs that are all at the same access, which does not change the store, can all take it.\<close>

lemma conc_sweep: "store_access p s = (q, s) \<Longrightarrow> conc\<^sup>*\<^sup>* (s, pre @ replicate m p) (s, pre @ replicate m q)"
proof (induction m arbitrary: pre)
  case (Suc m)
  have "conc (s, pre @ p # replicate m p) (s, pre @ q # replicate m p)" using Suc.prems by (rule conc_at)
  moreover have "conc\<^sup>*\<^sup>* (s, (pre @ [q]) @ replicate m p) (s, (pre @ [q]) @ replicate m q)" by (rule Suc.IH [OF Suc.prems])
  ultimately show ?case by (simp add: converse_rtranclp_into_rtranclp)
qed simp

section \<open>Counters\<close>

definition counter_at :: "SNSSAI \<Rightarrow> string \<Rightarrow> (string \<rightharpoonup> json) \<Rightarrow> int" where
  "counter_at n t s = sint (counter_value t (counters_at s n))"

text \<open>An increment that has read the counters \<open>c\<close>.\<close>

definition writing :: "SNSSAI \<Rightarrow> string \<Rightarrow> SliceCounters \<Rightarrow> response prog" where
  "writing n t c = (let c' = update_counter t ''INCREMENT'' c in Put (counters_key n) (marshal_SliceCounters c') (\<lambda>e. case e of
     Some err \<Rightarrow> Done (errorResp 500 (''failed to update counters: '' @ err_text err)) | None \<Rightarrow> Done (json_resp 200 (marshal_SliceCounters c'))))"

definition counting :: "(string \<Rightarrow> string) \<Rightarrow> SNSSAI \<Rightarrow> string \<Rightarrow> bool" where
  "counting getenv n t \<longleftrightarrow> nsacf_enabled getenv \<and> 0 < sint (sn_SST n) \<and> count_type t"

abbreviation increment :: "(string \<Rightarrow> string) \<Rightarrow> SNSSAI \<Rightarrow> string \<Rightarrow> response prog" where
  "increment getenv n t \<equiv> update_counters_prog getenv (count_req n t ''INCREMENT'')"

lemma increment_access:
  assumes "counting getenv n t"
  shows "store_access (increment getenv n t) s = (writing n t (counters_at s n), s)"
  using assms
  by (auto simp: update_counters_prog_def count_req_decodes counting_def nsacf_enabled_def count_type_def get_as_def decoded_def writing_def
      counters_at_def Let_def split: option.splits)

lemma writing_access:
  "store_access (writing n t c) s = (Done (json_resp 200 (marshal_SliceCounters (update_counter t ''INCREMENT'' c))),
     s(counters_key n \<mapsto> marshal_SliceCounters (update_counter t ''INCREMENT'' c)))"
  by (simp add: writing_def Let_def)

lemma counter_at_write:
  assumes "0 \<le> sint (counter_value t c)" "sint (counter_value t c) < 2 ^ 63 - 1"
  shows "counter_at n t (s(counters_key n \<mapsto> marshal_SliceCounters (update_counter t ''INCREMENT'' c))) = sint (counter_value t c) + 1"
  using sint_bump [OF assms, of "''INCREMENT''"] by (simp add: counter_at_def)

text \<open>What concurrent increments keep: the counter and every value read lie between the start and the number of finished increments.\<close>

definition finished :: "'a prog list \<Rightarrow> nat set" where
  "finished ps = {i. i < length ps \<and> (\<exists>a. ps ! i = Done a)}"

definition counts_ok :: "(string \<Rightarrow> string) \<Rightarrow> SNSSAI \<Rightarrow> string \<Rightarrow> int \<Rightarrow> nat \<Rightarrow> (string \<rightharpoonup> json) \<times> response prog list \<Rightarrow> bool" where
  "counts_ok getenv n t c0 N x \<longleftrightarrow> (case x of (s, ps) \<Rightarrow>
     length ps = N \<and> c0 \<le> counter_at n t s \<and> counter_at n t s \<le> c0 + int (card (finished ps)) \<and>
     (finished ps \<noteq> {} \<longrightarrow> c0 < counter_at n t s) \<and>
     (\<forall>i < N. i \<in> finished ps \<or> ps ! i = increment getenv n t \<or> (\<exists>c. ps ! i = writing n t c \<and>
        c0 \<le> sint (counter_value t c) \<and> sint (counter_value t c) \<le> c0 + int (card (finished ps)))))"

lemma finished_finite [simp]: "finite (finished ps)" "finished ps \<subseteq> {..<length ps}"
  by (auto simp: finished_def)

lemma finished_card: "card (finished ps) \<le> length ps"
  using card_mono [of "{..<length ps}" "finished ps"] by simp

lemma finished_update:
  "finished (ps[i := Done a]) = (if i < length ps then insert i (finished ps) else finished ps)"
  "\<nexists>a. p = Done a \<Longrightarrow> \<nexists>a. ps ! i = Done a \<Longrightarrow> finished (ps[i := p]) = finished ps"
  subgoal by (auto simp: finished_def nth_list_update)
  subgoal by (auto simp: finished_def) (metis nth_list_update_eq nth_list_update_neq)+
  done

lemma not_Done [simp]: "writing n t c \<noteq> Done a"
  by (simp add: writing_def Let_def)

lemma increment_not_Done: "counting getenv n t \<Longrightarrow> increment getenv n t \<noteq> Done a"
  by (auto simp: update_counters_prog_def count_req_decodes counting_def nsacf_enabled_def count_type_def get_as_def)

lemma counts_ok_step:
  assumes "counting getenv n t" "0 \<le> c0" "c0 + int N < 2 ^ 63" "counts_ok getenv n t c0 N (s, ps)" "conc (s, ps) (s', ps')"
  shows "counts_ok getenv n t c0 N (s', ps')"
proof -
  from assms(5) obtain i p' where i: "i < length ps" "store_access (ps ! i) s = (p', s')" "ps' = ps[i := p']" by (auto elim: concE)
  note ok = assms(4) [unfolded counts_ok_def prod.case]
  let ?d = "card (finished ps)"
  have N: "?d \<le> N" "i < N" using ok finished_card [of ps] i(1) by auto
  consider (over) a where "ps ! i = Done a" | (start) "ps ! i = increment getenv n t"
    | (pending) c where "ps ! i = writing n t c" "c0 \<le> sint (counter_value t c)" "sint (counter_value t c) \<le> c0 + int ?d"
    using ok N(2) by (auto simp: finished_def)
  then show ?thesis
  proof cases
    case over
    then have "ps' = ps" "s' = s" using i by (auto simp: list_update_same_conv)
    then show ?thesis using assms(4) by simp
  next
    case start
    then have x: "p' = writing n t (counters_at s n)" "s' = s" using i(2) increment_access [OF assms(1), of s] by auto
    have "finished ps' = finished ps" unfolding i(3)
      using x start increment_not_Done [OF assms(1)] by (intro finished_update(2)) auto
    then show ?thesis using ok i(1) x unfolding counts_ok_def prod.case
      by (auto simp: i(3) nth_list_update counter_at_def)
  next
    case pending
    let ?s = "s(counters_key n \<mapsto> marshal_SliceCounters (update_counter t ''INCREMENT'' c))"
    have x: "p' = Done (json_resp 200 (marshal_SliceCounters (update_counter t ''INCREMENT'' c)))" "s' = ?s"
      using i(2) pending(1) writing_access [of n t c s] by auto
    have fresh: "i \<notin> finished ps" using pending(1) by (auto simp: finished_def)
    then have d: "finished ps' = insert i (finished ps)" "card (finished ps') = Suc ?d" "?d < N"
      using i(1,3) x(1) finished_card [of ps'] ok by (auto simp: finished_update)
    have v: "counter_at n t s' = sint (counter_value t c) + 1"
      unfolding x(2) using pending(2,3) assms(2,3) d(3) by (intro counter_at_write) auto
    have "\<forall>j < N. j \<in> finished ps' \<or> ps' ! j = increment getenv n t \<or> (\<exists>c. ps' ! j = writing n t c \<and>
        c0 \<le> sint (counter_value t c) \<and> sint (counter_value t c) \<le> c0 + int (card (finished ps')))"
    proof (intro allI impI)
      fix j assume "j < N"
      then show "j \<in> finished ps' \<or> ps' ! j = increment getenv n t \<or> (\<exists>c. ps' ! j = writing n t c \<and>
        c0 \<le> sint (counter_value t c) \<and> sint (counter_value t c) \<le> c0 + int (card (finished ps')))"
        using ok d(1,2) i(3) by (cases "j = i") fastforce+
    qed
    then show ?thesis unfolding counts_ok_def prod.case using v pending(2,3) d ok i(3) by auto
  qed
qed

lemma counts_ok_start:
  assumes "c0 = counter_at n t s" "counting getenv n t"
  shows "counts_ok getenv n t c0 N (s, replicate N (increment getenv n t))"
proof -
  have "finished (replicate N (increment getenv n t)) = {}"
    using increment_not_Done [OF assms(2)] by (auto simp: finished_def)
  then show ?thesis using assms(1) by (simp add: counts_ok_def)
qed

lemma counts_ok_reach:
  assumes "counting getenv n t" "0 \<le> c0" "c0 + int N < 2 ^ 63" "counts_ok getenv n t c0 N x" "conc\<^sup>*\<^sup>* x y"
  shows "counts_ok getenv n t c0 N y"
  using assms(5,4)
proof (induction rule: rtranclp_induct)
  case (step y z)
  then show ?case using counts_ok_step [OF assms(1-3)] by (cases y; cases z) auto
qed

text \<open>All read before the first one writes.\<close>

lemma all_increments_lost:
  fixes s :: "string \<rightharpoonup> json"
  assumes "counting getenv n t" "0 < N"
  defines "c \<equiv> update_counter t ''INCREMENT'' (counters_at s n)"
  shows "conc\<^sup>*\<^sup>* (s, replicate N (increment getenv n t)) (s(counters_key n \<mapsto> marshal_SliceCounters c), replicate N (Done (json_resp 200 (marshal_SliceCounters c))))"
proof -
  let ?w = "writing n t (counters_at s n)" and ?d = "Done (json_resp 200 (marshal_SliceCounters c))" and ?s = "s(counters_key n \<mapsto> marshal_SliceCounters c)"
  obtain m where N: "N = Suc m" using assms(2) by (cases N) auto
  have reads: "conc\<^sup>*\<^sup>* (s, [] @ replicate N (increment getenv n t)) (s, [] @ replicate N ?w)"
    by (rule conc_sweep, rule increment_access [OF assms(1)])
  have first: "conc (s, [] @ ?w # replicate m ?w) (?s, [] @ ?d # replicate m ?w)"
    unfolding c_def by (rule conc_at, rule writing_access)
  have "store_access ?w ?s = (?d, ?s)" unfolding c_def writing_access by simp
  then have rest: "conc\<^sup>*\<^sup>* (?s, [?d] @ replicate m ?w) (?s, [?d] @ replicate m ?d)" by (rule conc_sweep)
  have "conc\<^sup>*\<^sup>* (s, replicate N (increment getenv n t)) (?s, ?d # replicate m ?w)"
    using rtranclp.rtrancl_into_rtrancl [OF reads] first unfolding N by simp
  from rtranclp_trans [OF this] rest show ?thesis unfolding N by simp
qed

section \<open>Addresses\<close>

lemma allocate_alone:
  "kv_exec MockKVStore (allocate_prog prefix n c) s = ((Inr ip, c'), s') \<Longrightarrow>
     (\<forall>j. s (ip_key ip) = Some j \<longrightarrow> dec_string j [] = None) \<and> s' = s(ip_key ip \<mapsto> JStr ip)"
proof (induction n arbitrary: c)
  case (Suc n)
  then show ?case by (auto simp: get_as_def decoded_def Let_def split: option.splits)
qed simp

text \<open>C30: the update of a slice counter is not atomic: whatever the interleaving of \<open>N\<close> concurrent increments, the counter ends between one and
  \<open>N\<close> above its start, and the least value is reached although every increment is answered with success, so increments get lost but
  are never counted twice.\<close>

theorem concurrent_increments:
  assumes "nsacf_enabled getenv" "0 < sint (sn_SST n)" "count_type t"
    and "c0 = sint (counter_value t (counters_at s n))" "0 \<le> c0" "0 < N" "c0 + int N < 2 ^ 63"
    and "ps = replicate N (update_counters_prog getenv (count_req n t ''INCREMENT''))"
  shows "(\<forall>s' rs. conc\<^sup>*\<^sup>* (s, ps) (s', map Done rs) \<longrightarrow>
      c0 + 1 \<le> sint (counter_value t (counters_at s' n)) \<and> sint (counter_value t (counters_at s' n)) \<le> c0 + int N) \<and>
    (\<exists>s' rs. conc\<^sup>*\<^sup>* (s, ps) (s', map Done rs) \<and> length rs = N \<and> list_all (\<lambda>r. rs_StatusCode r = 200) rs \<and>
      sint (counter_value t (counters_at s' n)) = c0 + 1)"
proof (intro conjI allI impI)
  have cnt: "counting getenv n t" using assms(1-3) by (simp add: counting_def)
  have c0: "c0 = counter_at n t s" using assms(4) by (simp add: counter_at_def)
  fix s' rs
  assume run: "conc\<^sup>*\<^sup>* (s, ps) (s', map Done rs)"
  have ok: "counts_ok getenv n t c0 N (s', map Done rs)"
    using counts_ok_reach [OF cnt assms(5,7) counts_ok_start [OF c0 cnt]] run unfolding assms(8) by blast
  moreover have "finished (map Done rs) = {..<length rs}" by (auto simp: finished_def)
  ultimately show "c0 + 1 \<le> sint (counter_value t (counters_at s' n))" "sint (counter_value t (counters_at s' n)) \<le> c0 + int N"
    using assms(6) by (auto simp: counts_ok_def counter_at_def lessThan_empty_iff)
next
  let ?c = "update_counter t ''INCREMENT'' (counters_at s n)"
  have cnt: "counting getenv n t" using assms(1-3) by (simp add: counting_def)
  have "counter_at n t (s(counters_key n \<mapsto> marshal_SliceCounters ?c)) = c0 + 1"
    using assms(4-7) by (subst counter_at_write) auto
  then show "\<exists>s' rs. conc\<^sup>*\<^sup>* (s, ps) (s', map Done rs) \<and> length rs = N \<and> list_all (\<lambda>r. rs_StatusCode r = 200) rs \<and>
      sint (counter_value t (counters_at s' n)) = c0 + 1"
    using all_increments_lost [OF cnt assms(6), of s] assms(8)
    by (intro exI [of _ "s(counters_key n \<mapsto> marshal_SliceCounters ?c)"] exI [of _ "replicate N (json_resp 200 (marshal_SliceCounters ?c))"])
      (simp add: counter_at_def list_all_iff)
qed

text \<open>C29: the record of an address in the store keeps replicas of the SMF from handing it out twice only when their allocations do not
  overlap: an allocation never yields an address that another one has recorded before, whatever the cursors; but two replicas with the
  same cursor, as after a cold start, that both look an address up before either records it both return that address.\<close>

theorem replica_allocations:
  assumes "s (ip_key ip0) = None" "ip0 = ip_text prefix (fst c) (snd c)"
  shows "(\<forall>d ip ip' c' d' s1 s2. kv_exec MockKVStore (allocate_prog prefix 65024 c) s = ((Inr ip, c'), s1) \<and>
      kv_exec MockKVStore (allocate_prog prefix 65024 d) s1 = ((Inr ip', d'), s2) \<longrightarrow> ip \<noteq> ip') \<and>
    (\<exists>s'. conc\<^sup>*\<^sup>* (s, [allocate_prog prefix 65024 c, allocate_prog prefix 65024 c])
       (s', [Done (Inr ip0, next_cursor c), Done (Inr ip0, next_cursor c)]))"
proof (intro conjI allI impI)
  show "ip \<noteq> ip'" if "kv_exec MockKVStore (allocate_prog prefix 65024 c) s = ((Inr ip, c'), s1) \<and>
      kv_exec MockKVStore (allocate_prog prefix 65024 d) s1 = ((Inr ip', d'), s2)" for d ip ip' c' d' s1 s2
    using allocate_alone [OF conjunct1 [OF that]] allocate_alone [OF conjunct2 [OF that]] by auto
next
  let ?A = "allocate_prog prefix 65024 c" and ?D = "Done (Inr ip0, next_cursor c)" and ?s = "s(ip_key ip0 \<mapsto> JStr ip0)"
  let ?W = "Put (ip_key ip0) (JStr ip0) (\<lambda>e. Done (case e of Some err \<Rightarrow> Inl (ExtErr (''record IP allocation: '' @ err_text err)) | None \<Rightarrow> Inr ip0, next_cursor c))"
  have "(65024 :: nat) = Suc 65023" by simp
  then have A: "?A = allocate_prog prefix (Suc 65023) c" by (rule arg_cong)
  have look: "store_access ?A s = (?W, s)" unfolding A allocate_prog.simps using assms(1) by (simp add: assms(2) [symmetric] get_as_def decoded_def Let_def)
  have stored: "store_access ?W x = (?D, x(ip_key ip0 \<mapsto> JStr ip0))" for x by simp
  have "conc\<^sup>*\<^sup>* (s, [] @ replicate 2 ?A) (s, [] @ replicate 2 ?W)" by (rule conc_sweep [OF look])
  moreover have "conc (s, [] @ ?W # [?W]) (?s, [] @ ?D # [?W])" by (rule conc_at [OF stored])
  moreover have "conc (?s, [?D] @ ?W # []) (?s(ip_key ip0 \<mapsto> JStr ip0), [?D] @ ?D # [])" by (rule conc_at [OF stored])
  ultimately show "\<exists>s'. conc\<^sup>*\<^sup>* (s, [?A, ?A]) (s', [?D, ?D])"
    by (simp add: numeral_2_eq_2 del: allocate_prog.simps) (blast intro: rtranclp.rtrancl_into_rtrancl)
qed

section \<open>Two replicas\<close>

theorem concurrent_increments_witness:
  "\<exists>s' rs. conc\<^sup>*\<^sup>* (Map.empty, replicate 3 (update_counters_prog all_on (count_req \<lparr>sn_SST = 1, sn_SD = []\<rparr> ''UE'' ''INCREMENT''))) (s', map Done rs) \<and>
     length rs = 3 \<and> sint (counter_value ''UE'' (counters_at s' \<lparr>sn_SST = 1, sn_SD = []\<rparr>)) = 1"
  using concurrent_increments [of all_on "\<lparr>sn_SST = 1, sn_SD = []\<rparr>" "''UE''" 0 Map.empty 3, OF _ _ _ _ _ _ _ refl]
  by (auto simp: nsacf_enabled_def all_on_def count_type_def counters_at_def zero_counters_def counter_value_def)

theorem replica_allocations_witness:
  "\<exists>s'. conc\<^sup>*\<^sup>* (Map.empty, [allocate_prog ''10.45'' 65024 (0, 1), allocate_prog ''10.45'' 65024 (0, 1)])
     (s', [Done (Inr ''10.45.0.1'', (0, 2)), Done (Inr ''10.45.0.1'', (0, 2))])"
proof -
  have "ip_text ''10.45'' 0 1 = ''10.45.0.1''" "next_cursor (0, 1) = (0, 2)" by code_simp+
  then show ?thesis using replica_allocations [of Map.empty "''10.45.0.1''" "''10.45''" "(0, 1)"] by (simp del: allocate_prog.simps)
qed

end
