(* ===== verification/Deployment.thy ===== *)
theory Deployment
  imports Gateway
begin

text \<open>
  How a process comes by its store and its SBI client.  Every function is a Go package whose variables
  start as nil; \<open>init()\<close> sets them from the environment when the process starts, and the test gateway,
  which links all packages into one process, overrides them in \<open>main\<close>.  The address of the Redis or
  etcd server and the URL of the gateway are what a client is made from, so a package's variables hold
  these; a \<open>cluster\<close> says which server answers under an address.

  The theory relates the deployed functions to the test gateway that the other theories are about:
  they are the same handlers over the same servers, except for the NRF functions, which have no
  \<open>init()\<close>, and the session creation, whose \<open>init()\<close> sets no SBI client.  What the latter does to the
  counters of the NSACF is the last theorem.
\<close>

section \<open>Package variables\<close>

datatype store_client = RedisClient string | EtcdClient string

record pkg_vars =
  pv_store :: "store_client option"
  pv_sbi :: "string option"

definition pkg_nil :: pkg_vars where
  "pkg_nil = \<lparr>pv_store = None, pv_sbi = None\<rparr>"

type_synonym init = "(string \<Rightarrow> string) \<Rightarrow> pkg_vars \<Rightarrow> pkg_vars"

text \<open>\<open>sbi.NewClient\<close> and \<open>sbi.NewClientWithGateway\<close> make a client from the URL of a gateway.\<close>

definition NewClient :: "(string \<Rightarrow> string) \<Rightarrow> string" where
  "NewClient getenv =
     (let gw = getenv ''OPENFAAS_GATEWAY'' in if gw = [] then ''http://gateway.openfaas:8080/function'' else gw)"

definition NewClientWithGateway :: "string \<Rightarrow> string" where
  "NewClientWithGateway gateway = gateway"

definition SetStore :: "store_client \<Rightarrow> pkg_vars \<Rightarrow> pkg_vars" where
  "SetStore s v = v\<lparr>pv_store := Some s\<rparr>"

definition SetSBI :: "string \<Rightarrow> pkg_vars \<Rightarrow> pkg_vars" where
  "SetSBI s v = v\<lparr>pv_sbi := Some s\<rparr>"

text \<open>The address that every \<open>init()\<close> reads.\<close>

definition redis_addr :: "(string \<Rightarrow> string) \<Rightarrow> string" where
  "redis_addr getenv = (let addr = getenv ''REDIS_ADDR'' in if addr = [] then ''localhost:6379'' else addr)"

section \<open>The \<open>init()\<close> functions\<close>

definition no_init :: init where
  "no_init getenv v = v"

definition amf_registration_init :: init where
  "amf_registration_init getenv v =
     (if pv_store v \<noteq> None then v
      else v\<lparr>pv_store := Some (RedisClient (redis_addr getenv)), pv_sbi := Some (NewClient getenv)\<rparr>)"

definition amf_deregistration_init :: init where
  "amf_deregistration_init getenv v =
     (if pv_store v \<noteq> None then v
      else v\<lparr>pv_store := Some (RedisClient (redis_addr getenv)), pv_sbi := Some (NewClient getenv)\<rparr>)"

definition amf_service_request_init :: init where
  "amf_service_request_init getenv v =
     (if pv_store v \<noteq> None then v
      else v\<lparr>pv_store := Some (RedisClient (redis_addr getenv))\<rparr>)"

definition amf_pdu_session_relay_init :: init where
  "amf_pdu_session_relay_init getenv v =
     (if pv_store v \<noteq> None then v
      else v\<lparr>pv_store := Some (RedisClient (redis_addr getenv)), pv_sbi := Some (NewClient getenv)\<rparr>)"

definition amf_handover_init :: init where
  "amf_handover_init getenv v =
     (if pv_store v \<noteq> None then v
      else v\<lparr>pv_store := Some (RedisClient (redis_addr getenv))\<rparr>)"

definition amf_auth_initiate_init :: init where
  "amf_auth_initiate_init getenv v =
     (if pv_store v \<noteq> None then v
      else v\<lparr>pv_store := Some (RedisClient (redis_addr getenv)), pv_sbi := Some (NewClient getenv)\<rparr>)"

definition smf_pdu_session_create_init :: init where
  "smf_pdu_session_create_init getenv v =
     (if pv_store v \<noteq> None then v
      else v\<lparr>pv_store := Some (RedisClient (redis_addr getenv))\<rparr>)"

definition smf_pdu_session_update_init :: init where
  "smf_pdu_session_update_init getenv v =
     (if pv_store v \<noteq> None then v
      else v\<lparr>pv_store := Some (RedisClient (redis_addr getenv))\<rparr>)"

definition smf_pdu_session_release_init :: init where
  "smf_pdu_session_release_init getenv v =
     (if pv_store v \<noteq> None then v
      else v\<lparr>pv_store := Some (RedisClient (redis_addr getenv)), pv_sbi := Some (NewClient getenv)\<rparr>)"

definition smf_n4_session_setup_init :: init where
  "smf_n4_session_setup_init getenv v =
     (if pv_store v \<noteq> None then v
      else v\<lparr>pv_store := Some (RedisClient (redis_addr getenv))\<rparr>)"

definition udm_generate_auth_data_init :: init where
  "udm_generate_auth_data_init getenv v =
     (if pv_store v \<noteq> None then v
      else v\<lparr>pv_store := Some (RedisClient (redis_addr getenv))\<rparr>)"

definition udm_get_subscriber_data_init :: init where
  "udm_get_subscriber_data_init getenv v =
     (if pv_store v \<noteq> None then v
      else v\<lparr>pv_store := Some (RedisClient (redis_addr getenv))\<rparr>)"

definition udr_data_read_init :: init where
  "udr_data_read_init getenv v =
     (if pv_store v \<noteq> None then v
      else v\<lparr>pv_store := Some (RedisClient (redis_addr getenv))\<rparr>)"

definition udr_data_write_init :: init where
  "udr_data_write_init getenv v =
     (if pv_store v \<noteq> None then v
      else v\<lparr>pv_store := Some (RedisClient (redis_addr getenv))\<rparr>)"

definition ausf_authenticate_init :: init where
  "ausf_authenticate_init getenv v =
     (if pv_store v \<noteq> None then v
      else v\<lparr>pv_store := Some (RedisClient (redis_addr getenv))\<rparr>)"

definition pcf_policy_create_init :: init where
  "pcf_policy_create_init getenv v =
     (if pv_store v \<noteq> None then v
      else v\<lparr>pv_store := Some (RedisClient (redis_addr getenv))\<rparr>)"

definition pcf_policy_get_init :: init where
  "pcf_policy_get_init getenv v =
     (if pv_store v \<noteq> None then v
      else v\<lparr>pv_store := Some (RedisClient (redis_addr getenv))\<rparr>)"

definition nssf_slice_select_init :: init where
  "nssf_slice_select_init getenv v =
     (if pv_store v \<noteq> None then v
      else v\<lparr>pv_store := Some (RedisClient (redis_addr getenv))\<rparr>)"

definition nwdaf_analytics_subscribe_init :: init where
  "nwdaf_analytics_subscribe_init getenv v =
     (if pv_store v \<noteq> None then v
      else v\<lparr>pv_store := Some (RedisClient (redis_addr getenv))\<rparr>)"

definition nwdaf_data_collect_init :: init where
  "nwdaf_data_collect_init getenv v =
     (if pv_store v \<noteq> None then v
      else v\<lparr>pv_store := Some (RedisClient (redis_addr getenv))\<rparr>)"

definition chf_charging_create_init :: init where
  "chf_charging_create_init getenv v =
     (if pv_store v \<noteq> None then v
      else v\<lparr>pv_store := Some (RedisClient (redis_addr getenv))\<rparr>)"

definition chf_charging_update_init :: init where
  "chf_charging_update_init getenv v =
     (if pv_store v \<noteq> None then v
      else v\<lparr>pv_store := Some (RedisClient (redis_addr getenv))\<rparr>)"

definition chf_charging_release_init :: init where
  "chf_charging_release_init getenv v =
     (if pv_store v \<noteq> None then v
      else v\<lparr>pv_store := Some (RedisClient (redis_addr getenv))\<rparr>)"

definition nsacf_slice_availability_check_init :: init where
  "nsacf_slice_availability_check_init getenv v =
     (if pv_store v \<noteq> None then v
      else v\<lparr>pv_store := Some (RedisClient (redis_addr getenv))\<rparr>)"

definition nsacf_update_counters_init :: init where
  "nsacf_update_counters_init getenv v =
     (if pv_store v \<noteq> None then v
      else v\<lparr>pv_store := Some (RedisClient (redis_addr getenv))\<rparr>)"

definition bsf_binding_register_init :: init where
  "bsf_binding_register_init getenv v =
     (if pv_store v \<noteq> None then v
      else v\<lparr>pv_store := Some (RedisClient (redis_addr getenv))\<rparr>)"

definition bsf_binding_discover_init :: init where
  "bsf_binding_discover_init getenv v =
     (if pv_store v \<noteq> None then v
      else v\<lparr>pv_store := Some (RedisClient (redis_addr getenv))\<rparr>)"

definition bsf_binding_deregister_init :: init where
  "bsf_binding_deregister_init getenv v =
     (if pv_store v \<noteq> None then v
      else v\<lparr>pv_store := Some (RedisClient (redis_addr getenv))\<rparr>)"

lemmas inits = no_init_def pkg_nil_def
  amf_registration_init_def amf_deregistration_init_def amf_service_request_init_def amf_pdu_session_relay_init_def
  amf_handover_init_def amf_auth_initiate_init_def smf_pdu_session_create_init_def smf_pdu_session_update_init_def
  smf_pdu_session_release_init_def smf_n4_session_setup_init_def udm_generate_auth_data_init_def
  udm_get_subscriber_data_init_def udr_data_read_init_def udr_data_write_init_def ausf_authenticate_init_def
  pcf_policy_create_init_def pcf_policy_get_init_def nssf_slice_select_init_def nwdaf_analytics_subscribe_init_def
  nwdaf_data_collect_init_def chf_charging_create_init_def chf_charging_update_init_def chf_charging_release_init_def
  nsacf_slice_availability_check_init_def nsacf_update_counters_init_def bsf_binding_register_init_def
  bsf_binding_discover_init_def bsf_binding_deregister_init_def

section \<open>Processes\<close>

text \<open>
  The functions under their names in \<^verbatim>\<open>stack.yml\<close>, each with its \<open>init()\<close> and its handler over the
  package variables.  \<open>None\<close> stands for a handler that dereferences a nil variable without a check; the
  SMF functions check their SBI client and skip the calls without one.  No code sets the PFCP client of
  an SMF package outside of the tests, so it is nil here.
\<close>

definition both :: "('a \<Rightarrow> 'b \<Rightarrow> 'c) \<Rightarrow> 'a option \<Rightarrow> 'b option \<Rightarrow> 'c option" where
  "both h a b = (case (a, b) of (Some x, Some y) \<Rightarrow> Some (h x y) | _ \<Rightarrow> None)"

definition packages ::
  "aka_lib \<Rightarrow> 'f float64_conv \<Rightarrow> (string \<times> init \<times> ((string \<Rightarrow> string) \<Rightarrow> 's KVStore option \<Rightarrow> 's NRFStore option \<Rightarrow>
     's SBICaller option \<Rightarrow> (request \<Rightarrow> ('s, response) handler) option)) list" where
  "packages lib fl =
     [
      (''nrf-register'', no_init, \<lambda>env kv ns sbi. map_option (\<lambda>n. nrf_register (nrf_kv n)) ns),
      (''nrf-discover'', no_init, \<lambda>env kv ns sbi. map_option nrf_discover ns),
      (''nrf-status-notify'', no_init, \<lambda>env kv ns sbi. map_option (\<lambda>n. nrf_status_notify (nrf_kv n)) ns),
      (''amf-initial-registration'', amf_registration_init, \<lambda>env kv ns sbi. both (amf_registration env) kv sbi),
      (''amf-deregistration'', amf_deregistration_init, \<lambda>env kv ns sbi. both (amf_deregistration env) kv sbi),
      (''amf-service-request'', amf_service_request_init, \<lambda>env kv ns sbi. map_option amf_service_request kv),
      (''amf-pdu-session-relay'', amf_pdu_session_relay_init, \<lambda>env kv ns sbi. both amf_pdu_session_relay kv sbi),
      (''amf-handover'', amf_handover_init, \<lambda>env kv ns sbi. map_option amf_handover kv),
      (''amf-auth-initiate'', amf_auth_initiate_init, \<lambda>env kv ns sbi. both amf_auth_initiate kv sbi),
      (''smf-pdu-session-create'', smf_pdu_session_create_init, \<lambda>env kv ns sbi. map_option (\<lambda>k. smf_pdu_session_create env k sbi None) kv),
      (''smf-pdu-session-update'', smf_pdu_session_update_init, \<lambda>env kv ns sbi. map_option (\<lambda>k. smf_pdu_session_update k None) kv),
      (''smf-pdu-session-release'', smf_pdu_session_release_init, \<lambda>env kv ns sbi. map_option (\<lambda>k. smf_pdu_session_release env k sbi None) kv),
      (''smf-n4-session-setup'', smf_n4_session_setup_init, \<lambda>env kv ns sbi. Some (smf_n4_session_setup None)),
      (''udm-generate-auth-data'', udm_generate_auth_data_init, \<lambda>env kv ns sbi. map_option (udm_generate_auth_data lib) kv),
      (''udm-get-subscriber-data'', udm_get_subscriber_data_init, \<lambda>env kv ns sbi. map_option udm_get_subscriber_data kv),
      (''udr-data-read'', udr_data_read_init, \<lambda>env kv ns sbi. map_option udr_data_read kv),
      (''udr-data-write'', udr_data_write_init, \<lambda>env kv ns sbi. map_option udr_data_write kv),
      (''ausf-authenticate'', ausf_authenticate_init, \<lambda>env kv ns sbi. map_option ausf_authenticate kv),
      (''pcf-policy-create'', pcf_policy_create_init, \<lambda>env kv ns sbi. map_option pcf_policy_create kv),
      (''pcf-policy-get'', pcf_policy_get_init, \<lambda>env kv ns sbi. map_option pcf_policy_get kv),
      (''nssf-slice-select'', nssf_slice_select_init, \<lambda>env kv ns sbi. map_option nssf_slice_select kv),
      (''nwdaf-analytics-subscribe'', nwdaf_analytics_subscribe_init, \<lambda>env kv ns sbi. map_option (nwdaf_analytics_subscribe fl) kv),
      (''nwdaf-data-collect'', nwdaf_data_collect_init, \<lambda>env kv ns sbi. map_option (nwdaf_data_collect fl) kv),
      (''chf-charging-create'', chf_charging_create_init, \<lambda>env kv ns sbi. map_option (chf_charging_create env) kv),
      (''chf-charging-update'', chf_charging_update_init, \<lambda>env kv ns sbi. map_option (chf_charging_update env) kv),
      (''chf-charging-release'', chf_charging_release_init, \<lambda>env kv ns sbi. map_option (chf_charging_release env) kv),
      (''nsacf-slice-availability-check'', nsacf_slice_availability_check_init, \<lambda>env kv ns sbi. map_option (nsacf_slice_availability_check env) kv),
      (''nsacf-update-counters'', nsacf_update_counters_init, \<lambda>env kv ns sbi. map_option (nsacf_update_counters env) kv),
      (''bsf-binding-register'', bsf_binding_register_init, \<lambda>env kv ns sbi. map_option (bsf_binding_register env) kv),
      (''bsf-binding-discover'', bsf_binding_discover_init, \<lambda>env kv ns sbi. map_option (bsf_binding_discover env) kv),
      (''bsf-binding-deregister'', bsf_binding_deregister_init, \<lambda>env kv ns sbi. map_option (bsf_binding_deregister env) kv)]"

record ('s, 'f) cluster =
  cl_redis :: "string \<Rightarrow> 's KVStore"
  cl_etcd :: "string \<Rightarrow> 's NRFStore"
  cl_http :: "string \<Rightarrow> 's transport"
  cl_aka :: aka_lib
  cl_float :: "'f float64_conv"

definition redis_of :: "('s, 'f) cluster \<Rightarrow> pkg_vars \<Rightarrow> 's KVStore option" where
  "redis_of cl v = (case pv_store v of Some (RedisClient addr) \<Rightarrow> Some (cl_redis cl addr) | _ \<Rightarrow> None)"

definition etcd_of :: "('s, 'f) cluster \<Rightarrow> pkg_vars \<Rightarrow> 's NRFStore option" where
  "etcd_of cl v = (case pv_store v of Some (EtcdClient addr) \<Rightarrow> Some (cl_etcd cl addr) | _ \<Rightarrow> None)"

definition sbi_of :: "('s, 'f) cluster \<Rightarrow> pkg_vars \<Rightarrow> 's SBICaller option" where
  "sbi_of cl v = map_option (\<lambda>url. Client_post (cl_http cl url)) (pv_sbi v)"

text \<open>The handler of a process after its start: \<open>setup\<close> is what runs after \<open>init()\<close>.\<close>

definition process ::
  "('s, 'f) cluster \<Rightarrow> (string \<Rightarrow> string) \<Rightarrow> (string \<Rightarrow> pkg_vars \<Rightarrow> pkg_vars) \<Rightarrow> string \<Rightarrow>
   (request \<Rightarrow> ('s, response) handler) option" where
  "process cl getenv setup f =
     (case map_of (packages (cl_aka cl) (cl_float cl)) f of
        None \<Rightarrow> None
      | Some (start, handle) \<Rightarrow>
          let v = setup f (start getenv pkg_nil) in handle getenv (redis_of cl v) (etcd_of cl v) (sbi_of cl v))"

text \<open>A function that OpenFaaS runs: nothing but \<open>init()\<close>.\<close>

definition deployed :: "('s, 'f) cluster \<Rightarrow> (string \<Rightarrow> string) \<Rightarrow> string \<Rightarrow> (request \<Rightarrow> ('s, response) handler) option" where
  "deployed cl getenv = process cl getenv (\<lambda>_ v. v)"

text \<open>The setters that \<open>main\<close> of the test gateway calls, by function.\<close>

definition nrf_functions :: "string list" where
  "nrf_functions = [''nrf-register'', ''nrf-discover'', ''nrf-status-notify'']"

definition sbi_functions :: "string list" where
  "sbi_functions = [''amf-initial-registration'', ''amf-deregistration'', ''amf-pdu-session-relay'', ''amf-auth-initiate'',
     ''smf-pdu-session-create'', ''smf-pdu-session-release'']"

definition main_redis :: "(string \<Rightarrow> string) \<Rightarrow> string" where
  "main_redis getenv = (let addr = getenv ''REDIS_ADDR'' in if addr = [] then ''redis:6379'' else addr)"

definition main_etcd :: "(string \<Rightarrow> string) \<Rightarrow> string" where
  "main_etcd getenv = (let addr = getenv ''ETCD_ENDPOINT'' in if addr = [] then ''etcd:2379'' else addr)"

definition main_sbi :: string where
  "main_sbi = NewClientWithGateway ''http://localhost:8080/function''"

definition main_configure :: "(string \<Rightarrow> string) \<Rightarrow> string \<Rightarrow> pkg_vars \<Rightarrow> pkg_vars" where
  "main_configure getenv f v =
     (let v1 = SetStore (if f \<in> set nrf_functions then EtcdClient (main_etcd getenv) else RedisClient (main_redis getenv)) v in
      if f \<in> set sbi_functions then SetSBI main_sbi v1 else v1)"

definition test_process :: "('s, 'f) cluster \<Rightarrow> (string \<Rightarrow> string) \<Rightarrow> string \<Rightarrow> (request \<Rightarrow> ('s, response) handler) option" where
  "test_process cl getenv = process cl getenv (main_configure getenv)"

lemmas var_defs = redis_of_def etcd_of_def sbi_of_def both_def main_configure_def SetStore_def SetSBI_def nrf_functions_def
  sbi_functions_def

lemmas process_defs = process_def packages_def var_defs

text \<open>The cluster with one Redis and one etcd server, those of a gateway, under every address.\<close>

definition cluster_of :: "('r, 'e, 'f) gateway \<Rightarrow> (string \<Rightarrow> ('r \<times> 'e) transport) \<Rightarrow> ('r \<times> 'e, 'f) cluster" where
  "cluster_of g http = \<lparr>cl_redis = (\<lambda>_. redis_side (gw_redis g)), cl_etcd = (\<lambda>_. etcd_side (gw_etcd g)), cl_http = http,
     cl_aka = gw_aka g, cl_float = gw_float g\<rparr>"

lemma test_process_routes:
  "test_process (cluster_of g http) (gw_env g) f = map_of (routes g (Client_post (http main_sbi))) f"
  by (simp add: test_process_def process_defs inits routes_def cluster_of_def Let_def)

text \<open>Whatever \<open>main\<close> overrides, a process with the same clients has the same handler.\<close>

lemma deployed_simps:
  "deployed cl env ''smf-pdu-session-create'' = Some (smf_pdu_session_create env (cl_redis cl (redis_addr env)) None None)"
  "deployed cl env ''smf-pdu-session-release'' =
     Some (smf_pdu_session_release env (cl_redis cl (redis_addr env)) (Some (Client_post (cl_http cl (NewClient env)))) None)"
  "deployed cl env ''nsacf-update-counters'' = Some (nsacf_update_counters env (cl_redis cl (redis_addr env)))"
  by (simp_all add: deployed_def process_defs inits)

lemma deployed_nrf: "f \<in> set nrf_functions \<Longrightarrow> deployed cl env f = None"
  unfolding nrf_functions_def list.set insert_iff empty_iff simp_thms
  by (elim disjE; simp add: deployed_def process_defs inits)

lemma handlers_agree:
  assumes "cl_redis cl (redis_addr env) = cl_redis cl (main_redis env)" "cl_http cl (NewClient env) = cl_http cl main_sbi"
  shows "list_all (\<lambda>(f, start, handle). f \<in> set nrf_functions \<or> f = ''smf-pdu-session-create'' \<or>
     (let v = start env pkg_nil; v' = main_configure env f v in
      handle env (redis_of cl v) (etcd_of cl v) (sbi_of cl v) = handle env (redis_of cl v') (etcd_of cl v') (sbi_of cl v')))
     (packages lib fl)"
  unfolding packages_def list.pred_inject prod.case Let_def simp_thms
  by (intro conjI; simp add: var_defs inits assms)

lemma deployed_test:
  assumes "f \<notin> set nrf_functions" "f \<noteq> ''smf-pdu-session-create''" "cl_redis cl (redis_addr env) = cl_redis cl (main_redis env)"
    "cl_http cl (NewClient env) = cl_http cl main_sbi"
  shows "deployed cl env f = test_process cl env f"
proof -
  let ?agree = "\<lambda>(start, handle). let v = start env pkg_nil; v' = main_configure env f v in
      handle env (redis_of cl v) (etcd_of cl v) (sbi_of cl v) = handle env (redis_of cl v') (etcd_of cl v') (sbi_of cl v')"
  have "?agree sh" if "map_of (packages (cl_aka cl) (cl_float cl)) f = Some sh" for sh
    using handlers_agree [OF assms(3,4), unfolded list_all_iff, rule_format, OF map_of_SomeD [OF that]] assms(1,2)
    by (auto split: prod.splits)
  then show ?thesis
    by (auto simp: deployed_def test_process_def process_def Let_def split: option.splits)
qed



section \<open>Sessions of the deployed SMF\<close>

definition deployed_policy :: SmPolicyDecision where
  "deployed_policy = SmPolicyDecision_zero\<lparr>spd_QFI := 1, spd_AMBRUL := 1000000, spd_AMBRDL := 5000000, spd_FiveQI := 9\<rparr>"

definition deployed_session :: "(string \<Rightarrow> string) \<Rightarrow> CreateSMContextRequest \<Rightarrow> string \<Rightarrow> uint64 \<Rightarrow> int \<Rightarrow> PDUSession" where
  "deployed_session env smReq ip seid now = new_session env (create_defaults smReq) deployed_policy ip seid now"

lemma new_session_ID [simp]: "pdu_ID (new_session env smReq policy ip seid now) = session_id (csq_SUPI smReq) seid"
  by (simp add: new_session_def)

lemma deployed_session_simps [simp]:
  "pdu_ID (deployed_session env smReq ip seid now) = session_id (csq_SUPI smReq) seid"
  "pdu_UEAddress (deployed_session env smReq ip seid now) = ip"
  "pdu_SNSSAI (deployed_session env smReq ip seid now) = csq_SNSSAI smReq"
  "pdu_ChargingID (deployed_session env smReq ip seid now) = []"
  "pdu_BSFBindingID (deployed_session env smReq ip seid now) = []"
  by (simp_all add: deployed_session_def new_session_def create_defaults_def)

lemma counters_at_smf [simp]:
  "counters_at (s(ip_key ip := v)) n = counters_at s n" "counters_at (s(session_key i := v)) n = counters_at s n"
  by (simp_all add: counters_at_def ip_key_def session_key_def counters_key_def)

lemma session_id_nonempty [simp]: "session_id supi seid \<noteq> []"
  by (simp add: session_id_def)

text \<open>What the release of a session without charging and binding does to the store.\<close>

definition released_store :: "(string \<Rightarrow> string) \<Rightarrow> string \<Rightarrow> string \<Rightarrow> SNSSAI \<Rightarrow> (string \<rightharpoonup> json) \<Rightarrow> (string \<rightharpoonup> json)" where
  "released_store env sid ip n s =
     (if nsacf_enabled env
      then s(ip_key ip := None, counters_key n \<mapsto> marshal_SliceCounters (update_counter ''PDU_SESSION'' ''DECREMENT'' (counters_at s n)),
             session_key sid := None)
      else s(ip_key ip := None, session_key sid := None))"

context reliable_store
begin

lemma create_without_sbi:
  assumes "pool_ok w" "IPPoolPrefix env = ''10.45''" "p < 65024" "ip_free (view (w_store w)) (pool_ip ''10.45'' p)"
    and "unmarshal_body unmarshal_CreateSMContextRequest CreateSMContextRequest_zero (rq_Body req) = Some smReq" "csq_SUPI smReq \<noteq> []"
  shows "wp (smf_pdu_session_create env kv None None req) (\<lambda>r w'. rs_StatusCode r = 201 \<and>
     (\<exists>ip. ip_free (view (w_store w)) ip \<and> ip \<noteq> [] \<and>
        (\<exists>now. view (w_store w') = (view (w_store w))(ip_key ip \<mapsto> JStr ip, session_key (session_id (csq_SUPI smReq) (w_seidCounter w + 1)) \<mapsto>
          marshal_PDUSession (deployed_session env smReq ip (w_seidCounter w + 1) now))))) w"
    (is "wp _ ?Q w")
proof -
  have set_up: "wp (sm_setup env kv None None (create_defaults smReq) deployed_policy ip) ?Q w1"
    if "ip \<in> pool_ip ''10.45'' ` {..<65024}" "ip_free (view (w_store w)) ip" "w_seidCounter w1 = w_seidCounter w"
      "view (w_store w1) = (view (w_store w))(ip_key ip \<mapsto> JStr ip)" for ip w1
  proof -
    have ne: "ip \<noteq> []" using that(1) by (auto simp: pool_ip_def)
    show ?thesis
      using that(2-4) ne
      by (auto simp: sm_setup_def sm_establish_def sm_register_session_def wp Let_def
          deployed_session_def intro!: wp_kvPut_reliable exI [of _ ip])
  qed
  have alloc: "wp (allocateIP ''10.45'' kv) (\<lambda>a w1. \<exists>ip. a = Inr ip \<and> ParseIP ip \<and> ip \<in> pool_ip ''10.45'' ` {..<65024} \<and>
      ip_free (view (w_store w)) ip \<and> w_seidCounter w1 = w_seidCounter w \<and> view (w_store w1) = (view (w_store w))(ip_key ip \<mapsto> JStr ip)) w"
    by (rule wp_mono [OF allocateIP_spec [OF assms(1)]])
      (use assms(3,4) in \<open>auto simp: alloc_post_def default_pool_parses split: sum.splits\<close>)
  show ?thesis
    using assms(2,5,6)
    by (auto simp: smf_pdu_session_create_def sm_policy_def deployed_policy_def [symmetric] sm_refused_def wp Let_def
        intro!: wp_mono [OF alloc] set_up)
qed

lemma release_counts:
  assumes "session_at (view (w_store w)) sid = Some session" "sid \<noteq> []" "pdu_UEAddress session \<noteq> []" "pdu_ChargingID session = []"
    "pdu_BSFBindingID session = []"
    and count: "\<And>w1. nsacf_enabled env \<Longrightarrow> wp (sbi ''nsacf-update-counters'' (counter_payload (pdu_SNSSAI session) ''PDU_SESSION'' ''DECREMENT''))
      (\<lambda>_ w2. view (w_store w2) = (view (w_store w1))(counters_key (pdu_SNSSAI session) \<mapsto> marshal_SliceCounters
         (update_counter ''PDU_SESSION'' ''DECREMENT'' (counters_at (view (w_store w1)) (pdu_SNSSAI session))))) w1"
  shows "wp (smf_pdu_session_release env kv (Some sbi) None (release_req sid)) (\<lambda>r w'. rs_StatusCode r = 200 \<and>
     view (w_store w') = released_store env sid (pdu_UEAddress session) (pdu_SNSSAI session) (view (w_store w))) w"
proof -
  obtain j where j: "view (w_store w) (session_key sid) = Some j" "unmarshal_PDUSession j PDUSession_zero = Some session"
    using assms(1) by (auto simp: session_at_def bind_eq_Some_conv)
  show ?thesis
    using assms(2-5) j unfolding released_store_def
    by (cases "nsacf_enabled env")
      (auto simp: smf_pdu_session_release_def release_req_decodes sm_delete_def sm_call_if_def wp nsacf_enabled_def
        intro!: wp_kvGet_reliable wp_kvDelete_reliable wp_mono [OF count])
qed

end

lemma released_counter:
  "sint (counter_value ''PDU_SESSION'' (counters_at (released_store env sid ip n s) n)) =
   (let c = sint (counter_value ''PDU_SESSION'' (counters_at s n)) in if nsacf_enabled env then max 0 (c - 1) else c)"
  if "0 \<le> sint (counter_value ''PDU_SESSION'' (counters_at s n))"
proof -
  let ?v = "counter_value ''PDU_SESSION'' (counters_at s n)"
  have "sint (?v - 1) = sint ?v - 1" using that sint_word64 [of "sint ?v - 1"] sint_less [of ?v] by simp
  then have "sint (bump ''DECREMENT'' ?v) = max 0 (sint ?v - 1)" by (auto simp: bump_def)
  moreover have "counter_value ''PDU_SESSION'' (counters_at (s(ip_key ip := None, counters_key n \<mapsto> marshal_SliceCounters c, session_key sid := None)) n) =
      counter_value ''PDU_SESSION'' c" for c
    by (simp add: counters_at_def counters_key_def session_key_def)
  ultimately show ?thesis by (simp add: released_store_def)
qed

text \<open>C32: the sessions of the deployed SMF are never added to the NSACF's count, but may be subtracted from it.  Over a store that does not
  fail, a creation for a named UE succeeds while the pool has a free address, stores the session with the built-in
  policy under its address and changes nothing else in the store, so that the count of its slice stays as it is.  The release of
  that session succeeds and removes the session and its address; it leaves the count alone when its environment
  does not set ENABLE_NSACF (in stack.yml it does not), and otherwise, its SBI client reaching an enabled NSACF, the count of
  the slice falls by one, stopping at 0.\<close>

theorem deployed_session_uncounted:
  assumes store: "reliable_store kv view" "\<And>addr. cl_redis cl addr = kv"
    and run: "deployed cl envC ''smf-pdu-session-create'' = Some create" "deployed cl envR ''smf-pdu-session-release'' = Some release"
      "deployed cl envN ''nsacf-update-counters'' = Some count"
    and nsacf: "nsacf_enabled envR \<Longrightarrow> nsacf_enabled envN \<and> 0 < sint (sn_SST (csq_SNSSAI smReq)) \<and>
      (\<forall>p. cl_http cl (NewClient envR) ''nsacf-update-counters'' p =
        State_Monad.bind (count \<lparr>rq_Body = Some p, rq_QueryString = []\<rparr>) (\<lambda>resp. State_Monad.return (Inr resp)))"
    and pool: "pool_ok w" "IPPoolPrefix envC = ''10.45''" "p < 65024" "ip_free (view (w_store w)) (pool_ip ''10.45'' p)"
    and req: "unmarshal_body unmarshal_CreateSMContextRequest CreateSMContextRequest_zero (rq_Body req) = Some smReq" "csq_SUPI smReq \<noteq> []"
    and c: "c = sint (counter_value ''PDU_SESSION'' (counters_at (view (w_store w)) (csq_SNSSAI smReq)))" "0 \<le> c"
    and create: "run_state (create req) w = (r, w1)"
    and release: "run_state (release (release_req (session_id (csq_SUPI smReq) (w_seidCounter w + 1)))) w1 = (r', w2)"
  shows "rs_StatusCode r = 201 \<and> rs_StatusCode r' = 200 \<and>
    (\<exists>ip now. ip_free (view (w_store w)) ip \<and>
       view (w_store w1) = (view (w_store w))(ip_key ip \<mapsto> JStr ip, session_key (session_id (csq_SUPI smReq) (w_seidCounter w + 1)) \<mapsto>
         marshal_PDUSession (deployed_session envC smReq ip (w_seidCounter w + 1) now)) \<and>
       view (w_store w2) =
         (let s = (view (w_store w))(ip_key ip := None, session_key (session_id (csq_SUPI smReq) (w_seidCounter w + 1)) := None) in
          if nsacf_enabled envR
          then s(counters_key (csq_SNSSAI smReq) \<mapsto> marshal_SliceCounters
            (update_counter ''PDU_SESSION'' ''DECREMENT'' (counters_at (view (w_store w)) (csq_SNSSAI smReq))))
          else s)) \<and>
    sint (counter_value ''PDU_SESSION'' (counters_at (view (w_store w1)) (csq_SNSSAI smReq))) = c \<and>
    sint (counter_value ''PDU_SESSION'' (counters_at (view (w_store w2)) (csq_SNSSAI smReq))) =
      (if nsacf_enabled envR then max 0 (c - 1) else c)"
proof -
  let ?sid = "session_id (csq_SUPI smReq) (w_seidCounter w + 1)" and ?n = "csq_SNSSAI smReq" and ?s = "view (w_store w)"
  let ?sbi = "Client_post (cl_http cl (NewClient envR))"
  have handlers: "create = smf_pdu_session_create envC kv None None" "count = nsacf_update_counters envN kv"
    "release = smf_pdu_session_release envR kv (Some ?sbi) None"
    using run by (simp_all add: deployed_simps store(2))
  from wpD [OF reliable_store.create_without_sbi [OF store(1) pool req] create [unfolded handlers]]
  obtain ip now where r: "rs_StatusCode r = 201" "ip_free ?s ip" "ip \<noteq> []"
    and v1: "view (w_store w1) = ?s(ip_key ip \<mapsto> JStr ip, session_key ?sid \<mapsto>
      marshal_PDUSession (deployed_session envC smReq ip (w_seidCounter w + 1) now))" by blast
  let ?session = "deployed_session envC smReq ip (w_seidCounter w + 1) now"
  have at: "session_at (view (w_store w1)) ?sid = Some ?session" unfolding v1 by simp
  have counted: "wp (?sbi ''nsacf-update-counters'' (counter_payload (pdu_SNSSAI ?session) ''PDU_SESSION'' ''DECREMENT''))
      (\<lambda>_ w3. view (w_store w3) = (view (w_store w'))(counters_key (pdu_SNSSAI ?session) \<mapsto> marshal_SliceCounters
         (update_counter ''PDU_SESSION'' ''DECREMENT'' (counters_at (view (w_store w')) (pdu_SNSSAI ?session))))) w'"
    if "nsacf_enabled envR" for w'
    using reliable_store.nsacf_update_ok [OF store(1), of envN ?n "''PDU_SESSION''" "''DECREMENT''" w'] nsacf [OF that]
    by (auto simp: wp handlers count_req_def [symmetric] count_type_def elim: wp_mono)
  have r': "rs_StatusCode r' = 200" "view (w_store w2) = released_store envR ?sid ip ?n (view (w_store w1))"
    using wpD [OF reliable_store.release_counts [OF store(1), where w = w1 and sid = ?sid and session = ?session and env = envR
        and sbi = ?sbi, OF at _ _ _ _ counted] release [unfolded handlers]] r(3) by simp_all
  have same: "counters_at (view (w_store w1)) ?n = counters_at ?s ?n" unfolding v1 by simp
  have v2: "view (w_store w2) = (let s = ?s(ip_key ip := None, session_key ?sid := None) in
      if nsacf_enabled envR then s(counters_key ?n \<mapsto> marshal_SliceCounters (update_counter ''PDU_SESSION'' ''DECREMENT'' (counters_at ?s ?n)))
      else s)"
    unfolding r'(2) released_store_def same Let_def unfolding v1
    by (auto simp: fun_eq_iff counters_key_def session_key_def ip_key_def)
  have "sint (counter_value ''PDU_SESSION'' (counters_at (view (w_store w2)) ?n)) = (if nsacf_enabled envR then max 0 (c - 1) else c)"
    using released_counter [of "view (w_store w1)" ?n envR ?sid ip] c unfolding r'(2) same by (simp add: Let_def)
  with r(1,2) r'(1) v1 v2 same c(1) show ?thesis by metis
qed

text \<open>A cluster over the in-memory store with the NSACF enabled, and a slice with one session counted.\<close>

definition nsacf_on :: "string \<Rightarrow> string" where
  "nsacf_on v = (if v = ''ENABLE_NSACF'' then ''true'' else [])"

definition count_http :: "(string \<rightharpoonup> json) transport" where
  "count_http f p = State_Monad.bind (nsacf_update_counters nsacf_on MockKVStore \<lparr>rq_Body = Some p, rq_QueryString = []\<rparr>)
     (\<lambda>resp. State_Monad.return (Inr resp))"

definition mem_cluster :: "(string \<rightharpoonup> json, int) cluster" where
  "mem_cluster = \<lparr>cl_redis = (\<lambda>_. MockKVStore), cl_etcd = (\<lambda>_. \<lparr>nrf_kv = MockKVStore, nrf_GetByPrefix = (\<lambda>_ s. (Inr [], s))\<rparr>),
     cl_http = (\<lambda>_. count_http), cl_aka = sample_lib, cl_float = int_float\<rparr>"

definition counted_world :: "(string \<rightharpoonup> json) world" where
  "counted_world = world_init [counters_key sample_slice \<mapsto> marshal_SliceCounters
     (update_counter ''PDU_SESSION'' ''INCREMENT'' (zero_counters sample_slice))]"

definition slice_session_req :: request where
  "slice_session_req = body_req [(''supi'', JStr ''imsi-1''), (''snssai'', marshal_SNSSAI sample_slice)]"

lemma slice_session_req_decodes:
  "unmarshal_body unmarshal_CreateSMContextRequest CreateSMContextRequest_zero (rq_Body slice_session_req) =
     Some (CreateSMContextRequest_zero\<lparr>csq_SUPI := ''imsi-1'', csq_SNSSAI := sample_slice\<rparr>)"
  by (simp add: slice_session_req_def body_req_def unmarshal_CreateSMContextRequest_def CreateSMContextRequest_fields_def
      CreateSMContextRequest_zero_def fld_def)

definition after_create :: "(string \<rightharpoonup> json) world" where
  "after_create = snd (run_state (smf_pdu_session_create nsacf_on MockKVStore None None slice_session_req) counted_world)"

definition after_release :: "(string \<rightharpoonup> json) world" where
  "after_release = snd (run_state (smf_pdu_session_release nsacf_on MockKVStore (Some (Client_post count_http)) None
     (release_req (session_id ''imsi-1'' 1))) after_create)"

theorem deployed_session_uncounted_witness:
  "counter_value ''PDU_SESSION'' (counters_at (w_store counted_world) sample_slice) = 1 \<and>
   counter_value ''PDU_SESSION'' (counters_at (w_store after_release) sample_slice) = 0"
proof -
  let ?q = "CreateSMContextRequest_zero\<lparr>csq_SUPI := ''imsi-1'', csq_SNSSAI := sample_slice\<rparr>"
  have one: "counter_value ''PDU_SESSION'' (counters_at (w_store counted_world) sample_slice) = 1"
    by (simp add: counted_world_def world_init_def bump_def) (simp add: counter_value_def zero_counters_def SliceCounters_zero_def)
  have seid: "w_seidCounter counted_world + 1 = 1" by (simp add: counted_world_def world_init_def)
  have cl: "cl_redis mem_cluster addr = MockKVStore" "cl_http mem_cluster url = count_http" for addr url
    by (simp_all add: mem_cluster_def)
  note run = deployed_simps [of mem_cluster nsacf_on, unfolded cl]
  have gateway: "nsacf_enabled nsacf_on \<and> 0 < sint (sn_SST (csq_SNSSAI ?q)) \<and>
      (\<forall>p. cl_http mem_cluster (NewClient nsacf_on) ''nsacf-update-counters'' p =
        State_Monad.bind (nsacf_update_counters nsacf_on MockKVStore \<lparr>rq_Body = Some p, rq_QueryString = []\<rparr>)
          (\<lambda>resp. State_Monad.return (Inr resp)))"
    by (simp add: cl count_http_def nsacf_enabled_def nsacf_on_def sample_slice_def)
  have on: "nsacf_enabled nsacf_on" "IPPoolPrefix nsacf_on = ''10.45''" "csq_SUPI ?q \<noteq> []"
    by (simp_all add: nsacf_enabled_def IPPoolPrefix_def nsacf_on_def)
  have pool: "pool_ok counted_world" "(0 :: nat) < 65024" "ip_free (w_store counted_world) (pool_ip ''10.45'' 0)"
    by (simp_all add: counted_world_def) (simp add: ip_free_def world_init_def ip_key_def counters_key_def)
  have runs: "run_state (smf_pdu_session_create nsacf_on MockKVStore None None slice_session_req) counted_world =
      (fst (run_state (smf_pdu_session_create nsacf_on MockKVStore None None slice_session_req) counted_world), after_create)"
    by (simp add: after_create_def)
  have c: "(1 :: int) = sint (counter_value ''PDU_SESSION'' (counters_at (w_store counted_world) (csq_SNSSAI ?q)))" "(0 :: int) \<le> 1"
    using one by simp_all
  have "sint (counter_value ''PDU_SESSION'' (counters_at (w_store after_release) sample_slice)) = 0"
    using deployed_session_uncounted [OF mock.reliable_store_axioms cl(1) run gateway pool(1) on(2) pool(2,3)
      slice_session_req_decodes on(3) c runs surjective_pairing] on(1)
    by (simp add: seid after_release_def)
  then have "counter_value ''PDU_SESSION'' (counters_at (w_store after_release) sample_slice) = 0"
    by (simp only: signed_eq_0_iff)
  then show ?thesis using one by simp
qed

end
