(* ===== verification/JsonText.thy ===== *)
theory JsonText
  imports Json
begin

text \<open>
  The text form of JSON documents: what \<open>json.Marshal\<close> writes and what \<open>json.Unmarshal\<close> accepts, on the bytes of a
  Go string.  \<open>json_text\<close> escapes as \<open>Marshal\<close> does (HTML characters, control characters, U+2028 and U+2029,
  bytes that are no UTF-8); \<open>parse_json\<close> follows the scanner of \<open>encoding/json\<close>, with its limit on the nesting.
  A document that has been written is read back as it was, up to the times, which are string literals.
\<close>

section \<open>UTF-8\<close>

abbreviation code :: "char \<Rightarrow> nat" where
  "code c \<equiv> of_char c"

definition continuation :: "char \<Rightarrow> bool" where
  "continuation c \<longleftrightarrow> 128 \<le> code c \<and> code c \<le> 191"

text \<open>\<open>utf8.DecodeRune\<close>: the number of bytes of the first character, 0 when they are no UTF-8.\<close>

definition second_ok :: "char \<Rightarrow> char \<Rightarrow> bool" where
  "second_ok a b \<longleftrightarrow>
     (if code a = 224 then 160 else if code a = 240 then 144 else 128) \<le> code b \<and>
     code b \<le> (if code a = 237 then 159 else if code a = 244 then 143 else 191)"

fun rune_len :: "string \<Rightarrow> nat" where
  "rune_len [] = 0"
| "rune_len (a # r) =
     (if code a < 128 then 1
      else if 194 \<le> code a \<and> code a \<le> 223 then (case r of b # _ \<Rightarrow> if continuation b then 2 else 0 | _ \<Rightarrow> 0)
      else if 224 \<le> code a \<and> code a \<le> 239 then
        (case r of b # c # _ \<Rightarrow> if second_ok a b \<and> continuation c then 3 else 0 | _ \<Rightarrow> 0)
      else if 240 \<le> code a \<and> code a \<le> 244 then
        (case r of b # c # d # _ \<Rightarrow> if second_ok a b \<and> continuation c \<and> continuation d then 4 else 0 | _ \<Rightarrow> 0)
      else 0)"

function utf8_ok :: "string \<Rightarrow> bool" where
  "utf8_ok [] = True"
| "utf8_ok (c # cs) = (if rune_len (c # cs) = 0 then False else utf8_ok (drop (rune_len (c # cs)) (c # cs)))"
  by pat_completeness auto
termination by (relation "measure length") (auto simp del: rune_len.simps)

text \<open>\<open>utf8.AppendRune\<close> for a code point.\<close>

definition utf8_enc :: "nat \<Rightarrow> string" where
  "utf8_enc x =
     (if x < 128 then [char_of x]
      else if x < 2048 then [char_of (192 + x div 64), char_of (128 + x mod 64)]
      else if x < 65536 then [char_of (224 + x div 4096), char_of (128 + x div 64 mod 64), char_of (128 + x mod 64)]
      else [char_of (240 + x div 262144), char_of (128 + x div 4096 mod 64), char_of (128 + x div 64 mod 64), char_of (128 + x mod 64)])"

section \<open>Writing\<close>

abbreviation quot :: char where
  "quot \<equiv> CHR 0x22"

abbreviation bsl :: char where
  "bsl \<equiv> CHR 0x5C"

definition escapes :: "(char \<times> char) list" where
  "escapes = [(quot, quot), (bsl, bsl), (CHR 0x08, CHR ''b''), (CHR 0x0C, CHR ''f''), (CHR 0x0A, CHR ''n''),
     (CHR 0x0D, CHR ''r''), (CHR 0x09, CHR ''t'')]"

definition quote_ascii :: "char \<Rightarrow> string" where
  "quote_ascii c =
     (case map_of escapes c of
        Some e \<Rightarrow> [bsl, e]
      | None \<Rightarrow>
          if code c < 32 \<or> c = CHR ''<'' \<or> c = CHR ''>'' \<or> c = CHR ''&''
          then [bsl, CHR ''u'', CHR ''0'', CHR ''0'', hex_digit (code c div 16), hex_digit (code c mod 16)]
          else [c])"

definition line_separators :: "string list" where
  "line_separators = [[CHR 0xE2, CHR 0x80, CHR 0xA8], [CHR 0xE2, CHR 0x80, CHR 0xA9]]"

function quote_chars :: "string \<Rightarrow> string" where
  "quote_chars [] = []"
| "quote_chars (c # cs) =
     (if code c < 128 then quote_ascii c @ quote_chars cs
      else let n = rune_len (c # cs) in
        if n = 0 then bsl # ''ufffd'' @ quote_chars cs
        else if take n (c # cs) \<in> set line_separators
          then bsl # ''u202'' @ [hex_digit (code (last (take n (c # cs))) mod 16)] @ quote_chars (drop n (c # cs))
        else take n (c # cs) @ quote_chars (drop n (c # cs)))"
  by pat_completeness auto
termination by (relation "measure length") (auto simp del: rune_len.simps)

definition quote_text :: "string \<Rightarrow> string" where
  "quote_text s = [quot] @ quote_chars s @ [quot]"

fun commas :: "string list \<Rightarrow> string" where
  "commas [] = []"
| "commas [x] = x"
| "commas (x # y # xs) = x @ '','' @ commas (y # xs)"

fun json_text :: "json \<Rightarrow> string" where
  "json_text JNull = ''null''"
| "json_text (JBool b) = (if b then ''true'' else ''false'')"
| "json_text (JNum n) = show_int n"
| "json_text (JDec s) = s"
| "json_text (JStr s) = quote_text s"
| "json_text (JTime t) = [quot] @ time_text t @ [quot]"
| "json_text (JArr js) = ''['' @ commas (map json_text js) @ '']''"
| "json_text (JObj ms) = ''{'' @ commas (map (\<lambda>(k, j). quote_text k @ '':'' @ json_text j) ms) @ ''}''"

section \<open>Reading\<close>

definition u4 :: "string \<Rightarrow> (nat \<times> string) option" where
  "u4 s =
     (case s of
        a # b # c # d # r \<Rightarrow>
          (case (hex_val a, hex_val b, hex_val c, hex_val d) of
             (Some w, Some x, Some y, Some z) \<Rightarrow> Some (4096 * w + 256 * x + 16 * y + z, r)
           | _ \<Rightarrow> None)
      | _ \<Rightarrow> None)"

text \<open>The low half of a surrogate pair, when it follows.\<close>

definition low_half :: "string \<Rightarrow> (nat \<times> string) option" where
  "low_half s =
     (case s of
        a # b # r \<Rightarrow>
          if a = bsl \<and> b = CHR ''u'' then
            (case u4 r of Some (x, r') \<Rightarrow> if 56320 \<le> x \<and> x < 57344 then Some (x, r') else None | None \<Rightarrow> None)
          else None
      | _ \<Rightarrow> None)"

definition unescapes :: "(char \<times> char) list" where
  "unescapes = (CHR ''/'', CHR ''/'') # map (\<lambda>(c, e). (e, c)) escapes"

text \<open>An escape after its backslash: the bytes it stands for and the rest.\<close>

definition unescape :: "string \<Rightarrow> (string \<times> string) option" where
  "unescape s =
     (case s of
        [] \<Rightarrow> None
      | e # r \<Rightarrow>
          if e = CHR ''u'' then
            (case u4 r of
               None \<Rightarrow> None
             | Some (x, r') \<Rightarrow>
                 if 55296 \<le> x \<and> x < 57344 then
                   (case (if x < 56320 then low_half r' else None) of
                      Some (y, r'') \<Rightarrow> Some (utf8_enc (65536 + 1024 * (x - 55296) + (y - 56320)), r'')
                    | None \<Rightarrow> Some (utf8_enc 65533, r'))
                 else Some (utf8_enc x, r'))
          else map_option (\<lambda>c. ([c], r)) (map_of unescapes e))"

lemma u4_length: "u4 s = Some (x, r) \<Longrightarrow> length s = length r + 4"
  by (auto simp: u4_def split: list.splits option.splits)

lemma low_half_length: "low_half s = Some (x, r) \<Longrightarrow> length s = length r + 6"
  by (auto simp: low_half_def dest: u4_length split: list.splits option.splits if_splits)

lemma utf8_enc_length: "utf8_enc x \<noteq> []" "length (utf8_enc x) \<le> 4" "x < 65536 \<Longrightarrow> length (utf8_enc x) \<le> 3"
  by (auto simp: utf8_enc_def)

lemma unescape_length: "unescape s = Some (x, r) \<Longrightarrow> length r < length s"
  by (auto simp: unescape_def dest!: u4_length low_half_length split: list.splits option.splits if_splits)

lemma u4_rest: "u4 s = Some (x, r) \<Longrightarrow> r = drop 4 s"
  by (auto simp: u4_def split: list.splits option.splits)

lemma low_half_rest: "low_half s = Some (x, r) \<Longrightarrow> r = drop 6 s"
  by (auto simp: low_half_def dest: u4_rest split: list.splits option.splits if_splits)

lemma unescape_rest: "unescape s = Some (x, r) \<Longrightarrow> \<exists>k. r = drop k s"
proof -
  assume u: "unescape s = Some (x, r)"
  then obtain e cs where s: "s = e # cs" by (cases s) (auto simp: unescape_def)
  have "r = drop 1 s \<or> r = drop 5 s \<or> r = drop 11 s"
    using u by (auto simp: s unescape_def dest!: u4_rest low_half_rest split: option.splits if_splits)
  then show ?thesis by blast
qed

text \<open>The characters of a string literal up to its closing quote.\<close>

function parse_chars :: "string \<Rightarrow> (string \<times> string) option" where
  "parse_chars [] = None"
| "parse_chars (c # cs) =
     (if c = quot then Some ([], cs)
      else if c = bsl then
        (case unescape cs of None \<Rightarrow> None | Some (x, r) \<Rightarrow> map_option (apfst ((@) x)) (parse_chars r))
      else if code c < 32 then None
      else let n = rune_len (c # cs) in
        if n = 0 then map_option (apfst ((@) (utf8_enc 65533))) (parse_chars cs)
        else map_option (apfst ((@) (take n (c # cs)))) (parse_chars (drop n (c # cs))))"
  by pat_completeness auto
termination by (relation "measure length") (auto simp del: rune_len.simps dest: unescape_length)

definition is_ws :: "char \<Rightarrow> bool" where
  "is_ws c \<longleftrightarrow> c = CHR '' '' \<or> c = CHR 0x09 \<or> c = CHR 0x0D \<or> c = CHR 0x0A"

abbreviation skip_ws :: "string \<Rightarrow> string" where
  "skip_ws s \<equiv> dropWhile is_ws s"

definition literal :: "string \<Rightarrow> json \<Rightarrow> string \<Rightarrow> (json \<times> string) option" where
  "literal w j s = (if take (length w) s = w then Some (j, drop (length w) s) else None)"

definition int_part :: "string \<Rightarrow> (string \<times> string) option" where
  "int_part s =
     (case s of
        [] \<Rightarrow> None
      | c # cs \<Rightarrow>
          if c = CHR ''0'' then Some ([c], cs)
          else if is_digit c then Some (takeWhile is_digit s, dropWhile is_digit s) else None)"

definition some_digits :: "string \<Rightarrow> string \<Rightarrow> (string \<times> string) option" where
  "some_digits pre s = (let ds = takeWhile is_digit s in if ds = [] then None else Some (pre @ ds, dropWhile is_digit s))"

definition frac_part :: "string \<Rightarrow> (string \<times> string) option" where
  "frac_part s = (case s of c # cs \<Rightarrow> if c = CHR ''.'' then some_digits [c] cs else Some ([], s) | [] \<Rightarrow> Some ([], s))"

definition exp_part :: "string \<Rightarrow> (string \<times> string) option" where
  "exp_part s =
     (case s of
        c # cs \<Rightarrow>
          if c = CHR ''e'' \<or> c = CHR ''E'' then
            (case cs of
               d # ds \<Rightarrow> if d = CHR ''+'' \<or> d = CHR ''-'' then some_digits [c, d] ds else some_digits [c] cs
             | [] \<Rightarrow> None)
          else Some ([], s)
      | [] \<Rightarrow> Some ([], s))"

definition number_text :: "string \<Rightarrow> string \<Rightarrow> (json \<times> string) option" where
  "number_text sign s =
     Option.bind (int_part s) (\<lambda>(i, r). Option.bind (frac_part r) (\<lambda>(f, r'). Option.bind (exp_part r') (\<lambda>(e, r'').
       Some (if f = [] \<and> e = [] then JNum (if sign = [] then int (read_nat i) else - int (read_nat i))
             else JDec (sign @ i @ f @ e), r''))))"

definition max_depth :: nat where
  "max_depth = 10000"

text \<open>
  The first argument bounds the number of nested calls; twice the length of the text is enough.  The second is
  the number of open arrays and objects.
\<close>

fun parse_value :: "nat \<Rightarrow> nat \<Rightarrow> string \<Rightarrow> (json \<times> string) option"
and parse_elems :: "nat \<Rightarrow> nat \<Rightarrow> string \<Rightarrow> (json list \<times> string) option"
and parse_members :: "nat \<Rightarrow> nat \<Rightarrow> string \<Rightarrow> ((string \<times> json) list \<times> string) option" where
  "parse_value 0 d s = None"
| "parse_value (Suc n) d s =
     (case skip_ws s of
        [] \<Rightarrow> None
      | c # cs \<Rightarrow>
          if c = CHR ''{'' then
            if d < max_depth then
              if take 1 (skip_ws cs) = ''}'' then Some (JObj [], tl (skip_ws cs))
              else map_option (apfst JObj) (parse_members n (Suc d) cs)
            else None
          else if c = CHR ''['' then
            if d < max_depth then
              if take 1 (skip_ws cs) = '']'' then Some (JArr [], tl (skip_ws cs))
              else map_option (apfst JArr) (parse_elems n (Suc d) cs)
            else None
          else if c = quot then map_option (apfst JStr) (parse_chars cs)
          else if c = CHR ''t'' then literal ''true'' (JBool True) (c # cs)
          else if c = CHR ''f'' then literal ''false'' (JBool False) (c # cs)
          else if c = CHR ''n'' then literal ''null'' JNull (c # cs)
          else if c = CHR ''-'' then number_text [c] cs
          else number_text [] (c # cs))"
| "parse_elems 0 d s = None"
| "parse_elems (Suc n) d s =
     (case parse_value n d s of
        None \<Rightarrow> None
      | Some (v, r) \<Rightarrow>
          (case skip_ws r of
             c # r' \<Rightarrow>
               if c = CHR '']'' then Some ([v], r')
               else if c = CHR '','' then map_option (apfst ((#) v)) (parse_elems n d r')
               else None
           | [] \<Rightarrow> None))"
| "parse_members 0 d s = None"
| "parse_members (Suc n) d s =
     (case skip_ws s of
        [] \<Rightarrow> None
      | q # s' \<Rightarrow>
          if q = quot then
            (case parse_chars s' of
               None \<Rightarrow> None
             | Some (k, r) \<Rightarrow>
                 (case skip_ws r of
                    [] \<Rightarrow> None
                  | c # r' \<Rightarrow>
                      if c = CHR '':'' then
                        (case parse_value n d r' of
                           None \<Rightarrow> None
                         | Some (v, r'') \<Rightarrow>
                             (case skip_ws r'' of
                                e # r3 \<Rightarrow>
                                  if e = CHR ''}'' then Some ([(k, v)], r3)
                                  else if e = CHR '','' then map_option (apfst ((#) (k, v))) (parse_members n d r3)
                                  else None
                              | [] \<Rightarrow> None))
                      else None))
          else None)"

definition parse_json :: "string \<Rightarrow> json option" where
  "parse_json s =
     (case parse_value (2 * length s + 1) 0 s of
        None \<Rightarrow> None
      | Some (j, r) \<Rightarrow> if skip_ws r = [] then Some j else None)"

section \<open>String literals\<close>

lemma rune_len_le: "rune_len s \<le> length s"
  by (cases s) (auto split: list.splits)

lemma rune_len_take: "rune_len s \<noteq> 0 \<Longrightarrow> rune_len (take (rune_len s) s @ r) = rune_len s"
  by (cases s) (auto split: list.splits if_splits)

lemma rune_len_ascii: "code c < 128 \<Longrightarrow> rune_len (c # cs) = 1"
  by simp

lemma quote_chars_ascii: "code c < 128 \<Longrightarrow> quote_chars (c # cs) = quote_ascii c @ quote_chars cs"
  by simp

lemma quote_chars_rune:
  assumes "\<not> code c < 128" "rune_len (c # cs) = n" "n \<noteq> 0"
  shows "quote_chars (c # cs) =
    (if take n (c # cs) \<in> set line_separators then bsl # ''u202'' @ [hex_digit (code (last (take n (c # cs))) mod 16)] @ quote_chars (drop n (c # cs))
     else take n (c # cs) @ quote_chars (drop n (c # cs)))"
  using assms by (simp only: quote_chars.simps Let_def if_False)

lemma parse_chars_quot: "parse_chars (quot # r) = Some ([], r)"
  by simp

lemma parse_chars_escape:
  "unescape s = Some (x, r) \<Longrightarrow> parse_chars (bsl # s) = map_option (apfst ((@) x)) (parse_chars r)"
  by simp

lemma parse_chars_rune:
  assumes "s = c # cs" "c \<noteq> quot" "c \<noteq> bsl" "\<not> code c < 32" "rune_len s = n" "n \<noteq> 0"
  shows "parse_chars s = map_option (apfst ((@) (take n s))) (parse_chars (drop n s))"
  using assms by (simp only: parse_chars.simps Let_def if_False)

lemma append_single [simp]: "(@) [c] = (#) c"
  by (rule ext) simp

lemma parse_chars_ascii:
  assumes "c \<noteq> quot" "c \<noteq> bsl" "32 \<le> code c" "code c < 128"
  shows "parse_chars (c # cs) = map_option (apfst ((#) c)) (parse_chars cs)"
  using parse_chars_rune [OF refl assms(1,2) _ rune_len_ascii [OF assms(4)], of cs] assms(3) by simp

declare rune_len.simps(2) [simp del] quote_chars.simps(2) [simp del] parse_chars.simps(2) [simp del]

lemmas parse_chars_simps = parse_chars_quot parse_chars_escape parse_chars_ascii

lemma unescapes_escapes: "map_of escapes c = Some e \<Longrightarrow> e \<noteq> CHR ''u'' \<and> map_of unescapes e = Some c"
  by (auto simp: escapes_def unescapes_def split: if_splits)

lemma hex_val_ascii: "hex_val (CHR ''0'') = Some 0" "hex_val (CHR ''2'') = Some 2"
  by code_simp+

lemma unescape_u00:
  assumes "code c < 128"
  shows "unescape (CHR ''u'' # CHR ''0'' # CHR ''0'' # hex_digit (code c div 16) # hex_digit (code c mod 16) # r) = Some ([c], r)"
proof -
  have "code c div 16 < 16" using assms by simp
  then show ?thesis using assms by (simp add: unescape_def u4_def hex_val_ascii utf8_enc_def)
qed

lemma parse_quote_ascii:
  assumes "code c < 128"
  shows "parse_chars (quote_ascii c @ r) = map_option (apfst ((#) c)) (parse_chars r)"
proof (cases "map_of escapes c")
  case (Some e)
  then show ?thesis
    using unescapes_escapes [OF Some] by (simp add: quote_ascii_def unescape_def parse_chars_escape)
next
  case None
  then have c: "c \<noteq> quot" "c \<noteq> bsl" by (auto simp: escapes_def)
  show ?thesis
  proof (cases "code c < 32 \<or> c = CHR ''<'' \<or> c = CHR ''>'' \<or> c = CHR ''&''")
    case True
    then have "quote_ascii c = bsl # [CHR ''u'', CHR ''0'', CHR ''0'', hex_digit (code c div 16), hex_digit (code c mod 16)]"
      using None by (simp add: quote_ascii_def)
    then show ?thesis using parse_chars_escape [OF unescape_u00 [OF assms]] by simp
  next
    case False
    then show ?thesis using None c assms by (simp add: quote_ascii_def parse_chars_ascii)
  qed
qed

lemma parse_line_separator:
  assumes "x \<in> set line_separators"
  shows "parse_chars (bsl # ''u202'' @ [hex_digit (code (last x) mod 16)] @ r) = map_option (apfst ((@) x)) (parse_chars r)"
proof -
  have h: "hex_val (CHR ''8'') = Some 8" "hex_val (CHR ''9'') = Some 9" by code_simp+
  have e: "utf8_enc 8232 = [CHR 0xE2, CHR 0x80, CHR 0xA8]" "utf8_enc 8233 = [CHR 0xE2, CHR 0x80, CHR 0xA9]" by (simp_all add: utf8_enc_def) (code_simp+)
  have d: "hex_digit (code (CHR 0xA8) mod 16) = CHR ''8''" "hex_digit (code (CHR 0xA9) mod 16) = CHR ''9''" by code_simp+
  have "u4 (''202'' @ [CHR ''8''] @ r) = Some (8232, r)" "u4 (''202'' @ [CHR ''9''] @ r) = Some (8233, r)"
    by (simp_all add: u4_def hex_val_ascii h)
  then have u: "unescape (''u202'' @ [CHR ''8''] @ r) = Some (utf8_enc 8232, r)" "unescape (''u202'' @ [CHR ''9''] @ r) = Some (utf8_enc 8233, r)"
    by (simp_all add: unescape_def)
  consider "x = [CHR 0xE2, CHR 0x80, CHR 0xA8]" | "x = [CHR 0xE2, CHR 0x80, CHR 0xA9]"
    using assms unfolding line_separators_def by (simp only: list.set insert_iff empty_iff) blast
  then have "unescape (''u202'' @ [hex_digit (code (last x) mod 16)] @ r) = Some (x, r)"
    by cases (simp_all only: last.simps list.distinct if_False if_True refl d u e)
  then show ?thesis by (rule parse_chars_escape)
qed

lemma parse_rune:
  assumes "\<not> code c < 128" "rune_len (c # cs) = n" "n \<noteq> 0"
  shows "parse_chars (take n (c # cs) @ r) = map_option (apfst ((@) (take n (c # cs)))) (parse_chars r)"
proof -
  obtain m where m: "n = Suc m" using assms(3) by (cases n) auto
  have len: "length (take n (c # cs)) = n" using rune_len_le [of "c # cs"] assms(2) by simp
  have "rune_len (take n (c # cs) @ r) = n" using rune_len_take [of "c # cs" r] assms(2,3) by simp
  moreover have "c \<noteq> quot" "c \<noteq> bsl" "\<not> code c < 32" using assms(1) by auto
  moreover have "take n (c # cs) @ r = c # (take m cs @ r)" by (simp add: m)
  ultimately have "parse_chars (take n (c # cs) @ r) =
      map_option (apfst ((@) (take n (take n (c # cs) @ r)))) (parse_chars (drop n (take n (c # cs) @ r)))"
    using assms(3) by (intro parse_chars_rune)
  then show ?thesis using len by simp
qed

lemma parse_quote_chars: "utf8_ok s \<Longrightarrow> parse_chars (quote_chars s @ quot # r) = Some (s, r)"
proof (induction s rule: utf8_ok.induct)
  case 1
  then show ?case by (simp add: parse_chars_quot)
next
  case (2 c cs)
  let ?n = "rune_len (c # cs)"
  have n: "?n \<noteq> 0" and rest: "utf8_ok (drop ?n (c # cs))" using 2(2) by (simp_all split: if_splits)
  note IH = 2(1) [OF n rest]
  show ?case
  proof (cases "code c < 128")
    case True
    with IH show ?thesis by (simp add: rune_len_ascii quote_chars_ascii parse_quote_ascii)
  next
    case False
    note q = quote_chars_rune [OF False refl n]
    have "parse_chars ((if take ?n (c # cs) \<in> set line_separators then bsl # ''u202'' @ [hex_digit (code (last (take ?n (c # cs))) mod 16)]
        else take ?n (c # cs)) @ s) = map_option (apfst ((@) (take ?n (c # cs)))) (parse_chars s)" for s
      using parse_line_separator [of "take ?n (c # cs)" s] parse_rune [OF False refl n, of s] by simp
    from this [of "quote_chars (drop ?n (c # cs)) @ quot # r"] IH show ?thesis unfolding q by (simp split: if_splits)
  qed
qed

section \<open>Number literals\<close>

definition number :: "string \<Rightarrow> (json \<times> string) option" where
  "number s = (case s of [] \<Rightarrow> None | c # cs \<Rightarrow> if c = CHR ''-'' then number_text [c] cs else number_text [] s)"

text \<open>What may follow a value inside a document.\<close>

definition delim :: "string \<Rightarrow> bool" where
  "delim r \<longleftrightarrow> (case r of [] \<Rightarrow> True | c # _ \<Rightarrow> c = CHR '','' \<or> c = CHR '']'' \<or> c = CHR ''}'')"

lemma delim_simps [simp]: "delim []" "delim (CHR '','' # r)" "delim (CHR '']'' # r)" "delim (CHR ''}'' # r)"
  by (simp_all add: delim_def)

lemma digits_delim:
  assumes "delim r"
  shows "takeWhile is_digit (s @ r) = takeWhile is_digit s" "dropWhile is_digit (s @ r) = dropWhile is_digit s @ r"
proof -
  have "takeWhile is_digit r = []" "dropWhile is_digit r = r"
    using assms by (auto simp: delim_def is_digit_def split: list.splits)
  then show "takeWhile is_digit (s @ r) = takeWhile is_digit s" "dropWhile is_digit (s @ r) = dropWhile is_digit s @ r"
    by (induction s) auto
qed

lemma number_parts_delim:
  assumes "delim r"
  shows "int_part s = Some (i, s') \<Longrightarrow> int_part (s @ r) = Some (i, s' @ r)"
    and "frac_part s = Some (i, s') \<Longrightarrow> frac_part (s @ r) = Some (i, s' @ r)"
    and "exp_part s = Some (i, s') \<Longrightarrow> exp_part (s @ r) = Some (i, s' @ r)"
  using assms digits_delim [OF assms]
  by (auto simp: int_part_def frac_part_def exp_part_def some_digits_def Let_def delim_def split: list.splits if_splits)

lemma number_text_delim: "number_text sign s = Some (j, s') \<Longrightarrow> delim r \<Longrightarrow> number_text sign (s @ r) = Some (j, s' @ r)"
  using number_parts_delim by (fastforce simp: number_text_def Option.bind_eq_Some_conv split: prod.splits)

lemma number_delim: "number s = Some (j, s') \<Longrightarrow> delim r \<Longrightarrow> number (s @ r) = Some (j, s' @ r)"
proof -
  assume num: "number s = Some (j, s')" and r: "delim r"
  then obtain c cs where s: "s = c # cs" by (cases s) (auto simp: number_def)
  show ?thesis
    using num number_text_delim [OF _ r, of "[c]" cs j s'] number_text_delim [OF _ r, of "[]" "c # cs" j s']
    by (auto simp: number_def s split: if_splits)
qed

lemma show_nat_hd: "0 < n \<Longrightarrow> hd (show_nat n) \<noteq> CHR ''0''"
proof (induction n rule: show_nat.induct)
  case (1 n)
  show ?case
  proof (cases "n < 10")
    case True
    moreover have "digit_val (CHR ''0'') = 0" by (simp add: digit_val_def)
    ultimately have "digit_val (digit n) \<noteq> digit_val (CHR ''0'')" using 1(2) by simp
    then have "digit n \<noteq> CHR ''0''" by (rule contrapos_nn) (rule arg_cong)
    with True show ?thesis by (simp add: show_nat.simps [of n])
  next
    case False
    then show ?thesis using 1(1) [OF False] by (simp add: show_nat.simps [of n] hd_append)
  qed
qed

lemma int_part_show_nat: "int_part (show_nat n) = Some (show_nat n, [])"
proof (cases "n = 0")
  case True
  then show ?thesis by (simp add: show_nat.simps digit_chars int_part_def)
next
  case False
  then obtain c cs where c: "show_nat n = c # cs" "c \<noteq> CHR ''0''" using show_nat_hd [of n] by (cases "show_nat n") auto
  then have "is_digit c" "takeWhile is_digit (c # cs) = c # cs" "dropWhile is_digit (c # cs) = []"
    using show_nat_digits [of n] by (auto simp: takeWhile_eq_all_conv)
  with c show ?thesis by (simp add: int_part_def)
qed

lemma number_show_int: "number (show_int n) = Some (JNum n, [])"
proof -
  have e: "frac_part [] = Some ([], [])" "exp_part [] = Some ([], [])" by (simp_all add: frac_part_def exp_part_def)
  show ?thesis
  proof (cases "n < 0")
    case True
    then show ?thesis by (simp add: number_def show_int_def number_text_def int_part_show_nat e)
  next
    case False
    obtain c cs where c: "show_nat (nat n) = c # cs" using show_nat_nonempty [of "nat n"] by (cases "show_nat (nat n)") auto
    then have "c \<noteq> CHR ''-''" using show_nat_no_minus [of "nat n"] by auto
    with False c show ?thesis
      using int_part_show_nat [of "nat n"] read_show_nat [of "nat n"] by (simp add: number_def show_int_def number_text_def e)
  qed
qed

lemma parse_value_number: "number s = Some (j, r) \<Longrightarrow> parse_value (Suc n) d s = Some (j, r)"
proof -
  assume num: "number s = Some (j, r)"
  then obtain c cs where s: "s = c # cs" by (cases s) (auto simp: number_def)
  have c: "c = CHR ''-'' \<or> is_digit c" using num by (auto simp: s number_def number_text_def int_part_def is_digit_def Option.bind_eq_Some_conv split: if_splits)
  then have "\<not> is_ws c" "c \<noteq> CHR ''{''" "c \<noteq> CHR ''[''" "c \<noteq> quot" "c \<noteq> CHR ''t''" "c \<noteq> CHR ''f''" "c \<noteq> CHR ''n''"
    by (auto simp: is_digit_def is_ws_def)
  with num show ?thesis by (simp add: s number_def)
qed

section \<open>Documents\<close>

text \<open>Literals of times are plain.\<close>

definition plain :: "char \<Rightarrow> bool" where
  "plain c \<longleftrightarrow> 32 \<le> code c \<and> code c < 128 \<and> c \<noteq> quot \<and> c \<noteq> bsl"

lemma parse_chars_plain: "list_all plain s \<Longrightarrow> parse_chars (s @ r) = map_option (apfst ((@) s)) (parse_chars r)"
proof (induction s)
  case Nil
  then show ?case by (cases "parse_chars r") auto
next
  case (Cons c s)
  then show ?case by (cases "parse_chars r") (auto simp: plain_def parse_chars_ascii)
qed

lemma digit_plain: "is_digit c \<Longrightarrow> plain c"
  by (auto simp: plain_def is_digit_def)

lemma pad_plain [simp]: "list_all plain (pad n k)"
  using pad_props(2) [of n k] by (auto simp: list_all_iff digit_plain)

lemma time_text_plain [simp]: "list_all plain (time_text t)"
proof -
  have "set (fraction n) \<subseteq> insert (CHR ''.'') (set (pad 9 n))" for n
    by (auto simp: fraction_def dest!: set_dropWhileD)
  moreover have "plain (CHR ''.'')" by (simp add: plain_def)
  ultimately have f: "list_all plain (fraction n)" for n using pad_plain [of 9 n] unfolding list_all_iff by blast
  show ?thesis by (simp add: time_text_def Let_def two_def f plain_def split: prod.splits)
qed

text \<open>A document that \<open>Marshal\<close> can write and \<open>Unmarshal\<close> reads back, inside \<open>d\<close> arrays and objects.\<close>

fun doc_ok :: "nat \<Rightarrow> json \<Rightarrow> bool" where
  "doc_ok d (JStr s) = utf8_ok s"
| "doc_ok d (JDec s) = (number s = Some (JDec s, []))"
| "doc_ok d (JArr js) = (d < max_depth \<and> list_all (doc_ok (Suc d)) js)"
| "doc_ok d (JObj ms) = (d < max_depth \<and> list_all (\<lambda>(k, j). utf8_ok k \<and> doc_ok (Suc d) j) ms)"
| "doc_ok d (JTime t) = time_ok t"
| "doc_ok d _ = True"

text \<open>The document of the text: a time is the string literal of its text.\<close>

fun erase :: "json \<Rightarrow> json" where
  "erase (JTime t) = JStr (time_text t)"
| "erase (JArr js) = JArr (map erase js)"
| "erase (JObj ms) = JObj (map (\<lambda>(k, j). (k, erase j)) ms)"
| "erase j = j"

lemma number_hd: "number (c # cs) = Some x \<Longrightarrow> c = CHR ''-'' \<or> is_digit c"
  by (cases x) (auto simp: number_def number_text_def int_part_def is_digit_def Option.bind_eq_Some_conv split: if_splits)

lemma json_text_hd:
  assumes "doc_ok d j"
  obtains c cs where "json_text j = c # cs" "\<not> is_ws c" "c \<noteq> CHR '']''" "c \<noteq> CHR ''}''"
proof -
  note found = that
  have num: thesis if s: "json_text j = s" and v: "number s = Some (v, [])" for s v
  proof -
    obtain c cs where c: "s = c # cs" using v by (cases s) (auto simp: number_def)
    with number_hd v have "c = CHR ''-'' \<or> is_digit c" by blast
    with s c show thesis by (intro found) (auto simp: is_ws_def is_digit_def)
  qed
  show thesis
  proof (cases j)
    case (JNum n)
    then show thesis by (intro num [OF _ number_show_int]) simp
  next
    case (JDec s)
    then show thesis using assms by (intro num) simp_all
  next
    case (JBool b)
    then show thesis by (cases b) (simp_all add: found is_ws_def)
  qed (simp_all add: found quote_text_def is_ws_def)
qed

lemma skip_ws_delim [simp]: "\<not> is_ws c \<Longrightarrow> skip_ws (c # r) = c # r"
  by simp

lemma not_ws [simp]: "\<not> is_ws (CHR '','')" "\<not> is_ws (CHR '']'')" "\<not> is_ws (CHR ''}'')" "\<not> is_ws (CHR '':'')" "\<not> is_ws quot"
  "\<not> is_ws (CHR ''{'')" "\<not> is_ws (CHR ''['')"
  by (simp_all add: is_ws_def)

lemma parse_elems_text:
  assumes "js \<noteq> []" "2 * length (commas (map json_text js) @ CHR '']'' # r) + 2 \<le> n"
    and "\<And>j r n. j \<in> set js \<Longrightarrow> delim r \<Longrightarrow> 2 * length (json_text j @ r) + 1 \<le> n \<Longrightarrow> parse_value n d (json_text j @ r) = Some (erase j, r)"
  shows "parse_elems n d (commas (map json_text js) @ CHR '']'' # r) = Some (map erase js, r)"
  using assms
proof (induction js arbitrary: n rule: induct_list012)
  case (2 j)
  then obtain m where n: "n = Suc m" by (cases n) auto
  with 2(2) have "parse_value m d (json_text j @ CHR '']'' # r) = Some (erase j, CHR '']'' # r)" by (intro 2(3)) simp_all
  then show ?case by (simp add: n)
next
  case (3 j j' js)
  then obtain m where n: "n = Suc m" by (cases n) auto
  let ?t = "commas (map json_text (j' # js)) @ CHR '']'' # r"
  have "parse_value m d (json_text j @ CHR '','' # ?t) = Some (erase j, CHR '','' # ?t)"
    using 3(4) n by (intro 3(5)) simp_all
  moreover have "parse_elems m d ?t = Some (map erase (j' # js), r)" using 3(4) n by (intro 3(2) 3(5)) simp_all
  ultimately show ?case by (simp add: n)
qed simp

definition member_text :: "string \<times> json \<Rightarrow> string" where
  "member_text m = quote_text (fst m) @ '':'' @ json_text (snd m)"

lemma member_text_length: "length (member_text m) = length (quote_text (fst m)) + 1 + length (json_text (snd m))"
  by (simp add: member_text_def)

lemma json_text_JObj: "json_text (JObj ms) = ''{'' @ commas (map member_text ms) @ ''}''"
  by (simp add: member_text_def split_beta cong: map_cong)

lemma parse_members_step:
  assumes "utf8_ok k" "parse_value n d (s @ r) = Some (v, r)"
  shows "parse_members (Suc n) d (quote_text k @ '':'' @ s @ r) =
    (case skip_ws r of
       e # r3 \<Rightarrow> if e = CHR ''}'' then Some ([(k, v)], r3)
         else if e = CHR '','' then map_option (apfst ((#) (k, v))) (parse_members n d r3) else None
     | [] \<Rightarrow> None)"
  using parse_quote_chars [OF assms(1), of "CHR '':'' # s @ r"] assms(2) by (simp add: quote_text_def)

lemma parse_members_text:
  assumes "ms \<noteq> []" "2 * length (commas (map member_text ms) @ CHR ''}'' # r) + 2 \<le> n" "list_all (\<lambda>m. utf8_ok (fst m)) ms"
    and "\<And>m r n. m \<in> set ms \<Longrightarrow> delim r \<Longrightarrow> 2 * length (json_text (snd m) @ r) + 1 \<le> n \<Longrightarrow>
      parse_value n d (json_text (snd m) @ r) = Some (erase (snd m), r)"
  shows "parse_members n d (commas (map member_text ms) @ CHR ''}'' # r) = Some (map (\<lambda>(k, j). (k, erase j)) ms, r)"
  using assms
proof (induction ms arbitrary: n rule: induct_list012)
  case (2 m)
  then obtain i where n: "n = Suc i" by (cases n) auto
  with 2(2) have "parse_value i d (json_text (snd m) @ CHR ''}'' # r) = Some (erase (snd m), CHR ''}'' # r)"
    by (intro 2(4)) (simp_all add: member_text_def)
  from parse_members_step [OF _ this, of "fst m"] 2(3) show ?case by (simp add: n member_text_def split_beta)
next
  case (3 m m' ms)
  then obtain i where n: "n = Suc i" by (cases n) auto
  let ?t = "commas (map member_text (m' # ms)) @ CHR ''}'' # r"
  have "parse_value i d (json_text (snd m) @ CHR '','' # ?t) = Some (erase (snd m), CHR '','' # ?t)"
    using 3(4) n by (intro 3(6)) (simp_all add: member_text_length)
  moreover have "parse_members i d ?t = Some (map (\<lambda>(k, j). (k, erase j)) (m' # ms), r)"
    using 3(4,5) n by (intro 3(2) 3(6)) simp_all
  moreover have "commas (map member_text (m # m' # ms)) @ CHR ''}'' # r = quote_text (fst m) @ '':'' @ json_text (snd m) @ (CHR '','' # ?t)"
    by (simp add: member_text_def [of m])
  ultimately show ?case using parse_members_step [of "fst m" i d "json_text (snd m)" "CHR '','' # ?t"] 3(5)
    by (simp add: n split_beta del: parse_members.simps)
qed simp

lemma parse_value_literal:
  "parse_value (Suc n) d (''null'' @ r) = Some (JNull, r)"
  "parse_value (Suc n) d (''true'' @ r) = Some (JBool True, r)"
  "parse_value (Suc n) d (''false'' @ r) = Some (JBool False, r)"
  by (simp_all add: literal_def is_ws_def)

lemma first_of:
  assumes "xs \<noteq> []" "hd xs = c # cs" "\<not> is_ws c"
  shows "take 1 (skip_ws (commas xs @ r)) = [c]"
proof -
  obtain t where "commas xs @ r = c # t" using assms(1,2) by (cases xs rule: commas.cases) auto
  with assms(3) show ?thesis by simp
qed

lemma parse_value_open:
  assumes "d < max_depth"
  shows "parse_value (Suc n) d (CHR ''['' # s) =
      (if take 1 (skip_ws s) = '']'' then Some (JArr [], tl (skip_ws s)) else map_option (apfst JArr) (parse_elems n (Suc d) s))"
    and "parse_value (Suc n) d (CHR ''{'' # s) =
      (if take 1 (skip_ws s) = ''}'' then Some (JObj [], tl (skip_ws s)) else map_option (apfst JObj) (parse_members n (Suc d) s))"
  using assms by simp_all

lemma parse_value_text:
  "doc_ok d j \<Longrightarrow> delim r \<Longrightarrow> 2 * length (json_text j @ r) + 1 \<le> n \<Longrightarrow> parse_value n d (json_text j @ r) = Some (erase j, r)"
proof (induction j arbitrary: d r n)
  case (JNum i)
  then obtain m where "n = Suc m" by (cases n) auto
  with parse_value_number [OF number_delim [OF number_show_int JNum(2)]] show ?case by simp
next
  case (JDec s)
  then obtain m where "n = Suc m" by (cases n) auto
  with parse_value_number [OF number_delim [OF _ JDec(2)]] JDec(1) show ?case by simp
next
  case (JStr s)
  then obtain m where "n = Suc m" by (cases n) auto
  with JStr(1) show ?case by (simp add: quote_text_def parse_quote_chars)
next
  case (JTime t)
  then obtain m where "n = Suc m" by (cases n) auto
  then show ?case by (simp add: parse_chars_plain parse_chars_quot)
next
  case (JArr js)
  then obtain m where n: "n = Suc m" by (cases n) auto
  have d: "d < max_depth" and ok: "\<And>j. j \<in> set js \<Longrightarrow> doc_ok (Suc d) j" using JArr(2) by (auto simp: list_all_iff)
  show ?case
  proof (cases "js = []")
    case True
    then show ?thesis using d by (simp add: n parse_value_open(1))
  next
    case False
    then obtain c cs where c: "hd (map json_text js) = c # cs" "\<not> is_ws c" "c \<noteq> CHR '']''"
      using json_text_hd [OF ok, of "hd js"] by (metis hd_in_set hd_map)
    have "parse_elems m (Suc d) (commas (map json_text js) @ CHR '']'' # r) = Some (map erase js, r)"
      using JArr(1) ok JArr(4) n False by (intro parse_elems_text) simp_all
    then show ?thesis
      using first_of [OF _ c(1,2), of "CHR '']'' # r"] c(3) False d by (simp add: n parse_value_open(1))
  qed
next
  case (JObj ms)
  then obtain m where n: "n = Suc m" by (cases n) auto
  have d: "d < max_depth" and ok: "\<And>x. x \<in> set ms \<Longrightarrow> utf8_ok (fst x) \<and> doc_ok (Suc d) (snd x)" using JObj(2) by (auto simp: list_all_iff)
  have len: "2 * length (commas (map member_text ms) @ CHR ''}'' # r) + 2 \<le> m" using JObj(4) n unfolding json_text_JObj by simp
  show ?case
  proof (cases "ms = []")
    case True
    then show ?thesis using d by (simp add: n parse_value_open(2))
  next
    case False
    obtain cs where c: "hd (map member_text ms) = quot # cs" using False by (cases ms) (auto simp: member_text_def quote_text_def)
    have "parse_members m (Suc d) (commas (map member_text ms) @ CHR ''}'' # r) = Some (map (\<lambda>(k, j). (k, erase j)) ms, r)"
      using JObj(1) ok False len by (intro parse_members_text) (auto simp: list_all_iff snds.simps)
    then show ?thesis
      using first_of [OF _ c, of "CHR ''}'' # r"] False d unfolding json_text_JObj by (simp add: n parse_value_open(2) del: json_text.simps)
  qed
next
  case JNull
  then obtain m where "n = Suc m" by (cases n) auto
  then show ?case using parse_value_literal(1) by simp
next
  case (JBool b)
  then obtain m where "n = Suc m" by (cases n) auto
  then show ?case using parse_value_literal(2,3) by (cases b) simp_all
qed

lemma parse_json_text: "doc_ok 0 j \<Longrightarrow> parse_json (json_text j) = Some (erase j)"
  using parse_value_text [of 0 j "[]" "2 * length (json_text j) + 1"] by (simp add: parse_json_def)

section \<open>The bound on the nesting of calls\<close>

lemma parse_chars_rest:
  "parse_chars s = Some (x, r) \<Longrightarrow> \<exists>u. s = u @ quot # r"
proof (induction s arbitrary: x rule: parse_chars.induct)
  case (2 c cs)
  have step: "\<exists>u. c # cs = u @ quot # r" if "t = drop k (c # cs)" "\<exists>u. t = u @ quot # r" for t k
    using that by (metis append.assoc append_take_drop_id)
  show ?case
  proof (cases "c = quot")
    case True
    with 2(4) show ?thesis by (auto simp: parse_chars.simps(2))
  next
    case c: False
    show ?thesis
    proof (cases "c = bsl")
      case True
      with 2(4) c obtain y t where y: "unescape cs = Some (y, t)" "\<exists>x'. parse_chars t = Some (x', r)"
        by (auto simp: parse_chars.simps(2) split: option.splits)
      obtain k where "t = drop k (c # cs)" using unescape_rest [OF y(1)] by (metis drop_Suc_Cons)
      with step 2(1) [OF c True y(1) refl] y(2) show ?thesis by blast
    next
      case False
      then show ?thesis
        using 2(2-4) c step [of cs 1] step [of "drop (rune_len (c # cs)) (c # cs)" "rune_len (c # cs)"]
        by (auto simp: parse_chars.simps(2) Let_def split: if_splits)
    qed
  qed
qed simp

lemma parse_chars_shorter: "parse_chars s = Some (x, r) \<Longrightarrow> length r < length s"
  using parse_chars_rest [of s x r] by auto

lemma number_parts_shorter:
  "int_part s = Some (i, r) \<Longrightarrow> length r < length s"
  "some_digits p s = Some (i, r) \<Longrightarrow> length r \<le> length s"
  "frac_part s = Some (i, r) \<Longrightarrow> length r \<le> length s"
  "exp_part s = Some (i, r) \<Longrightarrow> length r \<le> length s"
proof -
  have dw: "length (dropWhile is_digit u) \<le> length u" for u by (simp add: length_dropWhile_le)
  show "int_part s = Some (i, r) \<Longrightarrow> length r < length s"
    by (auto simp: int_part_def le_imp_less_Suc dw split: list.splits if_splits)
  show sd: "some_digits p s = Some (i, r) \<Longrightarrow> length r \<le> length s" for p s i r
    by (auto simp: some_digits_def Let_def dw split: if_splits)
  show "frac_part s = Some (i, r) \<Longrightarrow> length r \<le> length s"
    by (auto simp: frac_part_def le_SucI dest: sd split: list.splits if_splits)
  show "exp_part s = Some (i, r) \<Longrightarrow> length r \<le> length s"
    by (auto simp: exp_part_def le_SucI dest!: sd split: list.splits if_splits)
qed

lemma number_text_shorter: "number_text sign s = Some (j, r) \<Longrightarrow> length r < length s"
  by (auto simp: number_text_def Option.bind_eq_Some_conv dest!: number_parts_shorter)

lemma skip_ws_le: "length (skip_ws s) \<le> length s"
  by (simp add: length_dropWhile_le)

declare dropWhile_eq_Nil_conv [simp del]

lemma skip_ws_Cons: "skip_ws s = c # cs \<Longrightarrow> length cs < length s"
  using skip_ws_le [of s] by simp

lemma skip_ws_tl: "length (tl (skip_ws s)) \<le> length s"
  using skip_ws_le [of s] by simp

lemma literal_shorter: "literal w j s = Some (v, r) \<Longrightarrow> w \<noteq> [] \<Longrightarrow> s \<noteq> [] \<Longrightarrow> length r < length s"
  by (cases w; cases s) (auto simp: literal_def split: if_splits)

lemmas shorter = parse_chars_shorter number_text_shorter literal_shorter

lemma parse_shorter:
  "parse_value n d s = Some (v, r) \<Longrightarrow> length r < length s"
  "parse_elems n d s = Some (vs, r) \<Longrightarrow> length r < length s"
  "parse_members n d s = Some (ms, r) \<Longrightarrow> length r < length s"
proof (induction n d s and n d s and n d s arbitrary: v r and vs r and ms r rule: parse_value_parse_elems_parse_members.induct)
  case (2 n d s)
  then obtain c cs where c: "skip_ws s = c # cs" by (auto split: list.splits)
  have le: "length cs < length s" "length (tl (skip_ws cs)) \<le> length cs" using skip_ws_Cons [OF c] skip_ws_tl by auto
  have "length r < Suc (length cs)"
    using 2 c le(2) by (auto split: if_splits dest!: shorter intro: less_SucI)
  with le(1) show ?case by simp
next
  case (4 n d s)
  then obtain v' r' where v: "parse_value n d s = Some (v', r')" by (auto split: option.splits)
  obtain c cs where c: "skip_ws r' = c # cs" using 4(3) v by (auto split: list.splits)
  from 4(1) [OF v] skip_ws_Cons [OF c] 4(2) [OF v refl c] 4(3) v c show ?case by (fastforce split: if_splits)
next
  case (6 n d s)
  then obtain c cs where c: "skip_ws s = c # cs" "c = quot" by (auto split: list.splits if_splits)
  obtain k r1 where k: "parse_chars cs = Some (k, r1)" using 6(3) c by (auto split: option.splits)
  obtain e r2 where e: "skip_ws r1 = e # r2" "e = CHR '':''" using 6(3) c k by (auto split: list.splits if_splits)
  obtain v r3 where v: "parse_value n d r2 = Some (v, r3)" using 6(3) c k e by (auto split: option.splits)
  obtain f r4 where f: "skip_ws r3 = f # r4" using 6(3) c k e v by (auto split: list.splits)
  note IH = 6(1) [OF c(1,2) k refl e(1,2) v] 6(2) [OF c(1,2) k refl e(1,2) v refl f]
  have "length r4 < length s"
    using skip_ws_Cons [OF c(1)] parse_chars_shorter [OF k] skip_ws_Cons [OF e(1)] IH(1) skip_ws_Cons [OF f] by simp
  with IH(2) 6(3) c k e v f show ?case by (fastforce split: if_splits)
qed simp_all

text \<open>Calls nested deeper than twice the length of the text do not happen, so the bound is never met.\<close>

lemma parse_members_None:
  assumes "\<And>s' k r r'. skip_ws s = quot # s' \<Longrightarrow> parse_chars s' = Some (k, r) \<Longrightarrow> skip_ws r \<noteq> CHR '':'' # r'"
  shows "parse_members n d s = None"
proof (cases n)
  case (Suc m)
  show ?thesis
  proof (cases "\<exists>s'. skip_ws s = quot # s'")
    case True
    then obtain s' where s': "skip_ws s = quot # s'" by blast
    show ?thesis
    proof (cases "parse_chars s'")
      case (Some kr)
      obtain k r where kr: "kr = (k, r)" by (cases kr)
      have "skip_ws r \<noteq> CHR '':'' # r'" for r' using assms [OF s' Some [unfolded kr]] .
      then show ?thesis by (cases "skip_ws r") (auto simp: Suc s' Some kr)
    qed (simp add: Suc s')
  qed (cases "skip_ws s"; simp add: Suc)
qed simp

lemma parse_enough:
  "2 * length s + 1 \<le> n \<Longrightarrow> 2 * length s + 1 \<le> m \<Longrightarrow> parse_value n d s = parse_value m d s"
  "2 * length s + 2 \<le> n \<Longrightarrow> 2 * length s + 2 \<le> m \<Longrightarrow> parse_elems n d s = parse_elems m d s"
  "2 * length s + 2 \<le> n \<Longrightarrow> 2 * length s + 2 \<le> m \<Longrightarrow> parse_members n d s = parse_members m d s"
proof (induction n d s and n d s and n d s arbitrary: m and m and m rule: parse_value_parse_elems_parse_members.induct)
  case (2 n d s)
  then obtain m' where m: "m = Suc m'" by (cases m) auto
  show ?case
  proof (cases "skip_ws s")
    case (Cons c cs)
    then have le: "2 * length cs + 2 \<le> n" "2 * length cs + 2 \<le> m'" using 2(3,4) skip_ws_Cons [OF Cons] m by simp_all
    show ?thesis using 2(1) [OF Cons _ _ _ le] 2(2) [OF Cons _ _ _ _ le] by (simp add: Cons m)
  qed (simp add: m)
next
  case (4 n d s)
  obtain m' where m: "m = Suc m'" using 4(4) by (cases m) simp_all
  have v: "parse_value n d s = parse_value m' d s" by (rule 4(1)) (use 4(3,4) m in simp_all)
  show ?case
  proof (cases "parse_value m' d s")
    case (Some vr)
    obtain v' r' where vr: "vr = (v', r')" by (cases vr)
    show ?thesis
    proof (cases "skip_ws r'")
      case (Cons c cs)
      have le: "2 * length cs + 2 \<le> n" "2 * length cs + 2 \<le> m'"
        using 4(3,4) skip_ws_Cons [OF Cons] parse_shorter(1) [OF Some [unfolded vr]] m by simp_all
      show ?thesis using 4(2) [OF Some [unfolded vr, folded v] refl Cons _ _ le] v Some by (simp add: m vr Cons)
    qed (use v Some in \<open>simp add: m vr\<close>)
  qed (use v in \<open>simp add: m\<close>)
next
  case (6 n d s)
  obtain m' where m: "m = Suc m'" using 6(4) by (cases m) simp_all
  show ?case
  proof (cases "\<exists>s' k r r'. skip_ws s = quot # s' \<and> parse_chars s' = Some (k, r) \<and> skip_ws r = CHR '':'' # r'")
    case False
    then have "parse_members k d s = None" for k by (intro parse_members_None) blast
    then show ?thesis by (simp only:)
  next
    case True
    then obtain s' k r r' where c: "skip_ws s = quot # s'" "parse_chars s' = Some (k, r)" "skip_ws r = CHR '':'' # r'" by blast
    have short: "length r' + 2 < length s"
      using skip_ws_Cons [OF c(1)] parse_chars_shorter [OF c(2)] skip_ws_Cons [OF c(3)] by simp
    have v: "parse_value n d r' = parse_value m' d r'" using 6(3,4) short m by (intro 6(1) [OF c(1) refl c(2) refl c(3) refl]) linarith+
    show ?thesis
    proof (cases "parse_value m' d r'")
      case (Some vr)
      obtain v' r2 where vr: "vr = (v', r2)" by (cases vr)
      show ?thesis
      proof (cases "skip_ws r2")
        case (Cons f r3)
        have le: "2 * length r3 + 2 \<le> n" "2 * length r3 + 2 \<le> m'"
          using 6(3,4) skip_ws_Cons [OF Cons] parse_shorter(1) [OF Some [unfolded vr]] short m by simp_all
        show ?thesis using 6(2) [OF c(1) refl c(2) refl c(3) refl Some [unfolded vr, folded v] refl Cons _ _ le] v Some c by (simp add: m vr Cons)
      qed (use v Some c in \<open>simp add: m vr\<close>)
    qed (use v c in \<open>simp add: m\<close>)
  qed
qed simp_all

declare dropWhile_eq_Nil_conv [simp]

section \<open>ASCII\<close>

definition ascii :: "string \<Rightarrow> bool" where
  "ascii s \<longleftrightarrow> list_all (\<lambda>c. code c < 128) s"

lemma ascii_simps [simp]: "ascii []" "ascii (c # s) \<longleftrightarrow> code c < 128 \<and> ascii s" "ascii (s @ s') \<longleftrightarrow> ascii s \<and> ascii s'"
  by (simp_all add: ascii_def)

declare utf8_ok.simps(2) [simp del]

lemma utf8_ok_ascii: "ascii s \<Longrightarrow> utf8_ok s"
  by (induction s) (simp_all add: rune_len_ascii utf8_ok.simps(2))

end
