(* ===== verification/ErrorText.thy ===== *)
theory ErrorText
  imports JsonText SmfSessions
begin

text \<open>
  The bodies of errors as bytes.  The AMF functions marshal a map; the others put the message into \<^verbatim>\<open>{"error":"%s"}\<close> with
  \<open>fmt.Sprintf\<close>, without escaping it, so that the body is the JSON of the message only for some messages.
\<close>

section \<open>The body of an error\<close>

fun body_text :: "body \<Rightarrow> string" where
  "body_text (BJson j) = json_text j"
| "body_text (BText s) = s"
| "body_text BEmpty = []"

lemma ascii_drop: "ascii s \<Longrightarrow> ascii (drop n s)"
  unfolding ascii_def list_all_iff by (meson in_set_dropD)

lemma unescape_short:
  assumes "unescape s = Some (x, r)"
  shows "length x + length r \<le> length s"
proof -
  obtain e cs where s: "s = e # cs" using assms by (cases s) (auto simp: unescape_def)
  have u: "length (utf8_enc y) \<le> 5" "length (utf8_enc y) \<le> 11" for y using utf8_enc_length(2) [of y] by linarith+
  show ?thesis
    using assms
    by (auto simp: s unescape_def dest!: u4_length low_half_length split: option.splits if_splits) (simp_all add: u)
qed

lemma parse_chars_exact:
  assumes "ascii s" "parse_chars s = Some (x, r)"
  shows "length x + 1 + length r \<le> length s" (is ?le)
    and "length x + 1 + length r = length s \<Longrightarrow> s = x @ quot # r \<and> list_all plain x"
proof -
  have "length x + 1 + length r \<le> length s \<and> (length x + 1 + length r = length s \<longrightarrow> s = x @ quot # r \<and> list_all plain x)"
    using assms
  proof (induction s arbitrary: x rule: parse_chars.induct)
    case (2 c cs)
    have c: "code c < 128" "ascii cs" using 2(4) by simp_all
    consider "c = quot" | "c \<noteq> quot" "c = bsl" | "c \<noteq> quot" "c \<noteq> bsl" "32 \<le> code c"
      using 2(5) by (cases "c = quot"; cases "c = bsl"; cases "code c < 32"; simp add: parse_chars.simps(2))
    then show ?case
    proof cases
      case 1
      then show ?thesis using 2(5) by (simp add: parse_chars_quot)
    next
      case 2
      with "2.prems" obtain y t x' where y: "unescape cs = Some (y, t)" "parse_chars t = Some (x', r)" "x = y @ x'"
        by (auto simp: parse_chars.simps(2) split: option.splits)
      have "ascii t" using unescape_rest [OF y(1)] ascii_drop [OF c(2)] by auto
      from "2.IH"(1) [OF 2 y(1) refl this y(2)] unescape_short [OF y(1)] show ?thesis by (simp add: y(3))
    next
      case 3
      with "2.prems" c obtain x' where x: "parse_chars cs = Some (x', r)" "x = c # x'" by (auto simp: parse_chars_ascii)
      have "length x' + 1 + length r \<le> length cs \<and> (length x' + 1 + length r = length cs \<longrightarrow> cs = x' @ quot # r \<and> list_all plain x')"
        using "2.IH"(3) [OF 3(1,2) _ refl, unfolded rune_len_ascii [OF c(1)]] 3(3) c(2) x(1) by simp
      moreover have "plain c" using 3 c(1) by (simp add: plain_def)
      ultimately show ?thesis by (simp add: x(2))
    qed
  qed simp
  then show ?le "length x + 1 + length r = length s \<Longrightarrow> s = x @ quot # r \<and> list_all plain x" by simp_all
qed

text \<open>The body of an error, read back.\<close>

definition error_text :: "string \<Rightarrow> string" where
  "error_text msg = ''{'' @ quote_text ''error'' @ '':'' @ [quot] @ msg @ [quot] @ ''}''"

lemma quote_chars_plain: "list_all (\<lambda>c. plain c \<and> c \<noteq> CHR ''<'' \<and> c \<noteq> CHR ''>'' \<and> c \<noteq> CHR ''&'') s \<Longrightarrow> quote_chars s = s"
proof (induction s)
  case (Cons c s)
  then have "plain c" by simp
  then have "map_of escapes c = None" "code c < 128" "\<not> code c < 32" by (auto simp: plain_def escapes_def)
  with Cons show ?case by (simp add: quote_chars_ascii quote_ascii_def)
qed simp

lemma errorResp_text: "body_text (rs_Body (errorResp status msg)) = error_text msg"
proof -
  have "quote_chars ''error'' = ''error''" by (rule quote_chars_plain) (simp add: plain_def)
  then show ?thesis by (simp add: errorResp_def error_text_def quote_text_def)
qed

lemma quote_error: "quote_text ''error'' = [quot] @ ''error'' @ [quot]"
proof -
  have "quote_chars ''error'' = ''error''" by (rule quote_chars_plain) (simp add: plain_def)
  then show ?thesis by (simp add: quote_text_def)
qed

lemma parse_error_members:
  assumes "parse_chars u = Some (x, r)"
  shows "parse_members (Suc (Suc n)) d (quote_text ''error'' @ '':'' @ quot # u) =
    (case skip_ws r of
       e # r3 \<Rightarrow> if e = CHR ''}'' then Some ([(''error'', JStr x)], r3)
         else if e = CHR '','' then map_option (apfst ((#) (''error'', JStr x))) (parse_members (Suc n) d r3) else None
     | [] \<Rightarrow> None)"
proof -
  obtain w where u: "u = w @ quot # r" using parse_chars_rest [OF assms] by blast
  have v: "parse_value (Suc n) d ((quot # w @ [quot]) @ r) = Some (JStr x, r)" using assms by (simp add: u)
  show ?thesis
    using parse_members_step [OF utf8_ok_ascii v, of "''error''"] by (simp add: u del: parse_members.simps)
qed

lemma parse_error_json:
  obtains n where "parse_json (''{'' @ quote_text ''error'' @ '':'' @ quot # u) =
    (case parse_members (Suc (Suc n)) 1 (quote_text ''error'' @ '':'' @ quot # u) of
       Some (ms, r) \<Rightarrow> if skip_ws r = [] then Some (JObj ms) else None
     | None \<Rightarrow> None)"
proof -
  have "parse_value (Suc n) 0 (''{'' @ quote_text ''error'' @ s) = map_option (apfst JObj) (parse_members n 1 (quote_text ''error'' @ s))" for n s
    by (simp add: parse_value_open(2) max_depth_def quote_text_def del: parse_value.simps parse_members.simps)
  moreover obtain n where n: "2 * length (''{'' @ quote_text ''error'' @ '':'' @ quot # u) + 1 = Suc (Suc (Suc n))"
    by (simp add: quote_error)
  ultimately show ?thesis
    by (intro that [of n], unfold parse_json_def n) (simp del: parse_value.simps parse_members.simps split: option.splits)
qed

lemma parse_error_None: "parse_chars u = None \<Longrightarrow> parse_members n d (quote_text ''error'' @ '':'' @ quot # u) = None"
proof (cases n)
  case (Suc m)
  assume u: "parse_chars u = None"
  have k: "parse_chars (''error'' @ quot # '':'' @ quot # u) = Some (''error'', '':'' @ quot # u)"
    using parse_chars_plain [of "''error''" "quot # '':'' @ quot # u"] by (simp add: parse_chars_quot plain_def)
  have "parse_value m d (quot # u) = None" using u by (cases m) simp_all
  with k show ?thesis by (simp add: Suc quote_error)
qed simp

lemma error_body_json:
  assumes "ascii msg"
  shows "parse_json (body_text (rs_Body (errorResp status msg))) = Some (JObj [(''error'', JStr msg)]) \<longleftrightarrow> list_all plain msg"
proof
  let ?u = "msg @ quot # ''}''"
  have json: "parse_json (body_text (rs_Body (errorResp status msg))) = parse_json (''{'' @ quote_text ''error'' @ '':'' @ quot # ?u)"
    by (simp add: errorResp_text error_text_def)
  obtain n where members: "parse_json (''{'' @ quote_text ''error'' @ '':'' @ quot # ?u) =
    (case parse_members (Suc (Suc n)) 1 (quote_text ''error'' @ '':'' @ quot # ?u) of
       Some (ms, r) \<Rightarrow> if skip_ws r = [] then Some (JObj ms) else None
     | None \<Rightarrow> None)" by (rule parse_error_json)
  {
    assume "list_all plain msg"
    then have "parse_chars ?u = Some (msg, ''}'')" by (simp add: parse_chars_plain parse_chars_quot)
    from parse_error_members [OF this] show "parse_json (body_text (rs_Body (errorResp status msg))) = Some (JObj [(''error'', JStr msg)])"
      unfolding json members by (simp del: parse_members.simps)
  next
    assume p: "parse_json (body_text (rs_Body (errorResp status msg))) = Some (JObj [(''error'', JStr msg)])"
    have "parse_chars ?u \<noteq> None"
    proof
      assume "parse_chars ?u = None"
      from p parse_error_None [OF this] show False unfolding json members by (simp del: parse_members.simps)
    qed
    then obtain x r where x: "parse_chars ?u = Some (x, r)" by auto
    have "x = msg"
      using p parse_error_members [OF x] unfolding json members
      by (auto simp del: parse_members.simps split: list.splits if_splits option.splits)
    obtain w where w: "?u = w @ quot # r" using parse_chars_rest [OF x] by blast
    have "r \<noteq> []"
    proof
      assume "r = []"
      with w have "last ?u = quot" by simp
      then show False by simp
    qed
    then have "length msg + 1 + length r = length ?u"
      using parse_chars_exact(1) [OF _ x] assms \<open>x = msg\<close> by (cases r) auto
    from parse_chars_exact(2) [OF _ x] this assms show "list_all plain msg" by (simp add: \<open>x = msg\<close>)
  }
qed

section \<open>Messages with names from a request\<close>

definition unescaped :: "string \<Rightarrow> bool" where
  "unescaped s \<longleftrightarrow> list_all (\<lambda>c. plain c \<and> c \<noteq> CHR ''<'' \<and> c \<noteq> CHR ''>'' \<and> c \<noteq> CHR ''&'') s"

lemma unescaped_append [simp]: "unescaped (s @ s') \<longleftrightarrow> unescaped s \<and> unescaped s'"
  by (simp add: unescaped_def)

lemma unescaped_ascii: "unescaped s \<Longrightarrow> ascii s"
  by (auto simp: unescaped_def ascii_def list_all_iff plain_def)

lemma quote_unescaped: "unescaped s \<Longrightarrow> quote_text s = quot # s @ [quot]"
  by (simp add: quote_text_def quote_chars_plain unescaped_def)

lemma error_text_members:
  assumes "unescaped a" "unescaped k" "unescaped v"
  shows "error_text (a @ [quot, CHR '','', quot] @ k @ [quot, CHR '':'', quot] @ v) = json_text (JObj [(''error'', JStr a), (k, JStr v)])"
  by (simp add: error_text_def quote_unescaped [OF assms(1)] quote_unescaped [OF assms(2)] quote_unescaped [OF assms(3)])

lemma error_body_members:
  assumes "unescaped a" "unescaped k" "unescaped v"
  shows "parse_json (body_text (rs_Body (errorResp status (a @ [quot, CHR '','', quot] @ k @ [quot, CHR '':'', quot] @ v)))) =
    Some (JObj [(''error'', JStr a), (k, JStr v)])"
proof -
  have "doc_ok 0 (JObj [(''error'', JStr a), (k, JStr v)])"
    using assms by (simp add: utf8_ok_ascii unescaped_ascii max_depth_def)
  from parse_json_text [OF this] show ?thesis unfolding errorResp_text error_text_members [OF assms] by simp
qed

definition not_found_message :: "string \<Rightarrow> string" where
  "not_found_message sid = ''session '' @ sid @ '' not found''"

lemma release_not_found:
  assumes "reliable_store kv view" "view (w_store w) (session_key sid) = None" "sid \<noteq> []"
  shows "fst (run_state (smf_pdu_session_release env kv sbi pfcp (release_req sid)) w) = errorResp 404 (not_found_message sid)"
proof -
  have "wp (smf_pdu_session_release env kv sbi pfcp (release_req sid)) (\<lambda>r _. r = errorResp 404 (not_found_message sid)) w"
    using assms(2,3)
    by (auto simp: smf_pdu_session_release_def release_req_def body_req_def unmarshal_ReleaseSMContextRequest_def
        ReleaseSMContextRequest_fields_def ReleaseSMContextRequest_zero_def fld_def wp not_found_message_def
        intro!: reliable_store.wp_kvGet_reliable [OF assms(1)])
  then show ?thesis by (simp add: wp_def split_beta)
qed

text \<open>C20: over a store that does not fail, the release of a session that does not exist, its id nonempty and in ASCII, is answered with
  404 and a body that is the JSON of the error message exactly when the session id contains no quote, no backslash and no control character: the body is not escaped.  A session id with quotes
  can even add a member of its own choice to the answer.\<close>

theorem session_not_found_body:
  assumes "reliable_store kv view" "view (w_store w) (session_key sid) = None" "sid \<noteq> []" "ascii sid"
    and "r = fst (run_state (smf_pdu_session_release env kv sbi pfcp (release_req sid)) w)"
  shows "rs_StatusCode r = 404 \<and>
    (parse_json (body_text (rs_Body r)) = Some (JObj [(''error'', JStr (not_found_message sid))]) \<longleftrightarrow> list_all plain sid) \<and>
    (\<forall>a k v. unescaped a \<and> unescaped k \<and> unescaped v \<and> sid = a @ [quot, CHR '','', quot] @ k @ [quot, CHR '':'', quot] @ v \<longrightarrow>
       parse_json (body_text (rs_Body r)) = Some (JObj [(''error'', JStr (''session '' @ a)), (k, JStr (v @ '' not found''))]))"
proof -
  have r: "r = errorResp 404 (not_found_message sid)" using release_not_found [OF assms(1-3)] assms(5) by simp
  have msg: "ascii (not_found_message sid)" "list_all plain (not_found_message sid) \<longleftrightarrow> list_all plain sid"
    using assms(4) by (simp_all add: not_found_message_def plain_def)
  have u: "unescaped ''session ''" "unescaped '' not found''" by (simp_all add: unescaped_def plain_def)
  have "rs_StatusCode r = 404" by (simp add: r errorResp_def)
  moreover have "parse_json (body_text (rs_Body r)) = Some (JObj [(''error'', JStr (not_found_message sid))]) \<longleftrightarrow> list_all plain sid"
    unfolding r error_body_json [OF msg(1)] msg(2) ..
  moreover have "parse_json (body_text (rs_Body r)) = Some (JObj [(''error'', JStr (''session '' @ a)), (k, JStr (v @ '' not found''))])"
    if m: "unescaped a \<and> unescaped k \<and> unescaped v \<and> sid = a @ [quot, CHR '','', quot] @ k @ [quot, CHR '':'', quot] @ v" for a k v
  proof -
    have e: "not_found_message sid = (''session '' @ a) @ [quot, CHR '','', quot] @ k @ [quot, CHR '':'', quot] @ (v @ '' not found'')"
      using m by (simp add: not_found_message_def)
    from m have p: "unescaped a" "unescaped k" "unescaped v" by simp_all
    show ?thesis unfolding r e by (rule error_body_members) (simp_all only: unescaped_append p u)
  qed
  ultimately show ?thesis by blast
qed

theorem session_not_found_body_witness:
  "parse_json (body_text (rs_Body (fst (run_state (smf_pdu_session_release no_env MockKVStore None None
     (release_req (''x'' @ [quot, CHR '','', quot] @ ''state'' @ [quot, CHR '':'', quot] @ ''RELEASED''))) (world_init Map.empty))))) =
   Some (JObj [(''error'', JStr ''session x''), (''state'', JStr ''RELEASED not found'')])"
proof -
  have u: "unescaped ''x''" "unescaped ''state''" "unescaped ''RELEASED''" by (simp_all add: unescaped_def plain_def)
  let ?sid = "''x'' @ [quot, CHR '','', quot] @ ''state'' @ [quot, CHR '':'', quot] @ ''RELEASED''"
  have "parse_json (body_text (rs_Body (fst (run_state (smf_pdu_session_release no_env MockKVStore None None (release_req ?sid)) (world_init Map.empty))))) =
      Some (JObj [(''error'', JStr (''session '' @ ''x'')), (''state'', JStr (''RELEASED'' @ '' not found''))])"
    by (rule session_not_found_body [OF mock.reliable_store_axioms, THEN conjunct2, THEN conjunct2, rule_format, OF _ _ _ refl])
      (use u in \<open>simp_all add: world_init_def\<close>)
  then show ?thesis by simp
qed

end
