(* ===== verification/StoreSim.thy ===== *)
theory StoreSim
  imports Gateway JsonText
begin

text \<open>
  Two stores behind the same program.  \<open>sim good corr m m'\<close> relates a handler over one store to the handler over
  another: from corresponding worlds they give the same result and corresponding worlds, unless the first store ends
  in a state that is not \<open>good\<close>, as after a write that the second store cannot represent.  The rules in the
  collection \<open>sim\<close> follow the structure of a handler; the locale \<open>store_sim\<close> states what the operations of the two stores
  need, and there every function of the program is related to itself over the other store.
\<close>

section \<open>Simulation\<close>

text \<open>All of a world but its store.\<close>

definition rest :: "'s world \<Rightarrow> unit world" where
  "rest w = \<lparr>w_store = (), w_times = w_times w, w_reads = w_reads w, w_rand = w_rand w, w_draws = w_draws w,
     w_amfUeNgapIDCounter = w_amfUeNgapIDCounter w, w_ipPoolSubnet = w_ipPoolSubnet w, w_ipPoolHost = w_ipPoolHost w,
     w_seidCounter = w_seidCounter w, w_chargingCounter = w_chargingCounter w, w_bindingCounter = w_bindingCounter w,
     w_policyCounter = w_policyCounter w, w_subCounter = w_subCounter w, w_pfcpSeq = w_pfcpSeq w, w_n4 = w_n4 w\<rparr>"

definition world_at :: "unit world \<Rightarrow> 't \<Rightarrow> 't world" where
  "world_at u t = \<lparr>w_store = t, w_times = w_times u, w_reads = w_reads u, w_rand = w_rand u, w_draws = w_draws u,
     w_amfUeNgapIDCounter = w_amfUeNgapIDCounter u, w_ipPoolSubnet = w_ipPoolSubnet u, w_ipPoolHost = w_ipPoolHost u,
     w_seidCounter = w_seidCounter u, w_chargingCounter = w_chargingCounter u, w_bindingCounter = w_bindingCounter u,
     w_policyCounter = w_policyCounter u, w_subCounter = w_subCounter u, w_pfcpSeq = w_pfcpSeq u, w_n4 = w_n4 u\<rparr>"

lemma rest_store [simp]: "rest (w\<lparr>w_store := s\<rparr>) = rest w"
  by (simp add: rest_def)

lemma rest_world_at [simp]: "rest (world_at u t) = u" "w_store (world_at u t) = t"
  by (simp_all add: rest_def world_at_def)

lemma world_at_rest: "world_at (rest w) (w_store w) = w"
  by (simp add: rest_def world_at_def)

lemma world_at_simps:
  "w_amfUeNgapIDCounter (world_at u t) = w_amfUeNgapIDCounter u" "w_ipPoolSubnet (world_at u t) = w_ipPoolSubnet u"
  "w_ipPoolHost (world_at u t) = w_ipPoolHost u" "w_chargingCounter (world_at u t) = w_chargingCounter u"
  "w_bindingCounter (world_at u t) = w_bindingCounter u" "w_policyCounter (world_at u t) = w_policyCounter u"
  "w_subCounter (world_at u t) = w_subCounter u"
  by (simp_all add: world_at_def)

definition corresponds :: "('s \<Rightarrow> bool) \<Rightarrow> ('s \<Rightarrow> 't \<Rightarrow> bool) \<Rightarrow> 's world \<Rightarrow> 't world \<Rightarrow> bool" where
  "corresponds good corr w w' \<longleftrightarrow> (good (w_store w) \<longrightarrow> corr (w_store w) (w_store w') \<and> rest w' = rest w)"

definition sim :: "('s \<Rightarrow> bool) \<Rightarrow> ('s \<Rightarrow> 't \<Rightarrow> bool) \<Rightarrow> ('s, 'a) handler \<Rightarrow> ('t, 'a) handler \<Rightarrow> bool" where
  "sim good corr m m' \<longleftrightarrow>
     (\<forall>w w'. corresponds good corr w w' \<longrightarrow>
        (case run_state m w of (a, v) \<Rightarrow> case run_state m' w' of (a', v') \<Rightarrow>
           good (w_store v) \<longrightarrow> good (w_store w) \<and> a' = a \<and> corresponds good corr v v'))"

named_theorems sim \<open>rules for the simulation of a handler over another store\<close>

lemma simD:
  assumes "sim good corr m m'" "corresponds good corr w w'" "run_state m w = (a, v)" "run_state m' w' = (a', v')" "good (w_store v)"
  shows "good (w_store w)" "a' = a" "corresponds good corr v v'"
  using assms(1) [unfolded sim_def, rule_format, OF assms(2)] assms(3-5) by simp_all

lemma simI:
  assumes "\<And>w w' a v a' v'. corresponds good corr w w' \<Longrightarrow> run_state m w = (a, v) \<Longrightarrow> run_state m' w' = (a', v') \<Longrightarrow>
     good (w_store v) \<Longrightarrow> good (w_store w) \<and> a' = a \<and> corresponds good corr v v'"
  shows "sim good corr m m'"
proof -
  have "case run_state m w of (a, v) \<Rightarrow> case run_state m' w' of (a', v') \<Rightarrow>
      good (w_store v) \<longrightarrow> good (w_store w) \<and> a' = a \<and> corresponds good corr v v'" if "corresponds good corr w w'" for w w'
    using assms [OF that] by (cases "run_state m w"; cases "run_state m' w'") simp
  then show ?thesis unfolding sim_def by blast
qed

lemma sim_bind [sim]:
  assumes "sim good corr m m'" "\<And>a. sim good corr (f a) (f' a)"
  shows "sim good corr (State_Monad.bind m f) (State_Monad.bind m' f')"
proof (rule simI)
  fix w w' b u b' u'
  assume c: "corresponds good corr w w'" and r: "run_state (State_Monad.bind m f) w = (b, u)"
    "run_state (State_Monad.bind m' f') w' = (b', u')" and g: "good (w_store u)"
  obtain a v a' v' where m: "run_state m w = (a, v)" "run_state m' w' = (a', v')" by fastforce
  then have f: "run_state (f a) v = (b, u)" "run_state (f' a') v' = (b', u')"
    using r by (simp_all add: State_Monad.bind_def)
  have v: "good (w_store v)"
  proof (rule ccontr)
    assume bad: "\<not> good (w_store v)"
    obtain b2 u2 where "run_state (f' a) v' = (b2, u2)" by fastforce
    from simD(1) [OF assms(2) _ f(1) this g] bad show False by (simp add: corresponds_def)
  qed
  note 1 = simD [OF assms(1) c m v]
  from simD [OF assms(2) 1(3) f(1) f(2) [unfolded 1(2)] g] 1(1) show "good (w_store w) \<and> b' = b \<and> corresponds good corr u u'" by simp
qed

lemma sim_return [sim]: "sim good corr (State_Monad.return a) (State_Monad.return a)"
  by (auto intro: simI simp: State_Monad.return_def)

lemma sim_get_bind [sim]:
  assumes "\<And>u s t. sim good corr (f (world_at u s)) (f' (world_at u t))"
  shows "sim good corr (State_Monad.bind State_Monad.get f) (State_Monad.bind State_Monad.get f')"
proof (rule simI)
  fix w w' a v a' v'
  assume c: "corresponds good corr w w'" and r: "run_state (State_Monad.bind State_Monad.get f) w = (a, v)"
    "run_state (State_Monad.bind State_Monad.get f') w' = (a', v')" and g: "good (w_store v)"
  have f: "run_state (f w) w = (a, v)" "run_state (f' w') w' = (a', v')"
    using r by (simp_all add: State_Monad.bind_def State_Monad.get_def)
  let ?u = "world_at (rest w) (w_store w')"
  have s: "sim good corr (f w) (f' ?u)" using assms [of "rest w" "w_store w" "w_store w'"] by (simp add: world_at_rest)
  have w: "good (w_store w)"
  proof (rule ccontr)
    assume bad: "\<not> good (w_store w)"
    obtain b u where u: "run_state (f' ?u) ?u = (b, u)" by fastforce
    from simD(1) [OF s _ f(1) u g] bad show False by (simp add: corresponds_def)
  qed
  then have "?u = w'" using c world_at_rest [of w'] by (simp add: corresponds_def)
  from simD [OF s [unfolded this] c f g] w show "good (w_store w) \<and> a' = a \<and> corresponds good corr v v'" by simp
qed

lemma sim_if [sim]:
  "(b \<Longrightarrow> sim good corr m m') \<Longrightarrow> (\<not> b \<Longrightarrow> sim good corr n n') \<Longrightarrow> sim good corr (if b then m else n) (if b then m' else n')"
  by simp

lemma sim_option [sim]:
  "(x = None \<Longrightarrow> sim good corr m m') \<Longrightarrow> (\<And>a. x = Some a \<Longrightarrow> sim good corr (f a) (f' a)) \<Longrightarrow>
   sim good corr (case x of None \<Rightarrow> m | Some a \<Rightarrow> f a) (case x of None \<Rightarrow> m' | Some a \<Rightarrow> f' a)"
  by (cases x) simp_all

lemma sim_sum [sim]:
  "(\<And>a. sim good corr (f a) (f' a)) \<Longrightarrow> (\<And>b. sim good corr (g b) (g' b)) \<Longrightarrow>
   sim good corr (case x of Inl a \<Rightarrow> f a | Inr b \<Rightarrow> g b) (case x of Inl a \<Rightarrow> f' a | Inr b \<Rightarrow> g' b)"
  by (cases x) simp_all

lemma sim_res [sim]:
  "(\<And>a. sim good corr (f a) (f' a)) \<Longrightarrow> (\<And>e. sim good corr (g e) (g' e)) \<Longrightarrow> sim good corr m m' \<Longrightarrow>
   sim good corr (case x of Ok a \<Rightarrow> f a | Error e \<Rightarrow> g e | Panic \<Rightarrow> m) (case x of Ok a \<Rightarrow> f' a | Error e \<Rightarrow> g' e | Panic \<Rightarrow> m')"
  by (cases x) simp_all

lemma sim_prod [sim]: "(\<And>a b. sim good corr (f a b) (f' a b)) \<Longrightarrow> sim good corr (case x of (a, b) \<Rightarrow> f a b) (case x of (a, b) \<Rightarrow> f' a b)"
  by (cases x) simp

lemma sim_bool [sim]:
  "sim good corr m m' \<Longrightarrow> sim good corr n n' \<Longrightarrow> sim good corr (case b of True \<Rightarrow> m | False \<Rightarrow> n) (case b of True \<Rightarrow> m' | False \<Rightarrow> n')"
  by (cases b) simp_all

lemma sim_Let [sim]: "sim good corr (f a) (f' a) \<Longrightarrow> sim good corr (Let a f) (Let a f')"
  by simp

lemma sim_orReturn [sim]:
  "(\<And>e. sim good corr (f e) (f' e)) \<Longrightarrow> (\<And>a. sim good corr (g a) (g' a)) \<Longrightarrow> sim good corr (orReturn r f g) (orReturn r f' g')"
  by (cases r) simp_all

lemma sim_forEach [sim]: "(\<And>x. sim good corr (f x) (f' x)) \<Longrightarrow> sim good corr (forEach xs f) (forEach xs f')"
  by (induction xs) (auto intro!: sim)

text \<open>A part that does not look at the store.\<close>

lemma sim_pure:
  assumes "\<And>w w' a v a' v'. run_state m w = (a, v) \<Longrightarrow> run_state m' w' = (a', v') \<Longrightarrow> w_store v = w_store w \<and> w_store v' = w_store w' \<and>
     (rest w' = rest w \<longrightarrow> a' = a \<and> rest v' = rest v)"
  shows "sim good corr m m'"
proof (rule simI)
  fix w w' a v a' v'
  assume "corresponds good corr w w'" "run_state m w = (a, v)" "run_state m' w' = (a', v')" "good (w_store v)"
  then show "good (w_store w) \<and> a' = a \<and> corresponds good corr v v'"
    using assms [of w a v w' a' v'] by (auto simp: corresponds_def)
qed

lemma sim_timeNow [sim]: "sim good corr timeNow timeNow"
  by (rule sim_pure) (auto simp: timeNow_def rest_def)

lemma sim_randRead [sim]: "sim good corr randRead randRead"
  by (rule sim_pure) (auto simp: randRead_def rest_def)

lemma sim_nextSEID [sim]: "sim good corr nextSEID nextSEID"
  by (rule sim_pure) (auto simp: nextSEID_def rest_def)

lemma sim_modify [sim]:
  "(\<And>w. w_store (f w) = w_store w) \<Longrightarrow> (\<And>w. w_store (f' w) = w_store w) \<Longrightarrow>
   (\<And>w w'. rest w' = rest w \<Longrightarrow> rest (f' w') = rest (f w)) \<Longrightarrow> sim good corr (modify f) (modify f')"
  by (rule sim_pure) (auto simp: modify_def)

lemma sim_CallFunction [sim]: "sim good corr (sbi f p) (sbi' f p) \<Longrightarrow> sim good corr (CallFunction sbi f p dec zero) (CallFunction sbi' f p dec zero)"
  unfolding CallFunction_def by (intro sim)

lemma sim_CallFunction_nil [sim]: "sim good corr (sbi f p) (sbi' f p) \<Longrightarrow> sim good corr (CallFunction_nil sbi f p) (CallFunction_nil sbi' f p)"
  unfolding CallFunction_nil_def by (intro sim)

lemma sim_Client_post: "sim good corr (post1 f p) (post2 f p) \<Longrightarrow> sim good corr (Client_post post1 f p) (Client_post post2 f p)"
  unfolding Client_post_def by (intro sim)


section \<open>Decoders of documents and of their text\<close>

text \<open>
  A decoder that does not tell a time from its text.  Every decoder the functions use on the contents of the store is
  one: what it makes of a document that was written and read back is what it makes of the document.
\<close>

definition text_dec :: "'a decoder \<Rightarrow> bool" where
  "text_dec dec \<longleftrightarrow> (\<forall>d j v. doc_ok d j \<longrightarrow> dec (erase j) v = dec j v)"

named_theorems text_dec \<open>decoders that do not tell a time from its text\<close>

lemma text_decD: "text_dec dec \<Longrightarrow> doc_ok d j \<Longrightarrow> dec (erase j) v = dec j v"
  by (auto simp: text_dec_def)

lemma text_decI: "(\<And>d j v. doc_ok d j \<Longrightarrow> dec (erase j) v = dec j v) \<Longrightarrow> text_dec dec"
  by (auto simp: text_dec_def)

lemma dec_erase_simps [simp]:
  "doc_ok d j \<Longrightarrow> dec_string (erase j) v1 = dec_string j v1"
  "doc_ok d j \<Longrightarrow> dec_bool (erase j) v2 = dec_bool j v2"
  "doc_ok d j \<Longrightarrow> dec_uint (erase j) v3 = dec_uint j v3"
  "doc_ok d j \<Longrightarrow> dec_sint (erase j) v4 = dec_sint j v4"
  "doc_ok d j \<Longrightarrow> dec_time (erase j) v5 = dec_time j v5"
  by (cases j; simp add: parse_time_text)+

lemma text_dec_basic [text_dec]: "text_dec dec_string" "text_dec dec_bool" "text_dec dec_uint" "text_dec dec_sint" "text_dec dec_time"
  by (auto intro: text_decI)

lemma text_dec_list [text_dec]:
  assumes "text_dec dec"
  shows "text_dec (dec_list dec zero)"
proof (rule text_decI)
  fix d j v
  assume "doc_ok d j"
  then show "dec_list dec zero (erase j) v = dec_list dec zero j v"
    by (cases j) (auto simp: comp_def list_all_iff text_decD [OF assms, of "Suc d"] intro!: arg_cong [where f = those])
qed

lemma text_dec_bytes [text_dec]: "text_dec dec_bytes"
proof (rule text_decI)
  fix d j and v :: bytes
  assume ok: "doc_ok d j"
  have "dec_list dec_uint 0 (erase j) v = dec_list dec_uint 0 j v"
    by (rule text_decD [OF _ ok]) (intro text_dec)
  then show "dec_bytes (erase j) v = dec_bytes j v" by (cases j) simp_all
qed

lemma erase_JNull [simp]: "erase j = JNull \<longleftrightarrow> j = JNull"
  by (cases j) simp_all

lemma dec_ptr_eq: "dec_ptr dec zero j v = (if j = JNull then Some None else map_option Some (dec j (case v of None \<Rightarrow> zero | Some x \<Rightarrow> x)))"
  by (cases j) simp_all

lemma text_dec_ptr [text_dec]: "text_dec dec \<Longrightarrow> text_dec (dec_ptr dec zero)"
  by (rule text_decI) (simp add: dec_ptr_eq text_decD)

lemma text_dec_fld [text_dec]: "text_dec dec \<Longrightarrow> text_dec (fld get upd dec)"
  by (rule text_decI) (simp add: fld_def text_decD)

lemma text_dec_members:
  assumes "list_all (\<lambda>(k, dec). text_dec dec) fs" "list_all (\<lambda>(k, j). utf8_ok k \<and> doc_ok d j) ms"
  shows "dec_members fs (map (\<lambda>(k, j). (k, erase j)) ms) r = dec_members fs ms r"
  using assms(2)
proof (induction ms arbitrary: r)
  case (Cons m ms)
  obtain k j where m: "m = (k, j)" by (cases m)
  have "text_dec dec" if "map_of fs k = Some dec" for dec
    using map_of_SomeD [OF that] assms(1) by (auto simp: list_all_iff)
  then show ?case using Cons by (auto simp: m text_decD split: option.splits)
qed simp

lemma text_dec_struct [text_dec]:
  assumes "list_all (\<lambda>(k, dec). text_dec dec) fs"
  shows "text_dec (dec_struct fs)"
proof (rule text_decI)
  fix d j v
  assume "doc_ok d j"
  then show "dec_struct fs (erase j) v = dec_struct fs j v"
    by (cases j) (simp_all add: text_dec_members [OF assms, where d = "Suc d"])
qed

lemma text_dec_map [text_dec]:
  assumes "text_dec dec"
  shows "text_dec (dec_map dec zero)"
proof (rule text_decI)
  fix d j v
  assume "doc_ok d j"
  then show "dec_map dec zero (erase j) v = dec_map dec zero j v"
    by (cases j) (auto simp: comp_def list_all_iff split_beta text_decD [OF assms, of "Suc d"] intro!: arg_cong [where f = those])
qed

lemma text_dec_float [text_dec]: "text_dec (dec_float fl)"
proof (rule text_decI)
  fix d j v
  show "dec_float fl (erase j) v = dec_float fl j v" by (cases j) (simp_all add: dec_float_def)
qed


lemma text_dec_SNSSAI [text_dec]: "text_dec unmarshal_SNSSAI"
  unfolding unmarshal_SNSSAI_def SNSSAI_fields_def by (intro text_dec) (simp add: text_dec)

lemma text_dec_UEContext [text_dec]: "text_dec unmarshal_UEContext"
  unfolding unmarshal_UEContext_def UEContext_fields_def unmarshal_SecurityContext_def SecurityContext_fields_def
  by (intro text_dec) (simp add: text_dec)

lemma text_dec_PDUSession [text_dec]: "text_dec unmarshal_PDUSession"
  unfolding unmarshal_PDUSession_def PDUSession_fields_def by (intro text_dec) (simp add: text_dec)

lemma text_dec_SubscriberData [text_dec]: "text_dec unmarshal_SubscriberData"
  unfolding unmarshal_SubscriberData_def SubscriberData_fields_def unmarshal_AuthData_def AuthData_fields_def
    unmarshal_AccessMobData_def AccessMobData_fields_def unmarshal_SMPolicyData_def SMPolicyData_fields_def
  by (intro text_dec) (simp add: text_dec)

lemma text_dec_ChargingSession [text_dec]: "text_dec unmarshal_ChargingSession"
  unfolding unmarshal_ChargingSession_def ChargingSession_fields_def by (intro text_dec) (simp add: text_dec)

lemma text_dec_slices [text_dec]: "text_dec unmarshal_SliceAdmissionPolicy" "text_dec unmarshal_SliceCounters"
  unfolding unmarshal_SliceAdmissionPolicy_def SliceAdmissionPolicy_fields_def unmarshal_SliceCounters_def SliceCounters_fields_def
  by ((intro text_dec)?, simp add: text_dec)+

lemma text_dec_PCFBinding [text_dec]: "text_dec unmarshal_PCFBinding"
  unfolding unmarshal_PCFBinding_def PCFBinding_fields_def by (intro text_dec) (simp add: text_dec)

lemma text_dec_NFProfile [text_dec]: "text_dec unmarshal_NFProfile"
  unfolding unmarshal_NFProfile_def NFProfile_fields_def unmarshal_PlmnID_def PlmnID_fields_def unmarshal_NFService_def NFService_fields_def
  by (intro text_dec) (simp add: text_dec)

lemma text_dec_AuthVector [text_dec]: "text_dec unmarshal_AuthVector"
  unfolding unmarshal_AuthVector_def AuthVector_fields_def by (intro text_dec) (simp add: text_dec)

lemma text_dec_policy [text_dec]: "text_dec unmarshal_PolicyDecision" "text_dec unmarshal_PolicyView"
  unfolding unmarshal_PolicyDecision_def PolicyDecision_fields_def unmarshal_PolicyView_def PolicyView_fields_def
    unmarshal_SessionRule_def SessionRule_fields_def unmarshal_AMBR_def AMBR_fields_def
  by ((intro text_dec)?, simp add: text_dec)+

lemma text_dec_load [text_dec]: "text_dec (unmarshal_NFLoadInfo fl)" "text_dec (unmarshal_SliceLoadInfo fl)"
  unfolding unmarshal_NFLoadInfo_def NFLoadInfo_fields_def unmarshal_SliceLoadInfo_def SliceLoadInfo_fields_def
  by ((intro text_dec)?, simp add: text_dec)+

section \<open>Two stores\<close>

text \<open>A document and what the other store gives back for it.\<close>

definition same_doc :: "json \<Rightarrow> json \<Rightarrow> bool" where
  "same_doc j j' \<longleftrightarrow> j' = j \<or> doc_ok 0 j \<and> j' = erase j"

lemma same_doc_dec: "same_doc j j' \<Longrightarrow> text_dec dec \<Longrightarrow> dec j' v = dec j v"
  by (auto simp: same_doc_def text_decD)

definition same_answer :: "('a \<Rightarrow> 'b \<Rightarrow> bool) \<Rightarrow> goerr + 'a \<Rightarrow> goerr + 'b \<Rightarrow> bool" where
  "same_answer R r r' \<longleftrightarrow> (case (r, r') of (Inl e, Inl e') \<Rightarrow> e' = e | (Inr a, Inr b) \<Rightarrow> R a b | _ \<Rightarrow> False)"

lemma same_answer_simps [simp]:
  "same_answer R (Inl e) r' \<longleftrightarrow> r' = Inl e"
  "same_answer R (Inr a) r' \<longleftrightarrow> (\<exists>b. r' = Inr b \<and> R a b)"
  by (auto simp: same_answer_def split: sum.splits)

text \<open>\<open>sim_op\<close>: one operation on the two stores, whose results are related by \<open>R\<close>.\<close>

definition sim_op :: "('s \<Rightarrow> bool) \<Rightarrow> ('s \<Rightarrow> 't \<Rightarrow> bool) \<Rightarrow> ('a \<Rightarrow> 'b \<Rightarrow> bool) \<Rightarrow> ('s \<Rightarrow> 'a \<times> 's) \<Rightarrow> ('t \<Rightarrow> 'b \<times> 't) \<Rightarrow> bool" where
  "sim_op good corr R f g \<longleftrightarrow>
     (\<forall>s t. (good s \<longrightarrow> corr s t) \<longrightarrow> good (snd (f s)) \<longrightarrow> good s \<and> R (fst (f s)) (fst (g t)) \<and> corr (snd (f s)) (snd (g t)))"

lemma sim_opD:
  assumes "sim_op good corr R f g" "good s \<Longrightarrow> corr s t" "f s = (a, s')" "g t = (b, t')" "good s'"
  shows "good s" "R a b" "corr s' t'"
  using assms(1) [unfolded sim_op_def, rule_format, of s t] assms(2-5) by simp_all

locale store_sim =
  fixes kv :: "'s KVStore" and kv' :: "'t KVStore" and good :: "'s \<Rightarrow> bool" and corr :: "'s \<Rightarrow> 't \<Rightarrow> bool"
  assumes put_sim: "sim_op good corr (=) (kv_Put kv k j) (kv_Put kv' k j)"
    and del_sim: "sim_op good corr (=) (kv_Delete kv k) (kv_Delete kv' k)"
    and get_sim: "sim_op good corr (same_answer same_doc) (kv_Get kv k) (kv_Get kv' k)"
begin

lemma sim_kvPut [sim]: "sim good corr (kvPut kv k j) (kvPut kv' k j)"
proof (rule simI)
  fix w w' a v a' v'
  assume c: "corresponds good corr w w'" "run_state (kvPut kv k j) w = (a, v)" "run_state (kvPut kv' k j) w' = (a', v')" "good (w_store v)"
  obtain s t where s: "kv_Put kv k j (w_store w) = (a, s)" "kv_Put kv' k j (w_store w') = (a', t)" "v = w\<lparr>w_store := s\<rparr>" "v' = w'\<lparr>w_store := t\<rparr>"
    using c(2,3) by (cases "kv_Put kv k j (w_store w)"; cases "kv_Put kv' k j (w_store w')") (auto simp: kvPut_def)
  from sim_opD [OF put_sim _ s(1,2)] c(1,4) show "good (w_store w) \<and> a' = a \<and> corresponds good corr v v'"
    by (auto simp: s corresponds_def)
qed

lemma sim_kvDelete [sim]: "sim good corr (kvDelete kv k) (kvDelete kv' k)"
proof (rule simI)
  fix w w' a v a' v'
  assume c: "corresponds good corr w w'" "run_state (kvDelete kv k) w = (a, v)" "run_state (kvDelete kv' k) w' = (a', v')" "good (w_store v)"
  obtain s t where s: "kv_Delete kv k (w_store w) = (a, s)" "kv_Delete kv' k (w_store w') = (a', t)" "v = w\<lparr>w_store := s\<rparr>" "v' = w'\<lparr>w_store := t\<rparr>"
    using c(2,3) by (cases "kv_Delete kv k (w_store w)"; cases "kv_Delete kv' k (w_store w')") (auto simp: kvDelete_def)
  from sim_opD [OF del_sim _ s(1,2)] c(1,4) show "good (w_store w) \<and> a' = a \<and> corresponds good corr v v'"
    by (auto simp: s corresponds_def)
qed

lemma sim_kvGet [sim]:
  assumes "text_dec dec"
  shows "sim good corr (kvGet kv k dec zero) (kvGet kv' k dec zero)"
proof (rule simI)
  fix w w' a v a' v'
  assume c: "corresponds good corr w w'" "run_state (kvGet kv k dec zero) w = (a, v)" "run_state (kvGet kv' k dec zero) w' = (a', v')" "good (w_store v)"
  obtain r s r' t where s: "kv_Get kv k (w_store w) = (r, s)" "kv_Get kv' k (w_store w') = (r', t)" by fastforce
  have v: "v = w\<lparr>w_store := s\<rparr>" "v' = w'\<lparr>w_store := t\<rparr>"
    using c(2,3) s by (auto simp: kvGet_def kv_get_as_def split: sum.splits)
  from c(1) have "good (w_store w) \<Longrightarrow> corr (w_store w) (w_store w')" by (simp add: corresponds_def)
  note g = sim_opD [OF get_sim this s] c(4) [unfolded v, simplified]
  have "a' = a"
    using c(2,3) g(2) [OF _ g(4)] s by (cases r) (auto simp: kvGet_def kv_get_as_def same_doc_dec [OF _ assms] split: option.splits)
  with g c(1) show "good (w_store w) \<and> a' = a \<and> corresponds good corr v v'" by (simp add: v corresponds_def)
qed

end

end
