(* ===== verification/FunctionSim.thy ===== *)
theory FunctionSim
  imports StoreSim
begin

text \<open>
  Every function over two stores: the simulation of \<open>StoreSim\<close> for each handler of the program, by the structure of the
  handler.  The discovery function of the NRF also reads by prefix; \<open>nrf_sim\<close> adds what that needs.
\<close>

section \<open>The functions over Redis\<close>

context store_sim
begin

lemmas fn_sim = sim sim_kvPut sim_kvDelete sim_kvGet text_dec

lemma subscriber_sim:
  "sim good corr (udr_data_read kv req) (udr_data_read kv' req)" "sim good corr (udr_data_write kv req) (udr_data_write kv' req)"
  "sim good corr (udm_generate_auth_data lib kv req) (udm_generate_auth_data lib kv' req)"
  "sim good corr (udm_get_subscriber_data kv req) (udm_get_subscriber_data kv' req)"
  "sim good corr (ausf_authenticate kv req) (ausf_authenticate kv' req)"
  unfolding udr_data_read_def udr_data_write_def udm_generate_auth_data_def udm_get_subscriber_data_def ausf_authenticate_def
  by (intro fn_sim; assumption?)+

lemma slices_sim:
  "sim good corr (nssf_slice_select kv req) (nssf_slice_select kv' req)"
  "sim good corr (nsacf_slice_availability_check env kv req) (nsacf_slice_availability_check env kv' req)"
  "sim good corr (nsacf_update_counters env kv req) (nsacf_update_counters env kv' req)"
  unfolding nssf_slice_select_def nsacf_slice_availability_check_def nsacf_update_counters_def
  by (intro fn_sim; assumption?)+

lemma policy_sim:
  "sim good corr (pcf_policy_create kv req) (pcf_policy_create kv' req)" "sim good corr (pcf_policy_get kv req) (pcf_policy_get kv' req)"
  "sim good corr (bsf_binding_register env kv req) (bsf_binding_register env kv' req)"
  "sim good corr (bsf_binding_discover env kv req) (bsf_binding_discover env kv' req)"
  "sim good corr (bsf_binding_deregister env kv req) (bsf_binding_deregister env kv' req)"
  unfolding pcf_policy_create_def pcf_policy_get_def bsf_binding_register_def bsf_binding_discover_def bsf_load_def
    bsf_binding_deregister_def
  by (intro fn_sim | simp only: world_at_simps | simp add: rest_def)+

lemma charging_sim:
  "sim good corr (chf_charging_create env kv req) (chf_charging_create env kv' req)"
  "sim good corr (chf_charging_update env kv req) (chf_charging_update env kv' req)"
  "sim good corr (chf_charging_release env kv req) (chf_charging_release env kv' req)"
  unfolding chf_charging_create_def chf_charging_update_def chf_charging_release_def
  by (intro fn_sim | simp only: world_at_simps | simp add: rest_def)+

lemma nwdaf_sim:
  "sim good corr (nwdaf_analytics_subscribe fl kv req) (nwdaf_analytics_subscribe fl kv' req)"
  "sim good corr (nwdaf_data_collect fl kv req) (nwdaf_data_collect fl kv' req)"
  unfolding nwdaf_analytics_subscribe_def nwdaf_data_collect_def handleNFLoad_def handleSliceLoad_def fetch_analytics_def
    fetchNFLoad_def fetchSliceLoad_def
  by (intro fn_sim | simp only: world_at_simps | simp add: rest_def)+

lemma amf_sim:
  assumes "\<And>f p. sim good corr (sbi f p) (sbi' f p)"
  shows "sim good corr (amf_registration env kv sbi req) (amf_registration env kv' sbi' req)"
    "sim good corr (amf_deregistration env kv sbi req) (amf_deregistration env kv' sbi' req)"
    "sim good corr (amf_auth_initiate kv sbi req) (amf_auth_initiate kv' sbi' req)"
    "sim good corr (amf_pdu_session_relay kv sbi req) (amf_pdu_session_relay kv' sbi' req)"
    "sim good corr (amf_service_request kv req) (amf_service_request kv' req)" "sim good corr (amf_handover kv req) (amf_handover kv' req)"
  unfolding amf_registration_def amf_deregistration_def amf_auth_initiate_def amf_pdu_session_relay_def amf_service_request_def
    amf_handover_def reg_authenticate_def reg_subscribe_def reg_admission_def reg_accept_def reg_check_def reg_count_def get_ue_def put_ue_def
  by (intro fn_sim assms | simp only: world_at_simps | simp add: rest_def)+

lemma rest_advance_pool: "rest w' = rest w \<Longrightarrow> rest (advance_pool w') = rest (advance_pool w)"
  by (auto simp: rest_def advance_pool_def)

lemma pool_keeps_store: "w_store (advance_pool w) = w_store w"
  by (simp add: advance_pool_def)

lemma allocateIP_sim: "sim good corr (allocateIP_loop p kv n) (allocateIP_loop p kv' n)"
proof (induction n)
  case (Suc n)
  then show ?case unfolding allocateIP_loop.simps
    by (intro fn_sim pool_keeps_store rest_advance_pool | simp only: world_at_simps)+
qed (simp add: sim)

lemma smf_sim:
  assumes "\<And>f p. sim good corr (sbi f p) (sbi' f p)"
  shows "sim good corr (smf_pdu_session_create env kv (Some sbi) None req) (smf_pdu_session_create env kv' (Some sbi') None req)"
    "sim good corr (smf_pdu_session_release env kv (Some sbi) None req) (smf_pdu_session_release env kv' (Some sbi') None req)"
    "sim good corr (smf_pdu_session_update kv None req) (smf_pdu_session_update kv' None req)"
    "sim good corr (smf_n4_session_setup None req) (smf_n4_session_setup None req)"
  unfolding smf_pdu_session_create_def sm_policy_def sm_refused_def allocateIP_def sm_setup_def sm_establish_def
    sm_register_session_def sm_bind_pcf_def sm_start_charging_def sm_count_def releaseIP_def smf_pdu_session_release_def sm_delete_def
    sm_call_if_def smf_pdu_session_update_def sm_modify_def smf_n4_session_setup_def option.case
  by (intro fn_sim assms allocateIP_sim | simp only: world_at_simps)+

end

section \<open>The registry\<close>

locale nrf_sim = store_sim "nrf_kv ns" "nrf_kv ns'" good corr
  for ns :: "'s NRFStore" and ns' :: "'t NRFStore" and good corr +
  assumes prefix_sim: "sim_op good corr (same_answer (list_all2 same_doc)) (nrf_GetByPrefix ns p) (nrf_GetByPrefix ns' p)"
begin

lemma match_loop_same: "list_all2 same_doc js js' \<Longrightarrow> match_loop t js' acc = match_loop t js acc"
  by (induction js js' arbitrary: acc rule: list_all2_induct) (auto simp: same_doc_dec text_dec split: option.splits)

lemma sim_prefix_bind:
  assumes "\<And>r r'. same_answer (list_all2 same_doc) r r' \<Longrightarrow> sim good corr (f r) (f' r')"
  shows "sim good corr (State_Monad.bind (kvGetByPrefix ns p) f) (State_Monad.bind (kvGetByPrefix ns' p) f')"
proof (rule simI)
  fix w w' a v a' v'
  assume c: "corresponds good corr w w'" and r: "run_state (State_Monad.bind (kvGetByPrefix ns p) f) w = (a, v)"
    "run_state (State_Monad.bind (kvGetByPrefix ns' p) f') w' = (a', v')" and g: "good (w_store v)"
  obtain q s q' t where q: "nrf_GetByPrefix ns p (w_store w) = (q, s)" "nrf_GetByPrefix ns' p (w_store w') = (q', t)" by fastforce
  let ?u = "w\<lparr>w_store := s\<rparr>" and ?u' = "w'\<lparr>w_store := t\<rparr>"
  have f: "run_state (f q) ?u = (a, v)" "run_state (f' q') ?u' = (a', v')"
    using r q by (simp_all add: State_Monad.bind_def kvGetByPrefix_def)
  have corr: "good (w_store w) \<Longrightarrow> corr (w_store w) (w_store w')" using c by (simp add: corresponds_def)
  have s: "good s"
  proof (rule ccontr)
    assume bad: "\<not> good s"
    let ?q = "case q of Inl e \<Rightarrow> Inl e | Inr js \<Rightarrow> Inr js"
    have "same_answer (list_all2 same_doc) q ?q" by (cases q) (auto simp: same_doc_def intro: list_all2_refl)
    from assms [OF this] have "sim good corr (f q) (f' ?q)" .
    moreover obtain b u where "run_state (f' ?q) ?u' = (b, u)" by fastforce
    ultimately show False using simD(1) [of good corr "f q" "f' ?q" ?u ?u' a v b u] f(1) g bad by (simp add: corresponds_def)
  qed
  note o = sim_opD [OF prefix_sim corr q s]
  have "corresponds good corr ?u ?u'" using c o by (simp add: corresponds_def)
  from simD [OF assms [OF o(2)] this f g] o(1) show "good (w_store w) \<and> a' = a \<and> corresponds good corr v v'" by simp
qed

lemma nrf_sim:
  "sim good corr (nrf_register (nrf_kv ns) req) (nrf_register (nrf_kv ns') req)"
  "sim good corr (nrf_status_notify (nrf_kv ns) req) (nrf_status_notify (nrf_kv ns') req)"
  "sim good corr (nrf_discover ns req) (nrf_discover ns' req)"
proof -
  show "sim good corr (nrf_register (nrf_kv ns) req) (nrf_register (nrf_kv ns') req)"
    "sim good corr (nrf_status_notify (nrf_kv ns) req) (nrf_status_notify (nrf_kv ns') req)"
    unfolding nrf_register_def nrf_status_notify_def by (intro fn_sim)+
  have answer: "sim good corr (orReturn r (\<lambda>e. State_Monad.return (f e)) (\<lambda>js. State_Monad.return (g (match_loop t js []))))
      (orReturn r' (\<lambda>e. State_Monad.return (f e)) (\<lambda>js. State_Monad.return (g (match_loop t js []))))"
    if "same_answer (list_all2 same_doc) r r'" for r r' and f :: "goerr \<Rightarrow> response" and g t
    using that by (cases r) (auto simp: match_loop_same intro: sim)
  show "sim good corr (nrf_discover ns req) (nrf_discover ns' req)"
    unfolding nrf_discover_def by (intro sim_Let sim_if sim_return sim_prefix_bind answer)
qed

end

end
