(* ===== verification/TextStore.thy ===== *)
theory TextStore
  imports FunctionSim
begin

text \<open>
  The stores on the level of the bytes they hold: Redis and etcd keep the JSON text that \<open>json.Marshal\<close> makes of a value,
  and every read parses it again.  The theory runs the whole gateway over such stores and over the document stores of
  the other theories, and shows that the answers are the same and that the texts stay the texts of the documents.
\<close>

section \<open>The gateway over two pairs of stores\<close>

definition both_good :: "('r \<Rightarrow> bool) \<Rightarrow> ('e \<Rightarrow> bool) \<Rightarrow> 'r \<times> 'e \<Rightarrow> bool" where
  "both_good gr ge s \<longleftrightarrow> gr (fst s) \<and> ge (snd s)"

definition both_corr :: "('r \<Rightarrow> 'x \<Rightarrow> bool) \<Rightarrow> ('e \<Rightarrow> 'y \<Rightarrow> bool) \<Rightarrow> 'r \<times> 'e \<Rightarrow> 'x \<times> 'y \<Rightarrow> bool" where
  "both_corr cr ce s t \<longleftrightarrow> cr (fst s) (fst t) \<and> ce (snd s) (snd t)"

lemma sim_op_fst:
  assumes "sim_op gr cr R f g"
  shows "sim_op (both_good gr ge) (both_corr cr ce) R (on_fst f) (on_fst g)"
  unfolding sim_op_def
proof (intro allI impI)
  fix s t
  assume "both_good gr ge s \<longrightarrow> both_corr cr ce s t" "both_good gr ge (snd (on_fst f s))"
  then show "both_good gr ge s \<and> R (fst (on_fst f s)) (fst (on_fst g t)) \<and> both_corr cr ce (snd (on_fst f s)) (snd (on_fst g t))"
    using assms [unfolded sim_op_def, rule_format, of "fst s" "fst t"]
    by (simp add: both_good_def both_corr_def on_fst_def apsnd_def map_prod_def split_beta)
qed

lemma sim_op_snd:
  assumes "sim_op ge ce R f g"
  shows "sim_op (both_good gr ge) (both_corr cr ce) R (on_snd f) (on_snd g)"
  unfolding sim_op_def
proof (intro allI impI)
  fix s t
  assume "both_good gr ge s \<longrightarrow> both_corr cr ce s t" "both_good gr ge (snd (on_snd f s))"
  then show "both_good gr ge s \<and> R (fst (on_snd f s)) (fst (on_snd g t)) \<and> both_corr cr ce (snd (on_snd f s)) (snd (on_snd g t))"
    using assms [unfolded sim_op_def, rule_format, of "snd s" "snd t"]
    by (simp add: both_good_def both_corr_def on_snd_def apsnd_def map_prod_def split_beta)
qed

context store_sim
begin

lemma redis_side_sim: "store_sim (redis_side kv) (redis_side kv') (both_good good ge) (both_corr corr ce)"
  by unfold_locales (simp_all add: redis_side_def sim_op_fst put_sim del_sim get_sim)

end

context nrf_sim
begin

lemma etcd_side_sim: "nrf_sim (etcd_side ns) (etcd_side ns') (both_good gr good) (both_corr cr corr)"
  by unfold_locales (simp_all add: etcd_side_def sim_op_snd put_sim del_sim get_sim prefix_sim)

end

locale gateway_sim =
  redis: store_sim "gw_redis g" "gw_redis g'" gr cr + etcd: nrf_sim "gw_etcd g" "gw_etcd g'" ge ce
  for g :: "('r, 'e, 'f) gateway" and g' :: "('x, 'y, 'f) gateway" and gr cr ge ce +
  assumes same_setup: "gw_env g' = gw_env g" "gw_aka g' = gw_aka g" "gw_float g' = gw_float g"
begin

abbreviation "gd \<equiv> both_good gr ge"
abbreviation "cd \<equiv> both_corr cr ce"

lemma serve_sim:
  assumes "\<And>f p. sim gd cd (sbi f p) (sbi' f p)"
  shows "sim gd cd (serve g sbi f req) (serve g' sbi' f req)"
proof -
  note s = store_sim.subscriber_sim store_sim.slices_sim store_sim.policy_sim store_sim.charging_sim store_sim.nwdaf_sim
  note r = redis.redis_side_sim [of ge ce] and e = etcd.etcd_side_sim [of gr cr]
  have "list_all2 (\<lambda>(f, h) (f', h'). f' = f \<and> sim gd cd (h req) (h' req)) (routes g sbi) (routes g' sbi')"
    by (simp add: routes_def Let_def same_setup s [OF r] store_sim.amf_sim [OF r assms] store_sim.smf_sim [OF r assms] nrf_sim.nrf_sim [OF e])
  then have "rel_option (\<lambda>h h'. sim gd cd (h req) (h' req)) (map_of (routes g sbi) f) (map_of (routes g' sbi') f)"
    by (induction rule: list_all2_induct) auto
  then show ?thesis unfolding serve_def
    by (cases rule: option.rel_cases) (auto intro!: sim)
qed

lemma post_sim: "sim gd cd (post g n f p) (post g' n f p)"
proof (induction n arbitrary: f p)
  case (Suc n)
  then show ?case unfolding post.simps by (intro serve_sim sim_Client_post)
qed (simp add: sim)

lemma gateway_handle_sim: "sim gd cd (gateway_handle g f req) (gateway_handle g' f req)"
  unfolding gateway_handle_def by (intro serve_sim sim_Client_post post_sim)

end

text \<open>The answers to a sequence of requests from outside.\<close>

fun answers :: "('r, 'e, 'f) gateway \<Rightarrow> (string \<times> request) list \<Rightarrow> ('r \<times> 'e, (string + response) list) handler" where
  "answers g [] = State_Monad.return []"
| "answers g ((f, req) # rs) = do {
     a \<leftarrow> gateway_handle g f req;
     rest \<leftarrow> answers g rs;
     State_Monad.return (a # rest)
   }"

context gateway_sim
begin

lemma answers_sim: "sim gd cd (answers g rs) (answers g' rs)"
proof (induction rs)
  case (Cons x rs)
  then show ?case by (cases x) (auto intro!: sim gateway_handle_sim)
qed (simp add: sim)

end

section \<open>Stores of texts\<close>

text \<open>\<open>json.Marshal\<close> fails on a time whose year is not in 0..9999.\<close>

fun times_ok :: "json \<Rightarrow> bool" where
  "times_ok (JTime t) = time_ok t"
| "times_ok (JArr js) = list_all times_ok js"
| "times_ok (JObj ms) = list_all (\<lambda>(k, j). times_ok j) ms"
| "times_ok j = True"

definition Marshal :: "json \<Rightarrow> string option" where
  "Marshal j = (if times_ok j then Some (json_text j) else None)"

definition marshal_err :: goerr where
  "marshal_err = StoreErr ''marshal: json: error calling MarshalJSON for type time.Time: Time.MarshalJSON: year outside of range [0,9999]''"

record 's redis_texts =
  rt_Set :: "string \<Rightarrow> string \<Rightarrow> int \<Rightarrow> 's \<Rightarrow> string option \<times> 's"
  rt_Get :: "string \<Rightarrow> 's \<Rightarrow> (redis_err + string) \<times> 's"
  rt_Del :: "string \<Rightarrow> 's \<Rightarrow> string option \<times> 's"

definition RedisText_Set :: "'s redis_texts \<Rightarrow> string \<Rightarrow> json \<Rightarrow> int \<Rightarrow> 's \<Rightarrow> goerr option \<times> 's" where
  "RedisText_Set c key value ttl s =
     (case Marshal value of
        None \<Rightarrow> (Some marshal_err, s)
      | Some data \<Rightarrow> apfst (map_option StoreErr) (rt_Set c key data ttl s))"

definition RedisText_Put :: "'s redis_texts \<Rightarrow> string \<Rightarrow> json \<Rightarrow> 's \<Rightarrow> goerr option \<times> 's" where
  "RedisText_Put c key value s = RedisText_Set c key value 0 s"

definition parsed :: "string \<Rightarrow> goerr + json" where
  "parsed data = (case parse_json data of None \<Rightarrow> Inl JsonErr | Some j \<Rightarrow> Inr j)"

definition RedisText_Get :: "'s redis_texts \<Rightarrow> string \<Rightarrow> 's \<Rightarrow> (goerr + json) \<times> 's" where
  "RedisText_Get c key s =
     (case rt_Get c key s of
        (Inl RedisNil, s') \<Rightarrow> (Inl (KeyNotFound key), s')
      | (Inl (RedisErr t), s') \<Rightarrow> (Inl (StoreErr (''get '' @ key @ '': '' @ t)), s')
      | (Inr data, s') \<Rightarrow> (parsed data, s'))"

definition RedisText_Delete :: "'s redis_texts \<Rightarrow> string \<Rightarrow> 's \<Rightarrow> goerr option \<times> 's" where
  "RedisText_Delete c key s = apfst (map_option StoreErr) (rt_Del c key s)"

definition RedisText :: "'s redis_texts \<Rightarrow> 's KVStore" where
  "RedisText c = \<lparr>kv_Put = RedisText_Put c, kv_Get = RedisText_Get c, kv_Delete = RedisText_Delete c\<rparr>"

record 's etcd_texts =
  ett_Put :: "string \<Rightarrow> string \<Rightarrow> 's \<Rightarrow> string option \<times> 's"
  ett_Get :: "string \<Rightarrow> bool \<Rightarrow> 's \<Rightarrow> (string + (string \<times> string) list) \<times> 's"
  ett_Delete :: "string \<Rightarrow> 's \<Rightarrow> string option \<times> 's"

definition EtcdText_Put :: "'s etcd_texts \<Rightarrow> string \<Rightarrow> json \<Rightarrow> 's \<Rightarrow> goerr option \<times> 's" where
  "EtcdText_Put c key value s =
     (case Marshal value of
        None \<Rightarrow> (Some marshal_err, s)
      | Some data \<Rightarrow> apfst (map_option StoreErr) (ett_Put c key data s))"

definition EtcdText_Get :: "'s etcd_texts \<Rightarrow> string \<Rightarrow> 's \<Rightarrow> (goerr + json) \<times> 's" where
  "EtcdText_Get c key s =
     (case ett_Get c key False s of
        (Inl t, s') \<Rightarrow> (Inl (StoreErr t), s')
      | (Inr kvs, s') \<Rightarrow> ((case kvs of [] \<Rightarrow> Inl (KeyNotFound key) | e # _ \<Rightarrow> parsed (snd e)), s'))"

text \<open>A prefix query returns the texts; its only caller skips a text that is no JSON, so it is left out here.\<close>

definition EtcdText_GetByPrefix :: "'s etcd_texts \<Rightarrow> string \<Rightarrow> 's \<Rightarrow> (goerr + json list) \<times> 's" where
  "EtcdText_GetByPrefix c p s =
     (case ett_Get c p True s of
        (Inl t, s') \<Rightarrow> (Inl (StoreErr t), s')
      | (Inr kvs, s') \<Rightarrow> (Inr (List.map_filter (\<lambda>e. parse_json (snd e)) kvs), s'))"

definition EtcdText_Delete :: "'s etcd_texts \<Rightarrow> string \<Rightarrow> 's \<Rightarrow> goerr option \<times> 's" where
  "EtcdText_Delete c key s = apfst (map_option StoreErr) (ett_Delete c key s)"

definition EtcdText :: "'s etcd_texts \<Rightarrow> 's NRFStore" where
  "EtcdText c = \<lparr>nrf_kv = \<lparr>kv_Put = EtcdText_Put c, kv_Get = EtcdText_Get c, kv_Delete = EtcdText_Delete c\<rparr>,
     nrf_GetByPrefix = EtcdText_GetByPrefix c\<rparr>"

text \<open>Two in-memory servers of texts.\<close>

definition mem_redis_texts :: "(string \<rightharpoonup> string) redis_texts" where
  "mem_redis_texts = \<lparr>rt_Set = \<lambda>k x ttl m. (None, m(k \<mapsto> x)),
     rt_Get = \<lambda>k m. ((case m k of None \<Rightarrow> Inl RedisNil | Some x \<Rightarrow> Inr x), m),
     rt_Del = \<lambda>k m. (None, m(k := None))\<rparr>"

definition mem_etcd_texts :: "(string \<times> string) list etcd_texts" where
  "mem_etcd_texts = \<lparr>ett_Put = \<lambda>k x m. (None, AList.update k x m),
     ett_Get = \<lambda>k pre m. (Inr (if pre then filter (\<lambda>e. starts_with k (fst e)) (AList.clearjunk m)
        else case map_of m k of None \<Rightarrow> [] | Some x \<Rightarrow> [(k, x)]), m),
     ett_Delete = \<lambda>k m. (None, AList.delete k m)\<rparr>"

section \<open>Documents that can be written\<close>

text \<open>
  A store with a flag that tells whether every document written so far is one that \<open>json.Marshal\<close> writes without loss: its
  strings are UTF-8, its times have years of four digits, its arrays and objects are not nested more than 10000 deep.
\<close>

definition flagged :: "('s \<Rightarrow> 'a \<times> 's) \<Rightarrow> bool \<Rightarrow> 's \<times> bool \<Rightarrow> 'a \<times> 's \<times> bool" where
  "flagged f ok s = apsnd (\<lambda>s'. (s', snd s \<and> ok)) (f (fst s))"

definition checked :: "'s KVStore \<Rightarrow> ('s \<times> bool) KVStore" where
  "checked kv = \<lparr>kv_Put = \<lambda>k j. flagged (kv_Put kv k j) (doc_ok 0 j), kv_Get = \<lambda>k. flagged (kv_Get kv k) True,
     kv_Delete = \<lambda>k. flagged (kv_Delete kv k) True\<rparr>"

definition checked_nrf :: "'s NRFStore \<Rightarrow> ('s \<times> bool) NRFStore" where
  "checked_nrf ns = \<lparr>nrf_kv = checked (nrf_kv ns), nrf_GetByPrefix = \<lambda>p. flagged (nrf_GetByPrefix ns p) True\<rparr>"

lemma doc_ok_times: "doc_ok d j \<Longrightarrow> times_ok j"
proof (induction j arbitrary: d)
  case (JArr js)
  then show ?case by (auto simp: list_all_iff)
next
  case (JObj ms)
  then show ?case by (fastforce simp: list_all_iff)
qed simp_all

lemma Marshal_ok: "doc_ok 0 j \<Longrightarrow> Marshal j = Some (json_text j)"
  by (simp add: Marshal_def doc_ok_times [of 0])

lemma parsed_ok: "doc_ok 0 j \<Longrightarrow> parsed (json_text j) = Inr (erase j)"
  by (simp add: parsed_def parse_json_text)


text \<open>The flag does not change what a store does.\<close>

lemma unflag: "(\<And>a. R a a) \<Longrightarrow> sim_op (\<lambda>_. True) (\<lambda>s t. t = fst s) R (flagged f ok) f"
  by (simp add: sim_op_def flagged_def apsnd_def map_prod_def split_beta)

lemma same_answer_refl: "(\<And>a. R a a) \<Longrightarrow> same_answer R r r"
  by (cases r) auto

lemma same_doc_refl [simp]: "same_doc j j" "list_all2 same_doc js js"
  by (auto simp: same_doc_def intro: list_all2_refl)

lemma checked_sim: "store_sim (checked kv) kv (\<lambda>_. True) (\<lambda>s t. t = fst s)"
  by unfold_locales (simp_all add: checked_def unflag same_answer_refl)

lemma checked_nrf_sim: "nrf_sim (checked_nrf ns) ns (\<lambda>_. True) (\<lambda>s t. t = fst s)"
  by (intro nrf_sim.intro nrf_sim_axioms.intro) (simp_all add: checked_nrf_def checked_sim unflag same_answer_refl)

section \<open>The texts of documents\<close>

text \<open>What a Redis and an etcd server hold when every document is stored as its text.\<close>

definition redis_image :: "(string \<rightharpoonup> json) \<Rightarrow> string \<rightharpoonup> string" where
  "redis_image m = map_option json_text \<circ> m"

definition etcd_image :: "(string \<times> json) list \<Rightarrow> (string \<times> string) list" where
  "etcd_image = map_ran (\<lambda>_. json_text)"

text \<open>All documents in the store can be written.\<close>

definition writable :: "(string \<rightharpoonup> json) \<Rightarrow> bool" where
  "writable m \<longleftrightarrow> (\<forall>k j. m k = Some j \<longrightarrow> doc_ok 0 j)"

definition redis_corr :: "(string \<rightharpoonup> json) \<times> bool \<Rightarrow> (string \<rightharpoonup> string) \<Rightarrow> bool" where
  "redis_corr s t \<longleftrightarrow> t = redis_image (fst s) \<and> writable (fst s)"

definition etcd_corr :: "(string \<times> json) list \<times> bool \<Rightarrow> (string \<times> string) list \<Rightarrow> bool" where
  "etcd_corr s t \<longleftrightarrow> t = etcd_image (fst s) \<and> (\<forall>e \<in> set (fst s). doc_ok 0 (snd e))"

lemma redis_image_update: "redis_image (m(k \<mapsto> j)) = (redis_image m)(k \<mapsto> json_text j)" "redis_image (m(k := None)) = (redis_image m)(k := None)"
  by (simp_all add: redis_image_def fun_eq_iff)

interpretation redis_text: store_sim "checked MockKVStore" "RedisText mem_redis_texts" snd redis_corr
proof
  note defs = sim_op_def checked_def flagged_def redis_corr_def RedisText_def RedisText_Put_def RedisText_Set_def RedisText_Delete_def
    RedisText_Get_def mem_redis_texts_def
  show "sim_op snd redis_corr (=) (kv_Put (checked MockKVStore) k j) (kv_Put (RedisText mem_redis_texts) k j)" for k j
    by (auto simp: defs Marshal_ok redis_image_update writable_def)
  show "sim_op snd redis_corr (=) (kv_Delete (checked MockKVStore) k) (kv_Delete (RedisText mem_redis_texts) k)" for k
    by (auto simp: defs redis_image_update writable_def)
  show "sim_op snd redis_corr (same_answer same_doc) (kv_Get (checked MockKVStore) k) (kv_Get (RedisText mem_redis_texts) k)" for k
    by (auto simp: defs redis_image_def writable_def parsed_ok same_doc_def split: option.splits)
qed

lemma etcd_image_ops:
  "map_of (etcd_image m) k = map_option json_text (map_of m k)"
  "AList.update k (json_text j) (etcd_image m) = etcd_image (AList.update k j m)"
  "AList.delete k (etcd_image m) = etcd_image (AList.delete k m)"
  "AList.clearjunk (etcd_image m) = etcd_image (AList.clearjunk m)"
  "filter (\<lambda>e. P (fst e)) (etcd_image m) = etcd_image (filter (\<lambda>e. P (fst e)) m)"
proof -
  show "map_of (etcd_image m) k = map_option json_text (map_of m k)" by (simp add: etcd_image_def map_ran_conv)
  show "AList.update k (json_text j) (etcd_image m) = etcd_image (AList.update k j m)"
    by (induction m) (auto simp: etcd_image_def)
  show "AList.delete k (etcd_image m) = etcd_image (AList.delete k m)" by (induction m) (auto simp: etcd_image_def)
  show "AList.clearjunk (etcd_image m) = etcd_image (AList.clearjunk m)" by (simp add: etcd_image_def clearjunk_map_ran)
  show "filter (\<lambda>e. P (fst e)) (etcd_image m) = etcd_image (filter (\<lambda>e. P (fst e)) m)"
    by (induction m) (auto simp: etcd_image_def)
qed

lemma parse_etcd_image:
  "\<forall>e \<in> set m. doc_ok 0 (snd e) \<Longrightarrow> list_all2 same_doc (map snd m) (List.map_filter (\<lambda>e. parse_json (snd e)) (etcd_image m))"
  by (induction m) (auto simp: etcd_image_def parse_json_text same_doc_def)

lemma clearjunk_subset: "set (AList.clearjunk m) \<subseteq> set m"
  by (induction m rule: clearjunk.induct) (auto simp: AList.delete_eq)

lemma delete_subset: "set (AList.delete k m) \<subseteq> set m"
  by (auto simp: AList.delete_eq)

lemma update_subset: "set (AList.update k j m) \<subseteq> insert (k, j) (set m)"
  by (induction m) auto

interpretation etcd_text: nrf_sim "checked_nrf (EtcdNRFStore mem_etcd)" "EtcdText mem_etcd_texts" snd etcd_corr
proof
  note defs = sim_op_def checked_nrf_def checked_def flagged_def etcd_corr_def EtcdText_def EtcdText_Put_def EtcdText_Delete_def
    EtcdText_Get_def EtcdText_GetByPrefix_def mem_etcd_texts_def EtcdNRFStore_def EtcdStore_def EtcdStore_Put_def EtcdStore_Get_def
    EtcdStore_Delete_def EtcdStore_GetByPrefix_def mem_etcd_def
  show "sim_op snd etcd_corr (=) (kv_Put (nrf_kv (checked_nrf (EtcdNRFStore mem_etcd))) k j) (kv_Put (nrf_kv (EtcdText mem_etcd_texts)) k j)" for k j
    by (auto simp: defs Marshal_ok etcd_image_ops dest!: subsetD [OF update_subset])
  show "sim_op snd etcd_corr (=) (kv_Delete (nrf_kv (checked_nrf (EtcdNRFStore mem_etcd))) k) (kv_Delete (nrf_kv (EtcdText mem_etcd_texts)) k)" for k
    by (auto simp: defs etcd_image_ops dest!: subsetD [OF delete_subset])
  show "sim_op snd etcd_corr (same_answer same_doc) (kv_Get (nrf_kv (checked_nrf (EtcdNRFStore mem_etcd))) k) (kv_Get (nrf_kv (EtcdText mem_etcd_texts)) k)" for k
    by (auto simp: defs etcd_image_ops parsed_ok same_doc_def split: option.splits dest!: map_of_SomeD)
  show "sim_op snd etcd_corr (same_answer (list_all2 same_doc)) (nrf_GetByPrefix (checked_nrf (EtcdNRFStore mem_etcd)) p) (nrf_GetByPrefix (EtcdText mem_etcd_texts) p)" for p
    using clearjunk_subset by (fastforce simp: defs etcd_image_ops intro!: parse_etcd_image)
qed

section \<open>The gateway over texts\<close>

text \<open>A gateway with other stores.\<close>

definition gateway_over :: "('r, 'e, 'f) gateway \<Rightarrow> 'x KVStore \<Rightarrow> 'y NRFStore \<Rightarrow> ('x, 'y, 'f) gateway" where
  "gateway_over g kv ns = \<lparr>gw_env = gw_env g, gw_aka = gw_aka g, gw_float = gw_float g, gw_redis = kv, gw_etcd = ns\<rparr>"

abbreviation doc_gateway :: "('r, 'e, 'f) gateway \<Rightarrow> (string \<rightharpoonup> json, (string \<times> json) list, 'f) gateway" where
  "doc_gateway g \<equiv> gateway_over g MockKVStore (EtcdNRFStore mem_etcd)"

abbreviation checked_gateway :: "('r, 'e, 'f) gateway \<Rightarrow> ((string \<rightharpoonup> json) \<times> bool, (string \<times> json) list \<times> bool, 'f) gateway" where
  "checked_gateway g \<equiv> gateway_over g (checked MockKVStore) (checked_nrf (EtcdNRFStore mem_etcd))"

abbreviation text_gateway :: "('r, 'e, 'f) gateway \<Rightarrow> (string \<rightharpoonup> string, (string \<times> string) list, 'f) gateway" where
  "text_gateway g \<equiv> gateway_over g (RedisText mem_redis_texts) (EtcdText mem_etcd_texts)"

text \<open>The same world with the servers of documents, or with those of texts.\<close>

definition doc_world :: "(((string \<rightharpoonup> json) \<times> bool) \<times> (string \<times> json) list \<times> bool) world \<Rightarrow> ((string \<rightharpoonup> json) \<times> (string \<times> json) list) world" where
  "doc_world w = world_at (rest w) (fst (fst (w_store w)), fst (snd (w_store w)))"

definition text_world :: "(((string \<rightharpoonup> json) \<times> bool) \<times> (string \<times> json) list \<times> bool) world \<Rightarrow> ((string \<rightharpoonup> string) \<times> (string \<times> string) list) world" where
  "text_world w = world_at (rest w) (redis_image (fst (fst (w_store w))), etcd_image (fst (snd (w_store w))))"

definition all_writable :: "(((string \<rightharpoonup> json) \<times> bool) \<times> (string \<times> json) list \<times> bool) world \<Rightarrow> bool" where
  "all_writable w \<longleftrightarrow> writable (fst (fst (w_store w))) \<and> (\<forall>e \<in> set (fst (snd (w_store w))). doc_ok 0 (snd e))"

definition no_loss :: "(((string \<rightharpoonup> json) \<times> bool) \<times> (string \<times> json) list \<times> bool) world \<Rightarrow> bool" where
  "no_loss w \<longleftrightarrow> snd (fst (w_store w)) \<and> snd (snd (w_store w))"

lemma doc_gateway_sim:
  "gateway_sim (checked_gateway g) (doc_gateway g) (\<lambda>_. True) (\<lambda>s t. t = fst s) (\<lambda>_. True) (\<lambda>s t. t = fst s)"
  by (intro gateway_sim.intro gateway_sim_axioms.intro) (simp_all add: gateway_over_def checked_sim checked_nrf_sim)

lemma text_gateway_sim: "gateway_sim (checked_gateway g) (text_gateway g) snd redis_corr snd etcd_corr"
  by (intro gateway_sim.intro gateway_sim_axioms.intro)
    (simp_all add: gateway_over_def redis_text.store_sim_axioms etcd_text.nrf_sim_axioms)

lemma rest_at_eq: "rest v = u \<Longrightarrow> w_store v = s \<Longrightarrow> v = world_at u s"
  using world_at_rest [of v] by simp

text \<open>C19: a value survives the Redis store: a document that is put as the text that \<open>json.Marshal\<close> writes, with all its escaping, is
  there in the form of that text, and a read decodes it to what the document itself decodes to, whatever its strings hold as long as
  they are UTF-8, its times have years of four digits and it is not nested more than 10000 deep.\<close>

theorem redis_text_roundtrip:
  assumes "doc_ok 0 j" "text_dec dec" "kv_Put (RedisText mem_redis_texts) k j s = (r, s')"
  shows "r = None \<and> s' = s(k \<mapsto> json_text j) \<and>
    kv_get_as (RedisText mem_redis_texts) dec zero k s' = (case dec j zero of None \<Rightarrow> Inl JsonErr | Some v \<Rightarrow> Inr v, s')"
proof -
  have s': "r = None" "s' = s(k \<mapsto> json_text j)"
    using assms(3) by (auto simp: RedisText_def RedisText_Put_def RedisText_Set_def mem_redis_texts_def Marshal_ok [OF assms(1)])
  have "kv_Get (RedisText mem_redis_texts) k s' = (Inr (erase j), s')"
    by (simp add: s' RedisText_def RedisText_Get_def mem_redis_texts_def parsed_ok [OF assms(1)])
  with s' show ?thesis by (simp add: kv_get_as_def text_decD [OF assms(2,1)] split: option.splits)
qed

text \<open>C5: the models of Redis and etcd by documents are faithful: the gateway with all its functions, over servers that hold the JSON
  texts which the stores write and parse, answers every sequence of requests as the gateway over stores of documents does, and the
  servers then hold the texts of the documents, as long as nothing is written that JSON cannot express (a string that is no UTF-8,
  a time beyond the year 9999, more than 10000 nested arrays or objects).\<close>

theorem text_gateway_refines:
  assumes "all_writable w" "run_state (answers (checked_gateway g) rs) w = (ans, v)" "no_loss v"
  shows "run_state (answers (doc_gateway g) rs) (doc_world w) = (ans, doc_world v) \<and>
    run_state (answers (text_gateway g) rs) (text_world w) = (ans, text_world v) \<and> all_writable v"
proof -
  obtain b u where b: "run_state (answers (doc_gateway g) rs) (doc_world w) = (b, u)" by fastforce
  obtain c t where c: "run_state (answers (text_gateway g) rs) (text_world w) = (c, t)" by fastforce
  have "corresponds (both_good (\<lambda>_. True) (\<lambda>_. True)) (both_corr (\<lambda>s t. t = fst s) (\<lambda>s t. t = fst s)) w (doc_world w)"
    by (simp add: corresponds_def both_corr_def doc_world_def)
  from simD [OF gateway_sim.answers_sim [OF doc_gateway_sim] this assms(2) b]
  have doc: "b = ans" "u = doc_world v"
    by (auto simp: corresponds_def both_good_def both_corr_def doc_world_def prod_eq_iff intro!: rest_at_eq)
  have "corresponds (both_good snd snd) (both_corr redis_corr etcd_corr) w (text_world w)"
    using assms(1) by (simp add: corresponds_def both_corr_def redis_corr_def etcd_corr_def text_world_def all_writable_def)
  from simD [OF gateway_sim.answers_sim [OF text_gateway_sim] this assms(2) c] assms(3)
  have texts: "c = ans" "t = text_world v" "all_writable v"
    by (auto simp: corresponds_def both_good_def both_corr_def redis_corr_def etcd_corr_def text_world_def all_writable_def no_loss_def
        prod_eq_iff intro!: rest_at_eq)
  show ?thesis using b c doc texts by simp
qed

definition checked_init :: "(((string \<rightharpoonup> json) \<times> bool) \<times> (string \<times> json) list \<times> bool) world" where
  "checked_init = world_init ((Map.empty, True), ([], True))"

definition two_counts :: "(string \<times> request) list" where
  "two_counts = replicate 2 (''nsacf-update-counters'', count_req \<lparr>sn_SST = 1, sn_SD = []\<rparr> ''UE'' ''INCREMENT'')"

lemma wp_checked:
  "wp (kvPut (redis_side (checked MockKVStore)) k j) Q w =
     Q None (w\<lparr>w_store := (((fst (fst (w_store w)))(k \<mapsto> j), snd (fst (w_store w)) \<and> doc_ok 0 j), snd (w_store w))\<rparr>)"
  "wp (kvGet (redis_side (checked MockKVStore)) k dec zero) R w =
     R (case fst (fst (w_store w)) k of None \<Rightarrow> Inl (KeyNotFound k)
        | Some j \<Rightarrow> (case dec j zero of None \<Rightarrow> Inl JsonErr | Some v \<Rightarrow> Inr v)) w"
  by (auto simp: wp_def kvPut_def kvGet_def kv_get_as_def redis_side_def on_fst_def checked_def flagged_def split: option.splits)


abbreviation slice1 :: SNSSAI where "slice1 \<equiv> \<lparr>sn_SST = 1, sn_SD = []\<rparr>"

definition counters1 :: "int64 \<Rightarrow> SliceCounters" where
  "counters1 i = \<lparr>ctr_SST = 1, ctr_SD = [], ctr_CurrentUEs = i, ctr_CurrentSessions = 0\<rparr>"

definition counted :: "(((string \<rightharpoonup> json) \<times> bool) \<times> (string \<times> json) list \<times> bool) world \<Rightarrow> SliceCounters" where
  "counted w = update_counter ''UE'' ''INCREMENT'' (case fst (fst (w_store w)) (counters_key slice1) of None \<Rightarrow> zero_counters slice1
     | Some j \<Rightarrow> (case unmarshal_SliceCounters j SliceCounters_zero of None \<Rightarrow> zero_counters slice1 | Some c \<Rightarrow> c))"

lemma wrapHandler_json [simp]: "wrapHandler (json_resp 200 j) = Inr (json_resp 200 j)"
  by (simp add: wrapHandler_def json_resp_def crash_resp_def)

lemma wp_count:
  "wp (gateway_handle (checked_gateway sample_gateway) ''nsacf-update-counters'' (count_req slice1 ''UE'' ''INCREMENT'')) Q w =
     Q (Inr (json_resp 200 (marshal_SliceCounters (counted w)))) (w\<lparr>w_store := (((fst (fst (w_store w)))(counters_key slice1 \<mapsto> marshal_SliceCounters (counted w)),
        snd (fst (w_store w)) \<and> doc_ok 0 (marshal_SliceCounters (counted w))), snd (w_store w))\<rparr>)"
  by (simp add: wp gateway_handle_def serve_def routes_def gateway_over_def sample_gateway_def Let_def
     nsacf_update_counters_def count_req_decodes all_on_def wp_checked counted_def split: option.splits sum.splits)

lemma doc_ok_counters1: "doc_ok 0 (marshal_SliceCounters (counters1 i))"
  by (simp add: marshal_SliceCounters_def counters1_def enc_sint_def omitempty_def max_depth_def utf8_ok_ascii)

lemma two_counts_run:
  "wp (answers (checked_gateway sample_gateway) two_counts)
     (\<lambda>ans v. ans = map (\<lambda>i. Inr (json_resp 200 (marshal_SliceCounters (counters1 i)))) [1, 2] \<and> no_loss v) checked_init"
proof -
  have c: "update_counter ''UE'' ''INCREMENT'' (zero_counters slice1) = counters1 1"
    "update_counter ''UE'' ''INCREMENT'' (counters1 1) = counters1 2" by code_simp+
  show ?thesis
    by (simp add: two_counts_def numeral_2_eq_2 wp wp_count checked_init_def world_init_def counted_def c doc_ok_counters1 no_loss_def)
qed

theorem text_gateway_refines_witness:
  "fst (run_state (answers (text_gateway sample_gateway) two_counts) (text_world checked_init)) =
     map (\<lambda>i. Inr (json_resp 200 (marshal_SliceCounters (counters1 i)))) [1, 2]"
proof -
  have ok: "all_writable checked_init" by (simp add: all_writable_def writable_def checked_init_def world_init_def)
  obtain ans v where r: "run_state (answers (checked_gateway sample_gateway) two_counts) checked_init = (ans, v)" by fastforce
  from wpD [OF two_counts_run r] text_gateway_refines [OF ok r] show ?thesis by simp
qed

definition odd_ue :: UEContext where
  "odd_ue = UEContext_zero\<lparr>ue_SUPI := ''imsi-'' @ [quot, bsl, CHR 0x0A], ue_GUTI := [CHR ''<'', CHR 0xC3, CHR 0xA9],
     ue_PDUSessions := [''a'', []], ue_LastActivity := 1700000000123456789\<rparr>"

theorem redis_text_roundtrip_witness:
  "fst (kv_get_as (RedisText mem_redis_texts) unmarshal_UEContext UEContext_zero ''ue:1''
     (snd (kv_Put (RedisText mem_redis_texts) ''ue:1'' (marshal_UEContext odd_ue) Map.empty))) = Inr odd_ue"
proof -
  have "doc_ok 0 (marshal_UEContext odd_ue)" by code_simp
  from redis_text_roundtrip [OF this text_dec_UEContext prod.collapse [symmetric], of "''ue:1''" Map.empty UEContext_zero, THEN conjunct2, THEN conjunct2]
  show ?thesis by (simp only: UEContext_codec option.case fst_conv)
qed

end
