(* ===== verification/Spec2Isabelle.thy ===== *)
theory Spec2Isabelle
  imports Faas UeState Nas Crypto Subscriber Amf Slices Policy Charging Pfcp Smf SmfSessions Nrf Nwdaf Isolation Gateway Attach Ngap SctpProxy ProxyRuns ProxyAttach Float64 CostExporter VerifyKausf TypedStore Replicas Deployment ErrorText TextStore
begin

text \<open>
  \<^bold>\<open>serverless5gc\<close>: a verification development for a 5G core network whose network functions are OpenFaaS
  functions in Go.  The paths below are relative to the repository.

  \<^bold>\<open>The program.\<close>  Each network function is a set of stateless handlers under \<^verbatim>\<open>functions/<nf>/<operation>\<close>; a
  handler takes an HTTP request, reads and writes documents of a key-value store (\<^verbatim>\<open>pkg/state\<close>: Redis, etcd for
  the NRF, an in-memory mock in the tests), may call other handlers through the SBI client (\<^verbatim>\<open>pkg/sbi\<close>), and
  answers with a status and a JSON document.  The libraries under \<^verbatim>\<open>pkg\<close> hold the data model, the NAS codec, the
  UE state machine, the authentication and NAS security functions, and the PFCP client towards the user plane.
  \<^verbatim>\<open>cmd/testgateway\<close> puts all functions behind one HTTP server whose functions call each other through it;
  \<^verbatim>\<open>cmd/sctp-proxy\<close> is the front end towards the base stations.

  \<^bold>\<open>The theories\<close>, in the order of their imports:

  \<^item> \<open>Prelude\<close>, \<open>Encodings\<close>: Go's integers as words, strings as character lists, slice access with Go's panic as
    the value \<open>Panic\<close> of the result type \<open>res\<close>, decimal and hexadecimal text, base64, splitting, scanning.
  \<^item> \<open>Json\<close>: \<open>encoding/json\<close> on documents: decoders that fill an existing value member by member, encoders with
    \<open>omitempty\<close>, and their round trips.
  \<^item> \<open>TimeText\<close>, \<open>JsonText\<close>: the text form of documents.  Times in RFC 3339 with the calendar; UTF-8, the escaping of strings,
    and the parser of \<open>encoding/json\<close>, with its limit on the nesting.  Reading undoes writing (\<open>parse_json_text\<close>), and
    the bound on the parser's recursion is never met (\<open>parse_enough\<close>).
  \<^item> \<open>Models\<close> (\<^verbatim>\<open>pkg/models/types.go\<close>): the structs as records with their zero values, codecs and round trips.
  \<^item> \<open>KVStore\<close> (\<^verbatim>\<open>pkg/state\<close>): the interface \<open>KVStore\<close> as a record of operations; the mock, the Redis and the etcd
    store.  Locale \<open>kv_store\<close> is the contract of a store whose operations may fail, \<open>reliable_store\<close> that of one
    whose operations do not, \<open>nrf_store\<close> adds prefix queries; \<open>redis_server\<close> and \<open>etcd_server\<close> state what the two
    servers document and are sublocales of the contracts.
  \<^item> \<open>Faas\<close> (OpenFaaS template, \<^verbatim>\<open>pkg/sbi/client.go\<close>): requests, responses, query strings, the \<open>world\<close> of a function
    (store, clock readings, random draws, package variables, datagrams sent) and handlers as values of the state
    monad over it.  Weakest preconditions \<open>wp\<close> with the equations in the collection \<open>wp\<close>, and three kinds of frame
    facts with rules for every combinator: \<open>touches\<close> (keys a handler may change), \<open>keeps\<close> (invariants of the store),
    \<open>preserves\<close> (parts of the world).  \<open>CallFunction\<close> is the SBI call over a transport parameter.
  \<^item> \<open>UeState\<close> (\<^verbatim>\<open>pkg/statemachine\<close>): the RM and CM states and their transitions; \<open>ue_reachable\<close>, the machines that
    calls with any targets lead to, their invariant, and the gap that an unnamed connection state leaves in the log.
  \<^item> \<open>NasTypes\<close>, \<open>Nas\<close> (\<^verbatim>\<open>pkg/nas\<close>): constants, cause codes, timers, encoders and decoders of the NAS messages.
    No decoder panics on any input; round trips and the content of what is encoded and decoded.
  \<^item> \<open>Crypto\<close> (\<^verbatim>\<open>pkg/crypto\<close>): vector generation and key derivation over the Milenage library, which is a parameter
    (\<open>aka_documented\<close> states its output sizes); AES-CMAC and the NAS MAC over a block cipher parameter, with AES-CMAC
    equal to RFC 4493 stated over numbers of 128 bits, independently of the code's operations on bytes.
  \<^item> \<open>Subscriber\<close> (\<^verbatim>\<open>functions/udr\<close>, \<^verbatim>\<open>udm\<close>, \<^verbatim>\<open>ausf\<close>): subscriber documents, authentication vectors and sequence
    numbers, verification of RES*; the 5G-AKA run.
  \<^item> \<open>Amf\<close> (\<^verbatim>\<open>functions/amf\<close>): the six AMF functions on the UE contexts \<^verbatim>\<open>ue:{supi}\<close>; refinement of the UE state
    machine by the service request; what an attach needs and leaves.
  \<^item> \<open>Slices\<close> (\<^verbatim>\<open>functions/nssf\<close>, \<^verbatim>\<open>nsacf\<close>): slice selection and slice admission with its counters.
  \<^item> \<open>Policy\<close> (\<^verbatim>\<open>functions/pcf\<close>, \<^verbatim>\<open>bsf\<close>), \<open>Charging\<close> (\<^verbatim>\<open>functions/chf\<close>), \<open>Nwdaf\<close> (\<^verbatim>\<open>functions/nwdaf\<close>), \<open>Nrf\<close>
    (\<^verbatim>\<open>functions/nrf\<close>): their operations and round trips.
  \<^item> \<open>Pfcp\<close> (\<^verbatim>\<open>pkg/pfcp\<close>): the messages of the N4 client, \<open>net.ParseIP\<close>, sequence numbers.
  \<^item> \<open>Smf\<close>, \<open>SmfSessions\<close> (\<^verbatim>\<open>functions/smf\<close>): the address pool, session creation, update, release.  Locale \<open>smf_env\<close> is
    what the SMF relies on: a reliable store, and peers and an N4 client that leave the SMF's keys and counters
    alone.  The relation \<open>smf_reach\<close> are the worlds its operations lead to, with the invariant \<open>smf_inv\<close>.
  \<^item> \<open>Isolation\<close>: which function can change which part of the shared store.
  \<^item> \<open>Replicas\<close>: concurrent runs of the two handlers whose results depend on it, the counters of the NSACF and the allocation of
    an address, as programs of single store accesses that are proved equal to the handlers; the step relation \<open>conc\<close>.
  \<^item> \<open>Gateway\<close> (\<^verbatim>\<open>cmd/testgateway\<close>): the routing table of all 31 functions, calls between them, the invariant of the
    whole system over any sequence of requests (\<open>gw_reach\<close>), the depth of calls, the fate of admission refusals.
  \<^item> \<open>Deployment\<close> (the \<open>init()\<close> of every function, \<open>main\<close> of the test gateway, \<^verbatim>\<open>deploy/openfaas/stack.yml\<close>): the package variables
    of a process, which deployed function has the handler of the test gateway and which has not, and what that means for
    the sessions of the SMF and the counters of the NSACF.
  \<^item> \<open>StoreSim\<close>, \<open>FunctionSim\<close>, \<open>TextStore\<close>: the stores on the level of the bytes they hold.  \<open>sim\<close> relates a handler over one
    store to the handler over another, locale \<open>store_sim\<close> states what the operations of the two stores need, and there every
    function is related to itself; the gateway over Redis and etcd servers that hold texts refines the one over documents.
  \<^item> \<open>ErrorText\<close>: the bodies of errors as bytes, which the functions other than the AMF's do not escape.
  \<^item> \<open>TypedStore\<close>: the type that the readers of each key prefix expect, across the functions and the proxy; every function keeps the
    store well typed, so that no read fails on the form of a document.
  \<^item> \<open>Attach\<close>: the attach of a provisioned UE through the whole system.
  \<^item> \<open>Ngap\<close> (\<^verbatim>\<open>pkg/ngap\<close>): parsing of NGAP messages, the three messages the proxy builds, PLMN identities; the types of the
    NGAP library as records of the members that the program uses.
  \<^item> \<open>SctpProxy\<close> (\<^verbatim>\<open>cmd/sctp-proxy\<close>): the HTTP backend, the UE contexts, the handlers of all messages, the loop of a
    connection, the configuration.  \<open>'s proxy\<close> is the proxy's own state together with the \<open>world\<close> of the functions behind it.
  \<^item> \<open>ProxyRuns\<close>: the transitions \<open>ue_next\<close> of a UE, the effect of each message on its context, NAS counts, integrity
    protection, the invariant \<open>px_inv\<close> of the reachable proxies \<open>px_reach\<close>, the absence of panics over a connection.
  \<^item> \<open>ProxyAttach\<close>: the proxy in front of the gateway; the attach of a UE from the base station's messages to the core's
    UE context.
  \<^item> \<open>Float64\<close>: Go's \<open>float64\<close> as IEEE 754 binary64 on rational numbers: rounding with its error bound, the operations,
    \<open>strconv.ParseFloat\<close> and scanning with \<open>%f\<close>, the seconds of a duration.
  \<^item> \<open>CostExporter\<close> (\<^verbatim>\<open>eval/scripts/cost-exporter\<close>): queries to Prometheus, the cost model, the gauges.
  \<^item> \<open>VerifyKausf\<close> (\<^verbatim>\<open>cmd/verify-kausf\<close>): the key derivation on the SIM's side, and its agreement with the core and the proxy.

  \<^bold>\<open>Bounds.\<close>  \<open>allocateIP_loop\<close> runs on the number of attempts left, 65024 as in the code; SmfSessions shows that it finds
  an address exactly when one of the pool is free.  \<open>post\<close> in \<open>Gateway\<close> has a depth of nested calls; every depth of
  two and more gives the same result, so the depth is no restriction.  The parser of JSON
  runs on twice the length of the text, which \<open>parse_enough\<close> shows to be no restriction.  All other loops are structural recursions
  or have a termination proof.

  \<^bold>\<open>Third-party code\<close> is a parameter: the Redis and etcd clients, the Milenage and KDF library, the AES block cipher, the
  PFCP message library, the HTTP transport, the text form of \<open>float64\<close> values in the NWDAF documents, the NGAP coder, the encoder of the
  Security Mode Command and the MAC of the NAS library.  Constants of the NGAP and NAS libraries are constructors of
  datatypes, known by their names.

  \<^bold>\<open>Not modelled.\<close>  Letter case of member names (they match exactly here, while \<open>encoding/json\<close> also accepts other letter
  cases) and the wording of its errors; request and response bodies are documents, and a body that is no JSON is the absence
  of one, except in \<open>ErrorText\<close>; time zones other than UTC for the clock; the sign of a
  floating-point zero; contexts and logging; concurrent requests
  other than in \<open>Replicas\<close>: elsewhere a handler is one step of the world, although the code's read-modify-write sequences on
  the store are not atomic; likewise
  the proxy handles one message at a time, although each of its connections is a goroutine; its accept loop; the sockets
  of the PFCP client; the registration of the cost exporter's gauges and their text form.
\<close>

end
